(* ===== verification/Prelude.thy ===== *)
theory Prelude
  imports Main "HOL-Library.List_Lexorder" "HOL-Library.Char_ord" "HOL-Library.Option_ord"
    "HOL-Library.Product_Lexorder"
begin

text \<open>
  Shared vocabulary of the development. A command of the API runs inside one SQL transaction:
  it reads and writes the database state and either returns a value or throws. It is modelled
  as a state transformer with errors, \<open>('s, 'a) cmd\<close>: \<open>bindC\<close> sequences two awaited calls,
  \<open>throwC\<close> is a \<open>throw\<close>, \<open>queryC\<close> reads, \<open>catchC\<close> is a \<open>try/catch\<close> around one
  statement, and the three loops (\<open>mapC\<close>, \<open>foldC\<close>, \<open>eachC\<close>) are the source's \<open>for ... of\<close>
  loops. A table is a list of rows in primary-key order together with its AUTO_INCREMENT
  counter; \<open>insertC\<close> and \<open>updateC\<close> are INSERT and UPDATE with the constraint check of the
  storage engine.

  Two proof notions carry the component theories: \<open>wp\<close>, the weakest precondition of a command
  that succeeds (a thrown error rolls the transaction back, so nothing is claimed of the state
  then), and \<open>frames v\<close>, which says that a command leaves the view \<open>v\<close> of the state alone.
\<close>

section \<open>Errors\<close>

text \<open>
  \<open>PlatformError\<close> is the error class of \<open>apps/api/src/errors.ts\<close>; \<open>AuditUnavailableError\<close> is
  the one of the audit writer; \<open>DatabaseClientError\<close> is the one of \<open>infrastructure/database.ts\<close>, of
  which \<open>DatabaseError\<close> is what a statement rejected by the storage engine (unique key, column
  range) becomes; \<open>InternalError\<close> is a plain JavaScript \<open>Error\<close>; the last three are the classes
  of the background worker.
\<close>

datatype error_code = BAD_REQUEST | FORBIDDEN | NOT_FOUND | CONFLICT | VERSION_CONFLICT
  | FILE_QUARANTINED | INTERNAL_SERVER_ERROR | WRITER_FENCE_REJECTED | COMMAND_OUTCOME_UNKNOWN
  | COMMAND_IN_PROGRESS | IDEMPOTENCY_KEY_REUSED | ORIGIN_REJECTED | CSRF_REJECTED

datatype database_error_code = DATABASE_CLIENT_CLOSED | DATABASE_OPERATION_ABORTED
  | DATABASE_OPERATION_FAILED | DATABASE_OPERATION_TIMED_OUT
  | DATABASE_TRANSACTION_OUTCOME_UNKNOWN

datatype error = PlatformError int error_code string
  | AuditUnavailableError | DatabaseClientError database_error_code | InternalError string
  | PermanentFailure string | PermanentProviderFailure string | FencePaused

abbreviation DatabaseError :: error where
  "DatabaseError \<equiv> DatabaseClientError DATABASE_OPERATION_FAILED"

section \<open>Commands\<close>

type_synonym ('s, 'a) cmd = "'s \<Rightarrow> error + ('a \<times> 's)"

definition returnC :: "'a \<Rightarrow> ('s, 'a) cmd" where
  "returnC x = (\<lambda>s. Inr (x, s))"

definition throwC :: "error \<Rightarrow> ('s, 'a) cmd" where
  "throwC e = (\<lambda>s. Inl e)"

definition bindC :: "('s, 'a) cmd \<Rightarrow> ('a \<Rightarrow> ('s, 'b) cmd) \<Rightarrow> ('s, 'b) cmd" where
  "bindC m f = (\<lambda>s. case m s of Inl e \<Rightarrow> Inl e | Inr (x, s') \<Rightarrow> f x s')"

definition queryC :: "('s \<Rightarrow> 'a) \<Rightarrow> ('s, 'a) cmd" where
  "queryC f = (\<lambda>s. Inr (f s, s))"

definition modifyC :: "('s \<Rightarrow> 's) \<Rightarrow> ('s, unit) cmd" where
  "modifyC f = (\<lambda>s. Inr ((), f s))"

definition catchC :: "('s, 'a) cmd \<Rightarrow> (error \<Rightarrow> ('s, 'a) cmd) \<Rightarrow> ('s, 'a) cmd" where
  "catchC m h = (\<lambda>s. case m s of Inl e \<Rightarrow> h e s | Inr r \<Rightarrow> Inr r)"

definition whenC :: "bool \<Rightarrow> ('s, unit) cmd \<Rightarrow> ('s, unit) cmd" where
  "whenC b m = (if b then m else returnC ())"

text \<open>\<open>guardC b e\<close> is \<open>if (!b) throw e\<close>.\<close>

definition guardC :: "bool \<Rightarrow> error \<Rightarrow> ('s, unit) cmd" where
  "guardC b e = (if b then returnC () else throwC e)"

text \<open>\<open>requireC x e\<close> is \<open>if (x === undefined) throw e\<close>, with the value in scope afterwards.\<close>

definition requireC :: "'a option \<Rightarrow> error \<Rightarrow> ('s, 'a) cmd" where
  "requireC x e = (case x of None \<Rightarrow> throwC e | Some v \<Rightarrow> returnC v)"

primrec mapC :: "('x \<Rightarrow> ('s, 'a) cmd) \<Rightarrow> 'x list \<Rightarrow> ('s, 'a list) cmd" where
  "mapC f [] = returnC []"
| "mapC f (x # xs) = bindC (f x) (\<lambda>y. bindC (mapC f xs) (\<lambda>ys. returnC (y # ys)))"

primrec foldC :: "('a \<Rightarrow> 'x \<Rightarrow> ('s, 'a) cmd) \<Rightarrow> 'a \<Rightarrow> 'x list \<Rightarrow> ('s, 'a) cmd" where
  "foldC f a [] = returnC a"
| "foldC f a (x # xs) = bindC (f a x) (\<lambda>a'. foldC f a' xs)"

primrec eachC :: "('x \<Rightarrow> ('s, unit) cmd) \<Rightarrow> 'x list \<Rightarrow> ('s, unit) cmd" where
  "eachC f [] = returnC ()"
| "eachC f (x # xs) = bindC (f x) (\<lambda>_. eachC f xs)"

section \<open>Proof collections\<close>

named_theorems wp_simps \<open>weakest preconditions of commands\<close>
named_theorems wp_intros \<open>weakest preconditions as introduction rules, one per command\<close>
named_theorems frame_rules \<open>commands that leave a view of the state alone\<close>
named_theorems run_simps \<open>evaluation of a command on a state\<close>

lemma run_return [run_simps]: "returnC x s = Inr (x, s)"
  by (simp add: returnC_def)

lemma run_throw [run_simps]: "throwC e s = Inl e"
  by (simp add: throwC_def)

lemma run_query [run_simps]: "queryC f s = Inr (f s, s)"
  by (simp add: queryC_def)

lemma run_modify [run_simps]: "modifyC f s = Inr ((), f s)"
  by (simp add: modifyC_def)

lemma run_bind_Inr: "bindC m f s = Inr r \<longleftrightarrow> (\<exists>x s'. m s = Inr (x, s') \<and> f x s' = Inr r)"
  by (auto simp: bindC_def split: sum.splits)

lemma run_bind_Inl:
  "bindC m f s = Inl e \<longleftrightarrow> m s = Inl e \<or> (\<exists>x s'. m s = Inr (x, s') \<and> f x s' = Inl e)"
  by (auto simp: bindC_def split: sum.splits)

lemma run_bind_ok: "m s = Inr (x, s') \<Longrightarrow> bindC m f s = f x s'"
  by (simp add: bindC_def)

lemma run_bind_err: "m s = Inl e \<Longrightarrow> bindC m f s = Inl e"
  by (simp add: bindC_def)

lemma bind_assoc: "bindC (bindC m f) g = bindC m (\<lambda>x. bindC (f x) g)"
  by (auto simp: bindC_def fun_eq_iff split: sum.splits)

lemma bind_return_left: "bindC (returnC x) f = f x"
  by (simp add: bindC_def returnC_def)

section \<open>Weakest preconditions\<close>

definition wp :: "('s, 'a) cmd \<Rightarrow> ('a \<Rightarrow> 's \<Rightarrow> bool) \<Rightarrow> 's \<Rightarrow> bool" where
  "wp m Q s = (case m s of Inl _ \<Rightarrow> True | Inr (x, s') \<Rightarrow> Q x s')"

lemma wpD: "wp m Q s \<Longrightarrow> m s = Inr (x, s') \<Longrightarrow> Q x s'"
  by (simp add: wp_def)

lemma wpI: "(\<And>x s'. m s = Inr (x, s') \<Longrightarrow> Q x s') \<Longrightarrow> wp m Q s"
  by (auto simp: wp_def split: sum.splits)

lemma wp_mono: "wp m P s \<Longrightarrow> (\<And>x s'. P x s' \<Longrightarrow> Q x s') \<Longrightarrow> wp m Q s"
  by (auto simp: wp_def split: sum.splits)

lemma wp_conj: "wp m (\<lambda>x s'. P x s' \<and> Q x s') s \<longleftrightarrow> wp m P s \<and> wp m Q s"
  by (auto simp: wp_def split: sum.splits)

lemma wp_return [wp_simps]: "wp (returnC x) Q s = Q x s"
  by (simp add: wp_def returnC_def)

lemma wp_throw [wp_simps]: "wp (throwC e) Q s"
  by (simp add: wp_def throwC_def)

lemma wp_query [wp_simps]: "wp (queryC f) Q s = Q (f s) s"
  by (simp add: wp_def queryC_def)

lemma wp_modify [wp_simps]: "wp (modifyC f) Q s = Q () (f s)"
  by (simp add: wp_def modifyC_def)

lemma wp_bind [wp_simps]: "wp (bindC m f) Q s = wp m (\<lambda>x. wp (f x) Q) s"
  by (auto simp: wp_def bindC_def split: sum.splits)

lemma wp_guard [wp_simps]: "wp (guardC b e) Q s = (b \<longrightarrow> Q () s)"
  by (simp add: wp_def guardC_def returnC_def throwC_def)

lemma wp_when [wp_simps]: "wp (whenC b m) Q s = (if b then wp m Q s else Q () s)"
  by (simp add: whenC_def wp_return)

lemma wp_require [wp_simps]: "wp (requireC x e) Q s = (\<forall>v. x = Some v \<longrightarrow> Q v s)"
  by (cases x) (simp_all add: wp_def requireC_def returnC_def throwC_def)

lemma wp_if [wp_simps]: "wp (if b then m else n) Q s = ((b \<longrightarrow> wp m Q s) \<and> (\<not> b \<longrightarrow> wp n Q s))"
  by simp

lemma wp_catch [wp_simps]:
  "wp (catchC m h) Q s = (wp m Q s \<and> (\<forall>e. m s = Inl e \<longrightarrow> wp (h e) Q s))"
  by (auto simp: wp_def catchC_def split: sum.splits)

lemma run_guard_Inr: "guardC b e s = Inr r \<longleftrightarrow> b \<and> r = ((), s)"
  by (auto simp: guardC_def returnC_def throwC_def)

lemma run_require_Inr: "requireC x e s = Inr r \<longleftrightarrow> (\<exists>v. x = Some v \<and> r = (v, s))"
  by (cases x) (auto simp: requireC_def returnC_def throwC_def)

lemma run_when_Inr: "whenC b m s = Inr r \<longleftrightarrow> (if b then m s = Inr r else r = ((), s))"
  by (auto simp: whenC_def returnC_def)

lemma run_guard [run_simps]: "guardC b e s = (if b then Inr ((), s) else Inl e)"
  by (simp add: guardC_def returnC_def throwC_def)

lemma run_require [run_simps]:
  "requireC x e s = (case x of None \<Rightarrow> Inl e | Some v \<Rightarrow> Inr (v, s))"
  by (cases x) (simp_all add: requireC_def returnC_def throwC_def)

text \<open>An invariant of the loop body is an invariant of the loop.\<close>

lemma wp_eachI:
  assumes "I s" and "\<And>x s. x \<in> set xs \<Longrightarrow> I s \<Longrightarrow> wp (f x) (\<lambda>_. I) s"
  shows "wp (eachC f xs) (\<lambda>_. I) s"
  using assms
proof (induction xs arbitrary: s)
  case Nil
  then show ?case by (simp add: wp_return)
next
  case (Cons x xs)
  have "wp (f x) (\<lambda>_. I) s" using Cons.prems by simp
  then have "wp (f x) (\<lambda>_. wp (eachC f xs) (\<lambda>_. I)) s"
    by (rule wp_mono) (use Cons in auto)
  then show ?case by (simp add: wp_bind)
qed

lemma wp_foldI:
  assumes "I a s" and "\<And>a x s. x \<in> set xs \<Longrightarrow> I a s \<Longrightarrow> wp (f a x) I s"
  shows "wp (foldC f a xs) I s"
  using assms
proof (induction xs arbitrary: a s)
  case Nil
  then show ?case by (simp add: wp_return)
next
  case (Cons x xs)
  have "wp (f a x) I s" using Cons.prems by simp
  then have "wp (f a x) (\<lambda>a'. wp (foldC f a' xs) I) s"
    by (rule wp_mono) (use Cons in auto)
  then show ?case by (simp add: wp_bind)
qed

text \<open>
  The same rules as introduction rules: \<open>intro wp_intros\<close> walks through a handler and leaves the
  postcondition at the end of each path, with the conditions of the path as assumptions.
\<close>

lemma wp_bindI [wp_intros]: "wp m (\<lambda>x. wp (f x) Q) s \<Longrightarrow> wp (bindC m f) Q s"
  by (simp add: wp_bind)

lemma wp_returnI [wp_intros]: "Q x s \<Longrightarrow> wp (returnC x) Q s"
  by (simp add: wp_return)

lemma wp_throwI [wp_intros]: "wp (throwC e) Q s"
  by (simp add: wp_throw)

lemma wp_queryI [wp_intros]: "Q (f s) s \<Longrightarrow> wp (queryC f) Q s"
  by (simp add: wp_query)

lemma wp_modifyI [wp_intros]: "Q () (f s) \<Longrightarrow> wp (modifyC f) Q s"
  by (simp add: wp_modify)

lemma wp_guardI [wp_intros]: "(b \<Longrightarrow> Q () s) \<Longrightarrow> wp (guardC b e) Q s"
  by (simp add: wp_guard)

lemma wp_whenI [wp_intros]: "(b \<Longrightarrow> wp m Q s) \<Longrightarrow> (\<not> b \<Longrightarrow> Q () s) \<Longrightarrow> wp (whenC b m) Q s"
  by (simp add: wp_when)

lemma wp_requireI [wp_intros]: "(\<And>v. x = Some v \<Longrightarrow> Q v s) \<Longrightarrow> wp (requireC x e) Q s"
  by (simp add: wp_require)

lemma wp_ifI [wp_intros]: "(b \<Longrightarrow> wp m Q s) \<Longrightarrow> (\<not> b \<Longrightarrow> wp n Q s) \<Longrightarrow> wp (if b then m else n) Q s"
  by simp

lemma wp_prodI [wp_intros]: "(\<And>a b. p = (a, b) \<Longrightarrow> wp (f a b) Q s) \<Longrightarrow> wp (case p of (a, b) \<Rightarrow> f a b) Q s"
  by (simp split: prod.split)

lemma wp_optionI [wp_intros]:
  "(x = None \<Longrightarrow> wp m Q s) \<Longrightarrow> (\<And>y. x = Some y \<Longrightarrow> wp (f y) Q s) \<Longrightarrow>
    wp (case x of None \<Rightarrow> m | Some y \<Rightarrow> f y) Q s"
  by (simp split: option.split)

lemma wp_listI [wp_intros]:
  "(x = [] \<Longrightarrow> wp m Q s) \<Longrightarrow> (\<And>y ys. x = y # ys \<Longrightarrow> wp (f y ys) Q s) \<Longrightarrow>
    wp (case x of [] \<Rightarrow> m | y # ys \<Rightarrow> f y ys) Q s"
  by (simp split: list.split)

lemma wp_letI [wp_intros]: "wp (f t) Q s \<Longrightarrow> wp (let x = t in f x) Q s"
  by simp

text \<open>A loop establishes for every element what its body establishes once and for all.\<close>

text \<open>A loop of checks that leave the state alone returns results that all passed the check.\<close>

lemma wp_mapI:
  assumes "\<And>x. wp (f x) (\<lambda>y s'. s' = s \<and> P y) s" and "\<And>ys. \<forall>y \<in> set ys. P y \<Longrightarrow> Q ys s"
  shows "wp (mapC f xs) Q s"
proof -
  have "wp (mapC f xs) (\<lambda>ys s'. s' = s \<and> (\<forall>y \<in> set ys. P y)) s"
  proof (induction xs)
    case Nil
    then show ?case by (simp add: wp_return)
  next
    case (Cons x xs)
    show ?case
      unfolding mapC.simps
      by (rule wp_bindI, rule wp_mono [OF assms(1)], elim conjE, hypsubst, rule wp_bindI, rule wp_mono [OF Cons.IH])
        (simp add: wp_return)
  qed
  then show ?thesis by (rule wp_mono) (use assms(2) in blast)
qed

lemma wp_each_all:
  assumes "\<And>x s. x \<in> set xs \<Longrightarrow> I s \<Longrightarrow> wp (f x) (\<lambda>_ s'. I s' \<and> P x s' \<and> (\<forall>y. P y s \<longrightarrow> P y s')) s" and "I s"
  shows "wp (eachC f xs) (\<lambda>_ s'. I s' \<and> (\<forall>x \<in> set xs. P x s')) s"
proof -
  have "wp (eachC f xs) (\<lambda>_ s'. I s' \<and> (\<forall>x \<in> set xs. P x s') \<and> (\<forall>y. P y s \<longrightarrow> P y s')) s"
    using assms
  proof (induction xs arbitrary: s)
    case Nil
    then show ?case by (simp add: wp_return)
  next
    case (Cons x xs)
    have first: "wp (f x) (\<lambda>_ s'. I s' \<and> P x s' \<and> (\<forall>y. P y s \<longrightarrow> P y s')) s" using Cons.prems by simp
    have rest: "wp (eachC f xs) (\<lambda>_ s'. I s' \<and> (\<forall>x \<in> set xs. P x s') \<and> (\<forall>y. P y s1 \<longrightarrow> P y s')) s1"
      if "I s1" for s1 using Cons.prems that by (intro Cons.IH) simp_all
    show ?case
      unfolding eachC.simps
      by (rule wp_bindI, rule wp_mono [OF first], rule wp_mono [OF rest]) auto
  qed
  then show ?thesis by (rule wp_mono) simp
qed

section \<open>Frames\<close>

definition frames :: "('s \<Rightarrow> 'v) \<Rightarrow> ('s, 'a) cmd \<Rightarrow> bool" where
  "frames v m \<longleftrightarrow> (\<forall>s x s'. m s = Inr (x, s') \<longrightarrow> v s' = v s)"

lemma framesD: "frames v m \<Longrightarrow> m s = Inr (x, s') \<Longrightarrow> v s' = v s"
  by (auto simp: frames_def)

lemma frames_wp: "frames v m \<Longrightarrow> wp m (\<lambda>_ s'. v s' = v s) s"
  by (rule wpI) (rule framesD)

lemma frames_wp_inv: "frames v m \<Longrightarrow> I (v s) \<Longrightarrow> wp m (\<lambda>_ s'. I (v s')) s"
  by (rule wpI) (drule (1) framesD, simp)

lemma frames_return [frame_rules]: "frames v (returnC x)"
  by (simp add: frames_def returnC_def)

lemma frames_throw [frame_rules]: "frames v (throwC e)"
  by (simp add: frames_def throwC_def)

lemma frames_query [frame_rules]: "frames v (queryC f)"
  by (simp add: frames_def queryC_def)

lemma frames_guard [frame_rules]: "frames v (guardC b e)"
  by (simp add: frames_def guardC_def returnC_def throwC_def)

lemma frames_require [frame_rules]: "frames v (requireC x e)"
  by (cases x) (simp_all add: frames_def requireC_def returnC_def throwC_def)

lemma frames_modify: "(\<And>s. v (f s) = v s) \<Longrightarrow> frames v (modifyC f)"
  by (simp add: frames_def modifyC_def)

lemma frames_bind [frame_rules]:
  assumes "frames v m" and "\<And>x. frames v (f x)"
  shows "frames v (bindC m f)"
proof (unfold frames_def, intro allI impI)
  fix s x s'
  assume "bindC m f s = Inr (x, s')"
  then obtain y s1 where m: "m s = Inr (y, s1)" and f: "f y s1 = Inr (x, s')"
    by (auto simp: run_bind_Inr)
  have "v s' = v s1" by (rule framesD [OF assms(2) f])
  also have "v s1 = v s" by (rule framesD [OF assms(1) m])
  finally show "v s' = v s" .
qed

lemma frames_when [frame_rules]: "(b \<Longrightarrow> frames v m) \<Longrightarrow> frames v (whenC b m)"
  by (simp add: whenC_def frames_return)

lemma frames_if [frame_rules]:
  "(b \<Longrightarrow> frames v m) \<Longrightarrow> (\<not> b \<Longrightarrow> frames v n) \<Longrightarrow> frames v (if b then m else n)"
  by simp

lemma frames_option_case [frame_rules]:
  "frames v m \<Longrightarrow> (\<And>y. frames v (f y)) \<Longrightarrow> frames v (case x of None \<Rightarrow> m | Some y \<Rightarrow> f y)"
  by (simp split: option.split)

lemma frames_prod_case [frame_rules]:
  "(\<And>a b. frames v (f a b)) \<Longrightarrow> frames v (case p of (a, b) \<Rightarrow> f a b)"
  by (simp split: prod.split)

lemma frames_list_case [frame_rules]:
  "frames v m \<Longrightarrow> (\<And>y ys. frames v (f y ys)) \<Longrightarrow> frames v (case x of [] \<Rightarrow> m | y # ys \<Rightarrow> f y ys)"
  by (cases x) simp_all

lemma frames_let [frame_rules]: "(\<And>x. frames v (f x)) \<Longrightarrow> frames v (let x = t in f x)"
  by simp

lemma frames_catch [frame_rules]:
  assumes "frames v m" and "\<And>e. frames v (h e)"
  shows "frames v (catchC m h)"
proof (unfold frames_def, intro allI impI)
  fix s x s'
  assume r: "catchC m h s = Inr (x, s')"
  show "v s' = v s"
  proof (cases "m s")
    case (Inl e)
    with r have "h e s = Inr (x, s')" by (simp add: catchC_def)
    then show ?thesis by (rule framesD [OF assms(2)])
  next
    case (Inr p)
    with r have "m s = Inr (x, s')" by (simp add: catchC_def)
    then show ?thesis by (rule framesD [OF assms(1)])
  qed
qed

lemma frames_map [frame_rules]: "(\<And>x. frames v (f x)) \<Longrightarrow> frames v (mapC f xs)"
  by (induction xs) (auto intro!: frame_rules)

lemma frames_each [frame_rules]: "(\<And>x. frames v (f x)) \<Longrightarrow> frames v (eachC f xs)"
  by (induction xs) (auto intro!: frame_rules)

lemma frames_fold [frame_rules]: "(\<And>a x. frames v (f a x)) \<Longrightarrow> frames v (foldC f a xs)"
  by (induction xs arbitrary: a) (auto intro!: frame_rules)

section \<open>Tables\<close>

record 'r tbl =
  rows :: "(int \<times> 'r) list"
  nxt :: int

definition emptyT :: "'r tbl" where
  "emptyT = \<lparr>rows = [], nxt = 1\<rparr>"

text \<open>\<open>fetch\<close> is \<open>WHERE id = ? LIMIT 1\<close>, \<open>select\<close> is \<open>WHERE p ORDER BY id\<close>.\<close>

definition fetch :: "'r tbl \<Rightarrow> int \<Rightarrow> 'r option" where
  "fetch t i = map_of (rows t) i"

definition select :: "'r tbl \<Rightarrow> (int \<Rightarrow> 'r \<Rightarrow> bool) \<Rightarrow> (int \<times> 'r) list" where
  "select t p = filter (\<lambda>(i, r). p i r) (rows t)"

definition insertT :: "'r \<Rightarrow> 'r tbl \<Rightarrow> 'r tbl" where
  "insertT r t = \<lparr>rows = rows t @ [(nxt t, r)], nxt = nxt t + 1\<rparr>"

definition updateT :: "(int \<Rightarrow> 'r \<Rightarrow> bool) \<Rightarrow> ('r \<Rightarrow> 'r) \<Rightarrow> 'r tbl \<Rightarrow> 'r tbl" where
  "updateT p f t = t\<lparr>rows := map (\<lambda>(i, r). (i, if p i r then f r else r)) (rows t)\<rparr>"

definition matched :: "'r tbl \<Rightarrow> (int \<Rightarrow> 'r \<Rightarrow> bool) \<Rightarrow> int" where
  "matched t p = int (length (select t p))"

definition wf_tbl :: "'r tbl \<Rightarrow> bool" where
  "wf_tbl t \<longleftrightarrow> distinct (map fst (rows t)) \<and> (\<forall>i \<in> fst ` set (rows t). 0 < i \<and> i < nxt t) \<and> 0 < nxt t"

definition sumT :: "('r \<Rightarrow> int) \<Rightarrow> 'r tbl \<Rightarrow> int" where
  "sumT f t = sum_list (map (\<lambda>(i, r). f r) (rows t))"

lemma fetch_insertT:
  assumes "wf_tbl t"
  shows "fetch (insertT r t) i = (if i = nxt t then Some r else fetch t i)"
proof -
  have "map_of (rows t) (nxt t) = None"
    using assms by (auto simp: wf_tbl_def map_of_eq_None_iff)
  then show ?thesis
    by (auto simp: fetch_def insertT_def map_add_def split: option.split)
qed

lemma wf_insertT [simp]: "wf_tbl t \<Longrightarrow> wf_tbl (insertT r t)"
  by (fastforce simp: wf_tbl_def insertT_def)

lemma insertT_inject [simp]: "insertT q t = insertT r t \<longleftrightarrow> q = r"
  by (auto simp: insertT_def)

lemma nxt_updateT [simp]: "nxt (updateT p f t) = nxt t"
  by (simp add: updateT_def)

lemma keys_updateT [simp]: "map fst (rows (updateT p f t)) = map fst (rows t)"
  by (simp add: updateT_def case_prod_beta comp_def)

lemma wf_updateT [simp]: "wf_tbl (updateT p f t) = wf_tbl t"
proof -
  have "fst ` set (rows (updateT p f t)) = fst ` set (rows t)"
    using keys_updateT [of p f t] by (metis set_map)
  then show ?thesis by (simp add: wf_tbl_def)
qed

lemma map_of_map_key:
  "map_of (map (\<lambda>(i, r). (i, g i r)) xs) k = map_option (g k) (map_of xs k)"
  by (induction xs) auto

lemma fetch_updateT: "fetch (updateT p f t) i = map_option (\<lambda>r. if p i r then f r else r) (fetch t i)"
  by (simp add: fetch_def updateT_def map_of_map_key [of "\<lambda>i r. if p i r then f r else r"])

lemma fetch_rows: "wf_tbl t \<Longrightarrow> fetch t i = Some r \<longleftrightarrow> (i, r) \<in> set (rows t)"
  by (simp add: fetch_def wf_tbl_def)

lemma fetch_in_rows: "fetch t i = Some r \<Longrightarrow> (i, r) \<in> set (rows t)"
  by (simp add: fetch_def map_of_SomeD)

lemma fetch_pos: "wf_tbl t \<Longrightarrow> fetch t i = Some r \<Longrightarrow> 0 < i \<and> i < nxt t"
  by (auto dest!: fetch_in_rows simp: wf_tbl_def)

lemma sumT_insertT [simp]: "sumT g (insertT r t) = sumT g t + g r"
  by (simp add: sumT_def insertT_def)

lemma sum_list_update_key:
  fixes g :: "'r \<Rightarrow> int"
  assumes "distinct (map fst xs)"
  shows "sum_list (map (\<lambda>(j, r). g (if j = i \<and> c r then f r else r)) xs) =
    sum_list (map (\<lambda>(j, r). g r) xs) +
      (case map_of xs i of None \<Rightarrow> 0 | Some r \<Rightarrow> if c r then g (f r) - g r else 0)"
  using assms
proof (induction xs)
  case Nil
  then show ?case by simp
next
  case (Cons x xs)
  obtain j r where x: "x = (j, r)" by (cases x)
  have other: "sum_list (map (\<lambda>(j, r). g (if j = i \<and> c r then f r else r)) xs) =
      sum_list (map (\<lambda>(j, r). g r) xs)" if "map_of xs i = None"
    using Cons that by simp
  show ?case
  proof (cases "j = i")
    case True
    then have "map_of xs i = None"
      using Cons.prems by (auto simp: x map_of_eq_None_iff)
    with True other show ?thesis by (simp add: x)
  next
    case False
    with Cons show ?thesis by (simp add: x)
  qed
qed

text \<open>Updating one row changes a column sum by the change of that row.\<close>

lemma sumT_update_key:
  assumes "wf_tbl t"
  shows "sumT g (updateT (\<lambda>j r. j = i \<and> c r) f t) = sumT g t +
    (case fetch t i of None \<Rightarrow> 0 | Some r \<Rightarrow> if c r then g (f r) - g r else 0)"
proof -
  have d: "distinct (map fst (rows t))" using assms by (simp add: wf_tbl_def)
  have "sumT g (updateT (\<lambda>j r. j = i \<and> c r) f t) =
      sum_list (map (\<lambda>(j, r). g (if j = i \<and> c r then f r else r)) (rows t))"
    by (simp add: sumT_def updateT_def comp_def split_def)
  then show ?thesis
    by (simp add: sum_list_update_key [OF d] fetch_def sumT_def)
qed

lemma sumT_update_same: "(\<And>i r. p i r \<Longrightarrow> g (f r) = g r) \<Longrightarrow> sumT g (updateT p f t) = sumT g t"
proof -
  assume "\<And>i r. p i r \<Longrightarrow> g (f r) = g r"
  then have "(\<lambda>(j, r). g (if p j r then f r else r)) = (\<lambda>(j, r). g r)"
    by (auto simp: fun_eq_iff)
  then show ?thesis
    by (simp add: sumT_def updateT_def comp_def split_def)
qed

lemma select_key:
  assumes "distinct (map fst xs)"
  shows "filter (\<lambda>(j, r). j = i \<and> c r) xs =
    (case map_of xs i of None \<Rightarrow> [] | Some r \<Rightarrow> if c r then [(i, r)] else [])"
  using assms
proof (induction xs)
  case Nil
  then show ?case by simp
next
  case (Cons x xs)
  obtain j r where x: "x = (j, r)" by (cases x)
  show ?case
  proof (cases "j = i")
    case True
    then have "map_of xs i = None"
      using Cons.prems by (auto simp: x map_of_eq_None_iff)
    with True Cons show ?thesis by (simp add: x)
  next
    case False
    with Cons show ?thesis by (simp add: x)
  qed
qed

lemma matched_key:
  assumes "wf_tbl t"
  shows "matched t (\<lambda>j r. j = i \<and> c r) =
    (case fetch t i of None \<Rightarrow> 0 | Some r \<Rightarrow> if c r then 1 else 0)"
proof -
  have d: "distinct (map fst (rows t))" using assms by (simp add: wf_tbl_def)
  show ?thesis
    using select_key [OF d, of i c]
    by (simp add: matched_def select_def fetch_def split: option.split)
qed

lemma matched_one: "wf_tbl t \<Longrightarrow> matched t (\<lambda>j r. j = i \<and> c r) = 1 \<longleftrightarrow> (\<exists>r. fetch t i = Some r \<and> c r)"
  by (auto simp: matched_key split: option.split)

lemma updateT_cong: "(\<And>i r. (i, r) \<in> set (rows t) \<Longrightarrow> p i r \<longleftrightarrow> p' i r) \<Longrightarrow> updateT p f t = updateT p' f t"
proof -
  assume "\<And>i r. (i, r) \<in> set (rows t) \<Longrightarrow> p i r \<longleftrightarrow> p' i r"
  then have "map (\<lambda>(i, r). (i, if p i r then f r else r)) (rows t) = map (\<lambda>(i, r). (i, if p' i r then f r else r)) (rows t)"
    by (intro map_cong) auto
  then show ?thesis by (simp add: updateT_def)
qed

lemma updateT_none: "(\<And>i r. (i, r) \<in> set (rows t) \<Longrightarrow> \<not> p i r) \<Longrightarrow> updateT p f t = t"
proof -
  assume "\<And>i r. (i, r) \<in> set (rows t) \<Longrightarrow> \<not> p i r"
  then have "map (\<lambda>(i, r). (i, if p i r then f r else r)) (rows t) = rows t"
    by (intro map_idI) auto
  then show ?thesis by (simp add: updateT_def)
qed

lemma select_rows: "(i, r) \<in> set (select t p) \<longleftrightarrow> (i, r) \<in> set (rows t) \<and> p i r"
  by (auto simp: select_def)

lemma matched_pos: "0 < matched t p \<longleftrightarrow> (\<exists>(i, r) \<in> set (rows t). p i r)"
  by (auto simp: matched_def select_def filter_empty_conv)

lemma wf_emptyT [simp]: "wf_tbl emptyT"
  by (simp add: wf_tbl_def emptyT_def)

lemma nxt_emptyT [simp]: "nxt emptyT = 1"
  by (simp add: emptyT_def)

lemma nxt_insertT [simp]: "nxt (insertT r t) = nxt t + 1"
  by (simp add: insertT_def)

section \<open>INSERT and UPDATE\<close>

text \<open>
  \<open>insertC\<close> returns the new primary key (\<open>insertId\<close>), \<open>updateC\<close> the number of matched rows
  (\<open>affectedRows\<close>). \<open>ok t self r\<close> is the constraint check of row \<open>r\<close> against table \<open>t\<close>,
  where \<open>self\<close> is the key of the row being replaced.
\<close>

definition insertC :: "('s \<Rightarrow> 'r tbl) \<Rightarrow> (('r tbl \<Rightarrow> 'r tbl) \<Rightarrow> 's \<Rightarrow> 's) \<Rightarrow>
    ('r tbl \<Rightarrow> int option \<Rightarrow> 'r \<Rightarrow> bool) \<Rightarrow> 'r \<Rightarrow> ('s, int) cmd" where
  "insertC get upd ok r = (\<lambda>s. if ok (get s) None r
     then Inr (nxt (get s), upd (insertT r) s) else Inl DatabaseError)"

definition updateC :: "('s \<Rightarrow> 'r tbl) \<Rightarrow> (('r tbl \<Rightarrow> 'r tbl) \<Rightarrow> 's \<Rightarrow> 's) \<Rightarrow>
    ('r tbl \<Rightarrow> int option \<Rightarrow> 'r \<Rightarrow> bool) \<Rightarrow> (int \<Rightarrow> 'r \<Rightarrow> bool) \<Rightarrow> ('r \<Rightarrow> 'r) \<Rightarrow> ('s, int) cmd" where
  "updateC get upd ok p f = (\<lambda>s. if list_all (\<lambda>(i, r). ok (get s) (Some i) (f r)) (select (get s) p)
     then Inr (matched (get s) p, upd (updateT p f) s) else Inl DatabaseError)"

lemma wp_insert [wp_simps]:
  "wp (insertC get upd ok r) Q s = (ok (get s) None r \<longrightarrow> Q (nxt (get s)) (upd (insertT r) s))"
  by (simp add: wp_def insertC_def)

lemma wp_update [wp_simps]:
  "wp (updateC get upd ok p f) Q s =
    (list_all (\<lambda>(i, r). ok (get s) (Some i) (f r)) (select (get s) p) \<longrightarrow>
      Q (matched (get s) p) (upd (updateT p f) s))"
  by (simp add: wp_def updateC_def)

lemma wp_insertI [wp_intros]: "(ok (get s) None r \<Longrightarrow> Q (nxt (get s)) (upd (insertT r) s)) \<Longrightarrow>
    wp (insertC get upd ok r) Q s"
  by (simp add: wp_insert)

lemma wp_updateI [wp_intros]:
  "(list_all (\<lambda>(i, r). ok (get s) (Some i) (f r)) (select (get s) p) \<Longrightarrow>
      Q (matched (get s) p) (upd (updateT p f) s)) \<Longrightarrow> wp (updateC get upd ok p f) Q s"
  by (simp add: wp_update)

lemma frames_insert: "(\<And>f s. v (upd f s) = v s) \<Longrightarrow> frames v (insertC get upd ok r)"
  by (simp add: frames_def insertC_def)

lemma frames_update: "(\<And>f s. v (upd f s) = v s) \<Longrightarrow> frames v (updateC get upd ok p f)"
  by (simp add: frames_def updateC_def)

text \<open>
  The interface of one table of the state: writing it changes it and nothing it does not know
  about. The lemmas are the laws of keyed storage on which the components rest.
\<close>

locale store_table =
  fixes get :: "'s \<Rightarrow> 'r tbl"
    and upd :: "('r tbl \<Rightarrow> 'r tbl) \<Rightarrow> 's \<Rightarrow> 's"
  assumes get_upd: "get (upd f s) = f (get s)"
begin

lemma insert_fetch:
  assumes "wf_tbl (get s)" and "insertC get upd ok r s = Inr (i, s')"
  shows "fetch (get s') i = Some r" and "fetch (get s) i = None"
    and "j \<noteq> i \<Longrightarrow> fetch (get s') j = fetch (get s) j" and "wf_tbl (get s')"
proof -
  from assms(2) have i: "i = nxt (get s)" and s': "get s' = insertT r (get s)"
    by (auto simp: insertC_def get_upd split: if_splits)
  show "fetch (get s') i = Some r" "j \<noteq> i \<Longrightarrow> fetch (get s') j = fetch (get s) j" "wf_tbl (get s')"
    using assms(1) by (simp_all add: s' i fetch_insertT)
  show "fetch (get s) i = None"
    using fetch_pos [OF assms(1), of i] by (cases "fetch (get s) i") (auto simp: i)
qed

lemma update_key:
  assumes "wf_tbl (get s)" and "updateC get upd ok (\<lambda>j r. j = i \<and> c r) f s = Inr (n, s')" and "n = 1"
  shows "\<exists>r. fetch (get s) i = Some r \<and> c r \<and> fetch (get s') i = Some (f r)"
    and "j \<noteq> i \<Longrightarrow> fetch (get s') j = fetch (get s) j" and "wf_tbl (get s')"
proof -
  from assms(2) have n: "n = matched (get s) (\<lambda>j r. j = i \<and> c r)"
    and s': "get s' = updateT (\<lambda>j r. j = i \<and> c r) f (get s)"
    by (auto simp: updateC_def get_upd split: if_splits)
  from n assms(3) obtain r where "fetch (get s) i = Some r" and "c r"
    by (auto simp: matched_key [OF assms(1)] split: option.splits if_splits)
  then show "\<exists>r. fetch (get s) i = Some r \<and> c r \<and> fetch (get s') i = Some (f r)"
    by (simp add: s' fetch_updateT)
  show "j \<noteq> i \<Longrightarrow> fetch (get s') j = fetch (get s) j"
    by (cases "fetch (get s) j") (simp_all add: s' fetch_updateT)
  show "wf_tbl (get s')" using assms(1) by (simp add: s')
qed

lemma insert_sum:
  "insertC get upd ok r s = Inr (i, s') \<Longrightarrow> sumT g (get s') = sumT g (get s) + g r"
  by (auto simp: insertC_def get_upd split: if_splits)

lemma update_key_sum:
  assumes "wf_tbl (get s)" and "fetch (get s) i = Some r" and "c r"
    and "updateC get upd ok (\<lambda>j r. j = i \<and> c r) f s = Inr (n, s')"
  shows "sumT g (get s') = sumT g (get s) + g (f r) - g r"
proof -
  from assms(4) have "get s' = updateT (\<lambda>j r. j = i \<and> c r) f (get s)"
    by (auto simp: updateC_def get_upd split: if_splits)
  then show ?thesis
    using assms(2,3) by (simp add: sumT_update_key [OF assms(1)])
qed

end

end
