(* ===== verification/Js.thy ===== *)
theory Js
  imports Prelude Complex_Main "HOL-Library.Log_Nat" "HOL-Library.Code_Target_Nat"
begin

text \<open>
  The part of JavaScript the handlers rely on: JSON values, the conversion \<open>Number(v)\<close>,
  \<open>String.prototype.trim\<close>, decimal rendering, \<open>Math.round\<close> on ratios, and \<open>JSON.stringify\<close>
  of strings and numbers. A number is the rational value of its IEEE double; a missing property
  (\<open>undefined\<close>) is \<^term>\<open>None\<close>; \<open>NaN\<close> and the infinities, which JSON cannot carry, are
  \<^term>\<open>None\<close> in the result of a conversion. Strings are lists of 8-bit code units.
\<close>

section \<open>Values\<close>

datatype json = JNull | JBool bool | JNum rat | JStr string | JArr "json list"
  | JObj "(string \<times> json) list"

definition fld :: "(string \<times> json) list \<Rightarrow> string \<Rightarrow> json option" where
  "fld body k = map_of body k"

definition jint :: "int \<Rightarrow> json" where
  "jint n = JNum (of_int n)"

definition jnull :: "('a \<Rightarrow> json) \<Rightarrow> 'a option \<Rightarrow> json" where
  "jnull f x = (case x of None \<Rightarrow> JNull | Some v \<Rightarrow> f v)"

lemma frames_json_case [frame_rules]:
  "frames v a \<Longrightarrow> (\<And>x. frames v (b x)) \<Longrightarrow> (\<And>x. frames v (c x)) \<Longrightarrow> (\<And>x. frames v (d x)) \<Longrightarrow>
    (\<And>x. frames v (e x)) \<Longrightarrow> (\<And>x. frames v (f x)) \<Longrightarrow> frames v (case j of JNull \<Rightarrow> a | JBool x \<Rightarrow> b x
      | JNum x \<Rightarrow> c x | JStr x \<Rightarrow> d x | JArr x \<Rightarrow> e x | JObj x \<Rightarrow> f x)"
  by (cases j) simp_all

lemma wp_json_caseI [wp_intros]:
  "(j = JNull \<Longrightarrow> wp a Q s) \<Longrightarrow> (\<And>x. j = JBool x \<Longrightarrow> wp (b x) Q s) \<Longrightarrow> (\<And>x. j = JNum x \<Longrightarrow> wp (c x) Q s) \<Longrightarrow>
    (\<And>x. j = JStr x \<Longrightarrow> wp (d x) Q s) \<Longrightarrow> (\<And>x. j = JArr x \<Longrightarrow> wp (e x) Q s) \<Longrightarrow> (\<And>x. j = JObj x \<Longrightarrow> wp (f x) Q s) \<Longrightarrow>
    wp (case j of JNull \<Rightarrow> a | JBool x \<Rightarrow> b x | JNum x \<Rightarrow> c x | JStr x \<Rightarrow> d x | JArr x \<Rightarrow> e x | JObj x \<Rightarrow> f x) Q s"
  by (cases j) simp_all

section \<open>Decimal rendering\<close>

definition digit_char :: "nat \<Rightarrow> char" where
  "digit_char d = char_of (48 + d)"

function show_nat :: "nat \<Rightarrow> string" where
  "show_nat n = (if n < 10 then [digit_char n] else show_nat (n div 10) @ [digit_char (n mod 10)])"
  by pat_completeness auto
termination by (relation "measure id") auto

declare show_nat.simps [simp del]

definition show_int :: "int \<Rightarrow> string" where
  "show_int i = (if i < 0 then CHR ''-'' # show_nat (nat (- i)) else show_nat (nat i))"

definition is_digit :: "char \<Rightarrow> bool" where
  "is_digit c \<longleftrightarrow> 48 \<le> (of_char c :: nat) \<and> (of_char c :: nat) \<le> 57"

definition digit_val :: "char \<Rightarrow> nat" where
  "digit_val c = of_char c - 48"

definition read_nat :: "string \<Rightarrow> nat" where
  "read_nat cs = foldl (\<lambda>n c. 10 * n + digit_val c) 0 cs"

lemma digit_char_is_digit: "d < 10 \<Longrightarrow> is_digit (digit_char d)"
  by (simp add: is_digit_def digit_char_def of_char_of)

lemma digit_val_digit_char: "d < 10 \<Longrightarrow> digit_val (digit_char d) = d"
  by (simp add: digit_val_def digit_char_def of_char_of)

lemma read_nat_snoc: "read_nat (cs @ [c]) = 10 * read_nat cs + digit_val c"
  by (simp add: read_nat_def)

lemma show_nat_digits: "list_all is_digit (show_nat n)"
proof (induction n rule: show_nat.induct)
  case (1 n)
  then show ?case
    by (cases "n < 10") (simp_all add: show_nat.simps [of n] digit_char_is_digit)
qed

lemma show_nat_nonempty: "show_nat n \<noteq> []"
  by (simp add: show_nat.simps [of n])

text \<open>Rendering a number and reading it back gives the number.\<close>

lemma read_show_nat: "read_nat (show_nat n) = n"
proof (induction n rule: show_nat.induct)
  case (1 n)
  show ?case
  proof (cases "n < 10")
    case True
    then show ?thesis
      by (simp add: show_nat.simps [of n] read_nat_def digit_val_digit_char)
  next
    case False
    with 1 show ?thesis
      by (simp add: show_nat.simps [of n] read_nat_snoc digit_val_digit_char)
  qed
qed

lemma show_nat_inject: "show_nat m = show_nat n \<longleftrightarrow> m = n"
  by (metis read_show_nat)

lemma minus_not_digit: "\<not> is_digit (CHR ''-'')"
  by (simp add: is_digit_def)

lemma show_nat_not_minus: "show_nat n \<noteq> CHR ''-'' # cs"
  using show_nat_digits [of n] minus_not_digit by auto

lemma show_int_inject: "show_int i = show_int j \<longleftrightarrow> i = j"
  using show_nat_not_minus show_nat_not_minus [symmetric]
  by (auto simp: show_int_def show_nat_inject split: if_splits)

section \<open>Whitespace\<close>

definition is_space :: "char \<Rightarrow> bool" where
  "is_space c \<longleftrightarrow> (of_char c :: nat) \<in> {9, 10, 11, 12, 13, 32, 160}"

definition trim :: "string \<Rightarrow> string" where
  "trim s = rev (dropWhile is_space (rev (dropWhile is_space s)))"

lemma dropWhile_rev_trim: "dropWhile is_space (trim s) = trim s"
proof (cases "dropWhile is_space s")
  case Nil
  then show ?thesis unfolding trim_def by (simp only: rev.simps dropWhile.simps)
next
  case (Cons c cs)
  have c: "\<not> is_space c"
    using Cons hd_dropWhile [of is_space s] by simp
  have "dropWhile is_space (rev (c # cs)) = dropWhile is_space (rev cs @ [c])"
    by simp
  also have "\<dots> = dropWhile is_space (rev cs) @ [c]"
    using c by (simp add: dropWhile_append)
  finally show ?thesis
    using c by (simp add: trim_def Cons)
qed

lemma trim_trim: "trim (trim s) = trim s"
proof -
  have "dropWhile is_space (rev (trim s)) = rev (trim s)"
    by (simp add: trim_def)
  then show ?thesis
    using dropWhile_rev_trim [of s] by (simp add: trim_def [of "trim s"])
qed

section \<open>Rounding to a double\<close>

definition pow2 :: "int \<Rightarrow> rat" where
  "pow2 k = (if 0 \<le> k then 2 ^ nat k else 1 / 2 ^ nat (- k))"

definition exponent2 :: "rat \<Rightarrow> int" where
  "exponent2 q = (let (n, d) = quotient_of q; e = bitlen n - bitlen d in
     if pow2 e \<le> q then e else e - 1)"

definition half_even :: "rat \<Rightarrow> int" where
  "half_even q = (let f = \<lfloor>q\<rfloor>; r = q - of_int f in
     if r < 1/2 then f else if 1/2 < r then f + 1 else if even f then f else f + 1)"

definition to_double :: "rat \<Rightarrow> rat option" where
  "to_double q = (if q = 0 then Some 0 else
     let a = \<bar>q\<bar>; u = max (exponent2 a - 52) (- 1074); v = of_int (half_even (a / pow2 u)) * pow2 u
     in if pow2 1024 \<le> v then None else Some (sgn q * v))"

section \<open>Number conversion\<close>

text \<open>
  \<open>StringNumericLiteral\<close> of the language: a signed decimal with optional fraction and exponent,
  or an unsigned hexadecimal, octal or binary literal, after trimming; the empty string is 0.
\<close>

definition all_digits :: "string \<Rightarrow> bool" where
  "all_digits cs \<longleftrightarrow> cs \<noteq> [] \<and> list_all is_digit cs"

definition radix_val :: "char \<Rightarrow> nat option" where
  "radix_val c = (let n = (of_char c :: nat) in
     if 48 \<le> n \<and> n \<le> 57 then Some (n - 48)
     else if 97 \<le> n \<and> n \<le> 102 then Some (n - 87)
     else if 65 \<le> n \<and> n \<le> 70 then Some (n - 55) else None)"

fun read_radix :: "nat \<Rightarrow> nat \<Rightarrow> string \<Rightarrow> nat option" where
  "read_radix b acc [] = Some acc"
| "read_radix b acc (c # cs) = (case radix_val c of None \<Rightarrow> None
     | Some d \<Rightarrow> if d < b then read_radix b (b * acc + d) cs else None)"

definition read_exponent :: "string \<Rightarrow> int option" where
  "read_exponent cs = (case cs of [] \<Rightarrow> None
     | c # r \<Rightarrow> if c = CHR ''+'' then (if all_digits r then Some (int (read_nat r)) else None)
         else if c = CHR ''-'' then (if all_digits r then Some (- int (read_nat r)) else None)
         else if all_digits cs then Some (int (read_nat cs)) else None)"

definition pow10 :: "int \<Rightarrow> rat" where
  "pow10 k = (if 0 \<le> k then 10 ^ nat k else 1 / 10 ^ nat (- k))"

definition unsigned_decimal :: "string \<Rightarrow> rat option" where
  "unsigned_decimal cs =
     (let mant = takeWhile (\<lambda>c. c \<noteq> CHR ''e'' \<and> c \<noteq> CHR ''E'') cs;
          rest = drop (length mant) cs;
          ip = takeWhile (\<lambda>c. c \<noteq> CHR ''.'') mant;
          fp = drop (length ip + 1) mant;
          ex = (if rest = [] then Some 0 else read_exponent (tl rest))
      in if list_all is_digit (ip @ fp) \<and> ip @ fp \<noteq> []
         then map_option (\<lambda>e. of_nat (read_nat (ip @ fp)) * pow10 (e - int (length fp))) ex
         else None)"

definition string_to_number :: "string \<Rightarrow> rat option" where
  "string_to_number s = (case trim s of
       [] \<Rightarrow> Some 0
     | c # r \<Rightarrow>
         if c = CHR ''+'' then Option.bind (unsigned_decimal r) to_double
         else if c = CHR ''-'' then map_option uminus (Option.bind (unsigned_decimal r) to_double)
         else if c = CHR ''0'' \<and> r \<noteq> [] \<and> hd r \<in> set ''xX'' \<and> tl r \<noteq> []
           then Option.bind (map_option of_nat (read_radix 16 0 (tl r))) to_double
         else if c = CHR ''0'' \<and> r \<noteq> [] \<and> hd r \<in> set ''oO'' \<and> tl r \<noteq> []
           then Option.bind (map_option of_nat (read_radix 8 0 (tl r))) to_double
         else if c = CHR ''0'' \<and> r \<noteq> [] \<and> hd r \<in> set ''bB'' \<and> tl r \<noteq> []
           then Option.bind (map_option of_nat (read_radix 2 0 (tl r))) to_double
         else Option.bind (unsigned_decimal (c # r)) to_double)"

text \<open>An array converts through its string: empty, its only element, or a list with commas.\<close>

fun element_to_number :: "json \<Rightarrow> rat option" where
  "element_to_number JNull = Some 0"
| "element_to_number (JBool b) = None"
| "element_to_number (JNum q) = Some q"
| "element_to_number (JStr s) = string_to_number s"
| "element_to_number (JArr []) = Some 0"
| "element_to_number (JArr [x]) = element_to_number x"
| "element_to_number (JArr (x # y # ys)) = None"
| "element_to_number (JObj kvs) = None"

definition to_number :: "json option \<Rightarrow> rat option" where
  "to_number v = (case v of
       None \<Rightarrow> None
     | Some (JBool b) \<Rightarrow> Some (if b then 1 else 0)
     | Some x \<Rightarrow> element_to_number x)"

text \<open>\<open>Number.isSafeInteger(Number(v))\<close> and the integer it denotes.\<close>

definition safe_integer :: "rat \<Rightarrow> bool" where
  "safe_integer q \<longleftrightarrow> of_int \<lfloor>q\<rfloor> = q \<and> \<bar>q\<bar> \<le> 9007199254740991"

definition to_safe_integer :: "json option \<Rightarrow> int option" where
  "to_safe_integer v = (case to_number v of
       None \<Rightarrow> None | Some q \<Rightarrow> if safe_integer q then Some \<lfloor>q\<rfloor> else None)"

lemma safe_integer_of_int [simp]: "safe_integer (of_int n) \<longleftrightarrow> \<bar>n\<bar> \<le> 9007199254740991"
  unfolding safe_integer_def
  by (metis floor_of_int of_int_abs of_int_le_iff of_int_numeral)

lemma safe_integer_iff: "safe_integer q \<longleftrightarrow> (\<exists>n. q = of_int n \<and> \<bar>n\<bar> \<le> 9007199254740991)"
  by (metis safe_integer_def safe_integer_of_int)

text \<open>A safe integer is read off its fraction, and it is a double: these two facts speed evaluation up.\<close>

lemma safe_integer_code [code]:
  "safe_integer q \<longleftrightarrow> (case quotient_of q of (a, b) \<Rightarrow> b = 1 \<and> \<bar>a\<bar> \<le> 9007199254740991)"
proof -
  obtain a b where ab: "quotient_of q = (a, b)" by (cases "quotient_of q")
  have int: "quotient_of (of_int n) = (n, 1)" for n by (metis Rat.of_int_def quotient_of_int)
  show ?thesis
  proof (cases "b = 1")
    case True
    with quotient_of_div [OF ab] show ?thesis by (simp add: ab)
  next
    case False
    then have "q \<noteq> of_int n" for n using ab int [of n] by auto
    with False show ?thesis by (auto simp: ab safe_integer_iff)
  qed
qed

lemma pow2_add: "k \<le> 0 \<Longrightarrow> of_int (2 ^ nat (- k)) * pow2 k = (1 :: rat)"
  by (simp add: pow2_def)

lemma half_even_int: "half_even (of_int n) = n"
  by (simp add: half_even_def)

lemma exponent2_int:
  assumes "0 < n" and "n < 2 ^ 53" shows "- 1 \<le> exponent2 (of_int n) \<and> exponent2 (of_int n) \<le> 52"
proof -
  have q: "quotient_of (of_int n) = (n, 1)" by (metis Rat.of_int_def quotient_of_int)
  have "bitlen n \<le> 53" using bitlen_le_iff_power [of n 53] assms by simp
  moreover have "1 \<le> bitlen n" using assms(1) by (simp add: bitlen_ge_iff_power)
  moreover have "bitlen 1 = 1" by (simp add: bitlen_alt_def)
  ultimately show ?thesis by (simp add: exponent2_def q Let_def)
qed

lemma to_double_safe:
  assumes "safe_integer q" shows "to_double q = Some q"
proof (cases "q = 0")
  case False
  from assms obtain n where n: "q = of_int n" and b: "\<bar>n\<bar> \<le> 9007199254740991" by (auto simp: safe_integer_iff)
  define m u where "m = \<bar>n\<bar>" and "u = exponent2 (of_int m) - 52"
  have m: "0 < m" "m < 2 ^ 53" "\<bar>q\<bar> = of_int m" using False b by (auto simp: m_def n)
  have u: "- 53 \<le> u" "u \<le> 0" using exponent2_int [OF m(1,2)] by (auto simp: u_def)
  define k where "k = nat (- u)"
  have p: "pow2 u = 1 / 2 ^ k" using u by (cases "u = 0") (simp_all add: pow2_def k_def)
  then have "of_int m / pow2 u = (of_int (m * 2 ^ k) :: rat)" by simp
  then have v: "of_int (half_even (of_int m / pow2 u)) * pow2 u = (of_int m :: rat)"
    by (simp only: half_even_int) (simp add: p)
  define w :: nat where "w = nat 1024"
  have "53 \<le> w" by (simp add: w_def)
  then have "m < 2 ^ w" using m(2) power_increasing [of 53 w "2 :: int"] by linarith
  moreover have "pow2 1024 = of_int (2 ^ w)" by (simp only: pow2_def w_def) simp
  ultimately have big: "\<not> pow2 1024 \<le> of_int m" by (metis not_le of_int_le_iff)
  have u': "max (exponent2 (of_int m) - 52) (- 1074) = u" using u by (simp add: u_def)
  have "sgn q * of_int m = q" by (simp only: m(3) [symmetric] sgn_mult_abs)
  with False show ?thesis
    unfolding to_double_def m(3) Let_def u' v if_not_P [OF big] if_not_P [OF False] by (simp only:)
qed (simp add: to_double_def)

lemma to_double_code [code]:
  "to_double q = (if safe_integer q then Some q else
     let a = \<bar>q\<bar>; u = max (exponent2 a - 52) (- 1074); v = of_int (half_even (a / pow2 u)) * pow2 u
     in if pow2 1024 \<le> v then None else Some (sgn q * v))"
  using to_double_safe [of q] by (auto simp: to_double_def safe_integer_def)

lemma to_safe_integer_jint:
  "\<bar>n\<bar> \<le> 9007199254740991 \<Longrightarrow> to_safe_integer (Some (jint n)) = Some n"
  by (simp add: to_safe_integer_def to_number_def jint_def)

lemma to_safe_integer_bound: "to_safe_integer v = Some n \<Longrightarrow> \<bar>n\<bar> \<le> 9007199254740991"
proof -
  assume "to_safe_integer v = Some n"
  then obtain q where "safe_integer q" and "n = \<lfloor>q\<rfloor>"
    by (auto simp: to_safe_integer_def split: option.splits if_splits)
  then have "safe_integer (of_int n)" unfolding safe_integer_def by (metis floor_of_int)
  then show ?thesis by simp
qed

section \<open>Rounding a ratio\<close>

text \<open>
  \<open>Math.round(a / b)\<close> rounds half up. The operands are a column below \<open>2^31\<close>, multiplied by
  10000, and a column \<open>b\<close> below \<open>2^31\<close>: the product is exact, the quotient is at least
  \<open>1/(2b)\<close> away from a half-integer it does not equal, and its last place is below \<open>1/(64b)\<close>,
  so the double quotient rounds as the exact one.
\<close>

definition math_round_ratio :: "int \<Rightarrow> int \<Rightarrow> int" where
  "math_round_ratio a b = \<lfloor>of_int a / of_int b + (1/2 :: rat)\<rfloor>"

section \<open>JSON text\<close>

text \<open>\<open>JSON.stringify\<close> of a string: quotes, backslash and control characters are escaped.\<close>

definition hex_digit :: "nat \<Rightarrow> char" where
  "hex_digit d = (if d < 10 then char_of (48 + d) else char_of (87 + d))"

definition escape_char :: "char \<Rightarrow> string" where
  "escape_char c = (let n = (of_char c :: nat) in
     if n = 34 then [CHR 0x5C, CHR 0x22]
     else if n = 92 then [CHR 0x5C, CHR 0x5C]
     else if n = 8 then [CHR 0x5C, CHR ''b'']
     else if n = 9 then [CHR 0x5C, CHR ''t'']
     else if n = 10 then [CHR 0x5C, CHR ''n'']
     else if n = 12 then [CHR 0x5C, CHR ''f'']
     else if n = 13 then [CHR 0x5C, CHR ''r'']
     else if n < 32 then [CHR 0x5C, CHR ''u'', CHR ''0'', CHR ''0'', hex_digit (n div 16), hex_digit (n mod 16)]
     else [c])"

definition stringify_string :: "string \<Rightarrow> string" where
  "stringify_string s = CHR 0x22 # concat (map escape_char s) @ [CHR 0x22]"

text \<open>
  \<open>Number::toString\<close>: the shortest decimal digits that read back as the double, laid out as an
  integer, a fraction or with an exponent. \<open>decimal_point a\<close> is the \<open>n\<close> with
  \<open>10^(n-1) \<le> a < 10^n\<close>. A safe integer is its own shortest rendering.
\<close>

definition decimal_point :: "rat \<Rightarrow> int" where
  "decimal_point a = (if 1 \<le> a then int (length (show_nat (nat \<lfloor>a\<rfloor>)))
     else 1 - int (length (show_nat (nat (\<lceil>1 / a\<rceil> - 1)))))"

definition candidates :: "rat \<Rightarrow> nat \<Rightarrow> (int \<times> int) list" where
  "candidates a k = (let e = decimal_point a - int k; x = a / pow10 e; f = \<lfloor>x\<rfloor>
     in if x - of_int f \<le> 1/2 then [(f, e), (f + 1, e)] else [(f + 1, e), (f, e)])"

definition shortest_decimal :: "rat \<Rightarrow> (int \<times> int) option" where
  "shortest_decimal a = find (\<lambda>(m, e). 0 < m \<and> to_double (of_int m * pow10 e) = Some a)
     (concat (map (candidates a) [1..<18]))"

definition layout_decimal :: "string \<Rightarrow> int \<Rightarrow> string" where
  "layout_decimal ds n = (let k = int (length ds) in
     if k \<le> n \<and> n \<le> 21 then ds @ replicate (nat (n - k)) (CHR ''0'')
     else if 0 < n \<and> n \<le> 21 then take (nat n) ds @ CHR ''.'' # drop (nat n) ds
     else if - 6 < n \<and> n \<le> 0 then ''0.'' @ replicate (nat (- n)) (CHR ''0'') @ ds
     else (if k = 1 then ds else take 1 ds @ CHR ''.'' # drop 1 ds) @
       CHR ''e'' # (if n - 1 < 0 then CHR ''-'' else CHR ''+'') # show_nat (nat \<bar>n - 1\<bar>))"

definition stringify_number :: "rat \<Rightarrow> string" where
  "stringify_number q = (if safe_integer q then show_int \<lfloor>q\<rfloor> else
     (case shortest_decimal \<bar>q\<bar> of
        None \<Rightarrow> []
      | Some (m, e) \<Rightarrow>
          let ds = show_nat (nat m);
              sig = rev (dropWhile (\<lambda>c. c = CHR ''0'') (rev ds))
          in (if q < 0 then [CHR ''-''] else []) @ layout_decimal sig (e + int (length ds))))"

fun join :: "string \<Rightarrow> string list \<Rightarrow> string" where
  "join sep [] = []"
| "join sep [x] = x"
| "join sep (x # y # ys) = x @ sep @ join sep (y # ys)"

end
