(* ===== verification/Schema.thy ===== *)
theory Schema
  imports Js
begin

text \<open>
  The tables of \<open>database/runtime/schema.mysql.generated.ts\<close> that the modelled commands read or
  write, one record per table (the primary key is the key of the table, the bookkeeping columns
  \<open>created_at\<close> and \<open>updated_at\<close> are omitted unless a command reads them), the row constructors
  with the column defaults, the constraint predicate of each table (INT range, VARCHAR(191)
  width, unique indexes) and the database state \<open>db\<close>. JSON columns keep the value instead of
  its text. Text is compared exactly; foreign keys are not checked (every handler looks the
  referenced row up first, and a violated one only adds a rolled-back error).
\<close>

section \<open>Column domains\<close>

definition int32 :: "int \<Rightarrow> bool" where
  "int32 n \<longleftrightarrow> - 2147483648 \<le> n \<and> n \<le> 2147483647"

definition v191 :: "string \<Rightarrow> bool" where
  "v191 s \<longleftrightarrow> length s \<le> 191"

definition unique_by :: "('r \<Rightarrow> 'k) \<Rightarrow> 'r tbl \<Rightarrow> int option \<Rightarrow> 'r \<Rightarrow> bool" where
  "unique_by k t self r \<longleftrightarrow> list_all (\<lambda>(i, q). Some i = self \<or> k q \<noteq> k r) (rows t)"

section \<open>Platform tables\<close>

record fence =
  f_owner :: string
  f_enabled :: bool
  f_generation :: int

record idem =
  i_digest :: string
  i_status :: string
  i_response_status :: "int option"
  i_response :: "json option"
  i_expires_at :: string

record outbox =
  ob_topic :: string
  ob_aggregate_type :: string
  ob_aggregate_id :: string
  ob_dedup :: string
  ob_payload :: json
  ob_status :: string
  ob_available_at :: string
  ob_attempts :: int
  ob_max_attempts :: int
  ob_locked_by :: "string option"
  ob_locked_at :: "string option"
  ob_last_error :: "string option"
  ob_completed_at :: "string option"

record audit_row =
  al_actor :: "int option"
  al_action :: string
  al_module :: string
  al_entity_type :: string
  al_entity_id :: string
  al_business_no :: "string option"
  al_before :: "json option"
  al_after :: "json option"
  al_ip :: "string option"
  al_device :: "string option"
  al_sensitive :: bool
  al_exported :: bool
  al_archive_after :: string

record approval =
  ap_request_no :: string
  ap_workflow :: string
  ap_entity_type :: string
  ap_entity_id :: int
  ap_summary :: string
  ap_payload :: json
  ap_high_risk :: bool
  ap_status :: string
  ap_requested_by :: int
  ap_reviewed_by :: "int option"
  ap_review_comment :: "string option"
  ap_sms_verified :: bool
  ap_updated_at :: int

record file_object =
  fo_object_key :: string
  fo_category :: string
  fo_entity_type :: "string option"
  fo_entity_id :: "string option"
  fo_owner :: int
  fo_factory :: "int option"
  fo_supplier :: "int option"
  fo_scan_status :: string

record challenge =
  ch_no :: string
  ch_user :: int
  ch_purpose :: string
  ch_session :: "int option"
  ch_action :: "string option"
  ch_object_type :: "string option"
  ch_object_id :: "string option"
  ch_object_version :: "int option"
  ch_digest :: "string option"
  ch_verified_at :: "string option"
  ch_consumed_at :: "string option"
  ch_expires_at :: string

section \<open>Warehouse tables\<close>

record warehouse =
  w_code :: string
  w_name :: string
  w_type :: string
  w_factory :: "int option"
  w_address :: string
  w_status :: string

record batch =
  ib_batch_no :: string
  ib_warehouse :: int
  ib_sku :: string
  ib_production_date :: "string option"
  ib_inbound_date :: string
  ib_expiry_date :: "string option"
  ib_available :: int
  ib_locked :: int
  ib_defective :: int
  ib_pending :: int
  ib_quarantine :: int
  ib_ownership :: string
  ib_expiry_status :: string

record reservation =
  ir_batch :: int
  ir_entity_type :: string
  ir_entity :: "int option"
  ir_requested :: int
  ir_reserved :: int
  ir_shortage :: int
  ir_priority :: int
  ir_status :: string
  ir_created_by :: int

record movement =
  im_warehouse :: int
  im_sku :: string
  im_type :: string
  im_quantity :: int
  im_delivery :: "int option"
  im_source_key :: "string option"
  im_occurred_at :: string
  im_created_by :: int

record transfer =
  it_no :: string
  it_from :: int
  it_to :: int
  it_sku :: string
  it_quantity :: int
  it_reason :: string
  it_status :: string
  it_requested_by :: int
  it_approved_by :: "int option"
  it_approved_at :: "string option"
  it_shipped_at :: "string option"
  it_received_at :: "string option"

record stocktake =
  st_no :: string
  st_warehouse :: int
  st_scope :: string
  st_due_date :: string
  st_status :: string
  st_frozen_at :: "string option"
  st_created_by :: int
  st_factory :: "int option"

record count_row =
  sc_stocktake :: int
  sc_batch :: "int option"
  sc_sku :: string
  sc_round :: int
  sc_available :: int
  sc_locked :: int
  sc_defective :: int
  sc_pending :: int
  sc_total :: int
  sc_counted_by :: int

record adjustment =
  sa_stocktake :: int
  sa_count :: int
  sa_bucket :: string
  sa_snapshot :: int
  sa_counted :: int
  sa_variance :: int
  sa_revision :: int
  sa_batch_no :: "string option"
  sa_production_date :: "string option"
  sa_expiry_date :: "string option"
  sa_decision :: string
  sa_reviewed_by :: "int option"

section \<open>Procurement and production tables\<close>

record purchase_order =
  po_no :: string
  po_source_file :: "string option"
  po_status :: string
  po_order_date :: "string option"
  po_total :: int
  po_updated_at :: string

record order_item =
  oi_order :: int
  oi_sku :: string
  oi_product_name :: string
  oi_item_type :: string
  oi_supplier :: "int option"
  oi_quantity :: int
  oi_received :: int
  oi_unit_price :: int
  oi_amount :: int
  oi_due_date :: "string option"

record plan_item =
  pi_plan :: int
  pi_arrival :: string
  pi_factory :: int
  pi_warehouse :: int
  pi_sku :: string
  pi_product_name :: string
  pi_bom :: int
  pi_planned :: int
  pi_ordered :: int
  pi_over_bps :: int
  pi_under_bps :: int
  pi_completion :: string

record plan_link =
  pl_item :: int
  pl_order_item :: int
  pl_allocated :: int
  pl_method :: string
  pl_confirmed_by :: int

record receipt =
  rc_no :: string
  rc_order :: int
  rc_order_item :: int
  rc_warehouse :: int
  rc_batch :: int
  rc_quantity :: int
  rc_received_at :: string
  rc_received_by :: int

record sku_row =
  sk_code :: string
  sk_name :: string
  sk_stock_unit :: "string option"
  sk_item_type :: "string option"
  sk_over_production_bps :: int
  sk_over_bps :: int
  sk_under_bps :: int
  sk_verification :: string
  sk_status :: string

record bom =
  bo_finished_sku :: string
  bo_version :: string
  bo_from :: string
  bo_to :: "string option"
  bo_overlap :: bool
  bo_overlap_reason :: string
  bo_approval :: string
  bo_reviewed_by :: "int option"
  bo_active :: bool
  bo_created_by :: int

record component =
  bc_bom :: int
  bc_sku :: string
  bc_item_type :: string
  bc_core :: bool
  bc_per_finished :: int
  bc_issue_bps :: int
  bc_consumption_bps :: int
  bc_loss_bps :: int

record execution_order =
  eo_no :: string
  eo_order_item :: int
  eo_factory :: int
  eo_bom :: "int option"
  eo_planned :: int
  eo_completed :: int
  eo_status :: string
  eo_due_date :: "string option"
  eo_planned_start :: "string option"
  eo_planned_finish :: "string option"
  eo_actual_start :: "string option"
  eo_actual_finish :: "string option"

record material_line =
  ml_order :: int
  ml_component :: int
  ml_theoretical :: int
  ml_reserved :: int
  ml_issued :: int
  ml_consumed :: int
  ml_loss :: int
  ml_deviation :: string

record report =
  rp_order :: int
  rp_actual :: int
  rp_variance :: int
  rp_rate_bps :: int
  rp_result :: string
  rp_company :: int
  rp_factory_owned :: int
  rp_reported_by :: int
  rp_batch :: "int option"
  rp_reviewed_by :: "int option"

record quality_rule =
  qr_scope :: string
  qr_sku :: "string option"
  qr_item_type :: "string option"
  qr_stage :: string
  qr_min_bps :: int
  qr_active :: bool
  qr_created_at :: string

record inspection =
  qi_order :: "int option"
  qi_batch :: "int option"
  qi_stage :: string
  qi_method :: string
  qi_batch_quantity :: int
  qi_inspected :: int
  qi_passed :: int
  qi_failed :: int
  qi_rate_bps :: int
  qi_rule :: int
  qi_fallback :: bool
  qi_reminder :: string
  qi_reason :: string
  qi_system :: string
  qi_requested :: "string option"
  qi_requires_approval :: bool
  qi_final :: string
  qi_quarantine :: bool
  qi_full_required :: bool
  qi_source :: "int option"
  qi_released :: int
  qi_disposition :: string
  qi_inspector :: string
  qi_submitted_by :: int

section \<open>Shipping and returns tables\<close>

record delivery =
  dl_order :: int
  dl_batch_no :: string
  dl_quantity :: int
  dl_planned_ship_at :: string
  dl_shipped_at :: "string option"
  dl_carrier :: string
  dl_logistics_no :: string
  dl_destination :: string
  dl_requires_approval :: bool
  dl_deviation_reason :: "string option"
  dl_status :: string

record evidence =
  ev_delivery :: int
  ev_file_key :: string
  ev_file_name :: string

record shipment_receipt =
  sr_delivery :: int
  sr_received :: int
  sr_damaged :: int
  sr_received_at :: string
  sr_evidence :: string
  sr_reason :: string
  sr_received_by :: int

record exception_row =
  ex_order :: "int option"
  ex_type :: string
  ex_description :: string
  ex_evidence :: "string option"
  ex_status :: string
  ex_submitted_by :: int

record product_return =
  rt_no :: string
  rt_delivery :: int
  rt_warehouse :: int
  rt_sku :: string
  rt_quantity :: int
  rt_batch :: "int option"
  rt_status :: string
  rt_reviewed_by :: "int option"

record return_inspection =
  ri_return :: int
  ri_inspected :: int
  ri_passed :: int
  ri_failed :: int
  ri_reason :: string
  ri_evidence :: string
  ri_inspected_by :: int

record disposition =
  rd_return :: int
  rd_type :: string
  rd_quantity :: int
  rd_proposed_by :: int
  rd_status :: string
  rd_reviewed_by :: "int option"

section \<open>People, notifications and reminders\<close>

record user_row =
  us_email :: string
  us_mobile :: string
  us_name :: string
  us_role :: string
  us_factory :: "int option"
  us_supplier :: "int option"
  us_organization :: string
  us_status :: string

record user_role =
  ur_user :: int
  ur_role :: string
  ur_from :: string
  ur_to :: "string option"
  ur_status :: string
  ur_requested_by :: int
  ur_reviewed_by :: "int option"
  ur_reviewed_at :: "string option"

record notification =
  nm_user :: "int option"
  nm_role :: "string option"
  nm_channel :: string
  nm_type :: string
  nm_severity :: string
  nm_title :: string
  nm_message :: string
  nm_entity_type :: string
  nm_entity :: int
  nm_business_no :: "string option"
  nm_status :: string
  nm_sent_at :: "string option"
  nm_error :: "string option"

record reminder =
  rm_type :: string
  rm_entity_type :: string
  rm_entity :: int
  rm_business_no :: "string option"
  rm_due_at :: string
  rm_next_run_at :: string
  rm_recurrence :: string
  rm_roles :: json
  rm_users :: json
  rm_severity :: string
  rm_status :: string
  rm_last_run_at :: "string option"

record invoice_exception =
  ix_invoice :: int
  ix_type :: string
  ix_affected :: int
  ix_deadline :: string
  ix_covered :: int
  ix_refunded :: int
  ix_status :: string
  ix_reason :: string
  ix_created_by :: int
  ix_released_by :: "int option"
  ix_released_at :: "string option"
  ix_release_reason :: "string option"
  ix_release_evidence :: "string option"
  ix_resolved_at :: "string option"
  ix_updated_at :: int

record supplier_sku =
  ss_factory :: int
  ss_supplier :: int
  ss_sku :: string
  ss_primary :: bool
  ss_priority :: int
  ss_moq :: int
  ss_multiple :: int
  ss_unit :: string
  ss_lead_days :: "int option"
  ss_daily :: "int option"
  ss_monthly :: "int option"
  ss_from :: string
  ss_status :: string
  ss_requested_by :: int
  ss_reviewed_by :: "int option"
  ss_reviewed_at :: "string option"
  ss_updated_at :: string

section \<open>Finance tables\<close>

record payment_request =
  pq_no :: string
  pq_factory :: int
  pq_planned :: string
  pq_total :: int
  pq_status :: string
  pq_covered :: int
  pq_paid_at :: "string option"
  pq_reference :: "string option"
  pq_updated_at :: int

record request_item =
  qt_request :: int
  qt_order :: int
  qt_amount :: int

record invoice =
  iv_factory :: int
  iv_order :: int
  iv_mode :: string
  iv_delivery :: "int option"
  iv_no :: string
  iv_type :: string
  iv_amount :: int
  iv_tax :: int
  iv_issued_at :: string
  iv_file_key :: "string option"
  iv_status :: string
  iv_expected :: int
  iv_matches :: bool
  iv_mismatch :: int
  iv_maintained_by :: int

record verification =
  vf_invoice :: int
  vf_role :: string
  vf_decision :: string
  vf_reason :: "string option"
  vf_by :: int

record allocation =
  aq_invoice :: int
  aq_request :: int
  aq_amount :: int
  aq_status :: string
  aq_created_by :: int

record replacement_link =
  rk_exception :: int
  rk_invoice :: int
  rk_covered :: int
  rk_status :: string

record payment =
  py_request :: int
  py_amount :: int
  py_paid_at :: string
  py_reference :: string
  py_type :: string
  py_reverses :: "int option"
  py_corrects :: "int option"
  py_exception :: "int option"
  py_recorded_by :: int
  py_reviewed_by :: "int option"
  py_review :: string
  py_updated_at :: int

section \<open>Supplier and planning tables\<close>

record factory =
  fa_code :: string
  fa_name :: string
  fa_status :: string

record supplier =
  su_code :: string
  su_name :: string
  su_tier :: "int option"
  su_managed_by :: "int option"
  su_credit_code :: string
  su_license :: "string option"
  su_address :: string
  su_contact :: string
  su_phone :: string
  su_scope :: string
  su_verification :: string
  su_verified_by :: "int option"
  su_status :: string

record price_agreement =
  pa_supplier :: int
  pa_sku :: string
  pa_included :: int
  pa_excluded :: int
  pa_tax_bps :: int
  pa_from :: string
  pa_to :: "string option"
  pa_status :: string
  pa_maintained_by :: int

record price_change =
  pc_current :: "int option"
  pc_supplier :: int
  pc_sku :: string
  pc_included :: int
  pc_excluded :: int
  pc_tax_bps :: int
  pc_from :: string
  pc_reason :: string
  pc_evidence :: string
  pc_requested_by :: int
  pc_reviewed_by :: "int option"
  pc_decision :: string
  pc_comment :: "string option"

record conversion =
  cv_sku :: int
  cv_purchase_unit :: string
  cv_stock_unit :: string
  cv_purchase_quantity :: int
  cv_stock_quantity :: int
  cv_from :: string
  cv_status :: string

record performance_review =
  sv_supplier :: int
  sv_quarter :: string
  sv_type :: string
  sv_score :: int
  sv_tags :: "string list"
  sv_comment :: string
  sv_by :: int
  sv_updated_at :: string

record weight_version =
  wv_tier :: int
  wv_from :: string
  wv_weights :: "(string \<times> int) list"
  wv_status :: string
  wv_created_by :: int
  wv_updated_at :: string

record purchase_plan =
  pn_no :: string
  pn_version :: int
  pn_source_file :: "string option"
  pn_status :: string
  pn_due_at :: "string option"
  pn_confirmed_at :: "string option"
  pn_created_by :: int
  pn_reviewed_by :: "int option"
  pn_updated_at :: string

record plan_response =
  fr_plan :: int
  fr_factory :: int
  fr_decision :: string
  fr_start :: string
  fr_finish :: string
  fr_proposed :: "string option"
  fr_reason :: string
  fr_status :: string
  fr_responded_by :: int
  fr_reviewed_by :: "int option"

section \<open>Constraints\<close>

text \<open>
  The checks of the storage engine on the columns the commands compute or take from a request:
  INT range, VARCHAR width and the unique indexes (a NULL in a unique index conflicts with
  nothing). Identifiers are keys of rows that exist, so their range is not checked again.
\<close>

definition unique_opt :: "('r \<Rightarrow> 'k option) \<Rightarrow> 'r tbl \<Rightarrow> int option \<Rightarrow> 'r \<Rightarrow> bool" where
  "unique_opt k t self r \<longleftrightarrow> k r = None \<or> unique_by k t self r"

definition ok_batch :: "batch tbl \<Rightarrow> int option \<Rightarrow> batch \<Rightarrow> bool" where
  "ok_batch t self r \<longleftrightarrow> v191 (ib_batch_no r) \<and> v191 (ib_sku r) \<and> int32 (ib_available r) \<and>
     int32 (ib_locked r) \<and> int32 (ib_defective r) \<and> int32 (ib_pending r) \<and> int32 (ib_quarantine r) \<and>
     unique_by ib_batch_no t self r"

definition ok_reservation :: "reservation tbl \<Rightarrow> int option \<Rightarrow> reservation \<Rightarrow> bool" where
  "ok_reservation t self r \<longleftrightarrow> int32 (ir_requested r) \<and> int32 (ir_reserved r) \<and>
     int32 (ir_shortage r) \<and> int32 (ir_priority r)"

definition ok_movement :: "movement tbl \<Rightarrow> int option \<Rightarrow> movement \<Rightarrow> bool" where
  "ok_movement t self r \<longleftrightarrow> v191 (im_sku r) \<and> int32 (im_quantity r) \<and>
     (case im_source_key r of None \<Rightarrow> True | Some k \<Rightarrow> v191 k) \<and> unique_opt im_source_key t self r"

definition ok_transfer :: "transfer tbl \<Rightarrow> int option \<Rightarrow> transfer \<Rightarrow> bool" where
  "ok_transfer t self r \<longleftrightarrow> v191 (it_no r) \<and> v191 (it_sku r) \<and> int32 (it_quantity r) \<and>
     unique_by it_no t self r"

definition ok_approval :: "approval tbl \<Rightarrow> int option \<Rightarrow> approval \<Rightarrow> bool" where
  "ok_approval t self r \<longleftrightarrow> v191 (ap_request_no r) \<and> unique_by ap_request_no t self r"

definition ok_warehouse :: "warehouse tbl \<Rightarrow> int option \<Rightarrow> warehouse \<Rightarrow> bool" where
  "ok_warehouse t self r \<longleftrightarrow> v191 (w_code r) \<and> v191 (w_type r) \<and> unique_by w_code t self r"

definition ok_stocktake :: "stocktake tbl \<Rightarrow> int option \<Rightarrow> stocktake \<Rightarrow> bool" where
  "ok_stocktake t self r \<longleftrightarrow> v191 (st_no r) \<and> unique_by st_no t self r"

definition ok_count :: "count_row tbl \<Rightarrow> int option \<Rightarrow> count_row \<Rightarrow> bool" where
  "ok_count t self r \<longleftrightarrow> v191 (sc_sku r) \<and> int32 (sc_available r) \<and> int32 (sc_locked r) \<and>
     int32 (sc_defective r) \<and> int32 (sc_pending r) \<and> int32 (sc_total r) \<and>
     unique_opt (\<lambda>c. map_option (\<lambda>b. (sc_stocktake c, sc_sku c, b, sc_round c)) (sc_batch c)) t self r"

definition ok_adjustment :: "adjustment tbl \<Rightarrow> int option \<Rightarrow> adjustment \<Rightarrow> bool" where
  "ok_adjustment t self r \<longleftrightarrow> length (sa_bucket r) \<le> 32 \<and> int32 (sa_snapshot r) \<and>
     int32 (sa_counted r) \<and> int32 (sa_variance r) \<and> int32 (sa_revision r) \<and>
     unique_by (\<lambda>a. (sa_stocktake a, sa_count a, sa_bucket a)) t self r"

definition ok_order :: "purchase_order tbl \<Rightarrow> int option \<Rightarrow> purchase_order \<Rightarrow> bool" where
  "ok_order t self r \<longleftrightarrow> v191 (po_no r) \<and> int32 (po_total r) \<and> unique_by po_no t self r"

definition ok_item :: "order_item tbl \<Rightarrow> int option \<Rightarrow> order_item \<Rightarrow> bool" where
  "ok_item t self r \<longleftrightarrow> v191 (oi_sku r) \<and> int32 (oi_quantity r) \<and> int32 (oi_received r) \<and>
     int32 (oi_unit_price r) \<and> int32 (oi_amount r) \<and>
     unique_opt (\<lambda>i. map_option (\<lambda>p. (oi_order i, oi_sku i, p)) (oi_supplier i)) t self r"

definition ok_receipt :: "receipt tbl \<Rightarrow> int option \<Rightarrow> receipt \<Rightarrow> bool" where
  "ok_receipt t self r \<longleftrightarrow> v191 (rc_no r) \<and> int32 (rc_quantity r) \<and>
     unique_by rc_no t self r \<and> unique_by rc_order_item t self r"

definition ok_execution :: "execution_order tbl \<Rightarrow> int option \<Rightarrow> execution_order \<Rightarrow> bool" where
  "ok_execution t self r \<longleftrightarrow> v191 (eo_no r) \<and> int32 (eo_planned r) \<and> int32 (eo_completed r) \<and>
     unique_by eo_no t self r"

definition ok_line :: "material_line tbl \<Rightarrow> int option \<Rightarrow> material_line \<Rightarrow> bool" where
  "ok_line t self r \<longleftrightarrow> int32 (ml_theoretical r) \<and> int32 (ml_reserved r) \<and> int32 (ml_issued r) \<and>
     int32 (ml_consumed r) \<and> int32 (ml_loss r)"

definition ok_report :: "report tbl \<Rightarrow> int option \<Rightarrow> report \<Rightarrow> bool" where
  "ok_report t self r \<longleftrightarrow> int32 (rp_actual r) \<and> int32 (rp_variance r) \<and> int32 (rp_rate_bps r) \<and>
     int32 (rp_company r) \<and> int32 (rp_factory_owned r)"

definition ok_inspection :: "inspection tbl \<Rightarrow> int option \<Rightarrow> inspection \<Rightarrow> bool" where
  "ok_inspection t self r \<longleftrightarrow> int32 (qi_batch_quantity r) \<and> int32 (qi_inspected r) \<and>
     int32 (qi_passed r) \<and> int32 (qi_failed r) \<and> int32 (qi_rate_bps r) \<and> int32 (qi_released r)"

definition ok_delivery :: "delivery tbl \<Rightarrow> int option \<Rightarrow> delivery \<Rightarrow> bool" where
  "ok_delivery t self r \<longleftrightarrow> v191 (dl_batch_no r) \<and> int32 (dl_quantity r) \<and>
     unique_by (\<lambda>d. (dl_order d, dl_batch_no d)) t self r"

definition ok_shipment_receipt :: "shipment_receipt tbl \<Rightarrow> int option \<Rightarrow> shipment_receipt \<Rightarrow> bool" where
  "ok_shipment_receipt t self r \<longleftrightarrow> int32 (sr_received r) \<and> int32 (sr_damaged r)"

definition ok_return :: "product_return tbl \<Rightarrow> int option \<Rightarrow> product_return \<Rightarrow> bool" where
  "ok_return t self r \<longleftrightarrow> v191 (rt_no r) \<and> v191 (rt_sku r) \<and> int32 (rt_quantity r) \<and>
     unique_by rt_no t self r"

definition ok_return_inspection :: "return_inspection tbl \<Rightarrow> int option \<Rightarrow> return_inspection \<Rightarrow> bool" where
  "ok_return_inspection t self r \<longleftrightarrow> int32 (ri_inspected r) \<and> int32 (ri_passed r) \<and> int32 (ri_failed r)"

definition ok_disposition :: "disposition tbl \<Rightarrow> int option \<Rightarrow> disposition \<Rightarrow> bool" where
  "ok_disposition t self r \<longleftrightarrow> v191 (rd_type r) \<and> int32 (rd_quantity r) \<and>
     unique_by (\<lambda>d. (rd_return d, rd_type d)) t self r"

definition ok_link :: "plan_link tbl \<Rightarrow> int option \<Rightarrow> plan_link \<Rightarrow> bool" where
  "ok_link t self r \<longleftrightarrow> int32 (pl_allocated r) \<and>
     unique_by (\<lambda>l. (pl_item l, pl_order_item l)) t self r"

definition ok_plan_item :: "plan_item tbl \<Rightarrow> int option \<Rightarrow> plan_item \<Rightarrow> bool" where
  "ok_plan_item t self r \<longleftrightarrow> v191 (pi_sku r) \<and> int32 (pi_planned r) \<and> int32 (pi_ordered r) \<and>
     unique_by (\<lambda>p. (pi_plan p, pi_arrival p, pi_factory p, pi_warehouse p, pi_sku p)) t self r"

definition ok_notification :: "notification tbl \<Rightarrow> int option \<Rightarrow> notification \<Rightarrow> bool" where
  "ok_notification t self r \<longleftrightarrow> v191 (nm_type r) \<and> int32 (nm_entity r)"

definition ok_invoice :: "invoice tbl \<Rightarrow> int option \<Rightarrow> invoice \<Rightarrow> bool" where
  "ok_invoice t self r \<longleftrightarrow> v191 (iv_no r) \<and> int32 (iv_amount r) \<and> int32 (iv_tax r) \<and> int32 (iv_expected r) \<and>
     int32 (iv_mismatch r) \<and> unique_by iv_no t self r"

definition ok_verification :: "verification tbl \<Rightarrow> int option \<Rightarrow> verification \<Rightarrow> bool" where
  "ok_verification t self r \<longleftrightarrow> unique_by (\<lambda>v. (vf_invoice v, vf_role v)) t self r"

definition ok_allocation :: "allocation tbl \<Rightarrow> int option \<Rightarrow> allocation \<Rightarrow> bool" where
  "ok_allocation t self r \<longleftrightarrow> int32 (aq_amount r) \<and> unique_by (\<lambda>a. (aq_invoice a, aq_request a)) t self r"

definition ok_payment_request :: "payment_request tbl \<Rightarrow> int option \<Rightarrow> payment_request \<Rightarrow> bool" where
  "ok_payment_request t self r \<longleftrightarrow> int32 (pq_covered r)"

definition ok_exception :: "invoice_exception tbl \<Rightarrow> int option \<Rightarrow> invoice_exception \<Rightarrow> bool" where
  "ok_exception t self r \<longleftrightarrow> int32 (ix_affected r) \<and> int32 (ix_covered r) \<and> int32 (ix_refunded r)"

definition ok_link_replacement :: "replacement_link tbl \<Rightarrow> int option \<Rightarrow> replacement_link \<Rightarrow> bool" where
  "ok_link_replacement t self r \<longleftrightarrow> int32 (rk_covered r) \<and> unique_by (\<lambda>l. (rk_exception l, rk_invoice l)) t self r"

definition ok_payment :: "payment tbl \<Rightarrow> int option \<Rightarrow> payment \<Rightarrow> bool" where
  "ok_payment t self r \<longleftrightarrow> int32 (py_amount r) \<and> unique_opt py_reverses t self r \<and> unique_opt py_corrects t self r"

definition ok_plan :: "purchase_plan tbl \<Rightarrow> int option \<Rightarrow> purchase_plan \<Rightarrow> bool" where
  "ok_plan t self r \<longleftrightarrow> v191 (pn_no r) \<and> int32 (pn_version r) \<and> unique_by (\<lambda>p. (pn_no p, pn_version p)) t self r"

definition ok_price :: "price_agreement tbl \<Rightarrow> int option \<Rightarrow> price_agreement \<Rightarrow> bool" where
  "ok_price t self r \<longleftrightarrow> int32 (pa_included r) \<and> int32 (pa_excluded r) \<and> int32 (pa_tax_bps r) \<and> v191 (pa_from r)"

definition ok_price_change :: "price_change tbl \<Rightarrow> int option \<Rightarrow> price_change \<Rightarrow> bool" where
  "ok_price_change t self r \<longleftrightarrow> int32 (pc_included r) \<and> int32 (pc_excluded r) \<and> int32 (pc_tax_bps r)"

definition ok_supplier :: "supplier tbl \<Rightarrow> int option \<Rightarrow> supplier \<Rightarrow> bool" where
  "ok_supplier t self r \<longleftrightarrow> v191 (su_code r) \<and> unique_by su_code t self r"

definition ok_supplier_sku :: "supplier_sku tbl \<Rightarrow> int option \<Rightarrow> supplier_sku \<Rightarrow> bool" where
  "ok_supplier_sku t self r \<longleftrightarrow> v191 (ss_sku r) \<and> v191 (ss_unit r) \<and> int32 (ss_priority r) \<and> int32 (ss_moq r) \<and>
     int32 (ss_multiple r) \<and> list_all int32 (map the (filter (\<lambda>x. x \<noteq> None) [ss_lead_days r, ss_daily r, ss_monthly r])) \<and>
     unique_by (\<lambda>q. (ss_factory q, ss_supplier q, ss_sku q)) t self r"

definition ok_sku :: "sku_row tbl \<Rightarrow> int option \<Rightarrow> sku_row \<Rightarrow> bool" where
  "ok_sku t self r \<longleftrightarrow> v191 (sk_code r) \<and> int32 (sk_over_production_bps r) \<and> int32 (sk_over_bps r) \<and>
     int32 (sk_under_bps r) \<and> unique_by sk_code t self r"

definition ok_bom :: "bom tbl \<Rightarrow> int option \<Rightarrow> bom \<Rightarrow> bool" where
  "ok_bom t self r \<longleftrightarrow> v191 (bo_finished_sku r) \<and> v191 (bo_version r) \<and>
     unique_by (\<lambda>b. (bo_finished_sku b, bo_version b)) t self r"

definition ok_component :: "component tbl \<Rightarrow> int option \<Rightarrow> component \<Rightarrow> bool" where
  "ok_component t self r \<longleftrightarrow> v191 (bc_sku r) \<and> int32 (bc_per_finished r) \<and> int32 (bc_issue_bps r) \<and>
     int32 (bc_consumption_bps r) \<and> int32 (bc_loss_bps r) \<and> unique_by (\<lambda>c. (bc_bom c, bc_sku c)) t self r"

definition ok_conversion :: "conversion tbl \<Rightarrow> int option \<Rightarrow> conversion \<Rightarrow> bool" where
  "ok_conversion t self r \<longleftrightarrow> v191 (cv_purchase_unit r) \<and> int32 (cv_purchase_quantity r) \<and> int32 (cv_stock_quantity r) \<and>
     unique_by (\<lambda>c. (cv_sku c, cv_purchase_unit c, cv_from c)) t self r"

definition ok_review :: "performance_review tbl \<Rightarrow> int option \<Rightarrow> performance_review \<Rightarrow> bool" where
  "ok_review t self r \<longleftrightarrow> int32 (sv_score r) \<and> unique_by (\<lambda>v. (sv_supplier v, sv_quarter v, sv_type v, sv_by v)) t self r"

definition ok_weights :: "weight_version tbl \<Rightarrow> int option \<Rightarrow> weight_version \<Rightarrow> bool" where
  "ok_weights t self r \<longleftrightarrow> list_all (\<lambda>(_, n). int32 n) (wv_weights r) \<and> unique_by (\<lambda>v. (wv_tier v, wv_from v)) t self r"

text \<open>Tables without a constraint on the columns written.\<close>

definition ok_any :: "'r tbl \<Rightarrow> int option \<Rightarrow> 'r \<Rightarrow> bool" where
  "ok_any t self r \<longleftrightarrow> True"

section \<open>Database state\<close>

text \<open>
  \<open>versions\<close>, \<open>fences\<close>, \<open>idempotency\<close> and \<open>business_keys\<close> are keyed by their unique index and
  therefore maps. A DATETIME column whose milliseconds serve as an object version is kept as that number.
  \<open>uuid_seq\<close> counts the random identifiers drawn so far (\<open>randomUUID\<close>).
\<close>

record db =
  uuid_seq :: nat
  fences :: "string \<Rightarrow> fence option"
  idempotency :: "string \<times> string \<times> string \<Rightarrow> idem option"
  versions :: "string \<times> string \<Rightarrow> int option"
  outbox_messages :: "outbox tbl"
  audit_logs :: "audit_row tbl"
  approvals :: "approval tbl"
  files :: "file_object tbl"
  challenges :: "challenge tbl"
  warehouses :: "warehouse tbl"
  batches :: "batch tbl"
  reservations :: "reservation tbl"
  movements :: "movement tbl"
  transfers :: "transfer tbl"
  stocktakes :: "stocktake tbl"
  counts :: "count_row tbl"
  adjustments :: "adjustment tbl"
  purchase_orders :: "purchase_order tbl"
  order_items :: "order_item tbl"
  plan_items :: "plan_item tbl"
  plan_links :: "plan_link tbl"
  receipts :: "receipt tbl"
  skus :: "sku_row tbl"
  boms :: "bom tbl"
  components :: "component tbl"
  execution_orders :: "execution_order tbl"
  material_lines :: "material_line tbl"
  reports :: "report tbl"
  quality_rules :: "quality_rule tbl"
  inspections :: "inspection tbl"
  deliveries :: "delivery tbl"
  evidences :: "evidence tbl"
  shipment_receipts :: "shipment_receipt tbl"
  exceptions :: "exception_row tbl"
  returns :: "product_return tbl"
  return_inspections :: "return_inspection tbl"
  dispositions :: "disposition tbl"
  users :: "user_row tbl"
  user_roles :: "user_role tbl"
  notifications :: "notification tbl"
  reminders :: "reminder tbl"
  invoice_exceptions :: "invoice_exception tbl"
  supplier_skus :: "supplier_sku tbl"
  payment_requests :: "payment_request tbl"
  request_items :: "request_item tbl"
  invoices :: "invoice tbl"
  verifications :: "verification tbl"
  invoice_allocations :: "allocation tbl"
  replacement_links :: "replacement_link tbl"
  payments :: "payment tbl"
  business_keys :: "string \<times> string \<Rightarrow> string option"
  factories :: "factory tbl"
  suppliers :: "supplier tbl"
  price_agreements :: "price_agreement tbl"
  price_changes :: "price_change tbl"
  purchase_plans :: "purchase_plan tbl"
  plan_responses :: "plan_response tbl"
  conversions :: "conversion tbl"
  performance_reviews :: "performance_review tbl"
  weight_versions :: "weight_version tbl"

type_synonym 'a run = "(db, 'a) cmd"

text \<open>The database before the first command.\<close>

definition empty_db :: db where
  "empty_db = \<lparr>
    uuid_seq = 0, fences = (\<lambda>_. None), idempotency = (\<lambda>_. None),
    versions = (\<lambda>_. None), outbox_messages = emptyT, audit_logs = emptyT,
    approvals = emptyT, files = emptyT, challenges = emptyT, warehouses = emptyT,
    batches = emptyT, reservations = emptyT, movements = emptyT, transfers = emptyT,
    stocktakes = emptyT, counts = emptyT, adjustments = emptyT, purchase_orders = emptyT,
    order_items = emptyT, plan_items = emptyT, plan_links = emptyT, receipts = emptyT,
    skus = emptyT, boms = emptyT, components = emptyT, execution_orders = emptyT,
    material_lines = emptyT, reports = emptyT, quality_rules = emptyT, inspections = emptyT,
    deliveries = emptyT, evidences = emptyT, shipment_receipts = emptyT, exceptions = emptyT,
    returns = emptyT, return_inspections = emptyT, dispositions = emptyT,
    users = emptyT, user_roles = emptyT, notifications = emptyT, reminders = emptyT,
    invoice_exceptions = emptyT, supplier_skus = emptyT, payment_requests = emptyT, request_items = emptyT,
    invoices = emptyT, verifications = emptyT, invoice_allocations = emptyT, replacement_links = emptyT,
    payments = emptyT, business_keys = (\<lambda>_. None), factories = emptyT, suppliers = emptyT,
    price_agreements = emptyT, price_changes = emptyT, purchase_plans = emptyT, plan_responses = emptyT,
    conversions = emptyT, performance_reviews = emptyT, weight_versions = emptyT\<rparr>"

lemma batches_update_same [simp]: "batches_update (\<lambda>t. t) s = s"
  by (cases s) simp

section \<open>Interpretations of the storage interface\<close>

interpretation batch_table: store_table batches batches_update
  by unfold_locales simp

interpretation reservation_table: store_table reservations reservations_update
  by unfold_locales simp

interpretation transfer_table: store_table transfers transfers_update
  by unfold_locales simp

end
