(* ===== verification/Dates.thy ===== *)
theory Dates
  imports Js
begin

text \<open>
  The part of JavaScript's \<open>Date\<close> the program relies on: a time is a number of milliseconds since
  1970-01-01 UTC, \<open>iso_string\<close> is \<open>toISOString\<close> and \<open>date_parse\<close> is \<open>Date.parse\<close> on the two
  formats the program writes, \<open>YYYY-MM-DD\<close> and \<open>YYYY-MM-DDTHH:mm:ss.sssZ\<close>; on any other text it
  is the argument \<open>other\<close>, the formats a JavaScript engine accepts beyond them.
\<close>

section \<open>Calendar\<close>

text \<open>Days since 1970-01-01 in the proleptic Gregorian calendar, counted from 1 March of year 0.\<close>

definition leap_year :: "int \<Rightarrow> bool" where
  "leap_year y \<longleftrightarrow> 4 dvd y \<and> (\<not> 100 dvd y \<or> 400 dvd y)"

definition days_in_month :: "int \<Rightarrow> int \<Rightarrow> int" where
  "days_in_month y m = (if m = 2 then (if leap_year y then 29 else 28)
     else if m \<in> {4, 6, 9, 11} then 30 else 31)"

definition days_from_civil :: "int \<Rightarrow> int \<Rightarrow> int \<Rightarrow> int" where
  "days_from_civil y m d =
     (let y' = (if m \<le> 2 then y - 1 else y); era = y' div 400; yoe = y' mod 400;
          doy = (153 * (if 2 < m then m - 3 else m + 9) + 2) div 5 + d - 1
      in era * 146097 + (yoe * 365 + yoe div 4 - yoe div 100 + doy) - 719468)"

definition civil_from_days :: "int \<Rightarrow> int \<times> int \<times> int" where
  "civil_from_days n =
     (let z = n + 719468; era = z div 146097; doe = z mod 146097;
          yoe = (doe - doe div 1460 + doe div 36524 - doe div 146096) div 365;
          doy = doe - (365 * yoe + yoe div 4 - yoe div 100);
          mp = (5 * doy + 2) div 153;
          d = doy - (153 * mp + 2) div 5 + 1;
          m = (if mp < 10 then mp + 3 else mp - 9)
      in ((if m \<le> 2 then 1 else 0) + yoe + era * 400, m, d))"

section \<open>Text\<close>

definition pad :: "nat \<Rightarrow> int \<Rightarrow> string" where
  "pad w n = (let ds = show_nat (nat n) in replicate (w - length ds) (CHR ''0'') @ ds)"

definition year_text :: "int \<Rightarrow> string" where
  "year_text y = (if 0 \<le> y \<and> y \<le> 9999 then pad 4 y
     else (if y < 0 then CHR ''-'' else CHR ''+'') # pad 6 \<bar>y\<bar>)"

definition iso_date :: "int \<Rightarrow> string" where
  "iso_date days = (let (y, m, d) = civil_from_days days in
     year_text y @ ''-'' @ pad 2 m @ ''-'' @ pad 2 d)"

definition iso_string :: "int \<Rightarrow> string" where
  "iso_string ms = (let t = ms mod 86400000 in
     iso_date (ms div 86400000) @ ''T'' @ pad 2 (t div 3600000) @ '':'' @ pad 2 (t div 60000 mod 60) @
       '':'' @ pad 2 (t div 1000 mod 60) @ ''.'' @ pad 3 (t mod 1000) @ ''Z'')"

definition number_at :: "string \<Rightarrow> nat \<Rightarrow> nat \<Rightarrow> int option" where
  "number_at s i n = (let ds = take n (drop i s) in
     if length ds = n \<and> list_all is_digit ds then Some (int (read_nat ds)) else None)"

definition char_is :: "string \<Rightarrow> nat \<Rightarrow> char \<Rightarrow> bool" where
  "char_is s i c \<longleftrightarrow> i < length s \<and> s ! i = c"

definition parse_day :: "string \<Rightarrow> int option" where
  "parse_day s = (case (number_at s 0 4, number_at s 5 2, number_at s 8 2) of
       (Some y, Some m, Some d) \<Rightarrow>
         if char_is s 4 (CHR ''-'') \<and> char_is s 7 (CHR ''-'') \<and> 1 \<le> m \<and> m \<le> 12 \<and> 1 \<le> d \<and> d \<le> days_in_month y m
         then Some (days_from_civil y m d) else None
     | _ \<Rightarrow> None)"

definition parse_clock :: "string \<Rightarrow> int option" where
  "parse_clock s = (case (number_at s 1 2, number_at s 4 2, number_at s 7 2, number_at s 10 3) of
       (Some h, Some mi, Some sec, Some ms) \<Rightarrow>
         if char_is s 0 (CHR ''T'') \<and> char_is s 3 (CHR '':'') \<and> char_is s 6 (CHR '':'') \<and> char_is s 9 (CHR ''.'') \<and>
           char_is s 13 (CHR ''Z'') \<and> length s = 14 \<and> h < 24 \<and> mi < 60 \<and> sec < 60
         then Some (h * 3600000 + mi * 60000 + sec * 1000 + ms) else None
     | _ \<Rightarrow> None)"

definition date_parse :: "(string \<Rightarrow> int option) \<Rightarrow> string \<Rightarrow> int option" where
  "date_parse other s = (case parse_day s of
       None \<Rightarrow> other s
     | Some day \<Rightarrow> if length s = 10 then Some (day * 86400000)
         else (case parse_clock (drop 10 s) of
             None \<Rightarrow> other s
           | Some t \<Rightarrow> Some (day * 86400000 + t)))"

text \<open>\<open>setUTCFullYear(getUTCFullYear() + k)\<close>: 29 February becomes 1 March in a common year.\<close>

definition add_years :: "int \<Rightarrow> int \<Rightarrow> int" where
  "add_years k ms = (let (y, m, d) = civil_from_days (ms div 86400000) in
     days_from_civil (y + k) m d * 86400000 + ms mod 86400000)"

lemma calendar_samples:
  "iso_string 1735689600000 = ''2025-01-01T00:00:00.000Z''"
  "iso_string 1709251199999 = ''2024-02-29T23:59:59.999Z''"
  "date_parse other ''2024-02-29T23:59:59.999Z'' = Some 1709251199999"
  "date_parse other ''2025-01-01'' = Some 1735689600000"
  "iso_string (add_years 5 1709251199999) = ''2029-03-01T23:59:59.999Z''"
  by code_simp+

end
