(* ===== verification/Support.thy ===== *)
theory Support
  imports Schema Dates
begin

text \<open>
  The helpers every operations command is written with: \<open>platform/operations-support.ts\<close>
  (argument validation, roles, the optimistic-version rows, audit and domain events),
  \<open>platform/outbox.ts\<close> and \<open>infrastructure/audit.ts\<close>. The clock, the digest function and the
  source of random identifiers are arguments, bundled in \<open>env\<close>: \<open>sql_now\<close> is the text of
  CURRENT_TIMESTAMP(3) and \<open>sql_ms\<close> its milliseconds as TIMESTAMPDIFF counts them.
\<close>

section \<open>Environment, caller and request\<close>

record env =
  sql_now :: string
  sql_ms :: int
  sql_today :: string
  js_ms :: int
  date_other :: "string \<Rightarrow> int option"
  uuid_of :: "nat \<Rightarrow> string"
  sha256 :: "string \<Rightarrow> string"
  url_parse :: "string \<Rightarrow> (string \<times> string) option"
  upper_other :: "string \<Rightarrow> string"

text \<open>
  \<open>toUpperCase\<close>: ASCII letters are mapped here, \<open>upper_other\<close> is its result on a text with other
  characters (the Unicode tables).
\<close>

definition upper_char :: "char \<Rightarrow> char" where
  "upper_char c = (let n = (of_char c :: nat) in if 97 \<le> n \<and> n \<le> 122 then char_of (n - 32) else c)"

definition toUpperCase :: "env \<Rightarrow> string \<Rightarrow> string" where
  "toUpperCase e t = (if list_all (\<lambda>c. (of_char c :: nat) < 128) t then map upper_char t else upper_other e t)"

text \<open>\<open>new Date().toISOString()\<close> and the same a number of milliseconds later.\<close>

definition js_after :: "env \<Rightarrow> int \<Rightarrow> string" where
  "js_after e offset = iso_string (js_ms e + offset)"

definition js_now :: "env \<Rightarrow> string" where
  "js_now e = js_after e 0"

definition js_in_24h :: "env \<Rightarrow> string" where
  "js_in_24h e = js_after e 86400000"

record access =
  a_session :: "int option"
  a_user :: int
  a_roles :: "string list"
  a_factory :: "int option"
  a_supplier :: "int option"
  a_local_preview :: bool

datatype header = HOne string | HMany "string list"

record request =
  r_header :: "string \<Rightarrow> header option"
  r_protocol :: string

record cctx =
  c_env :: env
  c_access :: access
  c_request :: request

definition bad_request :: "string \<Rightarrow> error" where
  "bad_request m = PlatformError 400 BAD_REQUEST m"

definition forbidden :: "string \<Rightarrow> error" where
  "forbidden m = PlatformError 403 FORBIDDEN m"

definition not_found :: "string \<Rightarrow> error" where
  "not_found m = PlatformError 404 NOT_FOUND m"

definition conflict :: "string \<Rightarrow> error" where
  "conflict m = PlatformError 409 CONFLICT m"

definition version_conflict :: "string \<Rightarrow> error" where
  "version_conflict m = PlatformError 409 VERSION_CONFLICT m"

definition randomUUID :: "env \<Rightarrow> string run" where
  "randomUUID e = (\<lambda>s. Inr (uuid_of e (uuid_seq s), s\<lparr>uuid_seq := uuid_seq s + 1\<rparr>))"

section \<open>Argument validation\<close>

definition integer :: "json option \<Rightarrow> string \<Rightarrow> int \<Rightarrow> int run" where
  "integer v name minimum = (case to_safe_integer v of
       None \<Rightarrow> throwC (bad_request (''Invalid '' @ name))
     | Some n \<Rightarrow> if n < minimum then throwC (bad_request (''Invalid '' @ name)) else returnC n)"

definition absent :: "json option \<Rightarrow> bool" where
  "absent v \<longleftrightarrow> v = None \<or> v = Some JNull \<or> v = Some (JStr [])"

definition optionalInteger :: "json option \<Rightarrow> string \<Rightarrow> int option run" where
  "optionalInteger v name =
     (if absent v then returnC None else bindC (integer v name 1) (\<lambda>n. returnC (Some n)))"

definition stringC :: "json option \<Rightarrow> string \<Rightarrow> nat \<Rightarrow> string run" where
  "stringC v name maximum = (case v of
       Some (JStr s) \<Rightarrow>
         if trim s = [] \<or> maximum < length (trim s) then throwC (bad_request (''Invalid '' @ name))
         else returnC (trim s)
     | _ \<Rightarrow> throwC (bad_request (''Invalid '' @ name)))"

definition optionalString :: "json option \<Rightarrow> nat \<Rightarrow> string run" where
  "optionalString v maximum = (case v of
       None \<Rightarrow> returnC []
     | Some JNull \<Rightarrow> returnC []
     | Some (JStr s) \<Rightarrow> if maximum < length (trim s) then throwC (bad_request ''Invalid text value'')
                        else returnC (trim s)
     | _ \<Rightarrow> throwC (bad_request ''Invalid text value''))"

definition oneOf :: "json option \<Rightarrow> string list \<Rightarrow> string \<Rightarrow> string run" where
  "oneOf v vals name = (case v of
       Some (JStr s) \<Rightarrow> if s \<in> set vals then returnC s else throwC (bad_request (''Invalid '' @ name))
     | _ \<Rightarrow> throwC (bad_request (''Invalid '' @ name)))"

definition jsonObject :: "json \<Rightarrow> (string \<times> json) list run" where
  "jsonObject v = (case v of JObj kvs \<Rightarrow> returnC kvs
     | _ \<Rightarrow> throwC (bad_request ''Invalid request body''))"

section \<open>Roles\<close>

definition hasRole :: "access \<Rightarrow> string list \<Rightarrow> bool" where
  "hasRole a roles \<longleftrightarrow> list_ex (\<lambda>r. r \<in> set roles) (a_roles a)"

definition requireRole :: "access \<Rightarrow> string list \<Rightarrow> unit run" where
  "requireRole a roles = guardC (hasRole a roles) (forbidden ''Forbidden scope'')"

definition internal :: "access \<Rightarrow> bool" where
  "internal a \<longleftrightarrow> hasRole a [''admin'', ''supply_chain'', ''finance'', ''company_qc'']"

section \<open>Resource versions\<close>

definition lockVersion :: "string \<Rightarrow> string \<Rightarrow> int run" where
  "lockVersion ty i =
     bindC (modifyC (\<lambda>s. if versions s (ty, i) = None
       then s\<lparr>versions := (versions s)((ty, i) := Some 1)\<rparr> else s)) (\<lambda>_.
     bindC (queryC (\<lambda>s. versions s (ty, i))) (\<lambda>v. case v of
       None \<Rightarrow> throwC (version_conflict ''Resource version unavailable'')
     | Some n \<Rightarrow> if n < 1 then throwC (version_conflict ''Resource version unavailable'')
                 else returnC n))"

definition bumpVersion :: "string \<Rightarrow> string \<Rightarrow> int \<Rightarrow> int run" where
  "bumpVersion ty i version =
     bindC (queryC (\<lambda>s. versions s (ty, i))) (\<lambda>v.
     if v \<noteq> Some version then throwC (version_conflict ''Resource version changed'')
     else if \<not> int32 (version + 1) then throwC DatabaseError
     else bindC (modifyC (\<lambda>s. s\<lparr>versions := (versions s)((ty, i) := Some (version + 1))\<rparr>))
       (\<lambda>_. returnC (version + 1)))"

section \<open>Audit writer\<close>

definition archiveAfter :: "env \<Rightarrow> string" where
  "archiveAfter e = iso_string (add_years 5 (js_ms e))"

definition requiredText :: "string \<Rightarrow> string run" where
  "requiredText s = (if s = [] \<or> 200 < length s then throwC AuditUnavailableError else returnC s)"

definition optionalText :: "string option \<Rightarrow> string option run" where
  "optionalText v = (case v of None \<Rightarrow> returnC None | Some [] \<Rightarrow> returnC None
     | Some s \<Rightarrow> bindC (requiredText s) (\<lambda>t. returnC (Some t)))"

definition header_text :: "request \<Rightarrow> string \<Rightarrow> nat \<Rightarrow> string option" where
  "header_text r name maximum = (case r_header r name of
       Some (HOne s) \<Rightarrow> if maximum < length s then None else Some s
     | _ \<Rightarrow> None)"

definition ok_audit :: "audit_row tbl \<Rightarrow> int option \<Rightarrow> audit_row \<Rightarrow> bool" where
  "ok_audit t self r \<longleftrightarrow> (case al_actor r of None \<Rightarrow> True | Some u \<Rightarrow> int32 u) \<and> (case al_device r of None \<Rightarrow> True | Some d \<Rightarrow> v191 d)"

definition writeAudit :: "bool \<Rightarrow> cctx \<Rightarrow> string \<Rightarrow> string \<Rightarrow> string \<Rightarrow> string \<Rightarrow> string option \<Rightarrow>
    json option \<Rightarrow> json option \<Rightarrow> unit run" where
  "writeAudit sensitive c action area entityType entityId businessNo before after =
     (if a_local_preview (c_access c) then returnC ()
      else if a_user (c_access c) \<le> 0 \<or> 9007199254740991 < a_user (c_access c)
        then throwC AuditUnavailableError
      else
        bindC (requiredText action) (\<lambda>act.
        bindC (requiredText area) (\<lambda>m.
        bindC (requiredText entityType) (\<lambda>ety.
        bindC (requiredText entityId) (\<lambda>eid.
        bindC (optionalText businessNo) (\<lambda>bno.
        catchC (bindC (insertC audit_logs audit_logs_update ok_audit
            \<lparr>al_actor = Some (a_user (c_access c)), al_action = act, al_module = m, al_entity_type = ety,
             al_entity_id = eid, al_business_no = bno, al_before = before, al_after = after,
             al_ip = header_text (c_request c) ''x-real-ip'' 100,
             al_device = header_text (c_request c) ''x-topology-device-id'' 200,
             al_sensitive = sensitive, al_exported = False,
             al_archive_after = archiveAfter (c_env c)\<rparr>) (\<lambda>_. returnC ()))
          (\<lambda>_. throwC AuditUnavailableError)))))))"

definition audit :: "cctx \<Rightarrow> string \<Rightarrow> string \<Rightarrow> string \<Rightarrow> string \<Rightarrow> string option \<Rightarrow>
    json option \<Rightarrow> json option \<Rightarrow> unit run" where
  "audit = writeAudit False"

section \<open>Outbox\<close>

definition ok_outbox :: "outbox tbl \<Rightarrow> int option \<Rightarrow> outbox \<Rightarrow> bool" where
  "ok_outbox t self r \<longleftrightarrow> v191 (ob_topic r) \<and> v191 (ob_aggregate_type r) \<and> v191 (ob_aggregate_id r)
     \<and> v191 (ob_dedup r) \<and> int32 (ob_attempts r) \<and> int32 (ob_max_attempts r)
     \<and> unique_by ob_dedup t self r"

definition enqueueOutbox :: "env \<Rightarrow> string \<Rightarrow> string \<Rightarrow> string \<Rightarrow> string \<Rightarrow> json \<Rightarrow> unit run" where
  "enqueueOutbox e topic aggregateType aggregateId dedup payload =
     bindC (insertC outbox_messages outbox_messages_update ok_outbox
       \<lparr>ob_topic = topic, ob_aggregate_type = aggregateType, ob_aggregate_id = aggregateId,
        ob_dedup = dedup, ob_payload = payload, ob_status = ''pending'', ob_available_at = js_now e,
        ob_attempts = 0, ob_max_attempts = 8, ob_locked_by = None, ob_locked_at = None,
        ob_last_error = None, ob_completed_at = None\<rparr>) (\<lambda>_. returnC ())"

datatype recipient = RNone | RRole string | RUser int | REntity string string

fun recipient_json :: "recipient \<Rightarrow> json" where
  "recipient_json RNone = JObj [(''kind'', JStr ''none'')]"
| "recipient_json (RRole r) = JObj [(''kind'', JStr ''role''), (''role'', JStr r)]"
| "recipient_json (RUser u) = JObj [(''kind'', JStr ''user''), (''userId'', jint u)]"
| "recipient_json (REntity ety eid) = JObj [(''kind'', JStr ''entity_binding''), (''role'', JStr ''factory''),
     (''entityType'', JStr ety), (''entityId'', JStr eid)]"

definition event_key :: "string \<Rightarrow> string \<Rightarrow> string \<Rightarrow> string option \<Rightarrow> string" where
  "event_key type aggregateType aggregateId sfx =
     ''r3:'' @ type @ '':'' @ aggregateType @ '':'' @ aggregateId @
       (case sfx of None \<Rightarrow> [] | Some x \<Rightarrow> CHR '':'' # x)"

definition domainEvent :: "cctx \<Rightarrow> string \<Rightarrow> string \<Rightarrow> string \<Rightarrow> string option \<Rightarrow> recipient \<Rightarrow>
    (string \<times> json) list \<Rightarrow> unit run" where
  "domainEvent c type aggregateType aggregateId sfx recipient payload =
     enqueueOutbox (c_env c) ''domain.event'' aggregateType aggregateId
       (event_key type aggregateType aggregateId sfx)
       (JObj [(''schemaVersion'', jint 1), (''entityType'', JStr aggregateType),
              (''entityId'', JStr aggregateId), (''eventType'', JStr type),
              (''recipient'', recipient_json recipient), (''data'', JObj payload)])"

section \<open>Evidence files\<close>

text \<open>\<open>modules/files/support.ts\<close>: evidence must be in the caller's scope, bound to the object, and clean.\<close>

definition requireCleanFile :: "access \<Rightarrow> int \<Rightarrow> string \<Rightarrow> string \<Rightarrow> string \<Rightarrow> file_object run" where
  "requireCleanFile a fileId category entityType entityId =
     bindC (queryC (\<lambda>s. fetch (files s) fileId)) (\<lambda>found.
     bindC (requireC found (not_found ''File not found'')) (\<lambda>f.
     bindC (guardC (fo_owner f = a_user a \<or> internal a \<or> a_factory a \<noteq> None \<and> fo_factory f = a_factory a \<or>
         a_supplier a \<noteq> None \<and> fo_supplier f = a_supplier a) (forbidden ''Forbidden file scope'')) (\<lambda>_.
     bindC (guardC (fo_category f = category \<and> fo_entity_type f = Some entityType \<and> fo_entity_id f = Some entityId)
       (forbidden ''File is not bound to this object'')) (\<lambda>_.
     bindC (guardC (fo_scan_status f = ''clean'') (PlatformError 409 FILE_QUARANTINED ''File is not ready'')) (\<lambda>_.
     returnC f)))))"

section \<open>Rules for the helpers\<close>

lemma frames_uuid [frame_rules]: "(\<And>f s. v (uuid_seq_update f s) = v s) \<Longrightarrow> frames v (randomUUID e)"
  by (simp add: frames_def randomUUID_def)

lemma frames_integer [frame_rules]: "frames v (integer x n m)"
  by (simp add: integer_def frames_return frames_throw split: option.split)

lemma frames_optionalInteger [frame_rules]: "frames v (optionalInteger x n)"
  unfolding optionalInteger_def by (intro frame_rules)

lemma frames_stringC [frame_rules]: "frames v (stringC x n m)"
  by (simp add: stringC_def frames_return frames_throw split: option.split json.split)

lemma frames_optionalString [frame_rules]: "frames v (optionalString x m)"
  by (simp add: optionalString_def frames_return frames_throw split: option.split json.split)

lemma frames_oneOf [frame_rules]: "frames v (oneOf x vs n)"
  by (simp add: oneOf_def frames_return frames_throw split: option.split json.split)

lemma frames_jsonObject [frame_rules]: "frames v (jsonObject x)"
  by (simp add: jsonObject_def frames_return frames_throw split: json.split)

lemma frames_requireRole [frame_rules]: "frames v (requireRole a rs)"
  unfolding requireRole_def by (intro frame_rules)

lemma frames_lockVersion [frame_rules]:
  "(\<And>f s. v (versions_update f s) = v s) \<Longrightarrow> frames v (lockVersion ty i)"
  unfolding lockVersion_def by (intro frame_rules frames_modify) simp

lemma frames_bumpVersion [frame_rules]:
  "(\<And>f s. v (versions_update f s) = v s) \<Longrightarrow> frames v (bumpVersion ty i n)"
  unfolding bumpVersion_def by (intro frame_rules frames_modify) simp

lemma frames_requiredText [frame_rules]: "frames v (requiredText x)"
  unfolding requiredText_def by (intro frame_rules)

lemma frames_optionalText [frame_rules]: "frames v (optionalText x)"
  unfolding optionalText_def by (auto split: option.split list.split intro!: frame_rules)

lemma frames_writeAudit [frame_rules]:
  "(\<And>f s. v (audit_logs_update f s) = v s) \<Longrightarrow> frames v (writeAudit sensitive c a m t i b x y)"
  unfolding writeAudit_def by (intro frame_rules frames_insert)

lemma frames_audit [frame_rules]:
  "(\<And>f s. v (audit_logs_update f s) = v s) \<Longrightarrow> frames v (audit c a m t i b x y)"
  unfolding audit_def by (rule frames_writeAudit)

lemma frames_outbox [frame_rules]:
  "(\<And>f s. v (outbox_messages_update f s) = v s) \<Longrightarrow> frames v (enqueueOutbox e t a i d p)"
  unfolding enqueueOutbox_def by (intro frame_rules frames_insert)

lemma frames_cleanFile [frame_rules]: "frames v (requireCleanFile a i cat ety eid)"
  unfolding requireCleanFile_def by (intro frame_rules)

lemma frames_domainEvent [frame_rules]:
  "(\<And>f s. v (outbox_messages_update f s) = v s) \<Longrightarrow> frames v (domainEvent c t a i x r p)"
  unfolding domainEvent_def by (rule frames_outbox)

lemma integer_Inr: "integer v name m s = Inr r \<longleftrightarrow>
    (\<exists>n. to_safe_integer v = Some n \<and> m \<le> n \<and> r = (n, s))"
  by (auto simp: integer_def returnC_def throwC_def split: option.split)

lemma wp_integer [wp_simps]:
  "wp (integer v name m) Q s = (\<forall>n. to_safe_integer v = Some n \<and> m \<le> n \<longrightarrow> Q n s)"
  by (auto simp: wp_def integer_def returnC_def throwC_def split: option.split)

lemma wp_requireRole [wp_simps]: "wp (requireRole a rs) Q s = (hasRole a rs \<longrightarrow> Q () s)"
  by (simp add: requireRole_def wp_guard)

lemma wp_oneOf: "(\<And>x. x \<in> set vs \<Longrightarrow> v = Some (JStr x) \<Longrightarrow> Q x s) \<Longrightarrow> wp (oneOf v vs n) Q s"
  by (auto simp: wp_def oneOf_def returnC_def throwC_def split: option.split json.split)

text \<open>
  The helpers as introduction rules: the validators return what they checked, and the version,
  audit and event helpers change one table each, whatever they write there.
\<close>

lemma wp_integerI [wp_intros]:
  "(\<And>n. to_safe_integer v = Some n \<Longrightarrow> m \<le> n \<Longrightarrow> Q n s) \<Longrightarrow> wp (integer v name m) Q s"
  by (simp add: wp_integer)

lemma wp_optionalIntegerI [wp_intros]:
  "(absent v \<Longrightarrow> Q None s) \<Longrightarrow> (\<And>n. \<not> absent v \<Longrightarrow> to_safe_integer v = Some n \<Longrightarrow> 1 \<le> n \<Longrightarrow> Q (Some n) s) \<Longrightarrow>
    wp (optionalInteger v name) Q s"
  by (simp add: optionalInteger_def wp_simps)

lemma wp_stringI [wp_intros]:
  "(\<And>t. v = Some (JStr t) \<Longrightarrow> trim t \<noteq> [] \<Longrightarrow> length (trim t) \<le> m \<Longrightarrow> Q (trim t) s) \<Longrightarrow> wp (stringC v name m) Q s"
  by (auto simp: wp_def stringC_def returnC_def throwC_def split: option.split json.split)

lemma wp_optionalStringI [wp_intros]:
  "(\<And>t. length t \<le> m \<Longrightarrow> Q t s) \<Longrightarrow> wp (optionalString v m) Q s"
  by (auto simp: wp_def optionalString_def returnC_def throwC_def split: option.split json.split)

lemma wp_oneOfI [wp_intros]:
  "(\<And>t. v = Some (JStr t) \<Longrightarrow> t \<in> set vs \<Longrightarrow> Q t s) \<Longrightarrow> wp (oneOf v vs name) Q s"
  by (auto simp: wp_def oneOf_def returnC_def throwC_def split: option.split json.split)

lemma wp_jsonObjectI [wp_intros]: "(\<And>kvs. v = JObj kvs \<Longrightarrow> Q kvs s) \<Longrightarrow> wp (jsonObject v) Q s"
  by (auto simp: wp_def jsonObject_def returnC_def throwC_def split: json.split)

lemma wp_requireRoleI [wp_intros]: "(hasRole a rs \<Longrightarrow> Q () s) \<Longrightarrow> wp (requireRole a rs) Q s"
  by (simp add: wp_requireRole)

lemma wp_uuidI [wp_intros]: "(\<And>n. Q (uuid_of e (uuid_seq s)) (s\<lparr>uuid_seq := n\<rparr>)) \<Longrightarrow> wp (randomUUID e) Q s"
  by (simp add: wp_def randomUUID_def)

lemma wp_lockVersionI [wp_intros]:
  assumes "\<And>vs n. Q n (s\<lparr>versions := vs\<rparr>)"
  shows "wp (lockVersion ty i) Q s"
proof -
  have "Q n s" for n using assms [of n "versions s"] by simp
  with assms show ?thesis
    by (auto simp: lockVersion_def wp_simps intro!: wp_intros split: option.split)
qed

lemma wp_bumpVersionI [wp_intros]:
  "(\<And>vs. Q (n + 1) (s\<lparr>versions := vs\<rparr>)) \<Longrightarrow> wp (bumpVersion ty i n) Q s"
  by (auto simp: bumpVersion_def wp_simps)

lemma wp_outboxI [wp_intros]:
  assumes "\<And>f. Q () (outbox_messages_update f s)"
  shows "wp (enqueueOutbox e t a i d p) Q s"
  using assms unfolding enqueueOutbox_def by (auto simp: wp_simps)

lemma wp_domainEventI [wp_intros]:
  "(\<And>f. Q () (outbox_messages_update f s)) \<Longrightarrow> wp (domainEvent c ty a i x r p) Q s"
  unfolding domainEvent_def by (rule wp_outboxI)

lemma wp_cleanFileI [wp_intros]:
  "(\<And>f. fetch (files s) i = Some f \<Longrightarrow> fo_scan_status f = ''clean'' \<Longrightarrow> fo_category f = cat \<Longrightarrow>
      fo_entity_type f = Some ety \<Longrightarrow> fo_entity_id f = Some eid \<Longrightarrow> Q f s) \<Longrightarrow> wp (requireCleanFile a i cat ety eid) Q s"
  unfolding requireCleanFile_def by (intro wp_intros) simp

text \<open>A domain event is stored under its key, which no earlier message has.\<close>

definition outbox_keys :: "db \<Rightarrow> string set" where
  "outbox_keys s = (\<lambda>(_, r). ob_dedup r) ` set (rows (outbox_messages s))"

lemma wp_domainEvent_key:
  assumes "\<And>f. event_key t a i x \<notin> outbox_keys s \<Longrightarrow>
      event_key t a i x \<in> outbox_keys (outbox_messages_update f s) \<Longrightarrow> Q () (outbox_messages_update f s)"
  shows "wp (domainEvent c t a i x r p) Q s"
  unfolding domainEvent_def enqueueOutbox_def
  by (intro wp_intros assms)
    (auto simp: ok_outbox_def unique_by_def outbox_keys_def insertT_def list_all_iff)

lemma wp_writeAuditI [wp_intros]:
  assumes "\<And>f. Q () (audit_logs_update f s)"
  shows "wp (writeAudit sensitive c a m t i b x y) Q s"
proof -
  have "Q () s" using assms [of "\<lambda>t. t"] by (cases s) simp
  with assms show ?thesis
    by (auto simp: writeAudit_def wp_simps requiredText_def optionalText_def wp_def returnC_def throwC_def
        bindC_def insertC_def catchC_def split: option.split list.split)
qed

lemma wp_auditI [wp_intros]: "(\<And>f. Q () (audit_logs_update f s)) \<Longrightarrow> wp (audit c a m t i b x y) Q s"
  unfolding audit_def by (rule wp_writeAuditI)

section \<open>Sample inputs\<close>

text \<open>A concrete environment, caller and request at which the properties are applied.\<close>

definition sample_env :: env where
  "sample_env = \<lparr>sql_now = ''2025-01-01 08:00:00.000'', sql_ms = 1735718400000,
     sql_today = ''2025-01-01'',
     js_ms = 1735689600000, date_other = (\<lambda>_. None),
     uuid_of = (\<lambda>n. ''uuid-'' @ replicate n (CHR ''x'')), sha256 = (\<lambda>t. t),
     url_parse = (\<lambda>u. if u = ''https://a'' then Some (''https:'', ''a'') else None),
     upper_other = (\<lambda>t. t)\<rparr>"

lemma sample_now [simp]: "js_now sample_env = ''2025-01-01T00:00:00.000Z''"
  by code_simp

definition sample_access :: access where
  "sample_access = \<lparr>a_session = Some 1, a_user = 1, a_roles = [''admin''], a_factory = None,
     a_supplier = None, a_local_preview = False\<rparr>"

definition sample_request :: request where
  "sample_request = \<lparr>r_header = map_of
      [(''idempotency-key'', HOne ''key-0123456789abc''), (''origin'', HOne ''https://a''),
       (''host'', HOne ''a''), (''x-csrf-token'', HOne (replicate 64 (CHR ''0''))),
       (''cookie'', HOne (''topology_csrf='' @ replicate 64 (CHR ''0'')))],
     r_protocol = ''https''\<rparr>"

definition sample_ctx :: cctx where
  "sample_ctx = \<lparr>c_env = sample_env, c_access = sample_access, c_request = sample_request\<rparr>"

definition succeeds :: "error + ('a \<times> 's) \<Rightarrow> bool" where
  "succeeds r = (case r of Inl _ \<Rightarrow> False | Inr _ \<Rightarrow> True)"

lemma succeedsE: "succeeds r \<Longrightarrow> (\<And>v s'. r = Inr (v, s') \<Longrightarrow> thesis) \<Longrightarrow> thesis"
  by (cases r) (auto simp: succeeds_def)

end
