(* ===== verification/Stock.thy ===== *)
theory Stock
  imports Support
begin

text \<open>
  What the inventory, production, receiving and quality commands share: the stocktake freeze and
  the warehouse scope checks (\<open>modules/stocktakes/support.ts\<close>, \<open>modules/warehouses/support.ts\<close>)
  and the invariant of the stock tables. The invariant says that no bucket of a batch is negative,
  that a reservation holds at most what it asked for less its shortage, and that the locked bucket of a batch
  covers the active reservations on it.
\<close>

section \<open>Freeze and scope\<close>

definition lockWarehouseFreeze :: "int \<Rightarrow> unit run" where
  "lockWarehouseFreeze warehouseId =
     bindC (lockVersion ''warehouse_inventory_freeze'' (show_int warehouseId)) (\<lambda>_. returnC ())"

definition frozen :: "db \<Rightarrow> int \<Rightarrow> string option \<Rightarrow> bool" where
  "frozen s warehouseId sku = list_ex (\<lambda>(i, st). st_warehouse st = warehouseId \<and>
     st_status st \<in> set [''first_count'', ''recount'', ''pending_approval''] \<and>
     (sku = None \<or> st_scope st = ''full_warehouse'' \<or>
      list_ex (\<lambda>(_, c). sc_stocktake c = i \<and> sc_round c = 0 \<and> sku = Some (sc_sku c)) (rows (counts s))))
     (rows (stocktakes s))"

definition freezeExists :: "int \<Rightarrow> string option \<Rightarrow> bool run" where
  "freezeExists warehouseId sku =
     bindC (lockWarehouseFreeze warehouseId) (\<lambda>_. queryC (\<lambda>s. frozen s warehouseId sku))"

definition requireWarehouseScope :: "access \<Rightarrow> int \<Rightarrow> warehouse run" where
  "requireWarehouseScope a warehouseId =
     bindC (queryC (\<lambda>s. fetch (warehouses s) warehouseId)) (\<lambda>found.
     bindC (requireC found (not_found ''Warehouse not found'')) (\<lambda>w.
     bindC (guardC (internal a \<or> a_factory a \<noteq> None \<and> w_factory w = a_factory a)
       (forbidden ''Forbidden warehouse scope'')) (\<lambda>_.
     returnC w)))"

lemma wp_freezeI [wp_intros]:
  "(\<And>vs. Q () (s\<lparr>versions := vs\<rparr>)) \<Longrightarrow> wp (lockWarehouseFreeze w) Q s"
  unfolding lockWarehouseFreeze_def by (intro wp_intros)

lemma frozen_versions [simp]: "frozen (s\<lparr>versions := vs\<rparr>) w sku = frozen s w sku"
  by (simp add: frozen_def)

lemma wp_freezeExistsI [wp_intros]:
  "(\<And>vs. Q (frozen s w sku) (s\<lparr>versions := vs\<rparr>)) \<Longrightarrow> wp (freezeExists w sku) Q s"
  unfolding freezeExists_def by (intro wp_intros) simp

lemma wp_warehouseScopeI [wp_intros]:
  "(\<And>w. fetch (warehouses s) i = Some w \<Longrightarrow> internal a \<or> a_factory a \<noteq> None \<and> w_factory w = a_factory a \<Longrightarrow>
      Q w s) \<Longrightarrow> wp (requireWarehouseScope a i) Q s"
  unfolding requireWarehouseScope_def by (intro wp_intros)

lemma frames_freeze [frame_rules]:
  "(\<And>f s. v (versions_update f s) = v s) \<Longrightarrow> frames v (lockWarehouseFreeze w)"
  unfolding lockWarehouseFreeze_def by (intro frame_rules)

lemma frames_freezeExists [frame_rules]:
  "(\<And>f s. v (versions_update f s) = v s) \<Longrightarrow> frames v (freezeExists w sku)"
  unfolding freezeExists_def by (intro frame_rules)

lemma frames_warehouseScope [frame_rules]: "frames v (requireWarehouseScope a w)"
  unfolding requireWarehouseScope_def by (intro frame_rules)

section \<open>The stock invariant\<close>

text \<open>Every row of a table satisfies a condition, as a rewrite rule for each table operation.\<close>

definition each_row :: "('r \<Rightarrow> bool) \<Rightarrow> 'r tbl \<Rightarrow> bool" where
  "each_row P t \<longleftrightarrow> wf_tbl t \<and> (\<forall>(_, r) \<in> set (rows t). P r)"

lemma each_rowD: "each_row P t \<Longrightarrow> fetch t i = Some r \<Longrightarrow> P r"
  by (auto simp: each_row_def dest: fetch_in_rows)

lemma each_row_wf: "each_row P t \<Longrightarrow> wf_tbl t"
  by (simp add: each_row_def)

lemma each_row_insert [intro!]: "each_row P t \<Longrightarrow> P r \<Longrightarrow> each_row P (insertT r t)"
  by (auto simp: each_row_def insertT_def) (auto simp: insertT_def wf_tbl_def)

lemma each_row_update [intro!]: "each_row P t \<Longrightarrow> (\<And>j r. P r \<Longrightarrow> p j r \<Longrightarrow> P (f r)) \<Longrightarrow> each_row P (updateT p f t)"
  by (auto simp: each_row_def) (auto simp: updateT_def)

text \<open>Every row of a table, with its key, satisfies a condition.\<close>

definition each_key :: "(int \<Rightarrow> 'r \<Rightarrow> bool) \<Rightarrow> 'r tbl \<Rightarrow> bool" where
  "each_key P t \<longleftrightarrow> wf_tbl t \<and> (\<forall>i r. fetch t i = Some r \<longrightarrow> P i r)"

lemma each_keyD: "each_key P t \<Longrightarrow> fetch t i = Some r \<Longrightarrow> P i r"
  by (simp add: each_key_def)

lemma each_key_wf: "each_key P t \<Longrightarrow> wf_tbl t"
  by (simp add: each_key_def)

lemma each_key_mono: "each_key P t \<Longrightarrow> (\<And>i r. fetch t i = Some r \<Longrightarrow> P i r \<Longrightarrow> P' i r) \<Longrightarrow> each_key P' t"
  by (simp add: each_key_def)

lemma each_key_insert: "each_key P t \<Longrightarrow> P (nxt t) r \<Longrightarrow> each_key P (insertT r t)"
  by (simp add: each_key_def fetch_insertT)

lemma each_key_update:
  "each_key P t \<Longrightarrow> (\<And>i r. fetch t i = Some r \<Longrightarrow> P i r \<Longrightarrow> c i r \<Longrightarrow> P i (f r)) \<Longrightarrow> each_key P (updateT c f t)"
  by (auto simp: each_key_def fetch_updateT)

definition batch_total :: "batch \<Rightarrow> int" where
  "batch_total b = ib_available b + ib_locked b + ib_defective b + ib_pending b + ib_quarantine b"

definition buckets_ok :: "batch \<Rightarrow> bool" where
  "buckets_ok b \<longleftrightarrow> 0 \<le> ib_available b \<and> 0 \<le> ib_locked b \<and> 0 \<le> ib_defective b \<and>
     0 \<le> ib_pending b \<and> 0 \<le> ib_quarantine b"

definition claims :: "int \<Rightarrow> reservation \<Rightarrow> int" where
  "claims i r = (if ir_batch r = i \<and> ir_status r = ''active'' then ir_reserved r else 0)"

definition reserved_on :: "db \<Rightarrow> int \<Rightarrow> int" where
  "reserved_on s i = sumT (claims i) (reservations s)"

definition reservation_ok :: "reservation \<Rightarrow> bool" where
  "reservation_ok r \<longleftrightarrow> 0 \<le> ir_reserved r \<and> 0 \<le> ir_shortage r \<and>
     ir_reserved r + ir_shortage r \<le> ir_requested r"

definition stock_inv :: "db \<Rightarrow> bool" where
  "stock_inv s \<longleftrightarrow> wf_tbl (batches s) \<and> wf_tbl (reservations s) \<and>
     (\<forall>i b. fetch (batches s) i = Some b \<longrightarrow> buckets_ok b \<and> reserved_on s i \<le> ib_locked b) \<and>
     (\<forall>i r. fetch (reservations s) i = Some r \<longrightarrow> reservation_ok r \<and> ir_batch r < nxt (batches s))"

lemma stock_invD:
  assumes "stock_inv s"
  shows "wf_tbl (batches s)" and "wf_tbl (reservations s)"
    and "fetch (batches s) i = Some b \<Longrightarrow> buckets_ok b"
    and "fetch (batches s) i = Some b \<Longrightarrow> reserved_on s i \<le> ib_locked b"
    and "fetch (reservations s) j = Some r \<Longrightarrow> reservation_ok r"
  using assms by (auto simp: stock_inv_def)

text \<open>The invariant depends on the two stock tables only.\<close>

lemma stock_inv_cong:
  "batches s' = batches s \<Longrightarrow> reservations s' = reservations s \<Longrightarrow> stock_inv s' = stock_inv s"
  by (simp add: stock_inv_def reserved_on_def)

lemma stock_inv_other [simp]:
  "stock_inv (uuid_seq_update f1 s) = stock_inv s"
  "stock_inv (fences_update f2 s) = stock_inv s"
  "stock_inv (idempotency_update f3 s) = stock_inv s"
  "stock_inv (versions_update f4 s) = stock_inv s"
  "stock_inv (outbox_messages_update f5 s) = stock_inv s"
  "stock_inv (audit_logs_update f6 s) = stock_inv s"
  "stock_inv (approvals_update f7 s) = stock_inv s"
  "stock_inv (files_update f8 s) = stock_inv s"
  "stock_inv (challenges_update f9 s) = stock_inv s"
  "stock_inv (warehouses_update f10 s) = stock_inv s"
  "stock_inv (movements_update f11 s) = stock_inv s"
  "stock_inv (transfers_update f12 s) = stock_inv s"
  "stock_inv (stocktakes_update f13 s) = stock_inv s"
  "stock_inv (counts_update f14 s) = stock_inv s"
  "stock_inv (adjustments_update f15 s) = stock_inv s"
  "stock_inv (purchase_orders_update f16 s) = stock_inv s"
  "stock_inv (order_items_update f17 s) = stock_inv s"
  "stock_inv (plan_items_update f18 s) = stock_inv s"
  "stock_inv (plan_links_update f19 s) = stock_inv s"
  "stock_inv (receipts_update f20 s) = stock_inv s"
  "stock_inv (skus_update f21 s) = stock_inv s"
  "stock_inv (boms_update f22 s) = stock_inv s"
  "stock_inv (components_update f23 s) = stock_inv s"
  "stock_inv (execution_orders_update f24 s) = stock_inv s"
  "stock_inv (material_lines_update f25 s) = stock_inv s"
  "stock_inv (reports_update f26 s) = stock_inv s"
  "stock_inv (quality_rules_update f27 s) = stock_inv s"
  "stock_inv (inspections_update f28 s) = stock_inv s"
  "stock_inv (deliveries_update f29 s) = stock_inv s"
  "stock_inv (evidences_update f30 s) = stock_inv s"
  "stock_inv (shipment_receipts_update f31 s) = stock_inv s"
  "stock_inv (exceptions_update f32 s) = stock_inv s"
  "stock_inv (returns_update f33 s) = stock_inv s"
  "stock_inv (return_inspections_update f34 s) = stock_inv s"
  "stock_inv (dispositions_update f35 s) = stock_inv s"
  "stock_inv (users_update f36 s) = stock_inv s"
  "stock_inv (user_roles_update f37 s) = stock_inv s"
  "stock_inv (notifications_update f38 s) = stock_inv s"
  "stock_inv (reminders_update f39 s) = stock_inv s"
  "stock_inv (invoice_exceptions_update f40 s) = stock_inv s"
  "stock_inv (supplier_skus_update f41 s) = stock_inv s"
  "stock_inv (payment_requests_update f42 s) = stock_inv s"
  "stock_inv (request_items_update f43 s) = stock_inv s"
  "stock_inv (invoices_update f44 s) = stock_inv s"
  "stock_inv (verifications_update f45 s) = stock_inv s"
  "stock_inv (invoice_allocations_update f46 s) = stock_inv s"
  "stock_inv (replacement_links_update f47 s) = stock_inv s"
  "stock_inv (payments_update f48 s) = stock_inv s"
  "stock_inv (business_keys_update f49 s) = stock_inv s"
  "stock_inv (factories_update f50 s) = stock_inv s"
  "stock_inv (suppliers_update f51 s) = stock_inv s"
  "stock_inv (price_agreements_update f52 s) = stock_inv s"
  "stock_inv (price_changes_update f53 s) = stock_inv s"
  "stock_inv (purchase_plans_update f54 s) = stock_inv s"
  "stock_inv (plan_responses_update f55 s) = stock_inv s"
  "stock_inv (conversions_update f56 s) = stock_inv s"
  "stock_inv (performance_reviews_update f57 s) = stock_inv s"
  "stock_inv (weight_versions_update f58 s) = stock_inv s"
  by (simp_all add: stock_inv_def reserved_on_def)

lemma claims_nonneg: "reservation_ok r \<Longrightarrow> 0 \<le> claims i r"
  by (simp add: claims_def reservation_ok_def)

lemma sumT_nonneg: "(\<And>i r. (i, r) \<in> set (rows t) \<Longrightarrow> 0 \<le> f r) \<Longrightarrow> 0 \<le> sumT f t"
  unfolding sumT_def by (rule sum_list_nonneg) auto

lemma reserved_on_nonneg: "stock_inv s \<Longrightarrow> 0 \<le> reserved_on s i"
  unfolding reserved_on_def
  by (rule sumT_nonneg) (auto simp: stock_inv_def fetch_rows intro!: claims_nonneg)

text \<open>A fresh batch with non-negative buckets keeps the invariant, because nothing claims it yet.\<close>

lemma reserved_on_fresh: "stock_inv s \<Longrightarrow> reserved_on s (nxt (batches s)) = 0"
proof -
  assume inv: "stock_inv s"
  have "claims (nxt (batches s)) r = 0" if "(j, r) \<in> set (rows (reservations s))" for j r
  proof -
    from that inv have "fetch (reservations s) j = Some r" by (simp add: stock_inv_def fetch_rows)
    with inv have "ir_batch r < nxt (batches s)" by (auto simp: stock_inv_def)
    then show ?thesis by (simp add: claims_def)
  qed
  then have "map (\<lambda>(j, r). claims (nxt (batches s)) r) (rows (reservations s)) =
      map (\<lambda>_. 0) (rows (reservations s))" by auto
  then have "reserved_on s (nxt (batches s)) = sum_list (map (\<lambda>_. 0) (rows (reservations s)))"
    by (simp only: reserved_on_def sumT_def)
  then show ?thesis by simp
qed

lemma stock_inv_insert:
  assumes "stock_inv s" and "buckets_ok b"
    and "batches s' = insertT b (batches s)" and "reservations s' = reservations s"
  shows "stock_inv s'"
proof -
  have same: "reserved_on s' i = reserved_on s i" for i by (simp add: reserved_on_def assms(4))
  have "nxt (batches s') = nxt (batches s) + 1" by (simp add: assms(3) insertT_def)
  then show ?thesis
    using assms(1,2) reserved_on_fresh [OF assms(1)]
    by (fastforce simp: stock_inv_def assms(3,4) same fetch_insertT buckets_ok_def split: if_splits)
qed

text \<open>Changing one batch keeps the invariant when its buckets stay in range and cover its claims.\<close>

lemma stock_inv_update:
  assumes "stock_inv s" and "batches s' = updateT (\<lambda>j r. j = i \<and> c r) f (batches s)"
    and "reservations s' = reservations s"
    and "\<And>b. fetch (batches s) i = Some b \<Longrightarrow> c b \<Longrightarrow> buckets_ok (f b) \<and> reserved_on s i \<le> ib_locked (f b)"
  shows "stock_inv s'"
proof -
  have same: "reserved_on s' j = reserved_on s j" for j by (simp add: reserved_on_def assms(3))
  show ?thesis
    using assms(1,4) by (auto simp: stock_inv_def assms(2,3) same fetch_updateT)
qed

text \<open>A command that leaves the two stock tables alone keeps the invariant.\<close>

definition stock_tables :: "db \<Rightarrow> batch tbl \<times> reservation tbl" where
  "stock_tables s = (batches s, reservations s)"

lemma frames_stock_inv: "frames stock_tables m \<Longrightarrow> stock_inv s \<Longrightarrow> wp m (\<lambda>_ s'. stock_inv s') s"
  by (rule wpI, drule (1) framesD) (simp add: stock_tables_def cong: stock_inv_cong)

end
