(* ===== verification/Numbers.thy ===== *)
theory Numbers
  imports Js
begin

text \<open>
  Reading numbers back: the text \<open>JSON.stringify\<close> writes for a number is the one \<open>Number(v)\<close> reads as
  the same number, for integers, fractions and exponents alike. Hence different numbers have different texts.
\<close>

section \<open>Digits\<close>

lemma digit_not_space: "is_digit c \<Longrightarrow> \<not> is_space c"
  by (auto simp: is_digit_def is_space_def)

lemma trim_solid: "list_all (\<lambda>c. \<not> is_space c) t \<Longrightarrow> trim t = t"
proof -
  assume t: "list_all (\<lambda>c. \<not> is_space c) t"
  have id: "dropWhile is_space u = u" if "list_all (\<lambda>c. \<not> is_space c) u" for u
    using that by (cases u) auto
  from id [OF t] id [of "rev t"] t show ?thesis by (simp add: trim_def)
qed

lemma trim_digits: "list_all is_digit t \<Longrightarrow> trim t = t"
  by (rule trim_solid) (auto simp: list_all_iff digit_not_space)

lemma digit_chars: "is_digit c \<Longrightarrow> c \<noteq> CHR ''e'' \<and> c \<noteq> CHR ''E'' \<and> c \<noteq> CHR ''.'' \<and> c \<noteq> CHR ''+'' \<and> c \<noteq> CHR ''-'' \<and>
    c \<notin> set ''xXoObB''"
  by (auto simp: is_digit_def)

lemma read_nat_append: "read_nat (xs @ ys) = read_nat xs * 10 ^ length ys + read_nat ys"
proof (induction ys rule: rev_induct)
  case Nil
  then show ?case by (simp add: read_nat_def)
next
  case (snoc y ys)
  then show ?case
    by (simp add: read_nat_snoc append_assoc [symmetric] del: append_assoc)
qed

lemma read_nat_zeros: "read_nat (replicate n (CHR ''0'')) = 0"
proof (induction n)
  case (Suc n)
  have "replicate (Suc n) (CHR ''0'') = replicate n (CHR ''0'') @ [CHR ''0'']" by (simp add: replicate_append_same)
  with Suc show ?case by (simp only: read_nat_snoc) (simp add: digit_val_def)
qed (simp add: read_nat_def)

lemma zeros_digits: "list_all is_digit (replicate n (CHR ''0''))"
  by (simp add: list_all_iff is_digit_def)

lemma pow10_powi: "pow10 k = 10 powi k"
  by (cases "0 \<le> k") (simp_all add: pow10_def power_int_def power_one_over)

lemma pow10_add: "pow10 (a + b) = pow10 a * pow10 b"
  by (simp add: pow10_powi power_int_add)

lemma pow10_nat: "pow10 (int n) = 10 ^ n"
  by (simp add: pow10_def)

section \<open>Decimal literals\<close>

lemma unsigned_parts:
  assumes "list_all is_digit ip" and "list_all is_digit fp" and "ip @ fp \<noteq> []"
    and mant: "mant = (if fp = [] then ip else ip @ CHR ''.'' # fp)"
    and ex: "ex = [] \<and> e = 0 \<or> (\<exists>r. ex = CHR ''e'' # r \<and> read_exponent r = Some e)"
  shows "unsigned_decimal (mant @ ex) = Some (of_nat (read_nat (ip @ fp)) * pow10 (e - int (length fp)))"
proof -
  have no: "c \<noteq> CHR ''e'' \<and> c \<noteq> CHR ''E''" if "c \<in> set mant" for c
    using that assms(1,2) digit_chars by (auto simp: mant list_all_iff split: if_splits)
  have "takeWhile (\<lambda>c. c \<noteq> CHR ''e'' \<and> c \<noteq> CHR ''E'') ex = []" using ex by auto
  then have m: "takeWhile (\<lambda>c. c \<noteq> CHR ''e'' \<and> c \<noteq> CHR ''E'') (mant @ ex) = mant"
    using no by (subst takeWhile_append2) auto
  have dot: "c \<noteq> CHR ''.''" if "c \<in> set ip" for c
    using that assms(1) digit_chars [of c] by (auto simp: list_all_iff)
  have i: "takeWhile (\<lambda>c. c \<noteq> CHR ''.'') mant = ip" using dot by (auto simp: mant takeWhile_append2 takeWhile_eq_all_conv)
  have f: "drop (length ip + 1) mant = fp" by (simp add: mant)
  have x: "(if ex = [] then Some 0 else read_exponent (tl ex)) = Some e" using ex by auto
  have ok: "list_all is_digit (ip @ fp) \<and> ip @ fp \<noteq> []" using assms(1-3) by simp
  have r: "drop (length mant) (mant @ ex) = ex" by simp
  show ?thesis unfolding unsigned_decimal_def Let_def m r i f x if_P [OF ok] by simp
qed

lemma unsigned_digits:
  assumes "list_all is_digit t" and "t \<noteq> []"
  shows "unsigned_decimal t = Some (of_nat (read_nat t))"
  using unsigned_parts [of t "[]" t "[]" 0] assms by (simp add: pow10_def)

lemma read_exponent_sign:
  "read_exponent ((if k < 0 then CHR ''-'' else CHR ''+'') # show_nat (nat \<bar>k\<bar>)) = Some k"
  using show_nat_digits [of "nat \<bar>k\<bar>"] show_nat_nonempty [of "nat \<bar>k\<bar>"]
  by (simp add: read_exponent_def all_digits_def read_show_nat)

lemma read_layout:
  assumes ds: "list_all is_digit ds" "ds \<noteq> []"
  shows "unsigned_decimal (layout_decimal ds n) = Some (of_nat (read_nat ds) * pow10 (n - int (length ds)))"
proof -
  have k: "0 < length ds" using ds(2) by simp
  consider (whole) "int (length ds) \<le> n" "n \<le> 21" | (point) "0 < n" "n \<le> 21" "n < int (length ds)"
    | (zeros) "- 6 < n" "n \<le> 0" | (exponent) "n \<le> - 6 \<or> 21 < n" by linarith
  then show ?thesis
  proof cases
    case whole
    let ?j = "nat (n - int (length ds))"
    have "pow10 (n - int (length ds)) = 10 ^ ?j" using whole(1) pow10_nat [of ?j] by simp
    moreover have "unsigned_decimal (ds @ replicate ?j (CHR ''0'')) = Some (of_nat (read_nat (ds @ replicate ?j (CHR ''0''))))"
      using ds zeros_digits by (intro unsigned_digits) simp_all
    ultimately show ?thesis using whole by (simp add: layout_decimal_def Let_def read_nat_append read_nat_zeros)
  next
    case point
    have d: "list_all is_digit (take (nat n) ds)" "list_all is_digit (drop (nat n) ds)"
      using ds(1) by (auto simp: list_all_iff dest: in_set_takeD in_set_dropD)
    have "drop (nat n) ds \<noteq> []" using point by simp
    with unsigned_parts [OF d _ refl, of "[]" 0] ds(2)
    have "unsigned_decimal (take (nat n) ds @ CHR ''.'' # drop (nat n) ds) =
        Some (of_nat (read_nat ds) * pow10 (0 - int (length ds - nat n)))" by simp
    moreover have "0 - int (length ds - nat n) = n - int (length ds)" using point by simp
    ultimately show ?thesis using point by (simp add: layout_decimal_def Let_def)
  next
    case zeros
    let ?z = "replicate (nat (- n)) (CHR ''0'')"
    have nk: "\<not> int (length ds) \<le> n" using zeros k by linarith
    have d: "list_all is_digit ''0''" "list_all is_digit (?z @ ds)" using ds(1) zeros_digits by (simp_all add: is_digit_def)
    have "read_nat (''0'' @ ?z @ ds) = read_nat ds"
      using read_nat_zeros [of "Suc (nat (- n))"] by (simp add: read_nat_append [of "CHR ''0'' # ?z" ds, simplified])
    with unsigned_parts [OF d _ refl, of "[]" 0] ds(2)
    have "unsigned_decimal (''0.'' @ ?z @ ds) = Some (of_nat (read_nat ds) * pow10 (0 - int (length (?z @ ds))))" by simp
    moreover have "0 - int (length (?z @ ds)) = n - int (length ds)" using zeros by simp
    moreover have "layout_decimal ds n = ''0.'' @ ?z @ ds" using zeros nk by (simp add: layout_decimal_def Let_def)
    ultimately show ?thesis by simp
  next
    case exponent
    let ?x = "CHR ''e'' # (if n - 1 < 0 then CHR ''-'' else CHR ''+'') # show_nat (nat \<bar>n - 1\<bar>)"
    have l: "layout_decimal ds n = (if drop 1 ds = [] then take 1 ds else take 1 ds @ CHR ''.'' # drop 1 ds) @ ?x"
      using exponent k by (cases ds) (auto simp: layout_decimal_def Let_def)
    have d: "list_all is_digit (take 1 ds)" "list_all is_digit (drop 1 ds)"
      using ds(1) by (auto simp: list_all_iff dest: in_set_takeD in_set_dropD)
    have "unsigned_decimal (layout_decimal ds n) =
        Some (of_nat (read_nat (take 1 ds @ drop 1 ds)) * pow10 (n - 1 - int (length (drop 1 ds))))"
      unfolding l by (rule unsigned_parts [OF d _ refl]) (use ds(2) read_exponent_sign [of "n - 1"] in auto)
    moreover have "n - 1 - int (length (drop 1 ds)) = n - int (length ds)" using ds(2) by (cases ds) simp_all
    ultimately show ?thesis by simp
  qed
qed

section \<open>The text of a number\<close>

definition number_char :: "char \<Rightarrow> bool" where
  "number_char c \<longleftrightarrow> is_digit c \<or> c \<in> set ''-+.e''"

text \<open>
  A number is printable when it is a safe integer or its shortest decimal is found among the candidates of at most
  17 digits; 17 digits are enough to tell any two doubles apart.
\<close>

definition printable :: "rat \<Rightarrow> bool" where
  "printable q \<longleftrightarrow> safe_integer q \<or> shortest_decimal \<bar>q\<bar> \<noteq> None"

lemma printableI:
  assumes "k \<in> {1..<18}" and "(m, e) \<in> set (candidates \<bar>q\<bar> k)" and "0 < m" and "to_double (of_int m * pow10 e) = Some \<bar>q\<bar>"
  shows "printable q"
proof -
  have "find P xs \<noteq> None" if "x \<in> set xs" and "P x" for P xs and x :: "int \<times> int"
    using that by (induction xs) auto
  moreover have "(m, e) \<in> set (concat (map (candidates \<bar>q\<bar>) [1..<18]))" using assms(1,2) by auto
  ultimately have "shortest_decimal \<bar>q\<bar> \<noteq> None" unfolding shortest_decimal_def using assms(3,4) by fastforce
  then show ?thesis by (simp add: printable_def)
qed

lemma to_double_half: "to_double (1/2) = Some (1/2)"
proof -
  have "quotient_of (1/2) = (1, 2)" by code_simp
  moreover have "bitlen 1 = 1" and "bitlen 2 = 2" by (simp_all add: bitlen_alt_def)
  ultimately have "exponent2 (1/2) = - 1" by (simp add: exponent2_def pow2_def)
  moreover have "half_even 4503599627370496 = 4503599627370496" using half_even_int [of 4503599627370496] by simp
  ultimately show ?thesis by (simp add: to_double_def pow2_def)
qed

lemma printable_half: "printable (1/2)"
proof (rule printableI)
  show "(1 :: nat) \<in> {1..<18}" by simp
  show "(5, -1) \<in> set (candidates \<bar>1/2\<bar> 1)" by code_simp
  show "to_double (of_int 5 * pow10 (-1)) = Some \<bar>1/2\<bar>" using to_double_half by (simp add: pow10_def)
qed simp

lemma digits_number: "list_all is_digit t \<Longrightarrow> list_all number_char t"
  by (auto simp: list_all_iff number_char_def)

lemma number_char_solid: "number_char c \<Longrightarrow> \<not> is_space c \<and> c \<notin> set ''xXoObB''"
proof (cases "is_digit c")
  case True
  then show ?thesis using digit_not_space digit_chars by blast
next
  case False
  assume "number_char c"
  with False have "c \<in> {CHR ''-'', CHR ''+'', CHR ''.'', CHR ''e''}" by (simp add: number_char_def)
  then show ?thesis by (elim insertE emptyE) (simp_all add: is_space_def)
qed

lemma layout_chars: "list_all is_digit ds \<Longrightarrow> list_all number_char (layout_decimal ds n)"
  using digits_number [OF show_nat_digits [of "nat \<bar>n - 1\<bar>"]]
  by (auto simp: layout_decimal_def Let_def list_all_iff number_char_def is_digit_def
      dest: in_set_takeD in_set_dropD)

lemma layout_first: "list_all is_digit ds \<Longrightarrow> ds \<noteq> [] \<Longrightarrow> \<exists>c cs. layout_decimal ds n = c # cs \<and> is_digit c"
  by (cases ds) (auto simp: layout_decimal_def Let_def is_digit_def Cons_eq_append_conv take_Cons')

text \<open>Stripping the trailing zeros of a text of digits divides its value by a power of ten.\<close>

lemma strip_zeros:
  obtains j where "ds = rev (dropWhile (\<lambda>c. c = CHR ''0'') (rev ds)) @ replicate j (CHR ''0'')"
proof
  let ?z = "takeWhile (\<lambda>c. c = CHR ''0'') (rev ds)"
  have "?z = replicate (length ?z) (CHR ''0'')"
    by (rule replicate_length_same [symmetric]) (auto dest: set_takeWhileD)
  then have "rev ?z = replicate (length ?z) (CHR ''0'')" by (metis rev_replicate)
  then show "ds = rev (dropWhile (\<lambda>c. c = CHR ''0'') (rev ds)) @ replicate (length ?z) (CHR ''0'')"
    by (metis rev_append rev_rev_ident takeWhile_dropWhile_id)
qed

lemma find_holds: "find P xs = Some x \<Longrightarrow> P x"
  by (induction xs) (auto split: if_splits)

lemma shortest_decimalD:
  assumes "shortest_decimal a = Some (m, e)"
  shows "0 < m" and "to_double (of_int m * pow10 e) = Some a"
  using find_holds [OF assms [unfolded shortest_decimal_def]] by simp_all

lemma number_text:
  assumes "printable q"
  shows "\<exists>t. stringify_number q = (if q < 0 then [CHR ''-''] else []) @ t \<and> list_all number_char t \<and>
    (\<exists>c cs. t = c # cs \<and> is_digit c) \<and> Option.bind (unsigned_decimal t) to_double = Some \<bar>q\<bar>"
proof (cases "safe_integer q")
  case True
  then obtain n where n: "q = of_int n" "\<bar>n\<bar> \<le> 9007199254740991" by (auto simp: safe_integer_iff)
  let ?t = "show_nat (nat \<bar>n\<bar>)"
  have "stringify_number q = (if q < 0 then [CHR ''-''] else []) @ ?t"
    using True by (simp add: stringify_number_def n show_int_def)
  moreover have "unsigned_decimal ?t = Some (of_int \<bar>n\<bar>)"
    by (simp add: unsigned_digits [OF show_nat_digits show_nat_nonempty] read_show_nat)
  moreover have "to_double (of_int \<bar>n\<bar>) = Some (of_int \<bar>n\<bar>)"
    by (rule to_double_safe) (simp only: safe_integer_of_int, use n(2) in simp)
  moreover have "\<exists>c cs. ?t = c # cs \<and> is_digit c"
    using show_nat_digits [of "nat \<bar>n\<bar>"] show_nat_nonempty [of "nat \<bar>n\<bar>"] by (cases ?t) simp_all
  ultimately show ?thesis
    by (intro exI [of _ ?t]) (simp add: digits_number show_nat_digits n)
next
  case False
  with assms obtain m e where me: "shortest_decimal \<bar>q\<bar> = Some (m, e)" by (auto simp: printable_def)
  define ds where "ds = show_nat (nat m)"
  define sig where "sig = rev (dropWhile (\<lambda>c. c = CHR ''0'') (rev ds))"
  define t where "t = layout_decimal sig (e + int (length ds))"
  obtain j where j: "ds = sig @ replicate j (CHR ''0'')" using strip_zeros [of ds] unfolding sig_def [symmetric] .
  have "list_all is_digit ds" by (simp add: ds_def show_nat_digits)
  then have digits: "list_all is_digit sig" by (subst (asm) j) simp
  have "nat m = read_nat ds" by (simp add: ds_def read_show_nat)
  also have "\<dots> = read_nat sig * 10 ^ j" by (subst j) (simp add: read_nat_append read_nat_zeros)
  finally have val: "nat m = read_nat sig * 10 ^ j" .
  have "sig \<noteq> []"
  proof
    assume "sig = []"
    with val shortest_decimalD(1) [OF me] show False by (simp add: read_nat_def)
  qed
  note sig = digits this
  have "length ds = length sig + j" by (subst j) simp
  then have len: "e + int (length ds) - int (length sig) = int j + e" by simp
  have "of_int m = (of_nat (nat m) :: rat)" using shortest_decimalD(1) [OF me] by simp
  also have "\<dots> = of_nat (read_nat sig) * 10 ^ j" by (simp add: val)
  finally have "of_nat (read_nat sig) * pow10 (int j + e) = of_int m * pow10 e"
    by (simp only: pow10_add pow10_nat mult.assoc)
  with read_layout [OF sig, of "e + int (length ds)"] shortest_decimalD(2) [OF me]
  have "Option.bind (unsigned_decimal t) to_double = Some \<bar>q\<bar>" by (simp add: t_def len)
  moreover have "stringify_number q = (if q < 0 then [CHR ''-''] else []) @ t"
    using False by (simp add: stringify_number_def me Let_def t_def ds_def sig_def)
  ultimately show ?thesis using layout_chars [OF sig(1)] layout_first [OF sig] unfolding t_def by blast
qed

text \<open>\<open>Number(JSON.stringify(q))\<close> is \<open>q\<close>.\<close>

lemma number_reads_back:
  assumes "printable q" shows "string_to_number (stringify_number q) = Some q"
proof -
  from number_text [OF assms] obtain t c cs where s: "stringify_number q = (if q < 0 then [CHR ''-''] else []) @ t"
    and t: "list_all number_char t" "t = c # cs" "is_digit c" and val: "Option.bind (unsigned_decimal t) to_double = Some \<bar>q\<bar>"
    by blast
  have "list_all number_char (stringify_number q)" using t(1) by (simp add: s number_char_def)
  then have trim: "trim (stringify_number q) = stringify_number q"
    by (intro trim_solid) (auto simp: list_all_iff dest: number_char_solid)
  have hd: "cs = [] \<or> hd cs \<notin> set ''xX'' \<and> hd cs \<notin> set ''oO'' \<and> hd cs \<notin> set ''bB''"
    using t(1,2) number_char_solid by (cases cs) auto
  have c: "c \<noteq> CHR ''+''" "c \<noteq> CHR ''-''" using digit_chars [OF t(3)] by simp_all
  show ?thesis
  proof (cases "q < 0")
    case True
    with val s show ?thesis unfolding string_to_number_def trim by simp
  next
    case False
    then have "stringify_number q = c # cs" using s t(2) by simp
    then have "string_to_number (stringify_number q) = Option.bind (unsigned_decimal (c # cs)) to_double"
      unfolding string_to_number_def trim using c hd by (elim disjE) simp_all
    then show ?thesis using val t(2) False by simp
  qed
qed

lemma stringify_number_inject: "printable q \<Longrightarrow> printable p \<Longrightarrow> stringify_number q = stringify_number p \<Longrightarrow> q = p"
  using number_reads_back by (metis option.inject)

lemma number_text_chars:
  assumes "printable q"
  shows "list_all number_char (stringify_number q)" and "\<exists>c cs. stringify_number q = c # cs \<and> number_char c"
  using number_text [OF assms] by (auto simp: number_char_def)

end
