(* ===== verification/Digest.thy ===== *)
theory Digest
  imports Numbers
begin

text \<open>
  The canonical text of a command payload (\<open>canonicalJson\<close> of \<open>platform/commands.ts\<close>), whose
  SHA-256 is the request digest of the idempotency protocol. \<open>norm_json\<close> is the specification:
  it sorts the keys of every object, so two payloads with the same normal form are the same
  JavaScript value up to the order of properties. The text is a function of the normal form and,
  for payloads whose numbers are safe integers, an injective one.
\<close>

section \<open>Canonical text\<close>

fun canonicalJson :: "json \<Rightarrow> string" where
  "canonicalJson JNull = ''null''"
| "canonicalJson (JBool b) = (if b then ''true'' else ''false'')"
| "canonicalJson (JStr s) = stringify_string s"
| "canonicalJson (JNum q) = stringify_number q"
| "canonicalJson (JArr vs) = CHR ''['' # join '','' (map canonicalJson vs) @ '']''"
| "canonicalJson (JObj kvs) = CHR ''{'' # join '',''
     (map (\<lambda>(k, t). stringify_string k @ CHR '':'' # t)
       (sort_key fst (map (\<lambda>(k, v). (k, canonicalJson v)) kvs))) @ ''}''"

section \<open>Normal form\<close>

fun norm_json :: "json \<Rightarrow> json" where
  "norm_json (JArr vs) = JArr (map norm_json vs)"
| "norm_json (JObj kvs) = JObj (sort_key fst (map (\<lambda>(k, v). (k, norm_json v)) kvs))"
| "norm_json v = v"

fun plain_json :: "json \<Rightarrow> string" where
  "plain_json JNull = ''null''"
| "plain_json (JBool b) = (if b then ''true'' else ''false'')"
| "plain_json (JStr s) = stringify_string s"
| "plain_json (JNum q) = stringify_number q"
| "plain_json (JArr vs) = CHR ''['' # join '','' (map plain_json vs) @ '']''"
| "plain_json (JObj kvs) = CHR ''{'' # join '',''
     (map (\<lambda>(k, v). stringify_string k @ CHR '':'' # plain_json v) kvs) @ ''}''"

lemma insort_map_value:
  "insort_key fst (k, f v) (map (\<lambda>(k, v). (k, f v)) xs) =
    map (\<lambda>(k, v). (k, f v)) (insort_key fst (k, v) xs)"
  by (induction xs) auto

lemma sort_map_value:
  "sort_key fst (map (\<lambda>(k, v). (k, f v)) xs) = map (\<lambda>(k, v). (k, f v)) (sort_key fst xs)"
proof (induction xs)
  case Nil
  then show ?case by simp
next
  case (Cons x xs)
  obtain k v where "x = (k, v)" by (cases x)
  with Cons show ?case by (simp add: insort_map_value)
qed

lemma canonical_plain: "canonicalJson v = plain_json (norm_json v)"
proof (induction v rule: canonicalJson.induct)
  case (5 vs)
  then have "map canonicalJson vs = map (plain_json \<circ> norm_json) vs" by simp
  then show ?case by (simp only: canonicalJson.simps norm_json.simps plain_json.simps map_map)
next
  case (6 kvs)
  have "map (\<lambda>(k, v). (k, canonicalJson v)) kvs =
      map (\<lambda>(k, v). (k, plain_json v)) (map (\<lambda>(k, v). (k, norm_json v)) kvs)"
    using 6 by (auto simp: split_def)
  then have "sort_key fst (map (\<lambda>(k, v). (k, canonicalJson v)) kvs) =
      map (\<lambda>(k, v). (k, plain_json v)) (sort_key fst (map (\<lambda>(k, v). (k, norm_json v)) kvs))"
    by (simp only: sort_map_value)
  then show ?case by (simp add: comp_def split_def)
qed simp_all

section \<open>Unambiguous text\<close>

definition read_hex :: "char \<Rightarrow> nat" where
  "read_hex c = (if (of_char c :: nat) < 58 then of_char c - 48 else of_char c - 87)"

fun read_char :: "string \<Rightarrow> char \<times> string" where
  "read_char (c # d # xs) = (if (of_char c :: nat) \<noteq> 92 then (c, d # xs) else
     let n = (of_char d :: nat) in
       if n = 34 then (char_of (34 :: nat), xs) else if n = 92 then (char_of (92 :: nat), xs)
       else if n = 98 then (char_of (8 :: nat), xs) else if n = 116 then (char_of (9 :: nat), xs)
       else if n = 110 then (char_of (10 :: nat), xs) else if n = 102 then (char_of (12 :: nat), xs)
       else if n = 114 then (char_of (13 :: nat), xs)
       else (char_of (16 * read_hex (xs ! 2) + read_hex (xs ! 3)), drop 4 xs))"
| "read_char [c] = (c, [])"
| "read_char [] = (CHR 0x00, [])"

lemma read_hex_digit: "d < 16 \<Longrightarrow> read_hex (hex_digit d) = d"
  by (auto simp: read_hex_def hex_digit_def of_char_of)

lemma of_char_eq: "(of_char c :: nat) = n \<Longrightarrow> c = char_of n"
  by auto

lemma read_escape: "read_char (escape_char c @ xs) = (c, xs)"
proof -
  let ?n = "of_char c :: nat"
  have c: "c = char_of ?n" by simp
  consider "?n \<in> {34, 92, 8, 9, 10, 12, 13}"
    | "?n \<notin> {34, 92, 8, 9, 10, 12, 13}" "?n < 32"
    | "?n \<notin> {34, 92, 8, 9, 10, 12, 13}" "\<not> ?n < 32" by blast
  then show ?thesis
  proof cases
    case 1
    then show ?thesis
      by (auto simp: escape_char_def Let_def dest!: of_char_eq)
  next
    case 2
    have "16 * read_hex (hex_digit (?n div 16)) + read_hex (hex_digit (?n mod 16)) = ?n"
      using 2 by (simp add: read_hex_digit)
    with 2 show ?thesis
      by (simp add: escape_char_def Let_def)
  next
    case 3
    then show ?thesis
      by (cases xs) (simp_all add: escape_char_def Let_def)
  qed
qed

lemma escape_shape: "escape_char c = [c] \<and> (of_char c :: nat) \<noteq> 34 \<or> (\<exists>ds. escape_char c = CHR 0x5C # ds)"
  by (simp add: escape_char_def Let_def)

lemma backslash_code: "(of_char (CHR 0x5C) :: nat) \<noteq> 34" by simp

lemma escape_first:
  assumes "escape_char c = d # ds"
  shows "(of_char d :: nat) \<noteq> 34"
  using escape_shape [of c]
proof
  assume "escape_char c = [c] \<and> (of_char c :: nat) \<noteq> 34"
  then show ?thesis using assms by (metis list.inject)
next
  assume "\<exists>ds. escape_char c = CHR 0x5C # ds"
  then have "d = CHR 0x5C" using assms by (metis list.inject)
  then show ?thesis using backslash_code by metis
qed

lemma escape_not_quote: "escape_char c @ xs \<noteq> CHR 0x22 # ys"
proof
  assume q: "escape_char c @ xs = CHR 0x22 # ys"
  then obtain ds where "escape_char c = CHR 0x22 # ds"
    using escape_shape [of c] by (metis append_Cons list.inject)
  then have "(of_char (CHR 0x22) :: nat) \<noteq> 34" by (rule escape_first)
  then show False by simp
qed

lemma escape_inject: "escape_char c @ xs = escape_char d @ ys \<Longrightarrow> c = d \<and> xs = ys"
  by (metis read_escape prod.inject)

lemma escaped_text_inject:
  "concat (map escape_char s) @ CHR 0x22 # xs = concat (map escape_char t) @ CHR 0x22 # ys \<Longrightarrow>
    s = t \<and> xs = ys"
proof (induction s arbitrary: t)
  case Nil
  then show ?case
  proof (cases t)
    case (Cons d t')
    with Nil have "escape_char d @ (concat (map escape_char t') @ CHR 0x22 # ys) = CHR 0x22 # xs"
      by simp
    then show ?thesis by (simp only: escape_not_quote)
  qed simp
next
  case (Cons c s)
  show ?case
  proof (cases t)
    case Nil
    with Cons.prems have "escape_char c @ (concat (map escape_char s) @ CHR 0x22 # xs) = CHR 0x22 # ys"
      by simp
    then show ?thesis by (simp only: escape_not_quote)
  next
    case t: (Cons d t')
    with Cons.prems have "escape_char c @ (concat (map escape_char s) @ CHR 0x22 # xs) =
        escape_char d @ (concat (map escape_char t') @ CHR 0x22 # ys)" by simp
    from escape_inject [OF this] Cons.IH [of t'] t show ?thesis by simp
  qed
qed

lemma stringify_string_inject:
  "stringify_string s @ xs = stringify_string t @ ys \<Longrightarrow> s = t \<and> xs = ys"
  using escaped_text_inject [of s xs t ys] by (simp add: stringify_string_def)

text \<open>What follows a value inside a text: a separator, a closing bracket or nothing.\<close>

definition ending :: "string \<Rightarrow> bool" where
  "ending xs \<longleftrightarrow> (case xs of [] \<Rightarrow> True | c # _ \<Rightarrow> c \<in> {CHR '','', CHR '']'', CHR ''}''})"

lemma ending_not_number: "ending xs \<Longrightarrow> takeWhile number_char xs = []"
  by (cases xs) (auto simp: ending_def number_char_def is_digit_def)

lemma number_text_inject:
  assumes "printable q" and "printable p" and "stringify_number q @ xs = stringify_number p @ ys" and "ending xs" and "ending ys"
  shows "q = p \<and> xs = ys"
proof -
  have "takeWhile number_char (stringify_number k @ zs) = stringify_number k" if "printable k" and "ending zs" for k zs
    using number_text_chars(1) [OF that(1)] ending_not_number [OF that(2)]
    by (simp add: takeWhile_append list_all_iff)
  with assms have "stringify_number q = stringify_number p" by metis
  with stringify_number_inject [OF assms(1,2)] assms(3) show ?thesis by simp
qed

text \<open>The payloads whose numbers are all printable: every payload that was parsed from JSON text into doubles.\<close>

fun num_json :: "json \<Rightarrow> bool" where
  "num_json (JNum q) = printable q"
| "num_json (JArr vs) = list_all num_json vs"
| "num_json (JObj kvs) = list_all (\<lambda>(k, v). num_json v) kvs"
| "num_json v = True"

definition tag :: "char \<Rightarrow> nat" where
  "tag c = (if number_char c then 3 else if c = CHR ''n'' then 0
     else if c \<in> {CHR ''t'', CHR ''f''} then 1 else if c = CHR 0x22 then 2
     else if c = CHR ''['' then 4 else if c = CHR ''{'' then 5 else 6)"

fun tag_json :: "json \<Rightarrow> nat" where
  "tag_json JNull = 0" | "tag_json (JBool _) = 1" | "tag_json (JStr _) = 2"
| "tag_json (JNum _) = 3" | "tag_json (JArr _) = 4" | "tag_json (JObj _) = 5"

lemma tag_simps [simp]:
  "tag (CHR ''n'') = 0" "tag (CHR ''t'') = 1" "tag (CHR ''f'') = 1" "tag (CHR 0x22) = 2"
  "tag (CHR ''['') = 4" "tag (CHR ''{'') = 5" "tag (CHR '']'') = 6" "tag (CHR ''}'') = 6"
  by (simp_all add: tag_def number_char_def is_digit_def)

lemma plain_first: "num_json v \<Longrightarrow> \<exists>c cs. plain_json v = c # cs \<and> tag c = tag_json v"
proof (cases v)
  case (JNum q)
  assume "num_json v"
  with JNum have "printable q" by simp
  then obtain c cs where "stringify_number q = c # cs" and "number_char c" using number_text_chars(2) by blast
  with JNum show ?thesis by (simp add: tag_def)
qed (auto simp: stringify_string_def)

lemma join_cons: "join sep (x # xs) = x @ (if xs = [] then [] else sep @ join sep xs)"
  by (cases xs) simp_all

lemma join_inject:
  assumes "\<And>x y xs ys. x \<in> set vs \<Longrightarrow> y \<in> set ws \<Longrightarrow> ending xs \<Longrightarrow> ending ys \<Longrightarrow>
      r x @ xs = r y @ ys \<Longrightarrow> x = y \<and> xs = ys"
    and "\<And>x xs ys. x \<in> set vs \<union> set ws \<Longrightarrow> r x @ xs \<noteq> c # ys"
    and "c \<in> {CHR '']'', CHR ''}''}"
    and "join '','' (map r vs) @ c # xs = join '','' (map r ws) @ c # ys"
  shows "vs = ws \<and> xs = ys"
  using assms
proof (induction vs arbitrary: ws)
  case Nil
  show ?case
  proof (cases ws)
    case (Cons w ws')
    with Nil.prems(4) have "r w @ ((if ws' = [] then [] else '','' @ join '','' (map r ws')) @ c # ys)
        = c # xs"
      by (simp add: join_cons)
    with Nil.prems(2) [of w] Cons show ?thesis by simp
  qed (use Nil in simp)
next
  case (Cons v vs)
  let ?rest = "\<lambda>us zs. (if us = [] then [] else '','' @ join '','' (map r us)) @ c # zs"
  show ?case
  proof (cases ws)
    case Nil
    with Cons.prems(4) have "r v @ ?rest vs xs = c # ys" by (simp add: join_cons)
    with Cons.prems(2) [of v] show ?thesis by simp
  next
    case ws: (Cons w ws')
    have e: "ending (?rest us zs)" for us zs
      using Cons.prems(3) by (auto simp: ending_def)
    from Cons.prems(4) ws have "r v @ ?rest vs xs = r w @ ?rest ws' ys" by (simp add: join_cons)
    then have vw: "v = w" and rest: "?rest vs xs = ?rest ws' ys"
      using Cons.prems(1) [of v w, OF _ _ e e] ws by auto
    have "vs = ws' \<and> xs = ys"
    proof (cases "vs = [] \<or> ws' = []")
      case True
      with rest Cons.prems(3) show ?thesis by (auto split: if_splits)
    next
      case False
      with rest have "join '','' (map r vs) @ c # xs = join '','' (map r ws') @ c # ys" by simp
      moreover have "x = y \<and> xs' = ys'" if "x \<in> set vs" "y \<in> set ws'" "ending xs'" "ending ys'"
          "r x @ xs' = r y @ ys'" for x y xs' ys'
        using Cons.prems(1) [of x y xs' ys'] that ws by simp
      moreover have "r x @ xs' \<noteq> c # ys'" if "x \<in> set vs \<union> set ws'" for x xs' ys'
        using Cons.prems(2) [of x] that ws by auto
      ultimately show ?thesis using Cons.prems(3) Cons.IH [of ws'] by blast
    qed
    with vw ws show ?thesis by simp
  qed
qed

lemma tag_plain:
  assumes "num_json v" and "num_json w" and "plain_json v @ xs = plain_json w @ ys"
  shows "tag_json v = tag_json w"
  using plain_first [OF assms(1)] plain_first [OF assms(2)] assms(3) by auto

lemma plain_not_bracket:
  assumes "num_json v" and "c \<in> {CHR '']'', CHR ''}''}"
  shows "plain_json v @ xs \<noteq> c # ys"
proof
  assume "plain_json v @ xs = c # ys"
  with plain_first [OF assms(1)] have "tag c = tag_json v" by auto
  moreover have "tag c = 6" using assms(2) by auto
  ultimately show False by (cases v) simp_all
qed

lemma plain_inject:
  "num_json v \<Longrightarrow> num_json w \<Longrightarrow> ending xs \<Longrightarrow> ending ys \<Longrightarrow>
    plain_json v @ xs = plain_json w @ ys \<Longrightarrow> v = w \<and> xs = ys"
proof (induction v arbitrary: w xs ys rule: plain_json.induct)
  case 1
  from tag_plain [OF 1(1,2,5)] have "w = JNull" by (cases w) simp_all
  with 1 show ?case by simp
next
  case (2 b)
  from tag_plain [OF 2(1,2,5)] obtain b' where "w = JBool b'" by (cases w) simp_all
  with 2 show ?case by (cases b; cases b') simp_all
next
  case (3 s)
  from tag_plain [OF 3(1,2,5)] obtain t where w: "w = JStr t" by (cases w) simp_all
  with 3 have "stringify_string s @ xs = stringify_string t @ ys" by simp
  from stringify_string_inject [OF this] w show ?case by simp
next
  case (4 q)
  from tag_plain [OF 4(1,2,5)] obtain p where w: "w = JNum p" by (cases w) simp_all
  with 4 have "printable q" and "printable p" and "stringify_number q @ xs = stringify_number p @ ys" by simp_all
  from number_text_inject [OF this 4(3,4)] w show ?case by simp
next
  case (5 vs)
  from tag_plain [OF 5(2,3,6)] obtain ws where w: "w = JArr ws" by (cases w) simp_all
  have "vs = ws \<and> xs = ys"
  proof (rule join_inject [where r = plain_json and c = "CHR '']''"])
    show "x = y \<and> xs' = ys'" if "x \<in> set vs" "y \<in> set ws" "ending xs'" "ending ys'"
        "plain_json x @ xs' = plain_json y @ ys'" for x y xs' ys'
    proof -
      have "num_json x" and "num_json y" using 5(2,3) w that by (simp_all add: list_all_iff)
      with 5(1) that show ?thesis by blast
    qed
    show "plain_json x @ xs' \<noteq> CHR '']'' # ys'" if "x \<in> set vs \<union> set ws" for x xs' ys'
      using 5(2,3) w that by (intro plain_not_bracket) (auto simp: list_all_iff)
  qed (use 5 w in simp_all)
  with w show ?case by simp
next
  case (6 kvs)
  from tag_plain [OF 6(2,3,6)] obtain us where w: "w = JObj us" by (cases w) simp_all
  let ?r = "\<lambda>(k, v). stringify_string k @ CHR '':'' # plain_json v"
  have "kvs = us \<and> xs = ys"
  proof (rule join_inject [where r = ?r and c = "CHR ''}''"])
    show "x = y \<and> xs' = ys'" if mem: "x \<in> set kvs" "y \<in> set us" and e: "ending xs'" "ending ys'"
        and eq: "?r x @ xs' = ?r y @ ys'" for x y xs' ys'
    proof -
      obtain k v l u where x: "x = (k, v)" and y: "y = (l, u)" by (cases x, cases y)
      with eq have "stringify_string k @ (CHR '':'' # plain_json v @ xs') =
          stringify_string l @ (CHR '':'' # plain_json u @ ys')" by simp
      from stringify_string_inject [OF this]
      have "k = l" and t: "plain_json v @ xs' = plain_json u @ ys'" by simp_all
      have "num_json v" and "num_json u" using 6(2,3) w mem x y by (auto simp: list_all_iff)
      with 6(1) mem(1) x e t have "v = u \<and> xs' = ys'" by blast
      with \<open>k = l\<close> x y show ?thesis by simp
    qed
    show "?r x @ xs' \<noteq> CHR ''}'' # ys'" for x xs' ys'
      by (cases x) (simp add: stringify_string_def)
  qed (use 6 w in simp_all)
  with w show ?case by simp
qed

lemma num_json_norm: "num_json (norm_json v) = num_json v"
  by (induction v rule: norm_json.induct) (auto simp: list_all_iff split_def)

lemma plain_text_inject:
  "num_json v \<Longrightarrow> num_json w \<Longrightarrow> plain_json v = plain_json w \<Longrightarrow> v = w"
  using plain_inject [of v w "[]" "[]"] by (simp add: ending_def)

section \<open>The digest text identifies the payload\<close>

text \<open>
  C13. Two payloads have the same canonical text exactly when they are equal up to the order of object keys, so a
  payload that differs, be it in the fraction of a number only, has another text to be hashed. Every number must be
  printable: a safe integer, or a number with a shortest decimal of at most 17 digits, which every double has.
\<close>

theorem canonicalJson_identifies:
  assumes "num_json v" and "num_json w"
  shows "canonicalJson v = canonicalJson w \<longleftrightarrow> norm_json v = norm_json w"
proof
  assume "canonicalJson v = canonicalJson w"
  with assms show "norm_json v = norm_json w"
    by (intro plain_text_inject) (simp_all add: canonical_plain num_json_norm)
next
  assume "norm_json v = norm_json w"
  then show "canonicalJson v = canonicalJson w" by (simp add: canonical_plain)
qed

lemma canonicalJson_identifies_witness:
  "canonicalJson (JObj [(''b'', JNum (1/2)), (''a'', JArr [jint 2])]) =
     canonicalJson (JObj [(''a'', JArr [jint 2]), (''b'', JNum (1/2))]) \<and>
   canonicalJson (JObj [(''b'', JNum (1/2)), (''a'', JArr [jint 2])]) \<noteq>
     canonicalJson (JObj [(''a'', JArr [jint 2]), (''b'', jint 0)])"
proof -
  let ?v = "JObj [(''b'', JNum (1/2)), (''a'', JArr [jint 2])]"
  let ?w = "JObj [(''a'', JArr [jint 2]), (''b'', JNum (1/2))]"
  let ?u = "JObj [(''a'', JArr [jint 2]), (''b'', jint 0)]"
  have "printable (1/2)" by (rule printable_half)
  then have i: "num_json ?v" "num_json ?w" "num_json ?u" by (simp_all add: jint_def printable_def safe_integer_def)
  have n: "norm_json ?v = norm_json ?w" "norm_json ?v \<noteq> norm_json ?u" by (simp_all add: jint_def)
  from canonicalJson_identifies [OF i(1,2)] canonicalJson_identifies [OF i(1,3)] n show ?thesis by simp
qed

end
