(* ===== verification/Transaction.thy ===== *)
theory Transaction
  imports Prelude
begin

text \<open>
  The transaction runner of \<open>infrastructure/database.ts\<close>: it takes a connection, begins, runs the
  callback, commits, and rolls back or destroys the connection when something fails. What the
  network and the server do is the argument \<open>faults\<close>: how each awaited call settles (it may lose
  the race against the timeout), whether a statement of the callback is interrupted, and, when the
  answer to COMMIT is lost, whether the server applied it. A destroyed connection is rolled back by
  the server. The interface \<open>unit_of_work\<close> is what the command executor relies on.
\<close>

datatype settled = Done | Failed | Cancelled

datatype interruption = Uninterrupted | StatementFails database_error_code | CallbackCancelled

record faults =
  connect :: settled
  begin_tx :: settled
  callback :: interruption
  commit :: settled
  commit_applied :: bool
  rollback :: settled

definition no_faults :: faults where
  "no_faults = \<lparr>connect = Done, begin_tx = Done, callback = Uninterrupted, commit = Done,
     commit_applied = True, rollback = Done\<rparr>"

abbreviation outcome_unknown :: error where
  "outcome_unknown \<equiv> DatabaseClientError DATABASE_TRANSACTION_OUTCOME_UNKNOWN"

text \<open>The callback: \<open>StatementFails\<close> makes it reject with the code of the interrupted statement.\<close>

definition run_callback :: "interruption \<Rightarrow> ('s, 'a) cmd \<Rightarrow> ('s, 'a) cmd" where
  "run_callback i m = (case i of StatementFails code \<Rightarrow> throwC (DatabaseClientError code) | _ \<Rightarrow> m)"

definition after_failure :: "faults \<Rightarrow> error \<Rightarrow> error" where
  "after_failure f e =
     (if e = DatabaseClientError DATABASE_OPERATION_ABORTED
         \<or> e = DatabaseClientError DATABASE_OPERATION_TIMED_OUT then outcome_unknown
      else case rollback f of Done \<Rightarrow> e | _ \<Rightarrow> outcome_unknown)"

definition transaction :: "faults \<Rightarrow> ('s, 'a) cmd \<Rightarrow> 's \<Rightarrow> (error + 'a) \<times> 's" where
  "transaction f m s = (case connect f of
       Cancelled \<Rightarrow> (Inl (DatabaseClientError DATABASE_OPERATION_TIMED_OUT), s)
     | Failed \<Rightarrow> (Inl DatabaseError, s)
     | Done \<Rightarrow> (case begin_tx f of
         Cancelled \<Rightarrow> (Inl outcome_unknown, s)
       | Failed \<Rightarrow> (Inl DatabaseError, s)
       | Done \<Rightarrow> (if callback f = CallbackCancelled then (Inl outcome_unknown, s)
           else (case run_callback (callback f) m s of
             Inl e \<Rightarrow> (Inl (after_failure f e), s)
           | Inr (x, s') \<Rightarrow> (case commit f of
               Done \<Rightarrow> (Inr x, s')
             | _ \<Rightarrow> (Inl outcome_unknown, if commit_applied f then s' else s))))))"

section \<open>The interface of a unit of work\<close>

text \<open>
  A result means the callback's effects are committed; an error other than the unknown outcome
  means nothing happened; the unknown outcome means one of the two.
\<close>

locale unit_of_work =
  fixes uow :: "('s, 'a) cmd \<Rightarrow> 's \<Rightarrow> (error + 'a) \<times> 's"
  assumes committed: "uow m s = (Inr x, s') \<Longrightarrow> m s = Inr (x, s')"
    and rolled_back: "uow m s = (Inl e, s') \<Longrightarrow> e \<noteq> outcome_unknown \<Longrightarrow> s' = s"
    and unknown: "uow m s = (Inl e, s') \<Longrightarrow> s' = s \<or> (\<exists>x. m s = Inr (x, s'))"
begin

lemma all_or_nothing: "uow m s = (r, s') \<Longrightarrow> s' = s \<or> (\<exists>x. m s = Inr (x, s'))"
  by (cases r) (auto dest: committed unknown)

lemma preserves_invariant:
  assumes "wp m (\<lambda>_. I) s" and "I s" and "uow m s = (r, s')"
  shows "I s'"
  using all_or_nothing [OF assms(3)] assms(1,2) by (auto dest: wpD)

lemma failing_callback: "m s = Inl e \<Longrightarrow> uow m s = (r, s') \<Longrightarrow> s' = s"
  using all_or_nothing by fastforce

end

lemma run_callback_Inr: "run_callback i m s = Inr (x, s') \<Longrightarrow> m s = Inr (x, s')"
  by (auto simp: run_callback_def throwC_def split: interruption.splits)

lemma transaction_cases:
  assumes "transaction f m s = (r, s')"
  obtains (committed) x where "r = Inr x" and "m s = Inr (x, s')"
  | (nothing) e where "r = Inl e" and "s' = s"
  | (applied) x where "r = Inl outcome_unknown" and "m s = Inr (x, s')"
proof -
  consider (early) e where "transaction f m s = (Inl e, s)"
    | (body) "transaction f m s = (case run_callback (callback f) m s of
             Inl e \<Rightarrow> (Inl (after_failure f e), s)
           | Inr (x, s') \<Rightarrow> (case commit f of
               Done \<Rightarrow> (Inr x, s')
             | _ \<Rightarrow> (Inl outcome_unknown, if commit_applied f then s' else s)))"
    by (cases "connect f"; cases "begin_tx f"; cases "callback f = CallbackCancelled")
      (simp_all add: transaction_def)
  then show thesis
  proof cases
    case early
    with assms have "r = Inl e" and "s' = s" by auto
    with that(2) show thesis by blast
  next
    case body
    show thesis
    proof (cases "run_callback (callback f) m s")
      case (Inl e)
      with body assms have "r = Inl (after_failure f e)" and "s' = s" by auto
      with that(2) show thesis by blast
    next
      case (Inr p)
      obtain x s1 where p: "p = (x, s1)" by (cases p)
      have m: "m s = Inr (x, s1)" using Inr unfolding p by (rule run_callback_Inr)
      from assms body Inr have "(r, s') = (case commit f of Done \<Rightarrow> (Inr x, s1)
          | _ \<Rightarrow> (Inl outcome_unknown, if commit_applied f then s1 else s))"
        by (simp add: p)
      then have "(r = Inr x \<and> s' = s1) \<or> (r = Inl outcome_unknown \<and> (s' = s1 \<or> s' = s))"
        by (cases "commit f"; cases "commit_applied f") simp_all
      then consider "r = Inr x" and "s' = s1" | "r = Inl outcome_unknown" and "s' = s1"
        | "r = Inl outcome_unknown" and "s' = s" by blast
      then show thesis
        using that(1) [of x] that(2) [of outcome_unknown] that(3) [of x] m by cases simp_all
    qed
  qed
qed

interpretation tx: unit_of_work "transaction f"
proof
  show "transaction f m s = (Inr x, s') \<Longrightarrow> m s = Inr (x, s')" for m s x s'
    by (erule transaction_cases) simp_all
  show "transaction f m s = (Inl e, s') \<Longrightarrow> e \<noteq> outcome_unknown \<Longrightarrow> s' = s" for m s e s'
    by (erule transaction_cases) simp_all
  show "transaction f m s = (Inl e, s') \<Longrightarrow> s' = s \<or> (\<exists>x. m s = Inr (x, s'))" for m s e s'
    by (erule transaction_cases) simp_all
qed

lemma no_faults_simps [simp]:
  "connect no_faults = Done" "begin_tx no_faults = Done" "callback no_faults = Uninterrupted"
  "commit no_faults = Done" "rollback no_faults = Done"
  by (simp_all add: no_faults_def)

lemma transaction_no_faults:
  "transaction no_faults m s = (case m s of
     Inl e \<Rightarrow> (Inl (after_failure no_faults e), s) | Inr (x, s') \<Rightarrow> (Inr x, s'))"
  by (simp add: transaction_def run_callback_def split: sum.split)

end
