(* ===== verification/Commands.thy ===== *)
theory Commands
  imports Support Digest Transaction
begin

text \<open>
  The write path every command goes through: \<open>platform/commands.ts\<close> (idempotency key, request
  digest, writer fence, replay, completion), \<open>platform/security.ts\<close> (origin and CSRF checks),
  \<open>platform/operations-command.ts\<close> and \<open>platform/supply-command.ts\<close> (the two callers),
  \<open>platform/approvals.ts\<close> (step-up claims) and the route table of
  \<open>composition/operations-writes-manifest.ts\<close>. A command is executed by
  \<open>executeIdempotentCommand\<close> over the transaction runner; the handler is its \<open>o_run\<close>.
\<close>

section \<open>Headers\<close>

definition lower_char :: "char \<Rightarrow> char" where
  "lower_char c = (let n = (of_char c :: nat) in if 65 \<le> n \<and> n \<le> 90 then char_of (n + 32) else c)"

definition lower :: "string \<Rightarrow> string" where
  "lower s = map lower_char s"

definition is_alnum :: "char \<Rightarrow> bool" where
  "is_alnum c \<longleftrightarrow> (let n = (of_char c :: nat) in
     48 \<le> n \<and> n \<le> 57 \<or> 65 \<le> n \<and> n \<le> 90 \<or> 97 \<le> n \<and> n \<le> 122)"

definition is_hex :: "char \<Rightarrow> bool" where
  "is_hex c \<longleftrightarrow> (let n = (of_char c :: nat) in 48 \<le> n \<and> n \<le> 57 \<or> 97 \<le> n \<and> n \<le> 102)"

text \<open>\<open>IDEMPOTENCY_KEY_PATTERN\<close> and \<open>SHA256_PATTERN\<close>.\<close>

definition idempotency_key_ok :: "string \<Rightarrow> bool" where
  "idempotency_key_ok s \<longleftrightarrow> 16 \<le> length s \<and> length s \<le> 128 \<and> is_alnum (hd s) \<and>
     list_all (\<lambda>c. is_alnum c \<or> c \<in> set ''._:-'') (tl s)"

definition sha256_pattern :: "string \<Rightarrow> bool" where
  "sha256_pattern s \<longleftrightarrow> length s = 64 \<and> list_all is_hex s"

definition request_text :: "string \<Rightarrow> json \<Rightarrow> string" where
  "request_text command payload =
     canonicalJson (JObj [(''command'', JStr command), (''payload'', payload)])"

definition canonicalRequestDigest :: "env \<Rightarrow> string \<Rightarrow> json \<Rightarrow> string" where
  "canonicalRequestDigest e command payload = sha256 e (request_text command payload)"

definition commandIdempotencyKey :: "request \<Rightarrow> bool \<Rightarrow> error + string" where
  "commandIdempotencyKey r missingIsInvalid = (case r_header r ''idempotency-key'' of
       Some (HOne v) \<Rightarrow> if idempotency_key_ok v then Inr v
         else Inl (bad_request ''Invalid idempotency key'')
     | _ \<Rightarrow> Inl (bad_request (if missingIsInvalid then ''Invalid idempotency key''
         else ''Missing idempotency-key header'')))"

definition verifyClientDigest :: "request \<Rightarrow> string \<Rightarrow> bool \<Rightarrow> error + unit" where
  "verifyClientDigest r digest onlyWhenString = (case r_header r ''x-request-digest'' of
       None \<Rightarrow> Inr ()
     | Some (HMany _) \<Rightarrow> if onlyWhenString then Inr () else Inl (bad_request ''Request digest mismatch'')
     | Some (HOne s) \<Rightarrow> if \<not> sha256_pattern (lower s) \<or> lower s \<noteq> digest
         then Inl (bad_request ''Request digest mismatch'') else Inr ())"

section \<open>Origin and CSRF\<close>

fun split_char :: "char \<Rightarrow> string \<Rightarrow> string list" where
  "split_char c [] = [[]]"
| "split_char c (x # xs) = (if x = c then [] # split_char c xs
     else (case split_char c xs of [] \<Rightarrow> [[x]] | p # ps \<Rightarrow> (x # p) # ps))"

definition cookie_parts :: "string \<Rightarrow> string \<Rightarrow> string list" where
  "cookie_parts header name = concat (map (\<lambda>part.
     let k = takeWhile (\<lambda>c. c \<noteq> CHR ''='') part in
       if length k = length part then []
       else if trim k = name then [trim (drop (length k + 1) part)] else []) (split_char (CHR '';'') header))"

definition cookie :: "request \<Rightarrow> string \<Rightarrow> string option" where
  "cookie r name = (case r_header r ''cookie'' of
       Some (HOne header) \<Rightarrow>
         if 8192 < length header then None
         else (case cookie_parts header name of [v] \<Rightarrow> Some v | _ \<Rightarrow> None)
     | _ \<Rightarrow> None)"

definition requestProtocol :: "request \<Rightarrow> string" where
  "requestProtocol r = (case r_header r ''x-forwarded-proto'' of
       Some (HOne p) \<Rightarrow> if p \<noteq> [] then trim (hd (split_char (CHR '','') p)) else r_protocol r
     | _ \<Rightarrow> r_protocol r)"

definition requestHost :: "request \<Rightarrow> header option" where
  "requestHost r = (case r_header r ''x-forwarded-host'' of None \<Rightarrow> r_header r ''host'' | Some h \<Rightarrow> Some h)"

definition origin_rejected :: error where
  "origin_rejected = PlatformError 403 ORIGIN_REJECTED ''Request origin rejected''"

definition requireSameOrigin :: "env \<Rightarrow> request \<Rightarrow> error + unit" where
  "requireSameOrigin e r = (case (r_header r ''origin'', requestHost r) of
       (Some (HOne origin), Some (HOne host)) \<Rightarrow>
         if requestProtocol r \<noteq> ''http'' \<and> requestProtocol r \<noteq> ''https'' then Inl origin_rejected
         else (case url_parse e origin of
             None \<Rightarrow> Inl origin_rejected
           | Some (proto, h) \<Rightarrow>
               if proto @ ''//'' @ h \<noteq> requestProtocol r @ ''://'' @ host then Inl origin_rejected
               else Inr ())
     | _ \<Rightarrow> Inl origin_rejected)"

definition csrf_rejected :: error where
  "csrf_rejected = PlatformError 403 CSRF_REJECTED ''CSRF validation failed''"

text \<open>The token pattern is case insensitive; \<open>sameValue\<close> compares the bytes.\<close>

definition requireCsrf :: "request \<Rightarrow> error + unit" where
  "requireCsrf r = (case (cookie r ''topology_csrf'', r_header r ''x-csrf-token'') of
       (Some token, Some (HOne header)) \<Rightarrow>
         if \<not> sha256_pattern (lower token) \<or> lower token \<noteq> lower header then Inl csrf_rejected
         else Inr ()
     | _ \<Rightarrow> Inl csrf_rejected)"

section \<open>Writer fences and replays\<close>

definition fence_rejected :: error where
  "fence_rejected = PlatformError 503 WRITER_FENCE_REJECTED ''Write owner is not active''"

definition fence_open :: "fence option \<Rightarrow> bool" where
  "fence_open f \<longleftrightarrow> (case f of None \<Rightarrow> False
     | Some row \<Rightarrow> f_owner row = ''fastify-v1'' \<and> f_generation row = 2 \<and> f_enabled row)"

definition requireWriterFence :: "string \<Rightarrow> unit run" where
  "requireWriterFence resource =
     bindC (queryC (\<lambda>s. fences s resource)) (\<lambda>row. guardC (fence_open row) fence_rejected)"

definition outcomeUnknown :: "int \<Rightarrow> error" where
  "outcomeUnknown statusCode =
     PlatformError statusCode COMMAND_OUTCOME_UNKNOWN ''Command outcome requires reconciliation''"

definition parseReplay :: "idem \<Rightarrow> json run" where
  "parseReplay row = (case (i_response row, i_response_status row) of
       (Some v, Some _) \<Rightarrow> (case v of JObj _ \<Rightarrow> returnC v | _ \<Rightarrow> throwC (outcomeUnknown 503))
     | _ \<Rightarrow> throwC (outcomeUnknown 409))"

datatype status_config = StatusDefault | StatusConst int | StatusFun "json \<Rightarrow> int"

definition resolvedResponseStatus :: "status_config \<Rightarrow> json \<Rightarrow> bool \<Rightarrow> int run" where
  "resolvedResponseStatus configured result validate =
     (let status = (case configured of StatusDefault \<Rightarrow> 200 | StatusConst n \<Rightarrow> n | StatusFun f \<Rightarrow> f result)
      in if validate \<and> (status < 200 \<or> 299 < status)
         then throwC (PlatformError 503 INTERNAL_SERVER_ERROR ''Invalid command response status'')
         else returnC status)"

section \<open>The idempotent executor\<close>

record options =
  o_scope :: string
  o_command :: string
  o_resource :: string
  o_missing_invalid :: bool
  o_payload :: json
  o_status :: status_config
  o_validate :: bool
  o_only_string :: bool
  o_run :: "string \<Rightarrow> string \<Rightarrow> json run"

record response =
  rs_status :: int
  rs_command :: string
  rs_key :: string
  rs_digest :: string
  rs_replayed :: bool
  rs_result :: json

definition default_status :: "status_config \<Rightarrow> int" where
  "default_status c = (case c of StatusConst n \<Rightarrow> n | _ \<Rightarrow> 200)"

text \<open>\<open>INSERT IGNORE\<close> of the pending row: the number of rows it inserted.\<close>

definition insertPending :: "string \<times> string \<times> string \<Rightarrow> string \<Rightarrow> string \<Rightarrow> int run" where
  "insertPending k digest expiresAt = (\<lambda>s. case idempotency s k of
       Some _ \<Rightarrow> Inr (0, s)
     | None \<Rightarrow> Inr (1, s\<lparr>idempotency := (idempotency s)(k \<mapsto>
         \<lparr>i_digest = digest, i_status = ''pending'', i_response_status = None, i_response = None,
          i_expires_at = expiresAt\<rparr>)\<rparr>))"

definition completeRow :: "string \<times> string \<times> string \<Rightarrow> string \<Rightarrow> int \<Rightarrow> json \<Rightarrow> int run" where
  "completeRow k digest status result = (\<lambda>s. case idempotency s k of
       Some row \<Rightarrow> if i_digest row = digest \<and> i_status row = ''pending''
         then (if int32 status then Inr (1, s\<lparr>idempotency := (idempotency s)(k \<mapsto>
           row\<lparr>i_status := ''completed'', i_response_status := Some status,
             i_response := Some result\<rparr>)\<rparr>) else Inl DatabaseError)
         else Inr (0, s)
     | None \<Rightarrow> Inr (0, s))"

definition replayOutcome :: "options \<Rightarrow> idem \<Rightarrow> (bool \<times> json \<times> int) run" where
  "replayOutcome opt row =
     (if i_status row = ''completed''
      then bindC (parseReplay row) (\<lambda>result. returnC (True, result,
        (case i_response_status row of Some n \<Rightarrow> n | None \<Rightarrow> default_status (o_status opt))))
      else throwC (PlatformError 409
        (if i_status row = ''unknown'' then COMMAND_OUTCOME_UNKNOWN else COMMAND_IN_PROGRESS)
        (if i_status row = ''unknown'' then ''Command outcome requires reconciliation''
         else ''Command is already in progress'')))"

definition commandBody :: "env \<Rightarrow> options \<Rightarrow> string \<Rightarrow> string \<Rightarrow> (bool \<times> json \<times> int) run" where
  "commandBody e opt key digest = (let k = (o_command opt, o_scope opt, key) in
     bindC (requireWriterFence (o_resource opt)) (\<lambda>_.
     bindC (insertPending k digest (js_in_24h e)) (\<lambda>inserted.
     bindC (queryC (\<lambda>s. idempotency s k)) (\<lambda>found.
     bindC (requireC found (outcomeUnknown 503)) (\<lambda>row.
     bindC (guardC (i_digest row = digest) (PlatformError 409 IDEMPOTENCY_KEY_REUSED
       ''Idempotency key was used for another request'')) (\<lambda>_.
     if inserted = 0 then replayOutcome opt row
     else
       bindC (o_run opt key digest) (\<lambda>result.
       bindC (resolvedResponseStatus (o_status opt) result (o_validate opt)) (\<lambda>status.
       bindC (completeRow k digest status result) (\<lambda>completed.
       bindC (guardC (completed = 1) (outcomeUnknown 409)) (\<lambda>_.
       returnC (False, result, status)))))))))))"

definition executeIdempotentCommand :: "faults \<Rightarrow> env \<Rightarrow> request \<Rightarrow> options \<Rightarrow> db \<Rightarrow>
    (error + response) \<times> db" where
  "executeIdempotentCommand f e r opt s = (case commandIdempotencyKey r (o_missing_invalid opt) of
       Inl err \<Rightarrow> (Inl err, s)
     | Inr key \<Rightarrow>
         let digest = canonicalRequestDigest e (o_command opt) (o_payload opt) in
         (case verifyClientDigest r digest (o_only_string opt) of
            Inl err \<Rightarrow> (Inl err, s)
          | Inr _ \<Rightarrow> (case transaction f (commandBody e opt key digest) s of
              (Inr (replayed, result, status), s') \<Rightarrow>
                (Inr \<lparr>rs_status = status, rs_command = o_command opt, rs_key = key,
                  rs_digest = digest, rs_replayed = replayed, rs_result = result\<rparr>, s')
            | (Inl err, s') \<Rightarrow>
                (Inl (if err = outcome_unknown then PlatformError 503 COMMAND_OUTCOME_UNKNOWN
                  ''Command outcome is unknown; retry only with the same idempotency key''
                  else err), s'))))"

section \<open>The operations and supply commands\<close>

definition operations_resource :: "string \<Rightarrow> string option" where
  "operations_resource command = map_of
     [(''approvals.decide'', ''r3.approvals.commands''),
      (''inventory.reserve'', ''r3.inventory.commands''),
      (''inventory.transfer.request'', ''r3.transfers.commands''),
      (''inventory.transfer.transition'', ''r3.transfers.commands''),
      (''manufacturing.order.create'', ''r3.production-orders.commands''),
      (''manufacturing.order.transition'', ''r3.production-orders.commands''),
      (''purchase.receive'', ''r3.purchase-receipts.commands''),
      (''quality.inspection.submit'', ''r3.quality-inspections.commands''),
      (''inventory.stocktake.open'', ''r3.stocktakes.commands''),
      (''inventory.stocktake.transition'', ''r3.stocktakes.commands''),
      (''logistics.shipment.command'', ''r3.shipments.commands''),
      (''returns.command'', ''r3.returns.commands''),
      (''finance.command'', ''r3.finance.commands''),
      (''warehouses.command'', ''r3.warehouses.commands'')] command"

definition actorScope :: "access \<Rightarrow> error + string" where
  "actorScope a = (if a_local_preview a \<or> a_session a = None \<or> a_user a \<le> 0
     then Inl (PlatformError 503 INTERNAL_SERVER_ERROR ''Write authentication unavailable'')
     else Inr (''user:'' @ show_int (a_user a)))"

text \<open>
  A handler of the operations side gets the caller, the request and the parsed body.
  \<open>authenticate\<close> is the session lookup of the auth module; \<open>has_database\<close> says that a database
  client is configured.
\<close>

type_synonym handler = "cctx \<Rightarrow> json \<Rightarrow> json run"

definition operationOptions :: "env \<Rightarrow> request \<Rightarrow> access \<Rightarrow> string \<Rightarrow> string \<Rightarrow> string \<Rightarrow> handler \<Rightarrow>
    int \<Rightarrow> json \<Rightarrow> options" where
  "operationOptions e r a scope command resource handler status body =
     \<lparr>o_scope = scope, o_command = command, o_resource = resource, o_missing_invalid = False,
      o_payload = body, o_status = StatusConst status, o_validate = False, o_only_string = True,
      o_run = (\<lambda>_ _. handler \<lparr>c_env = e, c_access = a, c_request = r\<rparr> body)\<rparr>"

definition executeOperationsCommand :: "faults \<Rightarrow> env \<Rightarrow> (request \<Rightarrow> error + access) \<Rightarrow> bool \<Rightarrow> request \<Rightarrow>
    string \<Rightarrow> handler \<Rightarrow> int \<Rightarrow> json \<Rightarrow> db \<Rightarrow> (error + response) \<times> db" where
  "executeOperationsCommand f e authenticate has_database r command handler status body s =
     (case requireSameOrigin e r of Inl err \<Rightarrow> (Inl err, s) | Inr _ \<Rightarrow>
     (case requireCsrf r of Inl err \<Rightarrow> (Inl err, s) | Inr _ \<Rightarrow>
     (if \<not> has_database then (Inl (PlatformError 503 INTERNAL_SERVER_ERROR ''Database unavailable''), s) else
     (case authenticate r of Inl err \<Rightarrow> (Inl err, s) | Inr a \<Rightarrow>
     (case actorScope a of Inl err \<Rightarrow> (Inl err, s) | Inr scope \<Rightarrow>
       executeIdempotentCommand f e r (operationOptions e r a scope command
         (case operations_resource command of Some res \<Rightarrow> res | None \<Rightarrow> ''undefined'')
         handler status body) s)))))"

definition supplyFenceResource :: "string \<Rightarrow> string" where
  "supplyFenceResource command = ''r2.'' @ command"

definition executeSupplyCommand :: "faults \<Rightarrow> env \<Rightarrow> request \<Rightarrow> string \<Rightarrow> string \<Rightarrow> json \<Rightarrow>
    status_config \<Rightarrow> (string \<Rightarrow> string \<Rightarrow> json run) \<Rightarrow> db \<Rightarrow> (error + response) \<times> db" where
  "executeSupplyCommand f e r scope command payload status handler s =
     executeIdempotentCommand f e r
       \<lparr>o_scope = scope, o_command = command, o_resource = supplyFenceResource command,
        o_missing_invalid = True, o_payload = payload, o_status = status, o_validate = True,
        o_only_string = False, o_run = handler\<rparr> s"

definition statusFor :: "json \<Rightarrow> int \<Rightarrow> int" where
  "statusFor body defaults = (case body of
       JObj kvs \<Rightarrow> (case fld kvs ''action'' of
           Some (JStr a) \<Rightarrow>
             if a \<in> set [''create'', ''receive'', ''inspect'', ''create_invoice'', ''invalidate_invoice'',
               ''link_replacement_invoice'', ''record_refund'', ''record_payment'',
               ''request_record_correction'', ''request_merge''] then 201 else defaults
         | _ \<Rightarrow> defaults)
     | _ \<Rightarrow> defaults)"

section \<open>Approval registries and step-up claims\<close>

record claim =
  cl_action :: string
  cl_challenge :: string
  cl_object_id :: string
  cl_object_type :: string
  cl_object_version :: int
  cl_digest :: string
  cl_session :: int
  cl_user :: int

record decision =
  allowed :: bool
  reasonCode :: string

type_synonym 'p registry = "(string \<times> 'p) list"

definition register_policy :: "string \<Rightarrow> 'p \<Rightarrow> 'p registry \<Rightarrow> error + 'p registry" where
  "register_policy objectType policy reg = (let key = trim objectType in
     if key = [] \<or> map_of reg key \<noteq> None then Inl (InternalError ''Approval policy registration rejected'')
     else Inr (reg @ [(key, policy)]))"

definition evaluate_policy :: "(claim \<Rightarrow> decision) registry \<Rightarrow> claim \<Rightarrow> decision" where
  "evaluate_policy reg c = (case map_of reg (cl_object_type c) of
       None \<Rightarrow> \<lparr>allowed = False, reasonCode = ''NO_DOMAIN_POLICY''\<rparr>
     | Some policy \<Rightarrow> policy c)"

definition register_effect :: "string \<Rightarrow> 'p \<Rightarrow> 'p registry \<Rightarrow> error + 'p registry" where
  "register_effect effectType effect reg = (let key = trim effectType in
     if key = [] \<or> map_of reg key \<noteq> None then Inl (InternalError ''Approval effect registration rejected'')
     else Inr (reg @ [(key, effect)]))"

definition resolve_effect :: "'p registry \<Rightarrow> string \<Rightarrow> error + 'p" where
  "resolve_effect reg effectType = (case map_of reg effectType of
       None \<Rightarrow> Inl (not_found ''Approval effect not registered'') | Some effect \<Rightarrow> Inr effect)"

definition registeredTypes :: "'p registry \<Rightarrow> string list" where
  "registeredTypes reg = sort (map fst reg)"

definition ok_challenge :: "challenge tbl \<Rightarrow> int option \<Rightarrow> challenge \<Rightarrow> bool" where
  "ok_challenge t self r \<longleftrightarrow> unique_by ch_no t self r"

definition claim_matches :: "string \<Rightarrow> claim \<Rightarrow> challenge \<Rightarrow> bool" where
  "claim_matches now c r \<longleftrightarrow> ch_no r = cl_challenge c \<and> ch_user r = cl_user c \<and>
     ch_session r = Some (cl_session c) \<and> ch_purpose r = ''high_risk'' \<and>
     ch_action r = Some (cl_action c) \<and> ch_object_type r = Some (cl_object_type c) \<and>
     ch_object_id r = Some (cl_object_id c) \<and> ch_object_version r = Some (cl_object_version c) \<and>
     ch_digest r = Some (cl_digest c) \<and> ch_verified_at r \<noteq> None \<and> ch_consumed_at r = None \<and>
     now < ch_expires_at r"

definition consumeStepUpClaim :: "env \<Rightarrow> claim \<Rightarrow> unit run" where
  "consumeStepUpClaim e c =
     bindC (updateC challenges challenges_update ok_challenge (\<lambda>_. claim_matches (js_now e) c)
       (\<lambda>r. r\<lparr>ch_consumed_at := Some (sql_now e)\<rparr>)) (\<lambda>consumed.
     guardC (consumed = 1) (conflict ''Step-up claim is invalid or consumed''))"

section \<open>What a command body does\<close>

definition pending :: "env \<Rightarrow> options \<Rightarrow> string \<Rightarrow> string \<Rightarrow> db \<Rightarrow> db" where
  "pending e opt key digest s = s\<lparr>idempotency := (idempotency s)((o_command opt, o_scope opt, key) \<mapsto>
     \<lparr>i_digest = digest, i_status = ''pending'', i_response_status = None, i_response = None,
      i_expires_at = js_in_24h e\<rparr>)\<rparr>"

definition stored :: "idem \<Rightarrow> string \<Rightarrow> json \<Rightarrow> int \<Rightarrow> bool" where
  "stored row digest result status \<longleftrightarrow> i_digest row = digest \<and> i_status row = ''completed'' \<and>
     i_response row = Some result \<and> i_response_status row = Some status"

lemma requireWriterFence_Inr: "requireWriterFence res s = Inr r \<longleftrightarrow> fence_open (fences s res) \<and> r = ((), s)"
  by (auto simp: requireWriterFence_def run_bind_Inr run_query run_guard_Inr)

lemma resolvedResponseStatus_state: "resolvedResponseStatus c v b s = Inr (n, s') \<Longrightarrow> s' = s"
  by (auto simp: resolvedResponseStatus_def Let_def returnC_def throwC_def split: if_splits)

lemma completeRow_one:
  assumes "completeRow k d n v s = Inr (1, s')"
  shows "\<exists>row. idempotency s' k = Some row \<and> stored row d v n" and "fences s' = fences s"
  using assms by (auto simp: completeRow_def stored_def split: option.splits if_splits)

lemma replayOutcome_Inr:
  assumes "replayOutcome opt row s = Inr ((rep, result, status), s')"
  shows "rep \<and> stored row (i_digest row) result status \<and> s' = s \<and> (\<exists>kvs. result = JObj kvs)"
  using assms
  by (auto simp: replayOutcome_def parseReplay_def stored_def run_bind_Inr returnC_def throwC_def
      split: if_splits option.splits json.splits)

text \<open>A body that succeeds either replays a stored result or runs the handler once and stores it.\<close>

lemma commandBody_cases:
  assumes "commandBody e opt key digest s = Inr ((rep, result, status), s')"
  obtains (replayed) row where "idempotency s (o_command opt, o_scope opt, key) = Some row"
      and "stored row digest result status" and "rep" and "s' = s"
      and "fence_open (fences s (o_resource opt))" and "\<exists>kvs. result = JObj kvs"
  | (executed) s1 row where "idempotency s (o_command opt, o_scope opt, key) = None" and "\<not> rep"
      and "o_run opt key digest (pending e opt key digest s) = Inr (result, s1)"
      and "idempotency s' (o_command opt, o_scope opt, key) = Some row"
      and "stored row digest result status"
      and "fences s' = fences s1" and "fence_open (fences s (o_resource opt))"
proof (cases "idempotency s (o_command opt, o_scope opt, key)")
  case (Some row)
  from assms have "fence_open (fences s (o_resource opt))" and "i_digest row = digest"
    and r: "replayOutcome opt row s = Inr ((rep, result, status), s')"
    by (auto simp: commandBody_def Let_def run_bind_Inr requireWriterFence_Inr insertPending_def Some
        run_query run_require_Inr run_guard_Inr)
  with replayOutcome_Inr [OF r] replayed Some show thesis by blast
next
  case None
  from assms obtain s1 s2 where f: "fence_open (fences s (o_resource opt))" and "\<not> rep"
    and run: "o_run opt key digest (pending e opt key digest s) = Inr (result, s1)"
    and st: "resolvedResponseStatus (o_status opt) result (o_validate opt) s1 = Inr (status, s2)"
    and c: "completeRow (o_command opt, o_scope opt, key) digest status result s2 = Inr (1, s')"
    by (auto simp: commandBody_def Let_def run_bind_Inr requireWriterFence_Inr insertPending_def None
        run_query run_require_Inr run_guard_Inr pending_def run_return)
  from resolvedResponseStatus_state [OF st] have "s2 = s1" .
  with completeRow_one [OF c] f run None \<open>\<not> rep\<close> executed show thesis by metis
qed

lemma commandBody_replays:
  assumes "idempotency s (o_command opt, o_scope opt, key) = Some row"
    and "stored row digest (JObj kvs) status" and "fence_open (fences s (o_resource opt))"
  shows "commandBody e opt key digest s = Inr ((True, JObj kvs, status), s)"
  using assms
  by (simp add: commandBody_def Let_def bindC_def requireWriterFence_def queryC_def run_guard insertPending_def
      run_require stored_def replayOutcome_def parseReplay_def run_return returnC_def)

lemma commandBody_fence: "\<not> fence_open (fences s (o_resource opt)) \<Longrightarrow>
    commandBody e opt key digest s = Inl fence_rejected"
  by (simp add: commandBody_def Let_def bindC_def requireWriterFence_def queryC_def run_guard)

lemma commandBody_reused:
  assumes "idempotency s (o_command opt, o_scope opt, key) = Some row" and "i_digest row \<noteq> digest"
    and "fence_open (fences s (o_resource opt))"
  shows "commandBody e opt key digest s = Inl (PlatformError 409 IDEMPOTENCY_KEY_REUSED
    ''Idempotency key was used for another request'')"
  using assms
  by (simp add: commandBody_def Let_def bindC_def requireWriterFence_def queryC_def run_guard insertPending_def
      run_require)

section \<open>The executor\<close>

abbreviation retry_only :: error where
  "retry_only \<equiv> PlatformError 503 COMMAND_OUTCOME_UNKNOWN
     ''Command outcome is unknown; retry only with the same idempotency key''"

text \<open>The two ways a request is turned down before its transaction starts.\<close>

definition accepted :: "env \<Rightarrow> request \<Rightarrow> options \<Rightarrow> string \<Rightarrow> string \<Rightarrow> bool" where
  "accepted e r opt key digest \<longleftrightarrow> commandIdempotencyKey r (o_missing_invalid opt) = Inr key \<and>
     digest = canonicalRequestDigest e (o_command opt) (o_payload opt) \<and>
     verifyClientDigest r digest (o_only_string opt) = Inr ()"

definition respond :: "options \<Rightarrow> string \<Rightarrow> string \<Rightarrow> (error + bool \<times> json \<times> int) \<times> db \<Rightarrow>
    (error + response) \<times> db" where
  "respond opt key digest out = (case out of
       (Inr (replayed, result, status), s') \<Rightarrow>
         (Inr \<lparr>rs_status = status, rs_command = o_command opt, rs_key = key,
           rs_digest = digest, rs_replayed = replayed, rs_result = result\<rparr>, s')
     | (Inl err, s') \<Rightarrow> (Inl (if err = outcome_unknown then retry_only else err), s'))"

lemma execute_accepted: "accepted e r opt key digest \<Longrightarrow>
    executeIdempotentCommand f e r opt s =
      respond opt key digest (transaction f (commandBody e opt key digest) s)"
  unfolding accepted_def by (elim conjE) (simp add: executeIdempotentCommand_def respond_def Let_def)

lemma execute_cases:
  obtains (refused) err where "executeIdempotentCommand f e r opt s = (Inl err, s)"
    and "\<And>f' s'. executeIdempotentCommand f' e r opt s' = (Inl err, s')"
  | (accepted) key digest where "accepted e r opt key digest"
proof (cases "commandIdempotencyKey r (o_missing_invalid opt)")
  case (Inl err)
  with refused show thesis by (simp add: executeIdempotentCommand_def)
next
  case (Inr key)
  show thesis
  proof (cases "verifyClientDigest r (canonicalRequestDigest e (o_command opt) (o_payload opt)) (o_only_string opt)")
    case (Inl err)
    with Inr refused show thesis by (simp add: executeIdempotentCommand_def)
  qed (use Inr accepted in \<open>simp add: accepted_def\<close>)
qed

lemma respond_simps:
  "respond opt key digest (Inr (rep, result, status), s') =
     (Inr \<lparr>rs_status = status, rs_command = o_command opt, rs_key = key, rs_digest = digest,
       rs_replayed = rep, rs_result = result\<rparr>, s')"
  "respond opt key digest (Inl err, s') = (Inl (if err = outcome_unknown then retry_only else err), s')"
  by (simp_all add: respond_def)

lemma respond_Inr:
  assumes "respond opt key digest out = (Inr a, s')"
  shows "out = (Inr (rs_replayed a, rs_result a, rs_status a), s')" and "rs_key a = key"
    and "rs_digest a = digest" and "rs_command a = o_command opt"
proof -
  obtain r s1 where out: "out = (r, s1)" by (cases out)
  show "out = (Inr (rs_replayed a, rs_result a, rs_status a), s')" "rs_key a = key"
    "rs_digest a = digest" "rs_command a = o_command opt"
    by (cases r; use assms out in \<open>auto simp: respond_simps\<close>)+
qed

lemma respond_Inl:
  assumes "respond opt key digest out = (Inl err, s')"
  obtains err0 where "out = (Inl err0, s')" and "err = (if err0 = outcome_unknown then retry_only else err0)"
proof -
  obtain r s1 where out: "out = (r, s1)" by (cases out)
  show thesis
  proof (cases r)
    case (Inl err0)
    with assms out have "s1 = s'" and "err = (if err0 = outcome_unknown then retry_only else err0)"
      by (simp_all only: respond_simps prod.inject sum.inject)
    with that out Inl show thesis by blast
  qed (use assms out in \<open>auto simp: respond_simps\<close>)
qed

lemma execute_success:
  assumes "executeIdempotentCommand f e r opt s = (Inr a, s')"
  shows "accepted e r opt (rs_key a) (rs_digest a)"
    and "commandBody e opt (rs_key a) (rs_digest a) s = Inr ((rs_replayed a, rs_result a, rs_status a), s')"
proof -
  obtain key digest where acc: "accepted e r opt key digest"
    using assms by (cases rule: execute_cases [of f e r opt s]) auto
  from assms have "respond opt key digest (transaction f (commandBody e opt key digest) s) = (Inr a, s')"
    by (simp add: execute_accepted [OF acc])
  note t = respond_Inr(1) [OF this] and eq = respond_Inr(2,3) [OF this]
  show "accepted e r opt (rs_key a) (rs_digest a)" using acc eq by simp
  show "commandBody e opt (rs_key a) (rs_digest a) s = Inr ((rs_replayed a, rs_result a, rs_status a), s')"
    using tx.committed [OF t] eq by simp
qed

lemma respond_no_faults: "m s = Inr ((rep, result, status), s') \<Longrightarrow>
    respond opt key digest (transaction no_faults m s) =
      (Inr \<lparr>rs_status = status, rs_command = o_command opt, rs_key = key, rs_digest = digest,
        rs_replayed = rep, rs_result = result\<rparr>, s')"
  by (simp add: transaction_no_faults respond_simps)

lemma accepted_run [simp]: "accepted e r (opt\<lparr>o_run := run\<rparr>) key digest = accepted e r opt key digest"
  by (simp add: accepted_def)

lemma execute_no_faults:
  assumes "accepted e r opt key digest"
    and "commandBody e opt key digest s = Inr ((rep, result, status), s')"
  shows "executeIdempotentCommand no_faults e r opt s =
    (Inr \<lparr>rs_status = status, rs_command = o_command opt, rs_key = key, rs_digest = digest,
      rs_replayed = rep, rs_result = result\<rparr>, s')"
  by (simp add: execute_accepted [OF assms(1)] respond_no_faults [of "commandBody e opt key digest", OF assms(2)])

text \<open>After a success the row of the key holds the answer.\<close>

lemma body_stores:
  assumes "commandBody e opt key digest s = Inr ((rep, result, status), s')"
  shows "\<exists>row. idempotency s' (o_command opt, o_scope opt, key) = Some row \<and> stored row digest result status"
  using assms by (cases rule: commandBody_cases) auto

lemma execute_unchanged_fence:
  assumes "\<And>key digest. frames fences (o_run opt key digest)"
    and "commandBody e opt key digest s = Inr ((rep, result, status), s')"
  shows "fence_open (fences s' (o_resource opt))"
  using assms(2)
proof (cases rule: commandBody_cases)
  case (executed s2 row)
  from framesD [OF assms(1) executed(3)] executed(6,7) show ?thesis by (simp add: pending_def)
qed simp

text \<open>A later request with the key of a completed command is answered from its row.\<close>

lemma replay_stored:
  assumes "accepted e r opt key digest" and "stored row digest (JObj kvs) status"
    and "idempotency t (o_command opt, o_scope opt, key) = Some row"
    and "fence_open (fences t (o_resource opt))"
  shows "executeIdempotentCommand no_faults e r opt t =
    (Inr \<lparr>rs_status = status, rs_command = o_command opt, rs_key = key, rs_digest = digest,
      rs_replayed = True, rs_result = JObj kvs\<rparr>, t)"
  by (rule execute_no_faults [OF assms(1) commandBody_replays [OF assms(3,2,4)]])

section \<open>Properties of the executor\<close>

text \<open>
  C5. A command that succeeded is never run again: while its idempotency row and the writer fence
  stand, the same request returns the stored status and result, marked as replayed, and changes
  nothing, whatever the handler would do now.
\<close>

theorem idempotent_replay:
  assumes "executeIdempotentCommand f e r opt s = (Inr a, s')" and "rs_result a = JObj kvs"
    and "fence_open (fences t (o_resource opt))"
    and "idempotency t (o_command opt, o_scope opt, rs_key a) =
         idempotency s' (o_command opt, o_scope opt, rs_key a)"
  shows "executeIdempotentCommand no_faults e r (opt\<lparr>o_run := other\<rparr>) t = (Inr (a\<lparr>rs_replayed := True\<rparr>), t)"
proof -
  note acc = execute_success(1) [OF assms(1)] and body = execute_success(2) [OF assms(1)]
  let ?opt = "opt\<lparr>o_run := other\<rparr>"
  from body_stores [OF body] assms(2,4) obtain row where
    "idempotency t (o_command ?opt, o_scope ?opt, rs_key a) = Some row"
    and "stored row (rs_digest a) (JObj kvs) (rs_status a)" by auto
  with acc assms(3) have "executeIdempotentCommand no_faults e r ?opt t =
      (Inr \<lparr>rs_status = rs_status a, rs_command = o_command ?opt, rs_key = rs_key a, rs_digest = rs_digest a,
        rs_replayed = True, rs_result = JObj kvs\<rparr>, t)"
    by (intro replay_stored) simp_all
  moreover have "rs_command a = o_command opt"
    using assms(1) execute_accepted [OF acc] by (metis respond_Inr(4))
  ultimately show ?thesis using assms(2) by (cases a) simp
qed

text \<open>
  C1. When the outcome of a command is unknown (the connection was lost), retrying with the same
  key is safe: the retry returns the answer of exactly one execution and leaves the state of
  exactly one execution, whether or not the first attempt was committed.
\<close>

theorem retry_exactly_once:
  assumes "executeIdempotentCommand f e r opt s = (Inl retry_only, s1)"
    and "executeIdempotentCommand no_faults e r opt s = (Inr a, t)"
    and "rs_result a = JObj kvs"
    and "\<And>key digest. frames fences (o_run opt key digest)"
  shows "\<exists>b. executeIdempotentCommand no_faults e r opt s1 = (Inr b, t) \<and>
    rs_result b = rs_result a \<and> rs_status b = rs_status a"
proof -
  note acc = execute_success(1) [OF assms(2)] and body = execute_success(2) [OF assms(2)]
  from assms(1) have "respond opt (rs_key a) (rs_digest a)
      (transaction f (commandBody e opt (rs_key a) (rs_digest a)) s) = (Inl retry_only, s1)"
    by (simp add: execute_accepted [OF acc])
  then obtain err0 where "transaction f (commandBody e opt (rs_key a) (rs_digest a)) s = (Inl err0, s1)"
    by (rule respond_Inl)
  from tx.unknown [OF this] body have "s1 = s \<or> s1 = t" by auto
  then show ?thesis
  proof
    assume "s1 = t"
    from body_stores [OF body] assms(3) obtain row where
      "idempotency t (o_command opt, o_scope opt, rs_key a) = Some row"
      and "stored row (rs_digest a) (JObj kvs) (rs_status a)" by auto
    with acc execute_unchanged_fence [OF assms(4) body] \<open>s1 = t\<close> assms(3) show ?thesis
      by (simp add: replay_stored)
  qed (use assms(2) in blast)
qed

text \<open>
  C12. A command that fails changes nothing: the only error after which the database may differ is
  the explicit unknown outcome.
\<close>

theorem command_atomic:
  assumes "executeIdempotentCommand f e r opt s = (Inl err, s')" and "err \<noteq> retry_only"
  shows "s' = s"
proof (cases rule: execute_cases [of f e r opt s])
  case refused
  with assms show ?thesis by simp
next
  case (accepted key digest)
  from assms(1) have "respond opt key digest (transaction f (commandBody e opt key digest) s) = (Inl err, s')"
    by (simp add: execute_accepted [OF accepted])
  then show ?thesis
  proof (rule respond_Inl)
    fix err0
    assume t: "transaction f (commandBody e opt key digest) s = (Inl err0, s')"
      and "err = (if err0 = outcome_unknown then retry_only else err0)"
    with assms(2) have "err0 \<noteq> outcome_unknown" by auto
    with tx.rolled_back [OF t] show ?thesis by simp
  qed
qed

text \<open>
  While the writer fence of its resource is closed (absent, disabled, of another owner or
  generation) every command fails and changes nothing, under every fault.
\<close>

theorem closed_fence_blocks:
  assumes "\<not> fence_open (fences s (o_resource opt))"
  shows "\<exists>err. executeIdempotentCommand f e r opt s = (Inl err, s)"
proof (cases rule: execute_cases [of f e r opt s])
  case (accepted key digest)
  have m: "commandBody e opt key digest s = Inl fence_rejected" by (rule commandBody_fence [OF assms])
  obtain res s' where t: "transaction f (commandBody e opt key digest) s = (res, s')" by fastforce
  from tx.failing_callback [OF m t] have "s' = s" .
  moreover have "res \<noteq> Inr y" for y using tx.committed [of f _ s y s'] t m by fastforce
  then obtain err where "res = Inl err" by (cases res) auto
  ultimately show ?thesis using t
    by (simp add: execute_accepted [OF accepted] respond_simps)
qed blast

text \<open>
  C32. A key that was used for one payload is refused for a different one: if the two payloads
  differ beyond the order of keys, be it in the fraction of a number only, and the digest does not collide on their
  texts, the second request fails with IDEMPOTENCY_KEY_REUSED and changes nothing. The numbers of both payloads must
  be printable, as every double is.
\<close>

theorem reused_key_refused:
  assumes "executeIdempotentCommand f e r opt s = (Inr a, s')"
    and "accepted e r' (opt\<lparr>o_payload := p\<rparr>) (rs_key a) digest"
    and "num_json p" and "num_json (o_payload opt)" and "norm_json p \<noteq> norm_json (o_payload opt)"
    and "sha256 e (request_text (o_command opt) p) = sha256 e (request_text (o_command opt) (o_payload opt)) \<Longrightarrow>
         request_text (o_command opt) p = request_text (o_command opt) (o_payload opt)"
    and "fence_open (fences s' (o_resource opt))"
  shows "executeIdempotentCommand no_faults e r' (opt\<lparr>o_payload := p\<rparr>) s' =
    (Inl (PlatformError 409 IDEMPOTENCY_KEY_REUSED ''Idempotency key was used for another request''), s')"
proof -
  let ?opt = "opt\<lparr>o_payload := p\<rparr>"
  note acc = execute_success(1) [OF assms(1)] and body = execute_success(2) [OF assms(1)]
  from body_stores [OF body] obtain row where
    row: "idempotency s' (o_command ?opt, o_scope ?opt, rs_key a) = Some row"
    and "i_digest row = rs_digest a" by (auto simp: stored_def)
  have "plain_json (norm_json p) \<noteq> plain_json (norm_json (o_payload opt))"
    using assms(3-5) plain_text_inject num_json_norm by blast
  then have "request_text (o_command opt) p \<noteq> request_text (o_command opt) (o_payload opt)"
    by (simp add: request_text_def canonical_plain)
  with assms(6) have "digest \<noteq> rs_digest a"
    using acc assms(2) by (auto simp: accepted_def canonicalRequestDigest_def)
  with \<open>i_digest row = rs_digest a\<close> have "i_digest row \<noteq> digest" by simp
  from commandBody_reused [OF row this] assms(7) show ?thesis
    by (simp add: execute_accepted [OF assms(2)] transaction_no_faults after_failure_def respond_simps)
qed

section \<open>Properties of the checks\<close>

lemma requireSameOrigin_ok: "requireSameOrigin e r = Inr () \<Longrightarrow>
    \<exists>origin host proto h. r_header r ''origin'' = Some (HOne origin) \<and>
      requestHost r = Some (HOne host) \<and> url_parse e origin = Some (proto, h) \<and>
      proto @ ''//'' @ h = requestProtocol r @ ''://'' @ host"
  by (auto simp: requireSameOrigin_def split: option.splits header.splits if_splits)

lemma requireCsrf_ok: "requireCsrf r = Inr () \<Longrightarrow>
    \<exists>token header. cookie r ''topology_csrf'' = Some token \<and>
      r_header r ''x-csrf-token'' = Some (HOne header) \<and> sha256_pattern (lower token) \<and>
      lower token = lower header"
  by (auto simp: requireCsrf_def split: option.splits header.splits if_splits)


lemma claim_number: "claim_matches now c r \<Longrightarrow> ch_no r = cl_challenge c"
  by (simp add: claim_matches_def)

text \<open>
  C30. A step-up confirmation is single use: once a claim has been consumed, consuming the same claim
  again (at the same time or later) fails.
\<close>

theorem step_up_single_use:
  assumes "consumeStepUpClaim e c s = Inr ((), s')" and "js_now e \<le> js_now e'"
  shows "consumeStepUpClaim e' c s' = Inl (conflict ''Step-up claim is invalid or consumed'')"
proof -
  from assms(1) have s': "challenges s' = updateT (\<lambda>_. claim_matches (js_now e) c)
      (\<lambda>r. r\<lparr>ch_consumed_at := Some (sql_now e)\<rparr>) (challenges s)"
    by (auto simp: consumeStepUpClaim_def run_bind_Inr updateC_def run_guard_Inr split: if_splits)
  have later: "claim_matches (js_now e) c r" if "claim_matches (js_now e') c r" for r
    using that assms(2) by (auto simp: claim_matches_def)
  have "\<not> claim_matches (js_now e') c r" if "(i, r) \<in> set (rows (challenges s'))" for i r
  proof
    assume "claim_matches (js_now e') c r"
    with that obtain r0 where "r = (if claim_matches (js_now e) c r0
        then r0\<lparr>ch_consumed_at := Some (sql_now e)\<rparr> else r0)" and "claim_matches (js_now e') c r"
      by (auto simp: s' updateT_def)
    with later show False by (auto simp: claim_matches_def split: if_splits)
  qed
  then have "select (challenges s') (\<lambda>_. claim_matches (js_now e') c) = []"
    by (auto simp: select_def filter_empty_conv)
  then show ?thesis
    by (simp add: consumeStepUpClaim_def bindC_def updateC_def matched_def run_guard)
qed

section \<open>The properties at a concrete command\<close>

definition sample_options :: options where
  "sample_options = \<lparr>o_scope = ''user:1'', o_command = ''inventory.reserve'',
     o_resource = ''r3.inventory.commands'', o_missing_invalid = False, o_payload = JObj [],
     o_status = StatusConst 201, o_validate = False, o_only_string = True,
     o_run = (\<lambda>_ _. returnC (JObj [(''ok'', JBool True)]))\<rparr>"

definition fenced_db :: db where
  "fenced_db = empty_db\<lparr>fences := (\<lambda>_. Some \<lparr>f_owner = ''fastify-v1'', f_enabled = True, f_generation = 2\<rparr>)\<rparr>"

definition lost_commit :: faults where
  "lost_commit = no_faults\<lparr>commit := Failed\<rparr>"

definition sample_digest :: string where
  "sample_digest = canonicalRequestDigest sample_env ''inventory.reserve'' (JObj [])"

definition sample_response :: response where
  "sample_response = \<lparr>rs_status = 201, rs_command = ''inventory.reserve'', rs_key = ''key-0123456789abc'',
     rs_digest = sample_digest, rs_replayed = False, rs_result = JObj [(''ok'', JBool True)]\<rparr>"

lemma sample_accepted: "accepted sample_env sample_request sample_options ''key-0123456789abc'' sample_digest"
  unfolding accepted_def sample_digest_def by code_simp

lemma sample_body:
  "\<exists>s'. commandBody sample_env sample_options ''key-0123456789abc'' sample_digest fenced_db =
      Inr ((False, JObj [(''ok'', JBool True)], 201), s') \<and> fence_open (fences s' ''r3.inventory.commands'')"
  by (simp add: commandBody_def Let_def bindC_def requireWriterFence_def queryC_def run_guard
      insertPending_def run_require fenced_db_def empty_db_def fence_open_def sample_options_def
      resolvedResponseStatus_def run_return completeRow_def int32_def)

lemma sample_executes:
  obtains s' where "executeIdempotentCommand no_faults sample_env sample_request sample_options fenced_db =
      (Inr sample_response, s')"
    and "executeIdempotentCommand lost_commit sample_env sample_request sample_options fenced_db =
      (Inl retry_only, s')"
    and "fence_open (fences s' ''r3.inventory.commands'')"
proof -
  obtain s' where body: "commandBody sample_env sample_options ''key-0123456789abc'' sample_digest fenced_db =
      Inr ((False, JObj [(''ok'', JBool True)], 201), s')"
    and fence: "fence_open (fences s' ''r3.inventory.commands'')"
    using sample_body by blast
  have "o_command sample_options = ''inventory.reserve''" by (simp add: sample_options_def)
  with execute_no_faults [OF sample_accepted body]
  have ok: "executeIdempotentCommand no_faults sample_env sample_request sample_options fenced_db =
      (Inr sample_response, s')" by (simp add: sample_response_def)
  have "transaction lost_commit (commandBody sample_env sample_options ''key-0123456789abc'' sample_digest)
      fenced_db = (Inl outcome_unknown, s')"
    by (simp add: transaction_def lost_commit_def no_faults_def run_callback_def body)
  then have lost: "executeIdempotentCommand lost_commit sample_env sample_request sample_options fenced_db =
      (Inl retry_only, s')"
    by (simp add: execute_accepted [OF sample_accepted] respond_simps)
  show thesis by (rule that [OF ok lost fence])
qed

lemma sample_options_simps [simp]:
  "o_resource sample_options = ''r3.inventory.commands''" "o_payload sample_options = JObj []"
  "o_command sample_options = ''inventory.reserve''"
  "o_run sample_options = (\<lambda>_ _. returnC (JObj [(''ok'', JBool True)]))"
  by (simp_all add: sample_options_def)

lemma sample_response_simps [simp]:
  "rs_key sample_response = ''key-0123456789abc''" "rs_result sample_response = JObj [(''ok'', JBool True)]"
  by (simp_all add: sample_response_def)

lemma idempotent_replay_witness:
  "\<exists>s'. executeIdempotentCommand no_faults sample_env sample_request
      (sample_options\<lparr>o_run := (\<lambda>_ _. throwC DatabaseError)\<rparr>) s' =
    (Inr (sample_response\<lparr>rs_replayed := True\<rparr>), s')"
proof -
  obtain s' where "executeIdempotentCommand no_faults sample_env sample_request sample_options fenced_db =
      (Inr sample_response, s')" and "fence_open (fences s' ''r3.inventory.commands'')"
    by (rule sample_executes)
  then show ?thesis
    using idempotent_replay [of no_faults sample_env sample_request sample_options fenced_db
        sample_response s' _ s' "\<lambda>_ _. throwC DatabaseError"] by auto
qed

lemma retry_exactly_once_witness:
  "\<exists>s1 t b. executeIdempotentCommand lost_commit sample_env sample_request sample_options fenced_db =
      (Inl retry_only, s1) \<and>
    executeIdempotentCommand no_faults sample_env sample_request sample_options s1 = (Inr b, t) \<and>
    rs_result b = JObj [(''ok'', JBool True)]"
proof -
  obtain s' where ok: "executeIdempotentCommand no_faults sample_env sample_request sample_options fenced_db =
      (Inr sample_response, s')"
    and lost: "executeIdempotentCommand lost_commit sample_env sample_request sample_options fenced_db =
      (Inl retry_only, s')"
    by (rule sample_executes)
  have "frames fences (o_run sample_options key digest)" for key digest
    by (simp add: frames_return)
  from retry_exactly_once [OF lost ok sample_response_simps(2) this] lost show ?thesis by auto
qed

lemma command_atomic_witness:
  "snd (executeIdempotentCommand no_faults sample_env sample_request sample_options empty_db) = empty_db"
proof -
  have body: "commandBody sample_env sample_options ''key-0123456789abc'' sample_digest empty_db = Inl fence_rejected"
    by (rule commandBody_fence) (simp add: fence_open_def empty_db_def)
  have "executeIdempotentCommand no_faults sample_env sample_request sample_options empty_db =
      (Inl fence_rejected, empty_db)"
    using body by (simp add: execute_accepted [OF sample_accepted] transaction_no_faults
        after_failure_def respond_simps fence_rejected_def)
  from command_atomic [OF this] show ?thesis
    by (metis \<open>executeIdempotentCommand no_faults sample_env sample_request sample_options empty_db =
      (Inl fence_rejected, empty_db)\<close> snd_conv)
qed

lemma closed_fence_blocks_witness:
  "\<exists>err. executeIdempotentCommand lost_commit sample_env sample_request sample_options empty_db = (Inl err, empty_db)"
  by (rule closed_fence_blocks) (simp add: fence_open_def empty_db_def)

lemma reused_key_refused_witness:
  "\<exists>s'. executeIdempotentCommand no_faults sample_env sample_request
      (sample_options\<lparr>o_payload := JObj [(''quantity'', jint 2)]\<rparr>) s' =
    (Inl (PlatformError 409 IDEMPOTENCY_KEY_REUSED ''Idempotency key was used for another request''), s')"
proof -
  let ?p = "JObj [(''quantity'', jint 2)]"
  obtain s' where ok: "executeIdempotentCommand no_faults sample_env sample_request sample_options fenced_db =
      (Inr sample_response, s')" and fence: "fence_open (fences s' ''r3.inventory.commands'')"
    by (rule sample_executes)
  have acc: "accepted sample_env sample_request (sample_options\<lparr>o_payload := ?p\<rparr>) ''key-0123456789abc''
      (canonicalRequestDigest sample_env ''inventory.reserve'' ?p)"
    unfolding accepted_def by code_simp
  have "executeIdempotentCommand no_faults sample_env sample_request (sample_options\<lparr>o_payload := ?p\<rparr>) s' =
    (Inl (PlatformError 409 IDEMPOTENCY_KEY_REUSED ''Idempotency key was used for another request''), s')"
    by (rule reused_key_refused [OF ok])
      (use acc fence in \<open>simp_all add: jint_def printable_def safe_integer_def sample_env_def\<close>)
  then show ?thesis by blast
qed

lemma sample_operation:
  "executeOperationsCommand no_faults sample_env (\<lambda>_. Inr sample_access) True sample_request
      ''inventory.reserve'' (\<lambda>_ _. returnC (JObj [(''ok'', JBool True)])) 201 (JObj []) s =
    executeIdempotentCommand no_faults sample_env sample_request sample_options s"
proof -
  have "requireSameOrigin sample_env sample_request = Inr ()" by code_simp
  moreover have "requireCsrf sample_request = Inr ()" by code_simp
  moreover have "actorScope sample_access = Inr ''user:1''" by code_simp
  moreover have "operations_resource ''inventory.reserve'' = Some ''r3.inventory.commands''"
    by (simp add: operations_resource_def)
  ultimately show ?thesis
    by (simp add: executeOperationsCommand_def operationOptions_def sample_options_def)
qed


definition sample_claim :: claim where
  "sample_claim = \<lparr>cl_action = ''approve'', cl_challenge = ''CH-1'', cl_object_id = ''7'',
     cl_object_type = ''approval_request'', cl_object_version = 1, cl_digest = ''d'', cl_session = 1,
     cl_user = 1\<rparr>"

definition challenge_db :: db where
  "challenge_db = empty_db\<lparr>challenges := insertT
     \<lparr>ch_no = ''CH-1'', ch_user = 1, ch_purpose = ''high_risk'', ch_session = Some 1,
      ch_action = Some ''approve'', ch_object_type = Some ''approval_request'', ch_object_id = Some ''7'',
      ch_object_version = Some 1, ch_digest = Some ''d'', ch_verified_at = Some ''2025-01-01T00:00:00.000Z'',
      ch_consumed_at = None, ch_expires_at = ''2025-01-01T00:10:00.000Z''\<rparr> emptyT\<rparr>"

lemma step_up_single_use_witness:
  "\<exists>s'. consumeStepUpClaim sample_env sample_claim challenge_db = Inr ((), s') \<and>
    consumeStepUpClaim sample_env sample_claim s' = Inl (conflict ''Step-up claim is invalid or consumed'')"
proof -
  have "\<exists>s'. consumeStepUpClaim sample_env sample_claim challenge_db = Inr ((), s')"
    by (simp add: consumeStepUpClaim_def bindC_def updateC_def challenge_db_def insertT_def emptyT_def
        select_def claim_matches_def sample_claim_def matched_def run_guard
        ok_challenge_def unique_by_def)
  then show ?thesis using step_up_single_use [of sample_env sample_claim challenge_db] by blast
qed
end
