(* ===== verification/Finance.thy ===== *)
theory Finance
  imports Stock Digest Commands
begin

text \<open>
  \<open>modules/finance/writes.ts\<close>: factory invoices and their verification by two roles, the allocation of
  a verified invoice to the payment requests of its purchase order, payments, refunds and corrections of
  the payment ledger, and invoice exceptions with their remediation.
\<close>

section \<open>Step-up, business keys and the ledger\<close>

definition payloadDigest :: "env \<Rightarrow> (string \<times> json) list \<Rightarrow> string" where
  "payloadDigest e payload = sha256 e (canonicalJson (JObj payload))"

definition objectVersion :: "int \<Rightarrow> int run" where
  "objectVersion v = bindC (guardC (1 \<le> v \<and> v \<le> 9007199254740991) (version_conflict ''Finance version unavailable''))
     (\<lambda>_. returnC v)"

definition stepUp :: "cctx \<Rightarrow> json option \<Rightarrow> string \<Rightarrow> int \<Rightarrow> int \<Rightarrow> (string \<times> json) list \<Rightarrow> unit run" where
  "stepUp c given action objectId updatedAt payload =
     bindC (stringC given ''challengeNo'' 191) (\<lambda>challengeNo.
     bindC (objectVersion updatedAt) (\<lambda>version.
     case a_session (c_access c) of
       None \<Rightarrow> throwC (forbidden ''Step-up requires an authenticated session'')
     | Some session \<Rightarrow> consumeStepUpClaim (c_env c)
         \<lparr>cl_action = action, cl_challenge = challengeNo, cl_object_id = show_int objectId,
          cl_object_type = ''finance:'' @ action, cl_object_version = version,
          cl_digest = payloadDigest (c_env c) payload, cl_session = session, cl_user = a_user (c_access c)\<rparr>))"

definition claimBusinessKey :: "string \<Rightarrow> string \<Rightarrow> unit run" where
  "claimBusinessKey type key =
     bindC (queryC (\<lambda>s. business_keys s (type, key))) (\<lambda>existing.
     bindC (guardC (existing = None) (conflict ''Financial business key already exists'')) (\<lambda>_.
     modifyC (\<lambda>s. s\<lparr>business_keys := (business_keys s)((type, key) \<mapsto> ''pending'')\<rparr>)))"

definition settleBusinessKey :: "string \<Rightarrow> string \<Rightarrow> int \<Rightarrow> unit run" where
  "settleBusinessKey type key recordId =
     modifyC (\<lambda>s. if business_keys s (type, key) = None then s
       else s\<lparr>business_keys := (business_keys s)((type, key) \<mapsto> show_int recordId)\<rparr>)"

definition safe :: "int \<Rightarrow> bool" where
  "safe n \<longleftrightarrow> \<bar>n\<bar> \<le> 9007199254740991"

definition record_types :: "string list" where
  "record_types = [''payment'', ''refund'', ''correction'', ''reversal'']"

definition ledger_row_ok :: "payment \<Rightarrow> bool" where
  "ledger_row_ok p \<longleftrightarrow> safe (py_amount p) \<and>
     \<not> (if py_type p = ''reversal'' then 0 \<le> py_amount p else py_amount p \<le> 0) \<and>
     py_type p \<in> set record_types \<and> \<not> (py_type p = ''payment'' \<and> py_exception p \<noteq> None) \<and>
     \<not> (py_type p = ''refund'' \<and> py_exception p = None)"

definition payable :: "payment \<Rightarrow> int" where
  "payable p = (if py_type p \<noteq> ''refund'' \<and> py_exception p = None then py_amount p else 0)"

definition payableNet :: "payment list \<Rightarrow> int \<Rightarrow> int run" where
  "payableNet ledger payableTotal =
     bindC (foldC (\<lambda>net p.
       bindC (guardC (ledger_row_ok p) (conflict ''Payment ledger is invalid'')) (\<lambda>_.
       bindC (guardC (safe (net + payable p)) (conflict ''Payment ledger exceeds safe bounds'')) (\<lambda>_.
       returnC (net + payable p)))) 0 ledger) (\<lambda>net.
     bindC (guardC (\<not> (net < 0 \<or> payableTotal < net)) (conflict ''Payment ledger is outside payable bounds'')) (\<lambda>_.
     returnC net))"

definition ledger_of :: "db \<Rightarrow> int \<Rightarrow> payment list" where
  "ledger_of s q = map snd (select (payments s) (\<lambda>_ p. py_request p = q))"

section \<open>Registering and verifying an invoice\<close>

definition createInvoice :: "cctx \<Rightarrow> (string \<times> json) list \<Rightarrow> json run" where
  "createInvoice c body =
     bindC (requireRole (c_access c) [''admin'', ''supply_chain'']) (\<lambda>_.
     bindC (integer (fld body ''factoryId'') ''factoryId'' 1) (\<lambda>factoryId.
     bindC (integer (fld body ''purchaseOrderId'') ''purchaseOrderId'' 1) (\<lambda>purchaseOrderId.
     bindC (stringC (fld body ''invoiceNo'') ''invoiceNo'' 191) (\<lambda>invoiceNo.
     bindC (oneOf (fld body ''invoiceType'') [''vat_special'', ''vat_general'', ''other''] ''invoiceType'') (\<lambda>invoiceType.
     bindC (oneOf (fld body ''coverageMode'') [''full_order'', ''delivery_batch'', ''order'', ''shipment''] ''coverageMode'') (\<lambda>coverageMode.
     let mode = (if coverageMode = ''shipment'' then ''delivery_batch''
       else if coverageMode = ''order'' then ''full_order'' else coverageMode) in
     bindC (integer (fld body ''amountTaxIncludedMinor'') ''amountTaxIncludedMinor'' 1) (\<lambda>amount.
     bindC (integer (fld body ''taxAmountMinor'') ''taxAmountMinor'' 0) (\<lambda>taxAmount.
     bindC (if mode = ''full_order'' then returnC 1
       else integer (fld body ''expectedAmountMinor'') ''expectedAmountMinor'' 1) (\<lambda>expectedAmount.
     bindC (stringC (fld body ''issuedAt'') ''issuedAt'' 100) (\<lambda>issuedAt.
     bindC (integer (fld body ''fileId'') ''fileId'' 1) (\<lambda>fileId.
     bindC (requireCleanFile (c_access c) fileId ''invoice'' ''purchase_order'' (show_int purchaseOrderId)) (\<lambda>file.
     bindC (queryC (\<lambda>s. fetch (purchase_orders s) purchaseOrderId)) (\<lambda>found.
     bindC (requireC found (not_found ''Purchase order not found'')) (\<lambda>order.
     let expected = (if mode = ''full_order'' then po_total order else expectedAmount) in
     bindC (if mode = ''delivery_batch'' then optionalInteger (fld body ''deliveryBatchId'') ''deliveryBatchId''
       else returnC None) (\<lambda>deliveryBatchId.
     bindC (insertC invoices invoices_update ok_invoice
       \<lparr>iv_factory = factoryId, iv_order = purchaseOrderId, iv_mode = mode, iv_delivery = deliveryBatchId,
        iv_no = invoiceNo, iv_type = invoiceType, iv_amount = amount, iv_tax = taxAmount, iv_issued_at = issuedAt,
        iv_file_key = Some (fo_object_key file), iv_status = ''received'', iv_expected = expected,
        iv_matches = (amount = expected), iv_mismatch = amount - expected,
        iv_maintained_by = a_user (c_access c)\<rparr>) (\<lambda>i.
     bindC (writeAudit True c ''create'' ''finance'' ''invoice'' (show_int i) (Some invoiceNo) None
       (Some (JObj [(''factoryId'', jint factoryId), (''purchaseOrderId'', jint purchaseOrderId),
         (''amountTaxIncludedMinor'', jint amount), (''expectedAmountMinor'', jint expected), (''fileId'', jint fileId)]))) (\<lambda>_.
     bindC (domainEvent c ''InvoiceRegistered'' ''invoice'' (show_int i) None RNone []) (\<lambda>_.
     returnC (JObj [(''invoice'', JObj [(''id'', jint i), (''factoryId'', jint factoryId),
         (''purchaseOrderId'', jint purchaseOrderId), (''invoiceNo'', JStr invoiceNo), (''invoiceType'', JStr invoiceType),
         (''coverageMode'', JStr mode), (''amountTaxIncludedMinor'', jint amount), (''expectedAmountMinor'', jint expected),
         (''amountMatchesExpected'', JBool (amount = expected)), (''status'', JStr ''received'')]),
       (''verificationBlocked'', JBool (amount \<noteq> expected))])))))))))))))))))))"

text \<open>The payment requests of a purchase order, in the order in which an invoice covers them.\<close>

definition order_requests :: "db \<Rightarrow> int \<Rightarrow> (int \<times> payment_request) list" where
  "order_requests s orderId = sort_key (\<lambda>(i, r). (pq_planned r, i))
     (select (payment_requests s) (\<lambda>i _. list_ex (\<lambda>(_, t). qt_request t = i \<and> qt_order t = orderId) (rows (request_items s))))"

definition cover :: "int \<Rightarrow> int \<Rightarrow> payment_request \<Rightarrow> payment_request \<Rightarrow> payment_request" where
  "cover now allocated r q = (let newCoverage = pq_covered r + allocated in
     q\<lparr>pq_covered := newCoverage, pq_status := (if pq_total r \<le> newCoverage then ''generated'' else ''waiting_invoice''),
       pq_updated_at := now\<rparr>)"

definition allocateRequest :: "cctx \<Rightarrow> int \<Rightarrow> int \<times> int \<Rightarrow> int \<times> payment_request \<Rightarrow> (int \<times> int) run" where
  "allocateRequest c invoiceId = (\<lambda>(remaining, allocatedTotal) (i, r).
     if remaining = 0 then returnC (remaining, allocatedTotal)
     else
       let outstanding = max 0 (pq_total r - pq_covered r); allocated = min remaining outstanding in
       if allocated = 0 then returnC (remaining, allocatedTotal)
       else
         bindC (insertC invoice_allocations invoice_allocations_update ok_allocation
           \<lparr>aq_invoice = invoiceId, aq_request = i, aq_amount = allocated, aq_status = ''active'',
            aq_created_by = a_user (c_access c)\<rparr>) (\<lambda>_.
         bindC (updateC payment_requests payment_requests_update ok_payment_request (\<lambda>j q. j = i \<and> True)
           (cover (sql_ms (c_env c)) allocated r)) (\<lambda>_.
         returnC (remaining - allocated, allocatedTotal + allocated))))"

definition allocateInvoice :: "cctx \<Rightarrow> int \<Rightarrow> invoice \<Rightarrow> int run" where
  "allocateInvoice c i v =
     bindC (queryC (\<lambda>s. order_requests s (iv_order v))) (\<lambda>requests.
     bindC (foldC (allocateRequest c i) (iv_amount v, 0) requests) (\<lambda>result. returnC (snd result)))"

definition setInvoiceStatus :: "int \<Rightarrow> string \<Rightarrow> unit run" where
  "setInvoiceStatus i status =
     bindC (updateC invoices invoices_update ok_invoice (\<lambda>j v. j = i \<and> iv_status v = ''received'')
       (\<lambda>v. v\<lparr>iv_status := status\<rparr>)) (\<lambda>updated.
     guardC (updated = 1) (version_conflict ''Invoice changed concurrently''))"

definition verifyInvoice :: "cctx \<Rightarrow> (string \<times> json) list \<Rightarrow> json run" where
  "verifyInvoice c body =
     bindC (requireRole (c_access c) [''admin'', ''supply_chain'', ''finance'']) (\<lambda>_.
     bindC (integer (fld body ''invoiceId'') ''invoiceId'' 1) (\<lambda>invoiceId.
     bindC (oneOf (fld body ''verifierRole'') [''supply_chain'', ''finance''] ''verifierRole'') (\<lambda>verifierRole.
     bindC (oneOf (fld body ''decision'') [''approved'', ''rejected''] ''decision'') (\<lambda>decision.
     bindC (guardC (hasRole (c_access c) [''admin'', verifierRole]) (forbidden ''Cannot act for another verifier role'')) (\<lambda>_.
     bindC (queryC (\<lambda>s. fetch (invoices s) invoiceId)) (\<lambda>found.
     bindC (requireC found (not_found ''Invoice not found'')) (\<lambda>v.
     bindC (guardC (iv_status v = ''received'') (version_conflict ''Invoice is not in a verifiable state'')) (\<lambda>_.
     bindC (guardC (\<not> (decision = ''approved'' \<and> \<not> iv_matches v)) (conflict ''Invoice amount mismatch blocks approval'')) (\<lambda>_.
     bindC (queryC (\<lambda>s. map snd (select (verifications s) (\<lambda>_ x. vf_invoice x = invoiceId)))) (\<lambda>existing.
     bindC (guardC (\<not> list_ex (\<lambda>x. vf_role x = verifierRole) existing) (conflict ''Verifier role already decided'')) (\<lambda>_.
     bindC (guardC (\<not> list_ex (\<lambda>x. vf_by x = a_user (c_access c)) existing)
       (conflict ''One person cannot perform both verification roles'')) (\<lambda>_.
     bindC (if decision = ''rejected'' then bindC (stringC (fld body ''rejectionReason'') ''rejectionReason'' 1000) (\<lambda>t. returnC (Some t))
       else returnC None) (\<lambda>reason.
     bindC (insertC verifications verifications_update ok_verification
       \<lparr>vf_invoice = invoiceId, vf_role = verifierRole, vf_decision = decision, vf_reason = reason,
        vf_by = a_user (c_access c)\<rparr>) (\<lambda>_.
     let approved = map vf_role (filter (\<lambda>x. vf_decision x = ''approved'') existing) @
           (if decision = ''approved'' then [verifierRole] else []);
         fullyVerified = (''supply_chain'' \<in> set approved \<and> ''finance'' \<in> set approved) in
     bindC (if decision = ''rejected'' then bindC (setInvoiceStatus invoiceId ''rejected'') (\<lambda>_. returnC 0)
       else if fullyVerified then bindC (setInvoiceStatus invoiceId ''verified'') (\<lambda>_. allocateInvoice c invoiceId v)
       else returnC 0) (\<lambda>allocatedAmount.
     bindC (writeAudit True c ''verify'' ''finance'' ''invoice'' (show_int invoiceId) (Some (iv_no v)) None
       (Some (JObj [(''verifierRole'', JStr verifierRole), (''decision'', JStr decision),
         (''fullyVerified'', JBool fullyVerified), (''allocatedAmountMinor'', jint allocatedAmount)]))) (\<lambda>_.
     bindC (domainEvent c (if decision = ''rejected'' then ''InvoiceRejected'' else if fullyVerified then ''InvoiceVerified''
         else ''InvoiceVerificationRecorded'') ''invoice'' (show_int invoiceId) (Some verifierRole) RNone []) (\<lambda>_.
     returnC (JObj [(''success'', JBool True), (''fullyVerified'', JBool fullyVerified),
       (''allocatedAmountMinor'', jint allocatedAmount)]))))))))))))))))))"

section \<open>Invoice exceptions\<close>

definition freezeAllocation :: "cctx \<Rightarrow> int \<times> allocation \<Rightarrow> unit run" where
  "freezeAllocation c = (\<lambda>(i, a).
     bindC (updateC invoice_allocations invoice_allocations_update ok_allocation (\<lambda>j x. j = i \<and> True)
       (\<lambda>x. x\<lparr>aq_status := ''frozen''\<rparr>)) (\<lambda>_.
     bindC (updateC payment_requests payment_requests_update ok_payment_request (\<lambda>j q. j = aq_request a \<and> True)
       (\<lambda>q. q\<lparr>pq_covered := max 0 (pq_covered q - aq_amount a), pq_status := ''invoice_exception_frozen'',
         pq_updated_at := sql_ms (c_env c)\<rparr>)) (\<lambda>_. returnC ())))"

definition active_allocations :: "db \<Rightarrow> int \<Rightarrow> (int \<times> allocation) list" where
  "active_allocations s invoiceId = sort_key (\<lambda>(i, a). aq_request a)
     (select (invoice_allocations s) (\<lambda>_ a. aq_invoice a = invoiceId \<and> aq_status a = ''active''))"

definition invalidateInvoice :: "cctx \<Rightarrow> (string \<times> json) list \<Rightarrow> json run" where
  "invalidateInvoice c body =
     bindC (requireRole (c_access c) [''admin'', ''finance'']) (\<lambda>_.
     bindC (integer (fld body ''invoiceId'') ''invoiceId'' 1) (\<lambda>invoiceId.
     bindC (oneOf (fld body ''exceptionType'') [''red_invoice'', ''voided''] ''exceptionType'') (\<lambda>exceptionType.
     bindC (stringC (fld body ''reason'') ''reason'' 1000) (\<lambda>reason.
     bindC (stringC (fld body ''replacementDeadline'') ''replacementDeadline'' 100) (\<lambda>deadline.
     bindC (queryC (\<lambda>s. fetch (invoices s) invoiceId)) (\<lambda>found.
     bindC (requireC found (not_found ''Invoice not found'')) (\<lambda>v.
     bindC (queryC (\<lambda>s. select (invoice_exceptions s) (\<lambda>_ x. ix_invoice x = invoiceId \<and> ix_status x \<noteq> ''resolved''))) (\<lambda>active.
     bindC (guardC (active = []) (conflict ''Invoice already has an active exception'')) (\<lambda>_.
     bindC (queryC (\<lambda>s. active_allocations s invoiceId)) (\<lambda>allocated.
     bindC (eachC (freezeAllocation c) allocated) (\<lambda>_.
     bindC (updateC invoices invoices_update ok_invoice (\<lambda>j x. j = invoiceId \<and> True)
       (\<lambda>x. x\<lparr>iv_status := ''invalidated''\<rparr>)) (\<lambda>_.
     bindC (insertC invoice_exceptions invoice_exceptions_update ok_exception
       \<lparr>ix_invoice = invoiceId, ix_type = exceptionType, ix_affected = iv_amount v, ix_deadline = deadline,
        ix_covered = 0, ix_refunded = 0, ix_status = ''awaiting_remediation'', ix_reason = reason,
        ix_created_by = a_user (c_access c), ix_released_by = None, ix_released_at = None, ix_release_reason = None,
        ix_release_evidence = None, ix_resolved_at = None, ix_updated_at = sql_ms (c_env c)\<rparr>) (\<lambda>exceptionId.
     bindC (writeAudit True c ''invalidate'' ''finance'' ''invoice'' (show_int invoiceId) (Some (iv_no v))
       (Some (JObj [(''id'', jint invoiceId), (''invoiceNo'', JStr (iv_no v)),
         (''amountTaxIncludedMinor'', jint (iv_amount v)), (''status'', JStr (iv_status v))]))
       (Some (JObj [(''exceptionId'', jint exceptionId), (''exceptionType'', JStr exceptionType),
         (''reason'', JStr reason), (''replacementDeadline'', JStr deadline)]))) (\<lambda>_.
     bindC (domainEvent c ''InvoiceInvalidated'' ''invoice_exception'' (show_int exceptionId) None RNone
       [(''invoiceId'', jint invoiceId), (''replacementDeadline'', JStr deadline)]) (\<lambda>_.
     returnC (JObj [(''exception'', JObj [(''id'', jint exceptionId), (''invoiceId'', jint invoiceId),
         (''exceptionType'', JStr exceptionType), (''affectedAmountMinor'', jint (iv_amount v)),
         (''replacementDeadline'', JStr deadline), (''status'', JStr ''awaiting_remediation'')]),
       (''frozenPaymentRequestCount'', jint (int (length allocated)))]))))))))))))))))"

text \<open>The joined row of \<open>link_replacement_invoice\<close>: the exception, its invoice and the replacement.\<close>

definition remediation_row :: "db \<Rightarrow> int \<Rightarrow> int \<Rightarrow> (invoice_exception \<times> invoice \<times> invoice) option" where
  "remediation_row s exceptionId replacementId =
     Option.bind (fetch (invoice_exceptions s) exceptionId) (\<lambda>x.
     Option.bind (fetch (invoices s) (ix_invoice x)) (\<lambda>original.
     map_option (\<lambda>replacement. (x, original, replacement)) (fetch (invoices s) replacementId)))"

definition linkReplacement :: "cctx \<Rightarrow> (string \<times> json) list \<Rightarrow> json run" where
  "linkReplacement c body =
     bindC (requireRole (c_access c) [''admin'', ''finance'', ''supply_chain'']) (\<lambda>_.
     bindC (integer (fld body ''invoiceExceptionId'') ''invoiceExceptionId'' 1) (\<lambda>exceptionId.
     bindC (integer (fld body ''replacementInvoiceId'') ''replacementInvoiceId'' 1) (\<lambda>replacementId.
     bindC (integer (fld body ''coveredAmountMinor'') ''coveredAmountMinor'' 1) (\<lambda>covered.
     bindC (queryC (\<lambda>s. remediation_row s exceptionId replacementId)) (\<lambda>found.
     bindC (requireC found (not_found ''Invoice exception or replacement invoice not found'')) (\<lambda>(x, original, replacement).
     bindC (guardC (\<not> (ix_status x = ''resolved'' \<or> iv_status replacement \<noteq> ''verified'' \<or>
         iv_order original \<noteq> iv_order replacement)) (conflict ''Replacement invoice is not eligible'')) (\<lambda>_.
     bindC (guardC (\<not> (iv_amount replacement < covered \<or> ix_affected x < ix_covered x + ix_refunded x + covered))
       (conflict ''Replacement coverage exceeds the exception amount'')) (\<lambda>_.
     bindC (insertC replacement_links replacement_links_update ok_link_replacement
       \<lparr>rk_exception = exceptionId, rk_invoice = replacementId, rk_covered = covered, rk_status = ''verified''\<rparr>) (\<lambda>linkId.
     let replacementTotal = ix_covered x + covered; resolved = (replacementTotal + ix_refunded x = ix_affected x) in
     bindC (updateC invoice_exceptions invoice_exceptions_update ok_exception (\<lambda>j y. j = exceptionId \<and> True)
       (\<lambda>y. y\<lparr>ix_covered := replacementTotal, ix_status := (if resolved then ''resolved'' else ix_status x),
         ix_resolved_at := (if resolved then Some (js_now (c_env c)) else None),
         ix_updated_at := sql_ms (c_env c)\<rparr>)) (\<lambda>_.
     bindC (writeAudit True c ''link_replacement'' ''finance'' ''invoice_exception'' (show_int exceptionId) None None
       (Some (JObj [(''replacementInvoiceId'', jint replacementId), (''coveredAmountMinor'', jint covered),
         (''resolved'', JBool resolved)]))) (\<lambda>_.
     bindC (domainEvent c ''InvoiceRemediationProgressed'' ''invoice_exception'' (show_int exceptionId)
       (Some (show_int replacementId)) RNone []) (\<lambda>_.
     returnC (JObj [(''link'', JObj [(''id'', jint linkId), (''invoiceExceptionId'', jint exceptionId),
         (''replacementInvoiceId'', jint replacementId), (''coveredAmountMinor'', jint covered)]),
       (''resolved'', JBool resolved)])))))))))))))"

definition releaseRisk :: "cctx \<Rightarrow> (string \<times> json) list \<Rightarrow> json run" where
  "releaseRisk c body =
     bindC (requireRole (c_access c) [''admin'', ''supply_chain_lead'']) (\<lambda>_.
     bindC (integer (fld body ''invoiceExceptionId'') ''invoiceExceptionId'' 1) (\<lambda>exceptionId.
     bindC (stringC (fld body ''reason'') ''reason'' 1000) (\<lambda>reason.
     bindC (integer (fld body ''evidenceFileId'') ''evidenceFileId'' 1) (\<lambda>fileId.
     bindC (requireCleanFile (c_access c) fileId ''invoice_risk_release'' ''invoice_exception'' (show_int exceptionId)) (\<lambda>file.
     bindC (queryC (\<lambda>s. fetch (invoice_exceptions s) exceptionId)) (\<lambda>found.
     bindC (requireC found (conflict ''Invoice exception is not a releasable risk warning'')) (\<lambda>x.
     bindC (guardC (ix_status x = ''risk_warning'') (conflict ''Invoice exception is not a releasable risk warning'')) (\<lambda>_.
     bindC (stepUp c (fld body ''challengeNo'') ''release_invoice_risk'' exceptionId (ix_updated_at x)
       [(''action'', JStr ''release_invoice_risk''), (''invoiceExceptionId'', jint exceptionId), (''reason'', JStr reason),
        (''evidenceFileId'', jint fileId)]) (\<lambda>_.
     bindC (updateC invoice_exceptions invoice_exceptions_update ok_exception
       (\<lambda>j y. j = exceptionId \<and> ix_status y = ''risk_warning'')
       (\<lambda>y. y\<lparr>ix_status := ''awaiting_remediation'', ix_released_by := Some (a_user (c_access c)),
         ix_released_at := Some (sql_now (c_env c)), ix_release_reason := Some reason,
         ix_release_evidence := Some (fo_object_key file),
         ix_updated_at := max (ix_updated_at y + 1) (sql_ms (c_env c))\<rparr>)) (\<lambda>updated.
     bindC (guardC (updated = 1) (version_conflict ''Invoice exception changed concurrently'')) (\<lambda>_.
     bindC (writeAudit True c ''release_warning'' ''finance'' ''invoice_exception'' (show_int exceptionId) None
       (Some (JObj [(''id'', jint exceptionId), (''status'', JStr (ix_status x)), (''objectVersion'', jint (ix_updated_at x))]))
       (Some (JObj [(''status'', JStr ''awaiting_remediation''), (''reason'', JStr reason),
         (''evidenceFileId'', jint fileId)]))) (\<lambda>_.
     bindC (domainEvent c ''InvoiceRiskReleased'' ''invoice_exception'' (show_int exceptionId) None RNone []) (\<lambda>_.
     returnC (JObj [(''success'', JBool True), (''invoiceExceptionId'', jint exceptionId),
       (''status'', JStr ''awaiting_remediation'')]))))))))))))))"

section \<open>Payments, refunds and corrections\<close>

definition recordPayment :: "cctx \<Rightarrow> (string \<times> json) list \<Rightarrow> json run" where
  "recordPayment c body =
     bindC (requireRole (c_access c) [''admin'', ''finance'']) (\<lambda>_.
     bindC (integer (fld body ''paymentRequestId'') ''paymentRequestId'' 1) (\<lambda>requestId.
     bindC (integer (fld body ''amountMinor'') ''amountMinor'' 1) (\<lambda>amount.
     bindC (stringC (fld body ''paidAt'') ''paidAt'' 100) (\<lambda>paidAt.
     bindC (stringC (fld body ''bankReference'') ''bankReference'' 191) (\<lambda>bankReference.
     bindC (queryC (\<lambda>s. fetch (payment_requests s) requestId)) (\<lambda>found.
     bindC (requireC found (not_found ''Payment request not found'')) (\<lambda>q.
     bindC (guardC (pq_status q \<in> set [''generated'', ''submitted_to_finance'', ''partially_paid''] \<and> pq_total q \<le> pq_covered q)
       (conflict ''Payment request is not payable'')) (\<lambda>_.
     bindC (stepUp c (fld body ''challengeNo'') ''record_payment'' requestId (pq_updated_at q)
       [(''action'', JStr ''record_payment''), (''paymentRequestId'', jint requestId), (''amountMinor'', jint amount),
        (''paidAt'', JStr paidAt), (''bankReference'', JStr bankReference)]) (\<lambda>_.
     bindC (claimBusinessKey ''payment'' bankReference) (\<lambda>_.
     bindC (queryC (\<lambda>s. ledger_of s requestId)) (\<lambda>ledger.
     bindC (payableNet ledger (pq_total q)) (\<lambda>net.
     bindC (guardC (net + amount \<le> pq_total q) (conflict ''Payment would exceed the payable ledger'')) (\<lambda>_.
     bindC (insertC payments payments_update ok_payment
       \<lparr>py_request = requestId, py_amount = amount, py_paid_at = paidAt, py_reference = bankReference,
        py_type = ''payment'', py_reverses = None, py_corrects = None, py_exception = None,
        py_recorded_by = a_user (c_access c), py_reviewed_by = None, py_review = ''not_required'',
        py_updated_at = sql_ms (c_env c)\<rparr>) (\<lambda>recordId.
     let newNet = net + amount; status = (if newNet = pq_total q then ''paid'' else ''partially_paid'') in
     bindC (updateC payment_requests payment_requests_update ok_payment_request (\<lambda>j r. j = requestId \<and> True)
       (\<lambda>r. r\<lparr>pq_status := status, pq_paid_at := (if newNet = pq_total q then Some paidAt else None),
         pq_reference := Some bankReference, pq_updated_at := max (pq_updated_at r + 1) (sql_ms (c_env c))\<rparr>)) (\<lambda>_.
     bindC (settleBusinessKey ''payment'' bankReference recordId) (\<lambda>_.
     bindC (writeAudit True c ''record_payment'' ''finance'' ''payment_record'' (show_int recordId) (Some (pq_no q)) None
       (Some (JObj [(''paymentRequestId'', jint requestId), (''amountMinor'', jint amount), (''paidAt'', JStr paidAt),
         (''bankReference'', JStr bankReference)]))) (\<lambda>_.
     bindC (domainEvent c ''PaymentRecorded'' ''payment_request'' (show_int requestId) (Some (show_int recordId)) RNone []) (\<lambda>_.
     returnC (JObj [(''payment'', JObj [(''id'', jint recordId), (''paymentRequestId'', jint requestId),
         (''amountMinor'', jint amount), (''paidAt'', JStr paidAt), (''bankReference'', JStr bankReference),
         (''recordType'', JStr ''payment'')]),
       (''paymentStatus'', JStr status), (''remainingAmountMinor'', jint (pq_total q - newNet))])))))))))))))))))))"

definition refund_net :: "int \<Rightarrow> payment list \<Rightarrow> int" where
  "refund_net exceptionId ledger = sum_list (map py_amount (filter (\<lambda>p. py_exception p = Some exceptionId) ledger))"

definition request_allocations :: "db \<Rightarrow> int \<Rightarrow> int \<Rightarrow> allocation list" where
  "request_allocations s invoiceId requestId =
     map snd (select (invoice_allocations s) (\<lambda>_ a. aq_invoice a = invoiceId \<and> aq_request a = requestId))"

definition single_allocation :: "allocation list \<Rightarrow> bool" where
  "single_allocation as = (case as of [a] \<Rightarrow> 0 < aq_amount a | _ \<Rightarrow> False)"

definition exception_row :: "db \<Rightarrow> int \<Rightarrow> invoice_exception option" where
  "exception_row s i = Option.bind (fetch (invoice_exceptions s) i) (\<lambda>x. map_option (\<lambda>_. x) (fetch (invoices s) (ix_invoice x)))"

definition recordRefund :: "cctx \<Rightarrow> (string \<times> json) list \<Rightarrow> json run" where
  "recordRefund c body =
     bindC (requireRole (c_access c) [''admin'', ''finance'']) (\<lambda>_.
     bindC (integer (fld body ''invoiceExceptionId'') ''invoiceExceptionId'' 1) (\<lambda>exceptionId.
     bindC (integer (fld body ''paymentRequestId'') ''paymentRequestId'' 1) (\<lambda>requestId.
     bindC (integer (fld body ''amountMinor'') ''amountMinor'' 1) (\<lambda>amount.
     bindC (stringC (fld body ''paidAt'') ''paidAt'' 100) (\<lambda>paidAt.
     bindC (stringC (fld body ''bankReference'') ''bankReference'' 191) (\<lambda>bankReference.
     bindC (queryC (\<lambda>s. fetch (payment_requests s) requestId)) (\<lambda>foundRequest.
     bindC (requireC foundRequest (not_found ''Payment request not found'')) (\<lambda>q.
     bindC (queryC (\<lambda>s. exception_row s exceptionId)) (\<lambda>found.
     bindC (requireC found (conflict ''Invoice exception is not refundable'')) (\<lambda>x.
     bindC (guardC (ix_status x \<noteq> ''resolved'') (conflict ''Invoice exception is not refundable'')) (\<lambda>_.
     bindC (queryC (\<lambda>s. request_allocations s (ix_invoice x) requestId)) (\<lambda>allocated.
     bindC (guardC (single_allocation allocated)
       (conflict ''Refund request is not allocated to the exception invoice'')) (\<lambda>_.
     bindC (guardC (pq_status q \<in> set [''paid'', ''partially_paid''])
       (conflict ''Refund request has no refundable paid balance'')) (\<lambda>_.
     bindC (queryC (\<lambda>s. ledger_of s requestId)) (\<lambda>before.
     bindC (payableNet before (pq_total q)) (\<lambda>paidNet.
     let refundNet = refund_net exceptionId before in
     bindC (guardC (safe refundNet \<and> 0 \<le> refundNet \<and> refundNet = ix_refunded x)
       (conflict ''Refund ledger and exception projection disagree'')) (\<lambda>_.
     bindC (guardC (refundNet + amount \<le> paidNet) (conflict ''Refund exceeds the paid net amount'')) (\<lambda>_.
     bindC (stepUp c (fld body ''challengeNo'') ''record_refund'' exceptionId (ix_updated_at x)
       [(''action'', JStr ''record_refund''), (''invoiceExceptionId'', jint exceptionId), (''paymentRequestId'', jint requestId),
        (''amountMinor'', jint amount), (''paidAt'', JStr paidAt), (''bankReference'', JStr bankReference)]) (\<lambda>_.
     bindC (guardC (ix_covered x + ix_refunded x + amount \<le> ix_affected x)
       (conflict ''Refund exceeds the remaining exception amount'')) (\<lambda>_.
     bindC (claimBusinessKey ''refund'' bankReference) (\<lambda>_.
     bindC (insertC payments payments_update ok_payment
       \<lparr>py_request = requestId, py_amount = amount, py_paid_at = paidAt, py_reference = bankReference,
        py_type = ''refund'', py_reverses = None, py_corrects = None, py_exception = Some exceptionId,
        py_recorded_by = a_user (c_access c), py_reviewed_by = None, py_review = ''not_required'',
        py_updated_at = sql_ms (c_env c)\<rparr>) (\<lambda>recordId.
     bindC (queryC (\<lambda>s. ledger_of s requestId)) (\<lambda>ledger.
     bindC (payableNet ledger (pq_total q)) (\<lambda>_.
     let refundedTotal = ix_refunded x + amount; resolved = (refundedTotal + ix_covered x = ix_affected x) in
     bindC (updateC invoice_exceptions invoice_exceptions_update ok_exception
       (\<lambda>j y. j = exceptionId \<and> ix_status y = ix_status x \<and> ix_refunded y = ix_refunded x)
       (\<lambda>y. y\<lparr>ix_refunded := refundedTotal, ix_status := (if resolved then ''resolved'' else ix_status x),
         ix_resolved_at := (if resolved then Some (js_now (c_env c)) else None),
         ix_updated_at := max (ix_updated_at y + 1) (sql_ms (c_env c))\<rparr>)) (\<lambda>projected.
     bindC (guardC (projected = 1) (version_conflict ''Invoice exception changed concurrently'')) (\<lambda>_.
     bindC (settleBusinessKey ''refund'' bankReference recordId) (\<lambda>_.
     bindC (writeAudit True c ''record_refund'' ''finance'' ''payment_record'' (show_int recordId) None None
       (Some (JObj [(''exceptionId'', jint exceptionId), (''paymentRequestId'', jint requestId), (''amountMinor'', jint amount),
         (''paidAt'', JStr paidAt), (''bankReference'', JStr bankReference)]))) (\<lambda>_.
     bindC (domainEvent c ''RefundRecorded'' ''invoice_exception'' (show_int exceptionId) (Some (show_int recordId)) RNone []) (\<lambda>_.
     returnC (JObj [(''refund'', JObj [(''id'', jint recordId), (''paymentRequestId'', jint requestId),
         (''amountMinor'', jint amount), (''paidAt'', JStr paidAt), (''bankReference'', JStr bankReference),
         (''recordType'', JStr ''refund'')]),
       (''resolved'', JBool resolved),
       (''remainingAmountMinor'', jint (ix_affected x - refundedTotal - ix_covered x))]))))))))))))))))))))))))))))))"

definition payment_json :: "int \<Rightarrow> payment \<Rightarrow> json" where
  "payment_json i p = JObj [(''id'', jint i), (''paymentRequestId'', jint (py_request p)), (''amountMinor'', jint (py_amount p)),
     (''paidAt'', JStr (py_paid_at p)), (''bankReference'', JStr (py_reference p)), (''recordType'', JStr (py_type p)),
     (''invoiceExceptionId'', jnull jint (py_exception p)), (''objectVersion'', jint (py_updated_at p))]"

definition requestCorrection :: "cctx \<Rightarrow> (string \<times> json) list \<Rightarrow> json run" where
  "requestCorrection c body =
     bindC (requireRole (c_access c) [''admin'', ''finance'']) (\<lambda>_.
     bindC (integer (fld body ''paymentRecordId'') ''paymentRecordId'' 1) (\<lambda>recordId.
     bindC (stringC (fld body ''reason'') ''reason'' 1000) (\<lambda>reason.
     bindC (integer (fld body ''proposedPaymentRequestId'') ''proposedPaymentRequestId'' 1) (\<lambda>proposedRequest.
     bindC (integer (fld body ''proposedAmountMinor'') ''proposedAmountMinor'' 1) (\<lambda>proposedAmount.
     bindC (stringC (fld body ''proposedPaidAt'') ''proposedPaidAt'' 100) (\<lambda>proposedPaidAt.
     bindC (stringC (fld body ''proposedBankReference'') ''proposedBankReference'' 191) (\<lambda>proposedReference.
     bindC (queryC (\<lambda>s. fetch (payments s) recordId)) (\<lambda>found.
     bindC (requireC found (not_found ''Correctable financial record not found'')) (\<lambda>p.
     bindC (guardC (py_type p \<in> set [''payment'', ''refund'']) (not_found ''Correctable financial record not found'')) (\<lambda>_.
     bindC (stepUp c (fld body ''challengeNo'') ''request_record_correction'' recordId (py_updated_at p)
       [(''action'', JStr ''request_record_correction''), (''paymentRecordId'', jint recordId), (''reason'', JStr reason),
        (''proposedPaymentRequestId'', jint proposedRequest), (''proposedAmountMinor'', jint proposedAmount),
        (''proposedPaidAt'', JStr proposedPaidAt), (''proposedBankReference'', JStr proposedReference)]) (\<lambda>_.
     bindC (randomUUID (c_env c)) (\<lambda>u. let approvalNo = ''AP-FINCORR-'' @ u in
     bindC (insertC approvals approvals_update ok_approval
       \<lparr>ap_request_no = approvalNo, ap_workflow = ''financial_record_correction'', ap_entity_type = ''payment_record'',
        ap_entity_id = recordId, ap_summary = ''Financial record correction '' @ show_int recordId,
        ap_payload = JObj [(''proposedPaymentRequestId'', jint proposedRequest), (''proposedAmountMinor'', jint proposedAmount),
          (''proposedPaidAt'', JStr proposedPaidAt), (''proposedBankReference'', JStr proposedReference),
          (''originalRecordType'', JStr (py_type p)), (''invoiceExceptionId'', jnull jint (py_exception p)),
          (''reason'', JStr reason)],
        ap_high_risk = True, ap_status = ''pending'', ap_requested_by = a_user (c_access c), ap_reviewed_by = None,
        ap_review_comment = None, ap_sms_verified = True, ap_updated_at = sql_ms (c_env c)\<rparr>) (\<lambda>approvalId.
     bindC (writeAudit True c ''request_correction'' ''finance'' ''payment_record'' (show_int recordId) None
       (Some (payment_json recordId p)) (Some (JObj [(''approvalId'', jint approvalId), (''reason'', JStr reason)]))) (\<lambda>_.
     bindC (domainEvent c ''FinancialCorrectionRequested'' ''payment_record'' (show_int recordId) (Some (show_int approvalId))
       RNone [(''approvalId'', jint approvalId)]) (\<lambda>_.
     returnC (JObj [(''approval'', JObj [(''id'', jint approvalId), (''requestNo'', JStr approvalNo),
       (''workflowType'', JStr ''financial_record_correction''), (''status'', JStr ''pending'')])]))))))))))))))))"

section \<open>The command\<close>

definition financeCommand :: "cctx \<Rightarrow> json \<Rightarrow> json run" where
  "financeCommand c raw =
     bindC (jsonObject raw) (\<lambda>body.
     bindC (oneOf (fld body ''action'') [''create_invoice'', ''verify_invoice'', ''record_payment'', ''invalidate_invoice'',
         ''link_replacement_invoice'', ''record_refund'', ''request_record_correction'', ''release_invoice_risk''] ''action'') (\<lambda>action.
     if action = ''create_invoice'' then createInvoice c body
     else if action = ''verify_invoice'' then verifyInvoice c body
     else if action = ''invalidate_invoice'' then invalidateInvoice c body
     else if action = ''link_replacement_invoice'' then linkReplacement c body
     else if action = ''record_payment'' then recordPayment c body
     else if action = ''record_refund'' then recordRefund c body
     else if action = ''request_record_correction'' then requestCorrection c body
     else releaseRisk c body))"

section \<open>Sums over the ledger and the allocations\<close>

definition net_of :: "payment tbl \<Rightarrow> int \<Rightarrow> int" where
  "net_of py q = sumT (\<lambda>p. if py_request p = q then payable p else 0) py"

definition remedied :: "payment tbl \<Rightarrow> int \<Rightarrow> int" where
  "remedied py x = sumT (\<lambda>p. if py_exception p = Some x then py_amount p else 0) py"

definition active_cover :: "allocation tbl \<Rightarrow> int \<Rightarrow> int" where
  "active_cover al q = sumT (\<lambda>a. if aq_request a = q \<and> aq_status a = ''active'' then aq_amount a else 0) al"

lemma sum_filter_rows:
  "sum_list (map g (map snd (filter (\<lambda>(i, r). P r) xs))) = sum_list (map (\<lambda>(i, r). if P r then g r else (0 :: int)) xs)"
  by (induction xs) auto

lemma ledger_net: "sum_list (map payable (ledger_of s q)) = net_of (payments s) q"
  by (simp add: ledger_of_def select_def net_of_def sumT_def sum_filter_rows del: map_map)

text \<open>
  \<open>ledger_ok\<close>: every row of the ledger has the shape of its type, and what is paid on a payment request
  lies between zero and its total. \<open>exceptions_ok\<close>: what remedies an invoice exception lies within the
  affected amount, and the refunded amount is the one the ledger shows. \<open>coverage_ok\<close>: the covered amount
  of a payment request is exactly what its active allocations give, and does not exceed its total.
\<close>

definition ledger_ok :: "payment_request tbl \<Rightarrow> payment tbl \<Rightarrow> bool" where
  "ledger_ok pq py \<longleftrightarrow> each_key (\<lambda>_. ledger_row_ok) py \<and>
     each_key (\<lambda>q r. 0 \<le> net_of py q \<and> net_of py q \<le> pq_total r) pq"

definition remedy_ok :: "payment tbl \<Rightarrow> int \<Rightarrow> invoice_exception \<Rightarrow> bool" where
  "remedy_ok py i x \<longleftrightarrow> 0 \<le> ix_covered x \<and> 0 \<le> ix_refunded x \<and> ix_covered x + ix_refunded x \<le> ix_affected x \<and>
     ix_refunded x = remedied py i"

definition exceptions_ok :: "invoice_exception tbl \<Rightarrow> payment tbl \<Rightarrow> bool" where
  "exceptions_ok ix py \<longleftrightarrow> each_key (remedy_ok py) ix \<and>
     (\<forall>(j, p) \<in> set (rows py). \<forall>i. py_exception p = Some i \<longrightarrow> i < nxt ix)"

definition covered_ok :: "allocation tbl \<Rightarrow> int \<Rightarrow> payment_request \<Rightarrow> bool" where
  "covered_ok al q r \<longleftrightarrow> 0 \<le> pq_total r \<and> pq_covered r = active_cover al q \<and> pq_covered r \<le> pq_total r"

definition coverage_ok :: "payment_request tbl \<Rightarrow> allocation tbl \<Rightarrow> bool" where
  "coverage_ok pq al \<longleftrightarrow> each_key (covered_ok al) pq \<and> each_key (\<lambda>_ a. 0 < aq_amount a) al"

definition invoices_ok :: "invoice tbl \<Rightarrow> bool" where
  "invoices_ok iv \<longleftrightarrow> each_key (\<lambda>_ v. 0 \<le> iv_amount v) iv"

definition finance_inv :: "db \<Rightarrow> bool" where
  "finance_inv s \<longleftrightarrow> ledger_ok (payment_requests s) (payments s) \<and> exceptions_ok (invoice_exceptions s) (payments s) \<and>
     coverage_ok (payment_requests s) (invoice_allocations s) \<and> invoices_ok (invoices s)"

lemma finance_invD:
  "finance_inv s \<Longrightarrow> ledger_ok (payment_requests s) (payments s)"
  "finance_inv s \<Longrightarrow> exceptions_ok (invoice_exceptions s) (payments s)"
  "finance_inv s \<Longrightarrow> coverage_ok (payment_requests s) (invoice_allocations s)"
  "finance_inv s \<Longrightarrow> invoices_ok (invoices s)"
  by (simp_all add: finance_inv_def)

text \<open>Writing one row keeps each part.\<close>

lemma net_insert: "net_of (insertT p py) q = net_of py q + (if py_request p = q then payable p else 0)"
  by (simp add: net_of_def)

lemma remedied_insert: "remedied (insertT p py) x = remedied py x + (if py_exception p = Some x then py_amount p else 0)"
  by (simp add: remedied_def)

lemma ledger_ok_insert:
  assumes "ledger_ok pq py" and "ledger_row_ok p"
    and "\<And>r. fetch pq (py_request p) = Some r \<Longrightarrow> 0 \<le> net_of py (py_request p) + payable p \<and>
      net_of py (py_request p) + payable p \<le> pq_total r"
  shows "ledger_ok pq (insertT p py)"
  using assms by (auto simp: ledger_ok_def net_insert intro: each_key_insert elim!: each_key_mono)

lemma ledger_ok_request:
  assumes "ledger_ok pq py" and "\<And>r. pq_total (f r) = pq_total r"
  shows "ledger_ok (updateT c f pq) py"
  using assms by (auto simp: ledger_ok_def intro!: each_key_update)

lemma exceptions_ok_insert:
  assumes "exceptions_ok ix py" and "py_exception p = None"
  shows "exceptions_ok ix (insertT p py)"
  using assms by (auto simp: exceptions_ok_def remedy_ok_def remedied_insert insertT_def [of p py] elim!: each_key_mono)
    (auto simp: remedied_def sumT_def)

lemma remedied_fresh:
  assumes "exceptions_ok ix py" shows "remedied py (nxt ix) = 0"
proof -
  have "py_exception p \<noteq> Some (nxt ix)" if "(j, p) \<in> set (rows py)" for j p
    using assms that by (fastforce simp: exceptions_ok_def)
  then have "map (\<lambda>(j, p). if py_exception p = Some (nxt ix) then py_amount p else 0) (rows py) = map (\<lambda>_. 0) (rows py)"
    by (intro map_cong) auto
  then have "remedied py (nxt ix) = sum_list (map (\<lambda>_. 0) (rows py))"
    by (simp only: remedied_def sumT_def)
  then show ?thesis by simp
qed

lemma exceptions_ok_open:
  assumes "exceptions_ok ix py" and "ix_covered x = 0" and "ix_refunded x = 0" and "0 \<le> ix_affected x"
  shows "exceptions_ok (insertT x ix) py"
  using assms remedied_fresh [OF assms(1)]
  by (fastforce simp: exceptions_ok_def remedy_ok_def nxt_insertT intro: each_key_insert)

lemma exceptions_ok_update:
  assumes "exceptions_ok ix py" and "\<And>i x. fetch ix i = Some x \<Longrightarrow> remedy_ok py i x \<Longrightarrow> c i x \<Longrightarrow> remedy_ok py i (f x)"
  shows "exceptions_ok (updateT c f ix) py"
  using assms by (auto simp: exceptions_ok_def intro!: each_key_update)

text \<open>A refund is a new record and a new refunded amount together.\<close>

lemma exceptions_ok_refund:
  assumes "exceptions_ok ix py" and "py_exception p = Some i" and "fetch ix i = Some x"
    and "\<And>j y. c j y \<Longrightarrow> j = i" and "c i x"
    and "ix_covered (f x) = ix_covered x" and "ix_affected (f x) = ix_affected x"
    and "ix_refunded (f x) = ix_refunded x + py_amount p"
    and "0 \<le> py_amount p" and "ix_covered x + ix_refunded x + py_amount p \<le> ix_affected x"
  shows "exceptions_ok (updateT c f ix) (insertT p py)"
proof -
  from assms(1) have ok: "each_key (remedy_ok py) ix" by (simp add: exceptions_ok_def)
  then have wf: "wf_tbl ix" by (rule each_key_wf)
  have "remedy_ok (insertT p py) j y'" if "fetch (updateT c f ix) j = Some y'" for j y'
  proof (cases "j = i")
    case True
    with that assms(3,5) have "y' = f x" by (simp add: fetch_updateT)
    with each_keyD [OF ok assms(3)] assms(2,6-10) True show ?thesis by (simp add: remedy_ok_def remedied_insert)
  next
    case False
    with that assms(4) have "fetch ix j = Some y'" by (auto simp: fetch_updateT split: if_splits)
    from each_keyD [OF ok this] False assms(2) show ?thesis by (simp add: remedy_ok_def remedied_insert)
  qed
  moreover have "i < nxt ix" using fetch_pos [OF wf assms(3)] by simp
  ultimately show ?thesis
    using assms(1,2) wf by (auto simp: exceptions_ok_def each_key_def insertT_def [of p py])
qed

lemma invoices_ok_insert: "invoices_ok iv \<Longrightarrow> 0 \<le> iv_amount v \<Longrightarrow> invoices_ok (insertT v iv)"
  by (simp add: invoices_ok_def each_key_insert)

lemma invoices_ok_update: "invoices_ok iv \<Longrightarrow> (\<And>v. iv_amount (f v) = iv_amount v) \<Longrightarrow> invoices_ok (updateT c f iv)"
  by (simp add: invoices_ok_def each_key_update)

text \<open>Covering a request by a new allocation, and freezing an allocation.\<close>

lemma coverage_ok_request:
  assumes "coverage_ok pq al" and "\<And>r. pq_total (f r) = pq_total r \<and> pq_covered (f r) = pq_covered r"
  shows "coverage_ok (updateT c f pq) al"
  using assms by (auto simp: coverage_ok_def covered_ok_def intro!: each_key_update)

lemma coverage_ok_cover:
  assumes "coverage_ok pq al" and "fetch pq q = Some r" and "aq_request a = q" and "aq_status a = ''active''"
    and "0 < aq_amount a" and "pq_covered r + aq_amount a \<le> pq_total r"
  shows "coverage_ok (updateT (\<lambda>j x. j = q \<and> True) (cover now (aq_amount a) r) pq) (insertT a al)"
proof -
  have ok: "each_key (covered_ok al) pq" and wf: "wf_tbl pq" using assms(1) by (auto simp: coverage_ok_def each_key_def)
  have cov: "active_cover (insertT a al) j = active_cover al j + (if j = q then aq_amount a else 0)" for j
    using assms(3,4) by (auto simp: active_cover_def)
  have "covered_ok (insertT a al) j x'" if "fetch (updateT (\<lambda>j x. j = q \<and> True) (cover now (aq_amount a) r) pq) j = Some x'" for j x'
  proof (cases "j = q")
    case True
    with that assms(2) have "x' = cover now (aq_amount a) r r" by (simp add: fetch_updateT)
    with each_keyD [OF ok assms(2)] assms(6) True show ?thesis by (simp add: covered_ok_def cov cover_def Let_def)
  next
    case False
    with that have "fetch pq j = Some x'" by (auto simp: fetch_updateT)
    from each_keyD [OF ok this] False show ?thesis by (simp add: covered_ok_def cov)
  qed
  with assms(1,5) wf show ?thesis by (auto simp: coverage_ok_def each_key_def [of _ "updateT _ _ _"] intro: each_key_insert)
qed

lemma active_cover_freeze:
  assumes "wf_tbl al" and "fetch al i = Some a" and "aq_status a = ''active''"
  shows "active_cover (updateT (\<lambda>j x. j = i \<and> True) (\<lambda>x. x\<lparr>aq_status := ''frozen''\<rparr>) al) q =
    active_cover al q - (if aq_request a = q then aq_amount a else 0)"
  unfolding active_cover_def sumT_update_key [OF assms(1)] using assms by simp

lemma active_cover_nonneg: "each_key (\<lambda>_ a. 0 < aq_amount a) al \<Longrightarrow> 0 \<le> active_cover al q"
  unfolding active_cover_def
  by (rule sumT_nonneg) (auto simp: each_key_def fetch_rows intro: order.strict_implies_order)

lemma coverage_ok_freeze:
  assumes "coverage_ok pq al" and "fetch al i = Some a" and "aq_status a = ''active''"
  shows "coverage_ok (updateT (\<lambda>j q. j = aq_request a \<and> True) (\<lambda>q. q\<lparr>pq_covered := max 0 (pq_covered q - aq_amount a),
      pq_status := st, pq_updated_at := now\<rparr>) pq) (updateT (\<lambda>j x. j = i \<and> True) (\<lambda>x. x\<lparr>aq_status := ''frozen''\<rparr>) al)"
proof -
  let ?al = "updateT (\<lambda>j x. j = i \<and> True) (\<lambda>x. x\<lparr>aq_status := ''frozen''\<rparr>) al"
  let ?f = "\<lambda>q. q\<lparr>pq_covered := max 0 (pq_covered q - aq_amount a), pq_status := st, pq_updated_at := now\<rparr>"
  let ?pq = "updateT (\<lambda>j q. j = aq_request a \<and> True) ?f pq"
  have wf: "wf_tbl al" "wf_tbl pq" and ok: "each_key (covered_ok al) pq" and pos: "each_key (\<lambda>_ a. 0 < aq_amount a) al"
    using assms(1) by (auto simp: coverage_ok_def each_key_def)
  have pos': "each_key (\<lambda>_ a. 0 < aq_amount a) ?al" using pos by (rule each_key_update) simp
  note cov = active_cover_freeze [OF wf(1) assms(2,3)]
  have rest: "0 \<le> active_cover ?al j" for j by (rule active_cover_nonneg [OF pos'])
  have "covered_ok ?al j x'" if x': "fetch ?pq j = Some x'" for j x'
  proof -
    from x' obtain x where x: "fetch pq j = Some x" and eq: "x' = (if j = aq_request a then ?f x else x)"
      by (auto simp: fetch_updateT)
    from each_keyD [OF ok x] rest [of j] cov [of j] each_keyD [OF pos assms(2)] show ?thesis
      by (auto simp: covered_ok_def eq)
  qed
  with wf pos' show ?thesis by (simp add: coverage_ok_def each_key_def [of _ "updateT _ _ pq"])
qed

section \<open>Rules for the helpers\<close>

lemma wp_stepUpI [wp_intros]: "(\<And>f. Q () (challenges_update f s)) \<Longrightarrow> wp (stepUp c given action i stamp payload) Q s"
  unfolding stepUp_def objectVersion_def consumeStepUpClaim_def by (intro wp_intros)

lemma wp_claimBusinessKeyI [wp_intros]:
  "(business_keys s (t, k) = None \<Longrightarrow> Q () (s\<lparr>business_keys := (business_keys s)((t, k) \<mapsto> ''pending'')\<rparr>)) \<Longrightarrow>
    wp (claimBusinessKey t k) Q s"
  unfolding claimBusinessKey_def by (intro wp_intros)

lemma wp_settleBusinessKeyI [wp_intros]:
  assumes "\<And>m. (\<forall>k'. m k' = (if k' = (t, k) \<and> business_keys s k' \<noteq> None then Some (show_int i) else business_keys s k')) \<Longrightarrow>
    Q () (s\<lparr>business_keys := m\<rparr>)"
  shows "wp (settleBusinessKey t k i) Q s"
  using assms [of "business_keys s"] assms [of "(business_keys s)((t, k) \<mapsto> show_int i)"]
  unfolding settleBusinessKey_def by (intro wp_intros) auto

lemma wp_payableNetI [wp_intros]:
  assumes "list_all ledger_row_ok ledger \<Longrightarrow> 0 \<le> sum_list (map payable ledger) \<Longrightarrow> sum_list (map payable ledger) \<le> m \<Longrightarrow>
    Q (sum_list (map payable ledger)) s"
  shows "wp (payableNet ledger m) Q s"
proof -
  let ?step = "\<lambda>net p. bindC (guardC (ledger_row_ok p) (conflict ''Payment ledger is invalid'')) (\<lambda>_.
       bindC (guardC (safe (net + payable p)) (conflict ''Payment ledger exceeds safe bounds'')) (\<lambda>_.
       returnC (net + payable p)))"
  have fold: "wp (foldC ?step a xs) (\<lambda>net s'. s' = s \<and> net = a + sum_list (map payable xs) \<and> list_all ledger_row_ok xs) s"
    for a and xs :: "payment list"
  proof (induction xs arbitrary: a)
    case (Cons x xs)
    show ?case
      unfolding foldC.simps by (intro wp_intros) (rule wp_mono [OF Cons.IH], auto)
  qed (simp add: wp_return)
  show ?thesis
    unfolding payableNet_def
    by (rule wp_bindI, rule wp_mono [OF fold [of 0 ledger]]) (use assms in \<open>auto simp: wp_simps\<close>)
qed

lemma wp_setInvoiceStatusI [wp_intros]:
  "(Q () (invoices_update (updateT (\<lambda>j v. j = i \<and> iv_status v = ''received'') (\<lambda>v. v\<lparr>iv_status := st\<rparr>)) s)) \<Longrightarrow>
    wp (setInvoiceStatus i st) Q s"
  unfolding setInvoiceStatus_def by (intro wp_intros)

section \<open>Payments\<close>

definition finance_rest :: "db \<Rightarrow> _" where
  "finance_rest s = (invoices s, verifications s, invoice_allocations s, replacement_links s, request_items s)"

text \<open>What one payment changes: one new record, the projection on its request, and its bank reference.\<close>

definition paid_status :: "payment_request \<Rightarrow> int \<Rightarrow> string" where
  "paid_status r net = (if net = pq_total r then ''paid'' else ''partially_paid'')"

definition payment_effect :: "int \<Rightarrow> payment_request \<Rightarrow> int \<Rightarrow> string \<Rightarrow> db \<Rightarrow> db \<Rightarrow> bool" where
  "payment_effect q r n ref s s' \<longleftrightarrow> (let net = net_of (payments s) q + n in
     (\<exists>p. payments s' = insertT p (payments s) \<and> py_request p = q \<and> py_amount p = n \<and> py_reference p = ref \<and>
        py_type p = ''payment'' \<and> py_exception p = None) \<and>
     (\<exists>stamp ms. payment_requests s' = updateT (\<lambda>j x. j = q \<and> True) (\<lambda>x. x\<lparr>pq_status := paid_status r net,
        pq_paid_at := (if net = pq_total r then Some stamp else None), pq_reference := Some ref,
        pq_updated_at := max (pq_updated_at x + 1) ms\<rparr>) (payment_requests s)) \<and>
     business_keys s (''payment'', ref) = None \<and>
     business_keys s' (''payment'', ref) = Some (show_int (nxt (payments s))) \<and>
     invoice_exceptions s' = invoice_exceptions s \<and> finance_rest s' = finance_rest s)"

definition payable_now :: "payment_request \<Rightarrow> bool" where
  "payable_now r \<longleftrightarrow> pq_status r \<in> set [''generated'', ''submitted_to_finance'', ''partially_paid''] \<and> pq_total r \<le> pq_covered r"

lemma wp_recordPayment:
  assumes "\<And>q r n ref v s'. to_safe_integer (fld body ''paymentRequestId'') = Some q \<Longrightarrow>
      to_safe_integer (fld body ''amountMinor'') = Some n \<Longrightarrow> fetch (payment_requests s) q = Some r \<Longrightarrow> 1 \<le> n \<Longrightarrow>
      payable_now r \<Longrightarrow> 0 \<le> net_of (payments s) q \<Longrightarrow> net_of (payments s) q + n \<le> pq_total r \<Longrightarrow>
      payment_effect q r n ref s s' \<Longrightarrow> Q v s'"
  shows "wp (recordPayment c body) Q s"
  unfolding recordPayment_def
  by (intro wp_intros assms; (assumption | simp add: payable_now_def ledger_net [symmetric] ledger_of_def)?)
    (auto simp: payment_effect_def finance_rest_def Let_def paid_status_def ledger_net [symmetric] ledger_of_def)

lemma payment_keeps:
  assumes "finance_inv s" and "payment_effect q r n ref s s'" and "fetch (payment_requests s) q = Some r" and "1 \<le> n"
    and "0 \<le> net_of (payments s) q" and "net_of (payments s) q + n \<le> pq_total r" and "safe n"
  shows "finance_inv s'"
proof -
  from assms(2) obtain p where p: "payments s' = insertT p (payments s)" "py_request p = q" "py_amount p = n"
    "py_type p = ''payment''" "py_exception p = None" by (auto simp: payment_effect_def Let_def)
  from assms(2) obtain stamp ms where pq: "payment_requests s' = updateT (\<lambda>j x. j = q \<and> True) (\<lambda>x. x\<lparr>pq_status :=
      paid_status r (net_of (payments s) q + n), pq_paid_at := (if net_of (payments s) q + n = pq_total r then Some stamp else None),
      pq_reference := Some ref, pq_updated_at := max (pq_updated_at x + 1) ms\<rparr>) (payment_requests s)"
    by (auto simp: payment_effect_def Let_def)
  have "ledger_row_ok p" using p assms(4,7) by (simp add: ledger_row_ok_def record_types_def)
  then have "ledger_ok (payment_requests s) (insertT p (payments s))"
    using finance_invD(1) [OF assms(1)] p assms(3,4-6) by (intro ledger_ok_insert) (auto simp: payable_def)
  then have "ledger_ok (payment_requests s') (payments s')" unfolding pq p(1) by (rule ledger_ok_request) simp
  moreover have "coverage_ok (payment_requests s') (invoice_allocations s)"
    unfolding pq using finance_invD(3) [OF assms(1)] by (rule coverage_ok_request) simp
  moreover have "exceptions_ok (invoice_exceptions s) (payments s')"
    unfolding p(1) using finance_invD(2) [OF assms(1)] p(5) by (rule exceptions_ok_insert)
  ultimately show ?thesis
    using assms(1,2) by (auto simp: finance_inv_def payment_effect_def finance_rest_def Let_def)
qed

section \<open>Allocation of a verified invoice\<close>

definition outstanding :: "payment_request \<Rightarrow> int" where
  "outstanding r = max 0 (pq_total r - pq_covered r)"

definition given_by :: "allocation tbl \<Rightarrow> int \<Rightarrow> int" where
  "given_by al i = sumT (\<lambda>a. if aq_invoice a = i then aq_amount a else 0) al"

definition alloc_rest :: "db \<Rightarrow> _" where
  "alloc_rest s = (payments s, invoice_exceptions s, invoices s, verifications s, replacement_links s, request_items s)"

text \<open>
  The loop gives the invoice to the requests in order until it is used up, each request up to what it
  still lacks, so that in total it gives the smaller of the two amounts.
\<close>

lemma wp_allocateRequests:
  assumes "coverage_ok (payment_requests s) (invoice_allocations s)" and "ledger_ok (payment_requests s) py"
    and "0 \<le> remaining" and "distinct (map fst xs)" and "\<forall>(j, r) \<in> set xs. fetch (payment_requests s) j = Some r"
  shows "wp (foldC (allocateRequest c i) (remaining, given) xs) (\<lambda>result s'.
    result = (remaining - min remaining (\<Sum>(j, r)\<leftarrow>xs. outstanding r), given + min remaining (\<Sum>(j, r)\<leftarrow>xs. outstanding r)) \<and>
    given_by (invoice_allocations s') i = given_by (invoice_allocations s) i + min remaining (\<Sum>(j, r)\<leftarrow>xs. outstanding r) \<and>
    coverage_ok (payment_requests s') (invoice_allocations s') \<and> ledger_ok (payment_requests s') py \<and>
    alloc_rest s' = alloc_rest s) s"
  using assms
proof (induction xs arbitrary: remaining given s)
  case Nil
  then show ?case by (simp add: wp_return)
next
  case (Cons x xs)
  obtain j r where x: "x = (j, r)" by (cases x)
  let ?a = "min remaining (outstanding r)"
  have sum: "0 \<le> (\<Sum>(j, r)\<leftarrow>xs. outstanding r)" by (rule sum_list_nonneg) (auto simp: outstanding_def)
  have pos: "0 \<le> outstanding r" by (simp add: outstanding_def)
  have here: "fetch (payment_requests s) j = Some r" using Cons.prems(5) by (simp add: x)
  show ?case
  proof (cases "remaining = 0 \<or> ?a = 0")
    case True
    have skip: "allocateRequest c i (remaining, given) (j, r) = returnC (remaining, given)"
      using True by (auto simp: allocateRequest_def Let_def outstanding_def)
    have "min remaining (outstanding r + (\<Sum>(j, r)\<leftarrow>xs. outstanding r)) = min remaining (\<Sum>(j, r)\<leftarrow>xs. outstanding r)"
      using True sum Cons.prems(3) pos by (auto simp: min_def split: if_splits)
    then show ?thesis
      using Cons.IH [OF Cons.prems(1-3), of given] Cons.prems(4,5) by (simp add: x wp_bind skip wp_return)
  next
    case False
    let ?t1 = "\<lambda>al. insertT \<lparr>aq_invoice = i, aq_request = j, aq_amount = ?a, aq_status = ''active'',
      aq_created_by = a_user (c_access c)\<rparr> al"
    let ?t2 = "updateT (\<lambda>k q. k = j \<and> True) (cover (sql_ms (c_env c)) ?a r)"
    let ?s = "payment_requests_update ?t2 (invoice_allocations_update ?t1 s)"
    have pos: "0 < ?a" using False Cons.prems(3) by (auto simp: outstanding_def)
    have le: "pq_covered r + ?a \<le> pq_total r" using pos by (auto simp: outstanding_def min_def split: if_splits)
    have "coverage_ok (payment_requests ?s) (invoice_allocations ?s)"
      using coverage_ok_cover [OF Cons.prems(1) here, of "\<lparr>aq_invoice = i, aq_request = j, aq_amount = ?a,
        aq_status = ''active'', aq_created_by = a_user (c_access c)\<rparr>" "sql_ms (c_env c)"] pos le by simp
    moreover have "ledger_ok (payment_requests ?s) py"
      using Cons.prems(2) by (simp add: ledger_ok_request cover_def Let_def)
    moreover have "\<forall>(k, q) \<in> set xs. fetch (payment_requests ?s) k = Some q"
    proof clarify
      fix k q assume "(k, q) \<in> set xs"
      then have "k \<noteq> j" and "fetch (payment_requests s) k = Some q" using Cons.prems(4,5) by (auto simp: x image_iff)
      then show "fetch (payment_requests ?s) k = Some q" by (simp add: fetch_updateT)
    qed
    ultimately have rest: "wp (foldC (allocateRequest c i) (remaining - ?a, given + ?a) xs) (\<lambda>result s'.
        result = (remaining - ?a - min (remaining - ?a) (\<Sum>(j, r)\<leftarrow>xs. outstanding r),
          given + ?a + min (remaining - ?a) (\<Sum>(j, r)\<leftarrow>xs. outstanding r)) \<and>
        given_by (invoice_allocations s') i = given_by (invoice_allocations ?s) i +
          min (remaining - ?a) (\<Sum>(j, r)\<leftarrow>xs. outstanding r) \<and>
        coverage_ok (payment_requests s') (invoice_allocations s') \<and> ledger_ok (payment_requests s') py \<and>
        alloc_rest s' = alloc_rest ?s) ?s"
      using Cons.prems(4) by (intro Cons.IH) simp_all
    have "min remaining (outstanding r + (\<Sum>(j, r)\<leftarrow>xs. outstanding r)) = ?a + min (remaining - ?a) (\<Sum>(j, r)\<leftarrow>xs. outstanding r)"
      using sum by (auto simp: min_def outstanding_def)
    moreover have "given_by (invoice_allocations ?s) i = given_by (invoice_allocations s) i + ?a" by (simp add: given_by_def)
    ultimately show ?thesis using wp_mono [OF rest]
      using False
      by (auto simp: x wp_bind allocateRequest_def outstanding_def [symmetric] Let_def alloc_rest_def intro!: wp_intros elim!: wp_mono)
  qed
qed

lemma order_requests_fetch:
  assumes "wf_tbl (payment_requests s)"
  shows "\<forall>(j, r) \<in> set (order_requests s p). fetch (payment_requests s) j = Some r" and "distinct (map fst (order_requests s p))"
  using assms
  by (auto simp: order_requests_def select_def fetch_rows wf_tbl_def distinct_map intro: inj_on_subset)

text \<open>What verifying one invoice changes, on each of its three outcomes.\<close>

definition approved_roles :: "db \<Rightarrow> int \<Rightarrow> string set" where
  "approved_roles s i = {vf_role x |x j. (j, x) \<in> set (rows (verifications s)) \<and> vf_invoice x = i \<and> vf_decision x = ''approved''}"

definition second_approval :: "db \<Rightarrow> int \<Rightarrow> string \<Rightarrow> bool" where
  "second_approval s i role \<longleftrightarrow> {''supply_chain'', ''finance''} \<subseteq> insert role (approved_roles s i)"

definition verified_effect :: "int \<Rightarrow> invoice \<Rightarrow> db \<Rightarrow> db \<Rightarrow> bool" where
  "verified_effect i v s s' \<longleftrightarrow>
     invoices s' = updateT (\<lambda>j x. j = i \<and> iv_status x = ''received'') (\<lambda>x. x\<lparr>iv_status := ''verified''\<rparr>) (invoices s) \<and>
     given_by (invoice_allocations s') i = given_by (invoice_allocations s) i +
       min (iv_amount v) (\<Sum>(j, r)\<leftarrow>order_requests s (iv_order v). outstanding r) \<and>
     coverage_ok (payment_requests s') (invoice_allocations s') \<and> ledger_ok (payment_requests s') (payments s)"

definition verify_effect :: "int \<Rightarrow> invoice \<Rightarrow> string \<Rightarrow> string \<Rightarrow> int \<Rightarrow> db \<Rightarrow> db \<Rightarrow> bool" where
  "verify_effect i v role decision user s s' \<longleftrightarrow>
     (\<exists>reason. verifications s' = insertT \<lparr>vf_invoice = i, vf_role = role, vf_decision = decision, vf_reason = reason, vf_by = user\<rparr>
        (verifications s)) \<and>
     payments s' = payments s \<and> invoice_exceptions s' = invoice_exceptions s \<and> replacement_links s' = replacement_links s \<and>
     (if decision = ''approved'' \<and> second_approval s i role then verified_effect i v s s'
      else payment_requests s' = payment_requests s \<and> invoice_allocations s' = invoice_allocations s \<and>
        invoices s' = (if decision = ''rejected'' then updateT (\<lambda>j x. j = i \<and> iv_status x = ''received'')
          (\<lambda>x. x\<lparr>iv_status := ''rejected''\<rparr>) (invoices s) else invoices s))"

definition other_person :: "db \<Rightarrow> int \<Rightarrow> string \<Rightarrow> int \<Rightarrow> bool" where
  "other_person s i role user \<longleftrightarrow> (\<forall>(j, x) \<in> set (rows (verifications s)). vf_invoice x = i \<longrightarrow> vf_role x \<noteq> role \<and> vf_by x \<noteq> user)"

lemma wp_allocateInvoice:
  assumes "coverage_ok (payment_requests s) (invoice_allocations s)" and "ledger_ok (payment_requests s) (payments s)"
    and "0 \<le> iv_amount v"
    and "\<And>t s'. given_by (invoice_allocations s') i = given_by (invoice_allocations s) i +
        min (iv_amount v) (\<Sum>(j, r)\<leftarrow>order_requests s (iv_order v). outstanding r) \<Longrightarrow>
      coverage_ok (payment_requests s') (invoice_allocations s') \<Longrightarrow> ledger_ok (payment_requests s') (payments s) \<Longrightarrow>
      alloc_rest s' = alloc_rest s \<Longrightarrow> Q t s'"
  shows "wp (allocateInvoice c i v) Q s"
proof -
  have "wf_tbl (payment_requests s)" using assms(1) by (auto simp: coverage_ok_def dest: each_key_wf)
  note xs = order_requests_fetch [OF this, of "iv_order v"]
  show ?thesis
    unfolding allocateInvoice_def
    by (intro wp_intros, rule wp_mono [OF wp_allocateRequests [OF assms(1-3) xs(2) xs(1)]]) (auto intro!: wp_intros assms(4))
qed

lemma approved_rows:
  "vf_role ` {x \<in> snd ` set (select (verifications s) (\<lambda>_ x. vf_invoice x = i)). vf_decision x = ''approved''} = approved_roles s i"
  by (force simp: approved_roles_def select_def)

lemma other_person_rows:
  "\<not> list_ex (\<lambda>x. vf_role x = role) (map snd (select (verifications s) (\<lambda>_ x. vf_invoice x = i))) \<Longrightarrow>
   \<not> list_ex (\<lambda>x. vf_by x = user) (map snd (select (verifications s) (\<lambda>_ x. vf_invoice x = i))) \<Longrightarrow> other_person s i role user"
  by (fastforce simp: other_person_def list_ex_iff select_def)

lemma order_requests_other [simp]:
  "order_requests (invoices_update f s) p = order_requests s p"
  "order_requests (verifications_update g s) p = order_requests s p"
  by (simp_all add: order_requests_def)

lemma verify_effectI:
  assumes "second_approval s i role" and "alloc_rest s' = alloc_rest (invoices_update (updateT (\<lambda>j x. j = i \<and> iv_status x = ''received'')
      (\<lambda>x. x\<lparr>iv_status := ''verified''\<rparr>)) (verifications_update (insertT \<lparr>vf_invoice = i, vf_role = role,
        vf_decision = ''approved'', vf_reason = reason, vf_by = user\<rparr>) s))"
    and "given_by (invoice_allocations s') i = given_by (invoice_allocations s) i +
       min (iv_amount v) (\<Sum>(j, r)\<leftarrow>order_requests s (iv_order v). outstanding r)"
    and "coverage_ok (payment_requests s') (invoice_allocations s')" and "ledger_ok (payment_requests s') (payments s)"
  shows "verify_effect i v role ''approved'' user s (outbox_messages_update f (audit_logs_update g s'))"
  using assms unfolding verify_effect_def verified_effect_def by (auto simp: alloc_rest_def)

lemma verify_effect_first:
  assumes "\<not> second_approval s i role"
  shows "verify_effect i v role ''approved'' user s (outbox_messages_update f (audit_logs_update g (verifications_update
    (insertT \<lparr>vf_invoice = i, vf_role = role, vf_decision = ''approved'', vf_reason = reason, vf_by = user\<rparr>) s)))"
  using assms by (simp add: verify_effect_def)

lemma wp_verifyInvoice:
  assumes "finance_inv s"
    and "\<And>i role decision x v s'. to_safe_integer (fld body ''invoiceId'') = Some i \<Longrightarrow> fetch (invoices s) i = Some v \<Longrightarrow>
      iv_status v = ''received'' \<Longrightarrow> hasRole (c_access c) [''admin'', role] \<Longrightarrow> role \<in> {''supply_chain'', ''finance''} \<Longrightarrow>
      decision \<in> {''approved'', ''rejected''} \<Longrightarrow> (decision = ''approved'' \<longrightarrow> iv_matches v) \<Longrightarrow>
      other_person s i role (a_user (c_access c)) \<Longrightarrow> verify_effect i v role decision (a_user (c_access c)) s s' \<Longrightarrow> Q x s'"
  shows "wp (verifyInvoice c body) Q s"
proof -
  have nonneg: "0 \<le> iv_amount v" if "fetch (invoices s) i = Some v" for i v
    using finance_invD(4) [OF assms(1)] that by (auto simp: invoices_ok_def dest: each_keyD)
  note inv = finance_invD(1,3) [OF assms(1)]
  note facts = approved_rows other_person_rows verify_effect_def second_approval_def
  show ?thesis
    unfolding verifyInvoice_def Let_def
    apply (intro wp_intros wp_allocateInvoice)
    apply (simp_all add: inv nonneg)
    subgoal by (rule assms(2) [where decision = "''rejected''"]; (assumption | simp add: facts)?)
    subgoal by (rule assms(2) [where decision = "''approved''"];
      (assumption | (rule other_person_rows; assumption) | (rule verify_effectI; (assumption | simp add: facts)) | simp))
    subgoal by (rule assms(2) [where decision = "''approved''"];
      (assumption | (rule other_person_rows; assumption) | (rule verify_effect_first; simp add: facts) | simp))
    done
qed

end
