(* ===== verification/Ledger.thy ===== *)
theory Ledger
  imports Finance
begin

text \<open>
  The money invariants of \<open>modules/finance/writes.ts\<close>: what each action changes, the preservation of
  \<open>finance_inv\<close> (the ledger within the payable amounts, remedies within the affected amount, coverage
  equal to the active allocations), the two-person rule of invoice verification, and what a frozen
  payment request refuses.
\<close>

section \<open>Invalidating an invoice\<close>

definition is_frozen :: "db \<Rightarrow> int \<Rightarrow> bool" where
  "is_frozen s q \<longleftrightarrow> (\<forall>r. fetch (payment_requests s) q = Some r \<longrightarrow> pq_status r = ''invoice_exception_frozen'')"

definition freeze_rest :: "db \<Rightarrow> _" where
  "freeze_rest s = (payments s, invoice_exceptions s, invoices s, verifications s, replacement_links s, request_items s)"

lemma wp_freezeAllocations:
  assumes "coverage_ok (payment_requests s) (invoice_allocations s)" and "ledger_ok (payment_requests s) py"
    and "distinct (map fst xs)"
    and "\<forall>(i, a) \<in> set xs. fetch (invoice_allocations s) i = Some a \<and> aq_status a = ''active''"
  shows "wp (eachC (freezeAllocation c) xs) (\<lambda>_ s'. coverage_ok (payment_requests s') (invoice_allocations s') \<and>
    ledger_ok (payment_requests s') py \<and> freeze_rest s' = freeze_rest s \<and> (\<forall>q. is_frozen s q \<longrightarrow> is_frozen s' q) \<and>
    (\<forall>(i, a) \<in> set xs. is_frozen s' (aq_request a))) s"
  using assms
proof (induction xs arbitrary: s)
  case Nil
  then show ?case by (simp add: wp_return)
next
  case (Cons x xs)
  obtain i a where x: "x = (i, a)" by (cases x)
  let ?t1 = "updateT (\<lambda>j x. j = i \<and> True) (\<lambda>x. x\<lparr>aq_status := ''frozen''\<rparr>)"
  let ?t2 = "updateT (\<lambda>j q. j = aq_request a \<and> True) (\<lambda>q. q\<lparr>pq_covered := max 0 (pq_covered q - aq_amount a),
    pq_status := ''invoice_exception_frozen'', pq_updated_at := sql_ms (c_env c)\<rparr>)"
  let ?s = "payment_requests_update ?t2 (invoice_allocations_update ?t1 s)"
  have here: "fetch (invoice_allocations s) i = Some a" "aq_status a = ''active''" using Cons.prems(4) by (auto simp: x)
  have cov: "coverage_ok (payment_requests ?s) (invoice_allocations ?s)"
    using coverage_ok_freeze [OF Cons.prems(1) here] by simp
  have led: "ledger_ok (payment_requests ?s) py" using Cons.prems(2) by (simp add: ledger_ok_request)
  have rows: "\<forall>(k, b) \<in> set xs. fetch (invoice_allocations ?s) k = Some b \<and> aq_status b = ''active''"
  proof clarify
    fix k b assume k: "(k, b) \<in> set xs"
    then have "k \<noteq> i" using Cons.prems(3) by (auto simp: x image_iff)
    with k Cons.prems(4) show "fetch (invoice_allocations ?s) k = Some b \<and> aq_status b = ''active''"
      by (auto simp: fetch_updateT)
  qed
  have frozen: "is_frozen ?s (aq_request a)" "is_frozen s q \<Longrightarrow> is_frozen ?s q" for q
    by (auto simp: is_frozen_def fetch_updateT)
  have rest: "freeze_rest ?s = freeze_rest s" by (simp add: freeze_rest_def)
  have "wp (eachC (freezeAllocation c) xs) (\<lambda>_ s'. coverage_ok (payment_requests s') (invoice_allocations s') \<and>
      ledger_ok (payment_requests s') py \<and> freeze_rest s' = freeze_rest ?s \<and> (\<forall>q. is_frozen ?s q \<longrightarrow> is_frozen s' q) \<and>
      (\<forall>(i, a) \<in> set xs. is_frozen s' (aq_request a))) ?s"
    using Cons.prems(3) by (intro Cons.IH cov led rows) simp
  then have "wp (eachC (freezeAllocation c) xs) (\<lambda>_ s'. coverage_ok (payment_requests s') (invoice_allocations s') \<and>
      ledger_ok (payment_requests s') py \<and> freeze_rest s' = freeze_rest s \<and> (\<forall>q. is_frozen s q \<longrightarrow> is_frozen s' q) \<and>
      (\<forall>(i, a) \<in> set (x # xs). is_frozen s' (aq_request a))) ?s"
    by (rule wp_mono) (use frozen rest in \<open>auto simp: x\<close>)
  then show ?case
    unfolding eachC.simps x freezeAllocation_def by (intro wp_intros) simp
qed

definition invalidate_effect :: "int \<Rightarrow> invoice \<Rightarrow> db \<Rightarrow> db \<Rightarrow> bool" where
  "invalidate_effect i v s s' \<longleftrightarrow>
     invoices s' = updateT (\<lambda>j x. j = i \<and> True) (\<lambda>x. x\<lparr>iv_status := ''invalidated''\<rparr>) (invoices s) \<and>
     (\<exists>x. invoice_exceptions s' = insertT x (invoice_exceptions s) \<and> ix_invoice x = i \<and> ix_affected x = iv_amount v \<and>
        ix_covered x = 0 \<and> ix_refunded x = 0 \<and> ix_status x = ''awaiting_remediation'') \<and>
     coverage_ok (payment_requests s') (invoice_allocations s') \<and> ledger_ok (payment_requests s') (payments s) \<and>
     (\<forall>(j, a) \<in> set (active_allocations s i). is_frozen s' (aq_request a)) \<and>
     payments s' = payments s \<and> verifications s' = verifications s"

lemma active_allocations_rows:
  assumes "wf_tbl (invoice_allocations s)"
  shows "\<forall>(j, a) \<in> set (active_allocations s i). fetch (invoice_allocations s) j = Some a \<and> aq_status a = ''active''"
    and "distinct (map fst (active_allocations s i))"
  using assms
  by (auto simp: active_allocations_def select_def fetch_rows wf_tbl_def distinct_map intro: inj_on_subset)

lemma wp_invalidateInvoice:
  assumes "finance_inv s"
    and "\<And>i v x s'. to_safe_integer (fld body ''invoiceId'') = Some i \<Longrightarrow> fetch (invoices s) i = Some v \<Longrightarrow>
      invalidate_effect i v s s' \<Longrightarrow> Q x s'"
  shows "wp (invalidateInvoice c body) Q s"
proof -
  note inv = finance_invD(3,1) [OF assms(1)]
  have wf: "wf_tbl (invoice_allocations s)" using inv(1) by (auto simp: coverage_ok_def dest: each_key_wf)
  note loop = wp_freezeAllocations [OF inv active_allocations_rows(2,1) [OF wf]]
  show ?thesis
    unfolding invalidateInvoice_def
    by (intro wp_intros, rule wp_mono [OF loop], intro wp_intros assms(2); (assumption | simp)?)
      (auto simp: invalidate_effect_def freeze_rest_def is_frozen_def)
qed

section \<open>Replacement, refund and release\<close>

lemma wp_linkReplacement:
  assumes "\<And>i r x n l v st resolved ms s'. fetch (invoice_exceptions s) i = Some x \<Longrightarrow> 1 \<le> n \<Longrightarrow>
      ix_covered x + ix_refunded x + n \<le> ix_affected x \<Longrightarrow> l = ix_covered x + n \<Longrightarrow>
      invoice_exceptions s' = updateT (\<lambda>j y. j = i \<and> True) (\<lambda>y. y\<lparr>ix_covered := l, ix_status := st, ix_resolved_at := resolved,
        ix_updated_at := ms\<rparr>) (invoice_exceptions s) \<Longrightarrow>
      payments s' = payments s \<Longrightarrow> payment_requests s' = payment_requests s \<Longrightarrow> finance_rest s' = finance_rest (s\<lparr>replacement_links := r\<rparr>) \<Longrightarrow> Q v s'"
  shows "wp (linkReplacement c body) Q s"
  unfolding linkReplacement_def remediation_row_def
  by (intro wp_intros assms; (assumption | simp add: finance_rest_def split: bind_splits)?)

definition refund_effect :: "int \<Rightarrow> int \<Rightarrow> int \<Rightarrow> invoice_exception \<Rightarrow> db \<Rightarrow> db \<Rightarrow> bool" where
  "refund_effect q i n x s s' \<longleftrightarrow>
     (\<exists>p. payments s' = insertT p (payments s) \<and> py_request p = q \<and> py_amount p = n \<and> py_type p = ''refund'' \<and> py_exception p = Some i) \<and>
     (\<exists>st resolved ms. invoice_exceptions s' = updateT (\<lambda>j y. j = i \<and> ix_status y = ix_status x \<and> ix_refunded y = ix_refunded x)
        (\<lambda>y. y\<lparr>ix_refunded := ix_refunded x + n, ix_status := st, ix_resolved_at := resolved,
          ix_updated_at := max (ix_updated_at y + 1) ms\<rparr>) (invoice_exceptions s)) \<and>
     payment_requests s' = payment_requests s \<and> finance_rest s' = finance_rest s"

lemma safe_given: "to_safe_integer v = Some n \<Longrightarrow> safe n"
  by (simp add: safe_def to_safe_integer_bound)

lemma exception_row_fetch: "exception_row s i = Some x \<Longrightarrow> fetch (invoice_exceptions s) i = Some x"
  by (auto simp: exception_row_def split: bind_splits)

lemma wp_recordRefund:
  assumes "\<And>q i n r x v s'. to_safe_integer (fld body ''paymentRequestId'') = Some q \<Longrightarrow>
      fetch (payment_requests s) q = Some r \<Longrightarrow> fetch (invoice_exceptions s) i = Some x \<Longrightarrow> 1 \<le> n \<Longrightarrow> safe n \<Longrightarrow>
      pq_status r \<in> set [''paid'', ''partially_paid''] \<Longrightarrow> ix_status x \<noteq> ''resolved'' \<Longrightarrow>
      ix_covered x + ix_refunded x + n \<le> ix_affected x \<Longrightarrow> refund_effect q i n x s s' \<Longrightarrow> Q v s'"
  shows "wp (recordRefund c body) Q s"
  unfolding recordRefund_def Let_def
  by (intro wp_intros assms; (assumption | erule exception_row_fetch | (rule safe_given, assumption) | simp)?)
    (simp add: refund_effect_def finance_rest_def, fastforce?)

section \<open>The invariant\<close>

lemma refund_keeps:
  assumes "finance_inv s" and "refund_effect q i n x s s'" and "fetch (invoice_exceptions s) i = Some x" and "1 \<le> n" and "safe n"
    and "ix_covered x + ix_refunded x + n \<le> ix_affected x"
  shows "finance_inv s'"
proof -
  from assms(2) obtain p where p: "payments s' = insertT p (payments s)" "py_request p = q" "py_amount p = n"
    "py_type p = ''refund''" "py_exception p = Some i" by (auto simp: refund_effect_def)
  from assms(2) obtain st resolved ms where ix: "invoice_exceptions s' =
      updateT (\<lambda>j y. j = i \<and> ix_status y = ix_status x \<and> ix_refunded y = ix_refunded x)
        (\<lambda>y. y\<lparr>ix_refunded := ix_refunded x + n, ix_status := st, ix_resolved_at := resolved,
          ix_updated_at := max (ix_updated_at y + 1) ms\<rparr>) (invoice_exceptions s)"
    by (auto simp: refund_effect_def)
  have "ledger_row_ok p" using p assms(4,5) by (simp add: ledger_row_ok_def record_types_def)
  moreover have "0 \<le> net_of (payments s) q + payable p \<and> net_of (payments s) q + payable p \<le> pq_total r"
    if "fetch (payment_requests s) q = Some r" for r
    using finance_invD(1) [OF assms(1)] that p by (auto simp: ledger_ok_def payable_def dest: each_keyD)
  ultimately have "ledger_ok (payment_requests s) (payments s')"
    unfolding p(1) using finance_invD(1) [OF assms(1)] p(2) by (intro ledger_ok_insert) auto
  moreover have "exceptions_ok (invoice_exceptions s') (payments s')"
    unfolding ix p(1)
    by (rule exceptions_ok_refund [OF finance_invD(2) [OF assms(1)] p(5) assms(3)]) (use p(3) assms(4,6) in simp_all)
  ultimately show ?thesis
    using assms(1,2) by (auto simp: finance_inv_def refund_effect_def finance_rest_def)
qed

lemma verify_keeps:
  assumes "finance_inv s" and "verify_effect i v role decision user s s'"
  shows "finance_inv s'"
proof -
  have "invoices_ok (updateT c (\<lambda>x. x\<lparr>iv_status := st\<rparr>) (invoices s))" for c st
    using finance_invD(4) [OF assms(1)] by (rule invoices_ok_update) simp
  with assms show ?thesis by (auto simp: finance_inv_def verify_effect_def verified_effect_def split: if_splits)
qed

lemma invalidate_keeps:
  assumes "finance_inv s" and "fetch (invoices s) i = Some v" and "invalidate_effect i v s s'"
  shows "finance_inv s'"
proof -
  have amount: "0 \<le> iv_amount v"
    using finance_invD(4) [OF assms(1)] assms(2) by (auto simp: invoices_ok_def dest: each_keyD)
  have "invoices_ok (updateT (\<lambda>j x. j = i \<and> True) (\<lambda>x. x\<lparr>iv_status := ''invalidated''\<rparr>) (invoices s))"
    using finance_invD(4) [OF assms(1)] by (rule invoices_ok_update) simp
  with assms amount show ?thesis
    by (auto simp: finance_inv_def invalidate_effect_def intro!: exceptions_ok_open)
qed

lemma exceptions_ok_status:
  assumes "exceptions_ok ix py"
    and "\<And>x. ix_covered (f x) = ix_covered x \<and> ix_refunded (f x) = ix_refunded x \<and> ix_affected (f x) = ix_affected x"
  shows "exceptions_ok (updateT c f ix) py"
  using assms(1) by (rule exceptions_ok_update) (simp add: remedy_ok_def assms(2))

lemma finance_wp: "finance_inv s \<Longrightarrow> wp (financeCommand c raw) (\<lambda>_. finance_inv) s"
proof -
  assume inv: "finance_inv s"
  note parts = finance_invD [OF inv]
  have amount: "wp (createInvoice c body) (\<lambda>_. finance_inv) s" for body
    unfolding createInvoice_def
    by (intro wp_intros; use parts in \<open>simp add: finance_inv_def invoices_ok_insert\<close>)
  have link: "wp (linkReplacement c body) (\<lambda>_. finance_inv) s" for body
  proof (rule wp_linkReplacement)
    fix i r x n l v st resolved ms s'
    assume x: "fetch (invoice_exceptions s) i = Some x" "1 \<le> n" "ix_covered x + ix_refunded x + n \<le> ix_affected x" "l = ix_covered x + n"
      and ix: "invoice_exceptions s' = updateT (\<lambda>j y. j = i \<and> True) (\<lambda>y. y\<lparr>ix_covered := l, ix_status := st, ix_resolved_at := resolved,
        ix_updated_at := ms\<rparr>) (invoice_exceptions s)"
      and rest: "payments s' = payments s" "payment_requests s' = payment_requests s"
        "finance_rest s' = finance_rest (s\<lparr>replacement_links := r\<rparr>)"
    have "exceptions_ok (invoice_exceptions s') (payments s)"
      unfolding ix using parts(2) by (rule exceptions_ok_update) (use x in \<open>auto simp: remedy_ok_def\<close>)
    with parts rest show "finance_inv s'" by (simp add: finance_inv_def finance_rest_def)
  qed
  have release: "wp (releaseRisk c body) (\<lambda>_. finance_inv) s" for body
    unfolding releaseRisk_def
    by (intro wp_intros; use parts in \<open>simp add: finance_inv_def exceptions_ok_status\<close>)
  have correction: "wp (requestCorrection c body) (\<lambda>_. finance_inv) s" for body
    unfolding requestCorrection_def Let_def by (intro wp_intros; use inv in \<open>simp add: finance_inv_def\<close>)
  show ?thesis
    unfolding financeCommand_def
    by (intro wp_intros amount link release correction wp_verifyInvoice [OF inv] wp_invalidateInvoice [OF inv]
        wp_recordPayment wp_recordRefund)
      (auto intro: verify_keeps [OF inv] invalidate_keeps [OF inv] payment_keeps [OF inv] refund_keeps [OF inv] dest: safe_given)
qed

section \<open>Two people verify an invoice\<close>

definition two_people :: "verification tbl \<Rightarrow> int \<Rightarrow> bool" where
  "two_people vf i \<longleftrightarrow> (\<exists>(_, x) \<in> set (rows vf). \<exists>(_, y) \<in> set (rows vf). vf_invoice x = i \<and> vf_invoice y = i \<and>
     vf_role x = ''supply_chain'' \<and> vf_role y = ''finance'' \<and> vf_decision x = ''approved'' \<and> vf_decision y = ''approved'' \<and>
     vf_by x \<noteq> vf_by y)"

definition verified_ok :: "db \<Rightarrow> bool" where
  "verified_ok s \<longleftrightarrow> each_key (\<lambda>i v. iv_status v = ''verified'' \<longrightarrow> iv_matches v \<and> two_people (verifications s) i) (invoices s)"

lemma rows_insert: "set (rows (insertT x t)) = insert (nxt t, x) (set (rows t))"
  by (simp add: insertT_def)

lemma two_people_insert: "two_people vf i \<Longrightarrow> two_people (insertT x vf) i"
  unfolding two_people_def rows_insert by blast

lemma two_people_second:
  assumes "other_person s i role user" and "second_approval s i role" and "role \<in> {''supply_chain'', ''finance''}"
  shows "two_people (insertT \<lparr>vf_invoice = i, vf_role = role, vf_decision = ''approved'', vf_reason = reason, vf_by = user\<rparr> (verifications s)) i"
proof -
  from assms(2,3) obtain other where other: "other \<in> {''supply_chain'', ''finance''}" "other \<noteq> role" "other \<in> approved_roles s i"
    by (auto simp: second_approval_def)
  then obtain j x where x: "(j, x) \<in> set (rows (verifications s))" "vf_invoice x = i" "vf_role x = other" "vf_decision x = ''approved''"
    by (auto simp: approved_roles_def)
  with assms(1) have "vf_by x \<noteq> user" by (auto simp: other_person_def)
  let ?y = "\<lparr>vf_invoice = i, vf_role = role, vf_decision = ''approved'', vf_reason = reason, vf_by = user\<rparr>"
  show ?thesis
  proof (cases "role = ''finance''")
    case True
    with x other \<open>vf_by x \<noteq> user\<close> show ?thesis
      unfolding two_people_def rows_insert by (intro bexI [of _ "(j, x)"] bexI [of _ "(nxt (verifications s), ?y)"]) auto
  next
    case False
    with x other assms(3) \<open>vf_by x \<noteq> user\<close> show ?thesis
      unfolding two_people_def rows_insert by (intro bexI [of _ "(nxt (verifications s), ?y)"] bexI [of _ "(j, x)"]) auto
  qed
qed

lemma verified_wp:
  assumes "finance_inv s" and "verified_ok s"
  shows "wp (financeCommand c raw) (\<lambda>_. verified_ok) s"
proof -
  have create: "wp (createInvoice c body) (\<lambda>_. verified_ok) s" for body
    unfolding createInvoice_def
    by (intro wp_intros; use assms(2) in \<open>simp add: verified_ok_def each_key_insert\<close>)
  have same: "frames (\<lambda>s. (invoices s, verifications s)) m \<Longrightarrow> wp m (\<lambda>_. verified_ok) s" for m :: "json run"
    by (rule wp_mono [OF frames_wp]) (use assms(2) in \<open>auto simp: verified_ok_def\<close>)
  have verify: "verified_ok s'" if eff: "verify_effect i v role decision user s s'" and cond: "fetch (invoices s) i = Some v"
    "decision = ''approved'' \<longrightarrow> iv_matches v" "other_person s i role user" "role \<in> {''supply_chain'', ''finance''}"
    for i v role decision user s'
  proof -
    obtain reason where vf: "verifications s' = insertT \<lparr>vf_invoice = i, vf_role = role, vf_decision = decision, vf_reason = reason,
        vf_by = user\<rparr> (verifications s)" using eff unfolding verify_effect_def by blast
    have base: "each_key (\<lambda>i v. iv_status v = ''verified'' \<longrightarrow> iv_matches v \<and> two_people (verifications s') i) (invoices s)"
      using assms(2) unfolding verified_ok_def vf by (rule each_key_mono) (auto intro: two_people_insert)
    show ?thesis
    proof (cases "decision = ''approved'' \<and> second_approval s i role")
      case True
      then have iv: "invoices s' = updateT (\<lambda>j x. j = i \<and> iv_status x = ''received'') (\<lambda>x. x\<lparr>iv_status := ''verified''\<rparr>) (invoices s)"
        using eff by (simp add: verify_effect_def verified_effect_def)
      have "two_people (verifications s') i" using two_people_second [OF cond(3) _ cond(4)] True by (simp add: vf)
      with base cond(1,2) True show ?thesis unfolding verified_ok_def iv by (auto intro!: each_key_update)
    next
      case False
      with eff base show ?thesis
        unfolding verify_effect_def verified_ok_def by (auto intro!: each_key_update split: if_splits)
    qed
  qed
  have invalidate: "verified_ok s'" if "invalidate_effect i v s s'" for i v s'
    using that assms(2) by (auto simp: invalidate_effect_def verified_ok_def intro!: each_key_update)
  show ?thesis
    unfolding financeCommand_def
    by (intro wp_intros create wp_verifyInvoice [OF assms(1)] wp_invalidateInvoice [OF assms(1)];
        (rule verify; assumption | rule invalidate, assumption | rule same)?)
      (unfold linkReplacement_def recordPayment_def recordRefund_def requestCorrection_def releaseRisk_def payableNet_def
        stepUp_def objectVersion_def consumeStepUpClaim_def claimBusinessKey_def settleBusinessKey_def,
       (intro frame_rules frames_insert frames_update frames_modify; simp)+)
qed

section \<open>Properties\<close>

text \<open>
  C8. Every finance action keeps the money invariant: no payment request is paid beyond its total or
  below zero, its covered amount is exactly what its active allocations give and at most its total, an
  invoice exception is never remedied beyond the affected amount, and the refunded amount of an exception
  is what the ledger shows. It also keeps the verification invariant: every verified invoice matches the
  expected amount and has the approvals of two different users in the two verifier roles.
\<close>

theorem finance_invariant:
  assumes "finance_inv s" and "financeCommand c raw s = Inr (v, s')"
  shows "finance_inv s' \<and> (verified_ok s \<longrightarrow> verified_ok s')"
  using wpD [OF finance_wp [OF assms(1)] assms(2)] wpD [OF verified_wp [OF assms(1)] assms(2)] by blast

text \<open>
  C22. A recorded payment adds exactly one record of the given amount to the ledger of a fully covered,
  payable request, never beyond the total of the request; the request is paid exactly when the total is
  reached and partially paid otherwise, no other request changes, and the bank reference is claimed for
  this record and was free before.
\<close>

theorem payment_exact:
  assumes "financeCommand c (JObj body) s = Inr (v, s')" and "fld body ''action'' = Some (JStr ''record_payment'')"
    and "to_safe_integer (fld body ''paymentRequestId'') = Some q" and "to_safe_integer (fld body ''amountMinor'') = Some n"
  shows "\<exists>r p r'. fetch (payment_requests s) q = Some r \<and> payable_now r \<and>
    payments s' = insertT p (payments s) \<and> py_request p = q \<and> py_amount p = n \<and> 1 \<le> n \<and>
    net_of (payments s') q = net_of (payments s) q + n \<and> net_of (payments s') q \<le> pq_total r \<and>
    fetch (payment_requests s') q = Some r' \<and>
    pq_status r' = (if net_of (payments s') q = pq_total r then ''paid'' else ''partially_paid'') \<and>
    (\<forall>j. j \<noteq> q \<longrightarrow> fetch (payment_requests s') j = fetch (payment_requests s) j) \<and>
    business_keys s (''payment'', py_reference p) = None \<and>
    business_keys s' (''payment'', py_reference p) = Some (show_int (nxt (payments s)))"
proof -
  have "wp (financeCommand c (JObj body)) (\<lambda>_ s'. \<exists>r ref. fetch (payment_requests s) q = Some r \<and> payable_now r \<and> 1 \<le> n \<and>
      net_of (payments s) q + n \<le> pq_total r \<and> payment_effect q r n ref s s') s"
    unfolding financeCommand_def jsonObject_def json.case
    by (intro wp_intros wp_oneOf wp_recordPayment) (use assms(2-4) in auto)
  from wpD [OF this assms(1)] obtain r ref where r: "fetch (payment_requests s) q = Some r" "payable_now r" "1 \<le> n"
    "net_of (payments s) q + n \<le> pq_total r" and eff: "payment_effect q r n ref s s'" by blast
  from eff obtain p where p: "payments s' = insertT p (payments s)" "py_request p = q" "py_amount p = n"
    "py_reference p = ref" "py_type p = ''payment''" "py_exception p = None" by (auto simp: payment_effect_def Let_def)
  then have net: "net_of (payments s') q = net_of (payments s) q + n" by (simp add: net_insert payable_def)
  from eff r(1) have "\<exists>r'. fetch (payment_requests s') q = Some r' \<and>
      pq_status r' = (if net_of (payments s') q = pq_total r then ''paid'' else ''partially_paid'')"
    unfolding net by (auto simp: payment_effect_def Let_def fetch_updateT paid_status_def)
  moreover from eff have "\<forall>j. j \<noteq> q \<longrightarrow> fetch (payment_requests s') j = fetch (payment_requests s) j"
    by (auto simp: payment_effect_def Let_def fetch_updateT option.map_ident)
  moreover from eff have "business_keys s (''payment'', ref) = None"
    "business_keys s' (''payment'', ref) = Some (show_int (nxt (payments s)))" by (auto simp: payment_effect_def Let_def)
  ultimately show ?thesis using r p net by auto
qed

text \<open>
  C28. An invoice is verified only by two people: whatever finance action runs, every verified invoice has
  an amount that matches the expected one and carries the approvals of two different users, one as supply
  chain and one as finance.
\<close>

theorem invoice_two_people:
  assumes "finance_inv s" and "verified_ok s" and "financeCommand c raw s = Inr (v, s')"
    and "fetch (invoices s') i = Some w" and "iv_status w = ''verified''"
  shows "iv_matches w \<and> two_people (verifications s') i"
  using wpD [OF verified_wp [OF assms(1,2)] assms(3)] assms(4,5) by (auto simp: verified_ok_def dest: each_keyD)

text \<open>
  C39. Invalidating an invoice freezes every payment request it covered, and in every state in which the request
  is still frozen a refund against it is refused, whichever exception it names and however much was paid: a
  refund requires the request to be paid or partially paid. The documents ask for the opposite (a frozen
  allocation is closed by a replacement or a refund).
\<close>

theorem refund_blocked_by_freeze:
  assumes "financeCommand c1 (JObj b1) s = Inr (v1, s1)" and "fld b1 ''action'' = Some (JStr ''invalidate_invoice'')"
    and "to_safe_integer (fld b1 ''invoiceId'') = Some i" and "finance_inv s"
    and "fetch (invoice_allocations s) j = Some a" and "aq_invoice a = i" and "aq_status a = ''active''"
  shows "is_frozen s1 (aq_request a) \<and> (\<forall>t c2 b2. is_frozen t (aq_request a) \<and>
    fld b2 ''action'' = Some (JStr ''record_refund'') \<and> to_safe_integer (fld b2 ''paymentRequestId'') = Some (aq_request a) \<longrightarrow>
    \<not> succeeds (financeCommand c2 (JObj b2) t))"
proof -
  have "wp (financeCommand c1 (JObj b1)) (\<lambda>_ s'. \<exists>v. invalidate_effect i v s s') s"
    unfolding financeCommand_def jsonObject_def json.case
    by (intro wp_intros wp_oneOf wp_invalidateInvoice [OF assms(4)]) (use assms(2,3) in auto)
  from wpD [OF this assms(1)] obtain v where eff: "invalidate_effect i v s s1" by blast
  have "(j, a) \<in> set (active_allocations s i)"
    using fetch_in_rows [OF assms(5)] assms(6,7) by (simp add: active_allocations_def select_rows)
  with eff have "is_frozen s1 (aq_request a)" by (auto simp: invalidate_effect_def)
  moreover have "\<not> succeeds (financeCommand c2 (JObj b2) t)" if frozen: "is_frozen t (aq_request a)"
    and refund: "fld b2 ''action'' = Some (JStr ''record_refund'')" "to_safe_integer (fld b2 ''paymentRequestId'') = Some (aq_request a)"
    for t c2 b2
  proof
    assume "succeeds (financeCommand c2 (JObj b2) t)"
    then obtain v2 s2 where r: "financeCommand c2 (JObj b2) t = Inr (v2, s2)" by (rule succeedsE)
    have "wp (financeCommand c2 (JObj b2)) (\<lambda>_ _. \<exists>r. fetch (payment_requests t) (aq_request a) = Some r \<and>
        pq_status r \<in> set [''paid'', ''partially_paid'']) t"
      unfolding financeCommand_def jsonObject_def json.case
      by (intro wp_intros wp_oneOf wp_recordRefund) (use refund in auto)
    from wpD [OF this r] frozen show False by (auto simp: is_frozen_def)
  qed
  ultimately show ?thesis by blast
qed

section \<open>The properties at a concrete ledger\<close>

definition sample_invoice :: "string \<Rightarrow> string \<Rightarrow> invoice" where
  "sample_invoice no st = \<lparr>iv_factory = 7, iv_order = 1, iv_mode = ''full_order'', iv_delivery = None, iv_no = no,
     iv_type = ''other'', iv_amount = 9, iv_tax = 0, iv_issued_at = ''2025-01-01'', iv_file_key = None, iv_status = st,
     iv_expected = 9, iv_matches = True, iv_mismatch = 0, iv_maintained_by = 2\<rparr>"

definition payment_payload :: "(string \<times> json) list" where
  "payment_payload = [(''action'', JStr ''record_payment''), (''paymentRequestId'', jint 1), (''amountMinor'', jint 4),
     (''paidAt'', JStr ''2025-01-01''), (''bankReference'', JStr ''B-1'')]"

definition finance_db :: db where
  "finance_db = empty_db\<lparr>
     payment_requests := insertT \<lparr>pq_no = ''PR-1'', pq_factory = 7, pq_planned = ''2025-02-01'', pq_total = 9,
       pq_status = ''generated'', pq_covered = 9, pq_paid_at = None, pq_reference = None, pq_updated_at = 1\<rparr> emptyT,
     request_items := insertT \<lparr>qt_request = 1, qt_order = 1, qt_amount = 9\<rparr> emptyT,
     invoices := insertT (sample_invoice ''INV-2'' ''received'') (insertT (sample_invoice ''INV-1'' ''verified'') emptyT),
     verifications := insertT \<lparr>vf_invoice = 2, vf_role = ''finance'', vf_decision = ''approved'', vf_reason = None, vf_by = 3\<rparr>
       (insertT \<lparr>vf_invoice = 1, vf_role = ''finance'', vf_decision = ''approved'', vf_reason = None, vf_by = 3\<rparr>
       (insertT \<lparr>vf_invoice = 1, vf_role = ''supply_chain'', vf_decision = ''approved'', vf_reason = None, vf_by = 2\<rparr> emptyT)),
     invoice_allocations := insertT \<lparr>aq_invoice = 1, aq_request = 1, aq_amount = 9, aq_status = ''active'', aq_created_by = 2\<rparr> emptyT,
     challenges := insertT \<lparr>ch_no = ''CH-1'', ch_user = 1, ch_purpose = ''high_risk'', ch_session = Some 1,
       ch_action = Some ''record_payment'', ch_object_type = Some ''finance:record_payment'', ch_object_id = Some ''1'',
       ch_object_version = Some 1, ch_digest = Some (payloadDigest sample_env payment_payload), ch_verified_at = Some ''2025-01-01'',
       ch_consumed_at = None, ch_expires_at = ''2025-01-02''\<rparr> emptyT\<rparr>"

lemma each_key_empty [simp]: "each_key P emptyT"
  by (simp add: each_key_def emptyT_def wf_tbl_def fetch_def)

lemma finance_db_inv: "finance_inv finance_db" and finance_db_verified: "verified_ok finance_db"
proof -
  have "net_of emptyT q = 0" and "rows (emptyT :: payment tbl) = []" for q by (simp_all add: net_of_def emptyT_def sumT_def)
  moreover have "active_cover (insertT \<lparr>aq_invoice = 1, aq_request = 1, aq_amount = 9, aq_status = ''active'', aq_created_by = 2\<rparr> emptyT) 1 = 9"
    by (simp add: active_cover_def sumT_def emptyT_def insertT_def)
  ultimately show "finance_inv finance_db"
    by (simp add: finance_inv_def finance_db_def empty_db_def ledger_ok_def exceptions_ok_def coverage_ok_def invoices_ok_def
        each_key_insert covered_ok_def sample_invoice_def)
  show "verified_ok finance_db"
    by (simp add: verified_ok_def finance_db_def each_key_insert sample_invoice_def two_people_def rows_insert)
qed

definition payment_body :: "(string \<times> json) list" where
  "payment_body = payment_payload @ [(''challengeNo'', JStr ''CH-1'')]"

lemma payment_runs: "succeeds (financeCommand sample_ctx (JObj payment_body) finance_db)"
  by code_simp

lemma payment_fields:
  "fld payment_body ''action'' = Some (JStr ''record_payment'')"
  "to_safe_integer (fld payment_body ''paymentRequestId'') = Some 1" "to_safe_integer (fld payment_body ''amountMinor'') = Some 4"
  by (simp_all add: payment_body_def payment_payload_def fld_def to_safe_integer_jint)

lemma finance_invariant_witness:
  "\<exists>v s'. financeCommand sample_ctx (JObj payment_body) finance_db = Inr (v, s') \<and> finance_inv s' \<and> verified_ok s'"
proof -
  from payment_runs obtain v s' where r: "financeCommand sample_ctx (JObj payment_body) finance_db = Inr (v, s')" by (rule succeedsE)
  from finance_invariant [OF finance_db_inv r] finance_db_verified r show ?thesis by blast
qed

lemma payment_exact_witness:
  "\<exists>v s'. financeCommand sample_ctx (JObj payment_body) finance_db = Inr (v, s') \<and>
    net_of (payments s') 1 = 4 \<and> (\<exists>r. fetch (payment_requests s') 1 = Some r \<and> pq_status r = ''partially_paid'')"
proof -
  from payment_runs obtain v s' where r: "financeCommand sample_ctx (JObj payment_body) finance_db = Inr (v, s')" by (rule succeedsE)
  have "net_of (payments finance_db) 1 = 0" by (simp add: finance_db_def empty_db_def net_of_def emptyT_def sumT_def)
  moreover have "fetch (payment_requests finance_db) 1 = Some r \<Longrightarrow> pq_total r = 9" for r
    by (simp add: finance_db_def fetch_insertT) (auto simp: emptyT_def fetch_def)
  ultimately show ?thesis using payment_exact [OF r payment_fields] r by force
qed

definition verify_body :: "(string \<times> json) list" where
  "verify_body = [(''action'', JStr ''verify_invoice''), (''invoiceId'', jint 2), (''verifierRole'', JStr ''supply_chain''),
     (''decision'', JStr ''approved'')]"

lemma invoice_two_people_witness:
  "\<exists>v s'. financeCommand sample_ctx (JObj verify_body) finance_db = Inr (v, s') \<and> two_people (verifications s') 1"
proof -
  have "succeeds (financeCommand sample_ctx (JObj verify_body) finance_db)" by code_simp
  then obtain v s' where r: "financeCommand sample_ctx (JObj verify_body) finance_db = Inr (v, s')" by (rule succeedsE)
  have "case financeCommand sample_ctx (JObj verify_body) finance_db of Inl _ \<Rightarrow> False
      | Inr (_, s') \<Rightarrow> map_option iv_status (fetch (invoices s') 1) = Some ''verified''" by code_simp
  with r obtain w where "fetch (invoices s') 1 = Some w" and "iv_status w = ''verified''" by auto
  from invoice_two_people [OF finance_db_inv finance_db_verified r this] r show ?thesis by blast
qed

definition invalidate_body :: "(string \<times> json) list" where
  "invalidate_body = [(''action'', JStr ''invalidate_invoice''), (''invoiceId'', jint 1), (''exceptionType'', JStr ''voided''),
     (''reason'', JStr ''wrong''), (''replacementDeadline'', JStr ''2025-03-01'')]"

definition refund_body :: "(string \<times> json) list" where
  "refund_body = [(''action'', JStr ''record_refund''), (''paymentRequestId'', jint 1), (''invoiceExceptionId'', jint 1),
     (''amountMinor'', jint 4), (''paidAt'', JStr ''2025-01-02''), (''bankReference'', JStr ''B-2'')]"

lemma refund_blocked_by_freeze_witness:
  "\<exists>v s'. financeCommand sample_ctx (JObj invalidate_body) finance_db = Inr (v, s') \<and>
    \<not> succeeds (financeCommand sample_ctx (JObj refund_body) s')"
proof -
  have "succeeds (financeCommand sample_ctx (JObj invalidate_body) finance_db)" by code_simp
  then obtain v s' where r: "financeCommand sample_ctx (JObj invalidate_body) finance_db = Inr (v, s')" by (rule succeedsE)
  have "fld invalidate_body ''action'' = Some (JStr ''invalidate_invoice'')" "to_safe_integer (fld invalidate_body ''invoiceId'') = Some 1"
    by (simp_all add: invalidate_body_def fld_def to_safe_integer_jint)
  moreover have "fetch (invoice_allocations finance_db) 1 = Some \<lparr>aq_invoice = 1, aq_request = 1, aq_amount = 9,
      aq_status = ''active'', aq_created_by = 2\<rparr>" by (simp add: finance_db_def fetch_insertT)
  moreover have "fld refund_body ''action'' = Some (JStr ''record_refund'')" "to_safe_integer (fld refund_body ''paymentRequestId'') = Some 1"
    by (simp_all add: refund_body_def fld_def to_safe_integer_jint)
  ultimately show ?thesis using refund_blocked_by_freeze [OF r _ _ finance_db_inv] r by fastforce
qed

end
