(* ===== verification/Inventory.thy ===== *)
theory Inventory
  imports Stock
begin

text \<open>
  \<open>modules/inventory/writes.ts\<close>: reserving stock of a batch for a business entity, and the
  transfer of stock between warehouses (request, ship first-expiring-first, receive). The SQL
  predicates are the boolean functions \<open>entity_in_scope\<close> and \<open>shippable\<close>; \<open>fefo\<close> is the
  ORDER BY of the shipping query, with NULL expiry dates first.
\<close>

section \<open>Reservations\<close>

definition in_scope :: "access \<Rightarrow> int option \<Rightarrow> bool" where
  "in_scope a factory \<longleftrightarrow> internal a \<or> (a_factory a \<noteq> None \<and> factory = a_factory a)"

definition entity_in_scope :: "access \<Rightarrow> string \<Rightarrow> int \<Rightarrow> db \<Rightarrow> bool" where
  "entity_in_scope a entityType entityId s =
     (if entityType = ''production_order'' then
        (case fetch (execution_orders s) entityId of None \<Rightarrow> False
         | Some eo \<Rightarrow> in_scope a (Some (eo_factory eo)))
      else if entityType = ''shipment_plan'' then
        (case fetch (deliveries s) entityId of None \<Rightarrow> False
         | Some d \<Rightarrow> (case fetch (execution_orders s) (dl_order d) of None \<Rightarrow> False
             | Some eo \<Rightarrow> in_scope a (Some (eo_factory eo))))
      else
        (case fetch (purchase_orders s) entityId of None \<Rightarrow> False
         | Some _ \<Rightarrow> internal a \<or> list_ex (\<lambda>(i, oi). oi_order oi = entityId \<and>
             list_ex (\<lambda>(_, eo). eo_order_item eo = i \<and> in_scope a (Some (eo_factory eo)))
               (rows (execution_orders s))) (rows (order_items s))))"

definition requireReservationEntityScope :: "access \<Rightarrow> string \<Rightarrow> int option \<Rightarrow> unit run" where
  "requireReservationEntityScope a entityType entityId =
     (if entityType = ''historical'' then
        guardC (internal a) (forbidden ''Historical reservations require an internal role'')
      else
        bindC (requireC entityId (bad_request ''Business entity is required'')) (\<lambda>i.
        bindC (queryC (entity_in_scope a entityType i)) (\<lambda>allowed.
        guardC allowed (forbidden ''Forbidden reservation entity binding''))))"

text \<open>The part of \<open>reserveInventory\<close> that checks the locked batch.\<close>

definition lockReservableBatch :: "cctx \<Rightarrow> int \<Rightarrow> string \<Rightarrow> int option \<Rightarrow> batch run" where
  "lockReservableBatch c batchId entityType entityId =
     bindC (queryC (\<lambda>s. fetch (batches s) batchId)) (\<lambda>found.
     bindC (requireC found (not_found ''Inventory batch not found'')) (\<lambda>first.
     bindC (lockWarehouseFreeze (ib_warehouse first)) (\<lambda>_.
     bindC (queryC (\<lambda>s. fetch (batches s) batchId)) (\<lambda>lockedRow.
     bindC (requireC lockedRow (version_conflict ''Inventory batch changed concurrently'')) (\<lambda>b.
     bindC (requireWarehouseScope (c_access c) (ib_warehouse b)) (\<lambda>_.
     bindC (requireReservationEntityScope (c_access c) entityType entityId) (\<lambda>_.
     bindC (freezeExists (ib_warehouse b) (Some (ib_sku b))) (\<lambda>isFrozen.
     bindC (guardC (\<not> isFrozen) (conflict ''Inventory is frozen by an active stocktake'')) (\<lambda>_.
     bindC (guardC (\<not> (ib_expiry_status b = ''expired_frozen'' \<or> 0 < ib_quarantine b))
       (conflict ''Frozen or quarantined inventory cannot be reserved'')) (\<lambda>_.
     returnC b))))))))))"

definition reserveBatch :: "int \<Rightarrow> batch \<Rightarrow> string \<Rightarrow> int option \<Rightarrow> int \<Rightarrow> int \<Rightarrow> int \<Rightarrow> (int \<times> int \<times> int) run" where
  "reserveBatch batchId b entityType entityId requested priority user =
     (let available = max 0 (ib_available b);
          reserved = min requested available;
          shortage = requested - reserved
      in bindC (whenC (0 < reserved)
           (bindC (updateC batches batches_update ok_batch
              (\<lambda>j r. j = batchId \<and> reserved \<le> ib_available r)
              (\<lambda>r. r\<lparr>ib_available := ib_available r - reserved, ib_locked := ib_locked r + reserved\<rparr>))
            (\<lambda>updated. guardC (updated = 1) (version_conflict ''Inventory changed concurrently'')))) (\<lambda>_.
         bindC (insertC reservations reservations_update ok_reservation
           \<lparr>ir_batch = batchId, ir_entity_type = entityType, ir_entity = entityId, ir_requested = requested,
            ir_reserved = reserved, ir_shortage = shortage, ir_priority = priority, ir_status = ''active'',
            ir_created_by = user\<rparr>) (\<lambda>reservationId.
         returnC (reservationId, reserved, shortage))))"

definition reserveInventory :: "cctx \<Rightarrow> json \<Rightarrow> json run" where
  "reserveInventory c raw =
     bindC (requireRole (c_access c) [''admin'', ''supply_chain'', ''factory'']) (\<lambda>_.
     bindC (jsonObject raw) (\<lambda>body.
     bindC (integer (fld body ''batchId'') ''batchId'' 1) (\<lambda>batchId.
     bindC (oneOf (fld body ''entityType'')
       [''purchase_order'', ''production_order'', ''shipment_plan'', ''historical''] ''entityType'') (\<lambda>entityType.
     bindC (optionalInteger (fld body ''entityId'') ''entityId'') (\<lambda>entityId.
     bindC (integer (fld body ''requestedQuantity'') ''requestedQuantity'' 1) (\<lambda>requested.
     bindC (if fld body ''priority'' = None then returnC 0
            else integer (fld body ''priority'') ''priority'' (- 1000)) (\<lambda>priority.
     bindC (guardC (entityType = ''historical'' \<or> entityId \<noteq> None)
       (bad_request ''Business entity is required'')) (\<lambda>_.
     bindC (lockReservableBatch c batchId entityType entityId) (\<lambda>b.
     bindC (reserveBatch batchId b entityType entityId requested priority (a_user (c_access c)))
       (\<lambda>(reservationId, reserved, shortage).
     bindC (audit c ''reserve'' ''inventory'' ''inventory_reservation'' (show_int reservationId) None None
       (Some (JObj [(''batchId'', jint batchId), (''entityType'', JStr entityType),
         (''entityId'', jnull jint entityId), (''requestedQuantity'', jint requested),
         (''reservedQuantity'', jint reserved), (''shortageQuantity'', jint shortage)]))) (\<lambda>_.
     bindC (domainEvent c (if 0 < shortage then ''InventoryShortageDetected'' else ''InventoryReserved'')
       ''inventory_reservation'' (show_int reservationId) None RNone
       [(''batchId'', jint batchId), (''requestedQuantity'', jint requested),
        (''reservedQuantity'', jint reserved), (''shortageQuantity'', jint shortage)]) (\<lambda>_.
     returnC (JObj [(''reservation'', JObj [(''id'', jint reservationId), (''batchId'', jint batchId),
       (''requestedQuantity'', jint requested), (''reservedQuantity'', jint reserved),
       (''shortageQuantity'', jint shortage)])])))))))))))))"

section \<open>Transfers\<close>

definition requestTransferBody :: "cctx \<Rightarrow> int \<Rightarrow> int \<Rightarrow> string \<Rightarrow> int \<Rightarrow> string \<Rightarrow> json run" where
  "requestTransferBody c fromWarehouseId toWarehouseId sku quantity reason =
     (let details = [(''fromWarehouseId'', jint fromWarehouseId), (''toWarehouseId'', jint toWarehouseId),
        (''sku'', JStr sku), (''quantity'', jint quantity), (''reason'', JStr reason)]
      in bindC (randomUUID (c_env c)) (\<lambda>u. let transferNo = ''TR-'' @ u in
         bindC (insertC transfers transfers_update ok_transfer
           \<lparr>it_no = transferNo, it_from = fromWarehouseId, it_to = toWarehouseId, it_sku = sku,
            it_quantity = quantity, it_reason = reason, it_status = ''pending_supply_chain'',
            it_requested_by = a_user (c_access c), it_approved_by = None, it_approved_at = None,
            it_shipped_at = None, it_received_at = None\<rparr>) (\<lambda>transferId.
         bindC (lockVersion ''inventory_transfer'' (show_int transferId)) (\<lambda>_.
         bindC (insertC approvals approvals_update ok_approval
           \<lparr>ap_request_no = ''APR-'' @ transferNo, ap_workflow = ''warehouse_transfer'',
            ap_entity_type = ''inventory_transfer'', ap_entity_id = transferId,
            ap_summary = ''Warehouse transfer '' @ transferNo, ap_payload = JObj details,
            ap_high_risk = False, ap_status = ''pending'', ap_requested_by = a_user (c_access c),
            ap_reviewed_by = None, ap_review_comment = None, ap_sms_verified = False,
            ap_updated_at = sql_ms (c_env c)\<rparr>) (\<lambda>approvalId.
         bindC (audit c ''create'' ''inventory'' ''inventory_transfer'' (show_int transferId) (Some transferNo)
           None (Some (JObj (details @ [(''approvalId'', jint approvalId)])))) (\<lambda>_.
         bindC (domainEvent c ''ApprovalRequested'' ''inventory_transfer'' (show_int transferId) None
           (RRole ''supply_chain'') [(''approvalId'', jint approvalId),
             (''workflowType'', JStr ''warehouse_transfer'')]) (\<lambda>_.
         returnC (JObj [(''transfer'', JObj ([(''id'', jint transferId), (''transferNo'', JStr transferNo)] @
           details @ [(''status'', JStr ''pending_supply_chain'')]))]))))))))"

definition requestTransfer :: "cctx \<Rightarrow> json \<Rightarrow> json run" where
  "requestTransfer c raw =
     bindC (requireRole (c_access c) [''admin'', ''supply_chain'', ''factory'']) (\<lambda>_.
     bindC (jsonObject raw) (\<lambda>body.
     bindC (integer (fld body ''fromWarehouseId'') ''fromWarehouseId'' 1) (\<lambda>fromWarehouseId.
     bindC (integer (fld body ''toWarehouseId'') ''toWarehouseId'' 1) (\<lambda>toWarehouseId.
     bindC (stringC (fld body ''sku'') ''sku'' 191) (\<lambda>sku.
     bindC (integer (fld body ''quantity'') ''quantity'' 1) (\<lambda>quantity.
     bindC (stringC (fld body ''reason'') ''reason'' 1000) (\<lambda>reason.
     bindC (guardC (fromWarehouseId \<noteq> toWarehouseId) (bad_request ''Warehouses must differ'')) (\<lambda>_.
     bindC (requireWarehouseScope (c_access c) fromWarehouseId) (\<lambda>source.
     bindC (queryC (\<lambda>s. fetch (warehouses s) toWarehouseId)) (\<lambda>found.
     bindC (requireC found (not_found ''Target warehouse not found'')) (\<lambda>target.
     bindC (guardC (w_status source = ''active'' \<and> w_status target = ''active'')
       (conflict ''Inactive warehouses cannot be transferred'')) (\<lambda>_.
     requestTransferBody c fromWarehouseId toWarehouseId sku quantity reason))))))))))))"

definition shippable :: "int \<Rightarrow> string \<Rightarrow> batch \<Rightarrow> bool" where
  "shippable warehouseId sku b \<longleftrightarrow> ib_warehouse b = warehouseId \<and> ib_sku b = sku \<and>
     ib_ownership b = ''company'' \<and> 0 < ib_available b \<and> ib_expiry_status b \<noteq> ''expired_frozen'' \<and>
     ib_quarantine b = 0"

definition fefo :: "int \<times> batch \<Rightarrow> string option \<times> string \<times> int" where
  "fefo p = (ib_expiry_date (snd p), ib_inbound_date (snd p), fst p)"

definition shippable_batches :: "db \<Rightarrow> int \<Rightarrow> string \<Rightarrow> (int \<times> batch) list" where
  "shippable_batches s warehouseId sku =
     sort_key fefo (select (batches s) (\<lambda>_. shippable warehouseId sku))"

text \<open>The loop over the batches: what to take from each, and what is left to find.\<close>

fun deductions :: "int \<Rightarrow> (int \<times> batch) list \<Rightarrow> (int \<times> int) list \<times> int" where
  "deductions remaining [] = ([], remaining)"
| "deductions remaining ((i, b) # bs) = (if remaining = 0 then ([], remaining)
     else let q = min remaining (ib_available b); (ds, r) = deductions (remaining - q) bs
       in ((i, q) # ds, r))"

definition applyDeduction :: "int \<times> int \<Rightarrow> unit run" where
  "applyDeduction d =
     bindC (updateC batches batches_update ok_batch (\<lambda>j r. j = fst d \<and> snd d \<le> ib_available r)
       (\<lambda>r. r\<lparr>ib_available := ib_available r - snd d\<rparr>)) (\<lambda>updated.
     guardC (updated = 1) (version_conflict ''Inventory changed concurrently''))"

definition recordMovement :: "cctx \<Rightarrow> int \<Rightarrow> string \<Rightarrow> string \<Rightarrow> int \<Rightarrow> int option \<Rightarrow> string \<Rightarrow> unit run" where
  "recordMovement c warehouseId sku type quantity delivery sourceKey =
     bindC (insertC movements movements_update ok_movement
       \<lparr>im_warehouse = warehouseId, im_sku = sku, im_type = type, im_quantity = quantity,
        im_delivery = delivery, im_source_key = Some sourceKey, im_occurred_at = sql_now (c_env c),
        im_created_by = a_user (c_access c)\<rparr>) (\<lambda>_. returnC ())"

definition shipTransfer :: "cctx \<Rightarrow> int \<Rightarrow> transfer \<Rightarrow> unit run" where
  "shipTransfer c i t =
     bindC (guardC (it_status t = ''approved'') (conflict ''Transfer is not approved'')) (\<lambda>_.
     bindC (queryC (\<lambda>s. deductions (it_quantity t) (shippable_batches s (it_from t) (it_sku t))))
       (\<lambda>(ds, remaining).
     bindC (guardC (remaining = 0) (conflict ''Insufficient available inventory'')) (\<lambda>_.
     bindC (updateC transfers transfers_update ok_transfer (\<lambda>j r. j = i \<and> it_status r = ''approved'')
       (\<lambda>r. r\<lparr>it_status := ''shipped'', it_shipped_at := Some (sql_now (c_env c))\<rparr>)) (\<lambda>claimed.
     bindC (guardC (claimed = 1) (version_conflict ''Transfer changed concurrently'')) (\<lambda>_.
     bindC (eachC applyDeduction ds) (\<lambda>_.
     recordMovement c (it_from t) (it_sku t) ''transfer_out'' (- it_quantity t) None
       (''transfer:'' @ show_int i @ '':out'')))))))"

definition receiveTransfer :: "cctx \<Rightarrow> int \<Rightarrow> transfer \<Rightarrow> unit run" where
  "receiveTransfer c i t =
     bindC (guardC (it_status t = ''shipped'') (conflict ''Only shipped transfers can be received'')) (\<lambda>_.
     bindC (updateC transfers transfers_update ok_transfer (\<lambda>j r. j = i \<and> it_status r = ''shipped'')
       (\<lambda>r. r\<lparr>it_status := ''received'', it_received_at := Some (sql_now (c_env c))\<rparr>)) (\<lambda>claimed.
     bindC (guardC (claimed = 1) (version_conflict ''Transfer changed concurrently'')) (\<lambda>_.
     bindC (insertC batches batches_update ok_batch
       \<lparr>ib_batch_no = it_no t @ ''-IN'', ib_warehouse = it_to t, ib_sku = it_sku t,
        ib_production_date = None, ib_inbound_date = sql_today (c_env c), ib_expiry_date = None,
        ib_available = it_quantity t, ib_locked = 0, ib_defective = 0, ib_pending = 0,
        ib_quarantine = 0, ib_ownership = ''company'', ib_expiry_status = ''normal''\<rparr>) (\<lambda>_.
     recordMovement c (it_to t) (it_sku t) ''transfer_in'' (it_quantity t) None
       (''transfer:'' @ show_int i @ '':in'')))))"

definition transfer_json :: "int \<Rightarrow> transfer \<Rightarrow> json" where
  "transfer_json i t = JObj [(''id'', jint i), (''transferNo'', JStr (it_no t)),
     (''fromWarehouseId'', jint (it_from t)), (''toWarehouseId'', jint (it_to t)),
     (''sku'', JStr (it_sku t)), (''quantity'', jint (it_quantity t)), (''status'', JStr (it_status t))]"

definition transitionTransfer :: "cctx \<Rightarrow> json \<Rightarrow> json run" where
  "transitionTransfer c raw =
     bindC (requireRole (c_access c) [''admin'', ''supply_chain'', ''factory'']) (\<lambda>_.
     bindC (jsonObject raw) (\<lambda>body.
     bindC (integer (fld body ''id'') ''id'' 1) (\<lambda>i.
     bindC (oneOf (fld body ''action'') [''ship'', ''receive''] ''action'') (\<lambda>action.
     bindC (queryC (\<lambda>s. fetch (transfers s) i)) (\<lambda>found.
     bindC (requireC found (not_found ''Transfer not found'')) (\<lambda>t.
     bindC (lockVersion ''inventory_transfer'' (show_int i)) (\<lambda>version.
     let warehouseId = (if action = ''ship'' then it_from t else it_to t);
         status = (if action = ''ship'' then ''shipped'' else ''received'') in
     bindC (requireWarehouseScope (c_access c) warehouseId) (\<lambda>_.
     bindC (freezeExists warehouseId (Some (it_sku t))) (\<lambda>isFrozen.
     bindC (guardC (\<not> isFrozen) (conflict ''Inventory is frozen by an active stocktake'')) (\<lambda>_.
     bindC (if action = ''ship'' then shipTransfer c i t else receiveTransfer c i t) (\<lambda>_.
     bindC (bumpVersion ''inventory_transfer'' (show_int i) version) (\<lambda>nextVersion.
     bindC (audit c action ''inventory'' ''inventory_transfer'' (show_int i) (Some (it_no t))
       (Some (transfer_json i t)) (Some (JObj [(''status'', JStr status), (''version'', jint nextVersion)]))) (\<lambda>_.
     bindC (domainEvent c (if action = ''ship'' then ''TransferShipped'' else ''TransferReceived'')
       ''inventory_transfer'' (show_int i) None RNone []) (\<lambda>_.
     returnC (JObj [(''success'', JBool True), (''id'', jint i), (''status'', JStr status),
       (''version'', jint nextVersion)])))))))))))))))"

section \<open>Reserving\<close>

lemma wp_lockReservable:
  assumes "\<And>b vs. fetch (batches s) i = Some b \<Longrightarrow> \<not> frozen s (ib_warehouse b) (Some (ib_sku b)) \<Longrightarrow>
      ib_expiry_status b \<noteq> ''expired_frozen'' \<Longrightarrow> ib_quarantine b \<le> 0 \<Longrightarrow> Q b (s\<lparr>versions := vs\<rparr>)"
  shows "wp (lockReservableBatch c i ety eid) Q s"
  unfolding lockReservableBatch_def requireReservationEntityScope_def
  by (intro wp_intros) (auto intro!: assms)

definition reserve_effect :: "int \<Rightarrow> batch \<Rightarrow> int \<Rightarrow> int \<Rightarrow> int \<Rightarrow> db \<Rightarrow> db \<Rightarrow> bool" where
  "reserve_effect i b requested q rid s s' \<longleftrightarrow>
     q = min requested (max 0 (ib_available b)) \<and>
     batches s' = updateT (\<lambda>j r. j = i \<and> 0 < q) (\<lambda>r. r\<lparr>ib_available := ib_available r - q, ib_locked := ib_locked r + q\<rparr>) (batches s) \<and>
     rid = nxt (reservations s) \<and>
     (\<exists>r. reservations s' = insertT r (reservations s) \<and> ir_batch r = i \<and> ir_requested r = requested \<and>
       ir_reserved r = q \<and> ir_shortage r = requested - q \<and> ir_status r = ''active'')"

lemma wp_reserveBatch:
  assumes "wf_tbl (batches s)" and "fetch (batches s) i = Some b"
    and "\<And>q rid s'. reserve_effect i b requested q rid s s' \<Longrightarrow> Q (rid, q, requested - q) s'"
  shows "wp (reserveBatch i b ety eid requested prio user) Q s"
proof -
  define q where "q = min requested (max 0 (ib_available b))"
  have same: "updateT (\<lambda>j r. j = i \<and> q \<le> ib_available r) f (batches s) =
      updateT (\<lambda>j r. j = i \<and> 0 < q) f (batches s)" if "0 < q" for f
    using assms(1,2) that by (intro updateT_cong) (auto simp: fetch_rows [symmetric] q_def)
  have none: "updateT (\<lambda>j r. False) f (batches s) = batches s" for f
    by (intro updateT_none) simp
  show ?thesis
    unfolding reserveBatch_def Let_def q_def [symmetric]
    by (intro wp_intros assms(3)) (auto simp: reserve_effect_def same none simp flip: q_def intro!: exI)
qed

lemma reserve_effect_cong [simp]:
  "reserve_effect i b requested q rid (s\<lparr>versions := vs\<rparr>) s' = reserve_effect i b requested q rid s s'"
  "reserve_effect i b requested q rid s (outbox_messages_update f s') = reserve_effect i b requested q rid s s'"
  "reserve_effect i b requested q rid s (audit_logs_update g s') = reserve_effect i b requested q rid s s'"
  by (simp_all add: reserve_effect_def)

definition reservable :: "db \<Rightarrow> batch \<Rightarrow> bool" where
  "reservable s b \<longleftrightarrow> \<not> frozen s (ib_warehouse b) (Some (ib_sku b)) \<and>
     ib_expiry_status b \<noteq> ''expired_frozen'' \<and> ib_quarantine b \<le> 0"

definition reservation_view :: "int \<Rightarrow> int \<Rightarrow> int \<Rightarrow> int \<Rightarrow> json" where
  "reservation_view rid i requested q = JObj [(''reservation'', JObj [(''id'', jint rid), (''batchId'', jint i),
     (''requestedQuantity'', jint requested), (''reservedQuantity'', jint q),
     (''shortageQuantity'', jint (requested - q))])]"

lemma wp_reserveInventory:
  assumes "wf_tbl (batches s)"
    and "\<And>i b requested q rid s'. fetch (batches s) i = Some b \<Longrightarrow> reservable s b \<Longrightarrow> 1 \<le> requested \<Longrightarrow>
      reserve_effect i b requested q rid s s' \<Longrightarrow> Q (reservation_view rid i requested q) s'"
  shows "wp (reserveInventory c raw) Q s"
  unfolding reserveInventory_def
  by (intro wp_intros wp_lockReservable wp_reserveBatch)
    (use assms(1) in \<open>auto simp: reservable_def intro!: assms(2) [unfolded reservation_view_def]\<close>)

lemma reserve_keeps_stock:
  assumes "reserve_effect i b requested q rid s s'" and "stock_inv s" and "fetch (batches s) i = Some b"
    and "1 \<le> requested"
  shows "stock_inv s'"
proof -
  from assms(1) obtain r where q: "q = min requested (max 0 (ib_available b))"
    and bs: "batches s' = updateT (\<lambda>j r. j = i \<and> 0 < q)
      (\<lambda>r. r\<lparr>ib_available := ib_available r - q, ib_locked := ib_locked r + q\<rparr>) (batches s)"
    and rs: "reservations s' = insertT r (reservations s)"
    and r: "ir_batch r = i" "ir_requested r = requested" "ir_reserved r = q" "ir_shortage r = requested - q"
      "ir_status r = ''active''"
    by (auto simp: reserve_effect_def)
  have claims: "reserved_on s' j = reserved_on s j + (if j = i then q else 0)" for j
    by (simp add: reserved_on_def rs claims_def r)
  have "buckets_ok b" using stock_invD(3) [OF assms(2,3)] .
  then have qb: "0 \<le> q" "q \<le> ib_available b" using assms(4) by (auto simp: q buckets_ok_def)
  have "i < nxt (batches s)" using fetch_pos [OF stock_invD(1) [OF assms(2)] assms(3)] by simp
  moreover have "q \<le> requested" by (simp add: q)
  moreover have "ib_locked b \<ge> reserved_on s i" using stock_invD(4) [OF assms(2,3)] .
  ultimately show ?thesis
    using assms(2,3) qb r
    by (cases "0 < q") (auto simp: stock_inv_def bs rs claims fetch_updateT fetch_insertT buckets_ok_def
        reservation_ok_def split: if_splits)
qed

text \<open>
  C14. A successful reservation takes from one existing, unfrozen, unquarantined batch exactly
  \<open>min(requested, available)\<close>: that much moves from the available to the locked bucket, no other
  batch changes, and one new active reservation records the requested, reserved and short
  quantities that are returned. The stock invariant is kept: what is reserved on a batch stays within its
  locked bucket.
\<close>

theorem reserve_exact:
  assumes "reserveInventory c raw s = Inr (v, s')" and "wf_tbl (batches s)" and "wf_tbl (reservations s)"
  shows "\<exists>i b requested q rid r. fetch (batches s) i = Some b \<and> reservable s b \<and> 1 \<le> requested \<and>
    q = min requested (max 0 (ib_available b)) \<and>
    fetch (batches s') i = Some (b\<lparr>ib_available := ib_available b - q, ib_locked := ib_locked b + q\<rparr>) \<and>
    (\<forall>j. j \<noteq> i \<longrightarrow> fetch (batches s') j = fetch (batches s) j) \<and>
    fetch (reservations s) rid = None \<and> fetch (reservations s') rid = Some r \<and>
    (\<forall>j. j \<noteq> rid \<longrightarrow> fetch (reservations s') j = fetch (reservations s) j) \<and>
    ir_batch r = i \<and> ir_status r = ''active'' \<and> ir_requested r = requested \<and> ir_reserved r = q \<and>
    ir_shortage r = requested - q \<and> v = reservation_view rid i requested q \<and>
    (stock_inv s \<longrightarrow> stock_inv s')"
proof -
  have "wp (reserveInventory c raw) (\<lambda>v s'. \<exists>i b requested q rid. fetch (batches s) i = Some b \<and>
      reservable s b \<and> 1 \<le> requested \<and> reserve_effect i b requested q rid s s' \<and>
      v = reservation_view rid i requested q) s"
    by (rule wp_reserveInventory [OF assms(2)]) blast
  from wpD [OF this assms(1)] obtain i b requested q rid where
    b: "fetch (batches s) i = Some b" and "reservable s b" and "1 \<le> requested"
    and e: "reserve_effect i b requested q rid s s'" and v: "v = reservation_view rid i requested q" by blast
  note kept_stock = reserve_keeps_stock [OF e _ b \<open>1 \<le> requested\<close>]
  from e obtain r where q: "q = min requested (max 0 (ib_available b))"
    and bs: "batches s' = updateT (\<lambda>j r. j = i \<and> 0 < q)
      (\<lambda>r. r\<lparr>ib_available := ib_available r - q, ib_locked := ib_locked r + q\<rparr>) (batches s)"
    and "rid = nxt (reservations s)" and rs: "reservations s' = insertT r (reservations s)"
    and r: "ir_batch r = i" "ir_requested r = requested" "ir_reserved r = q" "ir_shortage r = requested - q"
      "ir_status r = ''active''"
    unfolding reserve_effect_def by blast
  have "0 \<le> q" using q \<open>1 \<le> requested\<close> by simp
  then have new: "fetch (batches s') i = Some (b\<lparr>ib_available := ib_available b - q, ib_locked := ib_locked b + q\<rparr>)"
    by (cases "0 < q") (simp_all add: bs fetch_updateT b)
  have others: "fetch (batches s') j = fetch (batches s) j" if "j \<noteq> i" for j
    using that by (cases "fetch (batches s) j") (simp_all add: bs fetch_updateT)
  have fresh: "fetch (reservations s) rid = None"
    using fetch_pos [OF assms(3), of rid] \<open>rid = nxt (reservations s)\<close>
    by (cases "fetch (reservations s) rid") auto
  have added: "fetch (reservations s') rid = Some r"
    and kept: "j \<noteq> rid \<Longrightarrow> fetch (reservations s') j = fetch (reservations s) j" for j
    by (simp_all add: rs fetch_insertT [OF assms(3)] \<open>rid = nxt (reservations s)\<close>)
  show ?thesis
    by (intro exI conjI allI impI)
      (rule b \<open>reservable s b\<close> \<open>1 \<le> requested\<close> q new fresh added r v | erule others kept kept_stock)+
qed

section \<open>Deductions\<close>

abbreviation take_available :: "int \<Rightarrow> batch \<Rightarrow> batch" where
  "take_available q b \<equiv> b\<lparr>ib_available := ib_available b - q\<rparr>"

definition deduct1 :: "int \<times> int \<Rightarrow> batch tbl \<Rightarrow> batch tbl" where
  "deduct1 d = updateT (\<lambda>j r. j = fst d \<and> snd d \<le> ib_available r) (take_available (snd d))"

primrec deduct :: "(int \<times> int) list \<Rightarrow> batch tbl \<Rightarrow> batch tbl" where
  "deduct [] t = t"
| "deduct (d # ds) t = deduct ds (deduct1 d t)"

primrec covered :: "(int \<times> int) list \<Rightarrow> batch tbl \<Rightarrow> bool" where
  "covered [] t = True"
| "covered (d # ds) t = ((\<exists>b. fetch t (fst d) = Some b \<and> snd d \<le> ib_available b) \<and> covered ds (deduct1 d t))"

lemma wf_deduct1 [simp]: "wf_tbl (deduct1 d t) = wf_tbl t"
  by (simp add: deduct1_def)

lemma wf_deduct [simp]: "wf_tbl (deduct ds t) = wf_tbl t"
  by (induction ds arbitrary: t) simp_all

lemma wp_applyDeduction:
  assumes "wf_tbl (batches s)"
    and "\<And>b. fetch (batches s) (fst d) = Some b \<Longrightarrow> snd d \<le> ib_available b \<Longrightarrow> Q () (batches_update (deduct1 d) s)"
  shows "wp (applyDeduction d) Q s"
  unfolding applyDeduction_def
  by (intro wp_intros) (use assms(2) in \<open>auto simp: matched_one assms(1) deduct1_def\<close>)

lemma wp_applyDeductions:
  assumes "wf_tbl (batches s)" and "covered ds (batches s) \<Longrightarrow> Q () (batches_update (deduct ds) s)"
  shows "wp (eachC applyDeduction ds) Q s"
  using assms
proof (induction ds arbitrary: s)
  case Nil
  then show ?case by (simp add: wp_return)
next
  case (Cons d ds)
  have "wp (eachC applyDeduction ds) Q (batches_update (deduct1 d) s)"
    if "fetch (batches s) (fst d) = Some b" "snd d \<le> ib_available b" for b
  proof (rule Cons.IH)
    assume "covered ds (batches (batches_update (deduct1 d) s))"
    with that have "covered (d # ds) (batches s)" by simp
    then have "Q () (batches_update (deduct (d # ds)) s)" by (rule Cons.prems(2))
    moreover have "deduct (d # ds) = deduct ds \<circ> deduct1 d" by (simp add: fun_eq_iff)
    ultimately show "Q () (batches_update (deduct ds) (batches_update (deduct1 d) s))" by simp
  qed (use Cons.prems in simp)
  then show ?case
    unfolding eachC.simps by (intro wp_intros wp_applyDeduction Cons.prems(1)) simp
qed

lemma deduct_keeps:
  assumes "fst ` set ds \<inter> {j} = {}"
  shows "fetch (deduct ds t) j = fetch t j"
  using assms
proof (induction ds arbitrary: t)
  case (Cons d ds)
  then have "fetch (deduct1 d t) j = fetch t j"
    by (cases "fetch t j") (auto simp: deduct1_def fetch_updateT)
  with Cons show ?case by simp
qed simp

lemma deduct_fetch:
  assumes "distinct (map fst ds)" and "covered ds t" and "(j, q) \<in> set ds"
  shows "\<exists>b. fetch t j = Some b \<and> q \<le> ib_available b \<and> fetch (deduct ds t) j = Some (take_available q b)"
  using assms
proof (induction ds arbitrary: t)
  case (Cons d ds)
  show ?case
  proof (cases "d = (j, q)")
    case True
    with Cons.prems obtain b where b: "fetch t j = Some b" "q \<le> ib_available b" by auto
    have "fetch (deduct ds (deduct1 d t)) j = fetch (deduct1 d t) j"
      using Cons.prems(1) True by (intro deduct_keeps) auto
    also have "\<dots> = Some (take_available q b)" using b True by (simp add: deduct1_def fetch_updateT)
    finally show ?thesis using b by simp
  next
    case False
    with Cons.prems have m: "(j, q) \<in> set ds" by auto
    then have "fst d \<noteq> j" using Cons.prems(1) by (force simp: image_iff)
    then have "fetch (deduct1 d t) j = fetch t j"
      by (cases "fetch t j") (auto simp: deduct1_def fetch_updateT)
    with Cons.IH [of "deduct1 d t"] Cons.prems m show ?thesis by simp
  qed
qed simp

text \<open>Available stock of a SKU in a warehouse.\<close>

definition stock_at :: "db \<Rightarrow> int \<Rightarrow> string \<Rightarrow> int" where
  "stock_at s w k = sumT (\<lambda>b. if ib_warehouse b = w \<and> ib_sku b = k then ib_available b else 0) (batches s)"

lemma sum_deduct:
  assumes "wf_tbl t" and "covered ds t" and "\<And>q b. R (take_available q b) = R b"
  shows "sumT (\<lambda>b. if R b then ib_available b else 0) (deduct ds t) =
    sumT (\<lambda>b. if R b then ib_available b else 0) t -
    sum_list (map snd (filter (\<lambda>d. case fetch t (fst d) of None \<Rightarrow> False | Some b \<Rightarrow> R b) ds))"
  using assms(1,2)
proof (induction ds arbitrary: t)
  case (Cons d ds)
  let ?g = "\<lambda>b. if R b then ib_available b else 0"
  from Cons.prems obtain b where b: "fetch t (fst d) = Some b" "snd d \<le> ib_available b" by auto
  have "sumT ?g (deduct1 d t) = sumT ?g t - (if R b then snd d else 0)"
    unfolding deduct1_def by (simp add: sumT_update_key [OF Cons.prems(1)] b assms(3))
  moreover have "(case fetch (deduct1 d t) k of None \<Rightarrow> False | Some b \<Rightarrow> R b) =
      (case fetch t k of None \<Rightarrow> False | Some b \<Rightarrow> R b)" for k
    by (cases "fetch t k") (simp_all add: deduct1_def fetch_updateT assms(3))
  ultimately show ?case using Cons.IH [of "deduct1 d t"] Cons.prems by (simp add: b)
qed simp

text \<open>The loop finds the quantity: it takes whole batches in order, the last one possibly in part.\<close>

lemma deductions_sum: "deductions n bs = (ds, r) \<Longrightarrow> sum_list (map snd ds) + r = n"
proof (induction n bs arbitrary: ds r rule: deductions.induct)
  case (2 n i b bs)
  show ?case
  proof (cases "n = 0")
    case False
    define q where "q = min n (ib_available b)"
    obtain es r' where es: "deductions (n - q) bs = (es, r')" by (cases "deductions (n - q) bs")
    with 2(2) False have "ds = (i, q) # es" and "r = r'" by (simp_all add: q_def Let_def)
    moreover have "sum_list (map snd es) + r' = n - q"
      using 2(1) [OF False q_def] es by simp
    ultimately show ?thesis by simp
  qed (use 2 in auto)
qed simp

lemma deductions_keys: "deductions n bs = (ds, r) \<Longrightarrow> \<exists>cs. map fst bs = map fst ds @ cs"
  by (induction n bs arbitrary: ds r rule: deductions.induct)
    (fastforce simp: Let_def split: if_splits prod.splits)+

lemma deductions_order:
  assumes "deductions n bs = (ds, 0)" and "sorted (map f bs)" and "distinct (map fst bs)"
    and "(i, b) \<in> set bs" and "(j, c) \<in> set bs" and "f (i, b) < f (j, c)" and "(j, q) \<in> set ds"
  shows "(i, ib_available b) \<in> set ds"
  using assms
proof (induction bs arbitrary: n ds)
  case (Cons p bs)
  obtain k d where p: "p = (k, d)" by (cases p)
  from Cons.prems(1,7) have n: "n \<noteq> 0" by (auto simp: p)
  define q0 where "q0 = min n (ib_available d)"
  obtain es where es: "deductions (n - q0) bs = (es, 0)" and ds: "ds = (k, q0) # es"
    using Cons.prems(1) n by (auto simp: p q0_def Let_def split: prod.splits)
  have later: "(j, c) \<in> set bs"
  proof (rule ccontr)
    assume "(j, c) \<notin> set bs"
    with Cons.prems(5) have "p = (j, c)" by simp
    moreover have "(i, b) \<in> set bs" using Cons.prems(4,6) \<open>p = (j, c)\<close> by auto
    ultimately show False using Cons.prems(2,6) by auto
  qed
  then have "j \<noteq> k" using Cons.prems(3) by (force simp: p)
  with Cons.prems(7) ds have je: "(j, q) \<in> set es" by simp
  show ?case
  proof (cases "p = (i, b)")
    case True
    have "n - q0 \<noteq> 0" using je es by (cases bs) auto
    then have "q0 = ib_available b" using True p by (auto simp: q0_def min_def split: if_splits)
    with True p ds show ?thesis by simp
  next
    case False
    with Cons.prems(4) have "(i, b) \<in> set bs" by simp
    with Cons.IH [OF es _ _ _ later Cons.prems(6) je] Cons.prems(2,3) ds show ?thesis by simp
  qed
qed simp

lemma deductions_bound:
  "deductions n bs = (ds, r) \<Longrightarrow> 0 \<le> n \<Longrightarrow> \<forall>(i, b) \<in> set bs. 0 < ib_available b \<Longrightarrow>
    (i, q) \<in> set ds \<Longrightarrow> 0 < q \<and> (\<exists>b. (i, b) \<in> set bs \<and> q \<le> ib_available b)"
proof (induction bs arbitrary: n ds)
  case (Cons p bs)
  obtain k d where p: "p = (k, d)" by (cases p)
  show ?case
  proof (cases "n = 0")
    case False
    define q0 where "q0 = min n (ib_available d)"
    obtain es where es: "deductions (n - q0) bs = (es, r)" and ds: "ds = (k, q0) # es"
      using Cons.prems(1) False by (auto simp: p q0_def Let_def split: prod.splits)
    have "0 < q0" "q0 \<le> n" "q0 \<le> ib_available d"
      using Cons.prems(2,3) False by (auto simp: p q0_def)
    with Cons.IH [OF es] Cons.prems(3,4) ds show ?thesis by (auto simp: p)
  qed (use Cons.prems in \<open>simp add: p\<close>)
qed simp

text \<open>
  Picking a quantity, first expiring first, from the batches that satisfy a condition: what a
  transfer and a shipment take out of stock.
\<close>

definition picked :: "int \<Rightarrow> (int \<Rightarrow> batch \<Rightarrow> bool) \<Rightarrow> batch tbl \<Rightarrow> (int \<times> int) list \<Rightarrow> bool" where
  "picked n P t ds \<longleftrightarrow> deductions n (sort_key fefo (select t P)) = (ds, 0) \<and> covered ds t"

lemma fefo_list:
  assumes "wf_tbl t"
  shows "sorted (map fefo (sort_key fefo (select t P)))"
    and "distinct (map fst (sort_key fefo (select t P)))"
    and "(i, b) \<in> set (sort_key fefo (select t P)) \<longleftrightarrow> fetch t i = Some b \<and> P i b"
proof -
  have d: "distinct (map fst (rows t))" using assms by (simp add: wf_tbl_def)
  show "sorted (map fefo (sort_key fefo (select t P)))" by simp
  have "distinct (map fst (select t P))" using d unfolding select_def by (rule distinct_map_filter)
  then show "distinct (map fst (sort_key fefo (select t P)))" by (simp add: distinct_map)
  show "(i, b) \<in> set (sort_key fefo (select t P)) \<longleftrightarrow> fetch t i = Some b \<and> P i b"
    using assms by (auto simp: select_rows fetch_rows)
qed

lemma picked_facts:
  assumes "picked n P t ds" and "wf_tbl t" and "0 \<le> n" and "\<forall>i b. P i b \<longrightarrow> 0 < ib_available b"
  shows "distinct (map fst ds)" and "sum_list (map snd ds) = n"
    and "(j, q) \<in> set ds \<Longrightarrow> 0 < q \<and> (\<exists>b. fetch t j = Some b \<and> P j b \<and> q \<le> ib_available b)"
proof -
  have d: "deductions n (sort_key fefo (select t P)) = (ds, 0)" using assms(1) by (simp add: picked_def)
  obtain cs where "map fst (sort_key fefo (select t P)) = map fst ds @ cs" using deductions_keys [OF d] by blast
  with fefo_list(2) [OF assms(2)] show "distinct (map fst ds)" by (metis distinct_append)
  show "sum_list (map snd ds) = n" using deductions_sum [OF d] by simp
  have "\<forall>(j, b) \<in> set (sort_key fefo (select t P)). 0 < ib_available b"
    using assms(4) by (auto simp: select_rows)
  from deductions_bound [OF d assms(3) this]
  show "(j, q) \<in> set ds \<Longrightarrow> 0 < q \<and> (\<exists>b. fetch t j = Some b \<and> P j b \<and> q \<le> ib_available b)"
    by (auto simp: select_rows fetch_rows assms(2))
qed

lemma picked_effect:
  assumes "picked n P t ds" and "wf_tbl t" and "0 \<le> n" and "\<forall>i b. P i b \<longrightarrow> 0 < ib_available b"
    and b: "fetch t j = Some b"
  shows "\<exists>q\<ge>0. fetch (deduct ds t) j = Some (take_available q b) \<and> (0 < q \<longrightarrow> P j b \<and> q \<le> ib_available b)"
proof (cases "\<exists>q. (j, q) \<in> set ds")
  case True
  then obtain q where q: "(j, q) \<in> set ds" by blast
  have cov: "covered ds t" using assms(1) by (simp add: picked_def)
  have "0 < q" and "P j b" and "q \<le> ib_available b" using picked_facts(3) [OF assms(1-4) q] b by auto
  with deduct_fetch [OF picked_facts(1) [OF assms(1-4)] cov q] b show ?thesis by (intro exI [of _ q]) auto
next
  case False
  then have "fetch (deduct ds t) j = Some b" using b by (subst deduct_keeps) force+
  then show ?thesis by (intro exI [of _ 0]) simp
qed

lemma picked_order:
  assumes "picked n P t ds" and "wf_tbl t" and "0 \<le> n" and "\<forall>i b. P i b \<longrightarrow> 0 < ib_available b"
    and b: "fetch t j = Some b" "P j b" and k: "fetch t k = Some c" "P k c"
    and lt: "fefo (j, b) < fefo (k, c)" and changed: "fetch (deduct ds t) k \<noteq> Some c"
  shows "fetch (deduct ds t) j = Some (take_available (ib_available b) b)"
proof -
  have d: "deductions n (sort_key fefo (select t P)) = (ds, 0)" and cov: "covered ds t"
    using assms(1) by (simp_all add: picked_def)
  have "k \<in> fst ` set ds" using changed k(1) deduct_keeps [of ds k t] by auto
  then obtain q where "(k, q) \<in> set ds" by force
  with deductions_order [OF d fefo_list(1,2) [OF assms(2)] _ _ lt] b k
  have "(j, ib_available b) \<in> set ds" by (simp add: select_rows fetch_in_rows)
  from deduct_fetch [OF picked_facts(1) [OF assms(1-4)] cov this] b show ?thesis by simp
qed

lemma picked_sum:
  assumes "picked n P t ds" and "wf_tbl t" and "0 \<le> n" and "\<forall>i b. P i b \<longrightarrow> 0 < ib_available b"
    and R: "\<And>q b. R (take_available q b) = R b" and "\<And>i b. P i b \<Longrightarrow> R b = r"
  shows "sumT (\<lambda>b. if R b then ib_available b else 0) (deduct ds t) =
    sumT (\<lambda>b. if R b then ib_available b else 0) t - (if r then n else 0)"
proof -
  have "(case fetch t (fst d) of None \<Rightarrow> False | Some b \<Rightarrow> R b) = r" if "d \<in> set ds" for d
    using picked_facts(3) [OF assms(1-4), of "fst d" "snd d"] that assms(6) by auto
  then have "filter (\<lambda>d. case fetch t (fst d) of None \<Rightarrow> False | Some b \<Rightarrow> R b) ds = (if r then ds else [])"
    by (induction ds) auto
  with sum_deduct [OF assms(2), where ds = ds and R = R] R assms(1) picked_facts(2) [OF assms(1-4)] show ?thesis
    by (simp add: picked_def)
qed

section \<open>Shipping\<close>

definition ship_effect :: "int \<Rightarrow> transfer \<Rightarrow> string \<Rightarrow> (int \<times> int) list \<Rightarrow> db \<Rightarrow> db \<Rightarrow> bool" where
  "ship_effect i t now ds s s' \<longleftrightarrow>
     picked (it_quantity t) (\<lambda>_. shippable (it_from t) (it_sku t)) (batches s) ds \<and> batches s' = deduct ds (batches s) \<and> reservations s' = reservations s \<and>
     transfers s' = updateT (\<lambda>j r. j = i \<and> it_status r = ''approved'')
       (\<lambda>r. r\<lparr>it_status := ''shipped'', it_shipped_at := Some now\<rparr>) (transfers s)"

definition receive_effect :: "int \<Rightarrow> transfer \<Rightarrow> string \<Rightarrow> db \<Rightarrow> db \<Rightarrow> bool" where
  "receive_effect i t now s s' \<longleftrightarrow>
     (\<exists>b. batches s' = insertT b (batches s) \<and> ib_warehouse b = it_to t \<and> ib_sku b = it_sku t \<and>
       ib_available b = it_quantity t \<and> ib_locked b = 0 \<and> ib_defective b = 0 \<and> ib_pending b = 0 \<and>
       ib_quarantine b = 0) \<and> reservations s' = reservations s \<and>
     transfers s' = updateT (\<lambda>j r. j = i \<and> it_status r = ''shipped'')
       (\<lambda>r. r\<lparr>it_status := ''received'', it_received_at := Some now\<rparr>) (transfers s)"

lemma effect_cong [simp]:
  "ship_effect i t now ds (s\<lparr>versions := vs\<rparr>) s' = ship_effect i t now ds s s'"
  "ship_effect i t now ds s (s'\<lparr>versions := vs\<rparr>) = ship_effect i t now ds s s'"
  "ship_effect i t now ds s (audit_logs_update f s') = ship_effect i t now ds s s'"
  "ship_effect i t now ds s (outbox_messages_update g s') = ship_effect i t now ds s s'"
  "receive_effect i t now (s\<lparr>versions := vs\<rparr>) s' = receive_effect i t now s s'"
  "receive_effect i t now s (s'\<lparr>versions := vs\<rparr>) = receive_effect i t now s s'"
  "receive_effect i t now s (audit_logs_update f s') = receive_effect i t now s s'"
  "receive_effect i t now s (outbox_messages_update g s') = receive_effect i t now s s'"
  by (simp_all add: ship_effect_def receive_effect_def)

lemma wp_recordMovement [wp_intros]:
  "(\<And>f. Q () (movements_update f s)) \<Longrightarrow> wp (recordMovement c w k ty n d key) Q s"
  unfolding recordMovement_def by (intro wp_intros)

lemma wp_shipTransfer:
  assumes "wf_tbl (batches s)"
    and "\<And>ds s'. it_status t = ''approved'' \<Longrightarrow> ship_effect i t (sql_now (c_env c)) ds s s' \<Longrightarrow> Q () s'"
  shows "wp (shipTransfer c i t) Q s"
  unfolding shipTransfer_def
  by (intro wp_intros wp_applyDeductions assms(2))
    (use assms(1) in \<open>auto simp: ship_effect_def picked_def shippable_batches_def\<close>)

lemma wp_receiveTransfer:
  assumes "\<And>s'. it_status t = ''shipped'' \<Longrightarrow> receive_effect i t (sql_now (c_env c)) s s' \<Longrightarrow> Q () s'"
  shows "wp (receiveTransfer c i t) Q s"
  unfolding receiveTransfer_def
  by (intro wp_intros assms) (auto simp: receive_effect_def intro!: exI)

lemma wp_transitionTransfer:
  assumes "wf_tbl (batches s)"
    and "\<And>body i t ds v s'. raw = JObj body \<Longrightarrow> to_safe_integer (fld body ''id'') = Some i \<Longrightarrow>
      fld body ''action'' = Some (JStr ''ship'') \<Longrightarrow> fetch (transfers s) i = Some t \<Longrightarrow>
      it_status t = ''approved'' \<Longrightarrow> \<not> frozen s (it_from t) (Some (it_sku t)) \<Longrightarrow>
      ship_effect i t (sql_now (c_env c)) ds s s' \<Longrightarrow> Q v s'"
    and "\<And>body i t v s'. raw = JObj body \<Longrightarrow> to_safe_integer (fld body ''id'') = Some i \<Longrightarrow>
      fld body ''action'' = Some (JStr ''receive'') \<Longrightarrow> fetch (transfers s) i = Some t \<Longrightarrow>
      it_status t = ''shipped'' \<Longrightarrow> \<not> frozen s (it_to t) (Some (it_sku t)) \<Longrightarrow>
      receive_effect i t (sql_now (c_env c)) s s' \<Longrightarrow> Q v s'"
  shows "wp (transitionTransfer c raw) Q s"
  unfolding transitionTransfer_def
  by (intro wp_intros wp_shipTransfer wp_receiveTransfer)
    (simp_all add: assms(1), ((rule assms(2); (assumption | simp)+; fail) | (rule assms(3); (assumption | simp)+; fail))+)

section \<open>Properties of transfers\<close>

text \<open>
  C15. Shipping an approved transfer takes exactly its quantity out of the available stock of its SKU
  in its source warehouse and out of no other stock; it takes only from batches that are company
  owned, unexpired and not quarantined; it empties every batch that expires earlier before it touches
  a later one; and it marks the transfer shipped.
\<close>

theorem ship_exact:
  assumes "transitionTransfer c (JObj body) s = Inr (v, s')"
    and "fld body ''action'' = Some (JStr ''ship'')" and "to_safe_integer (fld body ''id'') = Some i"
    and "fetch (transfers s) i = Some t" and "0 \<le> it_quantity t"
    and "wf_tbl (batches s)"
  shows "it_status t = ''approved'' \<and> \<not> frozen s (it_from t) (Some (it_sku t)) \<and>
    (\<exists>t'. fetch (transfers s') i = Some t' \<and> it_status t' = ''shipped'' \<and> it_quantity t' = it_quantity t) \<and>
    (\<forall>w k. stock_at s' w k = stock_at s w k - (if w = it_from t \<and> k = it_sku t then it_quantity t else 0)) \<and>
    (\<forall>j b. fetch (batches s) j = Some b \<longrightarrow> (\<exists>q\<ge>0. fetch (batches s') j = Some (take_available q b) \<and>
      (0 < q \<longrightarrow> shippable (it_from t) (it_sku t) b \<and> q \<le> ib_available b))) \<and>
    (\<forall>j b k c. fetch (batches s) j = Some b \<and> shippable (it_from t) (it_sku t) b \<and>
      fetch (batches s) k = Some c \<and> shippable (it_from t) (it_sku t) c \<and> fefo (j, b) < fefo (k, c) \<and>
      fetch (batches s') k \<noteq> Some c \<longrightarrow> fetch (batches s') j = Some (take_available (ib_available b) b))"
proof -
  have "wp (transitionTransfer c (JObj body)) (\<lambda>v s'. \<exists>ds. it_status t = ''approved'' \<and>
      \<not> frozen s (it_from t) (Some (it_sku t)) \<and> ship_effect i t (sql_now (c_env c)) ds s s') s"
    by (rule wp_transitionTransfer [OF assms(6)]) (use assms(2-4) in auto)
  from wpD [OF this assms(1)] obtain ds where st: "it_status t = ''approved''"
    and fr: "\<not> frozen s (it_from t) (Some (it_sku t))" and e: "ship_effect i t (sql_now (c_env c)) ds s s'"
    by blast
  from e have p: "picked (it_quantity t) (\<lambda>_. shippable (it_from t) (it_sku t)) (batches s) ds"
    and bs: "batches s' = deduct ds (batches s)"
    and ts: "transfers s' = updateT (\<lambda>j r. j = i \<and> it_status r = ''approved'')
       (\<lambda>r. r\<lparr>it_status := ''shipped'', it_shipped_at := Some (sql_now (c_env c))\<rparr>) (transfers s)"
    by (auto simp: ship_effect_def)
  have pos: "\<forall>i b. shippable (it_from t) (it_sku t) b \<longrightarrow> 0 < ib_available b" by (simp add: shippable_def)
  note pick = p assms(6,5) pos
  have "\<exists>t'. fetch (transfers s') i = Some t' \<and> it_status t' = ''shipped'' \<and> it_quantity t' = it_quantity t"
    by (simp add: ts fetch_updateT assms(4) st)
  moreover have "stock_at s' w k = stock_at s w k - (if w = it_from t \<and> k = it_sku t then it_quantity t else 0)" for w k
    unfolding stock_at_def bs by (rule picked_sum [OF pick]) (auto simp: shippable_def)
  moreover have "\<forall>j b. fetch (batches s) j = Some b \<longrightarrow> (\<exists>q\<ge>0. fetch (batches s') j = Some (take_available q b) \<and>
      (0 < q \<longrightarrow> shippable (it_from t) (it_sku t) b \<and> q \<le> ib_available b))"
    using picked_effect [OF pick] by (simp add: bs)
  moreover have "\<forall>j b k c. fetch (batches s) j = Some b \<and> shippable (it_from t) (it_sku t) b \<and>
      fetch (batches s) k = Some c \<and> shippable (it_from t) (it_sku t) c \<and> fefo (j, b) < fefo (k, c) \<and>
      fetch (batches s') k \<noteq> Some c \<longrightarrow> fetch (batches s') j = Some (take_available (ib_available b) b)"
    unfolding bs using picked_order [OF pick] by blast
  ultimately show ?thesis using st fr by blast
qed

text \<open>
  C40. Receiving a shipped transfer adds exactly its quantity to the available stock of its SKU in
  the target warehouse and to no other stock, as one new batch that has nothing in its locked, defective, pending
  and quarantine buckets; every other batch and the reservations are unchanged, and the transfer becomes received,
  after which it can be neither shipped nor received again.
\<close>

theorem receive_exact:
  assumes "transitionTransfer c (JObj body) s = Inr (v, s')"
    and "fld body ''action'' = Some (JStr ''receive'')" and "to_safe_integer (fld body ''id'') = Some i"
    and "fetch (transfers s) i = Some t" and "wf_tbl (batches s)"
  shows "it_status t = ''shipped'' \<and> \<not> frozen s (it_to t) (Some (it_sku t)) \<and>
    (\<forall>w k. stock_at s' w k = stock_at s w k + (if w = it_to t \<and> k = it_sku t then it_quantity t else 0)) \<and>
    (\<exists>b. batches s' = insertT b (batches s) \<and> ib_warehouse b = it_to t \<and> ib_sku b = it_sku t \<and>
       ib_available b = it_quantity t \<and> ib_locked b = 0 \<and> ib_defective b = 0 \<and> ib_pending b = 0 \<and> ib_quarantine b = 0) \<and>
    reservations s' = reservations s \<and>
    (\<forall>j. fetch (batches s) j \<noteq> None \<longrightarrow> fetch (batches s') j = fetch (batches s) j) \<and>
    (\<exists>t'. fetch (transfers s') i = Some t' \<and> it_status t' = ''received'') \<and>
    (\<forall>c' body' v' s''. to_safe_integer (fld body' ''id'') = Some i \<longrightarrow>
      transitionTransfer c' (JObj body') s' \<noteq> Inr (v', s''))"
proof -
  have "wp (transitionTransfer c (JObj body)) (\<lambda>v s'. it_status t = ''shipped'' \<and>
      \<not> frozen s (it_to t) (Some (it_sku t)) \<and> receive_effect i t (sql_now (c_env c)) s s') s"
    by (rule wp_transitionTransfer [OF assms(5)]) (use assms(2-4) in auto)
  from wpD [OF this assms(1)] obtain b where st: "it_status t = ''shipped''"
    and fr: "\<not> frozen s (it_to t) (Some (it_sku t))" and bs: "batches s' = insertT b (batches s)"
    and b: "ib_warehouse b = it_to t" "ib_sku b = it_sku t" "ib_available b = it_quantity t" "ib_locked b = 0"
      "ib_defective b = 0" "ib_pending b = 0" "ib_quarantine b = 0" and rs: "reservations s' = reservations s"
    and ts: "transfers s' = updateT (\<lambda>j r. j = i \<and> it_status r = ''shipped'')
       (\<lambda>r. r\<lparr>it_status := ''received'', it_received_at := Some (sql_now (c_env c))\<rparr>) (transfers s)"
    by (auto simp: receive_effect_def)
  have "stock_at s' w k = stock_at s w k + (if w = it_to t \<and> k = it_sku t then it_quantity t else 0)" for w k
    by (simp add: stock_at_def bs b)
  moreover have "fetch (batches s') j = fetch (batches s) j" if "fetch (batches s) j \<noteq> None" for j
    using that fetch_pos [OF assms(5), of j] by (auto simp: bs fetch_insertT [OF assms(5)])
  moreover have "transitionTransfer c' (JObj body') s' \<noteq> Inr (v', s'')"
    if "to_safe_integer (fld body' ''id'') = Some i" for c' body' v' s''
  proof
    assume r: "transitionTransfer c' (JObj body') s' = Inr (v', s'')"
    obtain t' where t': "fetch (transfers s') i = Some t'" "it_status t' = ''received''"
      by (simp add: ts fetch_updateT assms(4) st)
    have "wp (transitionTransfer c' (JObj body')) (\<lambda>_ _. False) s'"
      by (rule wp_transitionTransfer) (use that t' assms(5) in \<open>auto simp: bs\<close>)
    from wpD [OF this r] show False .
  qed
  moreover have "\<exists>t'. fetch (transfers s') i = Some t' \<and> it_status t' = ''received''"
    by (simp add: ts fetch_updateT assms(4) st)
  moreover have "\<exists>b. batches s' = insertT b (batches s) \<and> ib_warehouse b = it_to t \<and> ib_sku b = it_sku t \<and>
      ib_available b = it_quantity t \<and> ib_locked b = 0 \<and> ib_defective b = 0 \<and> ib_pending b = 0 \<and> ib_quarantine b = 0"
    using bs b by blast
  ultimately show ?thesis using st fr rs by blast
qed

lemma deduct1_stock:
  assumes "stock_inv s" and "0 \<le> snd d"
  shows "stock_inv (batches_update (deduct1 d) s)"
  by (rule stock_inv_update [OF assms(1), where i = "fst d" and c = "\<lambda>r. snd d \<le> ib_available r"
        and f = "take_available (snd d)"])
    (use assms(2) stock_invD(3,4) [OF assms(1)] in \<open>auto simp: deduct1_def buckets_ok_def\<close>)

lemma deduct_stock:
  assumes "stock_inv s" and "\<forall>d \<in> set ds. 0 \<le> snd d"
  shows "stock_inv (batches_update (deduct ds) s)"
  using assms
proof (induction ds arbitrary: s)
  case Nil
  then show ?case by simp
next
  case (Cons d ds)
  have "deduct (d # ds) = deduct ds \<circ> deduct1 d" by (simp add: fun_eq_iff)
  moreover have "stock_inv (batches_update (deduct ds) (batches_update (deduct1 d) s))"
    using Cons.prems by (intro Cons.IH deduct1_stock) auto
  ultimately show ?case by (simp add: comp_def)
qed

definition transfers_ok :: "db \<Rightarrow> bool" where
  "transfers_ok s \<longleftrightarrow> (\<forall>i t. fetch (transfers s) i = Some t \<longrightarrow> 0 < it_quantity t)"

lemma ship_keeps_stock:
  assumes "ship_effect i t now ds s s'" and "stock_inv s" and "0 < it_quantity t"
  shows "stock_inv s'"
proof -
  have "\<forall>d \<in> set ds. 0 \<le> snd d"
    using picked_facts(3) [OF _ stock_invD(1) [OF assms(2)]] assms(1,3) by (fastforce simp: ship_effect_def shippable_def)
  from deduct_stock [OF assms(2) this] show ?thesis
    using assms(1) by (auto simp: ship_effect_def intro: stock_inv_cong [THEN iffD1, rotated -1])
qed

lemma receive_keeps_stock:
  assumes "receive_effect i t now s s'" and "stock_inv s" and "0 < it_quantity t"
  shows "stock_inv s'"
proof -
  from assms(1) obtain b where "batches s' = insertT b (batches s)" and "reservations s' = reservations s"
    and "buckets_ok b" using assms(3) by (auto simp: receive_effect_def buckets_ok_def)
  with stock_inv_insert [OF assms(2)] show ?thesis by blast
qed

text \<open>The three commands of the module keep the stock invariant and positive transfer quantities.\<close>

lemma requestTransfer_wp:
  assumes "stock_inv s" and "transfers_ok s" and "wf_tbl (transfers s)"
  shows "wp (requestTransfer c raw) (\<lambda>_ s'. stock_inv s' \<and> transfers_ok s') s"
  unfolding requestTransfer_def requestTransferBody_def Let_def
  by (intro wp_intros) (use assms in \<open>simp_all add: transfers_ok_def fetch_insertT\<close>)

lemma transitionTransfer_wp:
  assumes "stock_inv s" and "transfers_ok s"
  shows "wp (transitionTransfer c raw) (\<lambda>_ s'. stock_inv s' \<and> transfers_ok s') s"
proof (rule wp_transitionTransfer)
  show "wf_tbl (batches s)" using assms(1) by (rule stock_invD)
next
  fix i t ds s'
  assume t: "fetch (transfers s) i = Some t" and e: "ship_effect i t (sql_now (c_env c)) ds s s'"
  have "0 < it_quantity t" using assms(2) t by (auto simp: transfers_ok_def)
  moreover have "transfers_ok s'" using assms(2) e by (auto simp: transfers_ok_def ship_effect_def fetch_updateT)
  ultimately show "stock_inv s' \<and> transfers_ok s'" using ship_keeps_stock [OF e assms(1)] by simp
next
  fix i t s'
  assume t: "fetch (transfers s) i = Some t" and e: "receive_effect i t (sql_now (c_env c)) s s'"
  have "0 < it_quantity t" using assms(2) t by (auto simp: transfers_ok_def)
  moreover have "transfers_ok s'" using assms(2) e by (auto simp: transfers_ok_def receive_effect_def fetch_updateT)
  ultimately show "stock_inv s' \<and> transfers_ok s'" using receive_keeps_stock [OF e assms(1)] by simp
qed

lemma reserveInventory_wp:
  assumes "stock_inv s" and "transfers_ok s"
  shows "wp (reserveInventory c raw) (\<lambda>_ s'. stock_inv s') s"
  by (rule wp_reserveInventory) (use assms stock_invD(1) reserve_keeps_stock in blast)+

section \<open>The properties at concrete commands\<close>

definition sample_batch :: batch where
  "sample_batch = \<lparr>ib_batch_no = ''B-1'', ib_warehouse = 1, ib_sku = ''SKU'', ib_production_date = None,
     ib_inbound_date = ''2025-01-01'', ib_expiry_date = None, ib_available = 5, ib_locked = 0,
     ib_defective = 0, ib_pending = 0, ib_quarantine = 0, ib_ownership = ''company'',
     ib_expiry_status = ''normal''\<rparr>"

definition sample_warehouse :: "string \<Rightarrow> warehouse" where
  "sample_warehouse code = \<lparr>w_code = code, w_name = ''W'', w_type = ''company'', w_factory = None,
     w_address = [], w_status = ''active''\<rparr>"

definition sample_transfer :: "string \<Rightarrow> transfer" where
  "sample_transfer status = \<lparr>it_no = ''TR-1'', it_from = 1, it_to = 2, it_sku = ''SKU'', it_quantity = 4,
     it_reason = ''move'', it_status = status, it_requested_by = 1, it_approved_by = Some 2,
     it_approved_at = None, it_shipped_at = None, it_received_at = None\<rparr>"

definition stock_db :: "string \<Rightarrow> db" where
  "stock_db status = empty_db\<lparr>
     warehouses := insertT (sample_warehouse ''W-2'') (insertT (sample_warehouse ''W-1'') emptyT),
     batches := insertT sample_batch emptyT, transfers := insertT (sample_transfer status) emptyT\<rparr>"

lemma stock_db_simps [simp]:
  "wf_tbl (batches (stock_db st))" "wf_tbl (reservations (stock_db st))"
  "fetch (transfers (stock_db st)) 1 = Some (sample_transfer st)"
  "it_quantity (sample_transfer st) = 4"
  by (simp_all add: stock_db_def empty_db_def sample_transfer_def fetch_insertT)

lemma reserve_exact_witness:
  "\<exists>v s' i b. reserveInventory sample_ctx (JObj [(''batchId'', jint 1), (''entityType'', JStr ''historical''),
      (''requestedQuantity'', jint 7)]) (stock_db ''approved'') = Inr (v, s') \<and>
    fetch (batches (stock_db ''approved'')) i = Some b \<and> fetch (batches s') i \<noteq> None"
proof -
  let ?r = "reserveInventory sample_ctx (JObj [(''batchId'', jint 1), (''entityType'', JStr ''historical''),
      (''requestedQuantity'', jint 7)]) (stock_db ''approved'')"
  have "succeeds ?r" by code_simp
  then obtain v s' where r: "?r = Inr (v, s')" by (rule succeedsE)
  from reserve_exact [OF r] r show ?thesis by auto
qed

lemma ship_exact_witness:
  "\<exists>v s'. transitionTransfer sample_ctx (JObj [(''id'', jint 1), (''action'', JStr ''ship'')])
      (stock_db ''approved'') = Inr (v, s') \<and>
    stock_at s' 1 ''SKU'' = stock_at (stock_db ''approved'') 1 ''SKU'' - 4"
proof -
  let ?b = "[(''id'', jint 1), (''action'', JStr ''ship'')]"
  have "succeeds (transitionTransfer sample_ctx (JObj ?b) (stock_db ''approved''))" by code_simp
  then obtain v s' where r: "transitionTransfer sample_ctx (JObj ?b) (stock_db ''approved'') = Inr (v, s')"
    by (rule succeedsE)
  have "fld ?b ''action'' = Some (JStr ''ship'')" and "to_safe_integer (fld ?b ''id'') = Some 1"
    by (simp_all add: fld_def to_safe_integer_jint)
  from ship_exact [OF r this, of "sample_transfer ''approved''"] r show ?thesis
    by (auto simp: sample_transfer_def)
qed

lemma receive_exact_witness:
  "\<exists>v s'. transitionTransfer sample_ctx (JObj [(''id'', jint 1), (''action'', JStr ''receive'')])
      (stock_db ''shipped'') = Inr (v, s') \<and>
    stock_at s' 2 ''SKU'' = stock_at (stock_db ''shipped'') 2 ''SKU'' + 4"
proof -
  let ?b = "[(''id'', jint 1), (''action'', JStr ''receive'')]"
  have "succeeds (transitionTransfer sample_ctx (JObj ?b) (stock_db ''shipped''))" by code_simp
  then obtain v s' where r: "transitionTransfer sample_ctx (JObj ?b) (stock_db ''shipped'') = Inr (v, s')"
    by (rule succeedsE)
  have "fld ?b ''action'' = Some (JStr ''receive'')" and "to_safe_integer (fld ?b ''id'') = Some 1"
    by (simp_all add: fld_def to_safe_integer_jint)
  from receive_exact [OF r this, of "sample_transfer ''shipped''"] r show ?thesis
    by (auto simp: sample_transfer_def)
qed

end
