(* ===== verification/Stocktakes.thy ===== *)
theory Stocktakes
  imports Inventory
begin

text \<open>
  \<open>modules/stocktakes/writes.ts\<close>: a stocktake takes a snapshot of the batches in its scope (round 0),
  freezes them, and is counted in one or two rounds. A first round without variance completes it, one
  with variances asks for a recount by somebody else, and variances of the recount become adjustments
  that wait for an approval.
\<close>

section \<open>Opening\<close>

definition open_states :: "string list" where
  "open_states = [''first_count'', ''recount'', ''pending_approval'']"

definition activeStocktake :: "db \<Rightarrow> int \<Rightarrow> bool" where
  "activeStocktake s warehouseId =
     list_ex (\<lambda>(_, st). st_warehouse st = warehouseId \<and> st_status st \<in> set open_states) (rows (stocktakes s))"

text \<open>The sample of the request as the filter of the batch query: \<open>sku IN (...)\<close> or \<open>id IN (...)\<close>.\<close>

definition scopeFilter :: "string \<Rightarrow> (string \<times> json) list \<Rightarrow> (int \<Rightarrow> batch \<Rightarrow> bool) run" where
  "scopeFilter scope body =
     (if scope = ''sku_sample'' then
        bindC (case fld body ''skus'' of
            Some (JArr vs) \<Rightarrow> mapC (\<lambda>v. stringC (Some v) ''sku'' 191) vs | _ \<Rightarrow> returnC []) (\<lambda>skus.
        bindC (guardC (skus \<noteq> []) (bad_request ''SKU sample is empty'')) (\<lambda>_.
        returnC (\<lambda>_ b. ib_sku b \<in> set skus)))
      else if scope = ''batch'' then
        bindC (case fld body ''batchIds'' of
            Some (JArr vs) \<Rightarrow> mapC (\<lambda>v. integer (Some v) ''batchId'' 1) vs | _ \<Rightarrow> returnC []) (\<lambda>batchIds.
        bindC (guardC (batchIds \<noteq> []) (bad_request ''Batch sample is empty'')) (\<lambda>_.
        returnC (\<lambda>i _. i \<in> set batchIds)))
      else returnC (\<lambda>_ _. True))"

definition counted_total :: "batch \<Rightarrow> int" where
  "counted_total b = ib_available b + ib_locked b + ib_defective b + ib_pending b"

definition snapshotRow :: "cctx \<Rightarrow> int \<Rightarrow> int \<times> batch \<Rightarrow> unit run" where
  "snapshotRow c stocktakeId ib = (case ib of (i, b) \<Rightarrow>
     bindC (insertC counts counts_update ok_count
       \<lparr>sc_stocktake = stocktakeId, sc_batch = Some i, sc_sku = ib_sku b, sc_round = 0,
        sc_available = ib_available b, sc_locked = ib_locked b, sc_defective = ib_defective b,
        sc_pending = ib_pending b, sc_total = counted_total b,
        sc_counted_by = a_user (c_access c)\<rparr>) (\<lambda>_. returnC ()))"

definition openStocktake :: "cctx \<Rightarrow> json \<Rightarrow> json run" where
  "openStocktake c raw =
     bindC (requireRole (c_access c) [''admin'', ''supply_chain'']) (\<lambda>_.
     bindC (jsonObject raw) (\<lambda>body.
     bindC (integer (fld body ''warehouseId'') ''warehouseId'' 1) (\<lambda>warehouseId.
     bindC (oneOf (fld body ''scope'') [''full_warehouse'', ''sku_sample'', ''batch''] ''scope'') (\<lambda>scope.
     bindC (stringC (fld body ''dueDate'') ''dueDate'' 100) (\<lambda>dueDate.
     bindC (optionalInteger (fld body ''assignedFactoryId'') ''assignedFactoryId'') (\<lambda>assignedFactoryId.
     bindC (requireWarehouseScope (c_access c) warehouseId) (\<lambda>w.
     bindC (lockWarehouseFreeze warehouseId) (\<lambda>_.
     bindC (queryC (\<lambda>s. activeStocktake s warehouseId)) (\<lambda>active.
     bindC (guardC (\<not> active) (conflict ''Warehouse already has an active stocktake'')) (\<lambda>_.
     bindC (scopeFilter scope body) (\<lambda>p.
     bindC (queryC (\<lambda>s. select (batches s) (\<lambda>i b. ib_warehouse b = warehouseId \<and> p i b))) (\<lambda>targets.
     bindC (guardC (targets \<noteq> []) (conflict ''Stocktake has no inventory targets'')) (\<lambda>_.
     bindC (randomUUID (c_env c)) (\<lambda>u. let stocktakeNo = ''ST-'' @ u in
     bindC (insertC stocktakes stocktakes_update ok_stocktake
       \<lparr>st_no = stocktakeNo, st_warehouse = warehouseId, st_scope = scope, st_due_date = dueDate,
        st_status = ''first_count'', st_frozen_at = Some (sql_now (c_env c)),
        st_created_by = a_user (c_access c), st_factory = assignedFactoryId\<rparr>) (\<lambda>stocktakeId.
     bindC (eachC (snapshotRow c stocktakeId) targets) (\<lambda>_.
     bindC (lockVersion ''stocktake'' (show_int stocktakeId)) (\<lambda>_.
     bindC (audit c ''open'' ''stocktake'' ''stocktake'' (show_int stocktakeId) (Some stocktakeNo) None
       (Some (JObj [(''warehouseId'', jint warehouseId), (''scope'', JStr scope), (''dueDate'', JStr dueDate),
         (''assignedFactoryId'', jnull jint assignedFactoryId), (''targetCount'', jint (int (length targets)))]))) (\<lambda>_.
     bindC (domainEvent c ''StocktakeOpened'' ''stocktake'' (show_int stocktakeId) None RNone
       [(''warehouseCode'', JStr (w_code w)), (''dueDate'', JStr dueDate),
        (''targetCount'', jint (int (length targets)))]) (\<lambda>_.
     returnC (JObj [(''stocktake'', JObj [(''id'', jint stocktakeId), (''stocktakeNo'', JStr stocktakeNo),
       (''warehouseId'', jint warehouseId), (''scope'', JStr scope), (''dueDate'', JStr dueDate),
       (''status'', JStr ''first_count''), (''version'', jint 1)])]))))))))))))))))))))"

section \<open>Counting\<close>

definition is_count :: "int \<Rightarrow> int \<Rightarrow> string \<Rightarrow> int option \<Rightarrow> count_row \<Rightarrow> bool" where
  "is_count stocktakeId r sku batchId x \<longleftrightarrow> sc_stocktake x = stocktakeId \<and> sc_round x = r \<and>
     sc_sku x = sku \<and> sc_batch x = batchId"

definition find_count :: "db \<Rightarrow> int \<Rightarrow> int \<Rightarrow> string \<Rightarrow> int option \<Rightarrow> (int \<times> count_row) list" where
  "find_count s stocktakeId r sku batchId = select (counts s) (\<lambda>_. is_count stocktakeId r sku batchId)"

definition count_round :: "string \<Rightarrow> int" where
  "count_round status = (if status = ''recount'' then 2 else 1)"

text \<open>A second submission of the recount is possible only when every adjustment of the first was rejected.\<close>

definition all_rejected :: "db \<Rightarrow> int \<Rightarrow> bool" where
  "all_rejected s countId = (let adj = select (adjustments s) (\<lambda>_ a. sa_count a = countId) in
     adj \<noteq> [] \<and> list_all (\<lambda>(_, a). sa_decision a = ''rejected'') adj)"

definition storeCount :: "cctx \<Rightarrow> int \<Rightarrow> int \<Rightarrow> string \<Rightarrow> int option \<Rightarrow> int \<Rightarrow> int \<Rightarrow> int \<Rightarrow> int \<Rightarrow> unit run" where
  "storeCount c i r sku batchId available locked defective pending =
     bindC (queryC (\<lambda>s. find_count s i r sku batchId)) (\<lambda>existing. (case existing of
       (countId, _) # _ \<Rightarrow>
         bindC (queryC (\<lambda>s. all_rejected s countId)) (\<lambda>rejected.
         bindC (guardC (r = 2 \<and> rejected) (conflict ''This stocktake round was already submitted'')) (\<lambda>_.
         bindC (updateC counts counts_update ok_count (\<lambda>j _. j = countId \<and> True)
           (\<lambda>x. x\<lparr>sc_available := available, sc_locked := locked, sc_defective := defective,
             sc_pending := pending, sc_total := available + locked + defective + pending,
             sc_counted_by := a_user (c_access c)\<rparr>)) (\<lambda>revised.
         guardC (revised = 1) (version_conflict ''Stocktake count changed concurrently''))))
     | [] \<Rightarrow> catchC (bindC (insertC counts counts_update ok_count
           \<lparr>sc_stocktake = i, sc_batch = batchId, sc_sku = sku, sc_round = r, sc_available = available,
            sc_locked = locked, sc_defective = defective, sc_pending = pending,
            sc_total = available + locked + defective + pending, sc_counted_by = a_user (c_access c)\<rparr>)
           (\<lambda>_. returnC ()))
         (\<lambda>_. throwC (conflict ''This stocktake round was already submitted''))))"

definition submitCount :: "cctx \<Rightarrow> int \<Rightarrow> stocktake \<Rightarrow> int \<Rightarrow> (string \<times> json) list \<Rightarrow> json run" where
  "submitCount c i task version body =
     bindC (guardC (st_status task \<in> set [''first_count'', ''recount'']) (conflict ''Stocktake is not countable'')) (\<lambda>_.
     let r = count_round (st_status task) in
     bindC (optionalInteger (fld body ''batchId'') ''batchId'') (\<lambda>batchId.
     bindC (stringC (fld body ''sku'') ''sku'' 191) (\<lambda>sku.
     bindC (integer (fld body ''availableQuantity'') ''availableQuantity'' 0) (\<lambda>available.
     bindC (integer (fld body ''lockedQuantity'') ''lockedQuantity'' 0) (\<lambda>locked.
     bindC (integer (fld body ''defectiveQuantity'') ''defectiveQuantity'' 0) (\<lambda>defective.
     bindC (integer (fld body ''pendingInspectionQuantity'') ''pendingInspectionQuantity'' 0) (\<lambda>pending.
     bindC (queryC (\<lambda>s. find_count s i 0 sku batchId)) (\<lambda>snapshot.
     bindC (guardC (snapshot \<noteq> []) (forbidden ''Count target is outside stocktake scope'')) (\<lambda>_.
     bindC (storeCount c i r sku batchId available locked defective pending) (\<lambda>_.
     bindC (bumpVersion ''stocktake'' (show_int i) version) (\<lambda>nextVersion.
     bindC (audit c ''submit_count'' ''stocktake'' ''stocktake'' (show_int i) None None
       (Some (JObj [(''round'', jint r), (''batchId'', jnull jint batchId), (''sku'', JStr sku),
         (''available'', jint available), (''locked'', jint locked), (''defective'', jint defective),
         (''pending'', jint pending), (''version'', jint nextVersion)]))) (\<lambda>_.
     bindC (domainEvent c ''CountSubmitted'' ''stocktake'' (show_int i)
       (Some (show_int r @ '':'' @ (case batchId of None \<Rightarrow> sku | Some b \<Rightarrow> show_int b))) RNone
       [(''round'', jint r), (''batchId'', jnull jint batchId), (''sku'', JStr sku)]) (\<lambda>_.
     returnC (JObj [(''success'', JBool True), (''status'', JStr (st_status task)),
       (''version'', jint nextVersion)]))))))))))))))"

section \<open>Finishing a round\<close>

text \<open>
  A line of the comparison: the snapshot row, the row counted in this round with its key, and who
  counted the first round.
\<close>

record count_line =
  cl_snap :: count_row
  cl_count :: "(int \<times> count_row) option"
  cl_first :: "int option"

definition joined :: "'a list \<Rightarrow> 'a option list" where
  "joined xs = (if xs = [] then [None] else map Some xs)"

definition count_lines :: "db \<Rightarrow> int \<Rightarrow> int \<Rightarrow> count_line list" where
  "count_lines s i r = concat (map (\<lambda>(_, snap).
     concat (map (\<lambda>x. map (\<lambda>y. \<lparr>cl_snap = snap, cl_count = x, cl_first = map_option (\<lambda>(_, f). sc_counted_by f) y\<rparr>)
         (joined (find_count s i 1 (sc_sku snap) (sc_batch snap))))
       (joined (find_count s i r (sc_sku snap) (sc_batch snap)))))
     (select (counts s) (\<lambda>_ x. sc_stocktake x = i \<and> sc_round x = 0)))"

definition same_counter :: "count_line \<Rightarrow> bool" where
  "same_counter l \<longleftrightarrow> (case cl_count l of None \<Rightarrow> False
     | Some (_, x) \<Rightarrow> sc_counted_by x = (case cl_first l of None \<Rightarrow> 0 | Some u \<Rightarrow> u))"

record variance =
  va_batch :: "int option"
  va_count :: int
  va_bucket :: string
  va_snapshot :: int
  va_counted :: int

definition line_buckets :: "count_row \<Rightarrow> int \<Rightarrow> count_row \<Rightarrow> variance list" where
  "line_buckets snap countId x = map (\<lambda>(bucket, get). \<lparr>va_batch = sc_batch snap, va_count = countId,
       va_bucket = bucket, va_snapshot = get snap, va_counted = get x\<rparr>)
     [(''available'', sc_available), (''locked'', sc_locked), (''defective'', sc_defective),
      (''pending_inspection'', sc_pending)]"

definition variances :: "count_line list \<Rightarrow> variance list" where
  "variances ls = filter (\<lambda>v. va_snapshot v \<noteq> va_counted v) (concat (map (\<lambda>l. case cl_count l of
     None \<Rightarrow> [] | Some (i, x) \<Rightarrow> line_buckets (cl_snap l) i x) ls))"

definition proposeAdjustment :: "int \<Rightarrow> string \<Rightarrow> (string \<times> json) list \<Rightarrow> variance \<Rightarrow> unit run" where
  "proposeAdjustment i stocktakeNo body v =
     bindC (queryC (\<lambda>s. select (adjustments s) (\<lambda>_ a. sa_stocktake a = i \<and> sa_count a = va_count v \<and>
       sa_bucket a = va_bucket v))) (\<lambda>prior. (case prior of
       (k, a) # _ \<Rightarrow>
         bindC (guardC (sa_decision a = ''rejected'') (conflict ''Stocktake adjustment is already active'')) (\<lambda>_.
         bindC (updateC adjustments adjustments_update ok_adjustment
           (\<lambda>j x. j = k \<and> sa_decision x = ''rejected'')
           (\<lambda>x. x\<lparr>sa_variance := va_counted v - va_snapshot v, sa_snapshot := va_snapshot v,
             sa_counted := va_counted v, sa_revision := sa_revision x + 1, sa_decision := ''pending'',
             sa_reviewed_by := None\<rparr>)) (\<lambda>revised.
         guardC (revised = 1) (version_conflict ''Rejected adjustment changed concurrently'')))
     | [] \<Rightarrow>
         bindC (if va_batch v = None then optionalString (fld body ''estimatedProductionDate'') 100
           else returnC []) (\<lambda>produced.
         bindC (if va_batch v = None then optionalString (fld body ''estimatedExpiryDate'') 100
           else returnC []) (\<lambda>expires.
         bindC (insertC adjustments adjustments_update ok_adjustment
           \<lparr>sa_stocktake = i, sa_count = va_count v, sa_bucket = va_bucket v, sa_snapshot = va_snapshot v,
            sa_counted = va_counted v, sa_variance = va_counted v - va_snapshot v, sa_revision = 1,
            sa_batch_no = (if va_batch v = None
              then Some (''STG-'' @ stocktakeNo @ ''-'' @ show_int (va_count v)) else None),
            sa_production_date = (if produced = [] then None else Some produced),
            sa_expiry_date = (if expires = [] then None else Some expires),
            sa_decision = ''pending'', sa_reviewed_by = None\<rparr>) (\<lambda>_. returnC ())))))"

definition setStocktakeStatus :: "int \<Rightarrow> string \<Rightarrow> string \<Rightarrow> unit run" where
  "setStocktakeStatus i old new =
     bindC (updateC stocktakes stocktakes_update ok_any (\<lambda>j t. j = i \<and> st_status t = old)
       (\<lambda>t. t\<lparr>st_status := new\<rparr>)) (\<lambda>_. returnC ())"

definition roundResult :: "cctx \<Rightarrow> string \<Rightarrow> int \<Rightarrow> int \<Rightarrow> string \<Rightarrow> (string \<times> json) list \<Rightarrow> int run" where
  "roundResult c action i version status extra =
     bindC (bumpVersion ''stocktake'' (show_int i) version) (\<lambda>nextVersion.
     bindC (audit c action ''stocktake'' ''stocktake'' (show_int i) None None
       (Some (JObj ((''status'', JStr status) # extra @ [(''version'', jint nextVersion)])))) (\<lambda>_.
     returnC nextVersion))"

definition requestVarianceApproval :: "cctx \<Rightarrow> int \<Rightarrow> stocktake \<Rightarrow> (string \<times> json) list \<Rightarrow> variance list \<Rightarrow> int run" where
  "requestVarianceApproval c i task body vs =
     bindC (eachC (proposeAdjustment i (st_no task) body) vs) (\<lambda>_.
     bindC (randomUUID (c_env c)) (\<lambda>u.
     insertC approvals approvals_update ok_approval
       \<lparr>ap_request_no = ''APR-'' @ st_no task @ ''-'' @ u, ap_workflow = ''stocktake_variance'',
        ap_entity_type = ''stocktake'', ap_entity_id = i, ap_summary = ''Stocktake variance '' @ st_no task,
        ap_payload = JObj [(''stocktakeId'', jint i)], ap_high_risk = False, ap_status = ''pending'',
        ap_requested_by = a_user (c_access c), ap_reviewed_by = None, ap_review_comment = None,
        ap_sms_verified = False, ap_updated_at = sql_ms (c_env c)\<rparr>))"

definition finishRound :: "cctx \<Rightarrow> int \<Rightarrow> stocktake \<Rightarrow> int \<Rightarrow> (string \<times> json) list \<Rightarrow> json run" where
  "finishRound c i task version body =
     bindC (requireRole (c_access c) [''admin'', ''supply_chain'']) (\<lambda>_.
     bindC (guardC (st_status task \<in> set [''first_count'', ''recount'']) (conflict ''Stocktake cannot be finished'')) (\<lambda>_.
     let r = count_round (st_status task) in
     bindC (queryC (\<lambda>s. count_lines s i r)) (\<lambda>lines.
     bindC (guardC (list_all (\<lambda>l. cl_count l \<noteq> None) lines) (conflict ''All stocktake targets must be counted'')) (\<lambda>_.
     bindC (guardC (\<not> (r = 2 \<and> list_ex same_counter lines)) (conflict ''Recount requires separation of duties'')) (\<lambda>_.
     let vs = variances lines; key = show_int i; n = (''varianceLines'', jint (int (length vs))) in
     if r = 1 \<and> vs \<noteq> [] then
       bindC (setStocktakeStatus i ''first_count'' ''recount'') (\<lambda>_.
       bindC (roundResult c ''finish_round'' i version ''recount'' [n]) (\<lambda>nextVersion.
       bindC (domainEvent c ''StocktakeRecountRequired'' ''stocktake'' key None RNone []) (\<lambda>_.
       returnC (JObj [(''success'', JBool True), (''status'', JStr ''recount''), (''version'', jint nextVersion)]))))
     else if vs = [] then
       bindC (setStocktakeStatus i (st_status task) ''completed'') (\<lambda>_.
       bindC (roundResult c ''complete'' i version ''completed'' [n]) (\<lambda>nextVersion.
       bindC (domainEvent c ''StocktakeCompleted'' ''stocktake'' key None RNone []) (\<lambda>_.
       returnC (JObj [(''success'', JBool True), (''status'', JStr ''completed''), (''version'', jint nextVersion)]))))
     else
       bindC (requestVarianceApproval c i task body vs) (\<lambda>approvalId.
       bindC (setStocktakeStatus i ''recount'' ''pending_approval'') (\<lambda>_.
       bindC (roundResult c ''submit_approval'' i version ''pending_approval'' [n, (''approvalId'', jint approvalId)]) (\<lambda>nextVersion.
       bindC (domainEvent c ''VarianceApprovalRequested'' ''stocktake'' key None (RRole ''supply_chain'')
         [(''approvalId'', jint approvalId), n]) (\<lambda>_.
       returnC (JObj [(''success'', JBool True), (''status'', JStr ''pending_approval''),
         (''approvalId'', jint approvalId), (''version'', jint nextVersion)]))))))))))"

definition transitionStocktake :: "cctx \<Rightarrow> json \<Rightarrow> json run" where
  "transitionStocktake c raw =
     bindC (requireRole (c_access c) [''admin'', ''supply_chain'', ''factory'']) (\<lambda>_.
     bindC (jsonObject raw) (\<lambda>body.
     bindC (integer (fld body ''id'') ''id'' 1) (\<lambda>i.
     bindC (oneOf (fld body ''action'') [''submit_count'', ''finish_round''] ''action'') (\<lambda>action.
     bindC (queryC (\<lambda>s. fetch (stocktakes s) i)) (\<lambda>found.
     bindC (requireC found (not_found ''Stocktake not found'')) (\<lambda>task.
     bindC (lockWarehouseFreeze (st_warehouse task)) (\<lambda>_.
     bindC (requireWarehouseScope (c_access c) (st_warehouse task)) (\<lambda>_.
     bindC (guardC (internal (c_access c) \<or> st_factory task = a_factory (c_access c))
       (forbidden ''Forbidden stocktake binding'')) (\<lambda>_.
     bindC (lockVersion ''stocktake'' (show_int i)) (\<lambda>version.
     if action = ''submit_count'' then submitCount c i task version body
     else finishRound c i task version body))))))))))"

section \<open>Properties\<close>

text \<open>An adjustment for a variance waits for its decision.\<close>

definition proposal_row :: "int \<Rightarrow> variance \<Rightarrow> adjustment \<Rightarrow> bool" where
  "proposal_row i v a \<longleftrightarrow> sa_stocktake a = i \<and> sa_count a = va_count v \<and> sa_bucket a = va_bucket v \<and>
     sa_snapshot a = va_snapshot v \<and> sa_counted a = va_counted v \<and> sa_variance a = va_counted v - va_snapshot v \<and>
     sa_decision a = ''pending''"

definition proposed :: "int \<Rightarrow> variance \<Rightarrow> db \<Rightarrow> bool" where
  "proposed i v s \<longleftrightarrow> (\<exists>(_, a) \<in> set (rows (adjustments s)). proposal_row i v a)"

text \<open>
  The table of adjustments after a proposal for the variances \<open>vs\<close>: every row is an old one or proposes one of the
  variances, and only a rejected row of one of them is rewritten.
\<close>

definition only_proposed :: "int \<Rightarrow> variance list \<Rightarrow> db \<Rightarrow> db \<Rightarrow> bool" where
  "only_proposed i vs s s' \<longleftrightarrow>
     (\<forall>(j, a) \<in> set (rows (adjustments s')). (j, a) \<in> set (rows (adjustments s)) \<or> (\<exists>v \<in> set vs. proposal_row i v a)) \<and>
     (\<forall>(j, a) \<in> set (rows (adjustments s)). (j, a) \<in> set (rows (adjustments s')) \<or>
        sa_decision a = ''rejected'' \<and> sa_stocktake a = i \<and>
        (\<exists>v \<in> set vs. sa_count a = va_count v \<and> sa_bucket a = va_bucket v))"

definition review_key :: "int \<Rightarrow> string" where
  "review_key i = event_key ''VarianceApprovalRequested'' ''stocktake'' (show_int i) None"

definition round_status :: "string \<Rightarrow> variance list \<Rightarrow> string" where
  "round_status status vs = (if vs = [] then ''completed''
     else if status = ''first_count'' then ''recount'' else ''pending_approval'')"

definition finish_effect :: "int \<Rightarrow> stocktake \<Rightarrow> variance list \<Rightarrow> db \<Rightarrow> db \<Rightarrow> bool" where
  "finish_effect i task vs s s' \<longleftrightarrow>
     fetch (stocktakes s') i = Some (task\<lparr>st_status := round_status (st_status task) vs\<rparr>) \<and>
     batches s' = batches s \<and> reservations s' = reservations s \<and> counts s' = counts s \<and>
     (if round_status (st_status task) vs = ''pending_approval''
      then (\<forall>v \<in> set vs. proposed i v s') \<and> (wf_tbl (adjustments s) \<longrightarrow> only_proposed i vs s s') \<and>
        (\<exists>ap. approvals s' = insertT ap (approvals s) \<and> ap_workflow ap = ''stocktake_variance'' \<and>
          ap_entity_id ap = i \<and> ap_status ap = ''pending'') \<and>
        review_key i \<notin> outbox_keys s \<and> review_key i \<in> outbox_keys s'
      else adjustments s' = adjustments s \<and> approvals s' = approvals s)"

lemma wp_proposeAdjustment:
  "wp (proposeAdjustment i no body v) (\<lambda>_ s'. (\<exists>f. s' = adjustments_update f s) \<and> proposed i v s' \<and>
    (\<forall>w. proposed i w s \<longrightarrow> proposed i w s')) s"
proof -
  have new: "proposed i v (adjustments_update (insertT a) s)"
    if "sa_stocktake a = i" "sa_count a = va_count v" "sa_bucket a = va_bucket v" "sa_snapshot a = va_snapshot v"
      "sa_counted a = va_counted v" "sa_variance a = va_counted v - va_snapshot v" "sa_decision a = ''pending''" for a
    using that by (auto simp: proposed_def proposal_row_def insertT_def)
  have old: "proposed i w s \<Longrightarrow> proposed i w (adjustments_update (insertT a) s)" for w a
    by (auto simp: proposed_def proposal_row_def insertT_def)
  let ?f = "\<lambda>x. x\<lparr>sa_variance := va_counted v - va_snapshot v, sa_snapshot := va_snapshot v,
     sa_counted := va_counted v, sa_revision := sa_revision x + 1, sa_decision := ''pending'', sa_reviewed_by := None\<rparr>"
  have upd: "proposed i v (adjustments_update (updateT (\<lambda>j x. j = k \<and> sa_decision x = ''rejected'') ?f) s)"
    if "select (adjustments s) (\<lambda>_ a. sa_stocktake a = i \<and> sa_count a = va_count v \<and> sa_bucket a = va_bucket v) = (k, a) # xs"
      and "sa_decision a = ''rejected''" for k a xs
  proof -
    have "(k, a) \<in> set (select (adjustments s) (\<lambda>_ a. sa_stocktake a = i \<and> sa_count a = va_count v \<and> sa_bucket a = va_bucket v))"
      by (simp add: that)
    then have a: "(k, a) \<in> set (rows (adjustments s))" and b: "sa_stocktake a = i" "sa_count a = va_count v" "sa_bucket a = va_bucket v"
      by (simp_all add: select_rows)
    from a that(2) have "(k, ?f a) \<in> set (rows (updateT (\<lambda>j x. j = k \<and> sa_decision x = ''rejected'') ?f (adjustments s)))"
      by (force simp: updateT_def)
    with b show ?thesis unfolding proposed_def proposal_row_def by (intro bexI) simp_all
  qed
  have kept: "proposed i w s \<Longrightarrow>
      proposed i w (adjustments_update (updateT (\<lambda>j x. j = k \<and> sa_decision x = ''rejected'') f) s)" for w k f
    by (force simp: proposed_def proposal_row_def updateT_def)
  show ?thesis
    unfolding proposeAdjustment_def
    by (intro wp_intros; intro conjI allI impI, rule exI, rule refl)
      ((hypsubst, rule upd; assumption) | (rule kept, assumption) | (rule new; simp) | (rule old, assumption))+
qed

lemma only_proposed_refl: "only_proposed i vs s s"
  by (auto simp: only_proposed_def)

lemma only_proposed_trans:
  assumes "only_proposed i vs s s1" and "only_proposed i [v] s1 s2" and "v \<in> set vs"
  shows "only_proposed i vs s s2"
  using assms unfolding only_proposed_def by fastforce

lemma only_proposed_insert:
  "proposal_row i v a \<Longrightarrow> only_proposed i [v] s (adjustments_update (insertT a) s)"
  by (auto simp: only_proposed_def insertT_def)

lemma only_proposed_update:
  assumes wf: "wf_tbl (adjustments s)" and row: "(k, a) \<in> set (rows (adjustments s))"
    and a: "sa_stocktake a = i" "sa_count a = va_count v" "sa_bucket a = va_bucket v" "sa_decision a = ''rejected''"
    and f: "proposal_row i v (f a)"
  shows "only_proposed i [v] s (adjustments_update (updateT (\<lambda>j x. j = k \<and> sa_decision x = ''rejected'') f) s)"
proof -
  have same: "x = a" if "(k, x) \<in> set (rows (adjustments s))" for x
    using that row wf by (auto simp: wf_tbl_def dest: eq_key_imp_eq_value)
  have new: "(j, y) \<in> set (rows (adjustments s)) \<or> proposal_row i v y"
    if "(j, y) \<in> set (rows (updateT (\<lambda>j x. j = k \<and> sa_decision x = ''rejected'') f (adjustments s)))" for j y
    using that same f by (auto simp: updateT_def)
  have old: "(j, x) \<in> set (rows (updateT (\<lambda>j x. j = k \<and> sa_decision x = ''rejected'') f (adjustments s))) \<or> x = a"
    if "(j, x) \<in> set (rows (adjustments s))" for j x
    using that same by (cases "j = k") (force simp: updateT_def)+
  from new old a show ?thesis by (fastforce simp: only_proposed_def)
qed

lemma wp_proposeAdjustment_only:
  assumes wf: "wf_tbl (adjustments s)"
  shows "wp (proposeAdjustment i no body v) (\<lambda>_ s'. wf_tbl (adjustments s') \<and> only_proposed i [v] s s') s"
proof -
  let ?f = "\<lambda>x. x\<lparr>sa_variance := va_counted v - va_snapshot v, sa_snapshot := va_snapshot v,
     sa_counted := va_counted v, sa_revision := sa_revision x + 1, sa_decision := ''pending'', sa_reviewed_by := None\<rparr>"
  have upd: "only_proposed i [v] s (adjustments_update (updateT (\<lambda>j x. j = k \<and> sa_decision x = ''rejected'') ?f) s)"
    if sel: "select (adjustments s) (\<lambda>_ a. sa_stocktake a = i \<and> sa_count a = va_count v \<and> sa_bucket a = va_bucket v) = (k, a) # xs"
      and "sa_decision a = ''rejected''" for k a xs
  proof -
    have "(k, a) \<in> set (select (adjustments s) (\<lambda>_ a. sa_stocktake a = i \<and> sa_count a = va_count v \<and> sa_bucket a = va_bucket v))"
      by (simp add: sel)
    then show ?thesis
      using that(2) by (intro only_proposed_update [OF wf, where a = a]) (simp_all add: select_rows proposal_row_def)
  qed
  show ?thesis
    unfolding proposeAdjustment_def
    by (intro wp_intros; rule conjI)
      ((hypsubst, rule upd; assumption) | (rule only_proposed_insert, simp add: proposal_row_def) | simp add: wf wf_updateT wf_insertT)+
qed

lemma wp_requestVarianceApproval:
  assumes "\<And>n f ap h. ap_workflow ap = ''stocktake_variance'' \<Longrightarrow> ap_entity_id ap = i \<Longrightarrow> ap_status ap = ''pending'' \<Longrightarrow>
      \<forall>v \<in> set vs. proposed i v (adjustments_update f s) \<Longrightarrow>
      (wf_tbl (adjustments s) \<Longrightarrow> only_proposed i vs s (adjustments_update f s)) \<Longrightarrow>
      Q n (approvals_update (insertT ap) (uuid_seq_update h (adjustments_update f s)))"
  shows "wp (requestVarianceApproval c i task body vs) Q s"
proof -
  let ?I = "\<lambda>s'. (\<exists>f. s' = adjustments_update f s) \<and>
    (wf_tbl (adjustments s) \<longrightarrow> wf_tbl (adjustments s') \<and> only_proposed i vs s s')"
  have "wp (eachC (proposeAdjustment i (st_no task) body) vs) (\<lambda>_ s'. ?I s' \<and> (\<forall>v \<in> set vs. proposed i v s')) s"
  proof (rule wp_each_all)
    fix v s1
    assume v: "v \<in> set vs" and I: "?I s1"
    then obtain f where s1: "s1 = adjustments_update f s" by blast
    have "wp (proposeAdjustment i (st_no task) body v)
        (\<lambda>_ s'. wf_tbl (adjustments s) \<longrightarrow> wf_tbl (adjustments s') \<and> only_proposed i vs s s') s1"
    proof (cases "wf_tbl (adjustments s)")
      case True
      with I have wf: "wf_tbl (adjustments s1)" and only: "only_proposed i vs s s1" by simp_all
      from wf show ?thesis
        by (rule wp_mono [OF wp_proposeAdjustment_only]) (use only_proposed_trans [OF only _ v] in blast)
    qed (simp add: wp_def split: sum.splits)
    from wp_conj [THEN iffD2, OF conjI, OF this wp_proposeAdjustment]
    show "wp (proposeAdjustment i (st_no task) body v) (\<lambda>_ s'. ?I s' \<and>
        proposed i v s' \<and> (\<forall>w. proposed i w s1 \<longrightarrow> proposed i w s')) s1"
      by (rule wp_mono) (auto simp: s1 intro: exI [where x = "_ \<circ> _"])
  next
    have "\<exists>f. s = adjustments_update f s" by (rule exI [of _ "\<lambda>t. t"], cases s, simp)
    then show "?I s" by (simp add: only_proposed_refl)
  qed
  then show ?thesis
    unfolding requestVarianceApproval_def
    by (intro wp_bindI) (erule wp_mono, elim conjE exE, hypsubst, intro wp_intros assms; simp)
qed


lemma wp_setStatus:
  "Q () (stocktakes_update (updateT (\<lambda>j t. j = i \<and> st_status t = old) (\<lambda>t. t\<lparr>st_status := new\<rparr>)) s) \<Longrightarrow>
    wp (setStocktakeStatus i old new) Q s"
  unfolding setStocktakeStatus_def by (intro wp_intros)

definition finishable :: "int \<Rightarrow> stocktake \<Rightarrow> db \<Rightarrow> bool" where
  "finishable i task s \<longleftrightarrow> fetch (stocktakes s) i = Some task \<and> st_status task \<in> {''first_count'', ''recount''} \<and>
     (\<forall>l \<in> set (count_lines s i (count_round (st_status task))). cl_count l \<noteq> None \<and>
       (st_status task = ''recount'' \<longrightarrow> \<not> same_counter l))"

definition found_variances :: "int \<Rightarrow> stocktake \<Rightarrow> db \<Rightarrow> variance list" where
  "found_variances i task s = variances (count_lines s i (count_round (st_status task)))"

lemma wp_finishRound:
  assumes "\<And>v s'. finishable i task s \<Longrightarrow> finish_effect i task (found_variances i task s) s s' \<Longrightarrow> Q v s'"
    and task: "fetch (stocktakes s) i = Some task"
  shows "wp (finishRound c i task version body) Q s"
proof -
  note wp_domainEventI [wp_intros del]
  note effect = finish_effect_def round_status_def proposed_def only_proposed_def outbox_keys_def review_key_def fetch_updateT task
    found_variances_def
  have done': "finishable i task s" if "st_status task \<in> {''first_count'', ''recount''}"
    "list_all (\<lambda>l. cl_count l \<noteq> None) (count_lines s i (count_round (st_status task)))"
    "\<not> (count_round (st_status task) = 2 \<and> list_ex same_counter (count_lines s i (count_round (st_status task))))"
    using that task by (auto simp: finishable_def list_all_iff list_ex_iff count_round_def)
  show ?thesis
    unfolding finishRound_def roundResult_def Let_def
    by (intro wp_intros wp_setStatus wp_requestVarianceApproval wp_domainEvent_key; rule assms(1); (rule done'; simp)?)
      (simp_all add: effect, auto simp: count_round_def split: if_splits)
qed


lemma wp_transitionStocktake:
  assumes "\<And>i task v s'. to_safe_integer (fld body ''id'') = Some i \<Longrightarrow> finishable i task s \<Longrightarrow>
      finish_effect i task (found_variances i task s) s s' \<Longrightarrow> Q v s'"
    and finish: "fld body ''action'' = Some (JStr ''finish_round'')"
  shows "wp (transitionStocktake c (JObj body)) Q s"
proof -
  have v: "finishable i task (s\<lparr>versions := vs\<rparr>) = finishable i task s"
    "found_variances i task (s\<lparr>versions := vs\<rparr>) = found_variances i task s"
    "finish_effect i task l (s\<lparr>versions := vs\<rparr>) s' = finish_effect i task l s s'" for vs i task l s'
    by (simp_all add: finishable_def found_variances_def count_lines_def find_count_def finish_effect_def only_proposed_def outbox_keys_def)
  show ?thesis
    unfolding transitionStocktake_def jsonObject_def json.case
    by (intro wp_intros wp_oneOf wp_finishRound; (rule assms(1); simp_all add: v)?) (use finish in simp_all)
qed

lemma set_variances:
  "set (variances ls) = {v. \<exists>l \<in> set ls. \<exists>k x. cl_count l = Some (k, x) \<and> v \<in> set (line_buckets (cl_snap l) k x) \<and>
     va_snapshot v \<noteq> va_counted v}"
  by (induction ls) (auto simp: variances_def split: option.splits)

text \<open>
  C20. Finishing a round: every target of the snapshot was counted in it, and in a recount by somebody
  else than in the first round. Without a variance the stocktake is completed; variances of the first
  count lead to the recount; variances of the recount each get a pending adjustment over the difference
  between count and snapshot, and one pending approval request for all of them. The variances are the buckets of the
  counted lines that differ from the snapshot; no other adjustment is proposed, and none but a rejected one of the
  same variance is rewritten. In the other cases no adjustment and no approval changes. The stock itself and the
  counts do not change.
\<close>

theorem finish_round_exact:
  assumes "transitionStocktake c (JObj body) s = Inr (v, s')" and "fld body ''action'' = Some (JStr ''finish_round'')"
    and "to_safe_integer (fld body ''id'') = Some i" and "wf_tbl (adjustments s)"
  shows "\<exists>task vs. fetch (stocktakes s) i = Some task \<and> st_status task \<in> {''first_count'', ''recount''} \<and>
    (\<forall>l \<in> set (count_lines s i (count_round (st_status task))). cl_count l \<noteq> None \<and>
       (st_status task = ''recount'' \<longrightarrow> \<not> same_counter l)) \<and>
    vs = variances (count_lines s i (count_round (st_status task))) \<and>
    set vs = {v. \<exists>l \<in> set (count_lines s i (count_round (st_status task))). \<exists>k x. cl_count l = Some (k, x) \<and>
      v \<in> set (line_buckets (cl_snap l) k x) \<and> va_snapshot v \<noteq> va_counted v} \<and>
    fetch (stocktakes s') i = Some (task\<lparr>st_status := if vs = [] then ''completed''
      else if st_status task = ''first_count'' then ''recount'' else ''pending_approval''\<rparr>) \<and>
    (if st_status task = ''recount'' \<and> vs \<noteq> [] then (\<forall>v \<in> set vs. proposed i v s') \<and> only_proposed i vs s s' \<and>
       (\<exists>ap. approvals s' = insertT ap (approvals s) \<and> ap_workflow ap = ''stocktake_variance'' \<and>
         ap_entity_id ap = i \<and> ap_status ap = ''pending'')
     else adjustments s' = adjustments s \<and> approvals s' = approvals s) \<and>
    batches s' = batches s \<and> reservations s' = reservations s \<and> counts s' = counts s"
proof -
  have "wp (transitionStocktake c (JObj body))
      (\<lambda>_ s'. \<exists>task. finishable i task s \<and> finish_effect i task (found_variances i task s) s s') s"
    by (rule wp_transitionStocktake [OF _ assms(2)]) (use assms(3) in auto)
  from wpD [OF this assms(1)] obtain task where f: "finishable i task s"
    and e: "finish_effect i task (found_variances i task s) s s'" by blast
  from f e show ?thesis
    using assms(4) set_variances [of "count_lines s i (count_round (st_status task))"]
    by (intro exI [of _ task] exI [of _ "found_variances i task s"])
      (auto simp: finishable_def finish_effect_def found_variances_def round_status_def)
qed


text \<open>No stocktake command touches the stock: only the effect of an approved variance does.\<close>

lemma frames_stocktakes:
  "frames stock_tables (openStocktake c raw)" "frames stock_tables (transitionStocktake c raw)"
  unfolding openStocktake_def transitionStocktake_def submitCount_def finishRound_def storeCount_def scopeFilter_def
    snapshotRow_def requestVarianceApproval_def proposeAdjustment_def setStocktakeStatus_def roundResult_def case_prod_beta
  by (intro frame_rules frames_insert frames_update; simp add: stock_tables_def)+

section \<open>The properties at a concrete stocktake\<close>

definition sample_count :: "int \<Rightarrow> int \<Rightarrow> int \<Rightarrow> count_row" where
  "sample_count r available user = \<lparr>sc_stocktake = 1, sc_batch = Some 1, sc_sku = ''SKU'', sc_round = r,
     sc_available = available, sc_locked = 0, sc_defective = 0, sc_pending = 0, sc_total = available,
     sc_counted_by = user\<rparr>"

definition sample_task :: "string \<Rightarrow> stocktake" where
  "sample_task status = \<lparr>st_no = ''ST-1'', st_warehouse = 1, st_scope = ''full_warehouse'',
     st_due_date = ''2025-02-01'', st_status = status, st_frozen_at = None, st_created_by = 1, st_factory = None\<rparr>"

definition recount_db :: db where
  "recount_db = (stock_db ''approved'')\<lparr>
     stocktakes := insertT (sample_task ''recount'') emptyT,
     counts := insertT (sample_count 2 8 3) (insertT (sample_count 1 7 2) (insertT (sample_count 0 9 1) emptyT))\<rparr>"

abbreviation sample_finish :: "(string \<times> json) list" where
  "sample_finish \<equiv> [(''id'', jint 1), (''action'', JStr ''finish_round'')]"

lemma sample_finish_run: obtains v s' where "transitionStocktake sample_ctx (JObj sample_finish) recount_db = Inr (v, s')"
proof -
  have "succeeds (transitionStocktake sample_ctx (JObj sample_finish) recount_db)" by code_simp
  then show thesis using that by (rule succeedsE)
qed

lemma sample_recount:
  "fetch (stocktakes recount_db) 1 = Some (sample_task ''recount'')" "st_status (sample_task x) = x"
  "variances (count_lines recount_db 1 2) \<noteq> []"
    apply (simp add: recount_db_def insertT_def emptyT_def fetch_def)
   apply (simp add: sample_task_def)
  apply code_simp
  done

lemma sample_finish_body: "fld sample_finish ''action'' = Some (JStr ''finish_round'')"
  "to_safe_integer (fld sample_finish ''id'') = Some 1"
  by (simp_all add: fld_def to_safe_integer_jint)

lemma recount_db_adjustments: "wf_tbl (adjustments recount_db)"
  by (simp add: recount_db_def stock_db_def empty_db_def)

lemma finish_round_exact_witness:
  "\<exists>v s'. transitionStocktake sample_ctx (JObj sample_finish) recount_db = Inr (v, s') \<and>
    (\<exists>task. fetch (stocktakes s') 1 = Some task \<and> st_status task = ''pending_approval'')"
proof -
  obtain v s' where r: "transitionStocktake sample_ctx (JObj sample_finish) recount_db = Inr (v, s')"
    by (rule sample_finish_run)
  from finish_round_exact [OF r sample_finish_body recount_db_adjustments] r sample_recount show ?thesis
    by (auto simp: count_round_def)
qed


end
