(* ===== verification/Warehouses.thy ===== *)
theory Warehouses
  imports Stocktakes
begin

text \<open>
  \<open>modules/warehouses/writes.ts\<close>: creating a warehouse, asking for the approval of a merge, and
  deactivating one that has no stock, no open transfer and no open stocktake.
\<close>

definition createWarehouse :: "cctx \<Rightarrow> (string \<times> json) list \<Rightarrow> json run" where
  "createWarehouse c body =
     bindC (stringC (fld body ''code'') ''code'' 191) (\<lambda>given. let code = toUpperCase (c_env c) given in
     bindC (stringC (fld body ''name'') ''name'' 1000) (\<lambda>name.
     bindC (oneOf (fld body ''type'') [''factory'', ''company'', ''other''] ''type'') (\<lambda>type.
     bindC (optionalInteger (fld body ''factoryId'') ''factoryId'') (\<lambda>factoryId.
     bindC (guardC (\<not> (type = ''factory'' \<and> factoryId = None))
       (bad_request ''Factory warehouse requires a factory binding'')) (\<lambda>_.
     bindC (optionalString (fld body ''address'') 2000) (\<lambda>address.
     bindC (insertC warehouses warehouses_update ok_warehouse
       \<lparr>w_code = code, w_name = name, w_type = type, w_factory = factoryId, w_address = address,
        w_status = ''active''\<rparr>) (\<lambda>i.
     bindC (lockVersion ''warehouse'' (show_int i)) (\<lambda>_.
     let details = [(''code'', JStr code), (''name'', JStr name), (''type'', JStr type),
       (''factoryId'', jnull jint factoryId)] in
     bindC (audit c ''create'' ''warehouse_master'' ''warehouse'' (show_int i) (Some code) None
       (Some (JObj details))) (\<lambda>_.
     bindC (domainEvent c ''WarehouseCreated'' ''warehouse'' (show_int i) None RNone []) (\<lambda>_.
     returnC (JObj [(''warehouse'', JObj ((''id'', jint i) # details @
       [(''status'', JStr ''active''), (''version'', jint 1)]))])))))))))))"

definition requestMerge :: "cctx \<Rightarrow> int \<Rightarrow> warehouse \<Rightarrow> int \<Rightarrow> (string \<times> json) list \<Rightarrow> json run" where
  "requestMerge c i w version body =
     bindC (integer (fld body ''targetId'') ''targetId'' 1) (\<lambda>targetId.
     bindC (stringC (fld body ''reason'') ''reason'' 1000) (\<lambda>reason.
     bindC (guardC (targetId \<noteq> i) (bad_request ''Merge target must differ'')) (\<lambda>_.
     bindC (queryC (\<lambda>s. fetch (warehouses s) targetId)) (\<lambda>found.
     bindC (requireC found (not_found ''Target warehouse not found'')) (\<lambda>target.
     bindC (guardC (w_status target = ''active'') (conflict ''Target warehouse is not active'')) (\<lambda>_.
     let details = [(''sourceId'', jint i), (''targetId'', jint targetId), (''reason'', JStr reason)] in
     bindC (randomUUID (c_env c)) (\<lambda>u. let approvalNo = ''AP-WHM-'' @ u in
     bindC (insertC approvals approvals_update ok_approval
       \<lparr>ap_request_no = approvalNo, ap_workflow = ''warehouse_merge'', ap_entity_type = ''warehouse'',
        ap_entity_id = i, ap_summary = ''Warehouse merge '' @ w_name w @ '' -> '' @ w_name target,
        ap_payload = JObj details, ap_high_risk = False, ap_status = ''pending'',
        ap_requested_by = a_user (c_access c), ap_reviewed_by = None, ap_review_comment = None,
        ap_sms_verified = False, ap_updated_at = sql_ms (c_env c)\<rparr>) (\<lambda>approvalId.
     bindC (audit c ''submit_approval'' ''warehouse_master'' ''warehouse_merge'' (show_int approvalId)
       (Some approvalNo) None (Some (JObj details))) (\<lambda>_.
     bindC (domainEvent c ''ApprovalRequested'' ''warehouse'' (show_int i) (Some (show_int approvalId))
       (RRole ''supply_chain'') [(''approvalId'', jint approvalId), (''workflowType'', JStr ''warehouse_merge'')]) (\<lambda>_.
     returnC (JObj [(''approval'', JObj [(''id'', jint approvalId), (''requestNo'', JStr approvalNo)]),
       (''approvalRequired'', JBool True), (''version'', jint version)])))))))))))"

text \<open>What keeps a warehouse from being deactivated: the three counts of the blocker query.\<close>

definition stocked :: "int \<Rightarrow> batch \<Rightarrow> bool" where
  "stocked w b \<longleftrightarrow> ib_warehouse b = w \<and> batch_total b \<noteq> 0"

definition moving :: "int \<Rightarrow> transfer \<Rightarrow> bool" where
  "moving w t \<longleftrightarrow> (it_from t = w \<or> it_to t = w) \<and>
     it_status t \<in> set [''pending_supply_chain'', ''approved'', ''shipped'']"

definition counting :: "int \<Rightarrow> stocktake \<Rightarrow> bool" where
  "counting w t \<longleftrightarrow> st_warehouse t = w \<and> st_status t \<in> set open_states"

definition blocked :: "db \<Rightarrow> int \<Rightarrow> bool" where
  "blocked s w \<longleftrightarrow> 0 < matched (batches s) (\<lambda>_. stocked w) \<or> 0 < matched (transfers s) (\<lambda>_. moving w) \<or>
     0 < matched (stocktakes s) (\<lambda>_. counting w)"

definition warehouse_json :: "int \<Rightarrow> warehouse \<Rightarrow> json" where
  "warehouse_json i w = JObj [(''id'', jint i), (''code'', JStr (w_code w)), (''name'', JStr (w_name w)),
     (''type'', JStr (w_type w)), (''factoryId'', jnull jint (w_factory w)), (''status'', JStr (w_status w))]"

definition deactivateWarehouse :: "cctx \<Rightarrow> int \<Rightarrow> warehouse \<Rightarrow> int \<Rightarrow> json run" where
  "deactivateWarehouse c i w version =
     bindC (queryC (\<lambda>s. blocked s i)) (\<lambda>blocker.
     bindC (guardC (\<not> blocker) (conflict ''Warehouse has active blockers'')) (\<lambda>_.
     bindC (updateC warehouses warehouses_update ok_warehouse (\<lambda>j r. j = i \<and> w_status r = ''active'')
       (\<lambda>r. r\<lparr>w_status := ''inactive''\<rparr>)) (\<lambda>updated.
     bindC (guardC (updated = 1) (version_conflict ''Warehouse changed concurrently'')) (\<lambda>_.
     bindC (bumpVersion ''warehouse'' (show_int i) version) (\<lambda>nextVersion.
     bindC (audit c ''deactivate'' ''warehouse_master'' ''warehouse'' (show_int i) (Some (w_code w))
       (Some (warehouse_json i w)) (Some (JObj [(''status'', JStr ''inactive''), (''version'', jint nextVersion)]))) (\<lambda>_.
     bindC (domainEvent c ''WarehouseDeactivated'' ''warehouse'' (show_int i) None RNone []) (\<lambda>_.
     returnC (JObj [(''success'', JBool True), (''id'', jint i), (''status'', JStr ''inactive''),
       (''version'', jint nextVersion)]))))))))"

definition warehouseCommand :: "cctx \<Rightarrow> json \<Rightarrow> json run" where
  "warehouseCommand c raw =
     bindC (requireRole (c_access c) [''admin'', ''supply_chain'']) (\<lambda>_.
     bindC (jsonObject raw) (\<lambda>body.
     bindC (oneOf (fld body ''action'') [''create'', ''request_merge'', ''deactivate''] ''action'') (\<lambda>action.
     if action = ''create'' then createWarehouse c body
     else
       bindC (integer (fld body ''id'') ''id'' 1) (\<lambda>i.
       bindC (queryC (\<lambda>s. fetch (warehouses s) i)) (\<lambda>found.
       bindC (requireC found (not_found ''Warehouse not found'')) (\<lambda>w.
       bindC (lockVersion ''warehouse'' (show_int i)) (\<lambda>version.
       bindC (guardC (w_status w = ''active'') (conflict ''Warehouse is not active'')) (\<lambda>_.
       if action = ''request_merge'' then requestMerge c i w version body
       else deactivateWarehouse c i w version))))))))"

section \<open>Properties\<close>

lemma wp_deactivateWarehouse:
  assumes "\<And>v s'. \<not> blocked s i \<Longrightarrow> warehouses s' = updateT (\<lambda>j r. j = i \<and> w_status r = ''active'')
      (\<lambda>r. r\<lparr>w_status := ''inactive''\<rparr>) (warehouses s) \<Longrightarrow> stock_tables s' = stock_tables s \<Longrightarrow> Q v s'"
  shows "wp (deactivateWarehouse c i w version) Q s"
  unfolding deactivateWarehouse_def by (intro wp_intros assms) (simp_all add: stock_tables_def)

text \<open>
  A warehouse is deactivated only when it is active and empty: no batch in it holds anything in
  any of its buckets, no transfer from or to it is under way and no stocktake of it is open. It is inactive
  afterwards, and every other warehouse and all stock is unchanged.
\<close>

theorem deactivate_empty:
  assumes "warehouseCommand c (JObj body) s = Inr (v, s')" and "fld body ''action'' = Some (JStr ''deactivate'')"
    and "to_safe_integer (fld body ''id'') = Some i" and "stock_inv s"
  shows "(\<exists>w. fetch (warehouses s) i = Some w \<and> w_status w = ''active'' \<and>
      fetch (warehouses s') i = Some (w\<lparr>w_status := ''inactive''\<rparr>)) \<and>
    (\<forall>j. j \<noteq> i \<longrightarrow> fetch (warehouses s') j = fetch (warehouses s) j) \<and> stock_tables s' = stock_tables s \<and>
    (\<forall>j b. fetch (batches s) j = Some b \<and> ib_warehouse b = i \<longrightarrow> ib_available b = 0 \<and> ib_locked b = 0 \<and>
      ib_defective b = 0 \<and> ib_pending b = 0 \<and> ib_quarantine b = 0) \<and>
    (\<forall>(j, t) \<in> set (rows (transfers s)). \<not> moving i t) \<and> (\<forall>(j, t) \<in> set (rows (stocktakes s)). \<not> counting i t)"
proof -
  have "wp (warehouseCommand c (JObj body)) (\<lambda>_ s'. \<not> blocked s i \<and> (\<exists>w. fetch (warehouses s) i = Some w \<and>
      w_status w = ''active'') \<and> warehouses s' = updateT (\<lambda>j r. j = i \<and> w_status r = ''active'')
      (\<lambda>r. r\<lparr>w_status := ''inactive''\<rparr>) (warehouses s) \<and> stock_tables s' = stock_tables s) s"
    unfolding warehouseCommand_def jsonObject_def json.case
    by (intro wp_intros wp_oneOf wp_deactivateWarehouse) (use assms(2,3) in \<open>simp_all add: blocked_def stock_tables_def\<close>)
  from wpD [OF this assms(1)] obtain w where nb: "\<not> blocked s i" and w: "fetch (warehouses s) i = Some w"
    "w_status w = ''active''" and ws: "warehouses s' = updateT (\<lambda>j r. j = i \<and> w_status r = ''active'')
      (\<lambda>r. r\<lparr>w_status := ''inactive''\<rparr>) (warehouses s)" and st: "stock_tables s' = stock_tables s" by blast
  have empty: "ib_available b = 0 \<and> ib_locked b = 0 \<and> ib_defective b = 0 \<and> ib_pending b = 0 \<and> ib_quarantine b = 0"
    if "fetch (batches s) j = Some b" and "ib_warehouse b = i" for j b
  proof -
    have "\<not> stocked i b" using nb fetch_in_rows [OF that(1)] unfolding blocked_def matched_pos by blast
    with stock_invD(3) [OF assms(4) that(1)] that(2) show ?thesis
      by (auto simp: stocked_def batch_total_def buckets_ok_def)
  qed
  show ?thesis
    using nb w st empty unfolding blocked_def matched_pos
    by (auto simp: ws fetch_updateT option.map_ident)
qed

lemma frames_warehouses: "frames stock_tables (warehouseCommand c raw)"
  unfolding warehouseCommand_def createWarehouse_def requestMerge_def deactivateWarehouse_def
  by (intro frame_rules frames_insert frames_update; simp add: stock_tables_def)+

section \<open>The property at a concrete warehouse\<close>

lemma stock_inv_sample: "stock_inv (stock_db st)"
  by (auto simp: stock_inv_def stock_db_def empty_db_def fetch_insertT reserved_on_def sumT_def buckets_ok_def sample_batch_def)
    (auto simp: emptyT_def fetch_def insertT_def buckets_ok_def split: if_splits)

lemma deactivate_empty_witness:
  "\<exists>v s'. warehouseCommand sample_ctx (JObj [(''id'', jint 2), (''action'', JStr ''deactivate'')])
      (stock_db ''received'') = Inr (v, s') \<and> (\<exists>w. fetch (warehouses s') 2 = Some w \<and> w_status w = ''inactive'')"
proof -
  let ?b = "[(''id'', jint 2), (''action'', JStr ''deactivate'')]"
  have "succeeds (warehouseCommand sample_ctx (JObj ?b) (stock_db ''received''))" by code_simp
  then obtain v s' where r: "warehouseCommand sample_ctx (JObj ?b) (stock_db ''received'') = Inr (v, s')"
    by (rule succeedsE)
  have "fld ?b ''action'' = Some (JStr ''deactivate'')" and "to_safe_integer (fld ?b ''id'') = Some 2"
    by (simp_all add: fld_def to_safe_integer_jint)
  from deactivate_empty [OF r this stock_inv_sample] r show ?thesis by force
qed

end
