(* ===== verification/Shipments.thy ===== *)
theory Shipments
  imports Stocktakes
begin

text \<open>
  \<open>modules/shipments/writes.ts\<close> and \<open>support.ts\<close>: a shipment of finished goods is planned against its
  execution order, confirmed by the factory, dispatched out of the factory's warehouses (or sent to
  approval when the day deviates from the plan), received with its damages, and its logistics
  exceptions are resolved.
\<close>

record shipment =
  sh_delivery :: delivery
  sh_execution :: execution_order
  sh_item :: order_item

definition shipment_row :: "db \<Rightarrow> int \<Rightarrow> shipment option" where
  "shipment_row s i = Option.bind (fetch (deliveries s) i) (\<lambda>d.
     Option.bind (fetch (execution_orders s) (dl_order d)) (\<lambda>e.
     map_option (\<lambda>oi. \<lparr>sh_delivery = d, sh_execution = e, sh_item = oi\<rparr>) (fetch (order_items s) (eo_order_item e))))"

definition requireShipmentRow :: "int \<Rightarrow> shipment run" where
  "requireShipmentRow i = bindC (queryC (\<lambda>s. shipment_row s i)) (\<lambda>found.
     requireC found (not_found ''Shipment not found''))"

definition shipment_json :: "int \<Rightarrow> shipment \<Rightarrow> json" where
  "shipment_json i r = (let d = sh_delivery r; e = sh_execution r; oi = sh_item r in
     JObj [(''id'', jint i), (''executionOrderId'', jint (dl_order d)), (''batchNo'', JStr (dl_batch_no d)),
       (''quantity'', jint (dl_quantity d)), (''plannedShipAt'', JStr (dl_planned_ship_at d)),
       (''shippedAt'', jnull JStr (dl_shipped_at d)), (''destination'', JStr (dl_destination d)),
       (''status'', JStr (dl_status d)), (''requiresApproval'', jint (if dl_requires_approval d then 1 else 0)),
       (''factoryId'', jint (eo_factory e)), (''orderItemId'', jint (eo_order_item e)), (''sku'', JStr (oi_sku oi)),
       (''purchaseOrderId'', jint (oi_order oi)), (''unitPriceTaxIncludedMinor'', jint (oi_unit_price oi))])"

definition localDay :: "string \<Rightarrow> string" where
  "localDay t = take 10 t"

definition requireFactoryBinding :: "access \<Rightarrow> int \<Rightarrow> unit run" where
  "requireFactoryBinding a factoryId = guardC (internal a \<or> a_factory a = Some factoryId)
     (forbidden ''Forbidden factory binding'')"

section \<open>Planning\<close>

definition open_delivery :: "int \<Rightarrow> delivery \<Rightarrow> bool" where
  "open_delivery executionOrderId d \<longleftrightarrow> dl_order d = executionOrderId \<and>
     dl_status d \<notin> set [''cancelled'', ''deviation_rejected'']"

definition planned_quantity :: "db \<Rightarrow> int \<Rightarrow> int" where
  "planned_quantity s executionOrderId =
     sumT (\<lambda>d. if open_delivery executionOrderId d then dl_quantity d else 0) (deliveries s)"

definition createShipment :: "cctx \<Rightarrow> (string \<times> json) list \<Rightarrow> json run" where
  "createShipment c body =
     bindC (requireRole (c_access c) [''admin'', ''supply_chain'']) (\<lambda>_.
     bindC (integer (fld body ''executionOrderId'') ''executionOrderId'' 1) (\<lambda>executionOrderId.
     bindC (stringC (fld body ''batchNo'') ''batchNo'' 191) (\<lambda>batchNo.
     bindC (integer (fld body ''quantity'') ''quantity'' 1) (\<lambda>quantity.
     bindC (stringC (fld body ''plannedShipAt'') ''plannedShipAt'' 100) (\<lambda>plannedShipAt.
     bindC (stringC (fld body ''destination'') ''destination'' 1000) (\<lambda>destination.
     bindC (queryC (\<lambda>s. fetch (execution_orders s) executionOrderId)) (\<lambda>found.
     bindC (requireC found (not_found ''Execution order not found'')) (\<lambda>e.
     bindC (queryC (\<lambda>s. planned_quantity s executionOrderId)) (\<lambda>planned.
     bindC (guardC (planned + quantity \<le> max (eo_completed e) (eo_planned e))
       (conflict ''Shipment quantity exceeds the production quantity'')) (\<lambda>_.
     bindC (insertC deliveries deliveries_update ok_delivery
       \<lparr>dl_order = executionOrderId, dl_batch_no = batchNo, dl_quantity = quantity,
        dl_planned_ship_at = plannedShipAt, dl_shipped_at = None, dl_carrier = [], dl_logistics_no = [],
        dl_destination = destination, dl_requires_approval = False, dl_deviation_reason = None,
        dl_status = ''pending_factory_confirmation''\<rparr>) (\<lambda>i.
     bindC (lockVersion ''delivery_batch'' (show_int i)) (\<lambda>_.
     bindC (audit c ''create'' ''shipping'' ''delivery_batch'' (show_int i) (Some batchNo) None
       (Some (JObj [(''executionOrderId'', jint executionOrderId), (''quantity'', jint quantity),
         (''plannedShipAt'', JStr plannedShipAt), (''destination'', JStr destination)]))) (\<lambda>_.
     bindC (domainEvent c ''ShipmentPlanned'' ''delivery_batch'' (show_int i) None RNone
       [(''executionOrderId'', jint executionOrderId), (''batchNo'', JStr batchNo)]) (\<lambda>_.
     returnC (JObj [(''shipment'', JObj [(''id'', jint i), (''executionOrderId'', jint executionOrderId),
       (''batchNo'', JStr batchNo), (''quantity'', jint quantity), (''plannedShipAt'', JStr plannedShipAt),
       (''destination'', JStr destination), (''status'', JStr ''pending_factory_confirmation''),
       (''version'', jint 1)])])))))))))))))))"

definition resolveException :: "cctx \<Rightarrow> (string \<times> json) list \<Rightarrow> json run" where
  "resolveException c body =
     bindC (requireRole (c_access c) [''admin'', ''supply_chain'']) (\<lambda>_.
     bindC (integer (fld body ''exceptionId'') ''exceptionId'' 1) (\<lambda>exceptionId.
     bindC (stringC (fld body ''resolution'') ''resolution'' 1000) (\<lambda>resolution.
     bindC (queryC (\<lambda>s. fetch (exceptions s) exceptionId)) (\<lambda>found.
     bindC (requireC found (not_found ''Logistics exception not found'')) (\<lambda>e.
     bindC (guardC (ex_type e = ''logistics_exception'') (not_found ''Logistics exception not found'')) (\<lambda>_.
     bindC (guardC (ex_status e \<noteq> ''resolved'') (conflict ''Exception is already resolved'')) (\<lambda>_.
     bindC (lockVersion ''logistics_exception'' (show_int exceptionId)) (\<lambda>version.
     bindC (updateC exceptions exceptions_update ok_any (\<lambda>j r. j = exceptionId \<and> ex_status r \<noteq> ''resolved'')
       (\<lambda>r. r\<lparr>ex_status := ''resolved'',
         ex_description := ex_description r @ CHR 0x0A # ''Resolution: '' @ resolution\<rparr>)) (\<lambda>updated.
     bindC (guardC (updated = 1) (version_conflict ''Exception changed concurrently'')) (\<lambda>_.
     bindC (bumpVersion ''logistics_exception'' (show_int exceptionId) version) (\<lambda>nextVersion.
     bindC (audit c ''resolve'' ''shipping'' ''logistics_exception'' (show_int exceptionId) None
       (Some (JObj [(''id'', jint exceptionId), (''executionOrderId'', jnull jint (ex_order e)),
         (''type'', JStr (ex_type e)), (''status'', JStr (ex_status e)), (''description'', JStr (ex_description e))]))
       (Some (JObj [(''status'', JStr ''resolved''), (''resolution'', JStr resolution),
         (''version'', jint nextVersion)]))) (\<lambda>_.
     bindC (domainEvent c ''LogisticsExceptionResolved'' ''logistics_exception'' (show_int exceptionId) None RNone []) (\<lambda>_.
     returnC (JObj [(''exception'', JObj [(''id'', jint exceptionId), (''status'', JStr ''resolved''),
       (''resolution'', JStr resolution), (''version'', jint nextVersion)])]))))))))))))))"

definition confirmShipment :: "cctx \<Rightarrow> int \<Rightarrow> shipment \<Rightarrow> int \<Rightarrow> json run" where
  "confirmShipment c i current version =
     bindC (requireRole (c_access c) [''admin'', ''factory'', ''supply_chain'']) (\<lambda>_.
     bindC (requireFactoryBinding (c_access c) (eo_factory (sh_execution current))) (\<lambda>_.
     bindC (updateC deliveries deliveries_update ok_delivery
       (\<lambda>j r. j = i \<and> dl_status r = ''pending_factory_confirmation'') (\<lambda>r. r\<lparr>dl_status := ''planned''\<rparr>)) (\<lambda>updated.
     bindC (guardC (updated = 1) (version_conflict ''Shipment cannot be confirmed'')) (\<lambda>_.
     bindC (bumpVersion ''delivery_batch'' (show_int i) version) (\<lambda>nextVersion.
     bindC (audit c ''confirm'' ''shipping'' ''delivery_batch'' (show_int i) (Some (dl_batch_no (sh_delivery current)))
       (Some (JObj [(''status'', JStr (dl_status (sh_delivery current)))]))
       (Some (JObj [(''status'', JStr ''planned''), (''version'', jint nextVersion)]))) (\<lambda>_.
     bindC (domainEvent c ''ShipmentConfirmed'' ''delivery_batch'' (show_int i) None RNone []) (\<lambda>_.
     returnC (JObj [(''shipment'', JObj [(''id'', jint i), (''status'', JStr ''planned''),
       (''version'', jint nextVersion)])]))))))))"

section \<open>Dispatching\<close>

text \<open>A dispatch on another day than the planned one waits for an approval; a pending one is reused.\<close>

definition deviationApproval :: "cctx \<Rightarrow> int \<Rightarrow> delivery \<Rightarrow> string \<Rightarrow> string \<Rightarrow> int run" where
  "deviationApproval c i d shippedAt reason =
     bindC (queryC (\<lambda>s. select (approvals s) (\<lambda>_ r. ap_workflow r = ''shipment_deviation'' \<and> ap_entity_id r = i \<and>
       ap_status r = ''pending''))) (\<lambda>existing.
     if existing \<noteq> [] \<and> 0 < fst (hd existing) then returnC (fst (hd existing))
     else bindC (randomUUID (c_env c)) (\<lambda>u.
       insertC approvals approvals_update ok_approval
         \<lparr>ap_request_no = ''AP-SHIP-'' @ u, ap_workflow = ''shipment_deviation'', ap_entity_type = ''delivery_batch'',
          ap_entity_id = i, ap_summary = ''Shipment deviation '' @ dl_batch_no d,
          ap_payload = JObj [(''plannedShipAt'', JStr (dl_planned_ship_at d)), (''shippedAt'', JStr shippedAt),
            (''reason'', JStr reason)],
          ap_high_risk = False, ap_status = ''pending'', ap_requested_by = a_user (c_access c),
          ap_reviewed_by = None, ap_review_comment = None, ap_sms_verified = False,
          ap_updated_at = sql_ms (c_env c)\<rparr>))"

definition requestDeviation :: "cctx \<Rightarrow> int \<Rightarrow> delivery \<Rightarrow> int \<Rightarrow> string \<Rightarrow> (string \<times> json) list \<Rightarrow> json run" where
  "requestDeviation c i d version shippedAt body =
     bindC (stringC (fld body ''deviationReason'') ''deviationReason'' 1000) (\<lambda>reason.
     bindC (deviationApproval c i d shippedAt reason) (\<lambda>approvalId.
     bindC (updateC deliveries deliveries_update ok_delivery (\<lambda>j r. j = i \<and> dl_status r = ''planned'')
       (\<lambda>r. r\<lparr>dl_requires_approval := True, dl_deviation_reason := Some reason,
         dl_status := ''pending_supply_chain''\<rparr>)) (\<lambda>_.
     bindC (bumpVersion ''delivery_batch'' (show_int i) version) (\<lambda>nextVersion.
     bindC (audit c ''request_deviation'' ''shipping'' ''delivery_batch'' (show_int i) (Some (dl_batch_no d)) None
       (Some (JObj [(''approvalId'', jint approvalId), (''status'', JStr ''pending_supply_chain''),
         (''version'', jint nextVersion)]))) (\<lambda>_.
     bindC (domainEvent c ''ShipmentDeviationRequested'' ''delivery_batch'' (show_int i) None RNone
       [(''approvalId'', jint approvalId)]) (\<lambda>_.
     returnC (JObj [(''approvalRequired'', JBool True), (''approvalId'', jint approvalId),
       (''status'', JStr ''pending_supply_chain''), (''version'', jint nextVersion)])))))))"

definition factory_warehouses :: "db \<Rightarrow> int \<Rightarrow> int list" where
  "factory_warehouses s factoryId =
     map fst (select (warehouses s) (\<lambda>_ w. w_factory w = Some factoryId \<and> w_status w = ''active''))"

definition requireUnfrozen :: "string \<Rightarrow> int \<Rightarrow> unit run" where
  "requireUnfrozen sku warehouseId =
     bindC (lockWarehouseFreeze warehouseId) (\<lambda>_.
     bindC (freezeExists warehouseId (Some sku)) (\<lambda>isFrozen.
     guardC (\<not> isFrozen) (conflict ''Shipment warehouse is frozen by a stocktake'')))"

definition released_batches :: "db \<Rightarrow> int list \<Rightarrow> string \<Rightarrow> (int \<times> batch) list" where
  "released_batches s ws sku =
     sort_key fefo (select (batches s) (\<lambda>_ b. ib_warehouse b \<in> set ws \<and> shippable (ib_warehouse b) sku b))"

definition dispatchBatch :: "cctx \<Rightarrow> int \<Rightarrow> string \<Rightarrow> string \<Rightarrow> (int \<times> batch) list \<Rightarrow> int \<times> int \<Rightarrow> unit run" where
  "dispatchBatch c i sku shippedAt found d =
     bindC (applyDeduction d) (\<lambda>_.
     bindC (insertC movements movements_update ok_movement
       \<lparr>im_warehouse = (case map_of found (fst d) of Some b \<Rightarrow> ib_warehouse b | None \<Rightarrow> 0), im_sku = sku,
        im_type = ''shipment'', im_quantity = - snd d, im_delivery = Some i,
        im_source_key = Some (''shipment:'' @ show_int i @ '':batch:'' @ show_int (fst d)),
        im_occurred_at = shippedAt, im_created_by = a_user (c_access c)\<rparr>) (\<lambda>_. returnC ()))"

text \<open>A product of two integers as the double it is rounded to.\<close>

definition jproduct :: "int \<Rightarrow> int \<Rightarrow> json" where
  "jproduct a b = (case to_double (of_int (a * b)) of Some q \<Rightarrow> JNum q | None \<Rightarrow> JNull)"

definition dispatchShipment :: "cctx \<Rightarrow> int \<Rightarrow> shipment \<Rightarrow> string \<Rightarrow> string \<Rightarrow> string \<Rightarrow> unit run" where
  "dispatchShipment c i current shippedAt carrier logisticsNo =
     (let d = sh_delivery current; sku = oi_sku (sh_item current) in
      bindC (queryC (\<lambda>s. factory_warehouses s (eo_factory (sh_execution current)))) (\<lambda>ws.
      bindC (guardC (ws \<noteq> []) (conflict ''Factory has no active warehouse'')) (\<lambda>_.
      bindC (eachC (requireUnfrozen sku) (sort ws)) (\<lambda>_.
      bindC (queryC (\<lambda>s. released_batches s ws sku)) (\<lambda>found.
      let (ds, remaining) = deductions (dl_quantity d) found in
      bindC (guardC (remaining = 0) (conflict ''Insufficient released inventory'')) (\<lambda>_.
      bindC (updateC deliveries deliveries_update ok_delivery
        (\<lambda>j r. j = i \<and> dl_status r \<in> set [''planned'', ''approved_to_ship''])
        (\<lambda>r. r\<lparr>dl_shipped_at := Some shippedAt, dl_carrier := carrier, dl_logistics_no := logisticsNo,
          dl_status := ''shipped''\<rparr>)) (\<lambda>claimed.
      bindC (guardC (claimed = 1) (version_conflict ''Shipment changed concurrently'')) (\<lambda>_.
      eachC (dispatchBatch c i sku shippedAt found) ds))))))))"

definition shipShipment :: "cctx \<Rightarrow> int \<Rightarrow> shipment \<Rightarrow> int \<Rightarrow> (string \<times> json) list \<Rightarrow> json run" where
  "shipShipment c i current version body =
     (let d = sh_delivery current; oi = sh_item current in
      bindC (requireRole (c_access c) [''admin'', ''factory'', ''supply_chain'']) (\<lambda>_.
      bindC (requireFactoryBinding (c_access c) (eo_factory (sh_execution current))) (\<lambda>_.
      bindC (guardC (dl_status d \<in> set [''planned'', ''approved_to_ship''])
        (conflict ''Shipment cannot be dispatched from its current state'')) (\<lambda>_.
      bindC (stringC (fld body ''shippedAt'') ''shippedAt'' 100) (\<lambda>shippedAt.
      bindC (stringC (fld body ''carrier'') ''carrier'' 1000) (\<lambda>carrier.
      bindC (stringC (fld body ''logisticsNo'') ''logisticsNo'' 191) (\<lambda>logisticsNo.
      bindC (integer (fld body ''evidenceFileId'') ''evidenceFileId'' 1) (\<lambda>fileId.
      bindC (requireCleanFile (c_access c) fileId ''shipment_evidence'' ''delivery_batch'' (show_int i)) (\<lambda>file.
      if localDay (dl_planned_ship_at d) \<noteq> localDay shippedAt \<and> dl_status d \<noteq> ''approved_to_ship''
      then requestDeviation c i d version shippedAt body
      else
        bindC (dispatchShipment c i current shippedAt carrier logisticsNo) (\<lambda>_.
        bindC (optionalString (fld body ''evidenceFileName'') 500) (\<lambda>fileName.
        bindC (insertC evidences evidences_update ok_any \<lparr>ev_delivery = i, ev_file_key = fo_object_key file,
          ev_file_name = (if fileName = [] then ''shipment evidence'' else fileName)\<rparr>) (\<lambda>_.
        bindC (bumpVersion ''delivery_batch'' (show_int i) version) (\<lambda>nextVersion.
        bindC (audit c ''ship'' ''shipping'' ''delivery_batch'' (show_int i) (Some (dl_batch_no d))
          (Some (shipment_json i current))
          (Some (JObj [(''status'', JStr ''shipped''), (''shippedAt'', JStr shippedAt), (''carrier'', JStr carrier),
            (''logisticsNo'', JStr logisticsNo), (''quantity'', jint (dl_quantity d)), (''fileId'', jint fileId),
            (''version'', jint nextVersion)]))) (\<lambda>_.
        bindC (domainEvent c ''ShipmentDispatched'' ''delivery_batch'' (show_int i) None RNone
          [(''quantity'', jint (dl_quantity d)), (''purchaseOrderId'', jint (oi_order oi))]) (\<lambda>_.
        bindC (domainEvent c ''PayableAccrued'' ''delivery_batch'' (show_int i) None RNone
          [(''purchaseOrderId'', jint (oi_order oi)),
           (''amountMinor'', jproduct (dl_quantity d) (oi_unit_price oi))]) (\<lambda>_.
        returnC (JObj [(''success'', JBool True), (''id'', jint i), (''status'', JStr ''shipped''),
          (''deductedQuantity'', jint (dl_quantity d)), (''version'', jint nextVersion)])))))))))))))))))"

section \<open>Receiving\<close>

definition openLogisticsException :: "cctx \<Rightarrow> shipment \<Rightarrow> int \<Rightarrow> int \<Rightarrow> string \<Rightarrow> string \<Rightarrow> int run" where
  "openLogisticsException c current received damaged reason fileKey =
     (let d = sh_delivery current in
      bindC (insertC exceptions exceptions_update ok_any
        \<lparr>ex_order = Some (dl_order d), ex_type = ''logistics_exception'',
         ex_description = dl_batch_no d @ '': shipped '' @ show_int (dl_quantity d) @ '', received '' @
           show_int received @ '', damaged '' @ show_int damaged @ ''. '' @ reason,
         ex_evidence = Some fileKey, ex_status = ''pending_supply_chain'',
         ex_submitted_by = a_user (c_access c)\<rparr>) (\<lambda>exceptionId.
      bindC (lockVersion ''logistics_exception'' (show_int exceptionId)) (\<lambda>_. returnC exceptionId)))"

definition receiveShipment :: "cctx \<Rightarrow> int \<Rightarrow> shipment \<Rightarrow> int \<Rightarrow> (string \<times> json) list \<Rightarrow> json run" where
  "receiveShipment c i current version body =
     (let d = sh_delivery current in
      bindC (requireRole (c_access c) [''admin'', ''receiver'']) (\<lambda>_.
      bindC (guardC (hasRole (c_access c) [''admin'']) (forbidden ''Receiver organization binding is unavailable'')) (\<lambda>_.
      bindC (guardC (dl_status d = ''shipped'') (conflict ''Only shipped batches can be received'')) (\<lambda>_.
      bindC (integer (fld body ''receivedQuantity'') ''receivedQuantity'' 0) (\<lambda>received.
      bindC (integer (fld body ''damagedQuantity'') ''damagedQuantity'' 0) (\<lambda>damaged.
      bindC (stringC (fld body ''receivedAt'') ''receivedAt'' 100) (\<lambda>receivedAt.
      bindC (integer (fld body ''receiptEvidenceFileId'') ''receiptEvidenceFileId'' 1) (\<lambda>fileId.
      bindC (requireCleanFile (c_access c) fileId ''receipt_evidence'' ''delivery_batch'' (show_int i)) (\<lambda>file.
      bindC (guardC (received \<le> dl_quantity d \<and> damaged \<le> received)
        (conflict ''Receipt quantities exceed the shipment quantity'')) (\<lambda>_.
      let hasException = (received < dl_quantity d \<or> 0 < damaged) in
      bindC (optionalString (fld body ''exceptionReason'') 2000) (\<lambda>reason.
      bindC (guardC (\<not> (hasException \<and> reason = [])) (bad_request ''Exception reason is required'')) (\<lambda>_.
      bindC (insertC shipment_receipts shipment_receipts_update ok_shipment_receipt
        \<lparr>sr_delivery = i, sr_received = received, sr_damaged = damaged, sr_received_at = receivedAt,
         sr_evidence = fo_object_key file, sr_reason = reason, sr_received_by = a_user (c_access c)\<rparr>) (\<lambda>receiptId.
      bindC (if hasException then bindC (openLogisticsException c current received damaged reason (fo_object_key file))
           (\<lambda>e. returnC [(''exceptionId'', jint e)]) else returnC []) (\<lambda>exceptionId.
      let status = (if hasException then ''received_with_exception'' else ''received'') in
      bindC (updateC deliveries deliveries_update ok_delivery (\<lambda>j r. j = i \<and> dl_status r = ''shipped'')
        (\<lambda>r. r\<lparr>dl_status := status\<rparr>)) (\<lambda>claimed.
      bindC (guardC (claimed = 1) (version_conflict ''Shipment changed concurrently'')) (\<lambda>_.
      bindC (bumpVersion ''delivery_batch'' (show_int i) version) (\<lambda>nextVersion.
      bindC (audit c ''receive'' ''shipping'' ''shipment_receipt'' (show_int receiptId) (Some (dl_batch_no d)) None
        (Some (JObj ([(''receivedQuantity'', jint received), (''damagedQuantity'', jint damaged),
          (''receivedAt'', JStr receivedAt), (''fileId'', jint fileId)] @ exceptionId)))) (\<lambda>_.
      bindC (domainEvent c (if hasException then ''LogisticsExceptionOpened'' else ''ShipmentReceived'')
        ''delivery_batch'' (show_int i) None RNone ((''receiptId'', jint receiptId) # exceptionId)) (\<lambda>_.
      returnC (JObj ([(''receipt'', JObj [(''id'', jint receiptId), (''deliveryBatchId'', jint i),
          (''receivedQuantity'', jint received), (''damagedQuantity'', jint damaged), (''receivedAt'', JStr receivedAt)]),
        (''logisticsExceptionCreated'', JBool hasException)] @ exceptionId @
        [(''status'', JStr status), (''version'', jint nextVersion)])))))))))))))))))))))"

definition shipmentCommand :: "cctx \<Rightarrow> json \<Rightarrow> json run" where
  "shipmentCommand c raw =
     bindC (jsonObject raw) (\<lambda>body.
     bindC (oneOf (fld body ''action'') [''create'', ''confirm'', ''ship'', ''receive'', ''resolve_exception'']
       ''action'') (\<lambda>action.
     if action = ''create'' then createShipment c body
     else if action = ''resolve_exception'' then resolveException c body
     else
       bindC (integer (fld body ''deliveryBatchId'') ''deliveryBatchId'' 1) (\<lambda>i.
       bindC (requireShipmentRow i) (\<lambda>current.
       bindC (lockVersion ''delivery_batch'' (show_int i)) (\<lambda>version.
       if action = ''confirm'' then confirmShipment c i current version
       else if action = ''ship'' then shipShipment c i current version body
       else receiveShipment c i current version body)))))"

section \<open>Properties\<close>

lemma wp_dispatchBatch:
  assumes "wf_tbl (batches s)"
    and "\<And>b m. fetch (batches s) (fst d) = Some b \<Longrightarrow> snd d \<le> ib_available b \<Longrightarrow>
      Q () (movements_update (insertT m) (batches_update (deduct1 d) s))"
  shows "wp (dispatchBatch c i sku t found d) Q s"
  unfolding dispatchBatch_def by (intro wp_intros wp_applyDeduction assms)

lemma wp_dispatchBatches:
  assumes "wf_tbl (batches s)" and "\<And>f. covered ds (batches s) \<Longrightarrow> Q () (movements_update f (batches_update (deduct ds) s))"
  shows "wp (eachC (dispatchBatch c i sku t found) ds) Q s"
  using assms
proof (induction ds arbitrary: s)
  case Nil
  have "deduct [] = (\<lambda>t. t)" by (simp add: fun_eq_iff)
  with Nil.prems(2) have "Q () (movements_update (\<lambda>t. t) (batches_update (\<lambda>t. t) s))" by (metis covered.simps(1))
  moreover have "movements_update (\<lambda>t. t) s = s" by (cases s) simp
  ultimately show ?case by (simp add: wp_return)
next
  case (Cons d ds)
  have step: "wp (eachC (dispatchBatch c i sku t found) ds) Q (movements_update g (batches_update (deduct1 d) s))"
    if "fetch (batches s) (fst d) = Some b" "snd d \<le> ib_available b" for b g
  proof (rule Cons.IH)
    fix f
    assume "covered ds (batches (movements_update g (batches_update (deduct1 d) s)))"
    with that have "covered (d # ds) (batches s)" by simp
    then have "Q () (movements_update (f \<circ> g) (batches_update (deduct (d # ds)) s))" by (rule Cons.prems(2))
    moreover have "deduct (d # ds) = deduct ds \<circ> deduct1 d" by (simp add: fun_eq_iff)
    ultimately show "Q () (movements_update f (batches_update (deduct ds)
        (movements_update g (batches_update (deduct1 d) s))))" by simp
  qed (use Cons.prems in simp)
  show ?case
    unfolding eachC.simps
    by (intro wp_bindI wp_dispatchBatch step Cons.prems(1))
qed

definition released :: "int list \<Rightarrow> string \<Rightarrow> int \<Rightarrow> batch \<Rightarrow> bool" where
  "released ws sku i b \<longleftrightarrow> ib_warehouse b \<in> set ws \<and> shippable (ib_warehouse b) sku b"

definition shipped_row :: "int \<Rightarrow> string \<Rightarrow> string \<Rightarrow> string \<Rightarrow> delivery tbl \<Rightarrow> delivery tbl" where
  "shipped_row i t carrier no = updateT (\<lambda>j r. j = i \<and> dl_status r \<in> set [''planned'', ''approved_to_ship''])
     (\<lambda>r. r\<lparr>dl_shipped_at := Some t, dl_carrier := carrier, dl_logistics_no := no, dl_status := ''shipped''\<rparr>)"

definition dispatch_effect :: "int \<Rightarrow> shipment \<Rightarrow> string \<Rightarrow> string \<Rightarrow> string \<Rightarrow> db \<Rightarrow> db \<Rightarrow> bool" where
  "dispatch_effect i sh t carrier no s s' \<longleftrightarrow>
     (let ws = factory_warehouses s (eo_factory (sh_execution sh)); sku = oi_sku (sh_item sh) in
     (\<exists>ds. picked (dl_quantity (sh_delivery sh)) (released ws sku) (batches s) ds \<and>
       batches s' = deduct ds (batches s)) \<and> reservations s' = reservations s \<and>
     (\<forall>w \<in> set ws. \<not> frozen s w (Some sku)) \<and> deliveries s' = shipped_row i t carrier no (deliveries s))"

lemma dispatch_effect_cong [simp]:
  "dispatch_effect i sh t x y (s\<lparr>versions := vs\<rparr>) s' = dispatch_effect i sh t x y s s'"
  "dispatch_effect i sh t x y s (s'\<lparr>versions := vs\<rparr>) = dispatch_effect i sh t x y s s'"
  "dispatch_effect i sh t x y s (evidences_update f1 s') = dispatch_effect i sh t x y s s'"
  "dispatch_effect i sh t x y s (audit_logs_update f2 s') = dispatch_effect i sh t x y s s'"
  "dispatch_effect i sh t x y s (outbox_messages_update f3 s') = dispatch_effect i sh t x y s s'"
  by (simp_all add: dispatch_effect_def factory_warehouses_def)

lemma wp_requireUnfrozen:
  "wp (eachC (requireUnfrozen sku) ws) (\<lambda>_ s'. (\<exists>vs. s' = s\<lparr>versions := vs\<rparr>) \<and> (\<forall>w \<in> set ws. \<not> frozen s w (Some sku))) s"
proof -
  have "wp (eachC (requireUnfrozen sku) ws) (\<lambda>_ s'. (\<exists>vs. s' = s\<lparr>versions := vs\<rparr>) \<and>
      (\<forall>w \<in> set ws. \<not> frozen s w (Some sku))) s"
  proof (rule wp_each_all [where P = "\<lambda>w s'. \<not> frozen s w (Some sku)"])
    fix w s1
    assume "\<exists>vs. s1 = s\<lparr>versions := vs\<rparr>"
    then obtain vs where s1: "s1 = s\<lparr>versions := vs\<rparr>" ..
    show "wp (requireUnfrozen sku w) (\<lambda>_ s'. (\<exists>vs. s' = s\<lparr>versions := vs\<rparr>) \<and> \<not> frozen s w (Some sku) \<and>
        (\<forall>y. \<not> frozen s y (Some sku) \<longrightarrow> \<not> frozen s y (Some sku))) s1"
      unfolding requireUnfrozen_def s1 by (intro wp_intros) (simp, blast)
  qed (rule exI [of _ "versions s"], simp)
  then show ?thesis .
qed

lemma wp_dispatchShipment:
  assumes "wf_tbl (batches s)" and "\<And>s'. dispatch_effect i sh t carrier no s s' \<Longrightarrow> Q () s'"
  shows "wp (dispatchShipment c i sh t carrier no) Q s"
proof -
  have rel: "released_batches s ws sku = sort_key fefo (select (batches s) (released ws sku))" for s ws sku
    by (simp add: released_batches_def released_def [abs_def])
  have vs: "released_batches (s\<lparr>versions := vs\<rparr>) ws sku = released_batches s ws sku" for s vs ws sku
    by (simp add: released_batches_def)
  show ?thesis
    unfolding dispatchShipment_def Let_def
    by (intro wp_intros, rule wp_mono [OF wp_requireUnfrozen], elim conjE exE, hypsubst)
      (intro wp_intros wp_dispatchBatches assms(2);
        use assms(1) in \<open>simp add: dispatch_effect_def picked_def rel vs Let_def shipped_row_def\<close>)
qed

text \<open>What dispatching a shipment does: it leaves, or it is sent to approval.\<close>

definition deviation_effect :: "int \<Rightarrow> db \<Rightarrow> db \<Rightarrow> bool" where
  "deviation_effect i s s' \<longleftrightarrow> stock_tables s' = stock_tables s \<and>
     (\<exists>reason. deliveries s' = updateT (\<lambda>j r. j = i \<and> dl_status r = ''planned'')
       (\<lambda>r. r\<lparr>dl_requires_approval := True, dl_deviation_reason := Some reason,
         dl_status := ''pending_supply_chain''\<rparr>) (deliveries s)) \<and>
     (\<exists>(_, ap) \<in> set (rows (approvals s')). ap_workflow ap = ''shipment_deviation'' \<and> ap_entity_id ap = i \<and>
       ap_status ap = ''pending'')"

lemma wp_deviationApproval:
  assumes "\<And>n f g. \<exists>(_, ap) \<in> set (rows (f (approvals s))). ap_workflow ap = ''shipment_deviation'' \<and>
      ap_entity_id ap = i \<and> ap_status ap = ''pending'' \<Longrightarrow> Q n (approvals_update f (uuid_seq_update g s))"
  shows "wp (deviationApproval c i d t reason) Q s"
proof -
  have same: "approvals_update (\<lambda>t. t) (uuid_seq_update (\<lambda>n. n) s) = s" by (cases s) simp
  have found: "Q (fst (hd xs)) s"
    if xs: "xs = select (approvals s) (\<lambda>_ r. ap_workflow r = ''shipment_deviation'' \<and> ap_entity_id r = i \<and>
       ap_status r = ''pending'')" and ne: "xs \<noteq> []" for xs
  proof -
    obtain k ap where "(k, ap) \<in> set xs" using ne by (cases xs) auto
    then have "\<exists>(_, ap) \<in> set (rows (approvals s)). ap_workflow ap = ''shipment_deviation'' \<and> ap_entity_id ap = i \<and>
        ap_status ap = ''pending''" unfolding xs by (auto simp: select_rows)
    from assms [of "\<lambda>t. t" "fst (hd xs)" "\<lambda>n. n"] this show ?thesis by (simp add: same)
  qed
  show ?thesis
    unfolding deviationApproval_def
    by (intro wp_intros) (auto intro: found intro!: assms simp: insertT_def)
qed

lemma wp_requestDeviation:
  assumes "\<And>v s'. deviation_effect i s s' \<Longrightarrow> Q v s'"
  shows "wp (requestDeviation c i d version t body) Q s"
  unfolding requestDeviation_def
  by (intro wp_intros wp_deviationApproval assms) (auto simp: deviation_effect_def stock_tables_def)

lemma wp_ship:
  assumes "wf_tbl (batches s)" and "shipment_row s i = Some sh"
    and "\<And>v s' t. localDay (dl_planned_ship_at (sh_delivery sh)) \<noteq> localDay t \<Longrightarrow> dl_status (sh_delivery sh) = ''planned'' \<Longrightarrow>
      deviation_effect i s s' \<Longrightarrow> Q v s'"
    and "\<And>v s' t x y. dl_status (sh_delivery sh) = ''planned'' \<and> localDay (dl_planned_ship_at (sh_delivery sh)) = localDay t \<or>
      dl_status (sh_delivery sh) = ''approved_to_ship'' \<Longrightarrow> dispatch_effect i sh t x y s s' \<Longrightarrow> Q v s'"
  shows "wp (shipShipment c i sh version body) Q (s\<lparr>versions := vs\<rparr>)"
  unfolding shipShipment_def requireFactoryBinding_def Let_def
  by (intro wp_intros wp_dispatchShipment wp_requestDeviation)
    (use assms in \<open>auto simp: deviation_effect_def stock_tables_def\<close>)


text \<open>Available stock of a SKU in all warehouses.\<close>

definition stock_of :: "db \<Rightarrow> string \<Rightarrow> int" where
  "stock_of s k = sumT (\<lambda>b. if ib_sku b = k then ib_available b else 0) (batches s)"

lemma factory_warehousesD:
  "w \<in> set (factory_warehouses s f) \<Longrightarrow> \<exists>x. (w, x) \<in> set (rows (warehouses s)) \<and> w_factory x = Some f \<and> w_status x = ''active''"
  by (auto simp: factory_warehouses_def select_rows)

lemma wp_shipmentCommand:
  assumes "wf_tbl (batches s)" and "fld body ''action'' = Some (JStr ''ship'')"
    and "to_safe_integer (fld body ''deliveryBatchId'') = Some i" and "shipment_row s i = Some sh"
    and "\<And>v s' t. localDay (dl_planned_ship_at (sh_delivery sh)) \<noteq> localDay t \<Longrightarrow> dl_status (sh_delivery sh) = ''planned'' \<Longrightarrow>
      deviation_effect i s s' \<Longrightarrow> Q v s'"
    and "\<And>v s' t x y. dl_status (sh_delivery sh) = ''planned'' \<and> localDay (dl_planned_ship_at (sh_delivery sh)) = localDay t \<or>
      dl_status (sh_delivery sh) = ''approved_to_ship'' \<Longrightarrow> dispatch_effect i sh t x y s s' \<Longrightarrow> Q v s'"
  shows "wp (shipmentCommand c (JObj body)) Q s"
  unfolding shipmentCommand_def jsonObject_def json.case requireShipmentRow_def
  by (intro wp_intros wp_oneOf) (use assms(2-4) in \<open>simp_all add: wp_ship [OF assms(1) _ assms(5,6)]\<close>)

text \<open>
  C18. Dispatching a shipment either leaves stock alone and sends it to approval, because the day
  differs from the planned one, or takes exactly its quantity out of the available stock of its SKU: only from
  company-owned, unexpired, unquarantined batches in active, unfrozen warehouses of its factory, each
  earlier-expiring batch emptied before a later one is touched, and marks it shipped.
\<close>

theorem dispatch_exact:
  assumes "shipmentCommand c (JObj body) s = Inr (v, s')" and "fld body ''action'' = Some (JStr ''ship'')"
    and "to_safe_integer (fld body ''deliveryBatchId'') = Some i" and "shipment_row s i = Some sh"
    and "wf_tbl (batches s)" and "0 \<le> dl_quantity (sh_delivery sh)"
  shows "(dl_status (sh_delivery sh) = ''planned'' \<and> stock_tables s' = stock_tables s \<and>
      (\<exists>d. fetch (deliveries s') i = Some d \<and> dl_status d = ''pending_supply_chain'' \<and> dl_requires_approval d)) \<or>
    (dl_status (sh_delivery sh) \<in> {''planned'', ''approved_to_ship''} \<and>
      (\<exists>d. fetch (deliveries s') i = Some d \<and> dl_status d = ''shipped'' \<and> dl_quantity d = dl_quantity (sh_delivery sh)) \<and>
      (\<forall>k. stock_of s' k = stock_of s k - (if k = oi_sku (sh_item sh) then dl_quantity (sh_delivery sh) else 0)) \<and>
      (\<forall>j b. fetch (batches s) j = Some b \<longrightarrow> (\<exists>q\<ge>0. fetch (batches s') j = Some (take_available q b) \<and>
        (0 < q \<longrightarrow> q \<le> ib_available b \<and> shippable (ib_warehouse b) (oi_sku (sh_item sh)) b \<and>
          \<not> frozen s (ib_warehouse b) (Some (oi_sku (sh_item sh))) \<and>
          ib_warehouse b \<in> set (factory_warehouses s (eo_factory (sh_execution sh)))))) \<and>
      (\<forall>j b k c. fetch (batches s) j = Some b \<and> fetch (batches s) k = Some c \<and>
        released (factory_warehouses s (eo_factory (sh_execution sh))) (oi_sku (sh_item sh)) j b \<and>
        released (factory_warehouses s (eo_factory (sh_execution sh))) (oi_sku (sh_item sh)) k c \<and>
        fefo (j, b) < fefo (k, c) \<and> fetch (batches s') k \<noteq> Some c \<longrightarrow>
        fetch (batches s') j = Some (take_available (ib_available b) b)))"
proof -
  let ?st = "dl_status (sh_delivery sh)" and ?sku = "oi_sku (sh_item sh)"
  let ?P = "released (factory_warehouses s (eo_factory (sh_execution sh))) ?sku"
  have "wp (shipmentCommand c (JObj body)) (\<lambda>_ s'. (?st = ''planned'' \<and> deviation_effect i s s') \<or>
      (?st \<in> {''planned'', ''approved_to_ship''} \<and> (\<exists>t x y. dispatch_effect i sh t x y s s'))) s"
    by (rule wp_shipmentCommand [OF assms(5,2,3,4)]) blast+
  from wpD [OF this assms(1)] consider
      "?st = ''planned''" "deviation_effect i s s'"
    | t x y where "?st \<in> {''planned'', ''approved_to_ship''}" "dispatch_effect i sh t x y s s'" by blast
  then show ?thesis
  proof cases
    case 1
    have "fetch (deliveries s) i = Some (sh_delivery sh)"
      using assms(4) by (auto simp: shipment_row_def bind_eq_Some_conv)
    with 1 show ?thesis by (intro disjI1) (auto simp: deviation_effect_def fetch_updateT)
  next
    case 2
    then obtain ds where p: "picked (dl_quantity (sh_delivery sh)) ?P (batches s) ds"
      and bs: "batches s' = deduct ds (batches s)"
      and fr: "\<forall>w \<in> set (factory_warehouses s (eo_factory (sh_execution sh))). \<not> frozen s w (Some ?sku)"
      and dl: "deliveries s' = shipped_row i t x y (deliveries s)" by (auto simp: dispatch_effect_def Let_def)
    have pos: "\<forall>i b. ?P i b \<longrightarrow> 0 < ib_available b" by (simp add: released_def shippable_def)
    note pick = p assms(5,6) pos
    have d: "fetch (deliveries s) i = Some (sh_delivery sh)"
      using assms(4) by (auto simp: shipment_row_def bind_eq_Some_conv)
    have "\<exists>d. fetch (deliveries s') i = Some d \<and> dl_status d = ''shipped'' \<and> dl_quantity d = dl_quantity (sh_delivery sh)"
      using 2(1) by (auto simp: dl shipped_row_def fetch_updateT d)
    moreover have "\<forall>k. stock_of s' k = stock_of s k - (if k = ?sku then dl_quantity (sh_delivery sh) else 0)"
      unfolding stock_of_def bs by (intro allI picked_sum [OF pick]) (auto simp: released_def shippable_def)
    moreover have "\<forall>j b. fetch (batches s) j = Some b \<longrightarrow> (\<exists>q\<ge>0. fetch (batches s') j = Some (take_available q b) \<and>
        (0 < q \<longrightarrow> q \<le> ib_available b \<and> shippable (ib_warehouse b) ?sku b \<and> \<not> frozen s (ib_warehouse b) (Some ?sku) \<and>
          ib_warehouse b \<in> set (factory_warehouses s (eo_factory (sh_execution sh)))))"
      unfolding bs using picked_effect [OF pick] fr unfolding released_def by meson
    moreover have "\<forall>j b k c. fetch (batches s) j = Some b \<and> fetch (batches s) k = Some c \<and> ?P j b \<and> ?P k c \<and>
        fefo (j, b) < fefo (k, c) \<and> fetch (batches s') k \<noteq> Some c \<longrightarrow>
        fetch (batches s') j = Some (take_available (ib_available b) b)"
      unfolding bs using picked_order [OF pick] by blast
    ultimately show ?thesis using 2(1) by (intro disjI2) blast
  qed
qed

section \<open>Planning and the life of a shipment\<close>

text \<open>
  C33. Planning a shipment keeps the planned quantity of its execution order, over all shipments that are not
  cancelled or rejected, within what the order has planned or completed.
\<close>

theorem plan_within_production:
  assumes "shipmentCommand c (JObj body) s = Inr (v, s')" and "fld body ''action'' = Some (JStr ''create'')"
    and "to_safe_integer (fld body ''executionOrderId'') = Some e"
  shows "\<exists>eo n. fetch (execution_orders s) e = Some eo \<and> 1 \<le> n \<and> planned_quantity s' e = planned_quantity s e + n \<and>
    planned_quantity s' e \<le> max (eo_completed eo) (eo_planned eo) \<and>
    (\<forall>e'. e' \<noteq> e \<longrightarrow> planned_quantity s' e' = planned_quantity s e')"
proof -
  have "wp (shipmentCommand c (JObj body)) (\<lambda>_ s'. \<exists>eo n d. fetch (execution_orders s) e = Some eo \<and> 1 \<le> n \<and>
      planned_quantity s e + n \<le> max (eo_completed eo) (eo_planned eo) \<and> dl_order d = e \<and> dl_quantity d = n \<and>
      dl_status d = ''pending_factory_confirmation'' \<and> deliveries s' = insertT d (deliveries s)) s"
    unfolding shipmentCommand_def jsonObject_def json.case createShipment_def
    by (intro wp_intros wp_oneOf) (use assms(2,3) in \<open>auto simp: planned_quantity_def\<close>)
  from wpD [OF this assms(1)] show ?thesis
    by (auto simp: planned_quantity_def open_delivery_def)
qed

text \<open>The status of a shipment as a state machine.\<close>

inductive moves :: "string \<Rightarrow> string \<Rightarrow> bool" where
  confirm: "moves ''pending_factory_confirmation'' ''planned''"
| deviate: "moves ''planned'' ''pending_supply_chain''"
| depart: "moves ''planned'' ''shipped''"
| depart_approved: "moves ''approved_to_ship'' ''shipped''"
| arrive: "moves ''shipped'' ''received''"
| arrive_damaged: "moves ''shipped'' ''received_with_exception''"

inductive_simps moves_simps: "moves a b"

definition kept :: "delivery \<Rightarrow> delivery \<Rightarrow> bool" where
  "kept d d' \<longleftrightarrow> dl_order d' = dl_order d \<and> dl_batch_no d' = dl_batch_no d \<and> dl_quantity d' = dl_quantity d \<and>
     dl_planned_ship_at d' = dl_planned_ship_at d \<and> dl_destination d' = dl_destination d \<and>
     (dl_status d' = dl_status d \<or> moves (dl_status d) (dl_status d'))"

definition advances :: "delivery tbl \<Rightarrow> delivery tbl \<Rightarrow> bool" where
  "advances t t' \<longleftrightarrow> (\<forall>j d. fetch t j = Some d \<longrightarrow> (\<exists>d'. fetch t' j = Some d' \<and> kept d d')) \<and>
     (\<forall>j d. fetch t j = None \<and> fetch t' j = Some d \<longrightarrow> dl_status d = ''pending_factory_confirmation'')"

lemma kept_refl [simp]: "kept d d"
  by (simp add: kept_def)

lemma advances_refl [simp, intro]: "advances t t"
  by (auto simp: advances_def)

lemma advances_insert:
  "wf_tbl t \<Longrightarrow> dl_status d = ''pending_factory_confirmation'' \<Longrightarrow> advances t (insertT d t)"
  by (auto simp: advances_def fetch_insertT dest: fetch_pos)

lemma advances_update:
  "(\<And>j r. p j r \<Longrightarrow> kept r (f r)) \<Longrightarrow> advances t (updateT p f t)"
  by (auto simp: advances_def fetch_updateT)

lemma wp_confirm_moves:
  assumes "\<And>v s'. deliveries s' = updateT (\<lambda>j r. j = i \<and> dl_status r = ''pending_factory_confirmation'')
      (\<lambda>r. r\<lparr>dl_status := ''planned''\<rparr>) (deliveries s) \<Longrightarrow> Q v s'"
  shows "wp (confirmShipment c i sh version) Q s"
  unfolding confirmShipment_def requireFactoryBinding_def by (intro wp_intros assms) simp

lemma wp_receive_moves:
  assumes "\<And>v s' st. st \<in> {''received'', ''received_with_exception''} \<Longrightarrow>
      deliveries s' = updateT (\<lambda>j r. j = i \<and> dl_status r = ''shipped'') (\<lambda>r. r\<lparr>dl_status := st\<rparr>) (deliveries s) \<Longrightarrow> Q v s'"
  shows "wp (receiveShipment c i sh version body) Q s"
  unfolding receiveShipment_def openLogisticsException_def Let_def by (intro wp_intros assms) (auto split: if_splits)

text \<open>
  C36. Every shipment command moves a shipment along one edge of its life cycle at most (confirmation by
  the factory, departure or a request to deviate, departure after approval, arrival with or without an
  exception) and never changes what is shipped, when it was planned or where to; new shipments await confirmation.
\<close>

theorem shipment_life_cycle:
  assumes "shipmentCommand c raw s = Inr (v, s')" and "wf_tbl (batches s)" and "wf_tbl (deliveries s)"
  shows "advances (deliveries s) (deliveries s')"
proof -
  have ship: "wp (shipShipment c i sh version body) (\<lambda>_ s'. advances (deliveries s) (deliveries s')) (s\<lparr>versions := vs\<rparr>)"
    if "shipment_row s i = Some sh" for i sh version body vs
    by (rule wp_ship [OF assms(2) that])
      (auto simp: deviation_effect_def dispatch_effect_def shipped_row_def Let_def kept_def moves_simps intro!: advances_update)
  have "wp (shipmentCommand c raw) (\<lambda>_ s'. advances (deliveries s) (deliveries s')) s"
    unfolding shipmentCommand_def jsonObject_def createShipment_def resolveException_def requireShipmentRow_def
    by (intro wp_intros wp_oneOf wp_json_caseI wp_confirm_moves wp_receive_moves ship)
      (use assms(3) in \<open>auto simp: kept_def moves_simps intro!: advances_insert advances_update\<close>)
  from wpD [OF this assms(1)] show ?thesis .
qed

text \<open>A dispatch keeps the stock invariant, everything else leaves stock alone.\<close>

definition deliveries_ok :: "db \<Rightarrow> bool" where
  "deliveries_ok s \<longleftrightarrow> each_row (\<lambda>d. 0 < dl_quantity d) (deliveries s)"

lemma dispatch_keeps_stock:
  assumes "dispatch_effect i sh t x y s s'" and "stock_inv s" and "0 < dl_quantity (sh_delivery sh)"
  shows "stock_inv s'"
proof -
  from assms(1) obtain ds where p: "picked (dl_quantity (sh_delivery sh))
      (released (factory_warehouses s (eo_factory (sh_execution sh))) (oi_sku (sh_item sh))) (batches s) ds"
    and s': "batches s' = deduct ds (batches s)" "reservations s' = reservations s"
    by (auto simp: dispatch_effect_def Let_def)
  have "\<forall>d \<in> set ds. 0 \<le> snd d"
    using picked_facts(3) [OF p stock_invD(1) [OF assms(2)]] assms(3) by (fastforce simp: released_def shippable_def)
  from deduct_stock [OF assms(2) this] show ?thesis
    using s' by (auto intro: stock_inv_cong [THEN iffD1, rotated -1])
qed

lemma shipment_quantity: "shipment_row s i = Some sh \<Longrightarrow> deliveries_ok s \<Longrightarrow> 0 < dl_quantity (sh_delivery sh)"
  by (auto simp: shipment_row_def bind_eq_Some_conv deliveries_ok_def dest: each_rowD)

lemma shipmentCommand_wp:
  assumes "stock_inv s" and "deliveries_ok s"
  shows "wp (shipmentCommand c raw) (\<lambda>_ s'. stock_inv s' \<and> deliveries_ok s') s"
proof -
  have ship: "wp (shipShipment c i sh version body) (\<lambda>_ s'. stock_inv s' \<and> deliveries_ok s') (s\<lparr>versions := vs\<rparr>)"
    if r: "shipment_row s i = Some sh" for i sh version body vs
  proof (rule wp_ship [OF stock_invD(1) [OF assms(1)] r])
    fix v s' assume "deviation_effect i s s'"
    then show "stock_inv s' \<and> deliveries_ok s'"
      using assms by (auto simp: deviation_effect_def stock_tables_def deliveries_ok_def
          intro: stock_inv_cong [THEN iffD1, rotated -1])
  next
    fix v s' t x y assume e: "dispatch_effect i sh t x y s s'"
    then have "deliveries_ok s'"
      using assms(2) by (auto simp: dispatch_effect_def Let_def shipped_row_def deliveries_ok_def)
    with dispatch_keeps_stock [OF e assms(1) shipment_quantity [OF r assms(2)]] show "stock_inv s' \<and> deliveries_ok s'" ..
  qed
  show ?thesis
    unfolding shipmentCommand_def jsonObject_def createShipment_def resolveException_def requireShipmentRow_def
      confirmShipment_def receiveShipment_def openLogisticsException_def requireFactoryBinding_def Let_def
    by (intro wp_intros wp_oneOf wp_json_caseI ship)
      (use assms in \<open>auto simp: deliveries_ok_def\<close>)
qed

section \<open>The properties at concrete shipments\<close>

definition sample_delivery :: "string \<Rightarrow> delivery" where
  "sample_delivery status = \<lparr>dl_order = 1, dl_batch_no = ''D-1'', dl_quantity = 4, dl_planned_ship_at = ''2025-01-02T08:00'',
     dl_shipped_at = None, dl_carrier = [], dl_logistics_no = [], dl_destination = ''X'', dl_requires_approval = False,
     dl_deviation_reason = None, dl_status = status\<rparr>"

definition sample_file :: "string \<Rightarrow> string \<Rightarrow> string \<Rightarrow> file_object" where
  "sample_file category ety eid = \<lparr>fo_object_key = ''key'', fo_category = category, fo_entity_type = Some ety,
     fo_entity_id = Some eid, fo_owner = 1, fo_factory = None, fo_supplier = None, fo_scan_status = ''clean''\<rparr>"

definition sample_execution :: "string \<Rightarrow> execution_order" where
  "sample_execution status = \<lparr>eo_no = ''MO-1'', eo_order_item = 1, eo_factory = 7, eo_bom = None, eo_planned = 9,
     eo_completed = 0, eo_status = status, eo_due_date = None, eo_planned_start = None, eo_planned_finish = None,
     eo_actual_start = None, eo_actual_finish = None\<rparr>"

definition shipment_db :: "string \<Rightarrow> db" where
  "shipment_db status = empty_db\<lparr>
     warehouses := insertT (sample_warehouse ''W-1''\<lparr>w_factory := Some 7\<rparr>) emptyT,
     batches := insertT sample_batch emptyT,
     order_items := insertT \<lparr>oi_order = 1, oi_sku = ''SKU'', oi_product_name = ''P'', oi_item_type = ''finished'',
       oi_supplier = Some 1, oi_quantity = 9, oi_received = 0, oi_unit_price = 1, oi_amount = 9, oi_due_date = None\<rparr> emptyT,
     execution_orders := insertT (sample_execution ''completed'') emptyT,
     deliveries := insertT (sample_delivery status) emptyT,
     files := insertT (sample_file ''shipment_evidence'' ''delivery_batch'' ''1'') emptyT\<rparr>"

lemma shipment_db_simps [simp]:
  "wf_tbl (batches (shipment_db st))" "wf_tbl (deliveries (shipment_db st))"
  by (simp_all add: shipment_db_def)

abbreviation sample_ship :: "(string \<times> json) list" where
  "sample_ship \<equiv> [(''action'', JStr ''ship''), (''deliveryBatchId'', jint 1), (''shippedAt'', JStr ''2025-01-02''),
     (''carrier'', JStr ''C''), (''logisticsNo'', JStr ''L''), (''evidenceFileId'', jint 1)]"

abbreviation sample_plan :: "(string \<times> json) list" where
  "sample_plan \<equiv> [(''action'', JStr ''create''), (''executionOrderId'', jint 1), (''batchNo'', JStr ''D-2''),
     (''quantity'', jint 3), (''plannedShipAt'', JStr ''2025-01-02''), (''destination'', JStr ''X'')]"

lemma sample_ship_run:
  obtains v s' where "shipmentCommand sample_ctx (JObj sample_ship) (shipment_db ''planned'') = Inr (v, s')"
proof -
  have "succeeds (shipmentCommand sample_ctx (JObj sample_ship) (shipment_db ''planned''))" by code_simp
  with that show thesis by (auto elim: succeedsE)
qed

lemma dispatch_exact_witness:
  "\<exists>v s' d. shipmentCommand sample_ctx (JObj sample_ship) (shipment_db ''planned'') = Inr (v, s') \<and>
    fetch (deliveries s') 1 = Some d"
proof -
  obtain v s' where r: "shipmentCommand sample_ctx (JObj sample_ship) (shipment_db ''planned'') = Inr (v, s')"
    by (rule sample_ship_run)
  have a: "fld sample_ship ''action'' = Some (JStr ''ship'')" "to_safe_integer (fld sample_ship ''deliveryBatchId'') = Some 1"
    by (simp_all add: fld_def to_safe_integer_jint)
  obtain sh where sh: "shipment_row (shipment_db ''planned'') 1 = Some sh" "0 \<le> dl_quantity (sh_delivery sh)"
    by (simp add: shipment_row_def shipment_db_def empty_db_def fetch_insertT sample_delivery_def sample_execution_def)
  from dispatch_exact [OF r a sh(1) _ sh(2)] r show ?thesis by auto
qed

lemma plan_within_production_witness:
  "\<exists>v s'. shipmentCommand sample_ctx (JObj sample_plan) (shipment_db ''planned'') = Inr (v, s') \<and>
    planned_quantity (shipment_db ''planned'') 1 < planned_quantity s' 1"
proof -
  have "succeeds (shipmentCommand sample_ctx (JObj sample_plan) (shipment_db ''planned''))" by code_simp
  then obtain v s' where r: "shipmentCommand sample_ctx (JObj sample_plan) (shipment_db ''planned'') = Inr (v, s')"
    by (rule succeedsE)
  have "fld sample_plan ''action'' = Some (JStr ''create'')" "to_safe_integer (fld sample_plan ''executionOrderId'') = Some 1"
    by (simp_all add: fld_def to_safe_integer_jint)
  from plan_within_production [OF r this] r show ?thesis by force
qed

lemma shipment_life_cycle_witness:
  "\<exists>v s'. shipmentCommand sample_ctx (JObj sample_ship) (shipment_db ''planned'') = Inr (v, s') \<and>
    advances (deliveries (shipment_db ''planned'')) (deliveries s')"
proof -
  obtain v s' where r: "shipmentCommand sample_ctx (JObj sample_ship) (shipment_db ''planned'') = Inr (v, s')"
    by (rule sample_ship_run)
  from shipment_life_cycle [OF r] r show ?thesis by simp
qed

end
