(* ===== verification/Production.thy ===== *)
theory Production
  imports Shipments
begin

text \<open>
  \<open>modules/production-orders/writes.ts\<close>: an execution order is created within the purchase-plan
  allocation of its order item, started, reported on (materials consumed and lost are taken from the
  reservations made for the order), completed (within tolerance into the pending bucket of a new batch,
  otherwise into a variance approval), and its unused reservations are freed.
\<close>

section \<open>Reservations of an order\<close>

record pooled =
  rv_id :: int
  rv_batch :: int
  rv_reserved :: int
  rv_warehouse :: int
  rv_sku :: string

definition of_order :: "int \<Rightarrow> reservation \<Rightarrow> bool" where
  "of_order orderId r \<longleftrightarrow> ir_entity_type r = ''production_order'' \<and> ir_entity r = Some orderId"

definition pooled_row :: "db \<Rightarrow> string option \<Rightarrow> int \<times> reservation \<Rightarrow> pooled option" where
  "pooled_row s sku ir = (case fetch (batches s) (ir_batch (snd ir)) of None \<Rightarrow> None
     | Some b \<Rightarrow> if sku = None \<or> sku = Some (ib_sku b)
         then Some \<lparr>rv_id = fst ir, rv_batch = ir_batch (snd ir), rv_reserved = ir_reserved (snd ir),
           rv_warehouse = ib_warehouse b, rv_sku = ib_sku b\<rparr> else None)"

definition readReservationPool :: "db \<Rightarrow> int \<Rightarrow> string option \<Rightarrow> pooled list" where
  "readReservationPool s orderId sku = List.map_filter (pooled_row s sku)
     (sort_key (\<lambda>(i, r). (- ir_priority r, i))
       (select (reservations s) (\<lambda>_ r. of_order orderId r \<and> ir_status r = ''active'')))"

definition requireThawed :: "int \<Rightarrow> string \<Rightarrow> unit run" where
  "requireThawed warehouseId sku =
     bindC (freezeExists warehouseId (Some sku)) (\<lambda>isFrozen.
     guardC (\<not> isFrozen) (conflict ''Inventory is frozen by an active stocktake''))"

definition lockFreezeForPool :: "pooled list \<Rightarrow> unit run" where
  "lockFreezeForPool pool =
     (let pool' = filter (\<lambda>p. 0 < rv_warehouse p) pool in
      eachC (\<lambda>w. eachC (requireThawed w)
          (sort (remdups (map rv_sku (filter (\<lambda>p. rv_warehouse p = w) pool')))))
        (sort (remdups (map rv_warehouse pool'))))"

definition lockActiveReservations :: "int \<Rightarrow> string option \<Rightarrow> pooled list run" where
  "lockActiveReservations orderId sku =
     bindC (queryC (\<lambda>s. readReservationPool s orderId sku)) (\<lambda>pool.
     bindC (lockFreezeForPool pool) (\<lambda>_.
     queryC (\<lambda>s. readReservationPool s orderId sku)))"

text \<open>
  One reservation gives up \<open>taken\<close> units: the new status is computed from the already reduced quantity,
  as MySQL evaluates the assignments of an UPDATE from left to right.
\<close>

definition drawReservation :: "cctx \<Rightarrow> pooled \<Rightarrow> int \<Rightarrow> unit run" where
  "drawReservation c p taken =
     bindC (updateC reservations reservations_update ok_reservation
       (\<lambda>j r. j = rv_id p \<and> (ir_status r = ''active'' \<and> taken \<le> ir_reserved r))
       (\<lambda>r. r\<lparr>ir_reserved := ir_reserved r - taken,
         ir_status := if ir_reserved r - taken = 0 then ''consumed'' else ''active''\<rparr>)) (\<lambda>n.
     bindC (guardC (n = 1) (version_conflict ''Reservation changed concurrently'')) (\<lambda>_.
     bindC (updateC batches batches_update ok_batch (\<lambda>j b. j = rv_batch p \<and> taken \<le> ib_locked b)
       (\<lambda>b. b\<lparr>ib_locked := ib_locked b - taken\<rparr>)) (\<lambda>n.
     bindC (guardC (n = 1) (version_conflict ''Inventory changed concurrently'')) (\<lambda>_.
     bindC (randomUUID (c_env c)) (\<lambda>u.
     recordMovement c (rv_warehouse p) (rv_sku p) ''production_consumption'' (- taken) None
       (''production_consumption:'' @ u))))))"

fun drawReservations :: "cctx \<Rightarrow> pooled list \<Rightarrow> int \<Rightarrow> unit run" where
  "drawReservations c [] remaining = guardC (remaining = 0) (conflict ''Insufficient reserved inventory'')"
| "drawReservations c (p # ps) remaining =
     (if remaining = 0 then returnC ()
      else if rv_reserved p \<le> 0 then drawReservations c ps remaining
      else let taken = min remaining (rv_reserved p) in
        bindC (drawReservation c p taken) (\<lambda>_. drawReservations c ps (remaining - taken)))"

definition consumeReservedInventory :: "cctx \<Rightarrow> pooled list \<Rightarrow> int \<Rightarrow> unit run" where
  "consumeReservedInventory c pool quantity =
     (if quantity \<le> 0 then returnC () else drawReservations c pool quantity)"

definition releaseReservation :: "cctx \<Rightarrow> int \<Rightarrow> pooled \<Rightarrow> int run" where
  "releaseReservation c freed p = (let remaining = rv_reserved p in
     if remaining \<le> 0 then returnC freed
     else
       bindC (updateC reservations reservations_update ok_reservation
         (\<lambda>j r. j = rv_id p \<and> (ir_status r = ''active'' \<and> ir_reserved r = remaining))
         (\<lambda>r. r\<lparr>ir_reserved := 0, ir_status := ''released''\<rparr>)) (\<lambda>n.
       bindC (guardC (n = 1) (version_conflict ''Reservation changed concurrently'')) (\<lambda>_.
       bindC (updateC batches batches_update ok_batch (\<lambda>j b. j = rv_batch p \<and> remaining \<le> ib_locked b)
         (\<lambda>b. b\<lparr>ib_locked := ib_locked b - remaining, ib_available := ib_available b + remaining\<rparr>)) (\<lambda>n.
       bindC (guardC (n = 1) (version_conflict ''Inventory changed concurrently'')) (\<lambda>_.
       bindC (randomUUID (c_env c)) (\<lambda>u.
       bindC (recordMovement c (rv_warehouse p) (rv_sku p) ''production_release'' remaining None
         (''production_release:'' @ u)) (\<lambda>_.
       returnC (freed + remaining))))))))"

definition releaseReservedMaterials :: "cctx \<Rightarrow> int \<Rightarrow> int run" where
  "releaseReservedMaterials c orderId =
     bindC (lockActiveReservations orderId None) (\<lambda>pool.
     bindC (guardC (pool \<noteq> []) (conflict ''No active reservations to release'')) (\<lambda>_.
     bindC (foldC (releaseReservation c) 0 pool) (\<lambda>freed.
     bindC (guardC (0 < freed) (conflict ''No positive reserved quantity to release'')) (\<lambda>_.
     returnC freed))))"

section \<open>Creating an order\<close>

definition finished_item :: "db \<Rightarrow> int \<Rightarrow> (order_item \<times> purchase_order) option" where
  "finished_item s i = Option.bind (fetch (order_items s) i) (\<lambda>oi.
     map_option (\<lambda>po. (oi, po)) (fetch (purchase_orders s) (oi_order oi)))"

definition plan_allocations :: "db \<Rightarrow> int \<Rightarrow> (plan_link \<times> plan_item) list" where
  "plan_allocations s orderItemId = List.map_filter (\<lambda>(_, l). map_option (\<lambda>p. (l, p)) (fetch (plan_items s) (pl_item l)))
     (select (plan_links s) (\<lambda>_ l. pl_order_item l = orderItemId))"

definition allocated :: "(plan_link \<times> plan_item) list \<Rightarrow> int" where
  "allocated ls = sum_list (map (pl_allocated \<circ> fst) ls)"

definition checkAllocation :: "int \<Rightarrow> int \<Rightarrow> string \<Rightarrow> int run" where
  "checkAllocation orderItemId factoryId sku =
     bindC (queryC (\<lambda>s. plan_allocations s orderItemId)) (\<lambda>ls.
     bindC (guardC (ls \<noteq> [] \<and> list_all (\<lambda>(_, p). pi_factory p = factoryId \<and> pi_sku p = sku) ls)
       (forbidden ''Production factory is not the authoritative purchase-plan allocation'')) (\<lambda>_.
     bindC (guardC (0 < allocated ls \<and> allocated ls \<le> 9007199254740991)
       (conflict ''Purchase-plan allocation is invalid'')) (\<lambda>_.
     returnC (allocated ls))))"

definition checkBom :: "int \<Rightarrow> string \<Rightarrow> string option \<Rightarrow> bom run" where
  "checkBom bomId sku orderDate =
     bindC (queryC (\<lambda>s. fetch (boms s) bomId)) (\<lambda>found.
     bindC (requireC found (bad_request ''BOM is not an approved active version for this SKU'')) (\<lambda>b.
     bindC (guardC (bo_finished_sku b = sku \<and> bo_active b \<and> bo_approval b = ''approved'')
       (bad_request ''BOM is not an approved active version for this SKU'')) (\<lambda>_.
     bindC (guardC (case orderDate of None \<Rightarrow> False | Some d \<Rightarrow> bo_from b \<le> d \<and>
         (case bo_to b of None \<Rightarrow> True | Some t \<Rightarrow> d \<le> t))
       (bad_request ''BOM was not effective on the purchase-order date'')) (\<lambda>_.
     returnC b))))"

definition planned_total :: "db \<Rightarrow> int \<Rightarrow> int" where
  "planned_total s orderItemId = sumT (\<lambda>e. if eo_order_item e = orderItemId then eo_planned e else 0) (execution_orders s)"

definition storeMaterialLine :: "int \<Rightarrow> int \<Rightarrow> int \<times> component \<Rightarrow> unit run" where
  "storeMaterialLine orderId planned ic =
     (let theoretical = bc_per_finished (snd ic) * planned in
      bindC (insertC material_lines material_lines_update ok_line
        \<lparr>ml_order = orderId, ml_component = fst ic, ml_theoretical = theoretical, ml_reserved = theoretical,
         ml_issued = 0, ml_consumed = 0, ml_loss = 0, ml_deviation = ''within_tolerance''\<rparr>) (\<lambda>_. returnC ()))"

definition createProductionOrder :: "cctx \<Rightarrow> json \<Rightarrow> json run" where
  "createProductionOrder c raw =
     bindC (requireRole (c_access c) [''admin'', ''supply_chain'', ''factory'']) (\<lambda>_.
     bindC (jsonObject raw) (\<lambda>body.
     bindC (integer (fld body ''orderItemId'') ''orderItemId'' 1) (\<lambda>orderItemId.
     bindC (integer (fld body ''factoryId'') ''factoryId'' 1) (\<lambda>factoryId.
     bindC (requireFactoryBinding (c_access c) factoryId) (\<lambda>_.
     bindC (integer (fld body ''bomId'') ''bomId'' 1) (\<lambda>bomId.
     bindC (integer (fld body ''plannedQuantity'') ''plannedQuantity'' 1) (\<lambda>planned.
     bindC (stringC (fld body ''plannedStartDate'') ''plannedStartDate'' 100) (\<lambda>startDate.
     bindC (stringC (fld body ''plannedFinishDate'') ''plannedFinishDate'' 100) (\<lambda>finishDate.
     bindC (guardC (startDate \<le> finishDate) (bad_request ''Invalid production date range'')) (\<lambda>_.
     bindC (queryC (\<lambda>s. finished_item s orderItemId)) (\<lambda>found.
     bindC (requireC found (bad_request ''Production order requires a finished-good order item'')) (\<lambda>(oi, po).
     bindC (guardC (oi_item_type oi = ''finished'')
       (bad_request ''Production order requires a finished-good order item'')) (\<lambda>_.
     bindC (checkAllocation orderItemId factoryId (oi_sku oi)) (\<lambda>allocatedQuantity.
     bindC (checkBom bomId (oi_sku oi) (po_order_date po)) (\<lambda>b.
     bindC (queryC (\<lambda>s. planned_total s orderItemId)) (\<lambda>cumulative.
     bindC (guardC (cumulative + planned \<le> allocatedQuantity)
       (conflict ''Production plan exceeds authoritative allocated quantity'')) (\<lambda>_.
     bindC (randomUUID (c_env c)) (\<lambda>u. let executionNo = ''MO-'' @ u in
     bindC (insertC execution_orders execution_orders_update ok_execution
       \<lparr>eo_no = executionNo, eo_order_item = orderItemId, eo_factory = factoryId, eo_bom = Some bomId,
        eo_planned = planned, eo_completed = 0, eo_status = ''planned'', eo_due_date = oi_due_date oi,
        eo_planned_start = Some startDate, eo_planned_finish = Some finishDate,
        eo_actual_start = None, eo_actual_finish = None\<rparr>) (\<lambda>i.
     bindC (queryC (\<lambda>s. select (components s) (\<lambda>_ x. bc_bom x = bomId))) (\<lambda>cs.
     bindC (eachC (storeMaterialLine i planned) cs) (\<lambda>_.
     bindC (lockVersion ''execution_order'' (show_int i)) (\<lambda>_.
     bindC (audit c ''create'' ''production'' ''execution_order'' (show_int i) (Some executionNo) None
       (Some (JObj [(''orderItemId'', jint orderItemId), (''factoryId'', jint factoryId), (''bomId'', jint bomId),
         (''bomVersion'', JStr (bo_version b)), (''plannedQuantity'', jint planned),
         (''allocatedQuantity'', jint allocatedQuantity), (''cumulativePlanned'', jint (cumulative + planned)),
         (''plannedStartDate'', JStr startDate), (''plannedFinishDate'', JStr finishDate)]))) (\<lambda>_.
     bindC (domainEvent c ''ProductionOrderCreated'' ''execution_order'' (show_int i) None RNone
       [(''bomId'', jint bomId), (''bomVersion'', JStr (bo_version b)),
        (''materialLineCount'', jint (int (length cs)))]) (\<lambda>_.
     returnC (JObj [(''order'', JObj [(''id'', jint i), (''executionNo'', JStr executionNo),
       (''orderItemId'', jint orderItemId), (''factoryId'', jint factoryId), (''bomId'', jint bomId),
       (''plannedQuantity'', jint planned), (''status'', JStr ''planned''), (''version'', jint 1)])])))))))))))))))))))))))))"

section \<open>Material reports\<close>

text \<open>
  \<open>Math.round(|actual - expected| * 10000 / expected)\<close>. Its operands are columns below \<open>2^31\<close> or values that are
  stored into such a column afterwards (a larger one fails there), so the double arithmetic rounds as the exact one.
\<close>

definition deviationBps :: "int \<Rightarrow> int \<Rightarrow> int" where
  "deviationBps actual expected =
     (if expected \<le> 0 then (if actual = expected then 0 else 10000)
      else math_round_ratio (\<bar>actual - expected\<bar> * 10000) expected)"

definition line_row :: "db \<Rightarrow> int \<Rightarrow> int \<Rightarrow> (material_line \<times> component) option" where
  "line_row s i orderId = Option.bind (fetch (material_lines s) i) (\<lambda>l.
     if ml_order l = orderId then map_option (\<lambda>b. (l, b)) (fetch (components s) (ml_component l)) else None)"

definition exceeds :: "material_line \<Rightarrow> component \<Rightarrow> int \<Rightarrow> int \<Rightarrow> int \<Rightarrow> bool" where
  "exceeds l b issued consumed loss \<longleftrightarrow> bc_issue_bps b < deviationBps issued (ml_theoretical l) \<or>
     bc_consumption_bps b < deviationBps consumed (ml_theoretical l) \<or>
     bc_loss_bps b < deviationBps loss (ml_theoretical l)"

definition updateMaterial :: "cctx \<Rightarrow> int \<Rightarrow> bool \<Rightarrow> json \<Rightarrow> bool run" where
  "updateMaterial c orderId deviation v =
     bindC (jsonObject v) (\<lambda>input.
     bindC (integer (fld input ''id'') ''material.id'' 1) (\<lambda>i.
     bindC (integer (fld input ''issuedQuantity'') ''issuedQuantity'' 0) (\<lambda>issued.
     bindC (integer (fld input ''consumedQuantity'') ''consumedQuantity'' 0) (\<lambda>consumed.
     bindC (integer (fld input ''lossQuantity'') ''lossQuantity'' 0) (\<lambda>loss.
     bindC (guardC (consumed + loss \<le> issued)
       (conflict ''Material consumption and loss exceed issued quantity'')) (\<lambda>_.
     bindC (queryC (\<lambda>s. line_row s i orderId)) (\<lambda>found.
     bindC (requireC found (not_found ''Production material line not found'')) (\<lambda>(l, b).
     bindC (guardC (ml_issued l \<le> issued \<and> ml_consumed l \<le> consumed \<and> ml_loss l \<le> loss)
       (conflict ''Material quantities cannot be decreased'')) (\<lambda>_.
     bindC (lockActiveReservations orderId (Some (bc_sku b))) (\<lambda>pool.
     bindC (guardC (issued \<le> ml_consumed l + ml_loss l + sum_list (map rv_reserved pool))
       (conflict ''Issued quantity exceeds real inventory reservations'')) (\<lambda>_.
     bindC (updateC material_lines material_lines_update ok_line (\<lambda>j r. j = i \<and> ml_order r = orderId)
       (\<lambda>r. r\<lparr>ml_issued := issued, ml_consumed := consumed, ml_loss := loss,
         ml_deviation := if exceeds l b issued consumed loss then ''pending_approval'' else ''within_tolerance''\<rparr>)) (\<lambda>n.
     bindC (guardC (n = 1) (version_conflict ''Material line changed concurrently'')) (\<lambda>_.
     bindC (consumeReservedInventory c pool ((consumed - ml_consumed l) + (loss - ml_loss l))) (\<lambda>_.
     returnC (deviation \<or> exceeds l b issued consumed loss)))))))))))))))"

definition updateMaterials :: "cctx \<Rightarrow> int \<Rightarrow> json option \<Rightarrow> bool run" where
  "updateMaterials c orderId raw = (case raw of
     Some (JArr vs) \<Rightarrow> foldC (updateMaterial c orderId) False vs | _ \<Rightarrow> returnC False)"

section \<open>Completion\<close>

definition production_warehouse :: "db \<Rightarrow> int \<Rightarrow> int option" where
  "production_warehouse s factoryId = (case sort_key (\<lambda>(i, w). (if w_type w = ''factory'' then 0 else 1 :: nat, i))
       (select (warehouses s) (\<lambda>_ w. w_factory w = Some factoryId \<and> w_status w = ''active'')) of
     [] \<Rightarrow> None | (i, _) # _ \<Rightarrow> Some i)"

definition storeCompleted :: "cctx \<Rightarrow> int \<Rightarrow> execution_order \<Rightarrow> string \<Rightarrow> int \<Rightarrow> int \<Rightarrow> unit run" where
  "storeCompleted c i e sku reportId actual =
     bindC (queryC (\<lambda>s. production_warehouse s (eo_factory e))) (\<lambda>found.
     bindC (requireC found (conflict ''Factory has no active production warehouse'')) (\<lambda>w.
     bindC (guardC (0 < w) (conflict ''Factory has no active production warehouse'')) (\<lambda>_.
     bindC (lockWarehouseFreeze w) (\<lambda>_.
     bindC (freezeExists w (Some sku)) (\<lambda>isFrozen.
     bindC (guardC (\<not> isFrozen) (conflict ''Production warehouse is frozen by a stocktake'')) (\<lambda>_.
     bindC (insertC batches batches_update ok_batch
       \<lparr>ib_batch_no = ''PROD-'' @ eo_no e @ ''-'' @ show_int reportId @ ''-C'', ib_warehouse = w, ib_sku = sku,
        ib_production_date = Some (sql_today (c_env c)), ib_inbound_date = sql_today (c_env c), ib_expiry_date = None,
        ib_available = 0, ib_locked = 0, ib_defective = 0, ib_pending = actual, ib_quarantine = 0,
        ib_ownership = ''company'', ib_expiry_status = ''normal''\<rparr>) (\<lambda>batchId.
     bindC (updateC reports reports_update ok_report (\<lambda>j _. j = reportId \<and> True)
       (\<lambda>r. r\<lparr>rp_batch := Some batchId\<rparr>)) (\<lambda>_.
     bindC (recordMovement c w sku ''inbound_pending_inspection'' actual None
       (''production_report:'' @ show_int reportId @ '':company'')) (\<lambda>_.
     bindC (updateC material_lines material_lines_update ok_line (\<lambda>_ r. ml_order r = i)
       (\<lambda>r. r\<lparr>ml_reserved := 0\<rparr>)) (\<lambda>_. returnC ()))))))))))"

definition requestVariance :: "cctx \<Rightarrow> int \<Rightarrow> string \<Rightarrow> int \<Rightarrow> bool \<Rightarrow> bool \<Rightarrow> bool \<Rightarrow> int run" where
  "requestVariance c i orderNo reportId surplus shortfall deviation =
     bindC (randomUUID (c_env c)) (\<lambda>u.
     insertC approvals approvals_update ok_approval
       \<lparr>ap_request_no = ''APR-PROD-'' @ u, ap_workflow = ''production_variance'', ap_entity_type = ''production_report'',
        ap_entity_id = reportId, ap_summary = ''Production variance '' @ orderNo,
        ap_payload = JObj [(''executionOrderId'', jint i), (''overproduction'', JBool surplus),
          (''underproduction'', JBool shortfall), (''materialDeviation'', JBool deviation)],
        ap_high_risk = False, ap_status = ''pending'', ap_requested_by = a_user (c_access c),
        ap_reviewed_by = None, ap_review_comment = None, ap_sms_verified = False,
        ap_updated_at = sql_ms (c_env c)\<rparr>)"

definition tolerance_of :: "db \<Rightarrow> string \<Rightarrow> int" where
  "tolerance_of s sku = (case select (skus s) (\<lambda>_ k. sk_code k = sku) of [] \<Rightarrow> 0 | (_, k) # _ \<Rightarrow> sk_over_production_bps k)"

definition completeOrder :: "cctx \<Rightarrow> int \<Rightarrow> execution_order \<Rightarrow> string \<Rightarrow> bool \<Rightarrow> int \<Rightarrow> (string \<times> json) list \<Rightarrow> json run" where
  "completeOrder c i e sku deviation version body =
     bindC (guardC (eo_status e \<in> set [''planned'', ''in_production''])
       (conflict ''Production order cannot be completed from its current state'')) (\<lambda>_.
     bindC (integer (fld body ''actualFinishedQuantity'') ''actualFinishedQuantity'' 0) (\<lambda>actual.
     bindC (queryC (\<lambda>s. tolerance_of s sku)) (\<lambda>tolerance.
     let variance = actual - eo_planned e; rate = deviationBps actual (eo_planned e);
         surplus = (0 < variance \<and> tolerance < rate); shortfall = (variance < 0);
         pending = (surplus \<or> shortfall \<or> deviation);
         status = (if pending then ''variance_pending'' else ''completed'') in
     bindC (insertC reports reports_update ok_report
       \<lparr>rp_order = i, rp_actual = actual, rp_variance = variance, rp_rate_bps = rate,
        rp_result = (if surplus then ''overproduction_quarantined'' else if shortfall then ''underproduction_pending''
          else ''within_tolerance''),
        rp_company = (if pending then 0 else actual), rp_factory_owned = 0, rp_reported_by = a_user (c_access c),
        rp_batch = None, rp_reviewed_by = None\<rparr>) (\<lambda>reportId.
     bindC (updateC execution_orders execution_orders_update ok_execution
       (\<lambda>j r. j = i \<and> eo_status r \<in> set [''planned'', ''in_production''])
       (\<lambda>r. r\<lparr>eo_status := status, eo_completed := actual, eo_actual_finish := Some (sql_now (c_env c))\<rparr>)) (\<lambda>claimed.
     bindC (guardC (claimed = 1) (version_conflict ''Production order changed concurrently'')) (\<lambda>_.
     bindC (if pending then bindC (requestVariance c i (eo_no e) reportId surplus shortfall deviation)
              (\<lambda>a. returnC [(''approvalId'', jint a)])
            else if 0 < actual then bindC (storeCompleted c i e sku reportId actual) (\<lambda>_. returnC [])
            else returnC []) (\<lambda>approvalId.
     bindC (bumpVersion ''execution_order'' (show_int i) version) (\<lambda>nextVersion.
     bindC (audit c ''complete'' ''production'' ''execution_order'' (show_int i) (Some (eo_no e))
       (Some (JObj [(''status'', JStr (eo_status e))]))
       (Some (JObj ([(''status'', JStr status), (''actualFinishedQuantity'', jint actual),
         (''reportId'', jint reportId)] @ approvalId @ [(''version'', jint nextVersion)])))) (\<lambda>_.
     bindC (domainEvent c (if pending then ''ProductionVarianceRequested'' else ''ProductionOrderCompleted'')
       ''execution_order'' (show_int i) None RNone ((''reportId'', jint reportId) # approvalId)) (\<lambda>_.
     returnC (JObj ([(''success'', JBool True), (''id'', jint i), (''reportId'', jint reportId),
       (''status'', JStr status)] @ approvalId @ [(''version'', jint nextVersion)]))))))))))))"

section \<open>The transition command\<close>

definition execution_row :: "db \<Rightarrow> int \<Rightarrow> (execution_order \<times> string) option" where
  "execution_row s i = Option.bind (fetch (execution_orders s) i) (\<lambda>e.
     map_option (\<lambda>oi. (e, oi_sku oi)) (fetch (order_items s) (eo_order_item e)))"

definition releaseMaterials :: "cctx \<Rightarrow> int \<Rightarrow> execution_order \<Rightarrow> int \<Rightarrow> json run" where
  "releaseMaterials c i e version =
     bindC (guardC (eo_status e \<in> set [''planned'', ''in_production''])
       (conflict ''Production order cannot release materials from its current state'')) (\<lambda>_.
     bindC (releaseReservedMaterials c i) (\<lambda>freed.
     bindC (bumpVersion ''execution_order'' (show_int i) version) (\<lambda>nextVersion.
     bindC (audit c ''release_materials'' ''production'' ''execution_order'' (show_int i) (Some (eo_no e)) None
       (Some (JObj [(''releasedQuantity'', jint freed), (''version'', jint nextVersion)]))) (\<lambda>_.
     bindC (domainEvent c ''ProductionReservationReleased'' ''execution_order'' (show_int i)
       (Some (show_int nextVersion)) RNone []) (\<lambda>_.
     returnC (JObj [(''success'', JBool True), (''id'', jint i), (''releasedQuantity'', jint freed),
       (''version'', jint nextVersion)]))))))"

definition startOrder :: "cctx \<Rightarrow> int \<Rightarrow> execution_order \<Rightarrow> int \<Rightarrow> json run" where
  "startOrder c i e version =
     bindC (updateC execution_orders execution_orders_update ok_execution (\<lambda>j r. j = i \<and> eo_status r = ''planned'')
       (\<lambda>r. r\<lparr>eo_status := ''in_production'', eo_actual_start := Some (sql_now (c_env c))\<rparr>)) (\<lambda>updated.
     bindC (guardC (updated = 1) (version_conflict ''Production order cannot be started'')) (\<lambda>_.
     bindC (bumpVersion ''execution_order'' (show_int i) version) (\<lambda>nextVersion.
     bindC (audit c ''start'' ''production'' ''execution_order'' (show_int i) (Some (eo_no e))
       (Some (JObj [(''status'', JStr (eo_status e))]))
       (Some (JObj [(''status'', JStr ''in_production''), (''version'', jint nextVersion)]))) (\<lambda>_.
     bindC (domainEvent c ''ProductionOrderStarted'' ''execution_order'' (show_int i) None RNone []) (\<lambda>_.
     returnC (JObj [(''success'', JBool True), (''id'', jint i), (''status'', JStr ''in_production''),
       (''version'', jint nextVersion)]))))))"

definition reportMaterials :: "cctx \<Rightarrow> int \<Rightarrow> execution_order \<Rightarrow> bool \<Rightarrow> int \<Rightarrow> json run" where
  "reportMaterials c i e deviation version =
     bindC (bumpVersion ''execution_order'' (show_int i) version) (\<lambda>nextVersion.
     bindC (audit c ''materials'' ''production'' ''execution_order'' (show_int i) (Some (eo_no e)) None
       (Some (JObj [(''materialDeviation'', JBool deviation), (''version'', jint nextVersion)]))) (\<lambda>_.
     bindC (domainEvent c ''ProductionMaterialsReported'' ''execution_order'' (show_int i)
       (Some (show_int nextVersion)) RNone []) (\<lambda>_.
     returnC (JObj [(''success'', JBool True), (''id'', jint i), (''status'', JStr (eo_status e)),
       (''materialDeviation'', JBool deviation), (''version'', jint nextVersion)]))))"

definition transitionProductionOrder :: "cctx \<Rightarrow> json \<Rightarrow> json run" where
  "transitionProductionOrder c raw =
     bindC (requireRole (c_access c) [''admin'', ''supply_chain'', ''factory'']) (\<lambda>_.
     bindC (jsonObject raw) (\<lambda>body.
     bindC (integer (fld body ''id'') ''id'' 1) (\<lambda>i.
     bindC (oneOf (fld body ''action'') [''start'', ''materials'', ''complete'', ''release_materials''] ''action'') (\<lambda>action.
     bindC (queryC (\<lambda>s. execution_row s i)) (\<lambda>found.
     bindC (requireC found (not_found ''Production order not found'')) (\<lambda>(e, sku).
     bindC (requireFactoryBinding (c_access c) (eo_factory e)) (\<lambda>_.
     bindC (lockVersion ''execution_order'' (show_int i)) (\<lambda>version.
     if action = ''release_materials'' then releaseMaterials c i e version
     else if action = ''start'' then startOrder c i e version
     else
       bindC (updateMaterials c i (fld body ''materials'')) (\<lambda>deviation.
       if action = ''materials'' then reportMaterials c i e deviation version
       else completeOrder c i e sku deviation version body)))))))))"

section \<open>Drawing on a reservation\<close>

text \<open>A reservation and its batch give up the same quantity: the locked bucket still covers what is claimed.\<close>

lemma stock_inv_settle:
  assumes inv: "stock_inv s" and r: "fetch (reservations s) i = Some r" "ir_status r = ''active''" "p r"
    and b: "fetch (batches s) (ir_batch r) = Some b" and t: "0 \<le> t" "t \<le> ir_reserved r" "t \<le> ib_locked b" "0 \<le> d"
    and bs: "batches s' = updateT (\<lambda>j b. j = ir_batch r \<and> t \<le> ib_locked b)
      (\<lambda>b. b\<lparr>ib_locked := ib_locked b - t, ib_available := ib_available b + d\<rparr>) (batches s)"
    and rs: "reservations s' = updateT (\<lambda>j r. j = i \<and> p r) f (reservations s)"
    and f: "ir_reserved (f r) = ir_reserved r - t" "ir_batch (f r) = ir_batch r" "ir_shortage (f r) = ir_shortage r"
      "ir_requested (f r) = ir_requested r" "claims (ir_batch r) (f r) = ir_reserved r - t"
  shows "stock_inv s'"
proof -
  have claims: "claims j (f r) = (if j = ir_batch r then ir_reserved r - t else 0)" for j
    using f(2,5) by (auto simp: claims_def)
  have before: "claims j r = (if j = ir_batch r then ir_reserved r else 0)" for j
    using r(2) by (auto simp: claims_def)
  have on: "reserved_on s' j = reserved_on s j - (if j = ir_batch r then t else 0)" for j
    using r stock_invD(2) [OF inv]
    by (simp add: reserved_on_def rs sumT_update_key claims before)
  have "buckets_ok (b\<lparr>ib_locked := ib_locked b - t, ib_available := ib_available b + d\<rparr>)"
    using stock_invD(3) [OF inv b] t by (simp add: buckets_ok_def)
  moreover have "reservation_ok (f r)" using stock_invD(5) [OF inv r(1)] f(1,3,4) t by (simp add: reservation_ok_def)
  moreover have "0 \<le> reserved_on s j" for j using inv by (rule reserved_on_nonneg)
  ultimately show ?thesis
    using inv r b t(3) f(2) unfolding stock_inv_def bs rs
    by (auto simp: fetch_updateT on split: if_splits)
qed

text \<open>What an order holds: available and locked stock of a SKU; what its reports used up of a SKU.\<close>

definition held :: "db \<Rightarrow> string \<Rightarrow> int" where
  "held s k = sumT (\<lambda>b. if ib_sku b = k then ib_available b + ib_locked b else 0) (batches s)"

definition used :: "db \<Rightarrow> string \<Rightarrow> int" where
  "used s k = sumT (\<lambda>l. if map_option bc_sku (fetch (components s) (ml_component l)) = Some k
     then ml_consumed l + ml_loss l else 0) (material_lines s)"

text \<open>The state without stock, movements and the identifiers drawn.\<close>

definition unstocked :: "db \<Rightarrow> db" where
  "unstocked s = s\<lparr>batches := emptyT, reservations := emptyT, movements := emptyT, uuid_seq := 0\<rparr>"

lemma unstocked_simps [simp]:
  "unstocked (batches_update f1 s) = unstocked s"
  "unstocked (reservations_update f2 s) = unstocked s"
  "unstocked (movements_update f3 s) = unstocked s"
  "unstocked (uuid_seq_update f4 s) = unstocked s"
  by (simp_all add: unstocked_def)

lemma unstockedD:
  assumes "unstocked s' = unstocked s"
  shows "material_lines s' = material_lines s" "components s' = components s" "execution_orders s' = execution_orders s"
    "stocktakes s' = stocktakes s" "counts s' = counts s" "versions s' = versions s" "warehouses s' = warehouses s"
    "reports s' = reports s" "approvals s' = approvals s" "order_items s' = order_items s"
  by (use arg_cong [OF assms, of material_lines] arg_cong [OF assms, of components] arg_cong [OF assms, of execution_orders]
      arg_cong [OF assms, of stocktakes] arg_cong [OF assms, of counts] arg_cong [OF assms, of versions]
      arg_cong [OF assms, of warehouses] arg_cong [OF assms, of reports] arg_cong [OF assms, of approvals]
      arg_cong [OF assms, of order_items] in \<open>simp_all add: unstocked_def\<close>)

text \<open>Only the locked bucket of batches shrinks, and only reservations of the order change.\<close>

definition unlocks :: "int \<Rightarrow> db \<Rightarrow> db \<Rightarrow> bool" where
  "unlocks orderId s s' \<longleftrightarrow>
     (\<forall>j b. fetch (batches s) j = Some b \<longrightarrow> (\<exists>q\<ge>0. fetch (batches s') j = Some (b\<lparr>ib_locked := ib_locked b - q\<rparr>))) \<and>
     (\<forall>j. fetch (batches s) j = None \<longrightarrow> fetch (batches s') j = None) \<and>
     (\<forall>j r. fetch (reservations s) j = Some r \<longrightarrow> (\<exists>r'. fetch (reservations s') j = Some r' \<and>
       (of_order orderId r \<or> r' = r) \<and> ir_batch r' = ir_batch r \<and> of_order orderId r' = of_order orderId r))"

lemma unlocks_refl: "unlocks orderId s s"
  by (auto simp: unlocks_def intro!: exI [of _ "0::int"])

lemma unlocks_trans:
  assumes "unlocks orderId s t" and "unlocks orderId t u"
  shows "unlocks orderId s u"
  unfolding unlocks_def
proof (intro conjI allI impI)
  fix j b assume "fetch (batches s) j = Some b"
  with assms(1) obtain q where "0 \<le> q" "fetch (batches t) j = Some (b\<lparr>ib_locked := ib_locked b - q\<rparr>)"
    unfolding unlocks_def by blast
  moreover from assms(2) this(2) obtain q' where "0 \<le> q'"
    "fetch (batches u) j = Some (b\<lparr>ib_locked := ib_locked b - q\<rparr>\<lparr>ib_locked := ib_locked (b\<lparr>ib_locked := ib_locked b - q\<rparr>) - q'\<rparr>)"
    unfolding unlocks_def by blast
  ultimately show "\<exists>q\<ge>0. fetch (batches u) j = Some (b\<lparr>ib_locked := ib_locked b - q\<rparr>)"
    by (intro exI [of _ "q + q'"]) (simp add: algebra_simps)
next
  fix j assume "fetch (batches s) j = None"
  with assms show "fetch (batches u) j = None" by (simp add: unlocks_def)
next
  fix j r assume "fetch (reservations s) j = Some r"
  with assms(1) obtain x where "fetch (reservations t) j = Some x" and x: "of_order orderId r \<or> x = r"
    "ir_batch x = ir_batch r" "of_order orderId x = of_order orderId r" unfolding unlocks_def by blast
  moreover from assms(2) this(1) obtain y where "fetch (reservations u) j = Some y" and "of_order orderId x \<or> y = x"
    "ir_batch y = ir_batch x" "of_order orderId y = of_order orderId x" unfolding unlocks_def by blast
  ultimately show "\<exists>r'. fetch (reservations u) j = Some r' \<and> (of_order orderId r \<or> r' = r) \<and> ir_batch r' = ir_batch r \<and>
      of_order orderId r' = of_order orderId r" by auto
qed

text \<open>The effect of drawing \<open>n\<close> units of a SKU from the reservations of an order.\<close>

definition draws :: "int \<Rightarrow> string \<Rightarrow> int \<Rightarrow> db \<Rightarrow> db \<Rightarrow> bool" where
  "draws orderId k n s s' \<longleftrightarrow> stock_inv s' \<and> unstocked s' = unstocked s \<and>
     (\<forall>k'. held s' k' = held s k' - (if k' = k then n else 0)) \<and> unlocks orderId s s'"

lemma draws_refl: "stock_inv s \<Longrightarrow> draws orderId k 0 s s"
  by (simp add: draws_def unlocks_refl)

lemma draws_trans: "draws orderId k m s t \<Longrightarrow> draws orderId k n t u \<Longrightarrow> draws orderId k (m + n) s u"
  by (auto simp: draws_def intro: unlocks_trans)

definition pool_ok :: "int \<Rightarrow> string \<Rightarrow> pooled list \<Rightarrow> db \<Rightarrow> bool" where
  "pool_ok orderId k ps s \<longleftrightarrow> (\<forall>p \<in> set ps. (\<forall>r. fetch (reservations s) (rv_id p) = Some r \<longrightarrow>
     of_order orderId r \<and> ir_batch r = rv_batch p) \<and> (\<forall>b. fetch (batches s) (rv_batch p) = Some b \<longrightarrow> ib_sku b = k))"

lemma pool_ok_draws:
  assumes "pool_ok orderId k ps s" and "draws orderId k n s s'" and "set qs \<subseteq> set ps"
    and "\<forall>p \<in> set ps. fetch (reservations s) (rv_id p) \<noteq> None \<and> fetch (batches s) (rv_batch p) \<noteq> None"
  shows "pool_ok orderId k qs s'"
  unfolding pool_ok_def
proof (intro ballI conjI allI impI)
  fix p assume "p \<in> set qs"
  then have p: "p \<in> set ps" using assms(3) by blast
  obtain r b where r: "fetch (reservations s) (rv_id p) = Some r" and b: "fetch (batches s) (rv_batch p) = Some b"
    using assms(4) p by fastforce
  have *: "of_order orderId r" "ir_batch r = rv_batch p" "ib_sku b = k" using assms(1) p r b by (auto simp: pool_ok_def)
  {
    fix r' assume "fetch (reservations s') (rv_id p) = Some r'"
    moreover obtain x where "fetch (reservations s') (rv_id p) = Some x" "ir_batch x = ir_batch r"
      "of_order orderId x = of_order orderId r" using assms(2) r unfolding draws_def unlocks_def by blast
    ultimately show "of_order orderId r'" and "ir_batch r' = rv_batch p" using * by simp_all
  }
  fix b' assume "fetch (batches s') (rv_batch p) = Some b'"
  moreover obtain q where "fetch (batches s') (rv_batch p) = Some (b\<lparr>ib_locked := ib_locked b - q\<rparr>)"
    using assms(2) b unfolding draws_def unlocks_def by blast
  ultimately show "ib_sku b' = k" using *(3) by auto
qed

lemma wp_drawReservation:
  assumes "stock_inv s" and "pool_ok orderId k [p] s" and "0 < n"
    and "\<And>s'. draws orderId k n s s' \<Longrightarrow> Q () s'"
  shows "wp (drawReservation c p n) Q s"
proof -
  let ?rs = "updateT (\<lambda>j r. j = rv_id p \<and> (ir_status r = ''active'' \<and> n \<le> ir_reserved r))
       (\<lambda>r. r\<lparr>ir_reserved := ir_reserved r - n, ir_status := if ir_reserved r = n then ''consumed'' else ''active''\<rparr>)"
  let ?bs = "updateT (\<lambda>j b. j = rv_batch p \<and> n \<le> ib_locked b) (\<lambda>b. b\<lparr>ib_locked := ib_locked b - n\<rparr>)"
  have step: "draws orderId k n s (movements_update f (uuid_seq_update g (batches_update ?bs (reservations_update ?rs s))))"
    if r: "fetch (reservations s) (rv_id p) = Some r" "ir_status r = ''active''" "n \<le> ir_reserved r"
      and b: "fetch (batches s) (rv_batch p) = Some b" "n \<le> ib_locked b" for r b f g
  proof -
    let ?s = "movements_update f (uuid_seq_update g (batches_update ?bs (reservations_update ?rs s)))"
    have ok: "of_order orderId r" "ir_batch r = rv_batch p" "ib_sku b = k" using assms(2) r b by (auto simp: pool_ok_def)
    have "stock_inv (batches_update ?bs (reservations_update ?rs s))"
      by (rule stock_inv_settle [OF assms(1) r(1,2) _ _ _ r(3) b(2), where d = 0 and
            p = "\<lambda>r. ir_status r = ''active'' \<and> n \<le> ir_reserved r" and f = "\<lambda>r. r\<lparr>ir_reserved := ir_reserved r - n,
              ir_status := if ir_reserved r = n then ''consumed'' else ''active''\<rparr>"])
        (use r b ok assms(3) in \<open>simp_all add: claims_def\<close>)
    then have "stock_inv ?s" by simp
    moreover have "held ?s k' = held s k' - (if k' = k then n else 0)" for k'
      using b ok(3) by (simp add: held_def sumT_update_key stock_invD(1) [OF assms(1)])
    moreover have "\<exists>q\<ge>0. fetch (batches ?s) j = Some (x\<lparr>ib_locked := ib_locked x - q\<rparr>)"
      if "fetch (batches s) j = Some x" for j x
      using that b assms(3) by (cases "j = rv_batch p")
        (auto simp: fetch_updateT intro: exI [of _ n] exI [of _ "0::int"])
    moreover have "\<exists>y. fetch (reservations ?s) j = Some y \<and> (of_order orderId x \<or> y = x) \<and> ir_batch y = ir_batch x \<and>
        of_order orderId y = of_order orderId x" if "fetch (reservations s) j = Some x" for j x
      using that r ok by (cases "j = rv_id p") (auto simp: fetch_updateT of_order_def)
    moreover have "fetch (batches ?s) j = None" if "fetch (batches s) j = None" for j
      using that by (simp add: fetch_updateT)
    ultimately show ?thesis by (simp add: draws_def unlocks_def)
  qed
  have wf: "wf_tbl (reservations s)" "wf_tbl (batches s)" using stock_invD [OF assms(1)] by simp_all
  show ?thesis
    unfolding drawReservation_def
    by (intro wp_intros) (use wf in \<open>auto simp: matched_one intro!: assms(4) step\<close>)
qed

lemma wp_drawReservations:
  assumes "stock_inv s" and "pool_ok orderId k ps s" and "0 \<le> n"
    and "\<forall>p \<in> set ps. fetch (reservations s) (rv_id p) \<noteq> None \<and> fetch (batches s) (rv_batch p) \<noteq> None"
    and "\<And>s'. draws orderId k n s s' \<Longrightarrow> Q () s'"
  shows "wp (drawReservations c ps n) Q s"
proof -
  have "wp (drawReservations c ps n) (\<lambda>_ s'. draws orderId k n s s') s"
    using assms(1-4)
  proof (induction ps arbitrary: s n)
    case Nil
    then show ?case by (auto simp: wp_guard intro: draws_refl)
  next
    case (Cons p ps)
    have pk: "pool_ok orderId k [p] s" "pool_ok orderId k ps s" using Cons.prems(2) by (simp_all add: pool_ok_def)
    have rest: "wp (drawReservations c ps (n - m)) (\<lambda>_ s'. draws orderId k n s s') s1"
      if d: "draws orderId k m s s1" and "m \<le> n" for s1 m
    proof -
      have "wp (drawReservations c ps (n - m)) (\<lambda>_ s'. draws orderId k (n - m) s1 s') s1"
      proof (rule Cons.IH)
        show "stock_inv s1" using d by (simp add: draws_def)
        show "pool_ok orderId k ps s1" by (rule pool_ok_draws [OF Cons.prems(2) d _ Cons.prems(4)]) auto
        show "\<forall>p \<in> set ps. fetch (reservations s1) (rv_id p) \<noteq> None \<and> fetch (batches s1) (rv_batch p) \<noteq> None"
          using Cons.prems(4) d unfolding draws_def unlocks_def by fastforce
      qed (use that in simp)
      then show ?thesis by (rule wp_mono) (use draws_trans [OF d] in force)
    qed
    show ?case
    proof (cases "n = 0 \<or> rv_reserved p \<le> 0")
      case True
      have "draws orderId k 0 s s" using Cons.prems(1) by (rule draws_refl)
      with True rest [OF this] Cons.prems(1,3) show ?thesis by (auto simp: wp_return)
    next
      case False
      then have "0 < min n (rv_reserved p)" using Cons.prems(3) by simp
      with False show ?thesis
        by (simp add: wp_bind Let_def) (rule wp_drawReservation [OF Cons.prems(1) pk(1)], simp_all add: rest)
    qed
  qed
  then show ?thesis by (rule wp_mono) (use assms(5) in auto)
qed

section \<open>Reporting materials\<close>

lemma reservation_poolD:
  assumes "p \<in> set (readReservationPool s orderId sku)" and "wf_tbl (reservations s)"
  obtains r b where "fetch (reservations s) (rv_id p) = Some r" and "of_order orderId r" and "ir_status r = ''active''"
    and "rv_reserved p = ir_reserved r" and "ir_batch r = rv_batch p" and "fetch (batches s) (rv_batch p) = Some b"
    and "ib_sku b = rv_sku p" and "ib_warehouse b = rv_warehouse p" and "sku = None \<or> sku = Some (rv_sku p)"
proof -
  from assms(1) obtain i r where "(i, r) \<in> set (rows (reservations s))" and r: "of_order orderId r" "ir_status r = ''active''"
    and p: "pooled_row s sku (i, r) = Some p"
    by (auto simp: readReservationPool_def map_filter_def select_rows)
  then have "fetch (reservations s) i = Some r" using assms(2) by (simp add: fetch_rows)
  moreover from p obtain b where b: "fetch (batches s) (ir_batch r) = Some b" "sku = None \<or> sku = Some (ib_sku b)"
    "p = \<lparr>rv_id = i, rv_batch = ir_batch r, rv_reserved = ir_reserved r, rv_warehouse = ib_warehouse b, rv_sku = ib_sku b\<rparr>"
    by (auto simp: pooled_row_def split: option.splits if_splits)
  ultimately show thesis by (intro that [of r b]) (use r in simp_all)
qed

lemma pool_ok_read:
  "wf_tbl (reservations s) \<Longrightarrow> pool_ok orderId k (readReservationPool s orderId (Some k)) s"
  "wf_tbl (reservations s) \<Longrightarrow> p \<in> set (readReservationPool s orderId sku) \<Longrightarrow>
    fetch (reservations s) (rv_id p) \<noteq> None \<and> fetch (batches s) (rv_batch p) \<noteq> None"
  by (auto simp: pool_ok_def elim!: reservation_poolD)

lemma readReservationPool_versions [simp]:
  "readReservationPool (s\<lparr>versions := vs\<rparr>) orderId sku = readReservationPool s orderId sku"
proof -
  have "pooled_row (s\<lparr>versions := vs\<rparr>) sku = pooled_row s sku" by (simp add: fun_eq_iff pooled_row_def)
  then show ?thesis by (simp add: readReservationPool_def)
qed

lemma wp_lockFreezeForPool:
  "wp (lockFreezeForPool ps) (\<lambda>_ s'. (\<exists>vs. s' = s\<lparr>versions := vs\<rparr>) \<and>
     (\<forall>p \<in> set ps. 0 < rv_warehouse p \<longrightarrow> \<not> frozen s (rv_warehouse p) (Some (rv_sku p)))) s"
proof -
  let ?ps = "filter (\<lambda>p. 0 < rv_warehouse p) ps"
  let ?ks = "\<lambda>w. sort (remdups (map rv_sku (filter (\<lambda>p. rv_warehouse p = w) ?ps)))"
  have inner: "wp (eachC (requireThawed w) ks) (\<lambda>_ s'. (\<exists>vs. s' = s\<lparr>versions := vs\<rparr>) \<and>
      (\<forall>k \<in> set ks. \<not> frozen s w (Some k))) s1" if "\<exists>vs. s1 = s\<lparr>versions := vs\<rparr>" for w ks s1
  proof (rule wp_each_all [where P = "\<lambda>k s'. \<not> frozen s w (Some k)"])
    fix k s1 assume "\<exists>vs. s1 = s\<lparr>versions := vs\<rparr>"
    then obtain vs where s1: "s1 = s\<lparr>versions := vs\<rparr>" ..
    show "wp (requireThawed w k) (\<lambda>_ s'. (\<exists>vs. s' = s\<lparr>versions := vs\<rparr>) \<and> \<not> frozen s w (Some k) \<and>
        (\<forall>y. \<not> frozen s w (Some y) \<longrightarrow> \<not> frozen s w (Some y))) s1"
      unfolding requireThawed_def s1 by (intro wp_intros) (simp, blast)
  qed (rule that)
  have "wp (lockFreezeForPool ps) (\<lambda>_ s'. (\<exists>vs. s' = s\<lparr>versions := vs\<rparr>) \<and>
      (\<forall>w \<in> set (sort (remdups (map rv_warehouse ?ps))). \<forall>k \<in> set (?ks w). \<not> frozen s w (Some k))) s"
    unfolding lockFreezeForPool_def Let_def
  proof (rule wp_each_all [where P = "\<lambda>w s'. \<forall>k \<in> set (?ks w). \<not> frozen s w (Some k)"])
    fix w s1 assume "\<exists>vs. s1 = s\<lparr>versions := vs\<rparr>"
    then show "wp (eachC (requireThawed w) (?ks w)) (\<lambda>_ s'. (\<exists>vs. s' = s\<lparr>versions := vs\<rparr>) \<and>
        (\<forall>k \<in> set (?ks w). \<not> frozen s w (Some k)) \<and>
        (\<forall>y. (\<forall>k \<in> set (?ks y). \<not> frozen s y (Some k)) \<longrightarrow> (\<forall>k \<in> set (?ks y). \<not> frozen s y (Some k)))) s1"
      by (intro wp_mono [OF inner]) simp_all
  qed (rule exI [of _ "versions s"], simp)
  then show ?thesis by (rule wp_mono) fastforce
qed

lemma wp_lockActiveReservations:
  assumes "\<And>vs. \<forall>p \<in> set (readReservationPool s orderId sku). 0 < rv_warehouse p \<longrightarrow>
      \<not> frozen s (rv_warehouse p) (Some (rv_sku p)) \<Longrightarrow> Q (readReservationPool s orderId sku) (s\<lparr>versions := vs\<rparr>)"
  shows "wp (lockActiveReservations orderId sku) Q s"
  unfolding lockActiveReservations_def
  by (intro wp_intros, rule wp_mono [OF wp_lockFreezeForPool], elim conjE exE, hypsubst)
    (simp add: wp_query assms)

text \<open>The state without stock, material lines and versions.\<close>

definition idle :: "db \<Rightarrow> db" where
  "idle s = (unstocked s)\<lparr>material_lines := emptyT, versions := (\<lambda>_. None)\<rparr>"

lemma idle_simps [simp]:
  "idle (material_lines_update f1 s) = idle s" "idle (versions_update f2 s) = idle s"
  "idle (batches_update f3 s) = idle s" "idle (reservations_update f4 s) = idle s"
  "idle (movements_update f5 s) = idle s" "idle (uuid_seq_update f6 s) = idle s"
  by (simp_all add: idle_def unstocked_def)

lemma idleD:
  assumes "idle s' = idle s"
  shows "components s' = components s" "execution_orders s' = execution_orders s"
    "stocktakes s' = stocktakes s" "counts s' = counts s" "warehouses s' = warehouses s"
    "reports s' = reports s" "approvals s' = approvals s" "order_items s' = order_items s" "skus s' = skus s"
  by (use arg_cong [OF assms, of components] arg_cong [OF assms, of execution_orders]
      arg_cong [OF assms, of stocktakes] arg_cong [OF assms, of counts]
      arg_cong [OF assms, of warehouses] arg_cong [OF assms, of reports] arg_cong [OF assms, of approvals]
      arg_cong [OF assms, of order_items] arg_cong [OF assms, of skus] in \<open>simp_all add: idle_def unstocked_def\<close>)

text \<open>What reporting materials does to the state: what the lines use more, the locked stock holds less.\<close>

definition worked :: "int \<Rightarrow> db \<Rightarrow> db \<Rightarrow> bool" where
  "worked orderId s s' \<longleftrightarrow> stock_inv s' \<and> wf_tbl (material_lines s') \<and> idle s' = idle s \<and>
     (\<forall>k. held s' k + used s' k = held s k + used s k) \<and> unlocks orderId s s'"

lemma worked_refl: "stock_inv s \<Longrightarrow> wf_tbl (material_lines s) \<Longrightarrow> worked orderId s s"
  by (simp add: worked_def unlocks_refl)

lemma worked_trans: "worked orderId s t \<Longrightarrow> worked orderId t u \<Longrightarrow> worked orderId s u"
  by (auto simp: worked_def intro: unlocks_trans)

lemma line_rowD:
  "line_row s i orderId = Some (l, b) \<Longrightarrow> fetch (material_lines s) i = Some l \<and> ml_order l = orderId \<and>
    fetch (components s) (ml_component l) = Some b"
  by (auto simp: line_row_def bind_eq_Some_conv split: if_splits)

definition line_reported :: "material_line \<Rightarrow> component \<Rightarrow> int \<Rightarrow> int \<Rightarrow> int \<Rightarrow> material_line \<Rightarrow> material_line" where
  "line_reported l b issued consumed loss r = r\<lparr>ml_issued := issued, ml_consumed := consumed, ml_loss := loss,
     ml_deviation := if exceeds l b issued consumed loss then ''pending_approval'' else ''within_tolerance''\<rparr>"

lemma worked_line:
  assumes row: "line_row s i orderId = Some (l, b)" and wf: "wf_tbl (material_lines s)"
    and d: "draws orderId (bc_sku b) ((consumed - ml_consumed l) + (loss - ml_loss l))
      (material_lines_update (updateT (\<lambda>j r. j = i \<and> ml_order r = orderId) (line_reported l b issued consumed loss))
        (s\<lparr>versions := vs\<rparr>)) s'"
  shows "worked orderId s s'"
proof -
  let ?t = "updateT (\<lambda>j r. j = i \<and> ml_order r = orderId) (line_reported l b issued consumed loss) (material_lines s)"
  let ?n = "(consumed - ml_consumed l) + (loss - ml_loss l)"
  from d have inv: "stock_inv s'" and un: "unlocks orderId s s'"
    and h: "held s' k = held s k - (if k = bc_sku b then ?n else 0)" for k
    by (simp_all add: draws_def unlocks_def held_def)
  have same: "unstocked s' = unstocked (material_lines_update (\<lambda>_. ?t) (s\<lparr>versions := vs\<rparr>))"
    using d by (simp add: draws_def unstocked_def)
  have lines: "material_lines s' = ?t" and comps: "components s' = components s"
    using unstockedD(1,2) [OF same] by simp_all
  have l: "fetch (material_lines s) i = Some l" "ml_order l = orderId" "fetch (components s) (ml_component l) = Some b"
    using line_rowD [OF row] by simp_all
  have "used s' k = used s k + (if k = bc_sku b then ?n else 0)" for k
    using l by (simp add: used_def lines comps sumT_update_key [OF wf] line_reported_def)
  moreover have "idle s' = idle s"
  proof -
    have "idle s' = (unstocked s')\<lparr>material_lines := emptyT, versions := (\<lambda>_. None)\<rparr>" by (simp add: idle_def)
    also have "\<dots> = (unstocked (material_lines_update (\<lambda>_. ?t) (s\<lparr>versions := vs\<rparr>)))\<lparr>material_lines := emptyT,
        versions := (\<lambda>_. None)\<rparr>" by (simp only: same)
    also have "\<dots> = idle s" by (simp add: idle_def unstocked_def)
    finally show ?thesis .
  qed
  ultimately show ?thesis using inv un wf h by (simp add: worked_def lines)
qed

lemma wp_consume:
  assumes "stock_inv s" and "pool = readReservationPool s orderId (Some k)" and "0 \<le> n"
    and "\<And>s'. draws orderId k n s s' \<Longrightarrow> Q () s'"
  shows "wp (consumeReservedInventory c pool n) Q s"
proof -
  have wf: "wf_tbl (reservations s)" using stock_invD(2) [OF assms(1)] .
  show ?thesis
    unfolding consumeReservedInventory_def
    by (intro wp_intros wp_drawReservations [OF assms(1)] assms(4))
      (use assms(2,3) pool_ok_read(1) [OF wf] pool_ok_read(2) [OF wf] draws_refl [OF assms(1)] in auto)
qed

lemma readReservationPool_lines [simp]:
  "readReservationPool (material_lines_update f s) orderId sku = readReservationPool s orderId sku"
proof -
  have "pooled_row (material_lines_update f s) sku = pooled_row s sku" by (simp add: fun_eq_iff pooled_row_def)
  then show ?thesis by (simp add: readReservationPool_def)
qed

lemma wp_updateMaterial:
  assumes "stock_inv s" and "wf_tbl (material_lines s)" and "\<And>dv s'. worked orderId s s' \<Longrightarrow> Q dv s'"
  shows "wp (updateMaterial c orderId deviation v) Q s"
proof -
  have step: "wp (consumeReservedInventory c (readReservationPool s orderId (Some (bc_sku b)))
        ((consumed - ml_consumed l) + (loss - ml_loss l))) (\<lambda>_. wp (returnC dv) Q)
      (material_lines_update (updateT (\<lambda>j r. j = i \<and> ml_order r = orderId) (line_reported l b issued consumed loss))
        (s\<lparr>versions := vs\<rparr>))"
    if row: "line_row s i orderId = Some (l, b)" and le: "ml_consumed l \<le> consumed" "ml_loss l \<le> loss"
    for i l b issued consumed loss vs dv
    by (rule wp_consume) (use assms(1) le in \<open>auto simp: wp_return intro!: assms(3) intro: worked_line [OF row assms(2)]\<close>)
  show ?thesis
    unfolding updateMaterial_def line_reported_def [symmetric]
    by (intro wp_intros wp_lockActiveReservations) (use step in \<open>auto simp: wp_simps\<close>)
qed

lemma wp_updateMaterials:
  assumes "stock_inv s" and "wf_tbl (material_lines s)" and "\<And>dv s'. worked orderId s s' \<Longrightarrow> Q dv s'"
  shows "wp (updateMaterials c orderId raw) Q s"
proof -
  have "wp (foldC (updateMaterial c orderId) False vs) (\<lambda>_ s'. worked orderId s s') s" for vs
  proof (rule wp_foldI [where I = "\<lambda>_ s'. worked orderId s s'"])
    fix dv v s1 assume w: "worked orderId s s1"
    then have "stock_inv s1" "wf_tbl (material_lines s1)" by (simp_all add: worked_def)
    then show "wp (updateMaterial c orderId dv v) (\<lambda>_ s'. worked orderId s s') s1"
      by (rule wp_updateMaterial) (rule worked_trans [OF w])
  qed (rule worked_refl [OF assms(1,2)])
  then have "wp (foldC (updateMaterial c orderId) False vs) Q s" for vs
    by (rule wp_mono) (rule assms(3))
  then show ?thesis
    unfolding updateMaterials_def
    by (auto split: option.split json.split simp: wp_return intro: assms(3) worked_refl [OF assms(1,2)])
qed

section \<open>Releasing\<close>

definition releases :: "int \<Rightarrow> int \<Rightarrow> db \<Rightarrow> db \<Rightarrow> bool" where
  "releases orderId n s s' \<longleftrightarrow> stock_inv s' \<and> unstocked s' = unstocked s \<and>
     (\<forall>j b. fetch (batches s) j = Some b \<longrightarrow> (\<exists>q\<ge>0. fetch (batches s') j =
       Some (b\<lparr>ib_locked := ib_locked b - q, ib_available := ib_available b + q\<rparr>))) \<and>
     (\<forall>k. held s' k = held s k) \<and>
     sumT (\<lambda>r. if of_order orderId r \<and> ir_status r = ''active'' then ir_reserved r else 0) (reservations s') =
       sumT (\<lambda>r. if of_order orderId r \<and> ir_status r = ''active'' then ir_reserved r else 0) (reservations s) - n \<and>
     (\<forall>j r. fetch (reservations s) j = Some r \<and> \<not> of_order orderId r \<longrightarrow> fetch (reservations s') j = Some r)"

lemma releases_refl: "stock_inv s \<Longrightarrow> releases orderId 0 s s"
  by (auto simp: releases_def intro!: exI [of _ "0::int"])

lemma releases_trans:
  assumes "releases orderId m s t" and "releases orderId n t u"
  shows "releases orderId (m + n) s u"
proof -
  have "\<exists>q\<ge>0. fetch (batches u) j = Some (b\<lparr>ib_locked := ib_locked b - q, ib_available := ib_available b + q\<rparr>)"
    if "fetch (batches s) j = Some b" for j b
  proof -
    from assms(1) that obtain q where q: "0 \<le> q" and
      t: "fetch (batches t) j = Some (b\<lparr>ib_locked := ib_locked b - q, ib_available := ib_available b + q\<rparr>)"
      unfolding releases_def by blast
    let ?b = "b\<lparr>ib_locked := ib_locked b - q, ib_available := ib_available b + q\<rparr>"
    from assms(2) t obtain q' where "0 \<le> q'" and
      "fetch (batches u) j = Some (?b\<lparr>ib_locked := ib_locked ?b - q', ib_available := ib_available ?b + q'\<rparr>)"
      unfolding releases_def by blast
    with q show ?thesis by (intro exI [of _ "q + q'"]) (simp add: algebra_simps)
  qed
  moreover have "stock_inv u" "unstocked u = unstocked s" "\<forall>k. held u k = held s k"
    using assms by (simp_all add: releases_def)
  moreover have "sumT (\<lambda>r. if of_order orderId r \<and> ir_status r = ''active'' then ir_reserved r else 0) (reservations u) =
       sumT (\<lambda>r. if of_order orderId r \<and> ir_status r = ''active'' then ir_reserved r else 0) (reservations s) - (m + n)"
    using assms by (simp add: releases_def)
  moreover have "\<forall>j r. fetch (reservations s) j = Some r \<and> \<not> of_order orderId r \<longrightarrow> fetch (reservations u) j = Some r"
    using assms unfolding releases_def by blast
  ultimately show ?thesis unfolding releases_def by blast
qed

lemma wp_releaseReservation:
  assumes inv: "stock_inv s" and p: "\<forall>r. fetch (reservations s) (rv_id p) = Some r \<longrightarrow> of_order orderId r \<and> ir_batch r = rv_batch p"
    and "\<And>s'. releases orderId (max 0 (rv_reserved p)) s s' \<Longrightarrow>
      \<forall>j. j \<noteq> rv_id p \<longrightarrow> fetch (reservations s') j = fetch (reservations s) j \<Longrightarrow> Q (freed + max 0 (rv_reserved p)) s'"
  shows "wp (releaseReservation c freed p) Q s"
proof -
  let ?n = "rv_reserved p"
  let ?rs = "updateT (\<lambda>j r. j = rv_id p \<and> (ir_status r = ''active'' \<and> ir_reserved r = ?n))
       (\<lambda>r. r\<lparr>ir_reserved := 0, ir_status := ''released''\<rparr>)"
  let ?bs = "updateT (\<lambda>j b. j = rv_batch p \<and> ?n \<le> ib_locked b)
       (\<lambda>b. b\<lparr>ib_locked := ib_locked b - ?n, ib_available := ib_available b + ?n\<rparr>)"
  have wf: "wf_tbl (reservations s)" "wf_tbl (batches s)" using stock_invD [OF inv] by simp_all
  have step: "Q (freed + ?n) (movements_update f (uuid_seq_update g (batches_update ?bs (reservations_update ?rs s))))"
    if r: "fetch (reservations s) (rv_id p) = Some r" "ir_status r = ''active''" "ir_reserved r = ?n"
      and b: "fetch (batches s) (rv_batch p) = Some b" "?n \<le> ib_locked b" and n: "0 < ?n" for r b f g
  proof -
    let ?s = "movements_update f (uuid_seq_update g (batches_update ?bs (reservations_update ?rs s)))"
    have ok: "of_order orderId r" "ir_batch r = rv_batch p" using p r(1) by auto
    have "stock_inv (batches_update ?bs (reservations_update ?rs s))"
      by (rule stock_inv_settle [OF inv r(1,2) _ _ _ _ b(2), where d = ?n and
            p = "\<lambda>r. ir_status r = ''active'' \<and> ir_reserved r = ?n" and f = "\<lambda>r. r\<lparr>ir_reserved := 0, ir_status := ''released''\<rparr>"])
        (use r b ok n in \<open>simp_all add: claims_def\<close>)
    moreover have "held ?s k = held s k" for k
      using b by (simp add: held_def sumT_update_key [OF wf(2)])
    moreover have "\<exists>q\<ge>0. fetch (batches ?s) j = Some (x\<lparr>ib_locked := ib_locked x - q, ib_available := ib_available x + q\<rparr>)"
      if "fetch (batches s) j = Some x" for j x
      using that b n by (cases "j = rv_batch p") (auto simp: fetch_updateT intro: exI [of _ ?n] exI [of _ "0::int"])
    moreover have "sumT (\<lambda>r. if of_order orderId r \<and> ir_status r = ''active'' then ir_reserved r else 0) (reservations ?s) =
       sumT (\<lambda>r. if of_order orderId r \<and> ir_status r = ''active'' then ir_reserved r else 0) (reservations s) - ?n"
      using r ok by (simp add: sumT_update_key [OF wf(1)] of_order_def)
    ultimately show ?thesis
      using n ok r by (intro assms(3) [THEN back_subst [where P = "\<lambda>v. Q v ?s"]]) (auto simp: releases_def fetch_updateT option.map_ident)
  qed
  have none: "Q freed s" if "?n \<le> 0"
  proof -
    have "max 0 ?n = 0" using that by simp
    with assms(3) [of s] releases_refl [OF inv] show ?thesis by simp
  qed
  show ?thesis
    unfolding releaseReservation_def Let_def
    by (intro wp_intros) (use wf in \<open>auto simp: matched_one intro!: step none\<close>)
qed

lemma wp_releaseAll:
  assumes "stock_inv s" and "distinct (map rv_id ps)" and
    "\<forall>p \<in> set ps. \<forall>r. fetch (reservations s) (rv_id p) = Some r \<longrightarrow> of_order orderId r \<and> ir_batch r = rv_batch p"
  shows "wp (foldC (releaseReservation c) freed ps) (\<lambda>n s'. releases orderId (n - freed) s s') s"
  using assms
proof (induction ps arbitrary: freed s)
  case Nil
  then show ?case by (simp add: wp_return releases_refl)
next
  case (Cons p ps)
  have rest: "wp (foldC (releaseReservation c) (freed + n) ps) (\<lambda>m s'. releases orderId (m - freed) s s') s1"
    if d: "releases orderId n s s1" and same: "\<forall>j. j \<noteq> rv_id p \<longrightarrow> fetch (reservations s1) j = fetch (reservations s) j" for s1 n
  proof -
    have "wp (foldC (releaseReservation c) (freed + n) ps) (\<lambda>m s'. releases orderId (m - (freed + n)) s1 s') s1"
    proof (rule Cons.IH)
      show "stock_inv s1" using d by (simp add: releases_def)
      have "fetch (reservations s1) (rv_id q) = fetch (reservations s) (rv_id q)" if "q \<in> set ps" for q
      proof -
        have "rv_id q \<in> rv_id ` set ps" using that by simp
        then have "rv_id q \<noteq> rv_id p" using Cons.prems(2) by auto
        with same show ?thesis by blast
      qed
      with Cons.prems(3) show "\<forall>p \<in> set ps. \<forall>r. fetch (reservations s1) (rv_id p) = Some r \<longrightarrow>
          of_order orderId r \<and> ir_batch r = rv_batch p" by simp
    qed (use Cons.prems(2) in simp)
    then show ?thesis
      by (rule wp_mono) (use releases_trans [OF d] in \<open>fastforce simp: algebra_simps\<close>)
  qed
  show ?case
    unfolding foldC.simps
    by (rule wp_bindI, rule wp_releaseReservation [OF Cons.prems(1)]) (use Cons.prems(3) rest in auto)
qed

lemma distinct_pool: "wf_tbl (reservations s) \<Longrightarrow> distinct (map rv_id (readReservationPool s orderId sku))"
proof -
  assume wf: "wf_tbl (reservations s)"
  have "distinct (map rv_id (List.map_filter (pooled_row s sku) xs))" if "distinct (map fst xs)" for xs
    using that
  proof (induction xs)
    case (Cons x xs)
    have "rv_id p \<in> fst ` set xs" if "p \<in> set (List.map_filter (pooled_row s sku) xs)" for p
      using that by (force simp: map_filter_def pooled_row_def split: option.splits if_splits)
    moreover have "rv_id p = fst x" if "pooled_row s sku x = Some p" for p
      using that by (auto simp: pooled_row_def split: option.splits if_splits)
    ultimately show ?case using Cons by (cases "pooled_row s sku x") (auto simp: map_filter_simps)
  qed (simp add: map_filter_simps)
  moreover have "distinct (map fst (sort_key f (select (reservations s) P)))" for f :: "int \<times> reservation \<Rightarrow> int \<times> int" and P
  proof -
    have "distinct (map fst (select (reservations s) P))"
      using wf by (simp add: wf_tbl_def select_def distinct_map_filter)
    then show ?thesis by (simp add: distinct_map)
  qed
  ultimately show ?thesis by (simp add: readReservationPool_def)
qed

lemma wp_releaseReservedMaterials:
  assumes "stock_inv s" and "\<And>n s' vs. 0 < n \<Longrightarrow> releases orderId n (s\<lparr>versions := vs\<rparr>) s' \<Longrightarrow> Q n s'"
  shows "wp (releaseReservedMaterials c orderId) Q s"
proof -
  have wf: "wf_tbl (reservations s)" using stock_invD(2) [OF assms(1)] .
  have pool: "\<forall>p \<in> set (readReservationPool s orderId None). \<forall>r. fetch (reservations (s\<lparr>versions := vs\<rparr>)) (rv_id p) = Some r \<longrightarrow>
      of_order orderId r \<and> ir_batch r = rv_batch p" for vs
    using wf by (auto elim!: reservation_poolD)
  show ?thesis
    unfolding releaseReservedMaterials_def
    by (intro wp_intros wp_lockActiveReservations, rule wp_mono [OF wp_releaseAll])
      (use assms pool distinct_pool [OF wf] in \<open>auto simp: wp_simps\<close>)
qed

section \<open>Completing\<close>

text \<open>What completing an order does: its goods arrive for inspection, or the variance waits for approval.\<close>

definition completed_batch :: "execution_order \<Rightarrow> string \<Rightarrow> int \<Rightarrow> db \<Rightarrow> batch \<Rightarrow> bool" where
  "completed_batch e sku actual s b \<longleftrightarrow> ib_sku b = sku \<and> ib_pending b = actual \<and> ib_available b = 0 \<and> ib_locked b = 0 \<and>
     ib_defective b = 0 \<and> ib_quarantine b = 0 \<and> \<not> frozen s (ib_warehouse b) (Some sku) \<and>
     (\<exists>w. (ib_warehouse b, w) \<in> set (rows (warehouses s)) \<and> w_factory w = Some (eo_factory e) \<and> w_status w = ''active'')"

definition in_tolerance :: "db \<Rightarrow> execution_order \<Rightarrow> string \<Rightarrow> int \<Rightarrow> bool" where
  "in_tolerance s e sku actual \<longleftrightarrow> eo_planned e \<le> actual \<and>
     (eo_planned e < actual \<longrightarrow> deviationBps actual (eo_planned e) \<le> tolerance_of s sku)"

definition closed_as :: "string \<Rightarrow> int \<Rightarrow> int \<Rightarrow> db \<Rightarrow> db \<Rightarrow> bool" where
  "closed_as status i actual s s' \<longleftrightarrow> (\<exists>t. execution_orders s' =
     updateT (\<lambda>j r. j = i \<and> eo_status r \<in> set [''planned'', ''in_production''])
       (\<lambda>r. r\<lparr>eo_status := status, eo_completed := actual, eo_actual_finish := Some t\<rparr>) (execution_orders s))"

definition variance_effect :: "int \<Rightarrow> int \<Rightarrow> db \<Rightarrow> db \<Rightarrow> bool" where
  "variance_effect i actual s s' \<longleftrightarrow> closed_as ''variance_pending'' i actual s s' \<and> stock_tables s' = stock_tables s \<and>
     material_lines s' = material_lines s \<and> components s' = components s \<and>
     (\<exists>a. approvals s' = insertT a (approvals s) \<and> ap_workflow a = ''production_variance'' \<and> ap_status a = ''pending'')"

definition finished_effect :: "int \<Rightarrow> execution_order \<Rightarrow> string \<Rightarrow> int \<Rightarrow> db \<Rightarrow> db \<Rightarrow> bool" where
  "finished_effect i e sku actual s s' \<longleftrightarrow> closed_as ''completed'' i actual s s' \<and> reservations s' = reservations s \<and>
     components s' = components s \<and> approvals s' = approvals s \<and>
     (if 0 < actual then (\<exists>b. completed_batch e sku actual s b \<and> batches s' = insertT b (batches s)) \<and>
       material_lines s' = updateT (\<lambda>_ r. ml_order r = i) (\<lambda>r. r\<lparr>ml_reserved := 0\<rparr>) (material_lines s)
      else batches s' = batches s \<and> material_lines s' = material_lines s)"

lemma production_warehouseD:
  assumes "production_warehouse s f = Some w"
  shows "\<exists>x. (w, x) \<in> set (rows (warehouses s)) \<and> w_factory x = Some f \<and> w_status x = ''active''"
proof -
  let ?xs = "sort_key (\<lambda>(i, w). (if w_type w = ''factory'' then 0 else 1 :: nat, i))
       (select (warehouses s) (\<lambda>_ w. w_factory w = Some f \<and> w_status w = ''active''))"
  from assms obtain x ys where "?xs = (w, x) # ys" by (auto simp: production_warehouse_def split: list.splits)
  then have "(w, x) \<in> set ?xs" by simp
  then show ?thesis by (auto simp: select_rows)
qed

lemma wp_storeCompleted:
  assumes "\<And>b f1 f2 vs. completed_batch e sku actual s b \<Longrightarrow>
    Q () (material_lines_update (updateT (\<lambda>_ r. ml_order r = i) (\<lambda>r. r\<lparr>ml_reserved := 0\<rparr>))
      (movements_update f1 (reports_update f2 (batches_update (insertT b) (s\<lparr>versions := vs\<rparr>)))))"
  shows "wp (storeCompleted c i e sku reportId actual) Q s"
  unfolding storeCompleted_def
  by (intro wp_intros) (auto intro!: assms simp: completed_batch_def dest: production_warehouseD)

lemma completed_batch_reports [simp]:
  "completed_batch e sku n (reports_update f1 s) b = completed_batch e sku n s b"
  "completed_batch e sku n (execution_orders_update f2 s) b = completed_batch e sku n s b"
  "completed_batch e sku n (s\<lparr>versions := vs\<rparr>) b = completed_batch e sku n s b"
  by (simp_all add: completed_batch_def frozen_def)

lemma wp_completeOrder:
  assumes "\<And>actual v s'. to_safe_integer (fld body ''actualFinishedQuantity'') = Some actual \<Longrightarrow> 0 \<le> actual \<Longrightarrow>
      eo_status e \<in> {''planned'', ''in_production''} \<Longrightarrow> \<not> (in_tolerance s e sku actual \<and> \<not> deviation) \<Longrightarrow>
      variance_effect i actual s s' \<Longrightarrow> Q v s'"
    and "\<And>actual v s'. to_safe_integer (fld body ''actualFinishedQuantity'') = Some actual \<Longrightarrow> 0 \<le> actual \<Longrightarrow>
      eo_status e \<in> {''planned'', ''in_production''} \<Longrightarrow> in_tolerance s e sku actual \<and> \<not> deviation \<Longrightarrow>
      finished_effect i e sku actual s s' \<Longrightarrow> Q v s'"
  shows "wp (completeOrder c i e sku deviation version body) Q s"
  unfolding completeOrder_def requestVariance_def Let_def
  apply (intro wp_intros wp_storeCompleted)
    apply (rule assms(1), assumption, assumption, simp, force simp: in_tolerance_def)
    apply (simp add: variance_effect_def closed_as_def stock_tables_def, blast)
   apply (rule assms(2), assumption, assumption, simp, force simp: in_tolerance_def)
   apply (auto simp: finished_effect_def closed_as_def) []
  apply (rule assms(2), assumption, assumption, simp, force simp: in_tolerance_def)
  apply (auto simp: finished_effect_def closed_as_def)
  done

section \<open>The transition as a whole\<close>

lemma stock_side [simp]:
  "held (s\<lparr>versions := vs\<rparr>) k = held s k" "used (s\<lparr>versions := vs\<rparr>) k = used s k"
  "held (audit_logs_update f1 s) k = held s k" "used (audit_logs_update f1 s) k = used s k"
  "held (outbox_messages_update f2 s) k = held s k" "used (outbox_messages_update f2 s) k = used s k"
  "held (execution_orders_update f3 s) k = held s k" "used (execution_orders_update f3 s) k = used s k"
  by (simp_all add: held_def used_def)

text \<open>The four ways a transition ends; \<open>s1\<close> is the state after the materials were reported.\<close>

lemma wp_transitionProductionOrder:
  assumes "stock_inv s" and "wf_tbl (material_lines s)"
    and rel: "\<And>body i e sku n v s' s2 vs. raw = JObj body \<Longrightarrow> to_safe_integer (fld body ''id'') = Some i \<Longrightarrow>
      fld body ''action'' = Some (JStr ''release_materials'') \<Longrightarrow> execution_row s i = Some (e, sku) \<Longrightarrow>
      eo_status e \<in> {''planned'', ''in_production''} \<Longrightarrow> 0 < n \<Longrightarrow> releases i n (s\<lparr>versions := vs\<rparr>) s2 \<Longrightarrow>
      stock_tables s' = stock_tables s2 \<Longrightarrow> material_lines s' = material_lines s2 \<Longrightarrow> components s' = components s2 \<Longrightarrow>
      (\<exists>x. v = JObj [(''success'', JBool True), (''id'', jint i), (''releasedQuantity'', jint n), (''version'', x)]) \<Longrightarrow> Q v s'"
    and start: "\<And>body i v s'. raw = JObj body \<Longrightarrow> to_safe_integer (fld body ''id'') = Some i \<Longrightarrow>
      fld body ''action'' = Some (JStr ''start'') \<Longrightarrow> stock_tables s' = stock_tables s \<Longrightarrow>
      material_lines s' = material_lines s \<Longrightarrow> components s' = components s \<Longrightarrow> Q v s'"
    and mat: "\<And>body i v s' s1. raw = JObj body \<Longrightarrow> to_safe_integer (fld body ''id'') = Some i \<Longrightarrow>
      fld body ''action'' = Some (JStr ''materials'') \<Longrightarrow> worked i s s1 \<Longrightarrow> stock_tables s' = stock_tables s1 \<Longrightarrow>
      material_lines s' = material_lines s1 \<Longrightarrow> components s' = components s1 \<Longrightarrow> Q v s'"
    and var: "\<And>body i e sku actual dv v s' s1. raw = JObj body \<Longrightarrow> to_safe_integer (fld body ''id'') = Some i \<Longrightarrow>
      fld body ''action'' = Some (JStr ''complete'') \<Longrightarrow> execution_row s i = Some (e, sku) \<Longrightarrow> worked i s s1 \<Longrightarrow>
      to_safe_integer (fld body ''actualFinishedQuantity'') = Some actual \<Longrightarrow> 0 \<le> actual \<Longrightarrow>
      eo_status e \<in> {''planned'', ''in_production''} \<Longrightarrow> \<not> (in_tolerance s1 e sku actual \<and> \<not> dv) \<Longrightarrow>
      variance_effect i actual s1 s' \<Longrightarrow> Q v s'"
    and fin: "\<And>body i e sku actual v s' s1. raw = JObj body \<Longrightarrow> to_safe_integer (fld body ''id'') = Some i \<Longrightarrow>
      fld body ''action'' = Some (JStr ''complete'') \<Longrightarrow> execution_row s i = Some (e, sku) \<Longrightarrow> worked i s s1 \<Longrightarrow>
      to_safe_integer (fld body ''actualFinishedQuantity'') = Some actual \<Longrightarrow> 0 \<le> actual \<Longrightarrow>
      eo_status e \<in> {''planned'', ''in_production''} \<Longrightarrow> in_tolerance s1 e sku actual \<Longrightarrow>
      finished_effect i e sku actual s1 s' \<Longrightarrow> Q v s'"
  shows "wp (transitionProductionOrder c raw) Q s"
proof -
  have w: "worked i s s1" if "worked i (s\<lparr>versions := vs\<rparr>) s1" for i s1 vs
    using that by (simp add: worked_def unlocks_def)
  have release: "wp (releaseMaterials c i e version) Q (s\<lparr>versions := vs\<rparr>)"
    if "raw = JObj body" "to_safe_integer (fld body ''id'') = Some i" "fld body ''action'' = Some (JStr ''release_materials'')"
      "execution_row s i = Some (e, sku)" for body i e sku version vs
    unfolding releaseMaterials_def
    by (intro wp_intros wp_releaseReservedMaterials; (simp add: assms(1); fail)?)
      (rule rel [OF that], simp, assumption, simp, simp_all add: stock_tables_def)
  have complete: "wp (completeOrder c i e sku dv version body) Q s1"
    if "raw = JObj body" "to_safe_integer (fld body ''id'') = Some i" "fld body ''action'' = Some (JStr ''complete'')"
      "execution_row s i = Some (e, sku)" "worked i (s\<lparr>versions := vs\<rparr>) s1" for body i e sku version dv s1 vs
  proof (rule wp_completeOrder)
    fix actual v s'
    assume h: "to_safe_integer (fld body ''actualFinishedQuantity'') = Some actual" "0 \<le> actual"
      "eo_status e \<in> {''planned'', ''in_production''}"
    { assume "\<not> (in_tolerance s1 e sku actual \<and> \<not> dv)" and "variance_effect i actual s1 s'"
      then show "Q v s'" by (rule var [OF that(1-4) w [OF that(5)] h]) }
    { assume "in_tolerance s1 e sku actual \<and> \<not> dv" and "finished_effect i e sku actual s1 s'"
      then show "Q v s'" by (intro fin [OF that(1-4) w [OF that(5)] h]) simp_all }
  qed
  show ?thesis
    unfolding transitionProductionOrder_def requireFactoryBinding_def startOrder_def reportMaterials_def
    by (intro wp_intros wp_updateMaterials release complete) (auto simp: assms(1,2) stock_tables_def intro: start mat w)
qed

section \<open>Properties\<close>

lemma held_cong: "batches s' = batches s \<Longrightarrow> held s' k = held s k"
  by (simp add: held_def)

lemma used_cong: "material_lines s' = material_lines s \<Longrightarrow> components s' = components s \<Longrightarrow> used s' k = used s k"
  by (simp add: used_def)

lemma stock_tables_eq: "stock_tables s' = stock_tables s \<longleftrightarrow> batches s' = batches s \<and> reservations s' = reservations s"
  by (auto simp: stock_tables_def)

lemma held_completed: "completed_batch e sku n s b \<Longrightarrow> batches s' = insertT b (batches s) \<Longrightarrow> held s' k = held s k"
  by (auto simp: held_def completed_batch_def)

lemma finished_keeps:
  assumes "finished_effect i e sku n s s'" and "stock_inv s" and "wf_tbl (material_lines s)" and "0 \<le> n"
  shows "stock_inv s' \<and> wf_tbl (material_lines s') \<and> (\<forall>k. held s' k + used s' k = held s k + used s k)"
proof (cases "0 < n")
  case True
  with assms(1) obtain b where b: "completed_batch e sku n s b" "batches s' = insertT b (batches s)"
    and rs: "reservations s' = reservations s" and cs: "components s' = components s"
    and ml: "material_lines s' = updateT (\<lambda>_ r. ml_order r = i) (\<lambda>r. r\<lparr>ml_reserved := 0\<rparr>) (material_lines s)"
    by (auto simp: finished_effect_def)
  have "buckets_ok b" using b(1) True by (simp add: completed_batch_def buckets_ok_def)
  moreover have "used s' k = used s k" for k
    unfolding used_def ml cs by (rule sumT_update_same) auto
  ultimately show ?thesis
    using assms(3) stock_inv_insert [OF assms(2) _ b(2) rs] held_completed [OF b] by (simp add: ml)
next
  case False
  with assms(1) have same: "batches s' = batches s" "reservations s' = reservations s" "components s' = components s"
    "material_lines s' = material_lines s" by (simp_all add: finished_effect_def)
  from stock_inv_cong [OF same(1,2)] show ?thesis
    using assms(2,3) by (simp add: held_cong [OF same(1)] used_cong [OF same(4,3)] same(4))
qed

text \<open>
  C7. Material is conserved: whatever a production transition does (starting, reporting materials, completing, releasing),
  the available and locked stock of every SKU plus what the material lines have consumed or lost of it stays the
  same; the stock invariant is kept, and no reservation of another order changes.
\<close>

theorem production_conserves:
  assumes "transitionProductionOrder c (JObj body) s = Inr (v, s')" and "to_safe_integer (fld body ''id'') = Some i"
    and "stock_inv s" and "wf_tbl (material_lines s)"
  shows "stock_inv s' \<and> wf_tbl (material_lines s') \<and> (\<forall>k. held s' k + used s' k = held s k + used s k) \<and>
    (\<forall>j r. fetch (reservations s) j = Some r \<and> \<not> of_order i r \<longrightarrow> fetch (reservations s') j = Some r)"
proof -
  have other: "\<forall>j r. fetch (reservations s) j = Some r \<and> \<not> of_order i r \<longrightarrow> fetch (reservations s1) j = Some r"
    if "worked i s s1" for s1
    using that unfolding worked_def unlocks_def by metis
  have "wp (transitionProductionOrder c (JObj body)) (\<lambda>_ s'. stock_inv s' \<and> wf_tbl (material_lines s') \<and>
      (\<forall>k. held s' k + used s' k = held s k + used s k) \<and>
      (\<forall>j r. fetch (reservations s) j = Some r \<and> \<not> of_order i r \<longrightarrow> fetch (reservations s') j = Some r)) s"
  proof (rule wp_transitionProductionOrder [OF assms(3,4)], goal_cases)
    case (1 b j e sku n v s' s2 vs)
    have "held s2 k + used s2 k = held s k + used s k" for k
      using 1(7) unstockedD(1,2) [of s2 "s\<lparr>versions := vs\<rparr>"] by (simp add: releases_def used_cong [of s2 s])
    with 1 assms(2,4) show ?case
      using unstockedD(1) [of s2 "s\<lparr>versions := vs\<rparr>"]
      by (simp add: releases_def stock_tables_eq held_cong [of s' s2] used_cong [of s' s2] cong: stock_inv_cong)
  next
    case (2 b j v s')
    with assms(3,4) show ?case
      by (simp add: stock_tables_eq held_cong [of s' s] used_cong [of s' s] cong: stock_inv_cong)
  next
    case (3 b j v s' s1)
    then have "j = i" using assms(2) by simp
    with 3 other [of s1] show ?case
      by (simp add: worked_def stock_tables_eq held_cong [of s' s1] used_cong [of s' s1] cong: stock_inv_cong)
  next
    case (4 b j e sku actual dv v s' s1)
    then have "j = i" using assms(2) by simp
    with 4 other [of s1] show ?case
      by (simp add: worked_def variance_effect_def stock_tables_eq held_cong [of s' s1] used_cong [of s' s1] cong: stock_inv_cong)
  next
    case (5 b j e sku actual v s' s1)
    then have "j = i" using assms(2) by simp
    moreover have "stock_inv s1" "wf_tbl (material_lines s1)" using 5(5) by (simp_all add: worked_def)
    ultimately show ?case
      using finished_keeps [OF 5(10) _ _ 5(7)] 5(5,10) other [of s1] by (simp add: worked_def finished_effect_def)
  qed
  from wpD [OF this assms(1)] show ?thesis .
qed

text \<open>
  Releasing the materials of a planned or running order moves exactly the reported, positive quantity out of its
  active reservations: every batch gets back from its locked bucket into its available bucket what its reservations give up.
\<close>

theorem release_exact:
  assumes "transitionProductionOrder c (JObj body) s = Inr (v, s')" and "to_safe_integer (fld body ''id'') = Some i"
    and "fld body ''action'' = Some (JStr ''release_materials'')" and "stock_inv s" and "wf_tbl (material_lines s)"
  shows "\<exists>n x. 0 < n \<and> v = JObj [(''success'', JBool True), (''id'', jint i), (''releasedQuantity'', jint n), (''version'', x)] \<and>
    sumT (\<lambda>r. if of_order i r \<and> ir_status r = ''active'' then ir_reserved r else 0) (reservations s') =
      sumT (\<lambda>r. if of_order i r \<and> ir_status r = ''active'' then ir_reserved r else 0) (reservations s) - n \<and>
    (\<forall>j b. fetch (batches s) j = Some b \<longrightarrow> (\<exists>q\<ge>0. fetch (batches s') j =
       Some (b\<lparr>ib_locked := ib_locked b - q, ib_available := ib_available b + q\<rparr>)))"
proof -
  have "wp (transitionProductionOrder c (JObj body)) (\<lambda>v s'. \<exists>n vs s2. 0 < n \<and> releases i n (s\<lparr>versions := vs\<rparr>) s2 \<and>
      stock_tables s' = stock_tables s2 \<and>
      (\<exists>x. v = JObj [(''success'', JBool True), (''id'', jint i), (''releasedQuantity'', jint n), (''version'', x)])) s"
    by (rule wp_transitionProductionOrder [OF assms(4,5)]) (use assms(2,3) in \<open>simp_all, blast\<close>)
  from wpD [OF this assms(1)] obtain n vs s2 x where n: "0 < n" and r: "releases i n (s\<lparr>versions := vs\<rparr>) s2"
    and st: "stock_tables s' = stock_tables s2"
    and v: "v = JObj [(''success'', JBool True), (''id'', jint i), (''releasedQuantity'', jint n), (''version'', x)]" by blast
  from r st show ?thesis
    by (intro exI [of _ n] exI [of _ x] conjI n v) (simp_all add: releases_def stock_tables_eq)
qed

text \<open>
  C21. Completing a planned or running order records the reported quantity and closes the order. Within the
  over-production tolerance (and never below the plan) the order is completed and exactly the reported quantity arrives in the pending
  bucket of one new batch of its SKU, in an active, unfrozen warehouse of its factory; otherwise no batch is added and
  a variance approval is filed. In both cases existing batches lose nothing but locked material.
\<close>

theorem completion_exact:
  assumes "transitionProductionOrder c (JObj body) s = Inr (v, s')" and "to_safe_integer (fld body ''id'') = Some i"
    and "fld body ''action'' = Some (JStr ''complete'')" and "stock_inv s" and "wf_tbl (material_lines s)"
  shows "\<exists>e sku n e'. execution_row s i = Some (e, sku) \<and> eo_status e \<in> {''planned'', ''in_production''} \<and>
    to_safe_integer (fld body ''actualFinishedQuantity'') = Some n \<and> fetch (execution_orders s') i = Some e' \<and>
    eo_completed e' = n \<and>
    (\<forall>j b. fetch (batches s) j = Some b \<longrightarrow> (\<exists>q\<ge>0. fetch (batches s') j = Some (b\<lparr>ib_locked := ib_locked b - q\<rparr>))) \<and>
    ((eo_status e' = ''completed'' \<and> in_tolerance s e sku n \<and> approvals s' = approvals s \<and>
      (0 < n \<longrightarrow> (\<exists>k b. fetch (batches s) k = None \<and> fetch (batches s') k = Some b \<and> completed_batch e sku n s b \<and>
        (\<forall>j. j \<noteq> k \<and> fetch (batches s) j = None \<longrightarrow> fetch (batches s') j = None)))) \<or>
     (eo_status e' = ''variance_pending'' \<and> (\<forall>j. fetch (batches s) j = None \<longrightarrow> fetch (batches s') j = None) \<and>
      (\<exists>a. approvals s' = insertT a (approvals s) \<and> ap_workflow a = ''production_variance'' \<and> ap_status a = ''pending'')))"
proof -
  have "wp (transitionProductionOrder c (JObj body)) (\<lambda>_ s'. \<exists>e sku n s1. execution_row s i = Some (e, sku) \<and>
      eo_status e \<in> {''planned'', ''in_production''} \<and> to_safe_integer (fld body ''actualFinishedQuantity'') = Some n \<and>
      0 \<le> n \<and> worked i s s1 \<and> (variance_effect i n s1 s' \<or> in_tolerance s1 e sku n \<and> finished_effect i e sku n s1 s')) s"
    by (rule wp_transitionProductionOrder [OF assms(4,5)]) (use assms(2,3) in \<open>simp_all, blast+\<close>)
  from wpD [OF this assms(1)] obtain e sku n s1 where e: "execution_row s i = Some (e, sku)"
    "eo_status e \<in> {''planned'', ''in_production''}" and n: "to_safe_integer (fld body ''actualFinishedQuantity'') = Some n" "0 \<le> n"
    and w: "worked i s s1" and eff: "variance_effect i n s1 s' \<or> in_tolerance s1 e sku n \<and> finished_effect i e sku n s1 s'"
    by blast
  have un: "unlocks i s s1" and idle: "idle s1 = idle s" and inv: "stock_inv s1" using w by (simp_all add: worked_def)
  note same = idleD [OF idle]
  have row: "fetch (execution_orders s1) i = Some e" using e(1) by (auto simp: execution_row_def bind_eq_Some_conv same)
  have batch: "completed_batch e sku n s1 b = completed_batch e sku n s b" for b
    by (simp add: completed_batch_def frozen_def same)
  have tol: "in_tolerance s1 e sku n = in_tolerance s e sku n" by (simp add: in_tolerance_def tolerance_of_def same)
  have closed: "\<exists>e'. fetch (execution_orders s') i = Some e' \<and> eo_completed e' = n \<and> eo_status e' = st"
    if "closed_as st i n s1 s'" for st
    using that row e(2) by (auto simp: closed_as_def fetch_updateT)
  from eff show ?thesis
  proof
    assume v: "variance_effect i n s1 s'"
    then have bs: "batches s' = batches s1" by (simp add: variance_effect_def stock_tables_eq)
    obtain e' where e': "fetch (execution_orders s') i = Some e'" "eo_completed e' = n" "eo_status e' = ''variance_pending''"
      using v closed by (auto simp: variance_effect_def)
    have "\<exists>a. approvals s' = insertT a (approvals s) \<and> ap_workflow a = ''production_variance'' \<and> ap_status a = ''pending''"
      using v by (simp add: variance_effect_def same)
    then show ?thesis using e n(1) e' un unfolding unlocks_def bs by blast
  next
    assume f: "in_tolerance s1 e sku n \<and> finished_effect i e sku n s1 s'"
    obtain e' where e': "fetch (execution_orders s') i = Some e'" "eo_completed e' = n" "eo_status e' = ''completed''"
      using f closed by (auto simp: finished_effect_def)
    have ap: "approvals s' = approvals s" using f by (simp add: finished_effect_def same)
    show ?thesis
    proof (cases "0 < n")
      case True
      with f obtain b where b: "completed_batch e sku n s b" and bs: "batches s' = insertT b (batches s1)"
        by (auto simp: finished_effect_def batch)
      note wf = stock_invD(1) [OF inv]
      let ?k = "nxt (batches s1)"
      have none: "fetch (batches s1) ?k = None"
        using fetch_pos [OF wf, of ?k] by (cases "fetch (batches s1) ?k") auto
      then have old: "fetch (batches s) ?k = None" using un unfolding unlocks_def by (cases "fetch (batches s) ?k") fastforce+
      have new: "fetch (batches s') ?k = Some b" "j \<noteq> ?k \<Longrightarrow> fetch (batches s') j = fetch (batches s1) j" for j
        by (simp_all add: bs fetch_insertT [OF wf])
      have keep: "\<exists>q\<ge>0. fetch (batches s') j = Some (x\<lparr>ib_locked := ib_locked x - q\<rparr>)" if "fetch (batches s) j = Some x" for j x
        using un that new(2) [of j] old unfolding unlocks_def by (cases "j = ?k") auto
      have "\<forall>j. j \<noteq> ?k \<and> fetch (batches s) j = None \<longrightarrow> fetch (batches s') j = None"
        using un new(2) unfolding unlocks_def by simp
      with e n(1) e' ap f tol keep old new(1) b show ?thesis by blast
    next
      case False
      with f have bs: "batches s' = batches s1" by (simp add: finished_effect_def)
      show ?thesis using e n(1) e' ap f tol un False unfolding unlocks_def bs by blast
    qed
  qed
qed

section \<open>Planning production\<close>

lemma wp_storeMaterialLines:
  assumes "\<And>t. wf_tbl (material_lines s) \<longrightarrow> wf_tbl t \<Longrightarrow> Q () (s\<lparr>material_lines := t\<rparr>)"
  shows "wp (eachC (storeMaterialLine i n) cs) Q s"
proof -
  have "wp (eachC (storeMaterialLine i n) cs)
      (\<lambda>_ s'. \<exists>t. s' = material_lines_update (\<lambda>_. t) s \<and> (wf_tbl (material_lines s) \<longrightarrow> wf_tbl t)) s"
  proof (rule wp_eachI)
    fix x s1 assume "\<exists>t. s1 = material_lines_update (\<lambda>_. t) s \<and> (wf_tbl (material_lines s) \<longrightarrow> wf_tbl t)"
    then obtain t where s1: "s1 = material_lines_update (\<lambda>_. t) s" "wf_tbl (material_lines s) \<longrightarrow> wf_tbl t" by blast
    show "wp (storeMaterialLine i n x) (\<lambda>_ s'. \<exists>t. s' = material_lines_update (\<lambda>_. t) s \<and>
        (wf_tbl (material_lines s) \<longrightarrow> wf_tbl t)) s1"
      unfolding storeMaterialLine_def Let_def s1(1)
      by (intro wp_intros, rule exI [of _ "insertT _ t"], rule conjI) (use s1(2) in \<open>simp_all add: comp_def\<close>)
  qed (rule exI [of _ "material_lines s"], simp)
  then show ?thesis
    by (rule wp_mono) (use assms in auto)
qed

lemma wp_createProductionOrder:
  assumes "\<And>body oi po b e t v s'. raw = JObj body \<Longrightarrow> to_safe_integer (fld body ''orderItemId'') = Some (eo_order_item e) \<Longrightarrow>
      finished_item s (eo_order_item e) = Some (oi, po) \<Longrightarrow> oi_item_type oi = ''finished'' \<Longrightarrow>
      list_all (\<lambda>(_, p). pi_factory p = eo_factory e \<and> pi_sku p = oi_sku oi) (plan_allocations s (eo_order_item e)) \<Longrightarrow>
      fetch (boms s) t = Some b \<Longrightarrow> bo_finished_sku b = oi_sku oi \<and> bo_active b \<and> bo_approval b = ''approved'' \<Longrightarrow>
      eo_bom e = Some t \<Longrightarrow> 1 \<le> eo_planned e \<Longrightarrow> eo_status e = ''planned'' \<Longrightarrow>
      planned_total s (eo_order_item e) + eo_planned e \<le> allocated (plan_allocations s (eo_order_item e)) \<Longrightarrow>
      execution_orders s' = insertT e (execution_orders s) \<Longrightarrow> stock_tables s' = stock_tables s \<Longrightarrow>
      wf_tbl (material_lines s) \<longrightarrow> wf_tbl (material_lines s') \<Longrightarrow> Q v s'"
  shows "wp (createProductionOrder c raw) Q s"
  unfolding createProductionOrder_def requireFactoryBinding_def checkAllocation_def checkBom_def Let_def
  by (intro wp_intros wp_storeMaterialLines, rule assms) (auto simp: stock_tables_def)

text \<open>
  C34. A production order is created only for a finished-good order item whose purchase-plan allocations all name
  the order's factory and SKU, with an approved active bill of materials of that SKU, and only while
  the planned total of the order item stays within the allocated quantity; other items keep their totals.
\<close>

theorem production_within_allocation:
  assumes "createProductionOrder c (JObj body) s = Inr (v, s')" and "to_safe_integer (fld body ''orderItemId'') = Some k"
  shows "\<exists>e oi po t b. execution_orders s' = insertT e (execution_orders s) \<and> eo_order_item e = k \<and> 1 \<le> eo_planned e \<and>
    eo_status e = ''planned'' \<and> finished_item s k = Some (oi, po) \<and> oi_item_type oi = ''finished'' \<and>
    (\<forall>(_, p) \<in> set (plan_allocations s k). pi_factory p = eo_factory e \<and> pi_sku p = oi_sku oi) \<and>
    eo_bom e = Some t \<and> fetch (boms s) t = Some b \<and> bo_finished_sku b = oi_sku oi \<and> bo_active b \<and> bo_approval b = ''approved'' \<and>
    planned_total s' k = planned_total s k + eo_planned e \<and> planned_total s' k \<le> allocated (plan_allocations s k) \<and>
    (\<forall>j. j \<noteq> k \<longrightarrow> planned_total s' j = planned_total s j)"
proof -
  have "wp (createProductionOrder c (JObj body)) (\<lambda>_ s'. \<exists>e oi po t b. execution_orders s' = insertT e (execution_orders s) \<and>
      eo_order_item e = k \<and> 1 \<le> eo_planned e \<and> eo_status e = ''planned'' \<and> finished_item s k = Some (oi, po) \<and>
      oi_item_type oi = ''finished'' \<and>
      (\<forall>(_, p) \<in> set (plan_allocations s k). pi_factory p = eo_factory e \<and> pi_sku p = oi_sku oi) \<and>
      eo_bom e = Some t \<and> fetch (boms s) t = Some b \<and> bo_finished_sku b = oi_sku oi \<and> bo_active b \<and>
      bo_approval b = ''approved'' \<and> planned_total s k + eo_planned e \<le> allocated (plan_allocations s k)) s"
  proof (rule wp_createProductionOrder, goal_cases)
    case (1 b' oi po b e t v s')
    then have "eo_order_item e = k" using assms(2) by simp
    with 1 show ?case
      by (intro exI [of _ e] exI [of _ oi] exI [of _ po] exI [of _ t] exI [of _ b]) (simp add: list_all_iff)
  qed
  from wpD [OF this assms(1)] show ?thesis
    by (elim exE conjE) (intro exI conjI; (assumption | simp add: planned_total_def))
qed

lemma transitionProductionOrder_wp:
  assumes "stock_inv s" and "wf_tbl (material_lines s)"
  shows "wp (transitionProductionOrder c raw) (\<lambda>_ s'. stock_inv s' \<and> wf_tbl (material_lines s')) s"
proof (rule wp_transitionProductionOrder [OF assms], goal_cases)
  case (1 b j e sku n v s' s2 vs)
  then show ?case using assms(2) unstockedD(1) [of s2 "s\<lparr>versions := vs\<rparr>"]
    by (simp add: releases_def stock_tables_eq cong: stock_inv_cong)
next
  case (5 b j e sku actual v s' s1)
  then show ?case using finished_keeps [OF 5(10) _ _ 5(7)] by (simp add: worked_def)
qed (use assms in \<open>simp_all add: worked_def variance_effect_def stock_tables_eq cong: stock_inv_cong\<close>)

section \<open>The properties at a concrete order\<close>

definition production_db :: db where
  "production_db = (shipment_db ''planned'')\<lparr>
     batches := insertT (sample_batch\<lparr>ib_sku := ''PART'', ib_available := 1, ib_locked := 4\<rparr>) emptyT,
     reservations := insertT \<lparr>ir_batch = 1, ir_entity_type = ''production_order'', ir_entity = Some 1, ir_requested = 4,
       ir_reserved = 4, ir_shortage = 0, ir_priority = 0, ir_status = ''active'', ir_created_by = 1\<rparr> emptyT,
     purchase_orders := insertT \<lparr>po_no = ''PO-1'', po_source_file = None, po_status = ''confirmed'', po_order_date = Some ''2025-01-01'',
       po_total = 9, po_updated_at = ''2025-01-01''\<rparr> emptyT,
     plan_items := insertT \<lparr>pi_plan = 1, pi_arrival = ''2025-02-01'', pi_factory = 7, pi_warehouse = 1, pi_sku = ''SKU'',
       pi_product_name = ''P'', pi_bom = 1, pi_planned = 12, pi_ordered = 12, pi_over_bps = 0, pi_under_bps = 0,
       pi_completion = ''within_tolerance''\<rparr> emptyT,
     plan_links := insertT \<lparr>pl_item = 1, pl_order_item = 1, pl_allocated = 12, pl_method = ''manual'', pl_confirmed_by = 1\<rparr> emptyT,
     boms := insertT \<lparr>bo_finished_sku = ''SKU'', bo_version = ''1'', bo_from = ''2024-01-01'', bo_to = None, bo_overlap = False, bo_overlap_reason = [],
       bo_approval = ''approved'', bo_reviewed_by = None, bo_active = True, bo_created_by = 1\<rparr> emptyT,
     components := insertT \<lparr>bc_bom = 1, bc_sku = ''PART'', bc_item_type = ''component'', bc_core = True, bc_per_finished = 1, bc_issue_bps = 10000,
       bc_consumption_bps = 10000, bc_loss_bps = 10000\<rparr> emptyT,
     material_lines := insertT \<lparr>ml_order = 1, ml_component = 1, ml_theoretical = 4, ml_reserved = 4, ml_issued = 0,
       ml_consumed = 0, ml_loss = 0, ml_deviation = ''within_tolerance''\<rparr> emptyT,
     execution_orders := insertT (sample_execution ''in_production'') emptyT\<rparr>"

lemma production_db_wf [simp]: "wf_tbl (material_lines production_db)"
  by (simp add: production_db_def)

lemma stock_inv_production: "stock_inv production_db"
  by (auto simp: stock_inv_def production_db_def fetch_insertT reserved_on_def claims_def sumT_def buckets_ok_def
      sample_batch_def reservation_ok_def) (auto simp: emptyT_def fetch_def insertT_def buckets_ok_def split: if_splits)

abbreviation sample_complete :: "(string \<times> json) list" where
  "sample_complete \<equiv> [(''action'', JStr ''complete''), (''id'', jint 1), (''actualFinishedQuantity'', jint 9),
     (''materials'', JArr [JObj [(''id'', jint 1), (''issuedQuantity'', jint 3), (''consumedQuantity'', jint 2),
       (''lossQuantity'', jint 1)]])]"

abbreviation sample_release :: "(string \<times> json) list" where
  "sample_release \<equiv> [(''action'', JStr ''release_materials''), (''id'', jint 1)]"

abbreviation sample_production :: "(string \<times> json) list" where
  "sample_production \<equiv> [(''orderItemId'', jint 1), (''factoryId'', jint 7), (''bomId'', jint 1), (''plannedQuantity'', jint 3),
     (''plannedStartDate'', JStr ''2025-01-02''), (''plannedFinishDate'', JStr ''2025-01-03'')]"

lemma sample_complete_run:
  obtains v s' where "transitionProductionOrder sample_ctx (JObj sample_complete) production_db = Inr (v, s')"
proof -
  have "succeeds (transitionProductionOrder sample_ctx (JObj sample_complete) production_db)" by code_simp
  with that show thesis by (auto elim: succeedsE)
qed

lemma production_conserves_witness:
  "\<exists>v s'. transitionProductionOrder sample_ctx (JObj sample_complete) production_db = Inr (v, s') \<and>
    (\<forall>k. held s' k + used s' k = held production_db k + used production_db k)"
proof -
  obtain v s' where r: "transitionProductionOrder sample_ctx (JObj sample_complete) production_db = Inr (v, s')"
    by (rule sample_complete_run)
  have "to_safe_integer (fld sample_complete ''id'') = Some 1" by (simp add: fld_def to_safe_integer_jint)
  from production_conserves [OF r this stock_inv_production production_db_wf] r show ?thesis by blast
qed

lemma completion_exact_witness:
  "\<exists>v s' e'. transitionProductionOrder sample_ctx (JObj sample_complete) production_db = Inr (v, s') \<and>
    fetch (execution_orders s') 1 = Some e'"
proof -
  obtain v s' where r: "transitionProductionOrder sample_ctx (JObj sample_complete) production_db = Inr (v, s')"
    by (rule sample_complete_run)
  have "to_safe_integer (fld sample_complete ''id'') = Some 1" "fld sample_complete ''action'' = Some (JStr ''complete'')"
    by (simp_all add: fld_def to_safe_integer_jint)
  from completion_exact [OF r this stock_inv_production production_db_wf] r show ?thesis by blast
qed

lemma release_exact_witness:
  "\<exists>v s'. transitionProductionOrder sample_ctx (JObj sample_release) production_db = Inr (v, s') \<and> (\<exists>kvs. v = JObj kvs)"
proof -
  have "succeeds (transitionProductionOrder sample_ctx (JObj sample_release) production_db)" by code_simp
  then obtain v s' where r: "transitionProductionOrder sample_ctx (JObj sample_release) production_db = Inr (v, s')"
    by (rule succeedsE)
  have "to_safe_integer (fld sample_release ''id'') = Some 1" "fld sample_release ''action'' = Some (JStr ''release_materials'')"
    by (simp_all add: fld_def to_safe_integer_jint)
  from release_exact [OF r this stock_inv_production production_db_wf] r show ?thesis by blast
qed

lemma production_within_allocation_witness:
  "\<exists>v s'. createProductionOrder sample_ctx (JObj sample_production) production_db = Inr (v, s') \<and>
    planned_total production_db 1 < planned_total s' 1"
proof -
  have "succeeds (createProductionOrder sample_ctx (JObj sample_production) production_db)" by code_simp
  then obtain v s' where r: "createProductionOrder sample_ctx (JObj sample_production) production_db = Inr (v, s')"
    by (rule succeedsE)
  have "to_safe_integer (fld sample_production ''orderItemId'') = Some 1" by (simp add: fld_def to_safe_integer_jint)
  from production_within_allocation [OF r this] r show ?thesis by force
qed

end
