(* ===== verification/Supply.thy ===== *)
theory Supply
  imports Commands
begin

text \<open>
  The helpers of the supply commands: \<open>platform/supply-support.ts\<close> (argument validation, hashes, audit and
  domain events), \<open>modules/approvals/support.ts\<close> (filing an approval), \<open>modules/notifications/support.ts\<close>
  (scheduling a reminder) and the file check of the supply commands.
\<close>

section \<open>Argument validation\<close>

definition objectBody :: "json \<Rightarrow> (string \<times> json) list run" where
  "objectBody v = (case v of JObj kvs \<Rightarrow> returnC kvs | _ \<Rightarrow> throwC (bad_request ''JSON object required''))"

definition textC :: "json option \<Rightarrow> nat \<Rightarrow> string run" where
  "textC v maximum = (let result = (case v of Some (JStr s) \<Rightarrow> trim s | _ \<Rightarrow> []) in
     if result = [] \<or> maximum < length result then throwC (bad_request ''Invalid text field'') else returnC result)"

definition optionalTextC :: "json option \<Rightarrow> nat \<Rightarrow> string option run" where
  "optionalTextC v maximum =
     (if absent v then returnC None else bindC (textC v maximum) (\<lambda>t. returnC (Some t)))"

definition integerFrom :: "int \<Rightarrow> json option \<Rightarrow> string \<Rightarrow> int run" where
  "integerFrom minimum v message = (case to_safe_integer v of
       None \<Rightarrow> throwC (bad_request message)
     | Some n \<Rightarrow> if n < minimum then throwC (bad_request message) else returnC n)"

definition positiveInteger :: "json option \<Rightarrow> string \<Rightarrow> int run" where
  "positiveInteger v message = integerFrom 1 v message"

definition nonNegativeInteger :: "json option \<Rightarrow> int run" where
  "nonNegativeInteger v = integerFrom 0 v ''Non-negative integer required''"

definition dateC :: "json option \<Rightarrow> string run" where
  "dateC v = bindC (textC v 10) (\<lambda>t.
     bindC (guardC (length t = 10 \<and> parse_day t \<noteq> None) (bad_request ''Valid date required'')) (\<lambda>_. returnC t))"

text \<open>The pattern of \<open>expectedTimestamp\<close>: date, \<open>T\<close> or a blank, clock, up to six digits of fraction, \<open>Z\<close>.\<close>

definition digits_at :: "string \<Rightarrow> nat \<Rightarrow> nat \<Rightarrow> bool" where
  "digits_at s i n \<longleftrightarrow> number_at s i n \<noteq> None"

definition fraction_ok :: "string \<Rightarrow> bool" where
  "fraction_ok s = (let t = (if s \<noteq> [] \<and> last s = CHR ''Z'' then butlast s else s) in
     t = [] \<or> (hd t = CHR ''.'' \<and> tl t \<noteq> [] \<and> length (tl t) \<le> 6 \<and> list_all is_digit (tl t)))"

definition timestamp_ok :: "string \<Rightarrow> bool" where
  "timestamp_ok s \<longleftrightarrow> digits_at s 0 4 \<and> char_is s 4 (CHR ''-'') \<and> digits_at s 5 2 \<and> char_is s 7 (CHR ''-'') \<and> digits_at s 8 2 \<and>
     (char_is s 10 (CHR ''T'') \<or> char_is s 10 (CHR '' '')) \<and> digits_at s 11 2 \<and> char_is s 13 (CHR '':'') \<and>
     digits_at s 14 2 \<and> char_is s 16 (CHR '':'') \<and> digits_at s 17 2 \<and> fraction_ok (drop 19 s)"

definition expectedTimestamp :: "json option \<Rightarrow> string run" where
  "expectedTimestamp v = bindC (textC v 40) (\<lambda>t.
     bindC (guardC (timestamp_ok t) (bad_request ''Expected resource timestamp required'')) (\<lambda>_. returnC t))"

definition supplyInternal :: "access \<Rightarrow> bool" where
  "supplyInternal a \<longleftrightarrow> hasRole a [''admin'', ''supply_chain'']"

definition requireFactoryRole :: "access \<Rightarrow> int \<Rightarrow> unit run" where
  "requireFactoryRole a factoryId = guardC (''factory'' \<in> set (a_roles a) \<and> a_factory a = Some factoryId)
     (forbidden ''Factory role and binding are required'')"

definition canonicalHash :: "env \<Rightarrow> json \<Rightarrow> string" where
  "canonicalHash e v = sha256 e (canonicalJson v)"

definition requestNo :: "env \<Rightarrow> string \<Rightarrow> string \<Rightarrow> string \<Rightarrow> string" where
  "requestNo e prefix key discriminator = prefix @ CHR ''-'' # take 24 (sha256 e (key @ CHR '':'' # discriminator))"

text \<open>
  The rounded rate \<open>Math.round(((a - b) / b) * 10000)\<close>: the quotient and the product are each rounded to a
  double. The divisor is a planned quantity, which \<open>createPurchasePlan\<close> stores as a positive integer.
\<close>

definition rate_bps :: "int \<Rightarrow> int \<Rightarrow> int" where
  "rate_bps a b = (case to_double (of_int (a - b) / of_int b) of None \<Rightarrow> 0 | Some q \<Rightarrow>
     (case to_double (q * 10000) of None \<Rightarrow> 0 | Some x \<Rightarrow> \<lfloor>x + 1/2\<rfloor>))"

section \<open>Events, reminders and approvals\<close>

definition supplyEvent :: "cctx \<Rightarrow> string \<Rightarrow> string \<Rightarrow> string \<Rightarrow> string \<Rightarrow> recipient \<Rightarrow> (string \<times> json) list \<Rightarrow> unit run" where
  "supplyEvent c type entityType entityId key recipient data =
     enqueueOutbox (c_env c) ''domain.event'' entityType entityId
       (''r2:'' @ type @ '':'' @ entityType @ '':'' @ entityId @ '':'' @ take 20 (sha256 (c_env c) key))
       (JObj [(''schemaVersion'', jint 1), (''entityType'', JStr entityType), (''entityId'', JStr entityId),
              (''eventType'', JStr type), (''recipient'', recipient_json recipient), (''data'', JObj data)])"

definition createReminder :: "string \<Rightarrow> string \<Rightarrow> int \<Rightarrow> string \<Rightarrow> string \<Rightarrow> unit run" where
  "createReminder reminderType entityType entityId businessNo dueAt =
     bindC (insertC reminders reminders_update ok_any
       \<lparr>rm_type = reminderType, rm_entity_type = entityType, rm_entity = entityId, rm_business_no = Some businessNo,
        rm_due_at = dueAt, rm_next_run_at = dueAt, rm_recurrence = ''daily_overdue'',
        rm_roles = JArr [JStr ''factory'', JStr ''supply_chain''], rm_users = JArr [], rm_severity = ''approval'',
        rm_status = ''active'', rm_last_run_at = None\<rparr>) (\<lambda>_. returnC ())"

definition firstVersion :: "string \<Rightarrow> string \<Rightarrow> unit run" where
  "firstVersion type i =
     bindC (queryC (\<lambda>s. versions s (type, i))) (\<lambda>existing.
     bindC (guardC (existing = None) DatabaseError) (\<lambda>_.
     modifyC (\<lambda>s. s\<lparr>versions := (versions s)((type, i) \<mapsto> 1)\<rparr>)))"

definition createApproval :: "cctx \<Rightarrow> string \<Rightarrow> string \<Rightarrow> int \<Rightarrow> bool \<Rightarrow> string \<Rightarrow> json \<Rightarrow> string \<Rightarrow> int run" where
  "createApproval c workflow entityType entityId highRisk key payload summary =
     bindC (insertC approvals approvals_update ok_approval
       \<lparr>ap_request_no = requestNo (c_env c) ''AP-R2'' key workflow, ap_workflow = workflow, ap_entity_type = entityType,
        ap_entity_id = entityId, ap_summary = summary, ap_payload = payload, ap_high_risk = highRisk,
        ap_status = ''pending'', ap_requested_by = a_user (c_access c), ap_reviewed_by = None,
        ap_review_comment = None, ap_sms_verified = False, ap_updated_at = sql_ms (c_env c)\<rparr>) (\<lambda>approvalId.
     bindC (firstVersion ''approval_request'' (show_int approvalId)) (\<lambda>_.
     returnC approvalId))"

definition approvalNotification :: "cctx \<Rightarrow> int \<Rightarrow> string \<Rightarrow> string \<Rightarrow> string \<Rightarrow> string \<Rightarrow> unit run" where
  "approvalNotification c approvalId key targetType targetId workflow =
     enqueueOutbox (c_env c) ''notification.dispatch'' ''approval_request'' (show_int approvalId)
       (''r2:approval:'' @ workflow @ '':'' @ show_int approvalId @ '':'' @ take 20 (sha256 (c_env c) key))
       (JObj [(''approvalId'', jint approvalId), (''recipientRole'', JStr ''supply_chain''), (''type'', JStr workflow),
              (''targetEntityType'', JStr targetType), (''targetEntityId'', JStr targetId)])"

section \<open>Files\<close>

text \<open>
  \<open>requireFile\<close> of \<open>modules/files/support.ts\<close>: a clean file, selected by id or object key, of one of the
  given categories, bound to one of the given entities when a binding is asked for, in the scope of the caller.
\<close>

datatype file_ref = FileId int | FileKey string

definition found_file :: "db \<Rightarrow> file_ref \<Rightarrow> file_object option" where
  "found_file s r = (case r of FileId i \<Rightarrow> fetch (files s) i
     | FileKey k \<Rightarrow> map_option snd (find (\<lambda>(_, f). fo_object_key f = k) (rows (files s))))"

definition file_scoped :: "access \<Rightarrow> file_object \<Rightarrow> bool" where
  "file_scoped a f \<longleftrightarrow> supplyInternal a \<or> fo_owner f = a_user a \<or>
     (''factory'' \<in> set (a_roles a) \<and> a_factory a \<noteq> None \<and> fo_factory f = a_factory a) \<or>
     (''supplier_qc'' \<in> set (a_roles a) \<and> a_supplier a \<noteq> None \<and> fo_supplier f = a_supplier a)"

definition file_bound :: "(string \<times> string list) option \<Rightarrow> file_object \<Rightarrow> bool" where
  "file_bound entity f = (case entity of None \<Rightarrow> True
     | Some (type, ids) \<Rightarrow> fo_entity_type f = Some type \<and> (case fo_entity_id f of None \<Rightarrow> False | Some i \<Rightarrow> i \<in> set ids))"

definition requireFile :: "access \<Rightarrow> file_ref \<Rightarrow> string list \<Rightarrow> (string \<times> string list) option \<Rightarrow> file_object run" where
  "requireFile a r categories entity =
     bindC (queryC (\<lambda>s. found_file s r)) (\<lambda>found.
     bindC (requireC found (not_found ''Authorized clean file not found'')) (\<lambda>f.
     bindC (guardC (fo_scan_status f = ''clean'') (not_found ''Authorized clean file not found'')) (\<lambda>_.
     bindC (guardC (fo_category f \<in> set categories) (forbidden ''File category rejected'')) (\<lambda>_.
     bindC (guardC (file_bound entity f) (forbidden ''File entity binding rejected'')) (\<lambda>_.
     bindC (guardC (file_scoped a f) (forbidden ''File scope rejected'')) (\<lambda>_.
     returnC f))))))"

text \<open>The source file of an imported plan or order; a reference to a file in a body is an id when it is all digits.\<close>

definition requireSource :: "access \<Rightarrow> string option \<Rightarrow> unit run" where
  "requireSource a sourceFileKey = (case sourceFileKey of None \<Rightarrow> returnC ()
     | Some key \<Rightarrow> bindC (requireFile a (FileKey key) [''import'', ''import_source''] (Some (''import_upload'', [show_int (a_user a)])))
         (\<lambda>_. returnC ()))"

definition file_ref_of :: "string \<Rightarrow> file_ref" where
  "file_ref_of t = (if t \<noteq> [] \<and> list_all is_digit t then FileId (int (read_nat t)) else FileKey t)"

section \<open>Rules for the helpers\<close>

lemma wp_objectBodyI [wp_intros]: "(\<And>kvs. v = JObj kvs \<Longrightarrow> Q kvs s) \<Longrightarrow> wp (objectBody v) Q s"
  by (auto simp: wp_def objectBody_def returnC_def throwC_def split: json.split)

lemma wp_textCI [wp_intros]: "(\<And>t. t \<noteq> [] \<Longrightarrow> length t \<le> m \<Longrightarrow> Q t s) \<Longrightarrow> wp (textC v m) Q s"
  by (auto simp: wp_def textC_def Let_def returnC_def throwC_def)

lemma wp_optionalTextCI [wp_intros]: "(\<And>t. Q t s) \<Longrightarrow> wp (optionalTextC v m) Q s"
  unfolding optionalTextC_def by (intro wp_intros)

lemma wp_integerFromI: "(\<And>n. to_safe_integer v = Some n \<Longrightarrow> m \<le> n \<Longrightarrow> Q n s) \<Longrightarrow> wp (integerFrom m v e) Q s"
  by (auto simp: wp_def integerFrom_def returnC_def throwC_def split: option.split)

lemma wp_positiveIntegerI [wp_intros]:
  "(\<And>n. to_safe_integer v = Some n \<Longrightarrow> 1 \<le> n \<Longrightarrow> Q n s) \<Longrightarrow> wp (positiveInteger v e) Q s"
  unfolding positiveInteger_def by (rule wp_integerFromI)

lemma wp_nonNegativeIntegerI [wp_intros]:
  "(\<And>n. to_safe_integer v = Some n \<Longrightarrow> 0 \<le> n \<Longrightarrow> Q n s) \<Longrightarrow> wp (nonNegativeInteger v) Q s"
  unfolding nonNegativeInteger_def by (rule wp_integerFromI)

lemma wp_dateCI [wp_intros]: "(\<And>t. parse_day t \<noteq> None \<Longrightarrow> length t = 10 \<Longrightarrow> Q t s) \<Longrightarrow> wp (dateC v) Q s"
  unfolding dateC_def by (intro wp_intros) simp

lemma wp_expectedTimestampI [wp_intros]: "(\<And>t. timestamp_ok t \<Longrightarrow> Q t s) \<Longrightarrow> wp (expectedTimestamp v) Q s"
  unfolding expectedTimestamp_def by (intro wp_intros)

lemma wp_requireFactoryRoleI [wp_intros]:
  "(a_factory a = Some i \<Longrightarrow> ''factory'' \<in> set (a_roles a) \<Longrightarrow> Q () s) \<Longrightarrow> wp (requireFactoryRole a i) Q s"
  unfolding requireFactoryRole_def by (intro wp_intros) simp

lemma wp_supplyEventI [wp_intros]: "(\<And>f. Q () (outbox_messages_update f s)) \<Longrightarrow> wp (supplyEvent c t ety eid k r d) Q s"
  unfolding supplyEvent_def by (rule wp_outboxI)

lemma wp_approvalNotificationI [wp_intros]:
  "(\<And>f. Q () (outbox_messages_update f s)) \<Longrightarrow> wp (approvalNotification c i k ety eid w) Q s"
  unfolding approvalNotification_def by (rule wp_outboxI)

lemma wp_createReminderI [wp_intros]: "(\<And>f. Q () (reminders_update f s)) \<Longrightarrow> wp (createReminder t ety i no due) Q s"
  unfolding createReminder_def by (intro wp_intros)

lemma wp_createApprovalI [wp_intros]:
  assumes "\<And>r vs. ap_workflow r = w \<Longrightarrow> ap_entity_type r = ety \<Longrightarrow> ap_entity_id r = i \<Longrightarrow> ap_payload r = p \<Longrightarrow>
      ap_status r = ''pending'' \<Longrightarrow> ap_requested_by r = a_user (c_access c) \<Longrightarrow>
      Q (nxt (approvals s)) (s\<lparr>approvals := insertT r (approvals s), versions := vs\<rparr>)"
  shows "wp (createApproval c w ety i h k p summary) Q s"
proof -
  have eq: "approvals_update (insertT r) s\<lparr>versions := vs\<rparr> = s\<lparr>approvals := insertT r (approvals s), versions := vs\<rparr>" for r vs
    by (cases s) simp
  show ?thesis
    unfolding createApproval_def firstVersion_def by (intro wp_intros) (simp only: eq, rule assms, simp_all)
qed

lemma wp_requireFileI [wp_intros]:
  "(\<And>f. found_file s r = Some f \<Longrightarrow> fo_scan_status f = ''clean'' \<Longrightarrow> Q f s) \<Longrightarrow> wp (requireFile a r cs b) Q s"
  unfolding requireFile_def by (intro wp_intros) simp

lemma wp_requireSourceI [wp_intros]: "Q () s \<Longrightarrow> wp (requireSource a k) Q s"
  unfolding requireSource_def by (intro wp_intros)

end
