(* ===== verification/Effects.thy ===== *)
theory Effects
  imports Warehouses Production Finance Supply
begin

text \<open>
  The domain effects of a decided approval, \<open>registerOperationsApprovalEffects\<close> of
  \<open>modules/approvals/writes.ts\<close>: what an approved or rejected role change, transfer, shipment deviation,
  warehouse merge, stocktake variance, production variance or financial correction does to its object. An
  effect takes the claim of the decision (\<open>cl_action\<close> is the decision) and the environment \<open>e\<close>.
\<close>

section \<open>The approval behind a claim\<close>

definition effectApproval :: "claim \<Rightarrow> approval run" where
  "effectApproval cl =
     bindC (integer (Some (JStr (cl_object_id cl))) ''approvalId'' 1) (\<lambda>i.
     bindC (queryC (\<lambda>s. fetch (approvals s) i)) (\<lambda>found. requireC found (not_found ''Approval not found'')))"

definition parsedPayload :: "json \<Rightarrow> (string \<times> json) list run" where
  "parsedPayload p = (case p of JObj kvs \<Rightarrow> returnC kvs | _ \<Rightarrow> throwC (conflict ''Approval payload is invalid''))"

section \<open>User roles, transfers, shipments and warehouses\<close>

definition role_target :: "bool \<Rightarrow> bool \<Rightarrow> string" where
  "role_target revoke approved = (if revoke = approved then ''revoked'' else ''active'')"

definition userRoleChange :: "env \<Rightarrow> claim \<Rightarrow> json run" where
  "userRoleChange e cl =
     bindC (effectApproval cl) (\<lambda>a.
     bindC (parsedPayload (ap_payload a)) (\<lambda>p.
     let revoke = (fld p ''operation'' = Some (JStr ''revoke'')); operation = (if revoke then ''revoke'' else ''assign'');
         expected = (if revoke then ''active'' else ''pending'');
         next = role_target revoke (cl_action cl = ''approved'') in
     bindC (queryC (\<lambda>s. fetch (user_roles s) (ap_entity_id a))) (\<lambda>found.
     bindC (requireC found (version_conflict ''User role changed before approval effect'')) (\<lambda>r.
     bindC (guardC (ur_status r = expected) (version_conflict ''User role changed before approval effect'')) (\<lambda>_.
     bindC (updateC user_roles user_roles_update ok_any (\<lambda>j r. j = ap_entity_id a \<and> ur_status r = expected)
       (\<lambda>r. r\<lparr>ur_status := next, ur_reviewed_by := Some (cl_user cl), ur_reviewed_at := Some (sql_now e)\<rparr>)) (\<lambda>updated.
     bindC (guardC (updated = 1) (version_conflict ''User role changed concurrently'')) (\<lambda>_.
     returnC (JObj [(''userRoleId'', jint (ap_entity_id a)), (''status'', JStr next), (''operation'', JStr operation)]))))))))"

definition warehouseTransfer :: "env \<Rightarrow> claim \<Rightarrow> json run" where
  "warehouseTransfer e cl =
     bindC (effectApproval cl) (\<lambda>a.
     let i = ap_entity_id a; status = (if cl_action cl = ''approved'' then ''approved'' else ''rejected'') in
     bindC (updateC transfers transfers_update ok_transfer (\<lambda>j t. j = i \<and> it_status t = ''pending_supply_chain'')
       (\<lambda>t. t\<lparr>it_status := status, it_approved_by := Some (cl_user cl), it_approved_at := Some (sql_now e)\<rparr>)) (\<lambda>updated.
     bindC (guardC (updated = 1) (version_conflict ''Transfer changed before approval effect'')) (\<lambda>_.
     returnC (JObj [(''transferId'', jint i), (''status'', JStr status)]))))"

definition shipmentDeviation :: "env \<Rightarrow> claim \<Rightarrow> json run" where
  "shipmentDeviation e cl =
     bindC (effectApproval cl) (\<lambda>a.
     let i = ap_entity_id a; status = (if cl_action cl = ''approved'' then ''approved_to_ship'' else ''deviation_rejected'') in
     bindC (updateC deliveries deliveries_update ok_delivery (\<lambda>j d. j = i \<and> dl_status d = ''pending_supply_chain'')
       (\<lambda>d. d\<lparr>dl_status := status\<rparr>)) (\<lambda>updated.
     bindC (guardC (updated = 1) (version_conflict ''Shipment changed before approval effect'')) (\<lambda>_.
     returnC (JObj [(''deliveryBatchId'', jint i), (''status'', JStr status)]))))"

definition merged :: "int \<Rightarrow> string" where
  "merged target = ''merged:'' @ show_int target"

definition warehouseMerge :: "env \<Rightarrow> claim \<Rightarrow> json run" where
  "warehouseMerge e cl =
     bindC (effectApproval cl) (\<lambda>a.
     bindC (parsedPayload (ap_payload a)) (\<lambda>p.
     bindC (integer (fld p ''sourceId'') ''sourceId'' 1) (\<lambda>source.
     bindC (integer (fld p ''targetId'') ''targetId'' 1) (\<lambda>target.
     if cl_action cl = ''rejected''
     then returnC (JObj [(''sourceId'', jint source), (''targetId'', jint target), (''status'', JStr ''rejected'')])
     else
       bindC (queryC (\<lambda>s. select (warehouses s) (\<lambda>i _. i = source \<or> i = target))) (\<lambda>found.
       bindC (guardC (length found = 2 \<and> list_all (\<lambda>(_, w). w_status w = ''active'') found)
         (version_conflict ''Warehouse state changed before merge'')) (\<lambda>_.
       bindC (queryC (\<lambda>s. blocked s source)) (\<lambda>blocker.
       bindC (guardC (\<not> blocker) (conflict ''Warehouse has blockers and cannot be merged'')) (\<lambda>_.
       bindC (updateC warehouses warehouses_update ok_warehouse (\<lambda>j w. j = source \<and> w_status w = ''active'')
         (\<lambda>w. w\<lparr>w_status := merged target\<rparr>)) (\<lambda>_.
       returnC (JObj [(''sourceId'', jint source), (''targetId'', jint target), (''status'', JStr (merged target))]))))))))))"

section \<open>Stocktake variance\<close>

text \<open>The pending adjustments of a stocktake, joined with the count they come from.\<close>

record pending_adjustment =
  pj_row :: adjustment
  pj_batch :: "int option"
  pj_sku :: string

definition pending_adjustments :: "db \<Rightarrow> int \<Rightarrow> (int \<times> pending_adjustment) list" where
  "pending_adjustments s stocktakeId = List.map_filter (\<lambda>(i, a). map_option
       (\<lambda>c. (i, \<lparr>pj_row = a, pj_batch = sc_batch c, pj_sku = sc_sku c\<rparr>)) (fetch (counts s) (sa_count a)))
     (select (adjustments s) (\<lambda>_ a. sa_stocktake a = stocktakeId \<and> sa_decision a = ''pending''))"

definition buckets :: "string list" where
  "buckets = [''available'', ''locked'', ''defective'', ''pending_inspection'']"

definition bucket_value :: "string \<Rightarrow> batch \<Rightarrow> int" where
  "bucket_value k b = (if k = ''available'' then ib_available b else if k = ''locked'' then ib_locked b
     else if k = ''defective'' then ib_defective b else ib_pending b)"

definition set_bucket :: "string \<Rightarrow> int \<Rightarrow> batch \<Rightarrow> batch" where
  "set_bucket k n b = (if k = ''available'' then b\<lparr>ib_available := n\<rparr> else if k = ''locked'' then b\<lparr>ib_locked := n\<rparr>
     else if k = ''defective'' then b\<lparr>ib_defective := n\<rparr> else b\<lparr>ib_pending := n\<rparr>)"

definition adjustBucket :: "pending_adjustment \<Rightarrow> unit run" where
  "adjustBucket x = (case pj_batch x of
       None \<Rightarrow> throwC (conflict ''Unbound stocktake targets require a separate approved creation workflow'')
     | Some batchId \<Rightarrow> let a = pj_row x in
         bindC (guardC (sa_bucket a \<in> set buckets) (conflict ''Stocktake adjustment bucket is invalid'')) (\<lambda>_.
         bindC (updateC batches batches_update ok_batch (\<lambda>j b. j = batchId \<and> bucket_value (sa_bucket a) b = sa_snapshot a)
           (set_bucket (sa_bucket a) (sa_counted a))) (\<lambda>updated.
         guardC (updated = 1) (version_conflict ''Stocktake bucket changed after snapshot''))))"

definition decideAdjustment :: "env \<Rightarrow> claim \<Rightarrow> int \<Rightarrow> stocktake \<Rightarrow> int \<times> pending_adjustment \<Rightarrow> unit run" where
  "decideAdjustment e cl stocktakeId task = (\<lambda>(i, x). let a = pj_row x in
     bindC (whenC (cl_action cl = ''approved'')
       (bindC (adjustBucket x) (\<lambda>_.
        bindC (insertC movements movements_update ok_movement
          \<lparr>im_warehouse = st_warehouse task, im_sku = pj_sku x, im_type = ''stocktake_adjustment_'' @ sa_bucket a,
           im_quantity = sa_variance a, im_delivery = None,
           im_source_key = Some (''stocktake:'' @ show_int stocktakeId @ '':adjustment:'' @ show_int i @ '':revision:'' @
             show_int (sa_revision a)),
           im_occurred_at = sql_now e, im_created_by = cl_user cl\<rparr>) (\<lambda>_. returnC ())))) (\<lambda>_.
     bindC (updateC adjustments adjustments_update ok_adjustment (\<lambda>j y. j = i \<and> sa_decision y = ''pending'')
       (\<lambda>y. y\<lparr>sa_decision := cl_action cl, sa_reviewed_by := Some (cl_user cl)\<rparr>)) (\<lambda>_. returnC ())))"

definition stocktakeVariance :: "env \<Rightarrow> claim \<Rightarrow> json run" where
  "stocktakeVariance e cl =
     bindC (effectApproval cl) (\<lambda>a.
     let stocktakeId = ap_entity_id a; status = (if cl_action cl = ''approved'' then ''completed'' else ''recount'') in
     bindC (queryC (\<lambda>s. fetch (stocktakes s) stocktakeId)) (\<lambda>found.
     bindC (requireC found (version_conflict ''Stocktake changed before approval effect'')) (\<lambda>task.
     bindC (guardC (st_status task = ''pending_approval'') (version_conflict ''Stocktake changed before approval effect'')) (\<lambda>_.
     bindC (lockWarehouseFreeze (st_warehouse task)) (\<lambda>_.
     bindC (queryC (\<lambda>s. pending_adjustments s stocktakeId)) (\<lambda>pendings.
     bindC (eachC (decideAdjustment e cl stocktakeId task) pendings) (\<lambda>_.
     bindC (updateC stocktakes stocktakes_update ok_stocktake (\<lambda>j t. j = stocktakeId \<and> st_status t = ''pending_approval'')
       (\<lambda>t. t\<lparr>st_status := status\<rparr>)) (\<lambda>_.
     returnC (JObj [(''stocktakeId'', jint stocktakeId), (''adjustmentCount'', jint (int (length pendings))),
       (''status'', JStr status)])))))))))"

section \<open>Production variance\<close>

definition report_row :: "db \<Rightarrow> int \<Rightarrow> (report \<times> execution_order \<times> string) option" where
  "report_row s reportId = Option.bind (fetch (reports s) reportId) (\<lambda>r.
     Option.bind (fetch (execution_orders s) (rp_order r)) (\<lambda>o1.
     map_option (\<lambda>oi. (r, o1, oi_sku oi)) (fetch (order_items s) (eo_order_item o1))))"

definition variance_batch :: "env \<Rightarrow> execution_order \<Rightarrow> int \<Rightarrow> string \<Rightarrow> int \<Rightarrow> string \<Rightarrow> int \<Rightarrow> batch" where
  "variance_batch e o1 reportId sku w owner n =
     \<lparr>ib_batch_no = ''PROD-'' @ eo_no o1 @ ''-'' @ show_int reportId @ (if owner = ''company'' then ''-C'' else ''-F''),
      ib_warehouse = w, ib_sku = sku, ib_production_date = Some (sql_today e), ib_inbound_date = sql_today e,
      ib_expiry_date = None, ib_available = (if owner = ''company'' then 0 else n), ib_locked = 0, ib_defective = 0,
      ib_pending = (if owner = ''company'' then n else 0), ib_quarantine = 0, ib_ownership = owner,
      ib_expiry_status = ''normal''\<rparr>"

definition storeVariance :: "env \<Rightarrow> claim \<Rightarrow> execution_order \<Rightarrow> int \<Rightarrow> string \<Rightarrow> int \<Rightarrow> int \<Rightarrow> unit run" where
  "storeVariance e cl o1 reportId sku kept_qty factoryOwned =
     bindC (queryC (\<lambda>s. production_warehouse s (eo_factory o1))) (\<lambda>found.
     bindC (requireC found (conflict ''Factory warehouse unavailable'')) (\<lambda>w.
     bindC (guardC (0 < w) (conflict ''Factory warehouse unavailable'')) (\<lambda>_.
     bindC (lockWarehouseFreeze w) (\<lambda>_.
     bindC (freezeExists w (Some sku)) (\<lambda>isFrozen.
     bindC (guardC (\<not> isFrozen) (conflict ''Production warehouse is frozen by a stocktake'')) (\<lambda>_.
     bindC (whenC (0 < kept_qty)
       (bindC (insertC batches batches_update ok_batch (variance_batch e o1 reportId sku w ''company'' kept_qty)) (\<lambda>_.
        bindC (insertC movements movements_update ok_movement
          \<lparr>im_warehouse = w, im_sku = sku, im_type = ''inbound_pending_inspection'', im_quantity = kept_qty,
           im_delivery = None, im_source_key = Some (''production_report:'' @ show_int reportId @ '':company''),
           im_occurred_at = sql_now e, im_created_by = cl_user cl\<rparr>) (\<lambda>_. returnC ())))) (\<lambda>_.
     whenC (0 < factoryOwned)
       (bindC (insertC batches batches_update ok_batch (variance_batch e o1 reportId sku w ''factory'' factoryOwned))
         (\<lambda>_. returnC ())))))))))"

definition variance_status :: "bool \<Rightarrow> bool \<Rightarrow> string" where
  "variance_status approved overproduction = (if approved then ''completed''
     else if overproduction then ''completed_factory_owned'' else ''variance_rejected'')"

definition variance_result :: "bool \<Rightarrow> bool \<Rightarrow> string" where
  "variance_result approved overproduction = (if approved then ''approved''
     else if overproduction then ''rejected_factory_owned'' else ''rejected'')"

definition productionVariance :: "env \<Rightarrow> claim \<Rightarrow> json run" where
  "productionVariance e cl =
     bindC (effectApproval cl) (\<lambda>a.
     bindC (parsedPayload (ap_payload a)) (\<lambda>p.
     let reportId = ap_entity_id a; approved = (cl_action cl = ''approved'') in
     bindC (queryC (\<lambda>s. report_row s reportId)) (\<lambda>found.
     bindC (requireC found (version_conflict ''Production report changed before approval effect'')) (\<lambda>(r, o1, sku).
     bindC (guardC (eo_status o1 = ''variance_pending'') (version_conflict ''Production report changed before approval effect'')) (\<lambda>_.
     let overproduction = (fld p ''overproduction'' = Some (JBool True));
         kept_qty = (if approved then rp_actual r else min (rp_actual r) (eo_planned o1));
         factoryOwned = (if cl_action cl = ''rejected'' \<and> overproduction then max 0 (rp_actual r - eo_planned o1) else 0) in
     bindC (updateC reports reports_update ok_report (\<lambda>j _. j = reportId \<and> True)
       (\<lambda>x. x\<lparr>rp_result := variance_result approved overproduction, rp_company := kept_qty,
         rp_factory_owned := factoryOwned, rp_reviewed_by := Some (cl_user cl)\<rparr>)) (\<lambda>_.
     bindC (updateC material_lines material_lines_update ok_line (\<lambda>_ x. ml_order x = rp_order r)
       (\<lambda>x. x\<lparr>ml_deviation := cl_action cl, ml_reserved := 0\<rparr>)) (\<lambda>_.
     bindC (updateC execution_orders execution_orders_update ok_execution
       (\<lambda>j x. j = rp_order r \<and> eo_status x = ''variance_pending'')
       (\<lambda>x. x\<lparr>eo_completed := kept_qty, eo_status := variance_status approved overproduction\<rparr>)) (\<lambda>_.
     bindC (whenC (approved \<or> overproduction) (storeVariance e cl o1 reportId sku kept_qty factoryOwned)) (\<lambda>_.
     returnC (JObj [(''reportId'', jint reportId), (''executionOrderId'', jint (rp_order r)),
       (''acceptedQuantity'', jint kept_qty), (''factoryOwnedQuantity'', jint factoryOwned)]))))))))))"

end
