(* ===== verification/Corrections.thy ===== *)
theory Corrections
  imports Ledger Effects
begin

text \<open>
  The effect of an approved \<open>financial_record_correction\<close> (\<open>modules/approvals/writes.ts\<close>): the original
  record is reversed, the corrected one is booked, and the payment requests and the invoice exception are
  projected again from the ledger. The money invariant is kept.
\<close>

section \<open>The effect\<close>

record proposal =
  pp_request :: int
  pp_amount :: int
  pp_paid_at :: string
  pp_reference :: string

definition readProposal :: "(string \<times> json) list \<Rightarrow> proposal run" where
  "readProposal p =
     bindC (integer (fld p ''proposedPaymentRequestId'') ''proposedPaymentRequestId'' 1) (\<lambda>request.
     bindC (integer (fld p ''proposedAmountMinor'') ''proposedAmountMinor'' 1) (\<lambda>amount.
     bindC (stringC (fld p ''proposedPaidAt'') ''proposedPaidAt'' 100) (\<lambda>paidAt.
     bindC (stringC (fld p ''proposedBankReference'') ''proposedBankReference'' 191) (\<lambda>reference.
     returnC \<lparr>pp_request = request, pp_amount = amount, pp_paid_at = paidAt, pp_reference = reference\<rparr>))))"

definition related_payments :: "db \<Rightarrow> int \<Rightarrow> payment list" where
  "related_payments s i = map snd (select (payments s) (\<lambda>_ p. py_reverses p = Some i \<or> py_corrects p = Some i))"

definition related_ok :: "payment \<Rightarrow> bool" where
  "related_ok p \<longleftrightarrow> (py_reverses p \<noteq> None \<longrightarrow> py_type p = ''reversal'') \<and> (py_corrects p \<noteq> None \<longrightarrow> py_type p = ''correction'')"

definition lockRequest :: "int \<Rightarrow> (int \<times> payment_request) run" where
  "lockRequest i = bindC (queryC (\<lambda>s. fetch (payment_requests s) i)) (\<lambda>found.
     bindC (requireC found (not_found ''Correction payment request not found'')) (\<lambda>q. returnC (i, q)))"

definition correctable_target :: "payment_request \<Rightarrow> bool" where
  "correctable_target q \<longleftrightarrow> \<not> (pq_covered q < pq_total q \<or>
     pq_status q \<in> set [''waiting_invoice'', ''invoice_exception_frozen'', ''failed'', ''cancelled''])"

definition exception_requests :: "db \<Rightarrow> int \<Rightarrow> int list" where
  "exception_requests s invoiceId = map (\<lambda>(_, a). aq_request a)
     (select (invoice_allocations s) (\<lambda>_ a. aq_invoice a = invoiceId \<and> aq_status a \<in> set [''active'', ''frozen'']))"

definition refundException :: "payment \<Rightarrow> int \<Rightarrow> (int \<times> invoice_exception \<times> int list) run" where
  "refundException original proposedRequest =
     bindC (requireC (py_exception original) (conflict ''Refund correction has no invoice exception'')) (\<lambda>i.
     bindC (queryC (\<lambda>s. fetch (invoice_exceptions s) i)) (\<lambda>found.
     bindC (requireC found (not_found ''Refund exception not found'')) (\<lambda>x.
     bindC (queryC (\<lambda>s. exception_requests s (ix_invoice x))) (\<lambda>allocatedTo.
     bindC (guardC (py_request original \<in> set allocatedTo \<and> proposedRequest \<in> set allocatedTo)
       (conflict ''Refund correction request is not allocated to the exception invoice'')) (\<lambda>_.
     returnC (i, x, allocatedTo))))))"

definition reversal_of :: "env \<Rightarrow> claim \<Rightarrow> approval \<Rightarrow> payment \<Rightarrow> payment" where
  "reversal_of e cl a original =
     \<lparr>py_request = py_request original, py_amount = - py_amount original, py_paid_at = sql_now e,
      py_reference = ''reversal:'' @ py_reference original, py_type = ''reversal'', py_reverses = Some (ap_entity_id a),
      py_corrects = None, py_exception = py_exception original, py_recorded_by = ap_requested_by a,
      py_reviewed_by = Some (cl_user cl), py_review = ''approved'', py_updated_at = sql_ms e\<rparr>"

definition correction_of :: "env \<Rightarrow> claim \<Rightarrow> approval \<Rightarrow> payment \<Rightarrow> proposal \<Rightarrow> payment" where
  "correction_of e cl a original p =
     \<lparr>py_request = pp_request p, py_amount = pp_amount p, py_paid_at = pp_paid_at p,
      py_reference = pp_reference p, py_type = ''correction'', py_reverses = None,
      py_corrects = Some (ap_entity_id a), py_exception = py_exception original, py_recorded_by = ap_requested_by a,
      py_reviewed_by = Some (cl_user cl), py_review = ''approved'', py_updated_at = sql_ms e\<rparr>"

text \<open>
  The projection of one request: the sum of its ledger rows without exception. The columns are INTs, so the
  running sum of a ledger is an exact JavaScript number.
\<close>

definition correction_net :: "payment list \<Rightarrow> int run" where
  "correction_net ledger = foldC (\<lambda>net p.
     bindC (guardC (safe (py_amount p)) (conflict ''Correction ledger is invalid'')) (\<lambda>_.
     returnC (if py_exception p = None then net + py_amount p else net))) 0 ledger"

definition projected_status :: "int \<Rightarrow> int \<Rightarrow> string" where
  "projected_status amount net = (if net = amount then ''paid'' else if 0 < net then ''partially_paid'' else ''generated'')"

definition projectRequest :: "env \<Rightarrow> payment \<Rightarrow> proposal \<Rightarrow> int \<times> payment_request \<Rightarrow> unit run" where
  "projectRequest e original p = (\<lambda>(i, q).
     bindC (queryC (\<lambda>s. ledger_of s i)) (\<lambda>ledger.
     bindC (correction_net ledger) (\<lambda>net.
     bindC (guardC (\<not> (net < 0 \<or> pq_total q < net)) (conflict ''Correction would violate the payable ledger'')) (\<lambda>_.
     let status = projected_status (pq_total q) net in
     bindC (updateC payment_requests payment_requests_update ok_payment_request (\<lambda>j r. j = i \<and> pq_status r = pq_status q)
       (\<lambda>r. r\<lparr>pq_status := status,
         pq_paid_at := (if status = ''paid'' then (if py_type original = ''refund'' then pq_paid_at q
           else if i = pp_request p then Some (pp_paid_at p) else pq_paid_at q) else None),
         pq_updated_at := sql_ms e\<rparr>)) (\<lambda>updated.
     guardC (updated = 1) (version_conflict ''Payment request changed concurrently''))))))"

definition exception_ledger :: "db \<Rightarrow> int \<Rightarrow> payment list" where
  "exception_ledger s i = map snd (select (payments s) (\<lambda>_ p. py_exception p = Some i))"

definition correctedRefund :: "int list \<Rightarrow> payment list \<Rightarrow> int run" where
  "correctedRefund allocatedTo ledger = foldC (\<lambda>corrected p.
     bindC (guardC (py_request p \<in> set allocatedTo \<and> safe (py_amount p) \<and>
         py_type p \<in> set [''refund'', ''reversal'', ''correction''] \<and>
         \<not> (if py_type p = ''reversal'' then 0 \<le> py_amount p else py_amount p \<le> 0))
       (conflict ''Refund correction ledger is invalid'')) (\<lambda>_.
     bindC (guardC (safe (corrected + py_amount p)) (conflict ''Refund correction ledger exceeds safe bounds'')) (\<lambda>_.
     returnC (corrected + py_amount p)))) 0 ledger"

definition projectException :: "env \<Rightarrow> int \<times> invoice_exception \<times> int list \<Rightarrow> unit run" where
  "projectException e = (\<lambda>(i, x, allocatedTo).
     bindC (queryC (\<lambda>s. exception_ledger s i)) (\<lambda>ledger.
     bindC (correctedRefund allocatedTo ledger) (\<lambda>corrected.
     bindC (guardC (\<not> (corrected < 0 \<or> ix_affected x < corrected + ix_covered x))
       (conflict ''Correction would violate remediation bounds'')) (\<lambda>_.
     let resolved = (corrected + ix_covered x = ix_affected x) in
     bindC (updateC invoice_exceptions invoice_exceptions_update ok_exception
       (\<lambda>j y. j = i \<and> ix_status y = ix_status x \<and> ix_refunded y = ix_refunded x)
       (\<lambda>y. y\<lparr>ix_refunded := corrected, ix_status := (if resolved then ''resolved'' else ''awaiting_remediation''),
         ix_resolved_at := (if resolved then Some (js_now e) else None), ix_updated_at := sql_ms e\<rparr>)) (\<lambda>projected.
     guardC (projected = 1) (version_conflict ''Refund exception changed concurrently''))))))"

definition correction_requests :: "int \<Rightarrow> int \<Rightarrow> int list" where
  "correction_requests i j = (if i = j then [i] else if i < j then [i, j] else [j, i])"

definition claimCorrectionKey :: "string \<Rightarrow> int \<Rightarrow> unit run" where
  "claimCorrectionKey key recordId =
     bindC (queryC (\<lambda>s. business_keys s (''correction'', key))) (\<lambda>existing.
     bindC (guardC (existing = None) (conflict ''Correction bank reference already exists'')) (\<lambda>_.
     modifyC (\<lambda>s. s\<lparr>business_keys := (business_keys s)((''correction'', key) \<mapsto> show_int recordId)\<rparr>)))"

definition applyCorrection :: "env \<Rightarrow> claim \<Rightarrow> approval \<Rightarrow> proposal \<Rightarrow> json run" where
  "applyCorrection e cl a p =
     bindC (queryC (\<lambda>s. fetch (payments s) (ap_entity_id a))) (\<lambda>found.
     bindC (requireC found (conflict ''Original financial record changed'')) (\<lambda>original.
     bindC (guardC (py_type original \<in> set [''payment'', ''refund'']) (conflict ''Original financial record changed'')) (\<lambda>_.
     bindC (queryC (\<lambda>s. related_payments s (ap_entity_id a))) (\<lambda>related.
     bindC (guardC (list_all related_ok related) (conflict ''Stored financial correction relationship is invalid'')) (\<lambda>_.
     bindC (guardC (related = []) (conflict ''Financial record was already corrected'')) (\<lambda>_.
     bindC (mapC lockRequest (correction_requests (py_request original) (pp_request p))) (\<lambda>requests.
     bindC (requireC (map_of requests (pp_request p)) (not_found ''Correction payment request not found'')) (\<lambda>target.
     bindC (guardC (py_type original = ''payment'' \<longrightarrow> correctable_target target) (conflict ''Correction target is not payable'')) (\<lambda>_.
     bindC (if py_type original = ''refund'' then bindC (refundException original (pp_request p)) (\<lambda>x. returnC (Some x))
       else returnC None) (\<lambda>refund.
     bindC (claimCorrectionKey (pp_reference p) (ap_entity_id a)) (\<lambda>_.
     bindC (insertC payments payments_update ok_payment (reversal_of e cl a original)) (\<lambda>_.
     bindC (insertC payments payments_update ok_payment (correction_of e cl a original p)) (\<lambda>_.
     bindC (eachC (projectRequest e original p) requests) (\<lambda>_.
     bindC (case refund of None \<Rightarrow> returnC () | Some x \<Rightarrow> projectException e x) (\<lambda>_.
     returnC (JObj [(''paymentRecordId'', jint (ap_entity_id a)), (''status'', JStr ''corrected''),
       (''proposedPaymentRequestId'', jint (pp_request p)), (''proposedAmountMinor'', jint (pp_amount p))]))))))))))))))))"

definition financialCorrection :: "env \<Rightarrow> claim \<Rightarrow> json run" where
  "financialCorrection e cl =
     bindC (effectApproval cl) (\<lambda>a.
     if cl_action cl = ''rejected''
     then returnC (JObj [(''paymentRecordId'', jint (ap_entity_id a)), (''status'', JStr ''rejected'')])
     else
       bindC (parsedPayload (ap_payload a)) (\<lambda>body.
       bindC (readProposal body) (\<lambda>p. applyCorrection e cl a p)))"

section \<open>What a correction does\<close>

lemma wp_effectApprovalI [wp_intros]:
  "(\<And>i a. to_safe_integer (Some (JStr (cl_object_id cl))) = Some i \<Longrightarrow> fetch (approvals s) i = Some a \<Longrightarrow> Q a s) \<Longrightarrow>
    wp (effectApproval cl) Q s"
  unfolding effectApproval_def by (intro wp_intros)

lemma wp_parsedPayloadI [wp_intros]: "(\<And>kvs. p = JObj kvs \<Longrightarrow> Q kvs s) \<Longrightarrow> wp (parsedPayload p) Q s"
  by (auto simp: wp_def parsedPayload_def returnC_def throwC_def split: json.split)

text \<open>What the payload of the approval asks for, field by field.\<close>

definition given_text :: "json option \<Rightarrow> string \<Rightarrow> bool" where
  "given_text v t \<longleftrightarrow> (\<exists>x. v = Some (JStr x) \<and> trim x = t)"

definition asked :: "json \<Rightarrow> proposal \<Rightarrow> bool" where
  "asked payload p \<longleftrightarrow> (\<exists>kvs. payload = JObj kvs \<and>
     to_safe_integer (fld kvs ''proposedPaymentRequestId'') = Some (pp_request p) \<and>
     to_safe_integer (fld kvs ''proposedAmountMinor'') = Some (pp_amount p) \<and>
     given_text (fld kvs ''proposedPaidAt'') (pp_paid_at p) \<and>
     given_text (fld kvs ''proposedBankReference'') (pp_reference p))"

lemma wp_readProposalI [wp_intros]:
  "(\<And>p. 1 \<le> pp_amount p \<Longrightarrow> safe (pp_amount p) \<Longrightarrow> asked (JObj body) p \<Longrightarrow> Q p s) \<Longrightarrow> wp (readProposal body) Q s"
  unfolding readProposal_def by (intro wp_intros) (simp add: safe_given asked_def given_text_def)

lemma wp_lockRequests:
  assumes "\<And>qs. map fst qs = ids \<Longrightarrow> \<forall>(i, q) \<in> set qs. fetch (payment_requests s) i = Some q \<Longrightarrow> Q qs s"
  shows "wp (mapC lockRequest ids) Q s"
proof -
  have "wp (mapC lockRequest ids) (\<lambda>qs s'. s' = s \<and> map fst qs = ids \<and>
      (\<forall>(i, q) \<in> set qs. fetch (payment_requests s) i = Some q)) s"
  proof (induction ids)
    case Nil
    then show ?case by (simp add: wp_return)
  next
    case (Cons i ids)
    show ?case
      unfolding mapC.simps lockRequest_def
      by (intro wp_intros, rule wp_mono [OF Cons.IH [unfolded lockRequest_def]]) (auto simp: wp_simps)
  qed
  then show ?thesis by (rule wp_mono) (use assms in blast)
qed

lemma wp_correction_net:
  "wp (correction_net ledger) (\<lambda>n s'. s' = s \<and> n = sum_list (map (\<lambda>p. if py_exception p = None then py_amount p else 0) ledger)) s"
proof -
  have "wp (foldC (\<lambda>net p. bindC (guardC (safe (py_amount p)) (conflict ''Correction ledger is invalid'')) (\<lambda>_.
       returnC (if py_exception p = None then net + py_amount p else net))) n ledger)
     (\<lambda>m s'. s' = s \<and> m = n + sum_list (map (\<lambda>p. if py_exception p = None then py_amount p else 0) ledger)) s" for n
    by (induction ledger arbitrary: n) (simp_all add: wp_simps add.assoc [symmetric])
  from this [of 0] show ?thesis by (simp add: correction_net_def)
qed

lemma wp_correctedRefund: "wp (correctedRefund al ledger) (\<lambda>n s'. s' = s \<and> n = sum_list (map py_amount ledger)) s"
proof -
  have "wp (foldC (\<lambda>corrected p. bindC (guardC (py_request p \<in> set al \<and> safe (py_amount p) \<and>
         py_type p \<in> set [''refund'', ''reversal'', ''correction''] \<and>
         \<not> (if py_type p = ''reversal'' then 0 \<le> py_amount p else py_amount p \<le> 0))
       (conflict ''Refund correction ledger is invalid'')) (\<lambda>_.
     bindC (guardC (safe (corrected + py_amount p)) (conflict ''Refund correction ledger exceeds safe bounds'')) (\<lambda>_.
     returnC (corrected + py_amount p)))) n ledger) (\<lambda>m s'. s' = s \<and> m = n + sum_list (map py_amount ledger)) s" for n
    by (induction ledger arbitrary: n) (simp_all add: wp_simps add.assoc [symmetric])
  from this [of 0] show ?thesis by (simp add: correctedRefund_def)
qed

text \<open>On a well-formed ledger the projected sums are the ones of the finance invariant.\<close>

lemma correction_net_of:
  assumes "each_key (\<lambda>_. ledger_row_ok) (payments s)"
  shows "sum_list (map (\<lambda>p. if py_exception p = None then py_amount p else 0) (ledger_of s q)) = net_of (payments s) q"
proof -
  have "payable p = (if py_exception p = None then py_amount p else 0)" if "p \<in> set (ledger_of s q)" for p
  proof -
    from that obtain j where "(j, p) \<in> set (rows (payments s))" by (auto simp: ledger_of_def select_def)
    with assms have "ledger_row_ok p" by (auto simp: each_key_def fetch_rows)
    then show ?thesis by (auto simp: ledger_row_ok_def payable_def)
  qed
  then have eq: "map (\<lambda>p. if py_exception p = None then py_amount p else 0) (ledger_of s q) = map payable (ledger_of s q)"
    by (intro map_cong) simp_all
  show ?thesis by (simp only: eq ledger_net)
qed

lemma exception_ledger_sum: "sum_list (map py_amount (exception_ledger s i)) = remedied (payments s) i"
  by (simp add: exception_ledger_def select_def remedied_def sumT_def sum_filter_rows del: map_map)

text \<open>Two versions of the payment requests that differ in status, payment date and time stamp only.\<close>

definition same_money :: "payment_request tbl \<Rightarrow> payment_request tbl \<Rightarrow> bool" where
  "same_money pq pq' \<longleftrightarrow> wf_tbl pq' = wf_tbl pq \<and>
     (\<forall>i. map_option (\<lambda>q. (pq_total q, pq_covered q)) (fetch pq' i) = map_option (\<lambda>q. (pq_total q, pq_covered q)) (fetch pq i))"

lemma same_money_refl [simp]: "same_money pq pq"
  by (simp add: same_money_def)

lemma same_money_update:
  "same_money pq pq' \<Longrightarrow> (\<And>q. pq_total (f q) = pq_total q \<and> pq_covered (f q) = pq_covered q) \<Longrightarrow> same_money pq (updateT c f pq')"
  by (simp add: same_money_def fetch_updateT option.map_comp comp_def if_distrib [of pq_total] if_distrib [of pq_covered] cong: if_cong)

lemma same_moneyD:
  assumes "same_money pq pq'" and "fetch pq' i = Some q'"
  obtains q where "fetch pq i = Some q" and "pq_total q' = pq_total q" and "pq_covered q' = pq_covered q"
proof -
  have "map_option (\<lambda>q. (pq_total q, pq_covered q)) (fetch pq' i) = map_option (\<lambda>q. (pq_total q, pq_covered q)) (fetch pq i)"
    using assms(1) unfolding same_money_def by (elim conjE) (erule spec)
  with assms(2) show thesis using that by (cases "fetch pq i") auto
qed

lemma coverage_ok_same:
  assumes "coverage_ok pq al" and "same_money pq pq'"
  shows "coverage_ok pq' al"
proof -
  have "covered_ok al i q'" if q': "fetch pq' i = Some q'" for i q'
  proof -
    obtain q where q: "fetch pq i = Some q" and same: "pq_total q' = pq_total q" "pq_covered q' = pq_covered q"
      by (rule same_moneyD [OF assms(2) q'])
    have "covered_ok al i q" using assms(1) q by (simp add: coverage_ok_def each_key_def)
    then show ?thesis by (simp add: covered_ok_def same)
  qed
  with assms show ?thesis by (auto simp: coverage_ok_def each_key_def same_money_def)
qed

text \<open>The projection of the requests: each ends in the status its ledger shows, inside its bounds.\<close>

definition shows_ledger :: "payment_request tbl \<Rightarrow> payment tbl \<Rightarrow> payment_request tbl \<Rightarrow> int \<Rightarrow> bool" where
  "shows_ledger pq0 py pq i \<longleftrightarrow> (\<exists>q q'. fetch pq0 i = Some q \<and> 0 \<le> net_of py i \<and> net_of py i \<le> pq_total q \<and>
     fetch pq i = Some q' \<and> pq_status q' = projected_status (pq_total q) (net_of py i))"

abbreviation projected :: "db \<Rightarrow> payment_request tbl \<Rightarrow> int \<Rightarrow> bool" where
  "projected s pq i \<equiv> shows_ledger (payment_requests s) (payments s) pq i"

lemma projected_step:
  assumes wf: "wf_tbl pq" and money: "same_money (payment_requests s) pq" and q: "fetch (payment_requests s) i = Some q"
    and net: "0 \<le> net_of (payments s) i" "net_of (payments s) i \<le> pq_total q"
    and one: "matched pq (\<lambda>j r. j = i \<and> pq_status r = pq_status q) = 1"
    and f: "\<And>r :: payment_request. pq_status (f r) = projected_status (pq_total q) (net_of (payments s) i)"
  shows "projected s (updateT (\<lambda>j r. j = i \<and> pq_status r = pq_status q) f pq) i"
    and "projected s pq j \<Longrightarrow> projected s (updateT (\<lambda>j r. j = i \<and> pq_status r = pq_status q) f pq) j"
proof -
  obtain r where r: "fetch pq i = Some r" "pq_status r = pq_status q"
    using one by (auto simp: matched_one [OF wf])
  then show first: "projected s (updateT (\<lambda>j r. j = i \<and> pq_status r = pq_status q) f pq) i"
    using q net by (auto simp: shows_ledger_def fetch_updateT f)
  show "projected s (updateT (\<lambda>j r. j = i \<and> pq_status r = pq_status q) f pq) j" if "projected s pq j"
  proof (cases "j = i")
    case True
    with first show ?thesis by simp
  next
    case False
    with that show ?thesis by (auto simp: shows_ledger_def fetch_updateT)
  qed
qed

lemma wp_projectRequestI:
  assumes ok: "each_key (\<lambda>_. ledger_row_ok) (payments s)"
    and Q: "\<And>f. (\<And>r. pq_total (f r) = pq_total r \<and> pq_covered (f r) = pq_covered r) \<Longrightarrow>
      (\<And>r. pq_status (f r) = projected_status (pq_total q) (net_of (payments s) i)) \<Longrightarrow>
      0 \<le> net_of (payments s) i \<Longrightarrow> net_of (payments s) i \<le> pq_total q \<Longrightarrow>
      matched (payment_requests s) (\<lambda>j r. j = i \<and> pq_status r = pq_status q) = 1 \<Longrightarrow>
      Q () (payment_requests_update (updateT (\<lambda>j r. j = i \<and> pq_status r = pq_status q) f) s)"
  shows "wp (projectRequest e original p (i, q)) Q s"
  unfolding projectRequest_def prod.case
  by (intro wp_bindI wp_queryI, rule wp_mono [OF wp_correction_net], elim conjE, hypsubst,
      unfold correction_net_of [OF ok], intro wp_intros, rule Q) simp_all

lemma wp_projectRequests:
  assumes ok: "each_key (\<lambda>_. ledger_row_ok) (payments s)" and wf: "wf_tbl (payment_requests s)"
    and qs: "\<forall>(i, q) \<in> set qs. fetch (payment_requests s) i = Some q"
    and Q: "\<And>pq. same_money (payment_requests s) pq \<Longrightarrow> \<forall>x \<in> set qs. projected s pq (fst x) \<Longrightarrow> Q () (s\<lparr>payment_requests := pq\<rparr>)"
  shows "wp (eachC (projectRequest e original p) qs) Q s"
proof -
  let ?I = "\<lambda>s1. \<exists>pq. s1 = s\<lparr>payment_requests := pq\<rparr> \<and> same_money (payment_requests s) pq"
  let ?P = "\<lambda>(x :: int \<times> payment_request) s1. projected s (payment_requests s1) (fst x)"
  have body: "wp (projectRequest e original p x) (\<lambda>_ s'. ?I s' \<and> ?P x s' \<and> (\<forall>y. ?P y s1 \<longrightarrow> ?P y s')) s1"
    if x: "x \<in> set qs" and I: "?I s1" for x :: "int \<times> payment_request" and s1
  proof -
    obtain i q where xi: "x = (i, q)" by (cases x)
    obtain pq where s1: "s1 = s\<lparr>payment_requests := pq\<rparr>" and money: "same_money (payment_requests s) pq" using I by blast
    have q: "fetch (payment_requests s) i = Some q" using qs x xi by auto
    have wfq: "wf_tbl pq" using money wf by (simp add: same_money_def)
    show ?thesis
      unfolding xi s1
    proof (rule wp_projectRequestI)
      fix f :: "payment_request \<Rightarrow> payment_request"
      assume f: "\<And>r. pq_total (f r) = pq_total r \<and> pq_covered (f r) = pq_covered r"
        "\<And>r. pq_status (f r) = projected_status (pq_total q) (net_of (payments (s\<lparr>payment_requests := pq\<rparr>)) i)"
        and net: "0 \<le> net_of (payments (s\<lparr>payment_requests := pq\<rparr>)) i" "net_of (payments (s\<lparr>payment_requests := pq\<rparr>)) i \<le> pq_total q"
        and one: "matched (payment_requests (s\<lparr>payment_requests := pq\<rparr>)) (\<lambda>j r. j = i \<and> pq_status r = pq_status q) = 1"
      let ?pq = "updateT (\<lambda>j r. j = i \<and> pq_status r = pq_status q) f pq"
      have eq: "payment_requests_update (updateT (\<lambda>j r. j = i \<and> pq_status r = pq_status q) f) (s\<lparr>payment_requests := pq\<rparr>) =
          s\<lparr>payment_requests := ?pq\<rparr>" by (cases s) simp
      have "same_money (payment_requests s) ?pq" using money f(1) by (rule same_money_update)
      moreover have "projected s ?pq i" and "projected s pq j \<Longrightarrow> projected s ?pq j" for j
        using projected_step [OF wfq money q, of f] net one f(2) by simp_all
      ultimately show "(\<exists>pq'. payment_requests_update (updateT (\<lambda>j r. j = i \<and> pq_status r = pq_status q) f) (s\<lparr>payment_requests := pq\<rparr>)
            = s\<lparr>payment_requests := pq'\<rparr> \<and> same_money (payment_requests s) pq') \<and>
          projected s (payment_requests (payment_requests_update (updateT (\<lambda>j r. j = i \<and> pq_status r = pq_status q) f) (s\<lparr>payment_requests := pq\<rparr>))) (fst (i, q)) \<and>
          (\<forall>y. projected s (payment_requests (s\<lparr>payment_requests := pq\<rparr>)) (fst (y :: int \<times> payment_request)) \<longrightarrow>
            projected s (payment_requests (payment_requests_update (updateT (\<lambda>j r. j = i \<and> pq_status r = pq_status q) f) (s\<lparr>payment_requests := pq\<rparr>))) (fst y))"
        unfolding eq by auto
    qed (use ok in simp)
  qed
  show ?thesis
    by (rule wp_mono [OF wp_each_all [where I = ?I and P = ?P, OF body]]) (auto intro: Q intro!: exI [of _ "payment_requests s"])
qed

text \<open>
  \<open>corrected\<close>: what an approved correction of the record \<open>original\<close> leaves behind. Its reversal and the
  correction are booked, the two requests show their ledgers, and for a refund the exception shows its own.
\<close>

definition reprojected :: "invoice_exception tbl \<Rightarrow> payment tbl \<Rightarrow> invoice_exception tbl \<Rightarrow> int \<Rightarrow> invoice_exception \<Rightarrow> bool" where
  "reprojected ix py ix' i x \<longleftrightarrow> fetch ix i = Some x \<and> 0 \<le> remedied py i \<and> remedied py i + ix_covered x \<le> ix_affected x \<and>
     (\<exists>f. (\<forall>y. ix_refunded (f y) = remedied py i \<and> ix_covered (f y) = ix_covered y \<and> ix_affected (f y) = ix_affected y \<and>
        ix_status (f y) = (if remedied py i + ix_covered x = ix_affected x then ''resolved'' else ''awaiting_remediation'')) \<and>
      ix' = updateT (\<lambda>j y. j = i \<and> ix_status y = ix_status x \<and> ix_refunded y = ix_refunded x) f ix)"

definition corrected :: "env \<Rightarrow> claim \<Rightarrow> approval \<Rightarrow> payment \<Rightarrow> proposal \<Rightarrow> db \<Rightarrow> db \<Rightarrow> bool" where
  "corrected e cl a original p s s' \<longleftrightarrow>
     payments s' = insertT (correction_of e cl a original p) (insertT (reversal_of e cl a original) (payments s)) \<and>
     same_money (payment_requests s) (payment_requests s') \<and>
     (\<forall>i \<in> {py_request original, pp_request p}. shows_ledger (payment_requests s) (payments s') (payment_requests s') i) \<and>
     (case py_exception original of
        None \<Rightarrow> py_type original = ''payment'' \<and> invoice_exceptions s' = invoice_exceptions s
      | Some i \<Rightarrow> \<exists>x. reprojected (invoice_exceptions s) (payments s') (invoice_exceptions s') i x) \<and>
     invoice_allocations s' = invoice_allocations s \<and> invoices s' = invoices s \<and> approvals s' = approvals s"

lemma wp_refundExceptionI:
  assumes "\<And>i x al. py_exception original = Some i \<Longrightarrow> fetch (invoice_exceptions s) i = Some x \<Longrightarrow> Q (i, x, al) s"
  shows "wp (refundException original j) Q s"
  unfolding refundException_def by (intro wp_intros assms)

lemma wp_projectExceptionI:
  assumes "\<And>f. (\<And>y. ix_refunded (f y) = remedied (payments s) i \<and> ix_covered (f y) = ix_covered y \<and> ix_affected (f y) = ix_affected y \<and>
        ix_status (f y) = (if remedied (payments s) i + ix_covered x = ix_affected x then ''resolved'' else ''awaiting_remediation'')) \<Longrightarrow>
      0 \<le> remedied (payments s) i \<Longrightarrow> remedied (payments s) i + ix_covered x \<le> ix_affected x \<Longrightarrow>
      Q () (invoice_exceptions_update (updateT (\<lambda>j y. j = i \<and> ix_status y = ix_status x \<and> ix_refunded y = ix_refunded x) f) s)"
  shows "wp (projectException e (i, x, al)) Q s"
  unfolding projectException_def prod.case
  by (intro wp_bindI wp_queryI, rule wp_mono [OF wp_correctedRefund], elim conjE, hypsubst,
      unfold exception_ledger_sum, intro wp_intros, rule assms) simp_all

lemma wp_claimCorrectionKeyI: "(\<And>f. Q () (business_keys_update f s)) \<Longrightarrow> wp (claimCorrectionKey k i) Q s"
  unfolding claimCorrectionKey_def by (intro wp_intros)

lemma set_correction_requests: "set (correction_requests i j) = {i, j}"
  by (auto simp: correction_requests_def)

lemma reversal_row:
  assumes "ledger_row_ok original" and "py_type original \<in> {''payment'', ''refund''}"
  shows "ledger_row_ok (reversal_of e cl a original)"
  using assms by (auto simp: ledger_row_ok_def reversal_of_def safe_def record_types_def)

lemma correction_row: "1 \<le> pp_amount p \<Longrightarrow> safe (pp_amount p) \<Longrightarrow> ledger_row_ok (correction_of e cl a original p)"
  by (simp add: ledger_row_ok_def correction_of_def record_types_def)

lemma ledger_rows_insert: "each_key (\<lambda>_. ledger_row_ok) py \<Longrightarrow> ledger_row_ok p \<Longrightarrow> each_key (\<lambda>_. ledger_row_ok) (insertT p py)"
  by (rule each_key_insert)

definition booked :: "env \<Rightarrow> claim \<Rightarrow> approval \<Rightarrow> payment \<Rightarrow> proposal \<Rightarrow> db \<Rightarrow> payment tbl" where
  "booked e cl a original p s = insertT (correction_of e cl a original p) (insertT (reversal_of e cl a original) (payments s))"

lemma wp_booked:
  assumes inv: "finance_inv s" and amount: "1 \<le> pp_amount p" "safe (pp_amount p)"
    and original: "fetch (payments s) i = Some original" "py_type original \<in> {''payment'', ''refund''}"
    and qs: "map fst qs = correction_requests (py_request original) (pp_request p)"
      "\<forall>(i, q) \<in> set qs. fetch (payment_requests s) i = Some q"
    and Q: "\<And>pq. same_money (payment_requests s) pq \<Longrightarrow>
      \<forall>i \<in> {py_request original, pp_request p}. shows_ledger (payment_requests s) (booked e cl a original p s) pq i \<Longrightarrow>
      Q () (payments_update (insertT (correction_of e cl a original p)) (payments_update (insertT (reversal_of e cl a original))
        (business_keys_update f s))\<lparr>payment_requests := pq\<rparr>)"
  shows "wp (eachC (projectRequest e original p) qs) Q
    (payments_update (insertT (correction_of e cl a original p)) (payments_update (insertT (reversal_of e cl a original))
      (business_keys_update f s)))" (is "wp _ _ ?s2")
proof -
  have rows: "each_key (\<lambda>_. ledger_row_ok) (payments s)" and wf: "wf_tbl (payment_requests s)"
    using finance_invD(1) [OF inv] by (auto simp: ledger_ok_def each_key_def)
  have "ledger_row_ok original" using each_keyD [OF rows original(1)] .
  then have rows2: "each_key (\<lambda>_. ledger_row_ok) (payments ?s2)"
    using rows original(2) amount by (simp add: ledger_rows_insert reversal_row correction_row)
  have pay: "payments ?s2 = booked e cl a original p s" by (simp add: booked_def)
  have ids: "fst ` set qs = {py_request original, pp_request p}"
    by (simp only: set_map [symmetric] qs(1) set_correction_requests)
  show ?thesis
  proof (rule wp_projectRequests [OF rows2])
    show "wf_tbl (payment_requests ?s2)" using wf by simp
    show "\<forall>(i, q) \<in> set qs. fetch (payment_requests ?s2) i = Some q" using qs(2) by simp
    fix pq assume money: "same_money (payment_requests ?s2) pq" and all: "\<forall>x \<in> set qs. projected ?s2 pq (fst x)"
    have "\<forall>i \<in> {py_request original, pp_request p}. projected ?s2 pq i" using all ids by (metis (no_types, lifting) imageE)
    then show "Q () (?s2\<lparr>payment_requests := pq\<rparr>)"
      using money by (intro Q) (simp_all add: booked_def)
  qed
qed

lemma wp_applyCorrection:
  assumes inv: "finance_inv s" and amount: "1 \<le> pp_amount p" "safe (pp_amount p)"
    and Q: "\<And>original s' r. fetch (payments s) (ap_entity_id a) = Some original \<Longrightarrow> py_type original \<in> {''payment'', ''refund''} \<Longrightarrow>
      related_payments s (ap_entity_id a) = [] \<Longrightarrow> corrected e cl a original p s s' \<Longrightarrow> Q r s'"
  shows "wp (applyCorrection e cl a p) Q s"
  unfolding applyCorrection_def
proof (intro wp_intros wp_lockRequests wp_refundExceptionI wp_claimCorrectionKeyI, goal_cases)
  case (1 original qs target i x al f)
  have type: "py_type original \<in> {''payment'', ''refund''}" using 1(2) by simp
  show ?case
  proof (rule wp_booked [OF inv amount 1(1) type 1(5,6)], unfold option.case, intro wp_intros wp_projectExceptionI, rule Q [OF 1(1) type 1(4)])
    fix pq and g :: "invoice_exception \<Rightarrow> invoice_exception"
    let ?s2 = "payments_update (insertT (correction_of e cl a original p)) (payments_update (insertT (reversal_of e cl a original))
        (business_keys_update f s))\<lparr>payment_requests := pq\<rparr>"
    assume pq: "same_money (payment_requests s) pq"
        "\<forall>i \<in> {py_request original, pp_request p}. shows_ledger (payment_requests s) (booked e cl a original p s) pq i"
      and g: "\<And>y. ix_refunded (g y) = remedied (payments ?s2) i \<and> ix_covered (g y) = ix_covered y \<and> ix_affected (g y) = ix_affected y \<and>
          ix_status (g y) = (if remedied (payments ?s2) i + ix_covered x = ix_affected x then ''resolved'' else ''awaiting_remediation'')"
      and bound: "0 \<le> remedied (payments ?s2) i" "remedied (payments ?s2) i + ix_covered x \<le> ix_affected x"
    let ?ix = "updateT (\<lambda>j y. j = i \<and> ix_status y = ix_status x \<and> ix_refunded y = ix_refunded x) g (invoice_exceptions s)"
    have "reprojected (invoice_exceptions s) (booked e cl a original p s) ?ix i x"
      unfolding reprojected_def using 1(11) bound g by (intro conjI exI [of _ g] allI) (simp_all add: booked_def)
    then show "corrected e cl a original p s (invoice_exceptions_update
        (updateT (\<lambda>j y. j = i \<and> ix_status y = ix_status x \<and> ix_refunded y = ix_refunded x) g) ?s2)"
      using pq by (auto simp: corrected_def booked_def 1(10))
  qed
next
  case (2 original qs target f)
  have type: "py_type original \<in> {''payment'', ''refund''}" using 2(2) by simp
  have "ledger_row_ok original"
    using finance_invD(1) [OF inv] 2(1) by (auto simp: ledger_ok_def each_key_def)
  then have none: "py_type original = ''payment''" "py_exception original = None"
    using type 2(9) by (auto simp: ledger_row_ok_def)
  show ?case
    by (rule wp_booked [OF inv amount 2(1) type 2(5,6)])
      (unfold option.case, intro wp_intros, rule Q [OF 2(1) type 2(4)], auto simp: corrected_def none booked_def)
qed

section \<open>The money invariant is kept\<close>

lemma net_other: "i \<notin> {py_request original, pp_request p} \<Longrightarrow> net_of (booked e cl a original p s) i = net_of (payments s) i"
  by (simp add: booked_def net_insert reversal_of_def correction_of_def)

lemma remedied_other: "py_exception original \<noteq> Some i \<Longrightarrow> remedied (booked e cl a original p s) i = remedied (payments s) i"
  by (simp add: booked_def remedied_insert reversal_of_def correction_of_def)

lemma booked_ledger:
  assumes ok: "ledger_ok (payment_requests s) (payments s)" and rows: "each_key (\<lambda>_. ledger_row_ok) (booked e cl a original p s)"
    and money: "same_money (payment_requests s) pq"
    and shows_all: "\<forall>i \<in> {py_request original, pp_request p}. shows_ledger (payment_requests s) (booked e cl a original p s) pq i"
  shows "ledger_ok pq (booked e cl a original p s)"
proof -
  let ?py = "booked e cl a original p s"
  have "0 \<le> net_of ?py i \<and> net_of ?py i \<le> pq_total q'" if q': "fetch pq i = Some q'" for i q'
  proof -
    obtain q where q: "fetch (payment_requests s) i = Some q" and total: "pq_total q' = pq_total q"
      by (rule same_moneyD [OF money q'])
    show ?thesis
    proof (cases "i \<in> {py_request original, pp_request p}")
      case True
      with shows_all q total show ?thesis by (auto simp: shows_ledger_def)
    next
      case False
      have "0 \<le> net_of (payments s) i \<and> net_of (payments s) i \<le> pq_total q"
        using ok q by (simp add: ledger_ok_def each_key_def)
      with False total show ?thesis by (simp add: net_other)
    qed
  qed
  then show ?thesis using rows ok money by (simp add: ledger_ok_def each_key_def same_money_def)
qed

lemma booked_exceptions:
  assumes ok: "exceptions_ok ix (payments s)"
    and ix': "case py_exception original of None \<Rightarrow> ix' = ix
      | Some i \<Rightarrow> \<exists>x. reprojected ix (booked e cl a original p s) ix' i x"
  shows "exceptions_ok ix' (booked e cl a original p s)"
proof -
  let ?py = "booked e cl a original p s"
  have rem: "each_key (remedy_ok (payments s)) ix" using ok by (simp add: exceptions_ok_def)
  have wf: "wf_tbl ix" using rem by (rule each_key_wf)
  have nxt: "nxt ix' = nxt ix" "wf_tbl ix'"
    using ix' wf by (auto simp: reprojected_def split: option.splits)
  have keys: "\<forall>(j, q) \<in> set (rows ?py). \<forall>i. py_exception q = Some i \<longrightarrow> i < nxt ix'"
  proof -
    have "i < nxt ix" if "py_exception original = Some i" for i
      using ix' that fetch_pos [OF wf] by (auto simp: reprojected_def)
    then show ?thesis
      using ok nxt by (auto simp: exceptions_ok_def booked_def rows_insert reversal_of_def correction_of_def)
  qed
  have "remedy_ok ?py i y" if y: "fetch ix' i = Some y" for i y
  proof (cases "py_exception original = Some i")
    case True
    with ix' obtain x where re: "reprojected ix ?py ix' i x" by auto
    then obtain f where x: "fetch ix i = Some x" and bound: "0 \<le> remedied ?py i" "remedied ?py i + ix_covered x \<le> ix_affected x"
      and f: "\<forall>y. ix_refunded (f y) = remedied ?py i \<and> ix_covered (f y) = ix_covered y \<and> ix_affected (f y) = ix_affected y"
      and upd: "ix' = updateT (\<lambda>j y. j = i \<and> ix_status y = ix_status x \<and> ix_refunded y = ix_refunded x) f ix"
      unfolding reprojected_def by blast
    have "y = f x" using y by (simp add: upd fetch_updateT x)
    moreover have "0 \<le> ix_covered x" using each_keyD [OF rem x] by (simp add: remedy_ok_def)
    ultimately show ?thesis using bound f by (simp add: remedy_ok_def add.commute)
  next
    case False
    have "fetch ix i = Some y"
      using ix' y False by (auto simp: reprojected_def fetch_updateT split: option.splits if_splits)
    from each_keyD [OF rem this] show ?thesis using remedied_other [OF False] by (simp add: remedy_ok_def)
  qed
  then show ?thesis using keys nxt by (simp add: exceptions_ok_def each_key_def)
qed

lemma corrected_keeps:
  assumes inv: "finance_inv s" and amount: "1 \<le> pp_amount p" "safe (pp_amount p)"
    and original: "fetch (payments s) i = Some original" "py_type original \<in> {''payment'', ''refund''}"
    and effect: "corrected e cl a original p s s'"
  shows "finance_inv s'"
proof -
  note parts = finance_invD [OF inv]
  have rows: "each_key (\<lambda>_. ledger_row_ok) (payments s)" using parts(1) by (simp add: ledger_ok_def)
  have "ledger_row_ok original" using each_keyD [OF rows original(1)] .
  then have rows2: "each_key (\<lambda>_. ledger_row_ok) (booked e cl a original p s)"
    using rows original(2) amount by (simp add: booked_def ledger_rows_insert reversal_row correction_row)
  have eqs: "payments s' = booked e cl a original p s" "invoice_allocations s' = invoice_allocations s" "invoices s' = invoices s"
    and money: "same_money (payment_requests s) (payment_requests s')"
    and req: "\<forall>i \<in> {py_request original, pp_request p}. shows_ledger (payment_requests s) (booked e cl a original p s) (payment_requests s') i"
    and ix: "case py_exception original of None \<Rightarrow> invoice_exceptions s' = invoice_exceptions s
      | Some i \<Rightarrow> \<exists>x. reprojected (invoice_exceptions s) (booked e cl a original p s) (invoice_exceptions s') i x"
    using effect by (auto simp: corrected_def booked_def split: option.splits)
  show ?thesis
    unfolding finance_inv_def eqs
    using booked_ledger [OF parts(1) rows2 money req] booked_exceptions [OF parts(2) ix] coverage_ok_same [OF parts(3) money] parts(4)
    by simp
qed

lemma wp_financialCorrection:
  assumes inv: "finance_inv s" and rejected: "cl_action cl = ''rejected'' \<Longrightarrow> (\<And>r. Q r s)"
    and Q: "\<And>i a original p s' r. to_safe_integer (Some (JStr (cl_object_id cl))) = Some i \<Longrightarrow> fetch (approvals s) i = Some a \<Longrightarrow>
      fetch (payments s) (ap_entity_id a) = Some original \<Longrightarrow> py_type original \<in> {''payment'', ''refund''} \<Longrightarrow>
      related_payments s (ap_entity_id a) = [] \<Longrightarrow> asked (ap_payload a) p \<Longrightarrow> corrected e cl a original p s s' \<Longrightarrow>
      finance_inv s' \<Longrightarrow> Q r s'"
  shows "wp (financialCorrection e cl) Q s"
  unfolding financialCorrection_def
proof (intro wp_intros)
  fix i a kvs and p :: proposal
  assume i: "to_safe_integer (Some (JStr (cl_object_id cl))) = Some i" "fetch (approvals s) i = Some a"
    and payload: "ap_payload a = JObj kvs" "asked (JObj kvs) p"
    and amount: "1 \<le> pp_amount p" "safe (pp_amount p)"
  show "wp (applyCorrection e cl a p) Q s"
    by (rule wp_applyCorrection [OF inv amount], rule Q [where p = p, OF i], assumption+, simp add: payload, assumption,
      rule corrected_keeps [OF inv amount], assumption+)
qed (rule rejected)

lemma related_after: "corrected e cl a original p s s' \<Longrightarrow> related_payments s' (ap_entity_id a) \<noteq> []"
  by (simp add: corrected_def related_payments_def select_def insertT_def reversal_of_def)

text \<open>The two records a correction books, next to the original record.\<close>

definition books_correction :: "int \<Rightarrow> payment \<Rightarrow> proposal \<Rightarrow> db \<Rightarrow> db \<Rightarrow> bool" where
  "books_correction i original p s s' \<longleftrightarrow> (\<exists>rev new. payments s' = insertT new (insertT rev (payments s)) \<and>
     py_type rev = ''reversal'' \<and> py_request rev = py_request original \<and> py_amount rev = - py_amount original \<and>
     py_reverses rev = Some i \<and> py_corrects rev = None \<and> py_exception rev = py_exception original \<and>
     py_type new = ''correction'' \<and> py_request new = pp_request p \<and> py_amount new = pp_amount p \<and>
     py_paid_at new = pp_paid_at p \<and> py_reference new = pp_reference p \<and>
     py_reverses new = None \<and> py_corrects new = Some i \<and> py_exception new = py_exception original)"

lemma corrected_books: "corrected e cl a original p s s' \<Longrightarrow> books_correction (ap_entity_id a) original p s s'"
  unfolding books_correction_def corrected_def
  by (intro exI [of _ "reversal_of e cl a original"] exI [of _ "correction_of e cl a original p"])
    (simp add: reversal_of_def correction_of_def)

text \<open>
  C10. An approved financial correction is exact and happens once: it books the reversal of the original payment or
  refund (the same request and exception, the negated amount) and the record the payload of the approval asks for
  (its request, amount, date and bank reference), leaves the two payment requests with the status their ledgers
  show and inside their totals (and, for a refund, the invoice exception with what its ledger remedies), keeps the
  money invariant, and no approval over the same record can correct it again.
\<close>

theorem correction_exact:
  assumes "finance_inv s" and "cl_action cl \<noteq> ''rejected''" and "financialCorrection e cl s = Inr (r, s')"
  shows "\<exists>i a original p. to_safe_integer (Some (JStr (cl_object_id cl))) = Some i \<and> fetch (approvals s) i = Some a \<and>
      fetch (payments s) (ap_entity_id a) = Some original \<and> py_type original \<in> {''payment'', ''refund''} \<and>
      asked (ap_payload a) p \<and> books_correction (ap_entity_id a) original p s s' \<and>
      corrected e cl a original p s s' \<and> finance_inv s' \<and>
      (\<forall>e' cl' i' a'. to_safe_integer (Some (JStr (cl_object_id cl'))) = Some i' \<and> fetch (approvals s') i' = Some a' \<and>
        ap_entity_id a' = ap_entity_id a \<and> cl_action cl' \<noteq> ''rejected'' \<longrightarrow> (\<exists>err. financialCorrection e' cl' s' = Inl err))"
proof -
  have "wp (financialCorrection e cl) (\<lambda>r s'. \<exists>i a original p. to_safe_integer (Some (JStr (cl_object_id cl))) = Some i \<and>
      fetch (approvals s) i = Some a \<and> fetch (payments s) (ap_entity_id a) = Some original \<and>
      py_type original \<in> {''payment'', ''refund''} \<and> asked (ap_payload a) p \<and> corrected e cl a original p s s' \<and>
      finance_inv s') s"
    by (rule wp_financialCorrection [OF assms(1)]) (use assms(2) in blast)+
  from wpD [OF this assms(3)] obtain i a original p where i: "to_safe_integer (Some (JStr (cl_object_id cl))) = Some i"
    and a: "fetch (approvals s) i = Some a" and original: "fetch (payments s) (ap_entity_id a) = Some original"
      "py_type original \<in> {''payment'', ''refund''}" and p: "asked (ap_payload a) p"
    and c: "corrected e cl a original p s s'" and inv: "finance_inv s'" by blast
  have again: "\<exists>err. financialCorrection e' cl' s' = Inl err"
    if "to_safe_integer (Some (JStr (cl_object_id cl'))) = Some i'" and "fetch (approvals s') i' = Some a'"
      and "ap_entity_id a' = ap_entity_id a" and "cl_action cl' \<noteq> ''rejected''" for e' cl' i' a'
  proof (cases "financialCorrection e' cl' s'")
    case (Inr q)
    obtain r' s2 where q: "q = (r', s2)" by (cases q)
    have "wp (financialCorrection e' cl') (\<lambda>_ _. related_payments s' (ap_entity_id a) = []) s'"
      using that by (intro wp_financialCorrection [OF inv]) simp_all
    from wpD [OF this Inr [unfolded q]] related_after [OF c] show ?thesis by simp
  qed blast
  from i a original p c corrected_books [OF c] inv again show ?thesis
    by (intro exI [of _ i] exI [of _ a] exI [of _ original] exI [of _ p]) blast
qed

section \<open>A correction at a concrete ledger\<close>

definition correction_claim :: claim where
  "correction_claim = \<lparr>cl_action = ''approved'', cl_challenge = ''CH-1'', cl_object_id = ''1'', cl_object_type = ''approval'',
     cl_object_version = 1, cl_digest = ''d'', cl_session = 1, cl_user = 1\<rparr>"

definition correction_db :: db where
  "correction_db = finance_db\<lparr>
     payments := insertT \<lparr>py_request = 1, py_amount = 4, py_paid_at = ''2025-01-01'', py_reference = ''B-1'', py_type = ''payment'',
       py_reverses = None, py_corrects = None, py_exception = None, py_recorded_by = 2, py_reviewed_by = None,
       py_review = ''approved'', py_updated_at = 1\<rparr> emptyT,
     approvals := insertT \<lparr>ap_request_no = ''AP-1'', ap_workflow = ''financial_record_correction'', ap_entity_type = ''payment_record'',
       ap_entity_id = 1, ap_summary = [], ap_payload = JObj [(''proposedPaymentRequestId'', jint 1), (''proposedAmountMinor'', jint 9),
         (''proposedPaidAt'', JStr ''2025-01-03''), (''proposedBankReference'', JStr ''B-3'')], ap_high_risk = True,
       ap_status = ''approved'', ap_requested_by = 2, ap_reviewed_by = Some 1, ap_review_comment = None, ap_sms_verified = True,
       ap_updated_at = 1\<rparr> emptyT\<rparr>"

lemma correction_db_inv: "finance_inv correction_db"
proof -
  let ?p = "\<lparr>py_request = 1, py_amount = 4, py_paid_at = ''2025-01-01'', py_reference = ''B-1'', py_type = ''payment'',
       py_reverses = None, py_corrects = None, py_exception = None, py_recorded_by = 2, py_reviewed_by = None,
       py_review = ''approved'', py_updated_at = 1\<rparr>"
  note parts = finance_invD [OF finance_db_inv]
  have empty: "payments finance_db = emptyT" by (simp add: finance_db_def empty_db_def)
  have row: "ledger_row_ok ?p" by (simp add: ledger_row_ok_def safe_def record_types_def)
  have total: "fetch (payment_requests finance_db) 1 = Some q \<Longrightarrow> pq_total q = 9" for q
    by (simp add: finance_db_def fetch_insertT) (auto simp: emptyT_def fetch_def)
  have net: "net_of emptyT q = 0" for q by (simp add: net_of_def emptyT_def sumT_def)
  have "ledger_ok (payment_requests finance_db) (insertT ?p (payments finance_db))"
    using parts(1) row by (rule ledger_ok_insert) (simp add: empty net payable_def total)
  moreover have "exceptions_ok (invoice_exceptions finance_db) (insertT ?p (payments finance_db))"
    using parts(2) by (rule exceptions_ok_insert) simp
  ultimately show ?thesis using parts(3,4) by (simp add: finance_inv_def correction_db_def empty)
qed

lemma correction_exact_witness:
  "\<exists>r s'. financialCorrection sample_env correction_claim correction_db = Inr (r, s') \<and> finance_inv s' \<and>
    (\<exists>original p. books_correction 1 original p correction_db s') \<and>
    \<not> succeeds (financialCorrection sample_env correction_claim s')"
proof -
  have "succeeds (financialCorrection sample_env correction_claim correction_db)" by code_simp
  then obtain r s' where r: "financialCorrection sample_env correction_claim correction_db = Inr (r, s')" by (rule succeedsE)
  have "cl_action correction_claim \<noteq> ''rejected''" by (simp add: correction_claim_def)
  from correction_exact [OF correction_db_inv this r] obtain i a original p where
    i: "to_safe_integer (Some (JStr (cl_object_id correction_claim))) = Some i" "fetch (approvals correction_db) i = Some a"
    and c: "corrected sample_env correction_claim a original p correction_db s'" and inv: "finance_inv s'"
    and books: "books_correction (ap_entity_id a) original p correction_db s'"
    and again: "\<forall>e' cl' i' a'. to_safe_integer (Some (JStr (cl_object_id cl'))) = Some i' \<and> fetch (approvals s') i' = Some a' \<and>
        ap_entity_id a' = ap_entity_id a \<and> cl_action cl' \<noteq> ''rejected'' \<longrightarrow> (\<exists>err. financialCorrection e' cl' s' = Inl err)" by blast
  from c i(2) have "fetch (approvals s') i = Some a" by (simp add: corrected_def)
  with again i(1) \<open>cl_action correction_claim \<noteq> ''rejected''\<close>
  have "\<exists>err. financialCorrection sample_env correction_claim s' = Inl err" by blast
  then have "\<not> succeeds (financialCorrection sample_env correction_claim s')" by (auto simp: succeeds_def)
  moreover from i(2) have "ap_entity_id a = 1" by (auto simp: correction_db_def fetch_def insertT_def emptyT_def split: if_splits)
  ultimately show ?thesis using r inv books by auto
qed

end
