(* ===== verification/Approvals.thy ===== *)
theory Approvals
  imports Corrections
begin

text \<open>
  \<open>decideApproval\<close> of \<open>modules/approvals/writes.ts\<close>: who may decide an approval request, which
  registered effect it is bound to, the step-up of a high-risk decision, the single transition of the request
  from \<open>pending\<close>, and the effect, audit row and event of the decision in one transaction. The registry of
  effects (\<open>context.approvalEffects\<close>) is an argument.
\<close>

section \<open>Binding a workflow to its effect\<close>

definition fulfillment_workflows :: "string list" where
  "fulfillment_workflows = [''warehouse_transfer'', ''warehouse_merge'', ''stocktake_variance'', ''production_variance'',
     ''shipment_deviation'', ''financial_record_correction'']"

definition requiredRoles :: "string \<Rightarrow> string list" where
  "requiredRoles workflow = (if workflow = ''user_role_change'' then [''admin'']
     else if workflow = ''financial_record_correction'' then [''admin'', ''finance''] else [''admin'', ''supply_chain''])"

type_synonym effects = "(claim \<Rightarrow> json run) registry"

record binding =
  bd_key :: string
  bd_action :: string
  bd_object_type :: string
  bd_version :: int
  bd_step_up :: string

definition approvalBinding :: "effects \<Rightarrow> int \<Rightarrow> approval \<Rightarrow> string \<Rightarrow> binding run" where
  "approvalBinding reg i a decision =
     (let workflow = ap_workflow a; registered = registeredTypes reg; procurement = ''r2.'' @ workflow in
      if workflow = ''user_role_change'' \<and> ''r1.user_role_change'' \<in> set registered then
        bindC (integer (Some (jint (ap_updated_at a))) ''objectVersion'' 1) (\<lambda>version.
        returnC \<lparr>bd_key = ''r1.user_role_change'', bd_action = decision, bd_object_type = ''approval'',
          bd_version = version, bd_step_up = ''review''\<rparr>)
      else if procurement \<in> set registered then
        bindC (queryC (\<lambda>s. versions s (''approval_request'', show_int i))) (\<lambda>found.
        bindC (requireC found (version_conflict ''R2 approval version is unavailable'')) (\<lambda>v.
        bindC (integer (Some (jint v)) ''objectVersion'' 1) (\<lambda>version.
        let act = (if decision = ''approved'' then ''approve'' else ''reject'') in
        returnC \<lparr>bd_key = procurement, bd_action = act, bd_object_type = ''r2:approval_request'',
          bd_version = version, bd_step_up = act\<rparr>)))
      else if workflow \<in> set fulfillment_workflows \<and> workflow \<in> set registered then
        bindC (integer (Some (jint (ap_updated_at a))) ''objectVersion'' 1) (\<lambda>version.
        returnC \<lparr>bd_key = workflow, bd_action = decision, bd_object_type = ''approval'',
          bd_version = version, bd_step_up = ''review''\<rparr>)
      else throwC (forbidden ''Approval workflow owner is not registered''))"

section \<open>Deciding\<close>

definition approvalRow :: "int \<Rightarrow> approval run" where
  "approvalRow i = bindC (queryC (\<lambda>s. fetch (approvals s) i)) (\<lambda>found. requireC found (not_found ''Approval not found''))"

definition approval_json :: "int \<Rightarrow> approval \<Rightarrow> json" where
  "approval_json i a = JObj [(''id'', jint i), (''requestNo'', JStr (ap_request_no a)), (''workflowType'', JStr (ap_workflow a)),
     (''entityType'', JStr (ap_entity_type a)), (''entityId'', jint (ap_entity_id a)),
     (''payloadJson'', JStr (plain_json (ap_payload a))), (''highRisk'', jint (if ap_high_risk a then 1 else 0)),
     (''status'', JStr (ap_status a)), (''requestedBy'', jint (ap_requested_by a)), (''objectVersion'', jint (ap_updated_at a))]"

definition final_payload :: "int \<Rightarrow> string \<Rightarrow> string \<Rightarrow> json" where
  "final_payload i decision comment = JObj [(''id'', jint i), (''decision'', JStr decision), (''comment'', JStr comment)]"

definition decided :: "env \<Rightarrow> int \<Rightarrow> string \<Rightarrow> string \<Rightarrow> approval \<Rightarrow> approval" where
  "decided e user decision comment a = a\<lparr>ap_status := decision, ap_reviewed_by := Some user, ap_review_comment := Some comment,
     ap_sms_verified := ap_high_risk a, ap_updated_at := max (ap_updated_at a + 1) (sql_ms e)\<rparr>"

definition stepUpDecision :: "cctx \<Rightarrow> (string \<times> json) list \<Rightarrow> int \<Rightarrow> binding \<Rightarrow> string \<Rightarrow> unit run" where
  "stepUpDecision c body i b digest = (case a_session (c_access c) of
       None \<Rightarrow> throwC (forbidden ''Step-up requires an authenticated session'')
     | Some session \<Rightarrow>
         bindC (stringC (fld body ''challengeNo'') ''challengeNo'' 191) (\<lambda>challengeNo.
         consumeStepUpClaim (c_env c)
           \<lparr>cl_action = bd_step_up b, cl_challenge = challengeNo, cl_object_id = show_int i,
            cl_object_type = bd_object_type b, cl_object_version = bd_version b, cl_digest = digest,
            cl_session = session, cl_user = a_user (c_access c)\<rparr>))"

definition decision_claim :: "cctx \<Rightarrow> (string \<times> json) list \<Rightarrow> int \<Rightarrow> binding \<Rightarrow> string \<Rightarrow> claim" where
  "decision_claim c body i b digest =
     \<lparr>cl_action = bd_action b,
      cl_challenge = (case fld body ''challengeNo'' of Some (JStr t) \<Rightarrow> t
        | _ \<Rightarrow> ''approval-'' @ show_int i @ ''-'' @ show_int (bd_version b)),
      cl_object_id = show_int i, cl_object_type = bd_object_type b, cl_object_version = bd_version b, cl_digest = digest,
      cl_session = (case a_session (c_access c) of None \<Rightarrow> 0 | Some session \<Rightarrow> session), cl_user = a_user (c_access c)\<rparr>"

definition runEffect :: "effects \<Rightarrow> string \<Rightarrow> claim \<Rightarrow> json run" where
  "runEffect reg key cl = (case resolve_effect reg key of Inl err \<Rightarrow> throwC err | Inr effect \<Rightarrow> effect cl)"

definition decideApproval :: "effects \<Rightarrow> cctx \<Rightarrow> json \<Rightarrow> json run" where
  "decideApproval reg c raw =
     bindC (jsonObject raw) (\<lambda>body.
     bindC (integer (fld body ''id'') ''id'' 1) (\<lambda>i.
     bindC (oneOf (fld body ''decision'') [''approved'', ''rejected''] ''decision'') (\<lambda>decision.
     bindC (optionalString (fld body ''comment'') 2000) (\<lambda>comment.
     bindC (approvalRow i) (\<lambda>a.
     bindC (approvalBinding reg i a decision) (\<lambda>b.
     bindC (requireRole (c_access c) (requiredRoles (ap_workflow a))) (\<lambda>_.
     bindC (guardC (ap_requested_by a \<noteq> a_user (c_access c)) (conflict ''Requester cannot review their own approval'')) (\<lambda>_.
     bindC (guardC (ap_status a = ''pending'') (version_conflict ''Approval was already decided'')) (\<lambda>_.
     let digest = sha256 (c_env c) (canonicalJson (final_payload i decision comment)) in
     bindC (whenC (ap_high_risk a) (stepUpDecision c body i b digest)) (\<lambda>_.
     bindC (updateC approvals approvals_update ok_approval (\<lambda>j x. j = i \<and> ap_status x = ''pending'')
       (decided (c_env c) (a_user (c_access c)) decision comment)) (\<lambda>claimed.
     bindC (guardC (claimed = 1) (version_conflict ''Approval changed concurrently'')) (\<lambda>_.
     bindC (runEffect reg (bd_key b) (decision_claim c body i b digest)) (\<lambda>result.
     bindC (audit c decision ''approvals'' (ap_entity_type a) (show_int (ap_entity_id a)) (Some (ap_request_no a))
       (Some (approval_json i a)) (Some (JObj [(''decision'', JStr decision), (''comment'', JStr comment), (''effect'', result)]))) (\<lambda>_.
     bindC (domainEvent c ''ApprovalDecided'' ''approval'' (show_int i) None RNone
       [(''workflowType'', JStr (ap_workflow a)), (''decision'', JStr decision)]) (\<lambda>_.
     returnC (JObj [(''success'', JBool True), (''approvalId'', jint i), (''workflowType'', JStr (ap_workflow a)),
       (''decision'', JStr decision), (''effect'', result)]))))))))))))))))"

section \<open>The registry\<close>

text \<open>
  \<open>registerAll\<close> registers one effect after the other; \<open>operations_effects\<close> are those of
  \<open>registerOperationsApprovalEffects\<close>, in its order.
\<close>

fun registerAll :: "(string \<times> 'p) list \<Rightarrow> 'p registry \<Rightarrow> error + 'p registry" where
  "registerAll [] reg = Inr reg"
| "registerAll ((type, effect) # es) reg = (case register_effect type effect reg of
     Inl err \<Rightarrow> Inl err | Inr reg' \<Rightarrow> registerAll es reg')"

definition operations_effects :: "env \<Rightarrow> effects" where
  "operations_effects e = [(''r1.user_role_change'', userRoleChange e), (''warehouse_transfer'', warehouseTransfer e),
     (''shipment_deviation'', shipmentDeviation e), (''warehouse_merge'', warehouseMerge e),
     (''stocktake_variance'', stocktakeVariance e), (''production_variance'', productionVariance e),
     (''financial_record_correction'', financialCorrection e)]"

end
