(* ===== verification/Plans.thy ===== *)
theory Plans
  imports Supply Stock
begin

text \<open>
  \<open>modules/purchase-plans/writes.ts\<close>: filing a version of a purchase plan, the confirmation or dispute of the
  factory, and closing the ordering phase. Each command validates its body, then runs inside
  \<open>executeSupplyCommand\<close>; the part inside is a definition of its own.
\<close>

section \<open>Filing a plan\<close>

record plan_input =
  pni_no :: string
  pni_items :: "(string \<times> json) list list"
  pni_source :: "string option"

text \<open>\<open>Array.isArray(v) && 0 < v.length <= 1000\<close>, then \<open>v.map(objectBody)\<close>.\<close>

definition itemBodies :: "json option \<Rightarrow> string \<Rightarrow> (string \<times> json) list list run" where
  "itemBodies v message = (case v of
       Some (JArr vs) \<Rightarrow> if vs = [] \<or> 1000 < length vs then throwC (bad_request message) else mapC objectBody vs
     | _ \<Rightarrow> throwC (bad_request message))"

definition readPlan :: "access \<Rightarrow> json \<Rightarrow> plan_input run" where
  "readPlan a raw =
     bindC (guardC (supplyInternal a) (forbidden ''Forbidden'')) (\<lambda>_.
     bindC (objectBody raw) (\<lambda>body.
     bindC (textC (fld body ''planNo'') 191) (\<lambda>planNo.
     bindC (itemBodies (fld body ''items'') ''Purchase plan items required'') (\<lambda>items.
     bindC (optionalTextC (fld body ''sourceFileKey'') 1000) (\<lambda>sourceFileKey.
     returnC \<lparr>pni_no = planNo, pni_items = items, pni_source = sourceFileKey\<rparr>)))))"

text \<open>\<open>WHERE plan_no = ? ORDER BY version DESC LIMIT 1\<close>\<close>

definition latest_plan :: "db \<Rightarrow> string \<Rightarrow> (int \<times> purchase_plan) option" where
  "latest_plan s planNo = (case rev (sort_key (\<lambda>(_, p). pn_version p) (select (purchase_plans s) (\<lambda>_ p. pn_no p = planNo))) of
     [] \<Rightarrow> None | p # _ \<Rightarrow> Some p)"

definition sku_of :: "db \<Rightarrow> string \<Rightarrow> sku_row option" where
  "sku_of s code = (case select (skus s) (\<lambda>_ k. sk_code k = code \<and> sk_status k = ''active'') of [] \<Rightarrow> None | (_, k) # _ \<Rightarrow> Some k)"

definition plan_bom_ok :: "string \<Rightarrow> string \<Rightarrow> bom \<Rightarrow> bool" where
  "plan_bom_ok sku arrival b \<longleftrightarrow> bo_finished_sku b = sku \<and> bo_approval b = ''approved'' \<and> bo_active b \<and>
     bo_from b \<le> arrival \<and> (case bo_to b of None \<Rightarrow> True | Some t \<Rightarrow> arrival \<le> t)"

definition bound_warehouse :: "db \<Rightarrow> int \<Rightarrow> int \<Rightarrow> bool" where
  "bound_warehouse s factoryId warehouseId \<longleftrightarrow> (case (fetch (factories s) factoryId, fetch (warehouses s) warehouseId) of
     (Some f, Some w) \<Rightarrow> w_factory w = Some factoryId \<and> fa_status f = ''active'' \<and> w_status w = ''active'' | _ \<Rightarrow> False)"

type_synonym summary_key = "string \<times> int \<times> int \<times> string"

definition preparePlanItem :: "summary_key list \<times> plan_item list \<Rightarrow> (string \<times> json) list \<Rightarrow> (summary_key list \<times> plan_item list) run" where
  "preparePlanItem = (\<lambda>(seen, prepared) item.
     bindC (dateC (fld item ''expectedArrivalDate'')) (\<lambda>arrival.
     bindC (positiveInteger (fld item ''factoryId'') ''Positive integer required'') (\<lambda>factoryId.
     bindC (positiveInteger (fld item ''warehouseId'') ''Positive integer required'') (\<lambda>warehouseId.
     bindC (textC (fld item ''sku'') 191) (\<lambda>sku.
     bindC (textC (fld item ''productName'') 500) (\<lambda>productName.
     bindC (positiveInteger (fld item ''bomId'') ''Positive integer required'') (\<lambda>bomId.
     bindC (positiveInteger (fld item ''plannedQuantity'') ''Positive integer required'') (\<lambda>plannedQuantity.
     let key = (arrival, factoryId, warehouseId, sku) in
     bindC (guardC (key \<notin> set seen) (conflict ''Purchase plan summary key is duplicated'')) (\<lambda>_.
     bindC (queryC (\<lambda>s. bound_warehouse s factoryId warehouseId)) (\<lambda>boundTo.
     bindC (guardC boundTo (not_found ''Active factory/warehouse binding not found'')) (\<lambda>_.
     bindC (queryC (\<lambda>s. fetch (boms s) bomId)) (\<lambda>foundBom.
     bindC (requireC foundBom (bad_request (''Approved active BOM required for SKU '' @ sku))) (\<lambda>b.
     bindC (guardC (plan_bom_ok sku arrival b) (bad_request (''Approved active BOM required for SKU '' @ sku))) (\<lambda>_.
     bindC (queryC (\<lambda>s. sku_of s sku)) (\<lambda>foundSku.
     bindC (requireC foundSku (bad_request (''Active finished SKU required: '' @ sku))) (\<lambda>k.
     bindC (guardC (sk_item_type k = Some ''finished'') (bad_request (''Active finished SKU required: '' @ sku))) (\<lambda>_.
     returnC (seen @ [key], prepared @ [\<lparr>pi_plan = 0, pi_arrival = arrival, pi_factory = factoryId, pi_warehouse = warehouseId,
       pi_sku = sku, pi_product_name = productName, pi_bom = bomId, pi_planned = plannedQuantity, pi_ordered = 0,
       pi_over_bps = sk_over_bps k, pi_under_bps = sk_under_bps k, pi_completion = ''not_ordered''\<rparr>]))))))))))))))))))"

definition plan_item_json :: "plan_item \<Rightarrow> json" where
  "plan_item_json p = JObj [(''expectedArrivalDate'', JStr (pi_arrival p)), (''factoryId'', jint (pi_factory p)),
     (''warehouseId'', jint (pi_warehouse p)), (''sku'', JStr (pi_sku p)), (''productName'', JStr (pi_product_name p)),
     (''bomId'', jint (pi_bom p)), (''plannedQuantity'', jint (pi_planned p)), (''overToleranceBps'', jint (pi_over_bps p)),
     (''underToleranceBps'', jint (pi_under_bps p))]"

definition storePlanItem :: "int \<Rightarrow> plan_item \<Rightarrow> unit run" where
  "storePlanItem planId p = bindC (insertC plan_items plan_items_update ok_plan_item (p\<lparr>pi_plan := planId\<rparr>)) (\<lambda>_. returnC ())"

definition days :: "int \<Rightarrow> int" where
  "days n = n * 86400000"

definition storePlan :: "cctx \<Rightarrow> string \<Rightarrow> json \<Rightarrow> plan_input \<Rightarrow> json run" where
  "storePlan c key body input =
     bindC (requireSource (c_access c) (pni_source input)) (\<lambda>_.
     bindC (queryC (\<lambda>s. latest_plan s (pni_no input))) (\<lambda>previous.
     let version = (case previous of None \<Rightarrow> 1 | Some (_, p) \<Rightarrow> pn_version p + 1); approvalRequired = (previous \<noteq> None) in
     bindC (foldC preparePlanItem ([], []) (pni_items input)) (\<lambda>(_, prepared).
     let dueAt = (if approvalRequired then None else Some (js_after (c_env c) (days 3)));
         status = (if approvalRequired then ''pending_approval'' else ''awaiting_factory_confirmation'') in
     bindC (insertC purchase_plans purchase_plans_update ok_plan
       \<lparr>pn_no = pni_no input, pn_version = version, pn_source_file = pni_source input, pn_status = status, pn_due_at = dueAt,
        pn_confirmed_at = None, pn_created_by = a_user (c_access c), pn_reviewed_by = None,
        pn_updated_at = sql_now (c_env c)\<rparr>) (\<lambda>planId.
     bindC (eachC (storePlanItem planId) prepared) (\<lambda>_.
     bindC (case dueAt of
         None \<Rightarrow> bindC (createApproval c ''purchase_plan_version'' ''purchase_plan'' planId False key body
           (pni_no input @ '' version '' @ show_int version)) (\<lambda>i. returnC (Some i))
       | Some due \<Rightarrow> bindC (createReminder ''purchase_plan_confirmation'' ''purchase_plan'' planId (pni_no input) due) (\<lambda>_. returnC None)) (\<lambda>approvalId.
     let plan = [(''id'', jint planId), (''planNo'', JStr (pni_no input)), (''version'', jint version),
       (''sourceFileKey'', jnull JStr (pni_source input)), (''status'', JStr status), (''confirmationDueAt'', jnull JStr dueAt)] in
     bindC (audit c ''create_version'' ''purchase_plans'' ''purchase_plan'' (show_int planId) (Some (pni_no input)) None
       (Some (JObj (plan @ [(''items'', JArr (map plan_item_json prepared))])))) (\<lambda>_.
     bindC (case approvalId of
         None \<Rightarrow> supplyEvent c ''FactoryConfirmationDue'' ''purchase_plan'' (show_int planId) key
           (REntity ''purchase_plan'' (show_int planId)) [(''planNo'', JStr (pni_no input)), (''version'', jint version)]
       | Some i \<Rightarrow> approvalNotification c i key ''purchase_plan'' (show_int planId) ''purchase_plan_version'') (\<lambda>_.
     returnC (JObj [(''plan'', JObj plan), (''approvalRequired'', JBool approvalRequired)])))))))))"

definition supplyScope :: "access \<Rightarrow> string" where
  "supplyScope a = ''user:'' @ show_int (a_user a)"

definition createPurchasePlan :: "faults \<Rightarrow> cctx \<Rightarrow> json \<Rightarrow> db \<Rightarrow> (error + response) \<times> db" where
  "createPurchasePlan f c raw s = (case readPlan (c_access c) raw s of
       Inl err \<Rightarrow> (Inl err, s)
     | Inr (input, _) \<Rightarrow> executeSupplyCommand f (c_env c) (c_request c) (supplyScope (c_access c)) ''purchase-plans.create'' raw
         (StatusConst 201) (\<lambda>key _. storePlan c key raw input) s)"

section \<open>Closing the ordering phase\<close>

definition plan_rows :: "db \<Rightarrow> int \<Rightarrow> (int \<times> plan_item) list" where
  "plan_rows s planId = select (plan_items s) (\<lambda>_ p. pi_plan p = planId)"

definition under_plan :: "plan_item \<Rightarrow> bool" where
  "under_plan p \<longleftrightarrow> rate_bps (pi_ordered p) (pi_planned p) < - pi_under_bps p"

definition deviation_json :: "string \<Rightarrow> int \<Rightarrow> string \<Rightarrow> int \<Rightarrow> json" where
  "deviation_json type planItemId sku rate = JObj [(''planItemId'', jint planItemId), (''sku'', JStr sku),
     (''type'', JStr type), (''rateBps'', jint rate)]"

definition under_deviations :: "(int \<times> plan_item) list \<Rightarrow> json list" where
  "under_deviations items = map (\<lambda>(i, p). deviation_json ''under_plan'' i (pi_sku p) (rate_bps (pi_ordered p) (pi_planned p)))
     (filter (\<lambda>(_, p). under_plan p) items)"

definition setCompletion :: "int \<Rightarrow> plan_item \<Rightarrow> int \<Rightarrow> string \<Rightarrow> string \<Rightarrow> unit run" where
  "setCompletion i p ordered status message =
     bindC (updateC plan_items plan_items_update ok_plan_item
       (\<lambda>j x. j = i \<and> pi_ordered x = pi_ordered p \<and> pi_completion x = pi_completion p)
       (\<lambda>x. x\<lparr>pi_ordered := ordered, pi_completion := status\<rparr>)) (\<lambda>changed. guardC (changed = 1) (conflict message))"

definition closeItem :: "int \<times> plan_item \<Rightarrow> unit run" where
  "closeItem = (\<lambda>(i, p). setCompletion i p (pi_ordered p) (if under_plan p then ''under_plan_pending'' else ''within_tolerance'')
     ''Purchase plan item changed concurrently'')"

definition setPlanStatus :: "env \<Rightarrow> int \<Rightarrow> string \<Rightarrow> string \<Rightarrow> string \<Rightarrow> unit run" where
  "setPlanStatus e i expected updatedAt status =
     bindC (updateC purchase_plans purchase_plans_update ok_plan
       (\<lambda>j p. j = i \<and> pn_status p = expected \<and> pn_updated_at p = updatedAt)
       (\<lambda>p. p\<lparr>pn_status := status, pn_updated_at := sql_now e\<rparr>)) (\<lambda>updated. guardC (updated = 1) (conflict ''Purchase plan changed concurrently''))"

definition finalizeOrdering :: "cctx \<Rightarrow> string \<Rightarrow> int \<Rightarrow> purchase_plan \<Rightarrow> (int \<times> plan_item) list \<Rightarrow> json run" where
  "finalizeOrdering c key i plan items =
     (let deviations = under_deviations items; status = (if deviations = [] then ''ordered_complete'' else ''ordering'') in
     bindC (eachC closeItem items) (\<lambda>_.
     bindC (if deviations = [] then returnC None
       else bindC (createApproval c ''purchase_plan_deviation'' ''purchase_plan'' i False key (JArr deviations)
         (pn_no plan @ '' has under-plan purchasing'')) (\<lambda>a. returnC (Some a))) (\<lambda>approvalId.
     bindC (setPlanStatus (c_env c) i (pn_status plan) (pn_updated_at plan) status) (\<lambda>_.
     bindC (audit c ''finalize_ordering'' ''purchase_plans'' ''purchase_plan'' (show_int i) (Some (pn_no plan)) None
       (Some (JObj [(''deviations'', JArr deviations), (''status'', JStr status)]))) (\<lambda>_.
     bindC (case approvalId of
         None \<Rightarrow> supplyEvent c ''PurchasePlanOrderingFinalized'' ''purchase_plan'' (show_int i) key (RRole ''supply_chain'')
           [(''deviationCount'', jint 0)]
       | Some a \<Rightarrow> approvalNotification c a key ''purchase_plan'' (show_int i) ''purchase_plan_deviation'') (\<lambda>_.
     returnC (JObj [(''success'', JBool True), (''approvalRequired'', JBool (deviations \<noteq> [])),
       (''deviations'', JArr deviations), (''status'', JStr status)])))))))"

section \<open>The answer of the factory\<close>

definition answerPlan :: "cctx \<Rightarrow> string \<Rightarrow> int \<Rightarrow> purchase_plan \<Rightarrow> (int \<times> plan_item) list \<Rightarrow> int \<Rightarrow> (string \<times> json) list \<Rightarrow> json run" where
  "answerPlan c key i plan items factoryId body =
     bindC (requireFactoryRole (c_access c) factoryId) (\<lambda>_.
     bindC (guardC (list_ex (\<lambda>(_, p). pi_factory p = factoryId) items) (forbidden ''Purchase plan is not bound to this factory'')) (\<lambda>_.
     bindC (guardC (list_all (\<lambda>(_, p). pi_factory p = factoryId) items)
       (conflict ''Multi-factory plan response requires the approved factory-subaggregate model'')) (\<lambda>_.
     bindC (textC (fld body ''decision'') 20) (\<lambda>decision.
     bindC (guardC (decision = ''confirmed'' \<or> decision = ''unable'') (bad_request ''Invalid factory decision'')) (\<lambda>_.
     bindC (dateC (fld body ''expectedStartDate'')) (\<lambda>start.
     bindC (dateC (fld body ''expectedFinishDate'')) (\<lambda>finish.
     bindC (guardC (start \<le> finish) (bad_request ''Finish date cannot precede start date'')) (\<lambda>_.
     bindC (if decision = ''unable'' then bindC (dateC (fld body ''proposedArrivalDate'')) (\<lambda>t. returnC (Some t))
       else optionalTextC (fld body ''proposedArrivalDate'') 10) (\<lambda>proposedArrival.
     bindC (if decision = ''unable'' then textC (fld body ''reason'') 2000
       else bindC (optionalTextC (fld body ''reason'') 2000) (\<lambda>t. returnC (case t of None \<Rightarrow> [] | Some x \<Rightarrow> x))) (\<lambda>reason.
     let responseStatus = (if decision = ''confirmed'' then ''accepted'' else ''pending_supply_chain'') in
     bindC (insertC plan_responses plan_responses_update ok_any
       \<lparr>fr_plan = i, fr_factory = factoryId, fr_decision = decision, fr_start = start, fr_finish = finish,
        fr_proposed = proposedArrival, fr_reason = reason, fr_status = responseStatus,
        fr_responded_by = a_user (c_access c), fr_reviewed_by = None\<rparr>) (\<lambda>responseId.
     bindC (updateC purchase_plans purchase_plans_update ok_plan
       (\<lambda>j p. j = i \<and> pn_status p = ''awaiting_factory_confirmation'' \<and> pn_updated_at p = pn_updated_at plan)
       (\<lambda>p. p\<lparr>pn_status := (if decision = ''confirmed'' then ''confirmed'' else ''disputed''),
         pn_confirmed_at := (if decision = ''confirmed'' then Some (js_now (c_env c)) else None),
         pn_updated_at := sql_now (c_env c)\<rparr>)) (\<lambda>updated.
     bindC (guardC (updated = 1) (conflict ''Purchase plan changed concurrently'')) (\<lambda>_.
     let fields = [(''decision'', JStr decision), (''expectedStartDate'', JStr start), (''expectedFinishDate'', JStr finish),
           (''proposedArrivalDate'', jnull JStr proposedArrival), (''reason'', JStr reason)];
         answer = JObj ([(''id'', jint responseId), (''purchasePlanId'', jint i), (''factoryId'', jint factoryId)] @ fields @
           [(''status'', JStr responseStatus)]) in
     bindC (if decision = ''unable'' then bindC (createApproval c ''purchase_plan_factory_exception'' ''factory_plan_response'' responseId
         False key (JObj ((''planId'', jint i) # fields)) (pn_no plan @ '' factory cannot meet plan'')) (\<lambda>a. returnC (Some a))
       else returnC None) (\<lambda>approvalId.
     bindC (audit c (if decision = ''confirmed'' then ''factory_confirm'' else ''factory_dispute'') ''purchase_plans'' ''purchase_plan''
       (show_int i) (Some (pn_no plan)) None (Some answer)) (\<lambda>_.
     bindC (case approvalId of
         None \<Rightarrow> supplyEvent c ''FactoryPlanConfirmed'' ''purchase_plan'' (show_int i) key (RRole ''supply_chain'')
           [(''factoryId'', jint factoryId), (''responseId'', jint responseId)]
       | Some a \<Rightarrow> approvalNotification c a key ''factory_plan_response'' (show_int responseId) ''purchase_plan_factory_exception'') (\<lambda>_.
     returnC (JObj [(''success'', JBool True), (''response'', answer)])))))))))))))))))"

section \<open>The update command\<close>

record plan_update =
  pu_id :: int
  pu_updated_at :: string
  pu_finalize :: bool

definition readPlanUpdate :: "access \<Rightarrow> (string \<times> json) list \<Rightarrow> plan_update run" where
  "readPlanUpdate a body =
     bindC (positiveInteger (fld body ''id'') ''Purchase plan required'') (\<lambda>i.
     bindC (expectedTimestamp (fld body ''expectedUpdatedAt'')) (\<lambda>expected.
     let finalize = (fld body ''action'' = Some (JStr ''finalize_ordering'')) in
     bindC (if finalize then guardC (supplyInternal a) (forbidden ''Forbidden'')
       else guardC (''factory'' \<in> set (a_roles a) \<and> a_factory a \<noteq> None) (forbidden ''Factory role and binding are required'')) (\<lambda>_.
     returnC \<lparr>pu_id = i, pu_updated_at = expected, pu_finalize = finalize\<rparr>)))"

definition changePlan :: "cctx \<Rightarrow> string \<Rightarrow> (string \<times> json) list \<Rightarrow> plan_update \<Rightarrow> json run" where
  "changePlan c key body u =
     bindC (queryC (\<lambda>s. fetch (purchase_plans s) (pu_id u))) (\<lambda>found.
     bindC (requireC found (not_found ''Purchase plan not found'')) (\<lambda>plan.
     bindC (guardC (pn_updated_at plan = pu_updated_at u) (conflict ''Purchase plan changed concurrently'')) (\<lambda>_.
     bindC (guardC (pu_finalize u \<longrightarrow> pn_status plan \<in> set [''confirmed'', ''ordering''])
       (conflict ''Purchase plan is not in an orderable state'')) (\<lambda>_.
     bindC (guardC (\<not> pu_finalize u \<longrightarrow> pn_status plan = ''awaiting_factory_confirmation'')
       (conflict ''Purchase plan does not require factory confirmation'')) (\<lambda>_.
     bindC (queryC (\<lambda>s. plan_rows s (pu_id u))) (\<lambda>items.
     bindC (guardC (items \<noteq> []) (conflict ''Purchase plan has no items'')) (\<lambda>_.
     if pu_finalize u then finalizeOrdering c key (pu_id u) plan items
     else bindC (requireC (a_factory (c_access c)) (forbidden ''Factory role and binding are required'')) (\<lambda>factoryId.
       answerPlan c key (pu_id u) plan items factoryId body))))))))"

definition updatePurchasePlan :: "faults \<Rightarrow> cctx \<Rightarrow> json \<Rightarrow> db \<Rightarrow> (error + response) \<times> db" where
  "updatePurchasePlan f c raw s = (case bindC (objectBody raw) (\<lambda>body. bindC (readPlanUpdate (c_access c) body) (\<lambda>u. returnC (body, u))) s of
       Inl err \<Rightarrow> (Inl err, s)
     | Inr ((body, u), _) \<Rightarrow> executeSupplyCommand f (c_env c) (c_request c) (supplyScope (c_access c)) ''purchase-plans.update'' raw
         (StatusConst 200) (\<lambda>key _. changePlan c key body u) s)"

end
