(* ===== verification/Orders.thy ===== *)
theory Orders
  imports Plans
begin

text \<open>
  \<open>modules/purchase-orders/writes.ts\<close>: placing a purchase order against the items of confirmed purchase plans
  (price agreement, tolerance of the plan, deviation approval) and the answer of the factory to an order.
\<close>

section \<open>Reading an order\<close>

record order_input =
  poi_no :: string
  poi_date :: string
  poi_items :: "(string \<times> json) list list"
  poi_source :: "string option"

definition readOrder :: "access \<Rightarrow> json \<Rightarrow> order_input run" where
  "readOrder a raw =
     bindC (guardC (supplyInternal a) (forbidden ''Forbidden'')) (\<lambda>_.
     bindC (objectBody raw) (\<lambda>body.
     bindC (textC (fld body ''orderNo'') 191) (\<lambda>orderNo.
     bindC (dateC (fld body ''orderDate'')) (\<lambda>orderDate.
     bindC (itemBodies (fld body ''items'') ''Purchase order items required'') (\<lambda>items.
     bindC (optionalTextC (fld body ''sourceFileKey'') 1000) (\<lambda>sourceFileKey.
     returnC \<lparr>poi_no = orderNo, poi_date = orderDate, poi_items = items, poi_source = sourceFileKey\<rparr>))))))"

section \<open>Preparing the lines\<close>

text \<open>One prepared line, with the plan item as it was when it was locked.\<close>

record order_line =
  ol_item :: int
  ol_plan_item :: plan_item
  ol_supplier :: int
  ol_quantity :: int
  ol_due :: string
  ol_name :: string
  ol_type :: string
  ol_price_id :: int
  ol_price :: price_agreement
  ol_cumulative :: int
  ol_rate :: int

definition ol_amount :: "order_line \<Rightarrow> int" where
  "ol_amount l = pa_included (ol_price l) * ol_quantity l"

definition over_plan :: "order_line \<Rightarrow> bool" where
  "over_plan l \<longleftrightarrow> pi_over_bps (ol_plan_item l) < ol_rate l"

definition orderable :: "string list" where
  "orderable = [''confirmed'', ''ordering'']"

text \<open>The parent plan must be the latest version of its number and open for orders; it is checked once per order.\<close>

definition lockPlan :: "int \<Rightarrow> purchase_plan run" where
  "lockPlan planId =
     bindC (queryC (\<lambda>s. fetch (purchase_plans s) planId)) (\<lambda>found.
     bindC (requireC found (not_found ''Purchase plan not found for order item'')) (\<lambda>parent.
     bindC (queryC (\<lambda>s. latest_plan s (pn_no parent))) (\<lambda>latest.
     bindC (guardC (case latest of None \<Rightarrow> False | Some (i, p) \<Rightarrow> i = planId \<and> pn_version p = pn_version parent)
       (conflict ''Purchase order requires the latest purchase-plan version'')) (\<lambda>_.
     bindC (guardC (pn_status parent \<in> set orderable)
       (conflict ''Purchase order requires an approved orderable purchase plan'')) (\<lambda>_.
     returnC parent)))))"

type_synonym locked = "(int \<times> purchase_plan) list"

definition parentPlan :: "locked \<Rightarrow> int \<Rightarrow> locked run" where
  "parentPlan plans planId = (case map_of plans planId of
       Some _ \<Rightarrow> returnC plans
     | None \<Rightarrow> bindC (lockPlan planId) (\<lambda>p. returnC (plans @ [(planId, p)])))"

definition relation_exists :: "db \<Rightarrow> int \<Rightarrow> int \<Rightarrow> string \<Rightarrow> string \<Rightarrow> bool" where
  "relation_exists s factoryId supplierId sku orderDate \<longleftrightarrow> list_ex (\<lambda>(_, r). ss_factory r = factoryId \<and>
     ss_supplier r = supplierId \<and> ss_sku r = sku \<and> ss_status r = ''active'' \<and> ss_from r \<le> orderDate) (rows (supplier_skus s))"

definition effective_price :: "db \<Rightarrow> int \<Rightarrow> string \<Rightarrow> string \<Rightarrow> (int \<times> price_agreement) option" where
  "effective_price s supplierId sku orderDate = (case rev (sort_key (\<lambda>(i, p). (pa_from p, i)) (select (price_agreements s)
       (\<lambda>_ p. pa_supplier p = supplierId \<and> pa_sku p = sku \<and> pa_status p = ''active'' \<and> pa_from p \<le> orderDate \<and>
          (case pa_to p of None \<Rightarrow> True | Some t \<Rightarrow> orderDate \<le> t)))) of [] \<Rightarrow> None | p # _ \<Rightarrow> Some p)"

definition checkClientPrice :: "json option \<Rightarrow> int \<Rightarrow> unit run" where
  "checkClientPrice given price = (if given = None then returnC ()
     else bindC (nonNegativeInteger given) (\<lambda>n.
       guardC (n = price) (conflict ''Client price does not match the authoritative agreement'')))"

definition prepareLine :: "string \<Rightarrow> locked \<times> (string \<times> int) list \<times> order_line list \<Rightarrow> (string \<times> json) list \<Rightarrow>
    (locked \<times> (string \<times> int) list \<times> order_line list) run" where
  "prepareLine orderDate = (\<lambda>(plans, seen, prepared) item.
     bindC (positiveInteger (fld item ''planItemId'') ''Positive integer required'') (\<lambda>planItemId.
     bindC (positiveInteger (fld item ''supplierId'') ''Supplier is required'') (\<lambda>supplierId.
     bindC (positiveInteger (fld item ''quantity'') ''Positive integer required'') (\<lambda>quantity.
     bindC (dateC (fld item ''dueDate'')) (\<lambda>dueDate.
     bindC (queryC (\<lambda>s. fetch (plan_items s) planItemId)) (\<lambda>found.
     bindC (requireC found (not_found (''Purchase plan item not found: '' @ show_int planItemId))) (\<lambda>p.
     bindC (parentPlan plans (pi_plan p)) (\<lambda>plans.
     bindC (textC (fld item ''sku'') 191) (\<lambda>sku.
     bindC (guardC (sku = pi_sku p) (conflict ''Purchase order SKU does not match the plan item'')) (\<lambda>_.
     bindC (textC (fld item ''productName'') 500) (\<lambda>productName.
     bindC (textC (fld item ''itemType'') 30) (\<lambda>itemType.
     bindC (guardC (itemType \<in> set [''finished'', ''auxiliary'', ''component'']) (bad_request ''Invalid purchase item type'')) (\<lambda>_.
     bindC (guardC ((sku, supplierId) \<notin> set seen) (conflict ''Purchase order supplier/SKU line is duplicated'')) (\<lambda>_.
     bindC (queryC (\<lambda>s. fetch (suppliers s) supplierId)) (\<lambda>foundSupplier.
     bindC (requireC foundSupplier (not_found ''Active supplier not found'')) (\<lambda>supplierRow.
     bindC (guardC (su_status supplierRow = ''active'') (not_found ''Active supplier not found'')) (\<lambda>_.
     bindC (queryC (\<lambda>s. relation_exists s (pi_factory p) supplierId sku orderDate)) (\<lambda>related.
     bindC (guardC related (conflict ''Active supplier-SKU relation not found for the plan factory'')) (\<lambda>_.
     bindC (queryC (\<lambda>s. effective_price s supplierId sku orderDate)) (\<lambda>foundPrice.
     bindC (requireC foundPrice (conflict ''Approved effective supplier price not found'')) (\<lambda>(priceId, price).
     bindC (checkClientPrice (fld item ''unitPriceTaxIncludedMinor'') (pa_included price)) (\<lambda>_.
     let cumulative = pi_ordered p + quantity in
     bindC (guardC (\<bar>cumulative\<bar> \<le> 9007199254740991) (bad_request ''Purchase quantity overflow'')) (\<lambda>_.
     returnC (plans, seen @ [(sku, supplierId)], prepared @ [\<lparr>ol_item = planItemId, ol_plan_item = p, ol_supplier = supplierId,
       ol_quantity = quantity, ol_due = dueDate, ol_name = productName, ol_type = itemType, ol_price_id = priceId,
       ol_price = price, ol_cumulative = cumulative, ol_rate = rate_bps cumulative (pi_planned p)\<rparr>]))))))))))))))))))))))))"

text \<open>The lines are taken in the order of their plan items: \<open>sort\<close> by a comparator that validates the two ids.\<close>

definition orderInputs :: "(string \<times> json) list list \<Rightarrow> (string \<times> json) list list run" where
  "orderInputs items =
     bindC (mapC (\<lambda>item. bindC (positiveInteger (fld item ''planItemId'') ''Positive integer required'') (\<lambda>n. returnC (n, item))) items)
       (\<lambda>keyed. returnC (map snd (sort_key fst keyed)))"

section \<open>Storing the order\<close>

definition completion_of :: "order_line \<Rightarrow> string" where
  "completion_of l = (if over_plan l then ''over_plan_pending''
     else if - pi_under_bps (ol_plan_item l) \<le> ol_rate l then ''within_tolerance'' else ''not_ordered'')"

definition storeLine :: "cctx \<Rightarrow> int \<Rightarrow> order_line \<Rightarrow> unit run" where
  "storeLine c orderId l =
     bindC (insertC order_items order_items_update ok_item
       \<lparr>oi_order = orderId, oi_sku = pi_sku (ol_plan_item l), oi_product_name = ol_name l, oi_item_type = ol_type l,
        oi_supplier = Some (ol_supplier l), oi_quantity = ol_quantity l, oi_received = 0,
        oi_unit_price = pa_included (ol_price l), oi_amount = ol_amount l, oi_due_date = Some (ol_due l)\<rparr>) (\<lambda>orderItemId.
     bindC (insertC plan_links plan_links_update ok_link
       \<lparr>pl_item = ol_item l, pl_order_item = orderItemId, pl_allocated = ol_quantity l, pl_method = ''manual'',
        pl_confirmed_by = a_user (c_access c)\<rparr>) (\<lambda>_.
     setCompletion (ol_item l) (ol_plan_item l) (ol_cumulative l) (completion_of l) ''Purchase plan allocation changed concurrently''))"

definition order_deviations :: "order_line list \<Rightarrow> json list" where
  "order_deviations ls = map (\<lambda>l. deviation_json ''over_plan'' (ol_item l) (pi_sku (ol_plan_item l)) (ol_rate l)) (filter over_plan ls)"

definition completed_items :: "(int \<times> plan_item) list \<Rightarrow> bool" where
  "completed_items items \<longleftrightarrow> list_all (\<lambda>(_, p). pi_completion p \<in> set [''within_tolerance'', ''exception_approved'']) items"

definition advancePlan :: "env \<Rightarrow> locked \<Rightarrow> int \<Rightarrow> unit run" where
  "advancePlan e plans planId =
     bindC (queryC (\<lambda>s. plan_rows s planId)) (\<lambda>items.
     bindC (requireC (map_of plans planId) (InternalError ''Locked purchase plan unavailable'')) (\<lambda>plan.
     setPlanStatus e planId (pn_status plan) (pn_updated_at plan)
       (if completed_items items then ''ordered_complete'' else ''ordering'')))"

definition plan_row_json :: "int \<Rightarrow> plan_item \<Rightarrow> json" where
  "plan_row_json i p = JObj [(''id'', jint i), (''purchasePlanId'', jint (pi_plan p)), (''factoryId'', jint (pi_factory p)),
     (''warehouseId'', jint (pi_warehouse p)), (''sku'', JStr (pi_sku p)), (''bomId'', jint (pi_bom p)),
     (''plannedQuantity'', jint (pi_planned p)), (''orderedQuantity'', jint (pi_ordered p)),
     (''overToleranceBps'', jint (pi_over_bps p)), (''underToleranceBps'', jint (pi_under_bps p)),
     (''completionStatus'', JStr (pi_completion p))]"

definition line_json :: "order_line \<Rightarrow> json" where
  "line_json l = JObj [(''planItem'', plan_row_json (ol_item l) (ol_plan_item l)), (''planItemId'', jint (ol_item l)),
     (''supplierId'', jint (ol_supplier l)), (''quantity'', jint (ol_quantity l)), (''dueDate'', JStr (ol_due l)),
     (''sku'', JStr (pi_sku (ol_plan_item l))), (''productName'', JStr (ol_name l)), (''itemType'', JStr (ol_type l)),
     (''priceAgreementId'', jint (ol_price_id l)), (''unitPriceTaxIncludedMinor'', jint (pa_included (ol_price l))),
     (''unitPriceTaxExcludedMinor'', jint (pa_excluded (ol_price l))), (''taxRateBps'', jint (pa_tax_bps (ol_price l))),
     (''amountTaxIncludedMinor'', jint (ol_amount l)), (''cumulative'', jint (ol_cumulative l)), (''rateBps'', jint (ol_rate l))]"

definition storeOrder :: "cctx \<Rightarrow> string \<Rightarrow> order_input \<Rightarrow> json run" where
  "storeOrder c key input =
     bindC (requireSource (c_access c) (poi_source input)) (\<lambda>_.
     bindC (queryC (\<lambda>s. list_ex (\<lambda>(_, o1). po_no o1 = poi_no input) (rows (purchase_orders s)))) (\<lambda>duplicate.
     bindC (guardC (\<not> duplicate) (conflict ''Purchase order number already exists'')) (\<lambda>_.
     bindC (orderInputs (poi_items input)) (\<lambda>inputs.
     bindC (foldC (prepareLine (poi_date input)) ([], [], []) inputs) (\<lambda>(plans, _, prepared).
     let amount = sum_list (map ol_amount prepared); deviations = order_deviations prepared;
         status = (if list_ex over_plan prepared then ''pending_approval'' else ''factory_confirmation'') in
     bindC (guardC (\<bar>amount\<bar> \<le> 9007199254740991) (bad_request ''Purchase order amount overflow'')) (\<lambda>_.
     bindC (insertC purchase_orders purchase_orders_update ok_order
       \<lparr>po_no = poi_no input, po_source_file = poi_source input, po_status = status, po_order_date = Some (poi_date input),
        po_total = amount, po_updated_at = sql_now (c_env c)\<rparr>) (\<lambda>orderId.
     bindC (eachC (storeLine c orderId) prepared) (\<lambda>_.
     bindC (eachC (advancePlan (c_env c) plans) (rev (remdups (rev (map (\<lambda>l. pi_plan (ol_plan_item l)) prepared))))) (\<lambda>_.
     bindC (if deviations = [] then returnC None
       else bindC (createApproval c ''purchase_plan_deviation'' ''purchase_order'' orderId False key (JArr deviations)
         (poi_no input @ '' has purchase-plan quantity deviations'')) (\<lambda>a. returnC (Some a))) (\<lambda>approvalId.
     let dueAt = (if deviations = [] then Some (js_after (c_env c) (days 1)) else None) in
     bindC (case dueAt of None \<Rightarrow> returnC ()
       | Some due \<Rightarrow> createReminder ''purchase_order_confirmation'' ''purchase_order'' orderId (poi_no input) due) (\<lambda>_.
     let order = [(''id'', jint orderId), (''orderNo'', JStr (poi_no input)), (''sourceFileKey'', jnull JStr (poi_source input)),
       (''status'', JStr status), (''orderDate'', JStr (poi_date input)), (''totalTaxIncludedMinor'', jint amount)] in
     bindC (audit c ''create'' ''purchase_orders'' ''purchase_order'' (show_int orderId) (Some (poi_no input)) None
       (Some (JObj (order @ [(''items'', JArr (map line_json prepared)), (''deviations'', JArr deviations)])))) (\<lambda>_.
     bindC (case approvalId of
         None \<Rightarrow> supplyEvent c ''PurchaseOrderFactoryConfirmationDue'' ''purchase_order'' (show_int orderId) key
           (REntity ''purchase_order'' (show_int orderId)) [(''orderNo'', JStr (poi_no input)), (''deviationCount'', jint 0)]
       | Some a \<Rightarrow> approvalNotification c a key ''purchase_order'' (show_int orderId) ''purchase_plan_deviation'') (\<lambda>_.
     returnC (JObj [(''order'', JObj order), (''approvalRequired'', JBool (deviations \<noteq> [])),
       (''deviations'', JArr deviations), (''confirmationDueAt'', jnull JStr dueAt)]))))))))))))))"

definition createPurchaseOrder :: "faults \<Rightarrow> cctx \<Rightarrow> json \<Rightarrow> db \<Rightarrow> (error + response) \<times> db" where
  "createPurchaseOrder f c raw s = (case readOrder (c_access c) raw s of
       Inl err \<Rightarrow> (Inl err, s)
     | Inr (input, _) \<Rightarrow> executeSupplyCommand f (c_env c) (c_request c) (supplyScope (c_access c)) ''purchase-orders.create'' raw
         (StatusConst 201) (\<lambda>key _. storeOrder c key input) s)"

section \<open>The answer of the factory\<close>

record order_answer =
  oa_id :: int
  oa_updated_at :: string
  oa_factory :: int
  oa_decision :: string
  oa_due :: "string option"
  oa_reason :: string

definition readOrderAnswer :: "access \<Rightarrow> json \<Rightarrow> order_answer run" where
  "readOrderAnswer a raw =
     bindC (objectBody raw) (\<lambda>body.
     bindC (positiveInteger (fld body ''id'') ''Purchase order required'') (\<lambda>i.
     bindC (expectedTimestamp (fld body ''expectedUpdatedAt'')) (\<lambda>expected.
     bindC (guardC (''factory'' \<in> set (a_roles a)) (forbidden ''Factory role and binding are required'')) (\<lambda>_.
     bindC (requireC (a_factory a) (forbidden ''Factory role and binding are required'')) (\<lambda>factoryId.
     bindC (requireFactoryRole a factoryId) (\<lambda>_.
     bindC (textC (fld body ''decision'') 20) (\<lambda>decision.
     bindC (guardC (decision = ''confirmed'' \<or> decision = ''unable'') (bad_request ''Invalid factory decision'')) (\<lambda>_.
     bindC (if decision = ''unable'' then bindC (dateC (fld body ''proposedDueDate'')) (\<lambda>t. returnC (Some t))
       else optionalTextC (fld body ''proposedDueDate'') 10) (\<lambda>dueDate.
     bindC (if decision = ''unable'' then textC (fld body ''reason'') 2000
       else bindC (optionalTextC (fld body ''reason'') 2000) (\<lambda>t. returnC (case t of None \<Rightarrow> [] | Some x \<Rightarrow> x))) (\<lambda>reason.
     returnC \<lparr>oa_id = i, oa_updated_at = expected, oa_factory = factoryId, oa_decision = decision, oa_due = dueDate,
       oa_reason = reason\<rparr>))))))))))"

text \<open>The factories of an order, one entry per joined row.\<close>

definition order_factories :: "db \<Rightarrow> int \<Rightarrow> int list" where
  "order_factories s orderId = concat (map (\<lambda>(i, _). List.map_filter (\<lambda>(_, l). map_option pi_factory (fetch (plan_items s) (pl_item l)))
     (select (plan_links s) (\<lambda>_ l. pl_order_item l = i))) (select (order_items s) (\<lambda>_ r. oi_order r = orderId)))"

definition answerOrder :: "cctx \<Rightarrow> string \<Rightarrow> order_answer \<Rightarrow> json run" where
  "answerOrder c key r =
     bindC (queryC (\<lambda>s. fetch (purchase_orders s) (oa_id r))) (\<lambda>found.
     bindC (requireC found (not_found ''Purchase order not found'')) (\<lambda>order.
     bindC (guardC (po_updated_at order = oa_updated_at r) (conflict ''Purchase order changed concurrently'')) (\<lambda>_.
     bindC (guardC (po_status order = ''factory_confirmation'') (conflict ''Purchase order does not require factory confirmation'')) (\<lambda>_.
     bindC (queryC (\<lambda>s. order_factories s (oa_id r))) (\<lambda>scopes.
     bindC (guardC (scopes \<noteq> [] \<and> list_all (\<lambda>f. f = oa_factory r) scopes)
       (forbidden ''Purchase order is not exclusively bound to this factory'')) (\<lambda>_.
     let status = (if oa_decision r = ''confirmed'' then ''confirmed'' else ''disputed'');
         fields = [(''proposedDueDate'', jnull JStr (oa_due r)), (''reason'', JStr (oa_reason r)), (''factoryId'', jint (oa_factory r))] in
     bindC (updateC purchase_orders purchase_orders_update ok_order
       (\<lambda>j x. j = oa_id r \<and> po_status x = ''factory_confirmation'' \<and> po_updated_at x = oa_updated_at r)
       (\<lambda>x. x\<lparr>po_status := status, po_updated_at := sql_now (c_env c)\<rparr>)) (\<lambda>updated.
     bindC (guardC (updated = 1) (conflict ''Purchase order changed concurrently'')) (\<lambda>_.
     bindC (if oa_decision r = ''unable'' then bindC (createApproval c ''purchase_order_factory_exception'' ''purchase_order'' (oa_id r)
         False key (JObj fields) (po_no order @ '' cannot meet the due date'')) (\<lambda>a. returnC (Some a))
       else returnC None) (\<lambda>approvalId.
     bindC (audit c (if oa_decision r = ''confirmed'' then ''confirm'' else ''request_exception'') ''purchase_orders'' ''purchase_order''
       (show_int (oa_id r)) (Some (po_no order)) None
       (Some (JObj ((''decision'', JStr (oa_decision r)) # fields @ [(''status'', JStr status)])))) (\<lambda>_.
     bindC (case approvalId of
         None \<Rightarrow> supplyEvent c ''PurchaseOrderConfirmed'' ''purchase_order'' (show_int (oa_id r)) key (RRole ''supply_chain'')
           [(''factoryId'', jint (oa_factory r))]
       | Some a \<Rightarrow> approvalNotification c a key ''purchase_order'' (show_int (oa_id r)) ''purchase_order_factory_exception'') (\<lambda>_.
     returnC (JObj [(''success'', JBool True), (''status'', JStr status)]))))))))))))"

definition updatePurchaseOrder :: "faults \<Rightarrow> cctx \<Rightarrow> json \<Rightarrow> db \<Rightarrow> (error + response) \<times> db" where
  "updatePurchaseOrder f c raw s = (case readOrderAnswer (c_access c) raw s of
       Inl err \<Rightarrow> (Inl err, s)
     | Inr (r, _) \<Rightarrow> executeSupplyCommand f (c_env c) (c_request c) (supplyScope (c_access c)) ''purchase-orders.update'' raw
         (StatusConst 200) (\<lambda>key _. answerOrder c key r) s)"

end
