(* ===== verification/Suppliers.thy ===== *)
theory Suppliers
  imports Plans
begin

text \<open>
  \<open>modules/suppliers/writes.ts\<close>: onboarding a supplier, the supplier-SKU relations with their versioned target
  hash, supplier prices (activated by a tier-3 factory with a step-up, proposed for approval otherwise) and the
  performance reviews and weights.
\<close>

section \<open>Suppliers\<close>

record supplier_input =
  si_code :: string
  si_name :: string
  si_tier :: int
  si_factory :: "int option"
  si_direct :: bool
  si_license :: string

definition bound_factory :: "access \<Rightarrow> int option \<Rightarrow> bool" where
  "bound_factory a i \<longleftrightarrow> ''factory'' \<in> set (a_roles a) \<and> i \<noteq> None \<and> a_factory a = i"

definition readSupplier :: "access \<Rightarrow> (string \<times> json) list \<Rightarrow> supplier_input run" where
  "readSupplier a body =
     bindC (textC (fld body ''code'') 191) (\<lambda>code.
     bindC (textC (fld body ''name'') 500) (\<lambda>name.
     bindC (positiveInteger (fld body ''tier'') ''Positive integer required'') (\<lambda>tier.
     bindC (guardC (tier \<in> set [1, 2, 3]) (bad_request ''Supplier tier must be 1, 2, or 3'')) (\<lambda>_.
     bindC (if tier = 1 then returnC None
       else bindC (positiveInteger (fld body ''managedByFactoryId'') ''Managed factory required'') (\<lambda>i. returnC (Some i))) (\<lambda>managedBy.
     let direct = (tier = 3 \<and> bound_factory a managedBy) in
     bindC (guardC (direct \<or> supplyInternal a) (forbidden ''Forbidden'')) (\<lambda>_.
     bindC (case managedBy of None \<Rightarrow> returnC ()
       | Some i \<Rightarrow> whenC (''factory'' \<in> set (a_roles a) \<and> \<not> supplyInternal a) (requireFactoryRole a i)) (\<lambda>_.
     bindC (textC (fld body ''businessLicenseFileKey'') 1000) (\<lambda>license.
     returnC \<lparr>si_code = code, si_name = name, si_tier = tier, si_factory = managedBy, si_direct = direct, si_license = license\<rparr>))))))))"

definition storeSupplier :: "cctx \<Rightarrow> string \<Rightarrow> (string \<times> json) list \<Rightarrow> supplier_input \<Rightarrow> json run" where
  "storeSupplier c key body i =
     bindC (requireFile (c_access c) (file_ref_of (si_license i)) [''business_license'', ''supplier_evidence''] None) (\<lambda>license.
     bindC (queryC (\<lambda>s. case si_factory i of None \<Rightarrow> True | Some f \<Rightarrow>
       (case fetch (factories s) f of None \<Rightarrow> False | Some r \<Rightarrow> fa_status r = ''active''))) (\<lambda>factoryOk.
     bindC (guardC factoryOk (not_found ''Managed factory not found'')) (\<lambda>_.
     bindC (queryC (\<lambda>s. list_ex (\<lambda>(_, r). su_code r = si_code i) (rows (suppliers s)))) (\<lambda>existing.
     bindC (guardC (\<not> existing) (conflict ''Supplier code already exists'')) (\<lambda>_.
     bindC (textC (fld body ''unifiedSocialCreditCode'') 200) (\<lambda>credit.
     bindC (textC (fld body ''address'') 1000) (\<lambda>address.
     bindC (textC (fld body ''contactName'') 200) (\<lambda>contact.
     bindC (textC (fld body ''contactPhone'') 100) (\<lambda>phone.
     bindC (textC (fld body ''businessScope'') 2000) (\<lambda>businessScope.
     let verification = (if si_direct i then ''approved'' else ''pending''); status = (if si_direct i then ''active'' else ''draft'') in
     bindC (insertC suppliers suppliers_update ok_supplier
       \<lparr>su_code = si_code i, su_name = si_name i, su_tier = Some (si_tier i), su_managed_by = si_factory i,
        su_credit_code = credit, su_license = Some (fo_object_key license), su_address = address, su_contact = contact,
        su_phone = phone, su_scope = businessScope, su_verification = verification, su_verified_by = None,
        su_status = status\<rparr>) (\<lambda>supplierId.
     bindC (if si_direct i then returnC None
       else bindC (createApproval c ''supplier_onboarding'' ''supplier'' supplierId False key (JObj body)
         (''New tier '' @ show_int (si_tier i) @ '' supplier: '' @ si_name i)) (\<lambda>a. returnC (Some a))) (\<lambda>approvalId.
     let supplier = JObj [(''id'', jint supplierId), (''code'', JStr (si_code i)), (''name'', JStr (si_name i)),
       (''tier'', jint (si_tier i)), (''managedByFactoryId'', jnull jint (si_factory i)),
       (''verificationStatus'', JStr verification), (''status'', JStr status)] in
     bindC (audit c ''create'' ''suppliers'' ''supplier'' (show_int supplierId) (Some (si_code i)) None (Some supplier)) (\<lambda>_.
     bindC (case approvalId of
         None \<Rightarrow> supplyEvent c ''SupplierActivated'' ''supplier'' (show_int supplierId) key (RRole ''supply_chain'') [(''tier'', jint (si_tier i))]
       | Some a \<Rightarrow> approvalNotification c a key ''supplier'' (show_int supplierId) ''supplier_onboarding'') (\<lambda>_.
     returnC (JObj [(''supplier'', supplier), (''approvalRequired'', JBool (\<not> si_direct i))])))))))))))))))"

definition writeSupplier :: "faults \<Rightarrow> cctx \<Rightarrow> json \<Rightarrow> db \<Rightarrow> (error + response) \<times> db" where
  "writeSupplier f c raw s = (case bindC (objectBody raw) (\<lambda>body. bindC (readSupplier (c_access c) body) (\<lambda>i. returnC (body, i))) s of
       Inl err \<Rightarrow> (Inl err, s)
     | Inr ((body, i), _) \<Rightarrow> executeSupplyCommand f (c_env c) (c_request c) (supplyScope (c_access c)) ''suppliers.write'' raw
         (StatusConst 201) (\<lambda>key _. storeSupplier c key body i) s)"

section \<open>Supplier-SKU relations\<close>

record relation_key =
  rl_factory :: int
  rl_supplier :: int
  rl_sku :: string
  rl_from :: string

definition readRelation :: "access \<Rightarrow> (string \<times> json) list \<Rightarrow> relation_key run" where
  "readRelation a body =
     bindC (positiveInteger (fld body ''factoryId'') ''Positive integer required'') (\<lambda>factoryId.
     bindC (positiveInteger (fld body ''supplierId'') ''Positive integer required'') (\<lambda>supplierId.
     bindC (textC (fld body ''sku'') 191) (\<lambda>sku.
     bindC (dateC (fld body ''effectiveFrom'')) (\<lambda>effectiveFrom.
     bindC (whenC (\<not> supplyInternal a) (requireFactoryRole a factoryId)) (\<lambda>_.
     returnC \<lparr>rl_factory = factoryId, rl_supplier = supplierId, rl_sku = sku, rl_from = effectiveFrom\<rparr>)))))"

record relation_values =
  rv_primary :: bool
  rv_priority :: int
  rv_moq :: int
  rv_multiple :: int
  rv_unit :: string
  rv_lead :: "int option"
  rv_daily :: "int option"
  rv_monthly :: "int option"

text \<open>\<open>positiveInteger(v ?? 1)\<close> and \<open>v == null ? null : ...\<close>.\<close>

definition missing_value :: "json option \<Rightarrow> bool" where
  "missing_value v \<longleftrightarrow> v = None \<or> v = Some JNull"

definition positiveOr1 :: "json option \<Rightarrow> int run" where
  "positiveOr1 v = (if missing_value v then returnC 1 else positiveInteger v ''Positive integer required'')"

definition nullable :: "(json option \<Rightarrow> int run) \<Rightarrow> json option \<Rightarrow> int option run" where
  "nullable check v = (if missing_value v then returnC None else bindC (check v) (\<lambda>n. returnC (Some n)))"

definition readRelationValues :: "sku_row \<Rightarrow> (string \<times> json) list \<Rightarrow> relation_values run" where
  "readRelationValues k body =
     bindC (positiveOr1 (fld body ''priority'')) (\<lambda>priority.
     bindC (positiveOr1 (fld body ''minimumOrderQuantity'')) (\<lambda>moq.
     bindC (positiveOr1 (fld body ''packagingMultiple'')) (\<lambda>multiple.
     bindC (optionalTextC (fld body ''purchaseUnit'') 100) (\<lambda>purchaseUnit.
     bindC (nullable nonNegativeInteger (fld body ''leadTimeDays'')) (\<lambda>lead.
     bindC (nullable (\<lambda>v. positiveInteger v ''Positive integer required'') (fld body ''dailyCapacity'')) (\<lambda>daily.
     bindC (nullable (\<lambda>v. positiveInteger v ''Positive integer required'') (fld body ''monthlyCapacity'')) (\<lambda>monthly.
     returnC \<lparr>rv_primary = (fld body ''isPrimary'' = Some (JBool True)), rv_priority = priority, rv_moq = moq, rv_multiple = multiple,
       rv_unit = (case purchaseUnit of Some u \<Rightarrow> u | None \<Rightarrow> (case sk_stock_unit k of Some u \<Rightarrow> u | None \<Rightarrow> [])),
       rv_lead = lead, rv_daily = daily, rv_monthly = monthly\<rparr>)))))))"

definition relation_row :: "relation_key \<Rightarrow> relation_values \<Rightarrow> string \<Rightarrow> int \<Rightarrow> string \<Rightarrow> supplier_sku" where
  "relation_row k v status requestedBy now = \<lparr>ss_factory = rl_factory k, ss_supplier = rl_supplier k, ss_sku = rl_sku k,
     ss_primary = rv_primary v, ss_priority = rv_priority v, ss_moq = rv_moq v, ss_multiple = rv_multiple v,
     ss_unit = rv_unit v, ss_lead_days = rv_lead v, ss_daily = rv_daily v, ss_monthly = rv_monthly v, ss_from = rl_from k,
     ss_status = status, ss_requested_by = requestedBy, ss_reviewed_by = None, ss_reviewed_at = None, ss_updated_at = now\<rparr>"

definition target_json :: "supplier_sku \<Rightarrow> json" where
  "target_json r = JObj [(''dailyCapacity'', jnull jint (ss_daily r)), (''effectiveFrom'', JStr (ss_from r)),
     (''factoryId'', jint (ss_factory r)), (''isPrimary'', JBool (ss_primary r)), (''leadTimeDays'', jnull jint (ss_lead_days r)),
     (''minimumOrderQuantity'', jint (ss_moq r)), (''monthlyCapacity'', jnull jint (ss_monthly r)),
     (''packagingMultiple'', jint (ss_multiple r)), (''priority'', jint (ss_priority r)), (''purchaseUnit'', JStr (ss_unit r)),
     (''requestedBy'', jint (ss_requested_by r)), (''sku'', JStr (ss_sku r)), (''status'', JStr (ss_status r)),
     (''supplierId'', jint (ss_supplier r))]"

definition supplierSkuTargetHash :: "env \<Rightarrow> supplier_sku \<Rightarrow> string" where
  "supplierSkuTargetHash e r = canonicalHash e (target_json r)"

definition find_relation :: "db \<Rightarrow> relation_key \<Rightarrow> (int \<times> supplier_sku) option" where
  "find_relation s k = (case select (supplier_skus s) (\<lambda>_ r. ss_factory r = rl_factory k \<and> ss_supplier r = rl_supplier k \<and>
       ss_sku r = rl_sku k) of [] \<Rightarrow> None | r # _ \<Rightarrow> Some r)"

definition storeRelation :: "(int \<times> supplier_sku) option \<Rightarrow> supplier_sku \<Rightarrow> int run" where
  "storeRelation existing r = (case existing of
       None \<Rightarrow> insertC supplier_skus supplier_skus_update ok_supplier_sku r
     | Some (i, old) \<Rightarrow>
         bindC (updateC supplier_skus supplier_skus_update ok_supplier_sku (\<lambda>j x. j = i \<and> ss_updated_at x = ss_updated_at old)
           (\<lambda>x. x\<lparr>ss_primary := ss_primary r, ss_priority := ss_priority r, ss_moq := ss_moq r, ss_multiple := ss_multiple r,
             ss_unit := ss_unit r, ss_lead_days := ss_lead_days r, ss_daily := ss_daily r, ss_monthly := ss_monthly r,
             ss_from := ss_from r, ss_status := ss_status r, ss_requested_by := ss_requested_by r, ss_reviewed_by := None,
             ss_reviewed_at := None, ss_updated_at := ss_updated_at r\<rparr>)) (\<lambda>updated.
         bindC (guardC (updated = 1) (conflict ''Supplier-SKU relation changed concurrently'')) (\<lambda>_. returnC i)))"

text \<open>\<open>INSERT IGNORE\<close> of the first version, then the stored one; an UPDATE that expects a version and bumps it.\<close>

definition ensureVersion :: "string \<Rightarrow> string \<Rightarrow> string \<Rightarrow> int run" where
  "ensureVersion type i message =
     bindC (modifyC (\<lambda>s. if versions s (type, i) = None then s\<lparr>versions := (versions s)((type, i) \<mapsto> 1)\<rparr> else s)) (\<lambda>_.
     bindC (queryC (\<lambda>s. versions s (type, i))) (\<lambda>v. requireC v (InternalError message)))"

definition advanceVersion :: "string \<Rightarrow> string \<Rightarrow> int \<Rightarrow> string \<Rightarrow> unit run" where
  "advanceVersion type i version message =
     bindC (queryC (\<lambda>s. versions s (type, i))) (\<lambda>v.
     bindC (guardC (v = Some version) (conflict message)) (\<lambda>_.
     bindC (guardC (int32 (version + 1)) DatabaseError) (\<lambda>_.
     modifyC (\<lambda>s. s\<lparr>versions := (versions s)((type, i) \<mapsto> version + 1)\<rparr>))))"

definition values_json :: "relation_values \<Rightarrow> (string \<times> json) list" where
  "values_json v = [(''isPrimary'', JBool (rv_primary v)), (''priority'', jint (rv_priority v)), (''minimumOrderQuantity'', jint (rv_moq v)),
     (''packagingMultiple'', jint (rv_multiple v)), (''purchaseUnit'', JStr (rv_unit v)), (''leadTimeDays'', jnull jint (rv_lead v)),
     (''dailyCapacity'', jnull jint (rv_daily v)), (''monthlyCapacity'', jnull jint (rv_monthly v))]"

definition relation_json :: "int \<Rightarrow> supplier_sku \<Rightarrow> json" where
  "relation_json i r = JObj [(''id'', jint i), (''factoryId'', jint (ss_factory r)), (''supplierId'', jint (ss_supplier r)),
     (''sku'', JStr (ss_sku r)), (''isPrimary'', jint (if ss_primary r then 1 else 0)), (''priority'', jint (ss_priority r)),
     (''minimumOrderQuantity'', jint (ss_moq r)), (''packagingMultiple'', jint (ss_multiple r)), (''purchaseUnit'', JStr (ss_unit r)),
     (''leadTimeDays'', jnull jint (ss_lead_days r)), (''dailyCapacity'', jnull jint (ss_daily r)),
     (''monthlyCapacity'', jnull jint (ss_monthly r)), (''effectiveFrom'', JStr (ss_from r)), (''status'', JStr (ss_status r)),
     (''requestedBy'', jint (ss_requested_by r)), (''updatedAt'', JStr (ss_updated_at r))]"

definition relateSupplier :: "cctx \<Rightarrow> string \<Rightarrow> (string \<times> json) list \<Rightarrow> relation_key \<Rightarrow> json run" where
  "relateSupplier c key body k = (let a = c_access c in
     bindC (queryC (\<lambda>s. fetch (factories s) (rl_factory k))) (\<lambda>foundFactory.
     bindC (queryC (\<lambda>s. fetch (suppliers s) (rl_supplier k))) (\<lambda>foundSupplier.
     bindC (queryC (\<lambda>s. sku_of s (rl_sku k))) (\<lambda>foundSku.
     bindC (requireC foundFactory (not_found ''Factory, supplier, or active SKU not found'')) (\<lambda>f.
     bindC (guardC (fa_status f = ''active'') (not_found ''Factory, supplier, or active SKU not found'')) (\<lambda>_.
     bindC (requireC foundSupplier (not_found ''Factory, supplier, or active SKU not found'')) (\<lambda>su.
     bindC (requireC foundSku (not_found ''Factory, supplier, or active SKU not found'')) (\<lambda>skuRow.
     bindC (guardC (\<not> (1 < (case su_tier su of None \<Rightarrow> 1 | Some t \<Rightarrow> t) \<and> su_managed_by su \<noteq> Some (rl_factory k)))
       (conflict ''Supplier is not managed by this factory'')) (\<lambda>_.
     let direct = (''factory'' \<in> set (a_roles a) \<and> \<not> supplyInternal a \<and> su_tier su = Some 3 \<and> a_factory a = Some (rl_factory k));
         status = (if direct then ''active'' else ''pending'') in
     bindC (queryC (\<lambda>s. find_relation s k)) (\<lambda>existing.
     bindC (readRelationValues skuRow body) (\<lambda>v.
     let r = relation_row k v status (a_user a) (sql_now (c_env c)) in
     bindC (storeRelation existing r) (\<lambda>i.
     bindC (ensureVersion ''supplier_sku'' (show_int i) ''Supplier-SKU version unavailable'') (\<lambda>currentVersion.
     bindC (whenC (existing \<noteq> None)
       (advanceVersion ''supplier_sku'' (show_int i) currentVersion ''Supplier-SKU version changed concurrently'')) (\<lambda>_.
     let targetVersion = (if existing = None then currentVersion else currentVersion + 1);
         binding = [(''factoryId'', jint (rl_factory k)), (''supplierId'', jint (rl_supplier k)), (''sku'', JStr (rl_sku k)),
           (''effectiveFrom'', JStr (rl_from k))];
         relation = JObj ((''id'', jint i) # binding @ (''status'', JStr status) # values_json v) in
     bindC (if direct then returnC None
       else bindC (createApproval c ''supplier_sku_change'' ''supplier_sku'' i False key
         (JObj (binding @ values_json v @ [(''targetVersion'', jint targetVersion), (''targetHash'', JStr (supplierSkuTargetHash (c_env c) r))]))
         ((if existing = None then ''New'' else ''Updated'') @ '' supplier-SKU relation'')) (\<lambda>ap. returnC (Some ap))) (\<lambda>approvalId.
     bindC (audit c (if existing = None then ''create'' else ''update'') ''suppliers'' ''supplier_sku'' (show_int i)
       (Some (fa_code f @ ''-'' @ rl_sku k)) (map_option (\<lambda>(j, x). relation_json j x) existing) (Some relation)) (\<lambda>_.
     bindC (case approvalId of
         None \<Rightarrow> supplyEvent c ''SupplierSkuActivated'' ''supplier_sku'' (show_int i) key (RRole ''supply_chain'')
           [(''factoryId'', jint (rl_factory k)), (''supplierId'', jint (rl_supplier k)), (''sku'', JStr (rl_sku k))]
       | Some ap \<Rightarrow> approvalNotification c ap key ''supplier_sku'' (show_int i) ''supplier_sku_change'') (\<lambda>_.
     returnC (JObj [(''relation'', relation), (''approvalRequired'', JBool (\<not> direct)),
       (''created'', JBool (existing = None))]))))))))))))))))))"

definition relation_status :: "json \<Rightarrow> int" where
  "relation_status result = (case result of JObj kvs \<Rightarrow> if fld kvs ''created'' = Some (JBool True) then 201 else 200 | _ \<Rightarrow> 200)"

definition writeSupplierSku :: "faults \<Rightarrow> cctx \<Rightarrow> json \<Rightarrow> db \<Rightarrow> (error + response) \<times> db" where
  "writeSupplierSku f c raw s = (case bindC (objectBody raw) (\<lambda>body. bindC (readRelation (c_access c) body) (\<lambda>k. returnC (body, k))) s of
       Inl err \<Rightarrow> (Inl err, s)
     | Inr ((body, k), _) \<Rightarrow> executeSupplyCommand f (c_env c) (c_request c) (supplyScope (c_access c)) ''supplier-skus.write'' raw
         (StatusFun relation_status) (\<lambda>key _. relateSupplier c key body k) s)"

section \<open>Supplier prices\<close>

record price_input =
  pri_supplier :: int
  pri_sku :: string
  pri_included :: int
  pri_excluded :: int
  pri_tax :: int
  pri_from :: string
  pri_reason :: string
  pri_evidence :: string

definition readPrice :: "(string \<times> json) list \<Rightarrow> price_input run" where
  "readPrice body =
     bindC (positiveInteger (fld body ''supplierId'') ''Positive integer required'') (\<lambda>supplierId.
     bindC (textC (fld body ''sku'') 191) (\<lambda>sku.
     bindC (positiveInteger (fld body ''taxIncludedMinor'') ''Positive integer required'') (\<lambda>included.
     bindC (positiveInteger (fld body ''taxExcludedMinor'') ''Positive integer required'') (\<lambda>excluded.
     bindC (nonNegativeInteger (fld body ''taxRateBps'')) (\<lambda>taxRate.
     bindC (guardC (taxRate \<le> 10000) (bad_request ''Tax rate is out of range'')) (\<lambda>_.
     bindC (dateC (fld body ''effectiveFrom'')) (\<lambda>effectiveFrom.
     bindC (textC (fld body ''reason'') 2000) (\<lambda>reason.
     bindC (textC (fld body ''evidenceFileKey'') 1000) (\<lambda>evidence.
     returnC \<lparr>pri_supplier = supplierId, pri_sku = sku, pri_included = included, pri_excluded = excluded, pri_tax = taxRate,
       pri_from = effectiveFrom, pri_reason = reason, pri_evidence = evidence\<rparr>)))))))))"

definition active_relations :: "db \<Rightarrow> int \<Rightarrow> string \<Rightarrow> int option \<Rightarrow> (int \<times> supplier_sku) list" where
  "active_relations s supplierId sku factoryId = select (supplier_skus s) (\<lambda>_ r. ss_supplier r = supplierId \<and> ss_sku r = sku \<and>
     ss_status r = ''active'' \<and> (case factoryId of None \<Rightarrow> True | Some f \<Rightarrow> ss_factory r = f))"

text \<open>\<open>WHERE status = 'active' ORDER BY effective_from DESC, id DESC LIMIT 1\<close>\<close>

definition active_price :: "db \<Rightarrow> int \<Rightarrow> string \<Rightarrow> (int \<times> price_agreement) option" where
  "active_price s supplierId sku = (case rev (sort_key (\<lambda>(i, p). (pa_from p, i)) (select (price_agreements s)
       (\<lambda>_ p. pa_supplier p = supplierId \<and> pa_sku p = sku \<and> pa_status p = ''active''))) of [] \<Rightarrow> None | p # _ \<Rightarrow> Some p)"

definition price_resource :: "int \<Rightarrow> string \<Rightarrow> string" where
  "price_resource supplierId sku = show_int supplierId @ CHR '':'' # sku"

definition previousDay :: "string \<Rightarrow> string run" where
  "previousDay t = (case parse_day t of None \<Rightarrow> throwC (InternalError ''Invalid time value'')
     | Some d \<Rightarrow> returnC (take 10 (iso_date (d - 1))))"

definition retirePrice :: "int \<Rightarrow> string \<Rightarrow> string \<Rightarrow> unit run" where
  "retirePrice i lastDay message =
     bindC (updateC price_agreements price_agreements_update ok_price (\<lambda>j p. j = i \<and> pa_status p = ''active'')
       (\<lambda>p. p\<lparr>pa_to := Some lastDay, pa_status := ''inactive''\<rparr>)) (\<lambda>retired. guardC (retired = 1) (conflict message))"

definition agreement_of :: "int \<Rightarrow> string \<Rightarrow> int \<Rightarrow> int \<Rightarrow> int \<Rightarrow> string \<Rightarrow> int \<Rightarrow> price_agreement" where
  "agreement_of supplierId sku included excluded taxRate effectiveFrom user =
     \<lparr>pa_supplier = supplierId, pa_sku = sku, pa_included = included, pa_excluded = excluded, pa_tax_bps = taxRate,
      pa_from = effectiveFrom, pa_to = None, pa_status = ''active'', pa_maintained_by = user\<rparr>"

definition activatePrice :: "cctx \<Rightarrow> string \<Rightarrow> string \<Rightarrow> (string \<times> json) list \<Rightarrow> price_input \<Rightarrow> supplier \<Rightarrow>
    (int \<times> price_agreement) option \<Rightarrow> int \<Rightarrow> int \<Rightarrow> json run" where
  "activatePrice c key digest body i su current relationId version = (let resource = price_resource (pri_supplier i) (pri_sku i) in
     bindC (requireC (a_session (c_access c)) (forbidden ''Authenticated session required'')) (\<lambda>session.
     bindC (positiveInteger (fld body ''objectVersion'') ''Price object version required'') (\<lambda>objectVersion.
     bindC (guardC (objectVersion = version) (conflict ''Price version changed; repeat step-up'')) (\<lambda>_.
     bindC (textC (fld body ''challengeNo'') 191) (\<lambda>challengeNo.
     bindC (consumeStepUpClaim (c_env c)
       \<lparr>cl_action = ''supplier_price.activate'', cl_challenge = challengeNo, cl_object_id = resource,
        cl_object_type = ''r2:supplier_price'', cl_object_version = objectVersion, cl_digest = digest,
        cl_session = session, cl_user = a_user (c_access c)\<rparr>) (\<lambda>_.
     bindC (case current of None \<Rightarrow> returnC () | Some (j, _) \<Rightarrow>
       bindC (previousDay (pri_from i)) (\<lambda>lastDay. retirePrice j lastDay ''Active price changed concurrently'')) (\<lambda>_.
     bindC (insertC price_agreements price_agreements_update ok_price
       (agreement_of (pri_supplier i) (pri_sku i) (pri_included i) (pri_excluded i) (pri_tax i) (pri_from i) (a_user (c_access c)))) (\<lambda>agreementId.
     bindC (advanceVersion ''supplier_price'' resource version ''Price version changed concurrently'') (\<lambda>_.
     let agreement = JObj [(''id'', jint agreementId), (''supplierId'', jint (pri_supplier i)), (''sku'', JStr (pri_sku i)),
       (''currency'', JStr ''CNY''), (''unitPriceTaxIncludedMinor'', jint (pri_included i)),
       (''unitPriceTaxExcludedMinor'', jint (pri_excluded i)), (''taxRateBps'', jint (pri_tax i)),
       (''effectiveFrom'', JStr (pri_from i)), (''status'', JStr ''active''), (''objectVersion'', jint (version + 1))] in
     bindC (audit c ''create'' ''supplier_prices'' ''price_agreement'' (show_int agreementId) (Some (su_code su @ ''-'' @ pri_sku i)) None
       (Some agreement)) (\<lambda>_.
     bindC (supplyEvent c ''SupplierPriceActivated'' ''price_agreement'' (show_int agreementId) key
       (REntity ''supplier_sku'' (show_int relationId)) [(''supplierId'', jint (pri_supplier i)), (''sku'', JStr (pri_sku i))]) (\<lambda>_.
     returnC (JObj [(''agreement'', agreement), (''approvalRequired'', JBool False)]))))))))))))"

definition proposePrice :: "cctx \<Rightarrow> string \<Rightarrow> price_input \<Rightarrow> supplier \<Rightarrow> (int \<times> price_agreement) option \<Rightarrow> string \<Rightarrow> int \<Rightarrow> json run" where
  "proposePrice c key i su current evidence version = (let currentId = map_option fst current in
     bindC (insertC price_changes price_changes_update ok_price_change
       \<lparr>pc_current = currentId, pc_supplier = pri_supplier i, pc_sku = pri_sku i, pc_included = pri_included i,
        pc_excluded = pri_excluded i, pc_tax_bps = pri_tax i, pc_from = pri_from i, pc_reason = pri_reason i,
        pc_evidence = evidence, pc_requested_by = a_user (c_access c), pc_reviewed_by = None, pc_decision = ''pending'',
        pc_comment = None\<rparr>) (\<lambda>changeId.
     let proposed = [(''currentAgreementId'', jnull jint currentId), (''supplierId'', jint (pri_supplier i)),
       (''sku'', JStr (pri_sku i)), (''proposedTaxIncludedMinor'', jint (pri_included i)),
       (''proposedTaxExcludedMinor'', jint (pri_excluded i)), (''proposedTaxRateBps'', jint (pri_tax i)),
       (''proposedEffectiveFrom'', JStr (pri_from i)), (''reason'', JStr (pri_reason i))] in
     bindC (createApproval c ''supplier_price_change'' ''supplier_price_change'' changeId True key
       (JObj (proposed @ [(''evidenceFileKey'', JStr (pri_evidence i)), (''requestedBy'', jint (a_user (c_access c))),
         (''priceResourceId'', JStr (price_resource (pri_supplier i) (pri_sku i))), (''priceVersion'', jint version)]))
       ((if current = None then ''New'' else ''Updated'') @ '' supplier price: '' @ su_name su @ '' / '' @ pri_sku i)) (\<lambda>approvalId.
     let change = JObj ((''id'', jint changeId) # proposed @ [(''evidenceFileKey'', JStr evidence), (''decision'', JStr ''pending'')]) in
     bindC (audit c ''create'' ''supplier_prices'' ''price_change_request'' (show_int changeId) (Some (su_code su @ ''-'' @ pri_sku i)) None
       (Some change)) (\<lambda>_.
     bindC (approvalNotification c approvalId key ''supplier_price_change'' (show_int changeId) ''supplier_price_change'') (\<lambda>_.
     returnC (JObj [(''request'', change), (''approvalRequired'', JBool True)]))))))"

definition priceSupplier :: "cctx \<Rightarrow> string \<Rightarrow> string \<Rightarrow> (string \<times> json) list \<Rightarrow> price_input \<Rightarrow> json run" where
  "priceSupplier c key digest body i = (let a = c_access c in
     bindC (queryC (\<lambda>s. fetch (suppliers s) (pri_supplier i))) (\<lambda>foundSupplier.
     bindC (queryC (\<lambda>s. sku_of s (pri_sku i))) (\<lambda>foundSku.
     bindC (requireC foundSupplier (not_found ''Supplier or active SKU not found'')) (\<lambda>su.
     bindC (requireC foundSku (not_found ''Supplier or active SKU not found'')) (\<lambda>_.
     let direct = (su_tier su = Some 3 \<and> a_factory a \<noteq> None \<and> bound_factory a (su_managed_by su)) in
     bindC (guardC (\<not> (su_tier su = Some 3 \<and> supplyInternal a)) (forbidden ''Tier-3 prices are maintained by the bound factory'')) (\<lambda>_.
     bindC (guardC (direct \<or> supplyInternal a) (forbidden ''Forbidden'')) (\<lambda>_.
     bindC (queryC (\<lambda>s. active_relations s (pri_supplier i) (pri_sku i) (if direct then a_factory a else None))) (\<lambda>relations.
     bindC (guardC (relations \<noteq> []) (conflict ''An active supplier-SKU relation is required'')) (\<lambda>_.
     bindC (requireFile a (file_ref_of (pri_evidence i)) [''price_evidence'']
       (Some (''supplier_sku'', map (\<lambda>(j, _). show_int j) relations))) (\<lambda>evidence.
     bindC (queryC (\<lambda>s. active_price s (pri_supplier i) (pri_sku i))) (\<lambda>current.
     bindC (guardC (case current of None \<Rightarrow> True | Some (_, p) \<Rightarrow> pa_from p < pri_from i)
       (conflict ''New price must start after the active price'')) (\<lambda>_.
     bindC (ensureVersion ''supplier_price'' (price_resource (pri_supplier i) (pri_sku i)) ''Price version unavailable'') (\<lambda>version.
     if direct then activatePrice c key digest body i su current (fst (hd relations)) version
     else proposePrice c key i su current (fo_object_key evidence) version)))))))))))))"

definition writeSupplierPrice :: "faults \<Rightarrow> cctx \<Rightarrow> json \<Rightarrow> db \<Rightarrow> (error + response) \<times> db" where
  "writeSupplierPrice f c raw s = (case bindC (objectBody raw) (\<lambda>body. bindC (readPrice body) (\<lambda>i. returnC (body, i))) s of
       Inl err \<Rightarrow> (Inl err, s)
     | Inr ((body, i), _) \<Rightarrow> executeSupplyCommand f (c_env c) (c_request c) (supplyScope (c_access c)) ''supplier-prices.write''
         (JObj (filter (\<lambda>(k, _). k \<noteq> ''challengeNo'') body)) (StatusConst 201) (\<lambda>key digest. priceSupplier c key digest body i) s)"

section \<open>Performance reviews and weights\<close>

definition quarter_ok :: "string \<Rightarrow> bool" where
  "quarter_ok t \<longleftrightarrow> length t = 7 \<and> digits_at t 0 4 \<and> char_is t 4 (CHR ''-'') \<and> char_is t 5 (CHR ''Q'') \<and>
     t ! 6 \<in> set [CHR ''1'', CHR ''2'', CHR ''3'', CHR ''4'']"

definition review_tags :: "json option \<Rightarrow> string list run" where
  "review_tags v = (case v of Some (JArr vs) \<Rightarrow> mapC (\<lambda>x. textC (Some x) 100) (take 20 vs) | _ \<Rightarrow> returnC [])"

definition review_comment :: "json option \<Rightarrow> string" where
  "review_comment v = (case v of Some (JStr t) \<Rightarrow> take 2000 (trim t) | _ \<Rightarrow> [])"

definition find_review :: "db \<Rightarrow> int \<Rightarrow> string \<Rightarrow> string \<Rightarrow> int \<Rightarrow> (int \<times> performance_review) option" where
  "find_review s supplierId quarter type user = (case select (performance_reviews s) (\<lambda>_ r. sv_supplier r = supplierId \<and>
       sv_quarter r = quarter \<and> sv_type r = type \<and> sv_by r = user) of [] \<Rightarrow> None | r # _ \<Rightarrow> Some r)"

text \<open>The row a performance command found: its id and \<open>updatedAt\<close>, the \<open>before\<close> image of its audit row.\<close>

definition version_json :: "int \<Rightarrow> string \<Rightarrow> json" where
  "version_json i updatedAt = JObj [(''id'', jint i), (''updatedAt'', JStr updatedAt)]"

definition storeReview :: "cctx \<Rightarrow> (int \<times> performance_review) option \<Rightarrow> performance_review \<Rightarrow> int run" where
  "storeReview c existing r = (case existing of
       None \<Rightarrow> insertC performance_reviews performance_reviews_update ok_review r
     | Some (i, old) \<Rightarrow>
         bindC (updateC performance_reviews performance_reviews_update ok_review (\<lambda>j x. j = i \<and> sv_updated_at x = sv_updated_at old)
           (\<lambda>x. x\<lparr>sv_score := sv_score r, sv_tags := sv_tags r, sv_comment := sv_comment r, sv_updated_at := sv_updated_at r\<rparr>)) (\<lambda>updated.
         bindC (guardC (updated = 1) (conflict ''Supplier review changed concurrently'')) (\<lambda>_. returnC i)))"

definition reviewSupplier :: "cctx \<Rightarrow> string \<Rightarrow> (string \<times> json) list \<Rightarrow> json run" where
  "reviewSupplier c key body =
     bindC (positiveInteger (fld body ''supplierId'') ''Positive integer required'') (\<lambda>supplierId.
     bindC (textC (fld body ''quarter'') 7) (\<lambda>quarter.
     bindC (guardC (quarter_ok quarter) (bad_request ''Invalid quarter'')) (\<lambda>_.
     bindC (textC (fld body ''reviewType'') 30) (\<lambda>reviewType.
     bindC (guardC (reviewType \<in> set [''satisfaction'', ''sampling'']) (bad_request ''Invalid review type'')) (\<lambda>_.
     bindC (positiveInteger (fld body ''score'') ''Positive integer required'') (\<lambda>score.
     bindC (guardC (score \<le> 5) (bad_request ''Review score must be between 1 and 5'')) (\<lambda>_.
     bindC (queryC (\<lambda>s. fetch (suppliers s) supplierId)) (\<lambda>found.
     bindC (requireC found (not_found ''Supplier not found'')) (\<lambda>su.
     bindC (guardC (reviewType = ''satisfaction'' \<longrightarrow> su_tier su = Some 1)
       (bad_request ''Satisfaction review applies only to tier-1 suppliers'')) (\<lambda>_.
     bindC (queryC (\<lambda>s. find_review s supplierId quarter reviewType (a_user (c_access c)))) (\<lambda>existing.
     bindC (review_tags (fld body ''tags'')) (\<lambda>tags.
     let comment = review_comment (fld body ''comment'') in
     bindC (storeReview c existing \<lparr>sv_supplier = supplierId, sv_quarter = quarter, sv_type = reviewType, sv_score = score, sv_tags = tags,
       sv_comment = comment, sv_by = a_user (c_access c), sv_updated_at = sql_now (c_env c)\<rparr>) (\<lambda>reviewId.
     bindC (audit c (if existing = None then ''create_review'' else ''update_review'') ''supplier_performance'' ''supplier_review''
       (show_int reviewId) (Some (su_code su)) (map_option (\<lambda>(i, r). version_json i (sv_updated_at r)) existing)
       (Some (JObj [(''supplierId'', jint supplierId), (''quarter'', JStr quarter), (''reviewType'', JStr reviewType),
         (''score'', jint score), (''tags'', JArr (map JStr tags)), (''comment'', JStr comment),
         (''reviewerIdentityHiddenExternally'', JBool True)]))) (\<lambda>_.
     bindC (supplyEvent c ''SupplierReviewRecorded'' ''supplier_review'' (show_int reviewId) key (RRole ''supply_chain'')
       [(''supplierId'', jint supplierId), (''quarter'', JStr quarter), (''reviewType'', JStr reviewType)]) (\<lambda>_.
     returnC (JObj [(''ok'', JBool True), (''reviewId'', jint reviewId)]))))))))))))))))"

definition weight_keys :: "string list" where
  "weight_keys = [''delivery'', ''quality'', ''exception'', ''preparation'', ''satisfaction'', ''sampling'']"

text \<open>\<open>Math.round(Number(v) * 100)\<close>; \<open>None\<close> when it is not finite.\<close>

definition percent_bps :: "json option \<Rightarrow> int option" where
  "percent_bps v = Option.bind (to_number v) (\<lambda>q. map_option (\<lambda>x. \<lfloor>x + 1/2\<rfloor>) (to_double (q * 100)))"

text \<open>The weights in the order of their keys; they are safe integers when they are non-negative and sum to 10000.\<close>

definition read_weights :: "(string \<times> json) list \<Rightarrow> (string \<times> int) list option" where
  "read_weights body = those (map (\<lambda>k. map_option (Pair k) (percent_bps (fld body k))) weight_keys)"

definition weights_ok :: "int \<Rightarrow> (string \<times> int) list \<Rightarrow> bool" where
  "weights_ok tier ws \<longleftrightarrow> list_all (\<lambda>(_, n). 0 \<le> n) ws \<and> sum_list (map snd ws) = 10000 \<and>
     (tier = 1 \<or> map_of ws ''satisfaction'' = Some 0)"

definition find_weights :: "db \<Rightarrow> int \<Rightarrow> string \<Rightarrow> (int \<times> weight_version) option" where
  "find_weights s tier effectiveFrom = (case select (weight_versions s) (\<lambda>_ w. wv_tier w = tier \<and> wv_from w = effectiveFrom) of
     [] \<Rightarrow> None | w # _ \<Rightarrow> Some w)"

definition storeWeights :: "cctx \<Rightarrow> (int \<times> weight_version) option \<Rightarrow> weight_version \<Rightarrow> int run" where
  "storeWeights c existing w = (case existing of
       None \<Rightarrow> insertC weight_versions weight_versions_update ok_weights w
     | Some (i, old) \<Rightarrow>
         bindC (updateC weight_versions weight_versions_update ok_weights (\<lambda>j x. j = i \<and> wv_updated_at x = wv_updated_at old)
           (\<lambda>x. x\<lparr>wv_weights := wv_weights w, wv_status := ''active'', wv_updated_at := wv_updated_at w\<rparr>)) (\<lambda>updated.
         bindC (guardC (updated = 1) (conflict ''Weight version changed concurrently'')) (\<lambda>_. returnC i)))"

definition weighSuppliers :: "cctx \<Rightarrow> string \<Rightarrow> (string \<times> json) list \<Rightarrow> json run" where
  "weighSuppliers c key body = (let message = ''Weights must be non-negative and total 100%; satisfaction is zero for tiers 2 and 3'' in
     bindC (positiveInteger (fld body ''tier'') ''Positive integer required'') (\<lambda>tier.
     bindC (guardC (tier \<in> set [1, 2, 3]) (bad_request ''Invalid supplier tier'')) (\<lambda>_.
     bindC (dateC (fld body ''effectiveFrom'')) (\<lambda>effectiveFrom.
     bindC (requireC (read_weights body) (bad_request message)) (\<lambda>ws.
     bindC (guardC (weights_ok tier ws) (bad_request message)) (\<lambda>_.
     bindC (queryC (\<lambda>s. find_weights s tier effectiveFrom)) (\<lambda>existing.
     bindC (storeWeights c existing \<lparr>wv_tier = tier, wv_from = effectiveFrom, wv_weights = ws, wv_status = ''active'',
       wv_created_by = a_user (c_access c), wv_updated_at = sql_now (c_env c)\<rparr>) (\<lambda>weightId.
     bindC (audit c (if existing = None then ''create_weights'' else ''update_weights'') ''supplier_performance'' ''performance_weights''
       (show_int weightId) None (map_option (\<lambda>(i, w). version_json i (wv_updated_at w)) existing)
       (Some (JObj ([(''tier'', jint tier), (''effectiveFrom'', JStr effectiveFrom)] @ map (\<lambda>(k, n). (k, jint n)) ws)))) (\<lambda>_.
     bindC (supplyEvent c ''SupplierPerformanceWeightsChanged'' ''performance_weights'' (show_int weightId) key (RRole ''supply_chain'')
       [(''tier'', jint tier), (''effectiveFrom'', JStr effectiveFrom)]) (\<lambda>_.
     returnC (JObj [(''ok'', JBool True), (''weightId'', jint weightId)])))))))))))"

definition readPerformance :: "access \<Rightarrow> (string \<times> json) list \<Rightarrow> string run" where
  "readPerformance a body =
     bindC (textC (fld body ''action'') 30) (\<lambda>action.
     bindC (if action = ''review'' then guardC (hasRole a [''admin'', ''supply_chain'', ''company_qc'']) (forbidden ''Forbidden'')
       else if action = ''weights'' then guardC (supplyInternal a) (forbidden ''Forbidden'')
       else throwC (bad_request ''Unsupported supplier performance action'')) (\<lambda>_. returnC action))"

definition ratePerformance :: "cctx \<Rightarrow> string \<Rightarrow> (string \<times> json) list \<Rightarrow> string \<Rightarrow> json run" where
  "ratePerformance c key body action = (if action = ''review'' then reviewSupplier c key body else weighSuppliers c key body)"

definition writeSupplierPerformance :: "faults \<Rightarrow> cctx \<Rightarrow> json \<Rightarrow> db \<Rightarrow> (error + response) \<times> db" where
  "writeSupplierPerformance f c raw s = (case bindC (objectBody raw) (\<lambda>body. bindC (readPerformance (c_access c) body) (\<lambda>x. returnC (body, x))) s of
       Inl err \<Rightarrow> (Inl err, s)
     | Inr ((body, action), _) \<Rightarrow> executeSupplyCommand f (c_env c) (c_request c) (supplyScope (c_access c)) ''supplier-performance.write'' raw
         StatusDefault (\<lambda>key _. ratePerformance c key body action) s)"

end
