(* ===== verification/SupplyEffects.thy ===== *)
theory SupplyEffects
  imports Approvals Orders Suppliers
begin

text \<open>
  \<open>modules/approvals/supply-approval-effects.ts\<close>: the effects of the nine procurement workflows. \<open>executeEffect\<close>
  checks the claim and the reviewer again, applies the effect of the workflow, bumps the version of the approval
  and writes its own audit row and event.
\<close>

section \<open>The reviewer and the payload\<close>

definition effect_types :: "string list" where
  "effect_types = [''supplier_onboarding'', ''supplier_sku_change'', ''supplier_price_change'', ''sku_verification'', ''bom_version'',
     ''purchase_plan_version'', ''purchase_plan_deviation'', ''purchase_plan_factory_exception'', ''purchase_order_factory_exception'']"

definition ends_with :: "string \<Rightarrow> string \<Rightarrow> bool" where
  "ends_with t suffix \<longleftrightarrow> length suffix \<le> length t \<and> drop (length t - length suffix) t = suffix"

definition decisionC :: "claim \<Rightarrow> string run" where
  "decisionC cl = (if ends_with (cl_action cl) ''.approve'' \<or> cl_action cl = ''approve'' then returnC ''approved''
     else if ends_with (cl_action cl) ''.reject'' \<or> cl_action cl = ''reject'' then returnC ''rejected''
     else throwC (conflict ''Approval action is not supported''))"

definition reviewer_role :: "env \<Rightarrow> db \<Rightarrow> int \<Rightarrow> bool" where
  "reviewer_role e s user \<longleftrightarrow> list_ex (\<lambda>(_, r). ur_user r = user \<and> ur_role r \<in> set [''admin'', ''supply_chain''] \<and>
     ur_status r = ''active'' \<and> ur_from r \<le> sql_today e \<and> (case ur_to r of None \<Rightarrow> True | Some t \<Rightarrow> sql_today e \<le> t)) (rows (user_roles s))"

definition reviewer_ok :: "env \<Rightarrow> db \<Rightarrow> int \<Rightarrow> bool" where
  "reviewer_ok e s user \<longleftrightarrow> (case fetch (users s) user of None \<Rightarrow> False
     | Some u \<Rightarrow> us_status u = ''active'' \<and> (us_role u = ''supply_chain'' \<or> reviewer_role e s user))"

definition authorizedReviewer :: "env \<Rightarrow> int \<Rightarrow> unit run" where
  "authorizedReviewer e user = bindC (queryC (\<lambda>s. reviewer_ok e s user)) (\<lambda>ok.
     guardC ok (conflict ''Approval reviewer role is not authorized''))"

text \<open>Property access on a parsed payload: \<open>undefined\<close> on anything but an object.\<close>

definition payload_field :: "json \<Rightarrow> string \<Rightarrow> json option" where
  "payload_field p k = (case p of JObj kvs \<Rightarrow> fld kvs k | _ \<Rightarrow> None)"

section \<open>Suppliers, relations and prices\<close>

definition changedOne :: "int \<Rightarrow> string \<Rightarrow> unit run" where
  "changedOne n message = guardC (n = 1) (conflict message)"

definition applySupplierOnboarding :: "approval \<Rightarrow> string \<Rightarrow> int \<Rightarrow> unit run" where
  "applySupplierOnboarding a result actor =
     bindC (updateC suppliers suppliers_update ok_supplier (\<lambda>j r. j = ap_entity_id a \<and> su_verification r = ''pending'')
       (\<lambda>r. r\<lparr>su_verification := result, su_status := (if result = ''approved'' then ''active'' else ''draft''),
         su_verified_by := Some actor\<rparr>)) (\<lambda>n. changedOne n ''Supplier onboarding target changed concurrently'')"

definition hex_digest :: "json option \<Rightarrow> bool" where
  "hex_digest v \<longleftrightarrow> (case v of Some (JStr t) \<Rightarrow> length t = 64 \<and> list_all (\<lambda>c. is_digit c \<or> c \<in> set ''abcdef'') t | _ \<Rightarrow> False)"

definition target_version :: "json \<Rightarrow> string \<Rightarrow> int option" where
  "target_version p k = (case to_safe_integer (payload_field p k) of None \<Rightarrow> None | Some n \<Rightarrow> if 0 < n then Some n else None)"

definition applySupplierSku :: "env \<Rightarrow> approval \<Rightarrow> string \<Rightarrow> int \<Rightarrow> unit run" where
  "applySupplierSku e a result actor = (let changed = ''Supplier-SKU approval target changed concurrently''; p = ap_payload a in
     bindC (requireC (target_version p ''targetVersion'') (conflict ''Supplier-SKU approval target version is invalid'')) (\<lambda>version.
     bindC (guardC (hex_digest (payload_field p ''targetHash'')) (conflict ''Supplier-SKU approval target version is invalid'')) (\<lambda>_.
     bindC (queryC (\<lambda>s. fetch (supplier_skus s) (ap_entity_id a))) (\<lambda>found.
     bindC (requireC found (not_found ''Supplier-SKU approval target not found'')) (\<lambda>r.
     let i = ap_entity_id a in
     bindC (queryC (\<lambda>s. versions s (''supplier_sku'', show_int i))) (\<lambda>current.
     bindC (guardC (current = Some version) (conflict changed)) (\<lambda>_.
     bindC (guardC (payload_field p ''targetHash'' = Some (JStr (supplierSkuTargetHash e r))) (conflict changed)) (\<lambda>_.
     bindC (whenC (result = ''approved'' \<and> ss_primary r)
       (bindC (updateC supplier_skus supplier_skus_update ok_supplier_sku
         (\<lambda>j x. ss_factory x = ss_factory r \<and> ss_sku x = ss_sku r \<and> j \<noteq> i \<and> ss_primary x)
         (\<lambda>x. x\<lparr>ss_primary := False, ss_updated_at := sql_now e\<rparr>)) (\<lambda>_. returnC ()))) (\<lambda>_.
     bindC (updateC supplier_skus supplier_skus_update ok_supplier_sku
       (\<lambda>j x. j = i \<and> ss_status x = ''pending'' \<and> ss_updated_at x = ss_updated_at r)
       (\<lambda>x. x\<lparr>ss_status := (if result = ''approved'' then ''active'' else ''inactive''), ss_reviewed_by := Some actor,
         ss_reviewed_at := Some (sql_now e), ss_updated_at := sql_now e\<rparr>)) (\<lambda>n.
     bindC (changedOne n changed) (\<lambda>_.
     advanceVersion ''supplier_sku'' (show_int i) version changed)))))))))))"

definition applySupplierPrice :: "env \<Rightarrow> approval \<Rightarrow> string \<Rightarrow> int \<Rightarrow> unit run" where
  "applySupplierPrice e a result actor = (let p = ap_payload a; invalid = conflict ''Supplier price approval target version is invalid'' in
     bindC (case payload_field p ''priceResourceId'' of Some (JStr t) \<Rightarrow> if t = [] then throwC invalid else returnC t | _ \<Rightarrow> throwC invalid) (\<lambda>resource.
     bindC (requireC (target_version p ''priceVersion'') invalid) (\<lambda>version.
     bindC (queryC (\<lambda>s. fetch (price_changes s) (ap_entity_id a))) (\<lambda>found.
     bindC (requireC found (not_found ''Supplier price approval target not found'')) (\<lambda>x.
     bindC (guardC (pc_decision x = ''pending'') (conflict ''Supplier price request already decided'')) (\<lambda>_.
     bindC (guardC (resource = price_resource (pc_supplier x) (pc_sku x)) (conflict ''Supplier price approval target is invalid'')) (\<lambda>_.
     bindC (queryC (\<lambda>s. versions s (''supplier_price'', resource))) (\<lambda>current.
     bindC (guardC (current = Some version) (conflict ''Supplier price changed concurrently'')) (\<lambda>_.
     bindC (whenC (result = ''approved'')
       (bindC (queryC (\<lambda>s. active_price s (pc_supplier x) (pc_sku x))) (\<lambda>active.
        bindC (guardC (map_option fst active = pc_current x) (conflict ''Active supplier price changed concurrently'')) (\<lambda>_.
        bindC (case pc_current x of None \<Rightarrow> returnC () | Some i \<Rightarrow>
          bindC (previousDay (pc_from x)) (\<lambda>lastDay. retirePrice i lastDay ''Active supplier price changed concurrently'')) (\<lambda>_.
        bindC (insertC price_agreements price_agreements_update ok_price
          (agreement_of (pc_supplier x) (pc_sku x) (pc_included x) (pc_excluded x) (pc_tax_bps x) (pc_from x) (pc_requested_by x))) (\<lambda>_.
        advanceVersion ''supplier_price'' resource version ''Supplier price changed concurrently'')))))) (\<lambda>_.
     bindC (updateC price_changes price_changes_update ok_price_change (\<lambda>j y. j = ap_entity_id a \<and> pc_decision y = ''pending'')
       (\<lambda>y. y\<lparr>pc_decision := result, pc_reviewed_by := Some actor, pc_comment := Some []\<rparr>)) (\<lambda>n.
     changedOne n ''Supplier price request changed concurrently'')))))))))))"

section \<open>SKUs and BOM versions\<close>

definition applySku :: "approval \<Rightarrow> string \<Rightarrow> unit run" where
  "applySku a result =
     bindC (updateC skus skus_update ok_sku (\<lambda>j r. j = ap_entity_id a \<and> sk_verification r = ''pending'')
       (\<lambda>r. r\<lparr>sk_verification := result, sk_status := (if result = ''approved'' then ''active'' else ''draft'')\<rparr>))
       (\<lambda>n. changedOne n ''SKU approval target changed concurrently'')"

text \<open>The ids of \<open>retireBomIds\<close> that are positive safe integers (a number, not a numeric text).\<close>

definition retired_boms :: "json option \<Rightarrow> int list" where
  "retired_boms v = (case v of Some (JArr vs) \<Rightarrow> List.map_filter (\<lambda>x. case x of
       JNum q \<Rightarrow> if safe_integer q \<and> 0 < q then Some \<lfloor>q\<rfloor> else None | _ \<Rightarrow> None) vs | _ \<Rightarrow> [])"

definition applyBom :: "approval \<Rightarrow> string \<Rightarrow> int \<Rightarrow> unit run" where
  "applyBom a result actor =
     bindC (case payload_field (ap_payload a) ''retirementDate'' of
         Some (JStr day) \<Rightarrow> whenC (result = ''approved'') (eachC (\<lambda>i.
           bindC (updateC boms boms_update ok_bom (\<lambda>j _. j = i \<and> True) (\<lambda>b. b\<lparr>bo_to := Some day\<rparr>)) (\<lambda>_. returnC ()))
           (retired_boms (payload_field (ap_payload a) ''retireBomIds'')))
       | _ \<Rightarrow> returnC ()) (\<lambda>_.
     bindC (updateC boms boms_update ok_bom (\<lambda>j b. j = ap_entity_id a \<and> bo_approval b = ''pending'')
       (\<lambda>b. b\<lparr>bo_approval := result, bo_active := (result = ''approved''), bo_reviewed_by := Some actor\<rparr>))
       (\<lambda>n. changedOne n ''BOM approval target changed concurrently''))"

section \<open>Purchase plans and orders\<close>

definition applyPlanVersion :: "env \<Rightarrow> approval \<Rightarrow> string \<Rightarrow> int \<Rightarrow> unit run" where
  "applyPlanVersion e a result actor = (let dueAt = (if result = ''approved'' then Some (js_after e (days 3)) else None) in
     bindC (updateC purchase_plans purchase_plans_update ok_plan (\<lambda>j p. j = ap_entity_id a \<and> pn_status p = ''pending_approval'')
       (\<lambda>p. p\<lparr>pn_status := (if result = ''approved'' then ''awaiting_factory_confirmation'' else ''draft''), pn_due_at := dueAt,
         pn_reviewed_by := Some actor, pn_updated_at := sql_now e\<rparr>)) (\<lambda>n.
     bindC (changedOne n ''Purchase plan approval target changed concurrently'') (\<lambda>_.
     case dueAt of None \<Rightarrow> returnC ()
     | Some due \<Rightarrow> createReminder ''purchase_plan_confirmation'' ''purchase_plan'' (ap_entity_id a) (ap_request_no a) due)))"

text \<open>One entry of the deviation payload: the plan it concerns, when it names a plan item.\<close>

definition deviation_item :: "json \<Rightarrow> int option" where
  "deviation_item v = (case v of JObj kvs \<Rightarrow> (case fld kvs ''planItemId'' of None \<Rightarrow> None | Some x \<Rightarrow>
     (case to_safe_integer (Some x) of None \<Rightarrow> None | Some n \<Rightarrow> if 0 < n then Some n else None)) | _ \<Rightarrow> None)"

definition acceptDeviation :: "string \<Rightarrow> int list \<Rightarrow> json \<Rightarrow> int list run" where
  "acceptDeviation result planIds v = (case deviation_item v of
       None \<Rightarrow> returnC planIds
     | Some i \<Rightarrow>
         bindC (queryC (\<lambda>s. fetch (plan_items s) i)) (\<lambda>found.
         bindC (requireC found (not_found ''Purchase plan deviation item not found'')) (\<lambda>p.
         bindC (whenC (result = ''approved'')
           (bindC (updateC plan_items plan_items_update ok_plan_item (\<lambda>j _. j = i \<and> True)
             (\<lambda>x. x\<lparr>pi_completion := ''exception_approved''\<rparr>)) (\<lambda>_. returnC ()))) (\<lambda>_.
         returnC (planIds @ [pi_plan p])))))"

definition releaseOrder :: "env \<Rightarrow> approval \<Rightarrow> string \<Rightarrow> unit run" where
  "releaseOrder e a result = (let changed = conflict ''Purchase order approval target changed concurrently'' in
     bindC (queryC (\<lambda>s. fetch (purchase_orders s) (ap_entity_id a))) (\<lambda>found.
     bindC (requireC found (not_found ''Purchase order approval target not found'')) (\<lambda>order.
     bindC (guardC (po_status order = ''pending_approval'') changed) (\<lambda>_.
     bindC (updateC purchase_orders purchase_orders_update ok_order
       (\<lambda>j x. j = ap_entity_id a \<and> po_status x = ''pending_approval'' \<and> po_updated_at x = po_updated_at order)
       (\<lambda>x. x\<lparr>po_status := (if result = ''approved'' then ''factory_confirmation'' else ''approval_rejected''),
         po_updated_at := sql_now e\<rparr>)) (\<lambda>n.
     bindC (guardC (n = 1) changed) (\<lambda>_.
     whenC (result = ''approved'') (createReminder ''purchase_order_confirmation'' ''purchase_order'' (ap_entity_id a) (po_no order)
       (js_after e (days 1)))))))))"

definition closePlan :: "env \<Rightarrow> int \<Rightarrow> unit run" where
  "closePlan e planId = (let changed = conflict ''Purchase plan approval target changed concurrently'' in
     bindC (queryC (\<lambda>s. plan_rows s planId)) (\<lambda>items.
     bindC (queryC (\<lambda>s. fetch (purchase_plans s) planId)) (\<lambda>found.
     bindC (requireC found (not_found ''Purchase plan approval target not found'')) (\<lambda>plan.
     bindC (guardC (pn_status plan = ''ordering'') changed) (\<lambda>_.
     bindC (updateC purchase_plans purchase_plans_update ok_plan
       (\<lambda>j p. j = planId \<and> pn_status p = ''ordering'' \<and> pn_updated_at p = pn_updated_at plan)
       (\<lambda>p. p\<lparr>pn_status := (if completed_items items then ''ordered_complete'' else ''ordering''), pn_updated_at := sql_now e\<rparr>)) (\<lambda>n.
     guardC (n = 1) changed))))))"

definition applyPlanDeviation :: "env \<Rightarrow> approval \<Rightarrow> string \<Rightarrow> unit run" where
  "applyPlanDeviation e a result = (case ap_payload a of
       JArr vs \<Rightarrow>
         bindC (foldC (acceptDeviation result) [] vs) (\<lambda>planIds.
         bindC (whenC (ap_entity_type a = ''purchase_order'') (releaseOrder e a result)) (\<lambda>_.
         eachC (closePlan e) (rev (remdups (rev (planIds @ (if ap_entity_type a = ''purchase_plan'' then [ap_entity_id a] else [])))))))
     | _ \<Rightarrow> throwC (conflict ''Purchase plan deviation payload is invalid''))"

definition applyPlanException :: "env \<Rightarrow> approval \<Rightarrow> string \<Rightarrow> int \<Rightarrow> unit run" where
  "applyPlanException e a result actor =
     bindC (queryC (\<lambda>s. fetch (plan_responses s) (ap_entity_id a))) (\<lambda>found.
     bindC (requireC found (not_found ''Factory plan response not found'')) (\<lambda>r.
     bindC (updateC plan_responses plan_responses_update ok_any (\<lambda>j x. j = ap_entity_id a \<and> fr_status x = ''pending_supply_chain'')
       (\<lambda>x. x\<lparr>fr_status := result, fr_reviewed_by := Some actor\<rparr>)) (\<lambda>n.
     bindC (changedOne n ''Factory plan response changed concurrently'') (\<lambda>_.
     if result = ''approved'' then
       bindC (case fr_proposed r of None \<Rightarrow> returnC ()
         | Some day \<Rightarrow> bindC (updateC plan_items plan_items_update ok_plan_item (\<lambda>_ p. pi_plan p = fr_plan r \<and> pi_factory p = fr_factory r)
             (\<lambda>p. p\<lparr>pi_arrival := day\<rparr>)) (\<lambda>_. returnC ())) (\<lambda>_.
       bindC (updateC purchase_plans purchase_plans_update ok_plan (\<lambda>j _. j = fr_plan r \<and> True)
         (\<lambda>p. p\<lparr>pn_status := ''confirmed'', pn_confirmed_at := Some (sql_now e), pn_reviewed_by := Some actor,
           pn_updated_at := sql_now e\<rparr>)) (\<lambda>_. returnC ()))
     else let due = js_after e (days 3) in
       bindC (updateC purchase_plans purchase_plans_update ok_plan (\<lambda>j _. j = fr_plan r \<and> True)
         (\<lambda>p. p\<lparr>pn_status := ''awaiting_factory_confirmation'', pn_due_at := Some due, pn_confirmed_at := None,
           pn_reviewed_by := Some actor, pn_updated_at := sql_now e\<rparr>)) (\<lambda>_.
       createReminder ''purchase_plan_confirmation'' ''purchase_plan'' (fr_plan r) (ap_request_no a) due)))))"

definition applyOrderException :: "env \<Rightarrow> approval \<Rightarrow> string \<Rightarrow> unit run" where
  "applyOrderException e a result = (let i = ap_entity_id a in
     if result = ''approved'' then
       bindC (case payload_field (ap_payload a) ''proposedDueDate'' of Some (JStr t) \<Rightarrow> returnC t
         | _ \<Rightarrow> throwC (conflict ''Purchase order exception date is missing'')) (\<lambda>day.
       bindC (updateC order_items order_items_update ok_item (\<lambda>_ r. oi_order r = i) (\<lambda>r. r\<lparr>oi_due_date := Some day\<rparr>)) (\<lambda>_.
       bindC (updateC purchase_orders purchase_orders_update ok_order (\<lambda>j x. j = i \<and> po_status x = ''disputed'')
         (\<lambda>x. x\<lparr>po_status := ''confirmed'', po_updated_at := sql_now e\<rparr>)) (\<lambda>_. returnC ())))
     else
       bindC (updateC purchase_orders purchase_orders_update ok_order (\<lambda>j x. j = i \<and> po_status x = ''disputed'')
         (\<lambda>x. x\<lparr>po_status := ''factory_confirmation'', po_updated_at := sql_now e\<rparr>)) (\<lambda>_.
       createReminder ''purchase_order_confirmation'' ''purchase_order'' i (ap_request_no a) (js_after e (days 1))))"

section \<open>Executing an effect\<close>

definition applyEffect :: "env \<Rightarrow> string \<Rightarrow> approval \<Rightarrow> string \<Rightarrow> int \<Rightarrow> unit run" where
  "applyEffect e type a result actor =
     (if type = ''supplier_onboarding'' then applySupplierOnboarding a result actor
      else if type = ''supplier_sku_change'' then applySupplierSku e a result actor
      else if type = ''supplier_price_change'' then applySupplierPrice e a result actor
      else if type = ''sku_verification'' then applySku a result
      else if type = ''bom_version'' then applyBom a result actor
      else if type = ''purchase_plan_version'' then applyPlanVersion e a result actor
      else if type = ''purchase_plan_deviation'' then applyPlanDeviation e a result
      else if type = ''purchase_plan_factory_exception'' then applyPlanException e a result actor
      else applyOrderException e a result)"

text \<open>The audit row of an effect has no request: no address and no device.\<close>

definition effect_ctx :: "env \<Rightarrow> int \<Rightarrow> cctx" where
  "effect_ctx e user = \<lparr>c_env = e, c_access = \<lparr>a_session = None, a_user = user, a_roles = [], a_factory = None, a_supplier = None,
     a_local_preview = False\<rparr>, c_request = \<lparr>r_header = (\<lambda>_. None), r_protocol = ''http''\<rparr>\<rparr>"

definition object_id_ok :: "string \<Rightarrow> bool" where
  "object_id_ok t \<longleftrightarrow> t \<noteq> [] \<and> hd t \<noteq> CHR ''0'' \<and> list_all is_digit t"

definition executeEffect :: "env \<Rightarrow> string \<Rightarrow> claim \<Rightarrow> json run" where
  "executeEffect e type cl =
     bindC (decisionC cl) (\<lambda>result.
     bindC (guardC (cl_object_type cl = ''r2:approval_request'' \<and> object_id_ok (cl_object_id cl))
       (conflict ''Approval claim object is invalid'')) (\<lambda>_.
     bindC (authorizedReviewer e (cl_user cl)) (\<lambda>_.
     let i = int (read_nat (cl_object_id cl)) in
     bindC (queryC (\<lambda>s. fetch (approvals s) i)) (\<lambda>found.
     bindC (requireC found (not_found ''Approval request not found for this domain effect'')) (\<lambda>a.
     bindC (guardC (ap_workflow a = type) (not_found ''Approval request not found for this domain effect'')) (\<lambda>_.
     bindC (guardC (ap_requested_by a \<noteq> cl_user cl) (conflict ''Requester cannot review the same approval'')) (\<lambda>_.
     bindC (queryC (\<lambda>s. versions s (''approval_request'', cl_object_id cl))) (\<lambda>version.
     bindC (guardC (version = Some (cl_object_version cl)) (conflict ''Approval version changed concurrently'')) (\<lambda>_.
     bindC (applyEffect e type a result (cl_user cl)) (\<lambda>_.
     bindC (advanceVersion ''approval_request'' (cl_object_id cl) (cl_object_version cl) ''Approval effect changed concurrently'') (\<lambda>_.
     bindC (audit (effect_ctx e (cl_user cl)) (if result = ''approved'' then ''apply_approval'' else ''apply_rejection'')
       ''r2_approval_effects'' (ap_entity_type a) (show_int (ap_entity_id a)) (Some (ap_request_no a)) None
       (Some (JObj [(''approvalId'', jint i), (''workflowType'', JStr type), (''decision'', JStr result),
         (''objectVersion'', jint (cl_object_version cl + 1))]))) (\<lambda>_.
     bindC (supplyEvent (effect_ctx e (cl_user cl)) (if result = ''approved'' then ''ApprovalEffectApplied'' else ''RejectionEffectApplied'')
       (ap_entity_type a) (show_int (ap_entity_id a)) (cl_challenge cl) (RUser (ap_requested_by a))
       [(''approvalId'', jint i), (''workflowType'', JStr type)]) (\<lambda>_.
     returnC (JObj [(''decision'', JStr result), (''entityId'', jint (ap_entity_id a)), (''workflowType'', JStr type)]))))))))))))))"

definition supply_effects :: "env \<Rightarrow> effects" where
  "supply_effects e = map (\<lambda>t. (''r2.'' @ t, executeEffect e t)) effect_types"

definition supply_policy :: "claim \<Rightarrow> decision" where
  "supply_policy cl = \<lparr>allowed = (0 < cl_object_version cl \<and> object_id_ok (cl_object_id cl) \<and>
     (ends_with (cl_action cl) ''.approve'' \<or> ends_with (cl_action cl) ''.reject'' \<or> cl_action cl = ''approve'' \<or> cl_action cl = ''reject'')),
     reasonCode = ''R2_APPROVAL_CLAIM_POLICY''\<rparr>"

text \<open>The registry once both manifests have registered their effects.\<close>

definition approval_effects :: "env \<Rightarrow> effects" where
  "approval_effects e = supply_effects e @ operations_effects e"

end
