(* ===== verification/Returns.thy ===== *)
theory Returns
  imports Shipments
begin

text \<open>
  \<open>modules/returns/writes.ts\<close>: products of a received shipment come back into the quarantine bucket
  of a new batch, are inspected, get a proposed disposition within the inspected buckets, and leave the
  quarantine when somebody other than the proposer approves it.
\<close>

record return_record =
  rr_return :: product_return
  rr_execution :: execution_order
  rr_supplier :: "int option"

definition return_row :: "db \<Rightarrow> int \<Rightarrow> return_record option" where
  "return_row s i = Option.bind (fetch (returns s) i) (\<lambda>r.
     map_option (\<lambda>sh. \<lparr>rr_return = r, rr_execution = sh_execution sh, rr_supplier = oi_supplier (sh_item sh)\<rparr>)
       (shipment_row s (rt_delivery r)))"

section \<open>Receiving a return\<close>

definition received_total :: "db \<Rightarrow> int \<Rightarrow> int" where
  "received_total s i = sumT (\<lambda>r. if sr_delivery r = i then sr_received r else 0) (shipment_receipts s)"

definition returned_total :: "db \<Rightarrow> int \<Rightarrow> int" where
  "returned_total s i = sumT (\<lambda>r. if rt_delivery r = i then rt_quantity r else 0) (returns s)"

definition receiveReturn :: "cctx \<Rightarrow> (string \<times> json) list \<Rightarrow> json run" where
  "receiveReturn c body =
     bindC (requireRole (c_access c) [''admin'', ''supply_chain'']) (\<lambda>_.
     bindC (stringC (fld body ''returnNo'') ''returnNo'' 191) (\<lambda>returnNo.
     bindC (integer (fld body ''sourceDeliveryBatchId'') ''sourceDeliveryBatchId'' 1) (\<lambda>source.
     bindC (integer (fld body ''warehouseId'') ''warehouseId'' 1) (\<lambda>warehouseId.
     bindC (integer (fld body ''quantity'') ''quantity'' 1) (\<lambda>quantity.
     bindC (requireWarehouseScope (c_access c) warehouseId) (\<lambda>_.
     bindC (requireShipmentRow source) (\<lambda>sh.
     let sku = oi_sku (sh_item sh) in
     bindC (guardC (dl_status (sh_delivery sh) \<in> set [''received'', ''received_with_exception''])
       (conflict ''Only received shipments can be returned'')) (\<lambda>_.
     bindC (queryC (\<lambda>s. received_total s source)) (\<lambda>validReceived.
     bindC (guardC (0 < validReceived) (conflict ''Shipment has no valid receipt quantity'')) (\<lambda>_.
     bindC (queryC (\<lambda>s. returned_total s source)) (\<lambda>prior.
     bindC (guardC (prior + quantity \<le> validReceived)
       (conflict ''Cumulative return quantity exceeds valid receipts'')) (\<lambda>_.
     bindC (freezeExists warehouseId (Some sku)) (\<lambda>isFrozen.
     bindC (guardC (\<not> isFrozen) (conflict ''Return warehouse is frozen by a stocktake'')) (\<lambda>_.
     bindC (insertC batches batches_update ok_batch
       \<lparr>ib_batch_no = ''RETURN-'' @ returnNo, ib_warehouse = warehouseId, ib_sku = sku, ib_production_date = None,
        ib_inbound_date = sql_today (c_env c), ib_expiry_date = None, ib_available = 0, ib_locked = 0,
        ib_defective = 0, ib_pending = 0, ib_quarantine = quantity, ib_ownership = ''company'',
        ib_expiry_status = ''normal''\<rparr>) (\<lambda>batchId.
     bindC (insertC returns returns_update ok_return
       \<lparr>rt_no = returnNo, rt_delivery = source, rt_warehouse = warehouseId, rt_sku = sku, rt_quantity = quantity,
        rt_batch = Some batchId, rt_status = ''quarantined'', rt_reviewed_by = None\<rparr>) (\<lambda>i.
     bindC (lockVersion ''product_return'' (show_int i)) (\<lambda>_.
     bindC (recordMovement c warehouseId sku ''return_quarantined'' quantity (Some source)
       (''return:'' @ show_int i @ '':quarantined'')) (\<lambda>_.
     bindC (audit c ''receive'' ''returns'' ''product_return'' (show_int i) (Some returnNo) None
       (Some (JObj [(''sourceDeliveryBatchId'', jint source), (''warehouseId'', jint warehouseId),
         (''quantity'', jint quantity), (''batchId'', jint batchId)]))) (\<lambda>_.
     bindC (domainEvent c ''ReturnReceived'' ''product_return'' (show_int i) None RNone []) (\<lambda>_.
     returnC (JObj [(''return'', JObj [(''id'', jint i), (''returnNo'', JStr returnNo),
       (''sourceDeliveryBatchId'', jint source), (''warehouseId'', jint warehouseId), (''sku'', JStr sku),
       (''quantity'', jint quantity), (''batchId'', jint batchId), (''status'', JStr ''quarantined''),
       (''version'', jint 1)])])))))))))))))))))))))"

section \<open>Inspection\<close>

definition inspectReturn :: "cctx \<Rightarrow> int \<Rightarrow> return_record \<Rightarrow> int \<Rightarrow> (string \<times> json) list \<Rightarrow> json run" where
  "inspectReturn c i rec version body =
     bindC (requireRole (c_access c) [''admin'', ''company_qc'', ''supplier_qc'']) (\<lambda>_.
     bindC (guardC (\<not> (hasRole (c_access c) [''supplier_qc''] \<and>
         (case a_supplier (c_access c) of None \<Rightarrow> True
          | Some x \<Rightarrow> x \<noteq> (case rr_supplier rec of None \<Rightarrow> 0 | Some y \<Rightarrow> y))))
       (forbidden ''Forbidden supplier binding'')) (\<lambda>_.
     bindC (guardC (rt_status (rr_return rec) = ''quarantined'') (conflict ''Return is not awaiting inspection'')) (\<lambda>_.
     bindC (integer (fld body ''inspectedQuantity'') ''inspectedQuantity'' 1) (\<lambda>inspected.
     bindC (integer (fld body ''passedQuantity'') ''passedQuantity'' 0) (\<lambda>passed.
     bindC (integer (fld body ''failedQuantity'') ''failedQuantity'' 0) (\<lambda>failed.
     bindC (guardC (inspected = rt_quantity (rr_return rec) \<and> passed + failed = inspected)
       (bad_request ''Return inspection quantities do not balance'')) (\<lambda>_.
     bindC (optionalString (fld body ''defectReason'') 2000) (\<lambda>reason.
     bindC (guardC (\<not> (0 < failed \<and> reason = [])) (bad_request ''Defect reason is required'')) (\<lambda>_.
     bindC (integer (fld body ''evidenceFileId'') ''evidenceFileId'' 1) (\<lambda>fileId.
     bindC (requireCleanFile (c_access c) fileId ''quality_evidence'' ''product_return'' (show_int i)) (\<lambda>file.
     bindC (insertC return_inspections return_inspections_update ok_return_inspection
       \<lparr>ri_return = i, ri_inspected = inspected, ri_passed = passed, ri_failed = failed, ri_reason = reason,
        ri_evidence = fo_object_key file, ri_inspected_by = a_user (c_access c)\<rparr>) (\<lambda>inspectionId.
     bindC (updateC returns returns_update ok_return (\<lambda>j r. j = i \<and> rt_status r = ''quarantined'')
       (\<lambda>r. r\<lparr>rt_status := ''pending_supply_chain''\<rparr>)) (\<lambda>_.
     bindC (bumpVersion ''product_return'' (show_int i) version) (\<lambda>nextVersion.
     bindC (audit c ''inspect'' ''returns'' ''product_return_inspection'' (show_int inspectionId) None None
       (Some (JObj [(''productReturnId'', jint i), (''inspected'', jint inspected), (''passed'', jint passed),
         (''failed'', jint failed), (''reason'', JStr reason), (''fileId'', jint fileId)]))) (\<lambda>_.
     bindC (domainEvent c ''ReturnInspected'' ''product_return'' (show_int i) None RNone []) (\<lambda>_.
     returnC (JObj [(''inspection'', JObj [(''id'', jint inspectionId), (''productReturnId'', jint i),
         (''inspectedQuantity'', jint inspected), (''passedQuantity'', jint passed), (''failedQuantity'', jint failed)]),
       (''status'', JStr ''pending_supply_chain''), (''version'', jint nextVersion)])))))))))))))))))"

section \<open>Disposition\<close>

definition readDisposition :: "json \<Rightarrow> (string \<times> int) run" where
  "readDisposition v =
     bindC (jsonObject v) (\<lambda>item.
     bindC (oneOf (fld item ''type'') [''restock'', ''rework'', ''scrap''] ''disposition type'') (\<lambda>type.
     bindC (integer (fld item ''quantity'') ''quantity'' 0) (\<lambda>quantity.
     returnC (type, quantity))))"

definition first_restock :: "(string \<times> int) list \<Rightarrow> int" where
  "first_restock ds = (case find (\<lambda>(t, _). t = ''restock'') ds of Some (_, q) \<Rightarrow> q | None \<Rightarrow> 0)"

definition dispositions_json :: "(string \<times> int) list \<Rightarrow> json" where
  "dispositions_json ds = JArr (map (\<lambda>(t, q). JObj [(''type'', JStr t), (''quantity'', jint q)]) ds)"

definition checkDispositions :: "int \<Rightarrow> product_return \<Rightarrow> (string \<times> int) list \<Rightarrow> unit run" where
  "checkDispositions i r ds =
     bindC (queryC (\<lambda>s. map snd (select (return_inspections s) (\<lambda>_ x. ri_return x = i)))) (\<lambda>found.
     bindC (guardC (found \<noteq> []) (conflict ''Return inspection is unavailable'')) (\<lambda>_.
     bindC (guardC (\<not> (sum_list (map ri_passed found) < first_restock ds \<or>
         sum_list (map ri_failed found) < sum_list (map snd (filter (\<lambda>(t, _). t \<noteq> ''restock'') ds))))
       (conflict ''Disposition exceeds authoritative inspection buckets'')) (\<lambda>_.
     bindC (guardC (distinct (map fst ds) \<and> sum_list (map snd ds) = rt_quantity r)
       (bad_request ''Disposition quantities do not balance'')) (\<lambda>_.
     bindC (queryC (\<lambda>s. select (dispositions s) (\<lambda>_ x. rd_return x = i))) (\<lambda>existing.
     guardC (existing = []) (conflict ''Disposition was already proposed''))))))"

definition storeDisposition :: "cctx \<Rightarrow> int \<Rightarrow> string \<times> int \<Rightarrow> unit run" where
  "storeDisposition c i d =
     bindC (insertC dispositions dispositions_update ok_disposition
       \<lparr>rd_return = i, rd_type = fst d, rd_quantity = snd d, rd_proposed_by = a_user (c_access c),
        rd_status = ''pending'', rd_reviewed_by = None\<rparr>) (\<lambda>_. returnC ())"

definition proposeDisposition :: "cctx \<Rightarrow> int \<Rightarrow> return_record \<Rightarrow> int \<Rightarrow> (string \<times> json) list \<Rightarrow> json run" where
  "proposeDisposition c i rec version body =
     bindC (requireRole (c_access c) [''admin'', ''factory'']) (\<lambda>_.
     bindC (requireFactoryBinding (c_access c) (eo_factory (rr_execution rec))) (\<lambda>_.
     bindC (guardC (rt_status (rr_return rec) = ''pending_supply_chain'') (conflict ''Return is not awaiting disposition'')) (\<lambda>_.
     bindC (case fld body ''dispositions'' of Some (JArr vs) \<Rightarrow> mapC readDisposition vs
       | _ \<Rightarrow> throwC (bad_request ''Dispositions are required'')) (\<lambda>ds.
     bindC (checkDispositions i (rr_return rec) ds) (\<lambda>_.
     bindC (eachC (storeDisposition c i) ds) (\<lambda>_.
     bindC (bumpVersion ''product_return'' (show_int i) version) (\<lambda>nextVersion.
     bindC (audit c ''propose'' ''returns'' ''product_return'' (show_int i) None None
       (Some (JObj [(''dispositions'', dispositions_json ds), (''version'', jint nextVersion)]))) (\<lambda>_.
     bindC (domainEvent c ''ReturnDispositionProposed'' ''product_return'' (show_int i) None RNone []) (\<lambda>_.
     returnC (JObj [(''success'', JBool True), (''productReturnId'', jint i),
       (''dispositions'', dispositions_json ds), (''version'', jint nextVersion)]))))))))))"

section \<open>Review\<close>

definition decideDisposition :: "cctx \<Rightarrow> string \<Rightarrow> int \<times> disposition \<Rightarrow> unit run" where
  "decideDisposition c decision d =
     bindC (updateC dispositions dispositions_update ok_disposition (\<lambda>j r. j = fst d \<and> rd_status r = ''pending'')
       (\<lambda>r. r\<lparr>rd_status := decision, rd_reviewed_by := Some (a_user (c_access c))\<rparr>)) (\<lambda>_. returnC ())"

definition releaseReturn :: "cctx \<Rightarrow> int \<Rightarrow> product_return \<Rightarrow> (int \<times> disposition) list \<Rightarrow> unit run" where
  "releaseReturn c i r ds =
     bindC (lockWarehouseFreeze (rt_warehouse r)) (\<lambda>_.
     bindC (freezeExists (rt_warehouse r) (Some (rt_sku r))) (\<lambda>isFrozen.
     bindC (guardC (\<not> isFrozen) (conflict ''Return warehouse is frozen by a stocktake'')) (\<lambda>_.
     let restock = first_restock (map (\<lambda>(_, d). (rd_type d, rd_quantity d)) ds) in
     bindC (updateC batches batches_update ok_batch
       (\<lambda>j b. j = (case rt_batch r of None \<Rightarrow> 0 | Some k \<Rightarrow> k) \<and> rt_batch r \<noteq> None \<and> rt_quantity r \<le> ib_quarantine b)
       (\<lambda>b. b\<lparr>ib_quarantine := ib_quarantine b - rt_quantity r, ib_available := ib_available b + restock,
         ib_defective := ib_defective b + (rt_quantity r - restock)\<rparr>)) (\<lambda>updated.
     bindC (guardC (updated = 1) (version_conflict ''Return inventory changed concurrently'')) (\<lambda>_.
     whenC (0 < restock) (recordMovement c (rt_warehouse r) (rt_sku r) ''return_restock'' restock None
       (''return:'' @ show_int i @ '':restock'')))))))"

definition reviewReturn :: "cctx \<Rightarrow> int \<Rightarrow> return_record \<Rightarrow> int \<Rightarrow> (string \<times> json) list \<Rightarrow> json run" where
  "reviewReturn c i rec version body = (let r = rr_return rec in
     bindC (requireRole (c_access c) [''admin'', ''supply_chain'']) (\<lambda>_.
     bindC (guardC (rt_status r = ''pending_supply_chain'') (conflict ''Return is not awaiting review'')) (\<lambda>_.
     bindC (oneOf (fld body ''decision'') [''approved'', ''rejected''] ''decision'') (\<lambda>decision.
     bindC (queryC (\<lambda>s. select (dispositions s) (\<lambda>_ x. rd_return x = i))) (\<lambda>ds.
     bindC (guardC (ds \<noteq> []) (conflict ''No disposition was proposed'')) (\<lambda>_.
     bindC (guardC (\<not> list_ex (\<lambda>(_, d). rd_proposed_by d = a_user (c_access c)) ds)
       (conflict ''Proposer cannot review their own disposition'')) (\<lambda>_.
     bindC (eachC (decideDisposition c decision) ds) (\<lambda>_.
     bindC (whenC (decision = ''approved'') (releaseReturn c i r ds)) (\<lambda>_.
     let status = (if decision = ''approved'' then ''restocked'' else ''inspection'') in
     bindC (updateC returns returns_update ok_return (\<lambda>j x. j = i \<and> rt_status x = ''pending_supply_chain'')
       (\<lambda>x. x\<lparr>rt_status := status, rt_reviewed_by := Some (a_user (c_access c))\<rparr>)) (\<lambda>updated.
     bindC (guardC (updated = 1) (version_conflict ''Return changed concurrently'')) (\<lambda>_.
     bindC (bumpVersion ''product_return'' (show_int i) version) (\<lambda>nextVersion.
     bindC (audit c decision ''returns'' ''product_return'' (show_int i) (Some (rt_no r))
       (Some (JObj [(''status'', JStr (rt_status r))]))
       (Some (JObj [(''status'', JStr status), (''version'', jint nextVersion)]))) (\<lambda>_.
     bindC (domainEvent c (if decision = ''approved'' then ''ReturnDispositionApproved'' else ''ReturnDispositionRejected'')
       ''product_return'' (show_int i) None RNone []) (\<lambda>_.
     returnC (JObj [(''success'', JBool True), (''productReturnId'', jint i), (''status'', JStr status),
       (''version'', jint nextVersion)])))))))))))))))"

definition returnCommand :: "cctx \<Rightarrow> json \<Rightarrow> json run" where
  "returnCommand c raw =
     bindC (jsonObject raw) (\<lambda>body.
     bindC (oneOf (fld body ''action'') [''receive'', ''inspect'', ''propose'', ''review''] ''action'') (\<lambda>action.
     if action = ''receive'' then receiveReturn c body
     else
       bindC (integer (fld body ''productReturnId'') ''productReturnId'' 1) (\<lambda>i.
       bindC (queryC (\<lambda>s. return_row s i)) (\<lambda>found.
       bindC (requireC found (not_found ''Return not found'')) (\<lambda>rec.
       bindC (lockVersion ''product_return'' (show_int i)) (\<lambda>version.
       if action = ''inspect'' then inspectReturn c i rec version body
       else if action = ''propose'' then proposeDisposition c i rec version body
       else reviewReturn c i rec version body))))))"

section \<open>What the commands do to returns and stock\<close>

definition disposed :: "db \<Rightarrow> int \<Rightarrow> int" where
  "disposed s i = sumT (\<lambda>d. if rd_return d = i then rd_quantity d else 0) (dispositions s)"

text \<open>
  The invariant of the module: what is returned is positive, and the dispositions proposed for a return
  are non-negative and add up to at most its quantity.
\<close>

definition returns_inv :: "db \<Rightarrow> bool" where
  "returns_inv s \<longleftrightarrow> each_row (\<lambda>r. 0 < rt_quantity r) (returns s) \<and>
     each_row (\<lambda>d. 0 \<le> rd_quantity d \<and> rd_return d < nxt (returns s)) (dispositions s) \<and>
     (\<forall>i r. fetch (returns s) i = Some r \<longrightarrow> disposed s i \<le> rt_quantity r)"

lemma returns_inv_cong:
  "returns s' = returns s \<Longrightarrow> dispositions s' = dispositions s \<Longrightarrow> returns_inv s' = returns_inv s"
  by (simp add: returns_inv_def disposed_def)

lemma returns_inv_other [simp]:
  "returns_inv (versions_update f1 s) = returns_inv s"
  "returns_inv (audit_logs_update f2 s) = returns_inv s"
  "returns_inv (outbox_messages_update f3 s) = returns_inv s"
  "returns_inv (return_inspections_update f4 s) = returns_inv s"
  "returns_inv (batches_update f5 s) = returns_inv s"
  by (simp_all add: returns_inv_def disposed_def)

definition stored :: "cctx \<Rightarrow> int \<Rightarrow> string \<times> int \<Rightarrow> disposition" where
  "stored c i d = \<lparr>rd_return = i, rd_type = fst d, rd_quantity = snd d, rd_proposed_by = a_user (c_access c),
     rd_status = ''pending'', rd_reviewed_by = None\<rparr>"

lemma wp_storeDispositions:
  assumes "Q () (dispositions_update (fold (\<lambda>d. insertT (stored c i d)) ds) s)"
  shows "wp (eachC (storeDisposition c i) ds) Q s"
  using assms
proof (induction ds arbitrary: s)
  case Nil
  moreover have "dispositions_update (\<lambda>t. t) s = s" by (cases s) simp
  ultimately show ?case by (simp add: wp_return id_def)
next
  case (Cons d ds)
  show ?case
    unfolding eachC.simps storeDisposition_def
    by (intro wp_intros Cons.IH [unfolded storeDisposition_def])
      (use Cons.prems in \<open>simp add: stored_def comp_def\<close>)
qed

lemma sum_stored:
  "sumT (\<lambda>d. if rd_return d = j then rd_quantity d else 0) (fold (\<lambda>d. insertT (stored c i d)) ds t) =
     sumT (\<lambda>d. if rd_return d = j then rd_quantity d else 0) t + (if j = i then sum_list (map snd ds) else 0)"
  by (induction ds arbitrary: t) (simp_all add: stored_def)

lemma each_stored:
  "each_row P t \<Longrightarrow> \<forall>d \<in> set ds. P (stored c i d) \<Longrightarrow> each_row P (fold (\<lambda>d. insertT (stored c i d)) ds t)"
  by (induction ds arbitrary: t) auto

lemma wp_readDisposition: "wp (readDisposition v) (\<lambda>d s'. s' = s \<and> 0 \<le> snd d) s"
  unfolding readDisposition_def by (intro wp_intros) simp

lemma wp_checkDispositions:
  assumes "\<And>x. sum_list (map snd ds) = rt_quantity r \<Longrightarrow> select (dispositions s) (\<lambda>_ x. rd_return x = i) = [] \<Longrightarrow> Q () s"
  shows "wp (checkDispositions i r ds) Q s"
  unfolding checkDispositions_def by (intro wp_intros assms) simp_all

lemma disposed_none: "select (dispositions s) (\<lambda>_ x. rd_return x = i) = [] \<Longrightarrow> disposed s i = 0"
proof -
  assume "select (dispositions s) (\<lambda>_ x. rd_return x = i) = []"
  then have "map (\<lambda>(j, d). if rd_return d = i then rd_quantity d else 0) (rows (dispositions s)) =
      map (\<lambda>_. 0) (rows (dispositions s))"
    by (auto simp: select_def filter_empty_conv)
  then have "disposed s i = sum_list (map (\<lambda>_. 0) (rows (dispositions s)))" by (simp only: disposed_def sumT_def)
  then show ?thesis by simp
qed

text \<open>Deciding dispositions changes neither what they are of nor how much they are.\<close>

definition amounts :: "disposition tbl \<Rightarrow> int \<times> (int \<times> int \<times> int) list" where
  "amounts t = (nxt t, map (\<lambda>(i, d). (i, rd_return d, rd_quantity d)) (rows t))"

lemma amounts_update: "(\<And>d. rd_return (f d) = rd_return d \<and> rd_quantity (f d) = rd_quantity d) \<Longrightarrow>
    amounts (updateT p f t) = amounts t"
  by (auto simp: amounts_def updateT_def)

lemma wp_decideDispositions:
  assumes "\<And>t. amounts t = amounts (dispositions s) \<Longrightarrow> Q () (s\<lparr>dispositions := t\<rparr>)"
  shows "wp (eachC (decideDisposition c decision) ds) Q s"
proof -
  have "wp (eachC (decideDisposition c decision) ds)
      (\<lambda>_ s'. \<exists>t. amounts t = amounts (dispositions s) \<and> s' = s\<lparr>dispositions := t\<rparr>) s"
  proof (rule wp_eachI)
    fix d s1 assume "\<exists>t. amounts t = amounts (dispositions s) \<and> s1 = s\<lparr>dispositions := t\<rparr>"
    then obtain t where t: "amounts t = amounts (dispositions s)" "s1 = s\<lparr>dispositions := t\<rparr>" by blast
    show "wp (decideDisposition c decision d) (\<lambda>_ s'. \<exists>t. amounts t = amounts (dispositions s) \<and> s' = s\<lparr>dispositions := t\<rparr>) s1"
      unfolding decideDisposition_def t(2)
      by (intro wp_intros, rule exI [of _ "updateT (\<lambda>j r. j = fst d \<and> rd_status r = ''pending'')
          (\<lambda>r. r\<lparr>rd_status := decision, rd_reviewed_by := Some (a_user (c_access c))\<rparr>) t"])
        (rule conjI, rule trans [OF amounts_update t(1)], simp, simp)
  qed (rule exI [of _ "dispositions s"], simp)
  then show ?thesis by (rule wp_mono) (elim exE conjE, simp add: assms)
qed

lemma returns_inv_update:
  assumes "returns_inv s" and "returns s' = updateT p f (returns s)" and "\<And>r. rt_quantity (f r) = rt_quantity r"
    and "amounts (dispositions s') = amounts (dispositions s)"
  shows "returns_inv s'"
proof -
  have sum: "disposed s j = sum_list (map (\<lambda>(i, a, q). if a = j then q else 0) (snd (amounts (dispositions s))))" for s j
    by (simp add: disposed_def sumT_def amounts_def comp_def split_def cong: if_cong)
  have rows: "each_row (\<lambda>d. 0 \<le> rd_quantity d \<and> rd_return d < n) t \<longleftrightarrow>
      distinct (map fst (snd (amounts t))) \<and> (\<forall>(i, _) \<in> set (snd (amounts t)). 0 < i \<and> i < fst (amounts t)) \<and>
      0 < fst (amounts t) \<and> (\<forall>(_, a, q) \<in> set (snd (amounts t)). 0 \<le> q \<and> a < n)" for n t
    by (auto simp: each_row_def wf_tbl_def amounts_def comp_def case_prod_beta)
  show ?thesis
    using assms(1) unfolding returns_inv_def rows sum assms(2,4)
    by (auto simp: fetch_updateT assms(3))
qed

definition release_effect :: "product_return \<Rightarrow> int \<Rightarrow> db \<Rightarrow> db \<Rightarrow> bool" where
  "release_effect r restock s s' \<longleftrightarrow> reservations s' = reservations s \<and> \<not> frozen s (rt_warehouse r) (Some (rt_sku r)) \<and>
     (\<exists>k b. rt_batch r = Some k \<and> fetch (batches s) k = Some b \<and> rt_quantity r \<le> ib_quarantine b \<and>
       batches s' = updateT (\<lambda>j b. j = k \<and> rt_quantity r \<le> ib_quarantine b)
         (\<lambda>b. b\<lparr>ib_quarantine := ib_quarantine b - rt_quantity r, ib_available := ib_available b + restock,
           ib_defective := ib_defective b + (rt_quantity r - restock)\<rparr>) (batches s))"

lemma release_effect_cong [simp]:
  "release_effect r n (s\<lparr>versions := vs\<rparr>) s' = release_effect r n s s'"
  "release_effect r n s (s'\<lparr>versions := vs\<rparr>) = release_effect r n s s'"
  "release_effect r n s (movements_update f1 s') = release_effect r n s s'"
  "release_effect r n s (returns_update f2 s') = release_effect r n s s'"
  "release_effect r n s (audit_logs_update f3 s') = release_effect r n s s'"
  "release_effect r n s (outbox_messages_update f4 s') = release_effect r n s s'"
  "release_effect r n (s\<lparr>dispositions := t\<rparr>) s' = release_effect r n s s'"
  by (simp_all add: release_effect_def frozen_def)

lemma updateT_no_match: "wf_tbl t \<Longrightarrow> matched t (\<lambda>j r. j = i \<and> c r) = 1 \<Longrightarrow> \<exists>r. fetch t i = Some r \<and> c r"
  by (auto simp: matched_one)

lemma wp_releaseReturn:
  assumes "wf_tbl (batches s)"
    and "\<And>s'. release_effect r (first_restock (map (\<lambda>(_, d). (rd_type d, rd_quantity d)) ds)) s s' \<Longrightarrow>
      returns s' = returns s \<Longrightarrow> dispositions s' = dispositions s \<Longrightarrow> Q () s'"
  shows "wp (releaseReturn c i r ds) Q s"
proof (cases "rt_batch r")
  case None
  then show ?thesis unfolding releaseReturn_def Let_def by (intro wp_intros) (simp_all add: matched_def select_def)
next
  case (Some k)
  show ?thesis
    unfolding releaseReturn_def Let_def Some
    by (intro wp_intros assms(2))
      (use assms(1) Some in \<open>auto simp: release_effect_def matched_one\<close>)
qed

text \<open>What each step of a return does.\<close>

definition receive_return_effect :: "int \<Rightarrow> int \<Rightarrow> db \<Rightarrow> db \<Rightarrow> bool" where
  "receive_return_effect source q s s' \<longleftrightarrow> (\<exists>sh b r. shipment_row s source = Some sh \<and> 1 \<le> q \<and>
     returned_total s source + q \<le> received_total s source \<and>
     \<not> frozen s (ib_warehouse b) (Some (ib_sku b)) \<and> ib_sku b = oi_sku (sh_item sh) \<and>
     ib_available b = 0 \<and> ib_locked b = 0 \<and> ib_defective b = 0 \<and> ib_pending b = 0 \<and> ib_quarantine b = q \<and>
     batches s' = insertT b (batches s) \<and> reservations s' = reservations s \<and>
     rt_delivery r = source \<and> rt_quantity r = q \<and> rt_status r = ''quarantined'' \<and> rt_batch r = Some (nxt (batches s)) \<and>
     returns s' = insertT r (returns s) \<and> dispositions s' = dispositions s \<and> shipment_receipts s' = shipment_receipts s)"

lemma wp_receiveReturn:
  assumes "\<And>source q v s'. to_safe_integer (fld body ''sourceDeliveryBatchId'') = Some source \<Longrightarrow>
      to_safe_integer (fld body ''quantity'') = Some q \<Longrightarrow> receive_return_effect source q s s' \<Longrightarrow> Q v s'"
  shows "wp (receiveReturn c body) Q s"
  unfolding receiveReturn_def requireShipmentRow_def Let_def
  by (intro wp_intros assms; assumption?) (auto simp: receive_return_effect_def)

definition review_effect :: "access \<Rightarrow> int \<Rightarrow> product_return \<Rightarrow> string \<Rightarrow> db \<Rightarrow> db \<Rightarrow> bool" where
  "review_effect a i r decision s s' \<longleftrightarrow> (let ds = select (dispositions s) (\<lambda>_ x. rd_return x = i) in
     ds \<noteq> [] \<and> (\<forall>(_, d) \<in> set ds. rd_proposed_by d \<noteq> a_user a) \<and> rt_status r = ''pending_supply_chain'' \<and>
     decision \<in> {''approved'', ''rejected''} \<and> amounts (dispositions s') = amounts (dispositions s) \<and>
     returns s' = updateT (\<lambda>j x. j = i \<and> rt_status x = ''pending_supply_chain'')
       (\<lambda>x. x\<lparr>rt_status := if decision = ''approved'' then ''restocked'' else ''inspection'',
         rt_reviewed_by := Some (a_user a)\<rparr>) (returns s) \<and>
     (if decision = ''approved'' then release_effect r (first_restock (map (\<lambda>(_, d). (rd_type d, rd_quantity d)) ds)) s s'
      else stock_tables s' = stock_tables s))"

lemma wp_reviewReturn:
  assumes "wf_tbl (batches s)"
    and "\<And>decision v s'. fld body ''decision'' = Some (JStr decision) \<Longrightarrow>
      review_effect (c_access c) i (rr_return rec) decision s s' \<Longrightarrow> Q v s'"
  shows "wp (reviewReturn c i rec version body) Q (s\<lparr>versions := vs\<rparr>)"
proof -
  note wp_oneOfI [wp_intros del]
  show ?thesis
    unfolding reviewReturn_def Let_def
    by (intro wp_intros wp_oneOf wp_decideDispositions wp_releaseReturn assms(2); (assumption)?)
      (use assms(1) in \<open>auto simp: review_effect_def Let_def stock_tables_def list_ex_iff\<close>)
qed

section \<open>Properties\<close>

text \<open>
  C35. Returned products never exceed what was received: receiving a return keeps the returned total of
  its shipment within the received total, and puts exactly the returned quantity into the quarantine bucket of
  one new batch, in a warehouse that is not frozen for its SKU; every other batch is unchanged.
\<close>

theorem returns_bounded:
  assumes "returnCommand c (JObj body) s = Inr (v, s')" and "fld body ''action'' = Some (JStr ''receive'')"
    and "to_safe_integer (fld body ''sourceDeliveryBatchId'') = Some d"
    and "to_safe_integer (fld body ''quantity'') = Some q" and "wf_tbl (batches s)"
  shows "1 \<le> q \<and> returned_total s' d = returned_total s d + q \<and> returned_total s' d \<le> received_total s' d \<and>
    (\<exists>k b. fetch (batches s) k = None \<and> fetch (batches s') k = Some b \<and> ib_quarantine b = q \<and>
      ib_available b = 0 \<and> ib_locked b = 0 \<and> ib_defective b = 0 \<and> ib_pending b = 0 \<and>
      \<not> frozen s (ib_warehouse b) (Some (ib_sku b)) \<and> (\<forall>j. j \<noteq> k \<longrightarrow> fetch (batches s') j = fetch (batches s) j))"
proof -
  have "wp (returnCommand c (JObj body)) (\<lambda>_ s'. receive_return_effect d q s s') s"
    unfolding returnCommand_def jsonObject_def json.case
    by (intro wp_intros wp_oneOf wp_receiveReturn) (use assms(2-4) in simp_all)
  from wpD [OF this assms(1)] obtain b r where q: "1 \<le> q" "returned_total s d + q \<le> received_total s d"
    and b: "ib_quarantine b = q" "ib_available b = 0" "ib_locked b = 0" "ib_defective b = 0" "ib_pending b = 0"
      "\<not> frozen s (ib_warehouse b) (Some (ib_sku b))" "batches s' = insertT b (batches s)"
    and r: "rt_delivery r = d" "rt_quantity r = q" "returns s' = insertT r (returns s)"
      "shipment_receipts s' = shipment_receipts s" unfolding receive_return_effect_def by blast
  have tot: "returned_total s' d = returned_total s d + q" "received_total s' d = received_total s d"
    using r by (simp_all add: returned_total_def received_total_def)
  have none: "fetch (batches s) (nxt (batches s)) = None"
    using fetch_pos [OF assms(5), of "nxt (batches s)"] by (cases "fetch (batches s) (nxt (batches s))") auto
  show ?thesis
    using q tot b none
    by (intro conjI exI [of _ "nxt (batches s)"] exI [of _ b]) (simp_all add: fetch_insertT [OF assms(5)])
qed

lemma first_restock_bounds:
  assumes "\<forall>d \<in> set ds. 0 \<le> snd d"
  shows "0 \<le> first_restock ds" and "first_restock ds \<le> sum_list (map snd ds)"
proof -
  have "0 \<le> first_restock ds \<and> first_restock ds \<le> sum_list (map snd ds)"
    using assms
  proof (induction ds)
    case (Cons d ds)
    moreover have "0 \<le> sum_list (map snd ds)" using Cons.prems by (intro sum_list_nonneg) auto
    ultimately show ?case by (cases d) (auto simp: first_restock_def)
  qed (simp add: first_restock_def)
  then show "0 \<le> first_restock ds" and "first_restock ds \<le> sum_list (map snd ds)" by simp_all
qed

lemma first_restock_rows:
  "first_restock (map (\<lambda>(_, d). (rd_type d, rd_quantity d)) (filter (\<lambda>(_, x). rd_return x = i) xs)) =
    (case find (\<lambda>(_, d). rd_return d = i \<and> rd_type d = ''restock'') xs of Some (_, d) \<Rightarrow> rd_quantity d | None \<Rightarrow> 0)"
  by (induction xs) (auto simp: first_restock_def)

lemma restock_bounds:
  assumes "returns_inv s" and "fetch (returns s) i = Some r"
  defines "n \<equiv> first_restock (map (\<lambda>(_, d). (rd_type d, rd_quantity d)) (select (dispositions s) (\<lambda>_ x. rd_return x = i)))"
  shows "0 \<le> n" and "n \<le> rt_quantity r"
proof -
  let ?ds = "map (\<lambda>(_, d). (rd_type d, rd_quantity d)) (select (dispositions s) (\<lambda>_ x. rd_return x = i))"
  have pos: "\<forall>d \<in> set ?ds. 0 \<le> snd d"
    using assms(1) by (force simp: returns_inv_def each_row_def select_rows)
  have "sum_list (map snd (map (\<lambda>(_, d). (rd_type d, rd_quantity d)) (filter (\<lambda>(_, x). rd_return x = i) xs))) =
      sum_list (map (\<lambda>(j, d). if rd_return d = i then rd_quantity d else 0) xs)" for xs :: "(int \<times> disposition) list"
    by (induction xs) (auto simp: comp_def)
  then have "sum_list (map snd ?ds) = disposed s i" by (simp add: disposed_def sumT_def select_def)
  moreover have "disposed s i \<le> rt_quantity r" using assms(1,2) by (auto simp: returns_inv_def)
  ultimately show "0 \<le> n" and "n \<le> rt_quantity r"
    using first_restock_bounds [OF pos] unfolding n_def by simp_all
qed

lemma return_rowD: "return_row s i = Some rec \<Longrightarrow> fetch (returns s) i = Some (rr_return rec)"
  by (auto simp: return_row_def bind_eq_Some_conv)

lemma wp_review:
  assumes "fld body ''action'' = Some (JStr ''review'')" and "to_safe_integer (fld body ''productReturnId'') = Some i"
    and "wf_tbl (batches s)"
    and "\<And>r decision v s'. fetch (returns s) i = Some r \<Longrightarrow> fld body ''decision'' = Some (JStr decision) \<Longrightarrow>
      review_effect (c_access c) i r decision s s' \<Longrightarrow> Q v s'"
  shows "wp (returnCommand c (JObj body)) Q s"
  unfolding returnCommand_def jsonObject_def json.case
  by (intro wp_intros wp_oneOf wp_reviewReturn assms(3,4); (assumption)?)
    (use assms(1,2) in \<open>auto dest!: return_rowD\<close>)

text \<open>
  C19. Approving the disposition of a return, by somebody who proposed no part of it, empties the returned
  quantity out of the quarantine bucket of its batch into the available bucket, by the quantity of its disposition of
  type restock (nothing, when it has none), and into the defective bucket, by the rest; both parts are non-negative,
  the total of the batch and every other batch are unchanged, and the return is restocked.
\<close>

theorem review_conserves:
  assumes "returnCommand c (JObj body) s = Inr (v, s')" and "fld body ''action'' = Some (JStr ''review'')"
    and "fld body ''decision'' = Some (JStr ''approved'')"
    and "to_safe_integer (fld body ''productReturnId'') = Some i" and "stock_inv s" and "returns_inv s"
  shows "\<exists>r k b n. fetch (returns s) i = Some r \<and> rt_status r = ''pending_supply_chain'' \<and>
    \<not> frozen s (rt_warehouse r) (Some (rt_sku r)) \<and>
    (\<forall>(_, d) \<in> set (rows (dispositions s)). rd_return d = i \<longrightarrow> rd_proposed_by d \<noteq> a_user (c_access c)) \<and>
    rt_batch r = Some k \<and> fetch (batches s) k = Some b \<and>
    n = (case find (\<lambda>(_, d). rd_return d = i \<and> rd_type d = ''restock'') (rows (dispositions s)) of
      Some (_, d) \<Rightarrow> rd_quantity d | None \<Rightarrow> 0) \<and>
    0 \<le> n \<and> n \<le> rt_quantity r \<and> rt_quantity r \<le> ib_quarantine b \<and>
    fetch (batches s') k = Some (b\<lparr>ib_quarantine := ib_quarantine b - rt_quantity r, ib_available := ib_available b + n,
      ib_defective := ib_defective b + (rt_quantity r - n)\<rparr>) \<and>
    (\<forall>j. j \<noteq> k \<longrightarrow> fetch (batches s') j = fetch (batches s) j) \<and>
    (\<exists>r'. fetch (returns s') i = Some r' \<and> rt_status r' = ''restocked'')"
proof -
  have "wp (returnCommand c (JObj body)) (\<lambda>_ s'. \<exists>r. fetch (returns s) i = Some r \<and>
      review_effect (c_access c) i r ''approved'' s s') s"
    by (rule wp_review [OF assms(2,4) stock_invD(1) [OF assms(5)]]) (use assms(3) in auto)
  from wpD [OF this assms(1)] obtain r where r: "fetch (returns s) i = Some r"
    and e: "review_effect (c_access c) i r ''approved'' s s'" by blast
  define n where "n = first_restock (map (\<lambda>(_, d). (rd_type d, rd_quantity d)) (select (dispositions s) (\<lambda>_ x. rd_return x = i)))"
  have n: "0 \<le> n" "n \<le> rt_quantity r" using restock_bounds [OF assms(6) r] by (simp_all add: n_def)
  have restock: "n = (case find (\<lambda>(_, d). rd_return d = i \<and> rd_type d = ''restock'') (rows (dispositions s)) of
      Some (_, d) \<Rightarrow> rd_quantity d | None \<Rightarrow> 0)"
    by (simp only: n_def select_def first_restock_rows)
  from e have rel: "release_effect r n s s'" and st: "rt_status r = ''pending_supply_chain''"
    and who: "\<forall>(_, d) \<in> set (select (dispositions s) (\<lambda>_ x. rd_return x = i)). rd_proposed_by d \<noteq> a_user (c_access c)"
    and rs: "returns s' = updateT (\<lambda>j x. j = i \<and> rt_status x = ''pending_supply_chain'')
       (\<lambda>x. x\<lparr>rt_status := ''restocked'', rt_reviewed_by := Some (a_user (c_access c))\<rparr>) (returns s)"
    by (simp_all add: review_effect_def Let_def n_def)
  from rel obtain k b where k: "rt_batch r = Some k" "fetch (batches s) k = Some b" "rt_quantity r \<le> ib_quarantine b"
    and fr: "\<not> frozen s (rt_warehouse r) (Some (rt_sku r))"
    and bs: "batches s' = updateT (\<lambda>j b. j = k \<and> rt_quantity r \<le> ib_quarantine b)
         (\<lambda>b. b\<lparr>ib_quarantine := ib_quarantine b - rt_quantity r, ib_available := ib_available b + n,
           ib_defective := ib_defective b + (rt_quantity r - n)\<rparr>) (batches s)"
    by (auto simp: release_effect_def)
  have "\<forall>j. j \<noteq> k \<longrightarrow> fetch (batches s') j = fetch (batches s) j" by (simp add: bs fetch_updateT option.map_ident)
  moreover have "\<exists>r'. fetch (returns s') i = Some r' \<and> rt_status r' = ''restocked''"
    by (simp add: rs fetch_updateT r st)
  moreover have "fetch (batches s') k = Some (b\<lparr>ib_quarantine := ib_quarantine b - rt_quantity r,
      ib_available := ib_available b + n, ib_defective := ib_defective b + (rt_quantity r - n)\<rparr>)"
    using k by (simp add: bs fetch_updateT)
  ultimately show ?thesis
    using r st k n restock fr who
    by - (rule exI [of _ r], rule exI [of _ k], rule exI [of _ b], rule exI [of _ n], intro conjI;
      assumption | force simp: select_rows)
qed

text \<open>A rejected disposition leaves the stock alone and sets a status that no action of the command accepts.\<close>

lemma rejection_effect:
  assumes "returnCommand c (JObj body) s = Inr (v, s')" and "fld body ''action'' = Some (JStr ''review'')"
    and "fld body ''decision'' = Some (JStr ''rejected'')"
    and "to_safe_integer (fld body ''productReturnId'') = Some i" and "wf_tbl (batches s)"
  shows "stock_tables s' = stock_tables s" and "wf_tbl (returns s') = wf_tbl (returns s)"
    and "\<exists>r. fetch (returns s') i = Some r \<and> rt_status r = ''inspection''"
proof -
  have "wp (returnCommand c (JObj body)) (\<lambda>_ s'. \<exists>r. fetch (returns s) i = Some r \<and>
      review_effect (c_access c) i r ''rejected'' s s') s"
    by (rule wp_review [OF assms(2,4,5)]) (use assms(3) in auto)
  from wpD [OF this assms(1)] obtain r where r: "fetch (returns s) i = Some r"
    and e: "review_effect (c_access c) i r ''rejected'' s s'" by blast
  then show "stock_tables s' = stock_tables s" and "wf_tbl (returns s') = wf_tbl (returns s)"
    by (auto simp: review_effect_def Let_def)
  from r e show "\<exists>r. fetch (returns s') i = Some r \<and> rt_status r = ''inspection''"
    by (auto simp: review_effect_def Let_def fetch_updateT)
qed

lemma inspection_refused:
  assumes "fetch (returns t) i = Some r" and "rt_status r = ''inspection''"
    and "to_safe_integer (fld body ''productReturnId'') = Some i" and "fld body ''action'' \<noteq> Some (JStr ''receive'')"
  shows "returnCommand c (JObj body) t \<noteq> Inr (v, t')"
proof
  assume run: "returnCommand c (JObj body) t = Inr (v, t')"
  have "wp (returnCommand c (JObj body)) (\<lambda>_ _. False) t"
    unfolding returnCommand_def jsonObject_def json.case inspectReturn_def proposeDisposition_def reviewReturn_def Let_def
      requireFactoryBinding_def
    by (intro wp_intros wp_oneOf) (use assms in \<open>auto dest!: return_rowD\<close>)
  from wpD [OF this run] show False .
qed

section \<open>The commands keep both invariants\<close>

lemma receive_keeps_returns:
  assumes "receive_return_effect source q s s'" and "stock_inv s" and "returns_inv s"
  shows "stock_inv s' \<and> returns_inv s'"
proof -
  from assms(1) obtain b r where q: "1 \<le> q" "ib_quarantine b = q" "ib_available b = 0" "ib_locked b = 0"
      "ib_defective b = 0" "ib_pending b = 0" "rt_quantity r = q"
    and b: "batches s' = insertT b (batches s)" "reservations s' = reservations s"
    and r: "returns s' = insertT r (returns s)" "dispositions s' = dispositions s"
    unfolding receive_return_effect_def by blast
  have ok: "buckets_ok b" "0 < rt_quantity r" using q by (simp_all add: buckets_ok_def)
  have "disposed s j = 0" if "nxt (returns s) \<le> j" for j
    using assms(3) that
    by (intro disposed_none) (force simp: returns_inv_def each_row_def select_def filter_empty_conv)
  moreover have d: "disposed s' j = disposed s j" for j by (simp add: disposed_def r)
  moreover have "nxt (insertT r (returns s)) = nxt (returns s) + 1" by (simp add: insertT_def)
  ultimately have "returns_inv s'"
    using assms(3) ok(2) each_row_wf [of _ "returns s"]
    by (auto simp: returns_inv_def r fetch_insertT d split: if_splits) (auto simp: each_row_def)
  with stock_inv_insert [OF assms(2) ok(1) b] show ?thesis by simp
qed

lemma review_keeps_returns:
  assumes "review_effect a i r decision s s'" and "fetch (returns s) i = Some r" and "stock_inv s" and "returns_inv s"
  shows "stock_inv s' \<and> returns_inv s'"
proof
  have rs: "returns s' = updateT (\<lambda>j x. j = i \<and> rt_status x = ''pending_supply_chain'')
       (\<lambda>x. x\<lparr>rt_status := if decision = ''approved'' then ''restocked'' else ''inspection'',
         rt_reviewed_by := Some (a_user a)\<rparr>) (returns s)" and am: "amounts (dispositions s') = amounts (dispositions s)"
    using assms(1) by (simp_all add: review_effect_def Let_def)
  show "returns_inv s'" by (rule returns_inv_update [OF assms(4) rs _ am]) simp
  let ?n = "first_restock (map (\<lambda>(_, d). (rd_type d, rd_quantity d)) (select (dispositions s) (\<lambda>_ x. rd_return x = i)))"
  show "stock_inv s'"
  proof (cases "decision = ''approved''")
    case True
    with assms(1) have "release_effect r ?n s s'" by (simp add: review_effect_def Let_def)
    then obtain k where bs: "batches s' = updateT (\<lambda>j b. j = k \<and> rt_quantity r \<le> ib_quarantine b)
         (\<lambda>b. b\<lparr>ib_quarantine := ib_quarantine b - rt_quantity r, ib_available := ib_available b + ?n,
           ib_defective := ib_defective b + (rt_quantity r - ?n)\<rparr>) (batches s)"
      and rs: "reservations s' = reservations s" by (auto simp: release_effect_def)
    show ?thesis
      by (rule stock_inv_update [OF assms(3) bs rs])
        (use restock_bounds [OF assms(4,2)] stock_invD(3,4) [OF assms(3)] in \<open>auto simp: buckets_ok_def\<close>)
  next
    case False
    with assms(1,3) show ?thesis
      by (auto simp: review_effect_def Let_def stock_tables_def intro: stock_inv_cong [THEN iffD1, rotated -1])
  qed
qed

lemma propose_keeps_returns:
  assumes "returns_inv s" and "fetch (returns s) i = Some r" and "select (dispositions s) (\<lambda>_ x. rd_return x = i) = []"
    and "\<forall>d \<in> set ds. 0 \<le> snd d" and "sum_list (map snd ds) = rt_quantity r"
  shows "returns_inv (dispositions_update (fold (\<lambda>d. insertT (stored c i d)) ds) s)"
proof -
  have "i < nxt (returns s)" using fetch_pos [OF each_row_wf assms(2)] assms(1) by (auto simp: returns_inv_def)
  moreover have "disposed (dispositions_update (fold (\<lambda>d. insertT (stored c i d)) ds) s) j =
      disposed s j + (if j = i then sum_list (map snd ds) else 0)" for j
    by (simp add: disposed_def sum_stored)
  ultimately show ?thesis
    using assms disposed_none [OF assms(3)]
    by (auto simp: returns_inv_def intro!: each_stored) (auto simp: stored_def)
qed

lemma wp_proposeDisposition:
  assumes "returns_inv s" and "fetch (returns s) i = Some (rr_return rec)" and "stock_inv s"
  shows "wp (proposeDisposition c i rec version body) (\<lambda>_ s'. stock_inv s' \<and> returns_inv s') (s\<lparr>versions := vs\<rparr>)"
  unfolding proposeDisposition_def requireFactoryBinding_def
  by (intro wp_intros wp_json_caseI wp_mapI [where P = "\<lambda>d. 0 \<le> snd d"] wp_readDisposition wp_checkDispositions wp_storeDispositions)
    (use assms in \<open>simp_all add: propose_keeps_returns cong: returns_inv_cong\<close>)

lemma returns_inv_status:
  "returns_inv s \<Longrightarrow> (\<And>r. rt_quantity (f r) = rt_quantity r) \<Longrightarrow> returns_inv (returns_update (updateT p f) s)"
  by (rule returns_inv_update [where p = p and f = f]) simp_all

lemma wp_inspectReturn:
  assumes "stock_inv s" and "returns_inv s"
  shows "wp (inspectReturn c i rec version body) (\<lambda>_ s'. stock_inv s' \<and> returns_inv s') (s\<lparr>versions := vs\<rparr>)"
  unfolding inspectReturn_def
  by (intro wp_intros) (use assms in \<open>simp_all add: returns_inv_status\<close>)

lemma returnCommand_wp:
  assumes "stock_inv s" and "returns_inv s"
  shows "wp (returnCommand c raw) (\<lambda>_ s'. stock_inv s' \<and> returns_inv s') s"
proof -
  have review: "wp (reviewReturn c i rec version body) (\<lambda>_ s'. stock_inv s' \<and> returns_inv s') (s\<lparr>versions := vs\<rparr>)"
    if "return_row s i = Some rec" for i rec version body vs
    by (rule wp_reviewReturn [OF stock_invD(1) [OF assms(1)]])
      (rule review_keeps_returns [OF _ return_rowD [OF that] assms])
  show ?thesis
    unfolding returnCommand_def
    by (intro wp_intros wp_receiveReturn wp_inspectReturn wp_proposeDisposition review receive_keeps_returns assms)
      (use assms in \<open>simp_all add: return_rowD\<close>)
qed

section \<open>The properties at concrete commands\<close>

definition sample_return :: product_return where
  "sample_return = \<lparr>rt_no = ''R-1'', rt_delivery = 1, rt_warehouse = 1, rt_sku = ''SKU'', rt_quantity = 2,
     rt_batch = Some 2, rt_status = ''pending_supply_chain'', rt_reviewed_by = None\<rparr>"

definition return_db :: db where
  "return_db = (shipment_db ''received'')\<lparr>
     batches := insertT (sample_batch\<lparr>ib_batch_no := ''RETURN-R-1'', ib_available := 0, ib_quarantine := 2\<rparr>)
       (insertT sample_batch emptyT),
     shipment_receipts := insertT \<lparr>sr_delivery = 1, sr_received = 4, sr_damaged = 0, sr_received_at = ''t'',
       sr_evidence = ''k'', sr_reason = [], sr_received_by = 1\<rparr> emptyT,
     returns := insertT sample_return emptyT,
     dispositions := insertT \<lparr>rd_return = 1, rd_type = ''restock'', rd_quantity = 2, rd_proposed_by = 5,
       rd_status = ''pending'', rd_reviewed_by = None\<rparr> emptyT\<rparr>"

lemma return_db_ok: "wf_tbl (batches return_db)" "returns_inv return_db"
  by (simp_all add: return_db_def returns_inv_def disposed_def sample_return_def fetch_insertT)
    (auto simp: each_row_def insertT_def emptyT_def wf_tbl_def sumT_def fetch_def)

abbreviation sample_review :: "string \<Rightarrow> (string \<times> json) list" where
  "sample_review decision \<equiv> [(''action'', JStr ''review''), (''productReturnId'', jint 1), (''decision'', JStr decision)]"

lemma stock_inv_return: "stock_inv return_db"
  by (auto simp: stock_inv_def return_db_def shipment_db_def empty_db_def fetch_insertT reserved_on_def sumT_def buckets_ok_def
      sample_batch_def) (auto simp: emptyT_def fetch_def insertT_def buckets_ok_def split: if_splits)

lemma returns_bounded_witness:
  "\<exists>v s'. returnCommand sample_ctx (JObj [(''action'', JStr ''receive''), (''returnNo'', JStr ''R-2''),
      (''sourceDeliveryBatchId'', jint 1), (''warehouseId'', jint 1), (''quantity'', jint 2)]) return_db = Inr (v, s') \<and>
    returned_total s' 1 = returned_total return_db 1 + 2"
proof -
  let ?b = "[(''action'', JStr ''receive''), (''returnNo'', JStr ''R-2''),
      (''sourceDeliveryBatchId'', jint 1), (''warehouseId'', jint 1), (''quantity'', jint 2)]"
  have "succeeds (returnCommand sample_ctx (JObj ?b) return_db)" by code_simp
  then obtain v s' where r: "returnCommand sample_ctx (JObj ?b) return_db = Inr (v, s')" by (rule succeedsE)
  have "fld ?b ''action'' = Some (JStr ''receive'')" "to_safe_integer (fld ?b ''sourceDeliveryBatchId'') = Some 1"
    "to_safe_integer (fld ?b ''quantity'') = Some 2"
    by (simp_all add: fld_def to_safe_integer_jint)
  from returns_bounded [OF r this return_db_ok(1)] r show ?thesis by blast
qed

lemma review_conserves_witness:
  "\<exists>v s' r. returnCommand sample_ctx (JObj (sample_review ''approved'')) return_db = Inr (v, s') \<and>
    fetch (returns s') 1 = Some r \<and> rt_status r = ''restocked''"
proof -
  have "succeeds (returnCommand sample_ctx (JObj (sample_review ''approved'')) return_db)" by code_simp
  then obtain v s' where r: "returnCommand sample_ctx (JObj (sample_review ''approved'')) return_db = Inr (v, s')"
    by (rule succeedsE)
  have "fld (sample_review ''approved'') ''action'' = Some (JStr ''review'')"
    "fld (sample_review ''approved'') ''decision'' = Some (JStr ''approved'')"
    "to_safe_integer (fld (sample_review ''approved'') ''productReturnId'') = Some 1"
    by (simp_all add: fld_def to_safe_integer_jint)
  from review_conserves [OF r this stock_inv_return return_db_ok(2)] r show ?thesis by blast
qed

end
