(* ===== verification/Decisions.thy ===== *)
theory Decisions
  imports SupplyEffects Returns
begin

text \<open>
  What deciding an approval promises. \<open>keeps I m\<close> says that a command that succeeds keeps the invariant
  \<open>I\<close>. Every effect of the two registries comes with the tables it may write. The locale \<open>effect_registry\<close>
  is the contract between \<open>decideApproval\<close> and the effects registered with it: when every registered effect
  keeps an invariant that the bookkeeping of a decision does not touch, so does the decision.
\<close>

section \<open>Commands that keep an invariant\<close>

definition keeps :: "('s \<Rightarrow> bool) \<Rightarrow> ('s, 'a) cmd \<Rightarrow> bool" where
  "keeps I m \<longleftrightarrow> (\<forall>s. I s \<longrightarrow> wp m (\<lambda>_. I) s)"

named_theorems keep_rules \<open>commands that keep an invariant\<close>

lemma keepsI: "(\<And>s. I s \<Longrightarrow> wp m (\<lambda>_. I) s) \<Longrightarrow> keeps I m"
  by (simp add: keeps_def)

lemma keepsD: "keeps I m \<Longrightarrow> I s \<Longrightarrow> wp m (\<lambda>_. I) s"
  by (simp add: keeps_def)

lemma keeps_run: "keeps I m \<Longrightarrow> I s \<Longrightarrow> m s = Inr (x, s') \<Longrightarrow> I s'"
  by (drule (1) keepsD) (erule (1) wpD)

lemma keeps_frames: "frames I m \<Longrightarrow> keeps I m"
  by (rule keepsI, rule wpI, drule (1) framesD) simp

text \<open>An invariant of a view is kept by what leaves the view alone.\<close>

lemma keeps_view: "frames v m \<Longrightarrow> (\<And>s s'. v s' = v s \<Longrightarrow> I s' = I s) \<Longrightarrow> keeps I m"
  by (rule keepsI, rule wpI, drule (1) framesD) blast

lemma keeps_bind [keep_rules]: "keeps I m \<Longrightarrow> (\<And>x. keeps I (f x)) \<Longrightarrow> keeps I (bindC m f)"
  by (rule keepsI, rule wp_bindI, rule wp_mono [OF keepsD], assumption+, rule keepsD)

lemma keeps_return [keep_rules]: "keeps I (returnC x)"
  by (simp add: keeps_def wp_return)

lemma keeps_throw [keep_rules]: "keeps I (throwC e)"
  by (simp add: keeps_def wp_throw)

lemma keeps_if [keep_rules]: "keeps I m \<Longrightarrow> keeps I n \<Longrightarrow> keeps I (if b then m else n)"
  by simp

lemma keeps_when [keep_rules]: "keeps I m \<Longrightarrow> keeps I (whenC b m)"
  by (simp add: keeps_def wp_when)

lemma keeps_query [keep_rules]: "keeps I (queryC f)"
  by (simp add: keeps_def wp_query)

lemma keeps_guard [keep_rules]: "keeps I (guardC b e)"
  by (simp add: keeps_def wp_guard)

lemma keeps_require [keep_rules]: "keeps I (requireC x e)"
  by (simp add: keeps_def wp_require)

lemma keeps_prod [keep_rules]: "(\<And>a b. keeps I (f a b)) \<Longrightarrow> keeps I (case p of (a, b) \<Rightarrow> f a b)"
  by (simp split: prod.split)

lemma keeps_option [keep_rules]:
  "keeps I m \<Longrightarrow> (\<And>y. keeps I (f y)) \<Longrightarrow> keeps I (case x of None \<Rightarrow> m | Some y \<Rightarrow> f y)"
  by (simp split: option.split)

lemma keeps_let [keep_rules]: "(\<And>x. keeps I (f x)) \<Longrightarrow> keeps I (let x = t in f x)"
  by simp

lemma keeps_each [keep_rules]: "(\<And>x. keeps I (f x)) \<Longrightarrow> keeps I (eachC f xs)"
  by (induction xs) (auto intro!: keep_rules)

lemma keeps_fold [keep_rules]: "(\<And>a x. keeps I (f a x)) \<Longrightarrow> keeps I (foldC f a xs)"
  by (induction xs arbitrary: a) (auto intro!: keep_rules)

section \<open>The tables each effect writes\<close>

lemma frames_effectApproval [frame_rules]: "frames v (effectApproval cl)"
  unfolding effectApproval_def by (intro frame_rules)

lemma frames_parsedPayload [frame_rules]: "frames v (parsedPayload p)"
  by (simp add: parsedPayload_def frames_return frames_throw split: json.split)

lemma frames_userRoleChange: "(\<And>f s. v (user_roles_update f s) = v s) \<Longrightarrow> frames v (userRoleChange e cl)"
  unfolding userRoleChange_def by (intro frame_rules frames_update)

lemma frames_warehouseTransfer: "(\<And>f s. v (transfers_update f s) = v s) \<Longrightarrow> frames v (warehouseTransfer e cl)"
  unfolding warehouseTransfer_def by (intro frame_rules frames_update)

lemma frames_shipmentDeviation: "(\<And>f s. v (deliveries_update f s) = v s) \<Longrightarrow> frames v (shipmentDeviation e cl)"
  unfolding shipmentDeviation_def by (intro frame_rules frames_update)

lemma frames_warehouseMerge: "(\<And>f s. v (warehouses_update f s) = v s) \<Longrightarrow> frames v (warehouseMerge e cl)"
  unfolding warehouseMerge_def by (intro frame_rules frames_update)

lemma frames_stocktakeVariance:
  assumes "\<And>f s. v (versions_update f s) = v s" and "\<And>f s. v (batches_update f s) = v s"
    and "\<And>f s. v (movements_update f s) = v s" and "\<And>f s. v (adjustments_update f s) = v s"
    and "\<And>f s. v (stocktakes_update f s) = v s"
  shows "frames v (stocktakeVariance e cl)"
  unfolding stocktakeVariance_def decideAdjustment_def adjustBucket_def
  by (intro frame_rules frames_update frames_insert assms)

lemma frames_productionVariance:
  assumes "\<And>f s. v (versions_update f s) = v s" and "\<And>f s. v (batches_update f s) = v s"
    and "\<And>f s. v (movements_update f s) = v s" and "\<And>f s. v (reports_update f s) = v s"
    and "\<And>f s. v (material_lines_update f s) = v s" and "\<And>f s. v (execution_orders_update f s) = v s"
  shows "frames v (productionVariance e cl)"
  unfolding productionVariance_def storeVariance_def
  by (intro frame_rules frames_update frames_insert assms)

lemma frames_financialCorrection:
  assumes "\<And>f s. v (business_keys_update f s) = v s" and "\<And>f s. v (payments_update f s) = v s"
    and "\<And>f s. v (payment_requests_update f s) = v s" and "\<And>f s. v (invoice_exceptions_update f s) = v s"
  shows "frames v (financialCorrection e cl)"
  unfolding financialCorrection_def applyCorrection_def readProposal_def lockRequest_def refundException_def
    claimCorrectionKey_def projectRequest_def correction_net_def projectException_def correctedRefund_def
  by (intro frame_rules frames_update frames_insert frames_modify assms)

lemma frames_createReminder [frame_rules]:
  "(\<And>f s. v (reminders_update f s) = v s) \<Longrightarrow> frames v (createReminder t ety i no due)"
  unfolding createReminder_def by (intro frame_rules frames_insert)

lemma frames_supplyEvent [frame_rules]:
  "(\<And>f s. v (outbox_messages_update f s) = v s) \<Longrightarrow> frames v (supplyEvent c t ety i k r d)"
  unfolding supplyEvent_def by (rule frames_outbox)

lemma frames_advanceVersion [frame_rules]:
  "(\<And>f s. v (versions_update f s) = v s) \<Longrightarrow> frames v (advanceVersion t i n message)"
  unfolding advanceVersion_def by (intro frame_rules frames_modify) simp

lemma frames_previousDay [frame_rules]: "frames v (previousDay t)"
  by (simp add: previousDay_def frames_return frames_throw split: option.split)

lemma frames_changedOne [frame_rules]: "frames v (changedOne n message)"
  unfolding changedOne_def by (intro frame_rules)

lemma frames_payload_text [frame_rules]:
  "(\<And>t. frames v (f t)) \<Longrightarrow> frames v m \<Longrightarrow> frames v (case x of Some (JStr t) \<Rightarrow> f t | _ \<Rightarrow> m)"
  by (simp split: option.split json.split)

lemma frames_payload_array [frame_rules]:
  "(\<And>t. frames v (f t)) \<Longrightarrow> frames v m \<Longrightarrow> frames v (case x of JArr t \<Rightarrow> f t | _ \<Rightarrow> m)"
  by (simp split: json.split)

lemma frames_executeEffect:
  assumes "\<And>f s. v (suppliers_update f s) = v s" and "\<And>f s. v (supplier_skus_update f s) = v s"
    and "\<And>f s. v (versions_update f s) = v s" and "\<And>f s. v (price_agreements_update f s) = v s"
    and "\<And>f s. v (price_changes_update f s) = v s" and "\<And>f s. v (skus_update f s) = v s"
    and "\<And>f s. v (boms_update f s) = v s" and "\<And>f s. v (purchase_plans_update f s) = v s"
    and "\<And>f s. v (plan_items_update f s) = v s" and "\<And>f s. v (plan_responses_update f s) = v s"
    and "\<And>f s. v (purchase_orders_update f s) = v s" and "\<And>f s. v (order_items_update f s) = v s"
    and "\<And>f s. v (reminders_update f s) = v s" and "\<And>f s. v (audit_logs_update f s) = v s"
    and "\<And>f s. v (outbox_messages_update f s) = v s"
  shows "frames v (executeEffect e type cl)"
  unfolding executeEffect_def applyEffect_def decisionC_def authorizedReviewer_def applySupplierOnboarding_def
    applySupplierSku_def applySupplierPrice_def retirePrice_def applySku_def applyBom_def applyPlanVersion_def
    applyPlanDeviation_def acceptDeviation_def releaseOrder_def closePlan_def applyPlanException_def applyOrderException_def
  by (intro frame_rules frames_update frames_insert assms)

text \<open>No effect touches the approvals.\<close>

lemma resolve_effect_mem: "resolve_effect reg key = Inr f \<Longrightarrow> (key, f) \<in> set reg"
  by (auto simp: resolve_effect_def split: option.splits dest: map_of_SomeD)

text \<open>What holds of the effects of both manifests holds of every effect of the registry.\<close>

lemma approval_effects_all:
  assumes "(key, f) \<in> set (approval_effects e)"
    and "\<And>type cl. P (executeEffect e type cl)" and "\<And>cl. P (userRoleChange e cl)" and "\<And>cl. P (warehouseTransfer e cl)"
    and "\<And>cl. P (shipmentDeviation e cl)" and "\<And>cl. P (warehouseMerge e cl)" and "\<And>cl. P (stocktakeVariance e cl)"
    and "\<And>cl. P (productionVariance e cl)" and "\<And>cl. P (financialCorrection e cl)"
  shows "P (f cl)"
  using assms(1) by (auto simp: approval_effects_def supply_effects_def operations_effects_def assms)

lemma effect_frames_approvals: "(key, f) \<in> set (approval_effects e) \<Longrightarrow> frames approvals (f cl)"
  by (erule approval_effects_all)
    (simp_all add: frames_executeEffect frames_userRoleChange frames_warehouseTransfer frames_shipmentDeviation
      frames_warehouseMerge frames_stocktakeVariance frames_productionVariance frames_financialCorrection)

section \<open>The contract of the registry\<close>

locale effect_registry =
  fixes reg :: effects and I :: "db \<Rightarrow> bool"
  assumes effect_keeps: "(key, f) \<in> set reg \<Longrightarrow> keeps I (f cl)"
    and approvals_free: "I (approvals_update f1 s) = I s"
    and challenges_free: "I (challenges_update f2 s) = I s"
    and audit_free: "I (audit_logs_update f3 s) = I s"
    and outbox_free: "I (outbox_messages_update f4 s) = I s"
begin

lemma run_keeps: "keeps I (runEffect reg key cl)"
  by (auto simp: runEffect_def keeps_throw split: sum.split dest!: resolve_effect_mem intro: effect_keeps)

lemma binding_frames: "frames v (approvalBinding reg i a decision)"
  unfolding approvalBinding_def by (intro frame_rules)

lemma row_frames: "frames v (approvalRow i)"
  unfolding approvalRow_def by (intro frame_rules)

lemma step_up_frames: "frames I (stepUpDecision c body i b digest)"
  unfolding stepUpDecision_def consumeStepUpClaim_def by (intro frame_rules frames_update challenges_free)

lemma decision_keeps: "keeps I (decideApproval reg c raw)"
  unfolding decideApproval_def
  by (intro keep_rules run_keeps keeps_frames [OF row_frames] keeps_frames [OF binding_frames] keeps_frames [OF step_up_frames]
      keeps_frames [OF frames_jsonObject] keeps_frames [OF frames_integer] keeps_frames [OF frames_oneOf]
      keeps_frames [OF frames_optionalString] keeps_frames [OF frames_requireRole] keeps_frames [OF frames_update]
      keeps_frames [OF frames_audit] keeps_frames [OF frames_domainEvent] approvals_free audit_free outbox_free)

text \<open>The same for the whole command, whatever the network does to its transaction.\<close>

lemma transaction_keeps: "I s \<Longrightarrow> transaction fs (decideApproval reg c raw) s = (r, s') \<Longrightarrow> I s'"
  by (rule tx.preserves_invariant [OF keepsD [OF decision_keeps]])

end

section \<open>One decision per approval\<close>

definition decision_by :: "cctx \<Rightarrow> approval \<Rightarrow> bool" where
  "decision_by c a \<longleftrightarrow> ap_requested_by a \<noteq> a_user (c_access c) \<and> hasRole (c_access c) (requiredRoles (ap_workflow a))"

text \<open>The step-up of a high-risk decision: one live claim of this session for this approval and this decision.\<close>

definition stepped_up :: "cctx \<Rightarrow> int \<Rightarrow> string \<Rightarrow> string \<Rightarrow> db \<Rightarrow> bool" where
  "stepped_up c i decision comment s \<longleftrightarrow> (\<exists>cl. cl_user cl = a_user (c_access c) \<and> a_session (c_access c) = Some (cl_session cl) \<and>
     cl_object_id cl = show_int i \<and> cl_digest cl = sha256 (c_env c) (canonicalJson (final_payload i decision comment)) \<and>
     matched (challenges s) (\<lambda>_. claim_matches (js_now (c_env c)) cl) = 1)"

lemma wp_stepUpDecisionI [wp_intros]:
  assumes "\<And>f cl. cl_user cl = a_user (c_access c) \<Longrightarrow> a_session (c_access c) = Some (cl_session cl) \<Longrightarrow>
      cl_object_id cl = show_int i \<Longrightarrow> cl_digest cl = digest \<Longrightarrow>
      matched (challenges s) (\<lambda>_. claim_matches (js_now (c_env c)) cl) = 1 \<Longrightarrow> Q () (challenges_update f s)"
  shows "wp (stepUpDecision c body i b digest) Q s"
  unfolding stepUpDecision_def consumeStepUpClaim_def by (intro wp_intros assms) simp_all

lemma wp_approvalBindingI [wp_intros]: "(\<And>b. Q b s) \<Longrightarrow> wp (approvalBinding reg i a decision) Q s"
  unfolding approvalBinding_def by (intro wp_intros)

lemma wp_approvalRowI [wp_intros]: "(\<And>a. fetch (approvals s) i = Some a \<Longrightarrow> Q a s) \<Longrightarrow> wp (approvalRow i) Q s"
  unfolding approvalRow_def by (intro wp_intros)

lemma wp_runEffectI:
  assumes "\<And>r s'. approvals s' = approvals s \<Longrightarrow> Q r s'"
  shows "wp (runEffect (approval_effects e) key cl) Q s"
proof (cases "resolve_effect (approval_effects e) key")
  case (Inl err)
  then show ?thesis by (simp add: runEffect_def wp_throw)
next
  case (Inr f)
  have "frames approvals (f cl)" using resolve_effect_mem [OF Inr] by (rule effect_frames_approvals)
  then have "wp (f cl) Q s" by (auto intro!: wpI assms dest: framesD)
  then show ?thesis by (simp add: runEffect_def Inr)
qed

lemma wp_decideApproval:
  assumes Q: "\<And>body i d t a r s'. raw = JObj body \<Longrightarrow> to_safe_integer (fld body ''id'') = Some i \<Longrightarrow>
      d \<in> {''approved'', ''rejected''} \<Longrightarrow> fetch (approvals s) i = Some a \<Longrightarrow> ap_status a = ''pending'' \<Longrightarrow>
      decision_by c a \<Longrightarrow> (ap_high_risk a \<Longrightarrow> stepped_up c i d t s) \<Longrightarrow>
      approvals s' = updateT (\<lambda>j x. j = i \<and> ap_status x = ''pending'') (decided (c_env c) (a_user (c_access c)) d t) (approvals s) \<Longrightarrow>
      Q r s'"
  shows "wp (decideApproval (approval_effects e) c raw) Q s"
  unfolding decideApproval_def
  by (intro wp_intros wp_runEffectI; rule Q) (auto simp: decision_by_def stepped_up_def)

text \<open>
  C3. An approval is decided at most once, and never by its requester: a successful decision is taken on a pending
  request by somebody else holding a required role, a high-risk one with a live step-up claim of the session for
  exactly this decision; it settles this request, touches no other one, and the same request sent again by anybody
  fails.
\<close>

theorem approval_decided_once:
  assumes "decideApproval (approval_effects e) c raw s = Inr (r, s')"
  shows "\<exists>i d t a. fetch (approvals s) i = Some a \<and> ap_status a = ''pending'' \<and> decision_by c a \<and>
      (ap_high_risk a \<longrightarrow> stepped_up c i d t s) \<and> d \<in> {''approved'', ''rejected''} \<and>
      fetch (approvals s') i = Some (decided (c_env c) (a_user (c_access c)) d t a) \<and>
      (\<forall>j. j \<noteq> i \<longrightarrow> fetch (approvals s') j = fetch (approvals s) j) \<and>
      (\<forall>c'. \<exists>err. decideApproval (approval_effects e) c' raw s' = Inl err)"
proof -
  from assms obtain body i d t a where raw: "raw = JObj body" "to_safe_integer (fld body ''id'') = Some i"
    and a: "fetch (approvals s) i = Some a" "ap_status a = ''pending''" and who: "decision_by c a"
    and up: "ap_high_risk a \<longrightarrow> stepped_up c i d t s" and d: "d \<in> {''approved'', ''rejected''}"
    and s': "approvals s' = updateT (\<lambda>j x. j = i \<and> ap_status x = ''pending'')
      (decided (c_env c) (a_user (c_access c)) d t) (approvals s)"
    using wpD [OF wp_decideApproval [where Q = "\<lambda>r s'. \<exists>body i d t a. raw = JObj body \<and>
        to_safe_integer (fld body ''id'') = Some i \<and> d \<in> {''approved'', ''rejected''} \<and>
        fetch (approvals s) i = Some a \<and> ap_status a = ''pending'' \<and> decision_by c a \<and>
        (ap_high_risk a \<longrightarrow> stepped_up c i d t s) \<and>
        approvals s' = updateT (\<lambda>j x. j = i \<and> ap_status x = ''pending'')
          (decided (c_env c) (a_user (c_access c)) d t) (approvals s)"] assms] by blast
  have now: "fetch (approvals s') i = Some (decided (c_env c) (a_user (c_access c)) d t a)"
    by (simp add: s' fetch_updateT a)
  have rest: "fetch (approvals s') j = fetch (approvals s) j" if "j \<noteq> i" for j
    using that by (cases "fetch (approvals s) j") (simp_all add: s' fetch_updateT)
  have again: "\<exists>err. decideApproval (approval_effects e) c' raw s' = Inl err" for c'
  proof (cases "decideApproval (approval_effects e) c' raw s'")
    case (Inr p)
    obtain r' s2 where p: "p = (r', s2)" by (cases p)
    have "wp (decideApproval (approval_effects e) c' raw) (\<lambda>_ _. \<exists>a'. fetch (approvals s') i = Some a' \<and> ap_status a' = ''pending'') s'"
      by (rule wp_decideApproval) (use raw in auto)
    from wpD [OF this Inr [unfolded p]] have "\<exists>a'. fetch (approvals s') i = Some a' \<and> ap_status a' = ''pending''" .
    then have False using now d by (auto simp: decided_def)
    then show ?thesis ..
  qed blast
  from a who up d now rest again show ?thesis by blast
qed

text \<open>A transfer waiting for its high-risk decision, with the verified step-up of the reviewer's session.\<close>

definition review_db :: db where
  "review_db = (stock_db ''pending_supply_chain'')\<lparr>
     approvals := insertT \<lparr>ap_request_no = ''AP-1'', ap_workflow = ''warehouse_transfer'',
       ap_entity_type = ''inventory_transfer'', ap_entity_id = 1, ap_summary = ''transfer'', ap_payload = JObj [], ap_high_risk = True,
       ap_status = ''pending'', ap_requested_by = 2, ap_reviewed_by = None, ap_review_comment = None, ap_sms_verified = False,
       ap_updated_at = 1\<rparr> emptyT,
     challenges := insertT \<lparr>ch_no = ''CH-1'', ch_user = 1, ch_purpose = ''high_risk'', ch_session = Some 1,
       ch_action = Some ''review'', ch_object_type = Some ''approval'', ch_object_id = Some ''1'', ch_object_version = Some 1,
       ch_digest = Some (canonicalJson (final_payload 1 ''approved'' [])), ch_verified_at = Some ''2025-01-01T00:00:00.000Z'',
       ch_consumed_at = None, ch_expires_at = ''2025-01-01T00:10:00.000Z''\<rparr> emptyT\<rparr>"

abbreviation sample_decision :: "(string \<times> json) list" where
  "sample_decision \<equiv> [(''id'', jint 1), (''decision'', JStr ''approved''), (''challengeNo'', JStr ''CH-1'')]"

lemma approval_decided_once_witness:
  "\<exists>r s'. decideApproval (approval_effects sample_env) sample_ctx (JObj sample_decision) review_db = Inr (r, s') \<and>
    \<not> succeeds (decideApproval (approval_effects sample_env) sample_ctx (JObj sample_decision) s')"
proof -
  have "succeeds (decideApproval (approval_effects sample_env) sample_ctx (JObj sample_decision) review_db)" by code_simp
  then obtain r s' where r: "decideApproval (approval_effects sample_env) sample_ctx (JObj sample_decision) review_db = Inr (r, s')"
    by (rule succeedsE)
  from approval_decided_once [OF r]
  obtain err where "decideApproval (approval_effects sample_env) sample_ctx (JObj sample_decision) s' = Inl err" by blast
  with r show ?thesis by (auto simp: succeeds_def)
qed

section \<open>Identifiers as text\<close>

text \<open>A claim carries the id of its approval as text; the effects read it back in two ways.\<close>

lemma string_digits:
  assumes t: "list_all is_digit t" and "t \<noteq> []" and "int (read_nat t) \<le> 9007199254740991"
  shows "string_to_number t = Some (of_nat (read_nat t))"
proof -
  obtain c r where cr: "t = c # r" using assms(2) by (cases t) auto
  have hd: "hd r \<notin> set ''xXoObB''" if "r \<noteq> []" using that t digit_chars by (cases r) (auto simp: cr)
  have "to_double (of_int (int (read_nat t))) = Some (of_int (int (read_nat t)))"
    by (rule to_double_safe) (simp only: safe_integer_of_int, use assms(3) in simp)
  then have "to_double (of_nat (read_nat t)) = Some (of_nat (read_nat t))" by simp
  then have read: "Option.bind (unsigned_decimal (c # r)) to_double = Some (of_nat (read_nat t))"
    by (simp only: unsigned_digits [OF t assms(2), unfolded cr] cr Option.bind.simps)
  have sign: "c \<noteq> CHR ''+''" "c \<noteq> CHR ''-''" using t digit_chars [of c] by (simp_all add: cr)
  have "r = [] \<or> hd r \<notin> set ''xX'' \<and> hd r \<notin> set ''oO'' \<and> hd r \<notin> set ''bB''" using hd by auto
  then have "string_to_number t = Option.bind (unsigned_decimal (c # r)) to_double"
    unfolding string_to_number_def trim_digits [OF t] unfolding cr list.case using sign by (elim disjE) simp_all
  then show ?thesis by (simp only: read)
qed

lemma safe_text_id: "0 \<le> i \<Longrightarrow> i \<le> 9007199254740991 \<Longrightarrow> to_safe_integer (Some (JStr (show_int i))) = Some i"
proof -
  assume i: "0 \<le> i" "i \<le> 9007199254740991"
  have "string_to_number (show_nat (nat i)) = Some (of_nat (read_nat (show_nat (nat i))))"
    by (rule string_digits [OF show_nat_digits show_nat_nonempty]) (use i in \<open>simp add: read_show_nat\<close>)
  then have "string_to_number (show_int i) = Some (of_int i)" using i by (simp add: show_int_def read_show_nat)
  then show ?thesis using i by (simp add: to_safe_integer_def to_number_def)
qed

lemma show_nat_first: "0 < n \<Longrightarrow> hd (show_nat n) \<noteq> CHR ''0''"
proof (induction n rule: show_nat.induct)
  case (1 n)
  show ?case
  proof (cases "n < 10")
    case True
    have "digit_char n \<noteq> digit_char 0"
    proof
      assume "digit_char n = digit_char 0"
      then have "digit_val (digit_char n) = digit_val (digit_char 0)" by simp
      with 1(2) True show False by (simp add: digit_val_digit_char)
    qed
    moreover have "digit_char 0 = CHR ''0''" by code_simp
    ultimately show ?thesis using True by (simp only: show_nat.simps [of n] if_True list.sel) simp
  next
    case False
    then show ?thesis using 1(1) show_nat_nonempty by (simp add: show_nat.simps [of n])
  qed
qed

text \<open>
  C29. The approval that was decided is the approval its effect works on: the id that a claim carries as text is
  read back exactly, by the effects of the operations modules and by those of the procurement module.
\<close>

theorem approval_id_roundtrip:
  assumes "1 \<le> i" and "i \<le> 9007199254740991"
  shows "effectApproval (decision_claim c body i b digest) s = approvalRow i s \<and>
      object_id_ok (cl_object_id (decision_claim c body i b digest)) \<and>
      int (read_nat (cl_object_id (decision_claim c body i b digest))) = i"
proof -
  let ?cl = "decision_claim c body i b digest"
  have oid: "cl_object_id ?cl = show_int i" by (simp add: decision_claim_def)
  have digits: "show_int i = show_nat (nat i)" using assms by (simp add: show_int_def)
  have "int (read_nat (cl_object_id ?cl)) = i" using assms by (simp add: oid digits read_show_nat)
  moreover have "object_id_ok (cl_object_id ?cl)"
    using assms show_nat_first [of "nat i"] by (simp add: oid digits object_id_ok_def show_nat_nonempty show_nat_digits)
  moreover have "effectApproval ?cl s = approvalRow i s"
    using safe_text_id [of i] assms by (simp add: effectApproval_def approvalRow_def oid integer_def bindC_def returnC_def)
  ultimately show ?thesis by simp
qed

lemma approval_id_roundtrip_witness:
  "effectApproval (decision_claim sample_ctx [] 1 \<lparr>bd_key = ''k'', bd_action = ''approved'', bd_object_type = ''approval'',
      bd_version = 1, bd_step_up = ''review''\<rparr> ''d'') review_db = approvalRow 1 review_db \<and> succeeds (approvalRow 1 review_db)"
  using approval_id_roundtrip [of 1 sample_ctx "[]" "\<lparr>bd_key = ''k'', bd_action = ''approved'', bd_object_type = ''approval'',
      bd_version = 1, bd_step_up = ''review''\<rparr>" "''d''" review_db]
  by (simp add: approvalRow_def bindC_def queryC_def review_db_def fetch_insertT run_require succeeds_def)

section \<open>The registry of the code keeps the invariants of the components\<close>

definition money_tables :: "db \<Rightarrow> _" where
  "money_tables s = (payment_requests s, payments s, invoice_exceptions s, invoice_allocations s, invoices s)"

lemma finance_inv_view: "money_tables s' = money_tables s \<Longrightarrow> finance_inv s' = finance_inv s"
  by (simp add: money_tables_def finance_inv_def)

lemma correction_keeps: "keeps finance_inv (financialCorrection e cl)"
  by (rule keepsI, rule wp_financialCorrection) simp_all

lemma finance_effects: "(key, f) \<in> set (approval_effects e) \<Longrightarrow> keeps finance_inv (f cl)"
  by (erule approval_effects_all; (rule correction_keeps | rule keeps_view [where v = money_tables, OF _ finance_inv_view],
      rule frames_executeEffect frames_userRoleChange frames_warehouseTransfer frames_shipmentDeviation frames_warehouseMerge
        frames_stocktakeVariance frames_productionVariance))
    (simp_all add: money_tables_def)

interpretation money: effect_registry "approval_effects e" finance_inv
  by unfold_locales (simp_all add: finance_effects finance_inv_def)

definition return_tables :: "db \<Rightarrow> _" where
  "return_tables s = (returns s, dispositions s)"

lemma returns_inv_view: "return_tables s' = return_tables s \<Longrightarrow> returns_inv s' = returns_inv s"
  by (simp add: return_tables_def cong: returns_inv_cong)

lemma return_effects: "(key, f) \<in> set (approval_effects e) \<Longrightarrow> keeps returns_inv (f cl)"
  by (erule approval_effects_all; rule keeps_view [where v = return_tables, OF _ returns_inv_view],
      rule frames_executeEffect frames_userRoleChange frames_warehouseTransfer frames_shipmentDeviation frames_warehouseMerge
        frames_stocktakeVariance frames_productionVariance frames_financialCorrection)
    (simp_all add: return_tables_def)

interpretation quarantine: effect_registry "approval_effects e" returns_inv
  by unfold_locales (simp_all add: return_effects returns_inv_def disposed_def)

lemma transfer_keeps: "keeps transfers_ok (warehouseTransfer e cl)"
  unfolding warehouseTransfer_def
  by (rule keepsI) (intro wp_intros, auto simp: transfers_ok_def fetch_updateT Let_def split: if_splits)

lemma transfer_effects: "(key, f) \<in> set (approval_effects e) \<Longrightarrow> keeps transfers_ok (f cl)"
  by (erule approval_effects_all; (rule transfer_keeps | rule keeps_frames,
      rule frames_executeEffect frames_userRoleChange frames_shipmentDeviation frames_warehouseMerge
        frames_stocktakeVariance frames_productionVariance frames_financialCorrection))
    (simp_all add: transfers_ok_def)

interpretation transport: effect_registry "approval_effects e" transfers_ok
  by unfold_locales (simp_all add: transfer_effects transfers_ok_def)

lemma shipment_keeps: "keeps deliveries_ok (shipmentDeviation e cl)"
  unfolding shipmentDeviation_def
  by (rule keepsI) (intro wp_intros, auto simp: deliveries_ok_def Let_def)

lemma shipment_effects: "(key, f) \<in> set (approval_effects e) \<Longrightarrow> keeps deliveries_ok (f cl)"
  by (erule approval_effects_all; (rule shipment_keeps | rule keeps_frames,
      rule frames_executeEffect frames_userRoleChange frames_warehouseTransfer frames_warehouseMerge
        frames_stocktakeVariance frames_productionVariance frames_financialCorrection))
    (simp_all add: deliveries_ok_def)

interpretation shipping: effect_registry "approval_effects e" deliveries_ok
  by unfold_locales (simp_all add: shipment_effects deliveries_ok_def)

end
