(* ===== verification/Procurement.thy ===== *)
theory Procurement
  imports Decisions "HOL-Library.Multiset"
begin

text \<open>
  What the procurement commands promise. \<open>procurement_ok\<close> is the type of the procurement tables (statuses of the
  enumerations, positive versions and quantities) with the ledger of the plans: the ordered quantity of a plan
  item is the sum of its allocations to order lines. Every command of \<open>purchase-plans/writes.ts\<close> and
  \<open>purchase-orders/writes.ts\<close> keeps it, and so does deciding any approval.
\<close>

section \<open>The invariant\<close>

definition plan_states :: "string list" where
  "plan_states = [''draft'', ''pending_approval'', ''awaiting_factory_confirmation'', ''confirmed'', ''disputed'', ''ordering'',
     ''ordered_complete'']"

definition order_states :: "string list" where
  "order_states = [''pending_approval'', ''factory_confirmation'', ''confirmed'', ''disputed'', ''approval_rejected'']"

definition completion_states :: "string list" where
  "completion_states = [''not_ordered'', ''within_tolerance'', ''over_plan_pending'', ''under_plan_pending'', ''exception_approved'']"

definition allocated_to :: "plan_link tbl \<Rightarrow> int \<Rightarrow> int" where
  "allocated_to t i = sumT (\<lambda>k. if pl_item k = i then pl_allocated k else 0) t"

definition item_ok :: "plan_link tbl \<Rightarrow> int \<Rightarrow> plan_item \<Rightarrow> bool" where
  "item_ok ls i p \<longleftrightarrow> 1 \<le> pi_planned p \<and> pi_completion p \<in> set completion_states \<and> pi_ordered p = allocated_to ls i"

definition link_ok :: "plan_item tbl \<Rightarrow> plan_link \<Rightarrow> bool" where
  "link_ok t k \<longleftrightarrow> 1 \<le> pl_allocated k \<and> pl_item k < nxt t"

definition allocations_ok :: "plan_item tbl \<Rightarrow> plan_link tbl \<Rightarrow> bool" where
  "allocations_ok t ls \<longleftrightarrow> each_key (item_ok ls) t \<and> each_row (link_ok t) ls"

definition plan_ok :: "purchase_plan \<Rightarrow> bool" where
  "plan_ok p \<longleftrightarrow> pn_status p \<in> set plan_states \<and> 1 \<le> pn_version p"

definition order_ok :: "purchase_order \<Rightarrow> bool" where
  "order_ok x \<longleftrightarrow> po_status x \<in> set order_states"

definition procurement_ok :: "db \<Rightarrow> bool" where
  "procurement_ok s \<longleftrightarrow> each_row plan_ok (purchase_plans s) \<and> each_row order_ok (purchase_orders s) \<and>
     allocations_ok (plan_items s) (plan_links s)"

definition procurement_tables :: "db \<Rightarrow> _" where
  "procurement_tables s = (purchase_plans s, purchase_orders s, plan_items s, plan_links s)"

lemma procurement_view: "procurement_tables s' = procurement_tables s \<Longrightarrow> procurement_ok s' = procurement_ok s"
  by (simp add: procurement_ok_def procurement_tables_def)

lemma keeps_other: "frames procurement_tables m \<Longrightarrow> keeps procurement_ok m"
  by (erule keeps_view) (rule procurement_view)

lemma procurement_okD:
  assumes "procurement_ok s"
  shows "wf_tbl (purchase_plans s)" and "wf_tbl (plan_items s)" and "wf_tbl (plan_links s)"
    and "fetch (purchase_plans s) i = Some p \<Longrightarrow> plan_ok p"
    and "fetch (plan_items s) j = Some x \<Longrightarrow> item_ok (plan_links s) j x"
  using assms by (auto simp: procurement_ok_def allocations_ok_def intro: each_row_wf each_key_wf dest: each_rowD each_keyD)

section \<open>Rows of the ledger\<close>

lemma allocated_to_insert: "allocated_to (insertT k t) i = allocated_to t i + (if pl_item k = i then pl_allocated k else 0)"
  by (simp add: allocated_to_def)

lemma allocated_to_fresh: "allocations_ok t ls \<Longrightarrow> allocated_to ls (nxt t) = 0"
proof -
  assume "allocations_ok t ls"
  then have zero: "map (\<lambda>(i, k). if pl_item k = nxt t then pl_allocated k else 0) (rows ls) = map (\<lambda>_. 0) (rows ls)"
    by (auto simp: allocations_ok_def each_row_def link_ok_def)
  show ?thesis unfolding allocated_to_def sumT_def zero by simp
qed

lemma allocations_item:
  assumes "allocations_ok t ls" and "1 \<le> pi_planned p" and "pi_ordered p = 0" and "pi_completion p \<in> set completion_states"
  shows "allocations_ok (insertT p t) ls"
proof -
  have "each_key (item_ok ls) (insertT p t)"
    using assms allocated_to_fresh [OF assms(1)] by (intro each_key_insert) (auto simp: allocations_ok_def item_ok_def)
  moreover have "each_row (link_ok (insertT p t)) ls"
    using assms(1) by (fastforce simp: allocations_ok_def each_row_def link_ok_def)
  ultimately show ?thesis by (simp add: allocations_ok_def)
qed

lemma link_ok_update: "link_ok (updateT c f t) = link_ok t"
  by (auto simp: link_ok_def)

lemma allocations_update:
  assumes "allocations_ok t ls" and "\<And>j p. c j p \<Longrightarrow> pi_planned (f p) = pi_planned p \<and> pi_ordered (f p) = pi_ordered p \<and>
      (pi_completion p \<in> set completion_states \<longrightarrow> pi_completion (f p) \<in> set completion_states)"
  shows "allocations_ok (updateT c f t) ls"
  using assms by (auto simp: allocations_ok_def link_ok_update item_ok_def intro!: each_key_update)

lemma allocations_line:
  assumes ok: "allocations_ok t ls" and x: "fetch t i = Some x" and k: "pl_item k = i" "pl_allocated k = n" "1 \<le> n"
    and m: "pi_ordered x + n = m" and c: "c i x" and st: "st \<in> set completion_states"
  shows "allocations_ok (updateT (\<lambda>j r. j = i \<and> c j r) (\<lambda>r. r\<lparr>pi_ordered := m, pi_completion := st\<rparr>) t) (insertT k ls)"
proof -
  let ?t = "updateT (\<lambda>j r. j = i \<and> c j r) (\<lambda>r. r\<lparr>pi_ordered := m, pi_completion := st\<rparr>) t"
  have "item_ok (insertT k ls) j r" if "fetch ?t j = Some r" for j r
  proof (cases "j = i")
    case True
    with x c that have "r = x\<lparr>pi_ordered := m, pi_completion := st\<rparr>" by (simp add: fetch_updateT)
    with ok x k m st True show ?thesis
      by (auto simp: allocations_ok_def item_ok_def allocated_to_insert dest!: each_keyD)
  next
    case False
    with that have "fetch t j = Some r" by (auto simp: fetch_updateT)
    with ok k False show ?thesis by (auto simp: allocations_ok_def item_ok_def allocated_to_insert dest!: each_keyD)
  qed
  moreover have "wf_tbl ?t" using ok by (auto simp: allocations_ok_def intro: each_key_wf wf_updateT)
  moreover have "i < nxt t" using ok x by (auto simp: allocations_ok_def dest: each_key_wf fetch_pos)
  then have "each_row (link_ok ?t) (insertT k ls)"
    using ok k by (intro each_row_insert) (auto simp: allocations_ok_def link_ok_update, auto simp: link_ok_def)
  ultimately show ?thesis by (simp add: allocations_ok_def each_key_def)
qed

section \<open>Writes that keep it\<close>

lemma keeps_plan_update:
  "(\<And>p. pn_status (f p) \<in> set plan_states \<and> pn_version (f p) = pn_version p) \<Longrightarrow>
    keeps procurement_ok (updateC purchase_plans purchase_plans_update ok_plan c f)"
  by (rule keepsI, rule wp_updateI) (auto simp: procurement_ok_def plan_ok_def)

lemma keeps_order_update:
  "(\<And>x. po_status (f x) \<in> set order_states) \<Longrightarrow>
    keeps procurement_ok (updateC purchase_orders purchase_orders_update ok_order c f)"
  by (rule keepsI, rule wp_updateI) (auto simp: procurement_ok_def order_ok_def)

lemma keeps_item_update:
  "(\<And>j p. c j p \<Longrightarrow> pi_planned (f p) = pi_planned p \<and> pi_ordered (f p) = pi_ordered p \<and>
      (pi_completion p \<in> set completion_states \<longrightarrow> pi_completion (f p) \<in> set completion_states)) \<Longrightarrow>
    keeps procurement_ok (updateC plan_items plan_items_update ok_plan_item c f)"
  by (rule keepsI, rule wp_updateI) (auto simp: procurement_ok_def intro!: allocations_update)

lemma keeps_plan_insert:
  "plan_ok p \<Longrightarrow> keeps procurement_ok (insertC purchase_plans purchase_plans_update ok_plan p)"
  by (rule keepsI, rule wp_insertI) (auto simp: procurement_ok_def)

lemma keeps_order_insert:
  "order_ok x \<Longrightarrow> keeps procurement_ok (insertC purchase_orders purchase_orders_update ok_order x)"
  by (rule keepsI, rule wp_insertI) (auto simp: procurement_ok_def)

lemma keeps_item_insert:
  "1 \<le> pi_planned p \<Longrightarrow> pi_ordered p = 0 \<Longrightarrow> pi_completion p \<in> set completion_states \<Longrightarrow>
    keeps procurement_ok (insertC plan_items plan_items_update ok_plan_item p)"
  by (rule keepsI, rule wp_insertI) (auto simp: procurement_ok_def intro!: allocations_item)

text \<open>A command whose result the rest relies on.\<close>

lemma keeps_bind_with:
  "(\<And>s. I s \<Longrightarrow> wp m (\<lambda>x s'. I s' \<and> P x) s) \<Longrightarrow> (\<And>x. P x \<Longrightarrow> keeps I (f x)) \<Longrightarrow> keeps I (bindC m f)"
  by (rule keepsI, rule wp_bindI, rule wp_mono, assumption) (auto dest: keepsD)

lemma keeps_payload_text [keep_rules]:
  "(\<And>t. keeps I (f t)) \<Longrightarrow> keeps I m \<Longrightarrow> keeps I (case x of Some (JStr t) \<Rightarrow> f t | _ \<Rightarrow> m)"
  by (simp split: option.split json.split)

lemma keeps_reads [keep_rules]:
  "keeps I (objectBody raw)" "keeps I (textC v m)" "keeps I (optionalTextC v m)" "keeps I (positiveInteger v message)"
  "keeps I (dateC v)" "keeps I (requireFactoryRole a i)" "keeps I (requireSource a k)" "keeps I (changedOne n message)"
  unfolding changedOne_def by (rule keepsI; intro wp_intros; assumption)+

lemma keeps_records [keep_rules]:
  "keeps procurement_ok (createApproval c w ety i h k p summary)" "keeps procurement_ok (createReminder t ety i no due)"
  "keeps procurement_ok (supplyEvent c t eid ety k r d)" "keeps procurement_ok (approvalNotification c j k ety eid w)"
  "keeps procurement_ok (audit c act area eid ety x b a)"
  by (rule keepsI; intro wp_intros; simp add: procurement_ok_def)+

section \<open>Purchase plans\<close>

definition fresh_item :: "plan_item \<Rightarrow> bool" where
  "fresh_item p \<longleftrightarrow> 1 \<le> pi_planned p \<and> pi_ordered p = 0 \<and> pi_completion p = ''not_ordered''"

lemma wp_preparePlanItems:
  "wp (foldC preparePlanItem ([], []) items) (\<lambda>(_, ps) s'. s' = s \<and> list_all fresh_item ps) s"
  by (rule wp_foldI) (auto simp: preparePlanItem_def fresh_item_def intro!: wp_intros)

lemma storePlanItem_keeps: "fresh_item p \<Longrightarrow> keeps procurement_ok (storePlanItem i p)"
  unfolding storePlanItem_def
  by (intro keep_rules keeps_item_insert) (simp_all add: fresh_item_def completion_states_def)

lemma keeps_each_with: "(\<And>x. x \<in> set xs \<Longrightarrow> keeps I (f x)) \<Longrightarrow> keeps I (eachC f xs)"
  by (rule keepsI, rule wp_eachI) (auto dest: keepsD)

lemma storePlanItems_keeps: "list_all fresh_item ps \<Longrightarrow> keeps procurement_ok (eachC (storePlanItem i) ps)"
  by (rule keeps_each_with, rule storePlanItem_keeps) (simp add: list_all_iff)

lemma latest_plan_row: "latest_plan s no = Some (i, p) \<Longrightarrow> (i, p) \<in> set (rows (purchase_plans s)) \<and> pn_no p = no"
proof -
  assume "latest_plan s no = Some (i, p)"
  then have "(i, p) \<in> set (rev (sort_key (\<lambda>(_, p). pn_version p) (select (purchase_plans s) (\<lambda>_ p. pn_no p = no))))"
    unfolding latest_plan_def by (auto simp del: set_rev set_sort split: list.splits)
  then show ?thesis by (auto simp: select_def)
qed

lemma storePlan_keeps: "keeps procurement_ok (storePlan c key body input)"
proof (rule keepsI)
  fix s assume s: "procurement_ok s"
  have version: "1 \<le> pn_version p" if "latest_plan s no = Some (i, p)" for no i p
    using latest_plan_row [OF that] s by (auto simp: procurement_ok_def each_row_def plan_ok_def)
  show "wp (storePlan c key body input) (\<lambda>_. procurement_ok) s"
    unfolding storePlan_def Let_def
  proof (rule wp_bindI [OF wp_requireSourceI], rule wp_bindI [OF wp_queryI], rule wp_bindI, rule wp_mono [OF wp_preparePlanItems],
      goal_cases)
    case (1 out s')
    obtain seen ps where out: "out = (seen, ps)" by (cases out)
    from 1 have fresh: "list_all fresh_item ps" and s': "s' = s" by (simp_all add: out)
    have plan_ok: "plan_ok p" if "pn_status p = (if latest_plan s (pni_no input) \<noteq> None then ''pending_approval''
        else ''awaiting_factory_confirmation'')"
      "pn_version p = (case latest_plan s (pni_no input) of None \<Rightarrow> 1 | Some (_, p) \<Rightarrow> pn_version p + 1)" for p
      using that version [of "pni_no input"] by (fastforce simp: plan_ok_def plan_states_def split: option.splits)
    show ?case
      unfolding s' out prod.case
      by (rule keepsD [where I = procurement_ok, OF _ s], rule keeps_bind [OF keeps_plan_insert], rule plan_ok, simp, simp,
          rule keeps_bind [OF storePlanItems_keeps [OF fresh]]) (intro keep_rules)
  qed
qed

lemma setCompletion_keeps:
  "st \<in> set completion_states \<Longrightarrow> n = pi_ordered p \<Longrightarrow> keeps procurement_ok (setCompletion i p n st message)"
  unfolding setCompletion_def by (intro keep_rules keeps_item_update) auto

lemma setPlanStatus_keeps: "st \<in> set plan_states \<Longrightarrow> keeps procurement_ok (setPlanStatus e i old upd st)"
  unfolding setPlanStatus_def by (intro keep_rules keeps_plan_update) simp

lemma changePlan_keeps: "keeps procurement_ok (changePlan c key body u)"
  unfolding changePlan_def finalizeOrdering_def answerPlan_def closeItem_def Let_def
  by (intro keep_rules setCompletion_keeps setPlanStatus_keeps keeps_plan_update keeps_other [OF frames_insert])
    (simp_all add: completion_states_def plan_states_def procurement_tables_def)

section \<open>Deciding approvals\<close>

lemma acceptDeviation_keeps: "keeps procurement_ok (acceptDeviation result is v)"
  unfolding acceptDeviation_def by (intro keep_rules keeps_item_update) (simp add: completion_states_def)

lemma releaseOrder_keeps: "keeps procurement_ok (releaseOrder e a result)"
  unfolding releaseOrder_def Let_def by (intro keep_rules keeps_order_update) (simp add: order_states_def)

lemma closePlan_keeps: "keeps procurement_ok (closePlan e i)"
  unfolding closePlan_def Let_def by (intro keep_rules keeps_plan_update) (simp add: plan_states_def)

lemma applyPlanDeviation_keeps: "keeps procurement_ok (applyPlanDeviation e a result)"
  unfolding applyPlanDeviation_def
  by (simp split: json.split)
    (intro conjI allI impI keep_rules acceptDeviation_keeps releaseOrder_keeps closePlan_keeps)

lemma plan_approvals_keep:
  "keeps procurement_ok (applyPlanVersion e a result actor)" "keeps procurement_ok (applyPlanException e a result actor)"
  "keeps procurement_ok (applyOrderException e a result)"
  unfolding applyPlanVersion_def applyPlanException_def applyOrderException_def Let_def
  by (intro keep_rules keeps_plan_update keeps_item_update keeps_order_update keeps_other [OF frames_update];
      simp add: plan_states_def order_states_def procurement_tables_def)+

lemma supply_frames:
  "frames procurement_tables (applySupplierOnboarding a result actor)" "frames procurement_tables (applySupplierSku e a result actor)"
  "frames procurement_tables (applySupplierPrice e a result actor)" "frames procurement_tables (applySku a result)"
  "frames procurement_tables (applyBom a result actor)"
  unfolding applySupplierOnboarding_def applySupplierSku_def applySupplierPrice_def retirePrice_def applySku_def applyBom_def
  by (intro frame_rules frames_update frames_insert; simp add: procurement_tables_def)+

lemma applyEffect_keeps: "keeps procurement_ok (applyEffect e type a result actor)"
  unfolding applyEffect_def
  by (intro keep_rules supply_frames [THEN keeps_other] applyPlanDeviation_keeps plan_approvals_keep)

lemma executeEffect_keeps: "keeps procurement_ok (executeEffect e type cl)"
  unfolding executeEffect_def decisionC_def authorizedReviewer_def Let_def
  by (intro keep_rules applyEffect_keeps keeps_other [OF frames_advanceVersion]) (simp_all add: procurement_tables_def)

lemma procurement_effects: "(key, f) \<in> set (approval_effects e) \<Longrightarrow> keeps procurement_ok (f cl)"
  by (erule approval_effects_all, rule executeEffect_keeps; rule keeps_other)
    (simp_all add: procurement_tables_def frames_userRoleChange frames_warehouseTransfer frames_shipmentDeviation
      frames_warehouseMerge frames_stocktakeVariance frames_productionVariance frames_financialCorrection)

interpretation purchasing: effect_registry "approval_effects e" procurement_ok
  by unfold_locales (auto simp: procurement_ok_def intro: procurement_effects)

section \<open>Placing an order\<close>

text \<open>
  A prepared line and the request item it comes from: the plan item and the effective price are those of the
  database, and the cumulative quantity is the ordered one plus that of the line.
\<close>

definition line_for :: "db \<Rightarrow> string \<Rightarrow> (string \<times> json) list \<Rightarrow> order_line \<Rightarrow> bool" where
  "line_for s day item l \<longleftrightarrow> to_safe_integer (fld item ''planItemId'') = Some (ol_item l) \<and>
     to_safe_integer (fld item ''supplierId'') = Some (ol_supplier l) \<and>
     to_safe_integer (fld item ''quantity'') = Some (ol_quantity l) \<and> 1 \<le> ol_quantity l \<and>
     fetch (plan_items s) (ol_item l) = Some (ol_plan_item l) \<and>
     effective_price s (ol_supplier l) (pi_sku (ol_plan_item l)) day = Some (ol_price_id l, ol_price l) \<and>
     ol_cumulative l = pi_ordered (ol_plan_item l) + ol_quantity l \<and>
     ol_rate l = rate_bps (ol_cumulative l) (pi_planned (ol_plan_item l))"

lemma wp_parentPlanI [wp_intros]: "(\<And>ps. Q ps s) \<Longrightarrow> wp (parentPlan plans i) Q s"
  unfolding parentPlan_def lockPlan_def by (intro wp_intros)

lemma wp_checkClientPriceI [wp_intros]: "Q () s \<Longrightarrow> wp (checkClientPrice v n) Q s"
  unfolding checkClientPrice_def by (intro wp_intros)

lemma wp_prepareLine:
  assumes "\<And>ps sn l. line_for s day item l \<Longrightarrow> Q (ps, sn, prepared @ [l]) s"
  shows "wp (prepareLine day (plans, seen, prepared) item) Q s"
  unfolding prepareLine_def prod.case Let_def by (intro wp_intros; rule assms) (auto simp: line_for_def)

lemma wp_prepareLines:
  "wp (foldC (prepareLine day) (plans, seen, prepared) items)
    (\<lambda>(_, _, out) s'. s' = s \<and> (\<exists>ls. out = prepared @ ls \<and> list_all2 (line_for s day) items ls)) s"
proof (induction items arbitrary: plans seen prepared)
  case Nil
  then show ?case by (simp add: wp_return)
next
  case (Cons item items)
  have "wp (foldC (prepareLine day) (ps, sn, prepared @ [l]) items)
      (\<lambda>(_, _, out) s'. s' = s \<and> (\<exists>ls. out = prepared @ ls \<and> list_all2 (line_for s day) (item # items) ls)) s"
    if "line_for s day item l" for ps sn l
    by (rule wp_mono [OF Cons.IH]) (use that in \<open>auto intro!: list_all2_Cons [THEN iffD2]\<close>)
  then show ?case by (auto intro!: wp_bindI wp_prepareLine)
qed

lemma wp_orderInputs:
  assumes "\<And>inputs. mset inputs = mset items \<Longrightarrow> Q inputs s"
  shows "wp (orderInputs items) Q s"
proof -
  have "wp (mapC (\<lambda>item. bindC (positiveInteger (fld item ''planItemId'') ''Positive integer required'') (\<lambda>n. returnC (n, item))) items)
      (\<lambda>keyed s'. s' = s \<and> map snd keyed = items) s"
  proof (induction items)
    case Nil
    then show ?case by (simp add: wp_return)
  next
    case (Cons item items)
    show ?case unfolding mapC.simps
      by (intro wp_bindI wp_positiveIntegerI wp_returnI, rule wp_mono [OF Cons.IH]) (simp add: wp_return)
  qed
  moreover have "mset (map snd (sort_key fst keyed)) = mset items" if "map snd keyed = items" for keyed :: "(int \<times> _) list"
    by (simp flip: that)
  ultimately show ?thesis
    unfolding orderInputs_def by (intro wp_bindI wp_returnI) (erule wp_mono, metis assms wp_returnI)
qed

definition ordered_row :: "int \<Rightarrow> order_line \<Rightarrow> order_item" where
  "ordered_row orderId l = \<lparr>oi_order = orderId, oi_sku = pi_sku (ol_plan_item l), oi_product_name = ol_name l, oi_item_type = ol_type l,
     oi_supplier = Some (ol_supplier l), oi_quantity = ol_quantity l, oi_received = 0, oi_unit_price = pa_included (ol_price l),
     oi_amount = ol_amount l, oi_due_date = Some (ol_due l)\<rparr>"

text \<open>A plan item after the order: raised to the cumulative quantity of its line.\<close>

definition raised :: "order_line list \<Rightarrow> int \<Rightarrow> plan_item \<Rightarrow> plan_item" where
  "raised ls i x = (case find (\<lambda>l. ol_item l = i) ls of None \<Rightarrow> x
     | Some l \<Rightarrow> x\<lparr>pi_ordered := ol_cumulative l, pi_completion := completion_of l\<rparr>)"

lemma raised_Nil: "raised [] i = (\<lambda>x. x)"
  by (rule ext) (simp add: raised_def)

lemma raised_Cons:
  "raised (l # ls) (ol_item l) x = x\<lparr>pi_ordered := ol_cumulative l, pi_completion := completion_of l\<rparr>"
  "i \<noteq> ol_item l \<Longrightarrow> raised (l # ls) i = raised ls i"
  by (auto simp: raised_def)

definition placed :: "int \<Rightarrow> order_line list \<Rightarrow> db \<Rightarrow> db \<Rightarrow> bool" where
  "placed orderId ls s s' \<longleftrightarrow> distinct (map ol_item ls) \<and> purchase_orders s' = purchase_orders s \<and>
     order_items s' = fold insertT (map (ordered_row orderId) ls) (order_items s) \<and>
     (\<forall>i. fetch (plan_items s') i = map_option (raised ls i) (fetch (plan_items s) i)) \<and>
     (\<forall>l \<in> set ls. \<exists>x. fetch (plan_items s) (ol_item l) = Some x \<and> pi_ordered x = pi_ordered (ol_plan_item l))"

lemma wp_storeLine:
  assumes "wf_tbl (plan_items s)"
    and "\<And>x k. fetch (plan_items s) (ol_item l) = Some x \<Longrightarrow> pi_ordered x = pi_ordered (ol_plan_item l) \<Longrightarrow>
      pi_completion x = pi_completion (ol_plan_item l) \<Longrightarrow> pl_item k = ol_item l \<Longrightarrow> pl_allocated k = ol_quantity l \<Longrightarrow>
      Q () (plan_items_update (updateT (\<lambda>j x. j = ol_item l \<and> pi_ordered x = pi_ordered (ol_plan_item l) \<and>
            pi_completion x = pi_completion (ol_plan_item l))
          (\<lambda>x. x\<lparr>pi_ordered := ol_cumulative l, pi_completion := completion_of l\<rparr>))
        (plan_links_update (insertT k) (order_items_update (insertT (ordered_row orderId l)) s)))"
  shows "wp (storeLine c orderId l) Q s"
  unfolding storeLine_def setCompletion_def ordered_row_def [symmetric]
  by (intro wp_intros) (use assms(1) in \<open>auto simp: matched_one intro!: assms(2)\<close>)

text \<open>A line whose plan item an earlier line of the same order raised is refused: its locked row is stale.\<close>

lemma placed_Cons:
  assumes x: "fetch (plan_items s) (ol_item l) = Some x" "pi_ordered x = pi_ordered (ol_plan_item l)"
      "pi_completion x = pi_completion (ol_plan_item l)"
    and s1: "order_items s1 = insertT (ordered_row orderId l) (order_items s)" "purchase_orders s1 = purchase_orders s"
      "plan_items s1 = updateT (\<lambda>j x. j = ol_item l \<and> pi_ordered x = pi_ordered (ol_plan_item l) \<and>
          pi_completion x = pi_completion (ol_plan_item l))
        (\<lambda>x. x\<lparr>pi_ordered := ol_cumulative l, pi_completion := completion_of l\<rparr>) (plan_items s)"
    and l: "ol_cumulative l = pi_ordered (ol_plan_item l) + ol_quantity l" "1 \<le> ol_quantity l"
    and same: "\<And>k. k \<in> set ls \<Longrightarrow> ol_item k = ol_item l \<Longrightarrow> ol_plan_item k = ol_plan_item l"
    and rest: "placed orderId ls s1 s'"
  shows "placed orderId (l # ls) s s'"
proof -
  let ?up = "\<lambda>x. x\<lparr>pi_ordered := ol_cumulative l, pi_completion := completion_of l\<rparr>"
  have s1f: "fetch (plan_items s1) i = (if i = ol_item l then Some (?up x) else fetch (plan_items s) i)" for i
    using x by (cases "fetch (plan_items s) i") (auto simp: s1 fetch_updateT)
  have other: "ol_item k \<noteq> ol_item l" if "k \<in> set ls" for k
  proof
    assume eq: "ol_item k = ol_item l"
    from rest that obtain y where "fetch (plan_items s1) (ol_item k) = Some y" "pi_ordered y = pi_ordered (ol_plan_item k)"
      by (auto simp: placed_def)
    with eq same [OF that eq] l show False by (auto simp: s1f)
  qed
  then have none: "find (\<lambda>k. ol_item k = ol_item l) ls = None" by (auto simp: find_None_iff)
  have "distinct (map ol_item (l # ls))" using rest other by (force simp: placed_def)
  moreover have "order_items s' = fold insertT (map (ordered_row orderId) (l # ls)) (order_items s)"
    and "purchase_orders s' = purchase_orders s" using rest by (simp_all add: placed_def s1)
  moreover have "fetch (plan_items s') i = map_option (raised (l # ls) i) (fetch (plan_items s) i)" for i
    using rest x(1) none by (cases "i = ol_item l") (auto simp: placed_def raised_Cons s1f, simp add: raised_def)
  moreover have "\<exists>y. fetch (plan_items s) (ol_item k) = Some y \<and> pi_ordered y = pi_ordered (ol_plan_item k)"
    if "k \<in> set (l # ls)" for k
  proof (cases "k = l")
    case True
    with x show ?thesis by simp
  next
    case False
    with that have "k \<in> set ls" by simp
    with rest other show ?thesis by (auto simp: placed_def s1f)
  qed
  ultimately show ?thesis unfolding placed_def by blast
qed

lemma wp_storeLines:
  assumes "wf_tbl (plan_items s)"
    and "\<forall>l \<in> set ls. ol_cumulative l = pi_ordered (ol_plan_item l) + ol_quantity l \<and> 1 \<le> ol_quantity l"
    and "\<forall>l \<in> set ls. \<forall>k \<in> set ls. ol_item k = ol_item l \<longrightarrow> ol_plan_item k = ol_plan_item l"
  shows "wp (eachC (storeLine c orderId) ls) (\<lambda>_. placed orderId ls s) s"
  using assms
proof (induction ls arbitrary: s)
  case Nil
  show ?case unfolding eachC.simps by (rule wp_returnI) (simp add: placed_def raised_Nil option.map_ident)
next
  case (Cons l ls)
  have rest: "\<forall>l \<in> set ls. ol_cumulative l = pi_ordered (ol_plan_item l) + ol_quantity l \<and> 1 \<le> ol_quantity l"
    and own: "ol_cumulative l = pi_ordered (ol_plan_item l) + ol_quantity l" "1 \<le> ol_quantity l" using Cons.prems(2) by simp_all
  have same: "\<forall>l \<in> set ls. \<forall>k \<in> set ls. ol_item k = ol_item l \<longrightarrow> ol_plan_item k = ol_plan_item l"
    and first: "\<And>k. k \<in> set ls \<Longrightarrow> ol_item k = ol_item l \<Longrightarrow> ol_plan_item k = ol_plan_item l"
    using Cons.prems(3) by (meson list.set_intros)+
  show ?case unfolding eachC.simps
  proof (rule wp_bindI, rule wp_storeLine [OF Cons.prems(1)], goal_cases)
    case (1 x k)
    let ?t = "updateT (\<lambda>j x. j = ol_item l \<and> pi_ordered x = pi_ordered (ol_plan_item l) \<and> pi_completion x = pi_completion (ol_plan_item l))
        (\<lambda>x. x\<lparr>pi_ordered := ol_cumulative l, pi_completion := completion_of l\<rparr>)"
    let ?s1 = "plan_items_update ?t (plan_links_update (insertT k) (order_items_update (insertT (ordered_row orderId l)) s))"
    have "wp (eachC (storeLine c orderId) ls) (\<lambda>_. placed orderId ls ?s1) ?s1"
      by (rule Cons.IH [OF _ rest same]) (simp add: wf_updateT Cons.prems(1))
    then show ?case
    proof (rule wp_mono)
      fix u s' assume "placed orderId ls ?s1 s'"
      then show "placed orderId (l # ls) s s'"
        by (intro placed_Cons [OF 1(1,2,3) _ _ _ own first]) simp_all
    qed
  qed
qed

lemma storeLine_keeps:
  assumes "ol_cumulative l = pi_ordered (ol_plan_item l) + ol_quantity l" and "1 \<le> ol_quantity l"
  shows "keeps procurement_ok (storeLine c orderId l)"
proof (rule keepsI)
  fix s assume s: "procurement_ok s"
  show "wp (storeLine c orderId l) (\<lambda>_. procurement_ok) s"
  proof (rule wp_storeLine [OF procurement_okD(2) [OF s]], goal_cases)
    case (1 x k)
    have "allocations_ok (plan_items s) (plan_links s)" using s by (simp add: procurement_ok_def)
    from allocations_line [OF this 1(1) 1(4) 1(5) assms(2), of "ol_cumulative l"
        "\<lambda>_ x. pi_ordered x = pi_ordered (ol_plan_item l) \<and> pi_completion x = pi_completion (ol_plan_item l)" "completion_of l"]
    show ?case using s 1 assms(1) by (simp add: procurement_ok_def completion_of_def completion_states_def)
  qed
qed

text \<open>What a successful order leaves behind; the rest of the command does not touch it.\<close>

definition ordered :: "order_input \<Rightarrow> order_line list \<Rightarrow> db \<Rightarrow> db \<Rightarrow> bool" where
  "ordered input ls s s' \<longleftrightarrow> (let orderId = nxt (purchase_orders s) in
     distinct (map ol_item ls) \<and> order_items s' = fold insertT (map (ordered_row orderId) ls) (order_items s) \<and>
     (\<forall>i. fetch (plan_items s') i = map_option (raised ls i) (fetch (plan_items s) i)) \<and>
     (\<exists>x. purchase_orders s' = insertT x (purchase_orders s) \<and> po_no x = poi_no input \<and>
       po_total x = sum_list (map ol_amount ls) \<and>
       po_status x = (if list_ex over_plan ls then ''pending_approval'' else ''factory_confirmation'')))"

lemma advancePlan_keeps: "keeps procurement_ok (advancePlan e plans i)"
  unfolding advancePlan_def by (intro keep_rules setPlanStatus_keeps) (simp add: plan_states_def)

definition order_tables :: "db \<Rightarrow> _" where
  "order_tables s = (purchase_orders s, order_items s, plan_items s)"

lemma ordered_view: "order_tables s2 = order_tables s1 \<Longrightarrow> ordered input ls s s2 = ordered input ls s s1"
  by (simp add: ordered_def order_tables_def)

lemma frames_advancePlan: "frames order_tables (advancePlan e plans i)"
  unfolding advancePlan_def setPlanStatus_def by (intro frame_rules frames_update) (simp add: order_tables_def)

lemma wp_storeOrder:
  assumes s: "procurement_ok s"
  shows "wp (storeOrder c key input) (\<lambda>_ s'. procurement_ok s' \<and>
      (\<exists>items ls. mset items = mset (poi_items input) \<and> list_all2 (line_for s (poi_date input)) items ls \<and> ordered input ls s s')) s"
    (is "wp _ (\<lambda>_. ?Q) s")
  unfolding storeOrder_def Let_def
proof (rule wp_bindI [OF wp_requireSourceI], rule wp_bindI [OF wp_queryI], rule wp_bindI [OF wp_guardI], rule wp_bindI,
    rule wp_orderInputs, rule wp_bindI, rule wp_mono [OF wp_prepareLines], goal_cases)
  case (1 items out s')
  obtain plans seen ls where out: "out = (plans, seen, ls)" by (cases out)
  from 1 have ls: "list_all2 (line_for s (poi_date input)) items ls" and s': "s' = s" by (simp_all add: out)
  have line: "ol_cumulative l = pi_ordered (ol_plan_item l) + ol_quantity l \<and> 1 \<le> ol_quantity l \<and>
      fetch (plan_items s) (ol_item l) = Some (ol_plan_item l)" if "l \<in> set ls" for l
    using ls that by (fastforce simp: list_all2_conv_all_nth in_set_conv_nth line_for_def)
  define x where "x = \<lparr>po_no = poi_no input, po_source_file = poi_source input,
    po_status = (if list_ex over_plan ls then ''pending_approval'' else ''factory_confirmation''),
    po_order_date = Some (poi_date input), po_total = sum_list (map ol_amount ls), po_updated_at = sql_now (c_env c)\<rparr>"
  let ?s1 = "purchase_orders_update (insertT x) s" and ?id = "nxt (purchase_orders s)"
  have s1: "procurement_ok ?s1" using s by (auto simp: procurement_ok_def order_ok_def order_states_def x_def)
  have store: "wp (eachC (storeLine c ?id) ls) (\<lambda>_ s'. procurement_ok s' \<and> placed ?id ls ?s1 s') ?s1"
    unfolding wp_conj
  proof
    show "wp (eachC (storeLine c ?id) ls) (\<lambda>_. procurement_ok) ?s1"
      by (rule keepsD [where I = procurement_ok, OF _ s1], rule keeps_each_with, rule storeLine_keeps) (use line in auto)
    show "wp (eachC (storeLine c ?id) ls) (\<lambda>_. placed ?id ls ?s1) ?s1"
      by (rule wp_storeLines) (use procurement_okD(2) [OF s] in simp, use line in blast,
        use line in \<open>metis option.inject\<close>)
  qed
  have placed: "ordered input ls s s2" if "placed ?id ls ?s1 s2" for s2
    using that by (auto simp: placed_def ordered_def x_def)
  have advance: "wp (eachC (advancePlan (c_env c) plans) ps) (\<lambda>_ s'. procurement_ok s' \<and> ordered input ls s s') s2"
    if "procurement_ok s2" and "ordered input ls s s2" for ps s2
    unfolding wp_conj
    by (rule conjI, rule keepsD [OF keeps_each [OF advancePlan_keeps] that(1)],
        rule wpI, drule framesD [OF frames_each [OF frames_advancePlan]]) (use that(2) ordered_view in blast)
  have placed_all: "mset items = mset (poi_items input)" using 1 by simp
  have finish: "?Q s3" if "procurement_ok s2" "ordered input ls s s2"
      "procurement_tables s3 = procurement_tables s2 \<and> order_tables s3 = order_tables s2" for s2 s3
    using placed_all ls that procurement_view [of s3 s2] ordered_view [of s3 s2 input ls s] by blast
  show ?case
    unfolding s' out prod.case x_def [symmetric]
    by (rule wp_bindI [OF wp_guardI], rule wp_bindI [OF wp_insertI], rule wp_bindI, rule wp_mono [OF store], erule conjE,
        rule wp_bindI, rule wp_mono [OF advance], assumption, erule placed)
      (intro wp_intros; elim conjE; rule finish, assumption, assumption, simp add: procurement_tables_def order_tables_def)
qed

text \<open>
  C4. An order takes what it asks for and nothing else: a successful order has one line per requested item, each
  for a plan item of the database at the effective price of its supplier; the order costs the sum of its lines and
  waits for approval exactly when a line exceeds its plan; every ordered plan item is raised by the quantity of
  its line, every other one is left alone, and no plan item is ordered twice in one order.
\<close>

theorem order_exact:
  assumes "procurement_ok s" and "storeOrder c key input s = Inr (r, s')"
  shows "\<exists>items ls. mset items = mset (poi_items input) \<and> list_all2 (line_for s (poi_date input)) items ls \<and>
    distinct (map ol_item ls) \<and> order_items s' = fold insertT (map (ordered_row (nxt (purchase_orders s))) ls) (order_items s) \<and>
    (\<forall>i. fetch (plan_items s') i = map_option (raised ls i) (fetch (plan_items s) i)) \<and>
    (\<exists>x. purchase_orders s' = insertT x (purchase_orders s) \<and> po_no x = poi_no input \<and>
      po_total x = sum_list (map ol_amount ls) \<and>
      po_status x = (if list_ex over_plan ls then ''pending_approval'' else ''factory_confirmation''))"
  using wpD [OF wp_storeOrder [OF assms(1)] assms(2)] unfolding ordered_def Let_def by blast

section \<open>Every procurement command\<close>

lemma answerOrder_keeps: "keeps procurement_ok (answerOrder c key r)"
  unfolding answerOrder_def Let_def by (intro keep_rules keeps_order_update) (simp add: order_states_def)

lemma storeOrder_keeps: "keeps procurement_ok (storeOrder c key input)"
  by (rule keepsI, rule wp_mono [OF wp_storeOrder]) simp_all

text \<open>A command keeps an invariant that does not look at the idempotency rows, whatever the network does.\<close>

lemma insertPending_keeps: "(\<And>f s. I (idempotency_update f s) = I s) \<Longrightarrow> keeps I (insertPending k d t)"
  by (rule keepsI) (auto simp: insertPending_def wp_def split: option.split)

lemma completeRow_keeps: "(\<And>f s. I (idempotency_update f s) = I s) \<Longrightarrow> keeps I (completeRow k d n x)"
  by (rule keepsI) (auto simp: completeRow_def wp_def split: option.split)

lemma parseReplay_keeps: "keeps I (parseReplay row)"
  by (rule keepsI) (auto simp: parseReplay_def wp_def returnC_def throwC_def split: option.split json.split)

lemma execute_keeps:
  assumes run: "\<And>key digest. keeps I (o_run opt key digest)" and free: "\<And>f s. I (idempotency_update f s) = I s"
    and out: "executeIdempotentCommand f e r opt s = (res, s')" and s: "I s"
  shows "I s'"
proof -
  have body: "keeps I (commandBody e opt key digest)" for key digest
    unfolding commandBody_def Let_def requireWriterFence_def replayOutcome_def resolvedResponseStatus_def
    by (intro keep_rules run insertPending_keeps completeRow_keeps parseReplay_keeps free)
  show ?thesis
  proof (cases rule: execute_cases [of f e r opt s])
    case refused
    with out s show ?thesis by simp
  next
    case (accepted key digest)
    then obtain q where "transaction f (commandBody e opt key digest) s = (q, s')"
      using out by (auto simp: execute_accepted respond_def split: prod.splits sum.splits)
    then show ?thesis by (rule tx.preserves_invariant [OF keepsD [OF body s] s])
  qed
qed

lemma supply_keeps:
  assumes "\<And>key digest. keeps procurement_ok (h key digest)" and "executeSupplyCommand f e r sc cmd raw st h s = (res, s')"
    and "procurement_ok s"
  shows "procurement_ok s'"
  by (rule execute_keeps [where I = procurement_ok, OF _ _ assms(2) [unfolded executeSupplyCommand_def] assms(3)])
    (simp add: assms(1), simp add: procurement_ok_def)

lemma read_then:
  "procurement_ok s \<Longrightarrow> (case x of Inl err \<Rightarrow> (Inl err, s) | Inr (y, z) \<Rightarrow> h y) = (res, s') \<Longrightarrow>
    (\<And>y. h y = (res, s') \<Longrightarrow> procurement_ok s') \<Longrightarrow> procurement_ok s'"
  by (auto split: sum.splits prod.splits)

lemma purchase_commands_keep:
  assumes s: "procurement_ok s"
  shows "createPurchasePlan f c raw s = (res, s') \<Longrightarrow> procurement_ok s'" and "updatePurchasePlan f c raw s = (res, s') \<Longrightarrow> procurement_ok s'"
    and "createPurchaseOrder f c raw s = (res, s') \<Longrightarrow> procurement_ok s'" and "updatePurchaseOrder f c raw s = (res, s') \<Longrightarrow> procurement_ok s'"
proof -
  show "createPurchasePlan f c raw s = (res, s') \<Longrightarrow> procurement_ok s'"
    unfolding createPurchasePlan_def by (erule read_then [OF s]) (erule supply_keeps [OF storePlan_keeps _ s])
  show "createPurchaseOrder f c raw s = (res, s') \<Longrightarrow> procurement_ok s'"
    unfolding createPurchaseOrder_def by (erule read_then [OF s]) (erule supply_keeps [OF storeOrder_keeps _ s])
  show "updatePurchaseOrder f c raw s = (res, s') \<Longrightarrow> procurement_ok s'"
    unfolding updatePurchaseOrder_def by (erule read_then [OF s]) (erule supply_keeps [OF answerOrder_keeps _ s])
  show "updatePurchasePlan f c raw s = (res, s') \<Longrightarrow> procurement_ok s'"
    unfolding updatePurchasePlan_def
    by (erule read_then [OF s], simp only: split_beta) (erule supply_keeps [OF changePlan_keeps _ s])
qed

text \<open>
  C6. The procurement tables stay well typed under every command that writes them, whatever happens to its
  transaction: statuses stay in their enumerations, versions and planned quantities positive, and the ordered quantity of
  each plan item the sum of its allocations to order lines.
\<close>

theorem procurement_typed:
  assumes "procurement_ok s"
    and "s' \<in> snd ` {createPurchasePlan f c raw s, updatePurchasePlan f c raw s, createPurchaseOrder f c raw s,
      updatePurchaseOrder f c raw s} \<union> {snd (transaction f (decideApproval (approval_effects e) c raw) s)}"
  shows "procurement_ok s'"
  using assms(2) purchase_commands_keep [OF assms(1), of f c raw] purchasing.transaction_keeps [OF assms(1), of f e c raw]
  by (auto simp: image_iff) (metis prod.collapse)+

text \<open>
  An order that asks for the same plan item twice, from two suppliers say, is always refused: the second line is checked
  against the plan item as it was before the first one raised it.
\<close>

lemma split_item_refused:
  assumes "procurement_ok s" and "i < j" and "j < length (poi_items input)"
    and "to_safe_integer (fld (poi_items input ! i) ''planItemId'') = to_safe_integer (fld (poi_items input ! j) ''planItemId'')"
  shows "\<exists>err. storeOrder c key input s = Inl err"
proof (cases "storeOrder c key input s")
  case (Inr p)
  obtain r s' where "p = (r, s')" by (cases p)
  with wpD [OF wp_storeOrder [OF assms(1)]] Inr obtain items ls where m: "mset items = mset (poi_items input)"
    and ls: "list_all2 (line_for s (poi_date input)) items ls" and d: "distinct (map ol_item ls)"
    unfolding ordered_def Let_def by blast
  let ?key = "\<lambda>item. to_safe_integer (fld item ''planItemId'')"
  have "map ?key items = map (\<lambda>l. Some (ol_item l)) ls"
    using ls by (induction rule: list_all2_induct) (auto simp: line_for_def)
  also have "\<dots> = map Some (map ol_item ls)" by simp
  finally have "distinct (map ?key items)" using d by (simp add: distinct_map inj_on_def)
  moreover have "mset (map ?key items) = mset (map ?key (poi_items input))" using m by simp
  ultimately have "distinct (map ?key (poi_items input))" by (metis mset_eq_imp_distinct_iff)
  then have "map ?key (poi_items input) ! i \<noteq> map ?key (poi_items input) ! j"
    using assms(2,3) nth_eq_iff_index_eq [of "map ?key (poi_items input)" i j] by simp
  with assms(2-4) show ?thesis by simp
qed simp

section \<open>The properties at a concrete order\<close>

definition order_db :: db where
  "order_db = empty_db\<lparr>
     purchase_plans := insertT \<lparr>pn_no = ''PP-1'', pn_version = 1, pn_source_file = None, pn_status = ''confirmed'', pn_due_at = None,
       pn_confirmed_at = None, pn_created_by = 2, pn_reviewed_by = None, pn_updated_at = ''2025-01-01 00:00:00.000''\<rparr> emptyT,
     plan_items := insertT \<lparr>pi_plan = 1, pi_arrival = ''2025-02-01'', pi_factory = 7, pi_warehouse = 1, pi_sku = ''SKU'',
       pi_product_name = ''P'', pi_bom = 1, pi_planned = 12, pi_ordered = 0, pi_over_bps = 0, pi_under_bps = 0,
       pi_completion = ''not_ordered''\<rparr> emptyT,
     suppliers := insertT \<lparr>su_code = ''S-1'', su_name = ''S'', su_tier = None, su_managed_by = None, su_credit_code = ''C'',
       su_license = None, su_address = [], su_contact = [], su_phone = [], su_scope = [], su_verification = ''approved'',
       su_verified_by = None, su_status = ''active''\<rparr> emptyT,
     supplier_skus := insertT \<lparr>ss_factory = 7, ss_supplier = 1, ss_sku = ''SKU'', ss_primary = True, ss_priority = 1, ss_moq = 1,
       ss_multiple = 1, ss_unit = ''pcs'', ss_lead_days = None, ss_daily = None, ss_monthly = None, ss_from = ''2024-01-01'',
       ss_status = ''active'', ss_requested_by = 2, ss_reviewed_by = None, ss_reviewed_at = None, ss_updated_at = ''2024-01-01''\<rparr> emptyT,
     price_agreements := insertT \<lparr>pa_supplier = 1, pa_sku = ''SKU'', pa_included = 113, pa_excluded = 100, pa_tax_bps = 1300,
       pa_from = ''2024-01-01'', pa_to = None, pa_status = ''active'', pa_maintained_by = 2\<rparr> emptyT\<rparr>"

definition order_line_body :: "int \<Rightarrow> (string \<times> json) list" where
  "order_line_body n = [(''planItemId'', jint 1), (''supplierId'', jint 1), (''quantity'', jint n), (''dueDate'', JStr ''2025-01-20''),
     (''sku'', JStr ''SKU''), (''productName'', JStr ''P''), (''itemType'', JStr ''finished'')]"

definition sample_input :: "int \<Rightarrow> order_input" where
  "sample_input n = \<lparr>poi_no = ''PO-1'', poi_date = ''2025-01-02'', poi_items = [order_line_body n], poi_source = None\<rparr>"

lemma order_db_ok: "procurement_ok order_db"
  by (auto simp: procurement_ok_def order_db_def empty_db_def plan_ok_def plan_states_def allocations_ok_def item_ok_def
      completion_states_def allocated_to_def sumT_def each_row_def each_key_def emptyT_def insertT_def fetch_def wf_tbl_def)

lemma order_exact_witness:
  "\<exists>r s'. storeOrder sample_ctx ''key'' (sample_input 12) order_db = Inr (r, s') \<and>
    (\<exists>x. purchase_orders s' = insertT x (purchase_orders order_db) \<and> po_no x = ''PO-1'')"
proof -
  have "succeeds (storeOrder sample_ctx ''key'' (sample_input 12) order_db)" by code_simp
  then obtain r s' where r: "storeOrder sample_ctx ''key'' (sample_input 12) order_db = Inr (r, s')" by (rule succeedsE)
  from order_exact [OF order_db_ok r] r show ?thesis by (auto simp: sample_input_def)
qed

definition succeeds_pair :: "(error + 'a) \<times> 's \<Rightarrow> bool" where
  "succeeds_pair r = (case fst r of Inl _ \<Rightarrow> False | Inr _ \<Rightarrow> True)"

definition order_command_db :: db where
  "order_command_db = order_db\<lparr>fences := fences fenced_db\<rparr>"

abbreviation sample_order_body :: json where
  "sample_order_body \<equiv> JObj [(''orderNo'', JStr ''PO-1''), (''orderDate'', JStr ''2025-01-02''), (''items'', JArr [JObj (order_line_body 12)])]"

lemma procurement_typed_witness:
  "succeeds_pair (createPurchaseOrder no_faults sample_ctx sample_order_body order_command_db) \<and>
    procurement_ok (snd (createPurchaseOrder no_faults sample_ctx sample_order_body order_command_db))"
proof
  show "succeeds_pair (createPurchaseOrder no_faults sample_ctx sample_order_body order_command_db)" by code_simp
  have "procurement_ok order_command_db"
    using order_db_ok by (simp add: order_command_db_def procurement_ok_def)
  then show "procurement_ok (snd (createPurchaseOrder no_faults sample_ctx sample_order_body order_command_db))"
    by (rule procurement_typed) blast
qed

end
