(* ===== verification/Receipts.thy ===== *)
theory Receipts
  imports Inventory
begin

text \<open>
  \<open>modules/purchase-receipts/writes.ts\<close>: a purchase order item is received once, in full, into
  the warehouse its purchase plan allocates it to. The goods arrive in the pending-inspection
  bucket of a new batch.
\<close>

definition find_item :: "db \<Rightarrow> int \<Rightarrow> int \<Rightarrow> (order_item \<times> purchase_order) option" where
  "find_item s orderItemId purchaseOrderId = (case fetch (order_items s) orderItemId of
       None \<Rightarrow> None
     | Some oi \<Rightarrow> if oi_order oi = purchaseOrderId
         then map_option (\<lambda>po. (oi, po)) (fetch (purchase_orders s) (oi_order oi)) else None)"

definition allocations :: "db \<Rightarrow> int \<Rightarrow> (int \<times> int) list" where
  "allocations s orderItemId = sort (concat (map (\<lambda>(_, l).
     if pl_order_item l = orderItemId
     then (case fetch (plan_items s) (pl_item l) of None \<Rightarrow> [] | Some p \<Rightarrow> [(pi_factory p, pi_warehouse p)])
     else []) (rows (plan_links s))))"

definition receivableItem :: "json option \<Rightarrow> order_item \<times> purchase_order \<Rightarrow> int run" where
  "receivableItem requested item = (case item of (oi, po) \<Rightarrow>
     bindC (guardC (po_status po = ''confirmed'') (conflict ''Purchase order is not in a receivable state'')) (\<lambda>_.
     bindC (guardC (\<not> (oi_received oi < 0 \<or> oi_quantity oi < oi_received oi))
       (conflict ''Purchase order item receipt state is invalid'')) (\<lambda>_.
     let remaining = oi_quantity oi - oi_received oi in
     bindC (guardC (\<not> remaining \<le> 0) (conflict ''Purchase order item is already received'')) (\<lambda>_.
     bindC (if requested = None then returnC remaining else integer requested ''receivedQuantity'' 1) (\<lambda>received.
     bindC (guardC (received = remaining) (bad_request ''Only full-batch receipt is supported'')) (\<lambda>_.
     returnC received))))))"

definition authoritativeWarehouse :: "access \<Rightarrow> int \<Rightarrow> int \<Rightarrow> unit run" where
  "authoritativeWarehouse a orderItemId warehouseId =
     bindC (queryC (\<lambda>s. allocations s orderItemId)) (\<lambda>found.
     bindC (guardC (length (remdups found) \<noteq> 0)
       (conflict ''Purchase order item has no authoritative purchase-plan allocation'')) (\<lambda>_.
     bindC (guardC (length (remdups found) = 1)
       (conflict ''Purchase order item has multiple factory/warehouse allocations'')) (\<lambda>_.
     bindC (guardC (internal a \<or> a_factory a \<noteq> None \<and> a_factory a = Some (fst (hd found)))
       (forbidden ''Forbidden factory binding'')) (\<lambda>_.
     guardC (warehouseId = snd (hd found))
       (conflict ''Receiving warehouse is not the authoritative purchase-plan warehouse'')))))"

definition checkReceivingWarehouse :: "access \<Rightarrow> int \<Rightarrow> string \<Rightarrow> unit run" where
  "checkReceivingWarehouse a warehouseId sku =
     bindC (lockWarehouseFreeze warehouseId) (\<lambda>_.
     bindC (requireWarehouseScope a warehouseId) (\<lambda>w.
     bindC (guardC (w_status w = ''active'') (conflict ''Receiving warehouse is not active'')) (\<lambda>_.
     bindC (freezeExists warehouseId (Some sku)) (\<lambda>isFrozen.
     guardC (\<not> isFrozen) (conflict ''Receiving warehouse is frozen by an active stocktake'')))))"

definition storeReceipt :: "cctx \<Rightarrow> int \<Rightarrow> int \<Rightarrow> int \<Rightarrow> int \<Rightarrow> string \<Rightarrow> string \<Rightarrow> string \<Rightarrow>
    (int \<times> string \<times> int) run" where
  "storeReceipt c purchaseOrderId orderItemId warehouseId received receivedAt orderNo sku =
     bindC (randomUUID (c_env c)) (\<lambda>u.
     bindC (insertC batches batches_update ok_batch
       \<lparr>ib_batch_no = ''RCV-'' @ orderNo @ ''-'' @ show_int orderItemId @ ''-'' @ u,
        ib_warehouse = warehouseId, ib_sku = sku, ib_production_date = None,
        ib_inbound_date = sql_today (c_env c), ib_expiry_date = None, ib_available = 0, ib_locked = 0,
        ib_defective = 0, ib_pending = received, ib_quarantine = 0, ib_ownership = ''company'',
        ib_expiry_status = ''normal''\<rparr>) (\<lambda>batchId.
     bindC (randomUUID (c_env c)) (\<lambda>u2. let receiptNo = ''RC-'' @ u2 in
     bindC (insertC receipts receipts_update ok_receipt
       \<lparr>rc_no = receiptNo, rc_order = purchaseOrderId, rc_order_item = orderItemId,
        rc_warehouse = warehouseId, rc_batch = batchId, rc_quantity = received,
        rc_received_at = receivedAt, rc_received_by = a_user (c_access c)\<rparr>) (\<lambda>receiptId.
     bindC (updateC order_items order_items_update ok_item
       (\<lambda>j r. j = orderItemId \<and> oi_received r + received \<le> oi_quantity r)
       (\<lambda>r. r\<lparr>oi_received := oi_received r + received\<rparr>)) (\<lambda>updated.
     bindC (guardC (updated = 1) (version_conflict ''Purchase order item changed concurrently'')) (\<lambda>_.
     bindC (recordMovement c warehouseId sku ''inbound'' received None
       (''purchase_receipt:'' @ show_int receiptId)) (\<lambda>_.
     returnC (receiptId, receiptNo, batchId))))))))"

definition receivePurchase :: "cctx \<Rightarrow> json \<Rightarrow> json run" where
  "receivePurchase c raw =
     bindC (requireRole (c_access c) [''admin'', ''supply_chain'', ''factory'']) (\<lambda>_.
     bindC (jsonObject raw) (\<lambda>body.
     bindC (integer (fld body ''purchaseOrderId'') ''purchaseOrderId'' 1) (\<lambda>purchaseOrderId.
     bindC (integer (fld body ''orderItemId'') ''orderItemId'' 1) (\<lambda>orderItemId.
     bindC (integer (fld body ''warehouseId'') ''warehouseId'' 1) (\<lambda>warehouseId.
     bindC (optionalString (fld body ''receivedAt'') 2000) (\<lambda>given.
     let receivedAt = (if given = [] then js_now (c_env c) else given) in
     bindC (queryC (\<lambda>s. find_item s orderItemId purchaseOrderId)) (\<lambda>found.
     bindC (requireC found (not_found ''Purchase order item not found'')) (\<lambda>item.
     bindC (receivableItem (fld body ''receivedQuantity'') item) (\<lambda>received.
     bindC (authoritativeWarehouse (c_access c) orderItemId warehouseId) (\<lambda>_.
     bindC (checkReceivingWarehouse (c_access c) warehouseId (oi_sku (fst item))) (\<lambda>_.
     bindC (storeReceipt c purchaseOrderId orderItemId warehouseId received receivedAt
       (po_no (snd item)) (oi_sku (fst item))) (\<lambda>(receiptId, receiptNo, batchId).
     let details = [(''purchaseOrderId'', jint purchaseOrderId), (''orderItemId'', jint orderItemId),
       (''warehouseId'', jint warehouseId), (''batchId'', jint batchId), (''receivedQuantity'', jint received)] in
     bindC (lockVersion ''purchase_receipt'' (show_int receiptId)) (\<lambda>_.
     bindC (audit c ''receive'' ''purchase_receipts'' ''purchase_receipt'' (show_int receiptId)
       (Some receiptNo) None (Some (JObj details))) (\<lambda>_.
     bindC (domainEvent c ''PurchaseOrderItemReceived'' ''purchase_receipt'' (show_int receiptId) None RNone
       details) (\<lambda>_.
     returnC (JObj [(''receipt'', JObj ([(''id'', jint receiptId), (''receiptNo'', JStr receiptNo)] @ details))]))))))))))))))))"

section \<open>Properties\<close>

definition receipt_effect :: "int \<Rightarrow> int \<Rightarrow> order_item \<Rightarrow> db \<Rightarrow> db \<Rightarrow> bool" where
  "receipt_effect orderItemId warehouseId oi s s' \<longleftrightarrow>
     (\<exists>b r. batches s' = insertT b (batches s) \<and> receipts s' = insertT r (receipts s) \<and>
       ib_warehouse b = warehouseId \<and> ib_sku b = oi_sku oi \<and> ib_pending b = oi_quantity oi - oi_received oi \<and>
       ib_available b = 0 \<and> ib_locked b = 0 \<and> ib_defective b = 0 \<and> ib_quarantine b = 0 \<and>
       rc_order_item r = orderItemId \<and> rc_batch r = nxt (batches s) \<and> rc_quantity r = ib_pending b \<and>
       unique_by rc_order_item (receipts s) None r) \<and>
     reservations s' = reservations s \<and> transfers s' = transfers s \<and>
     order_items s' = updateT (\<lambda>j r. j = orderItemId \<and>
         oi_received r + (oi_quantity oi - oi_received oi) \<le> oi_quantity r)
       (\<lambda>r. r\<lparr>oi_received := oi_received r + (oi_quantity oi - oi_received oi)\<rparr>) (order_items s)"

lemma receipt_effect_cong [simp]:
  "receipt_effect i w oi (s\<lparr>versions := vs\<rparr>) s' = receipt_effect i w oi s s'"
  "receipt_effect i w oi s (s'\<lparr>versions := vs\<rparr>) = receipt_effect i w oi s s'"
  "receipt_effect i w oi s (audit_logs_update f s') = receipt_effect i w oi s s'"
  "receipt_effect i w oi s (outbox_messages_update g s') = receipt_effect i w oi s s'"
  by (simp_all add: receipt_effect_def)

lemma wp_storeReceipt:
  assumes "\<And>r s'. received = oi_quantity oi - oi_received oi \<Longrightarrow> sku = oi_sku oi \<Longrightarrow>
      receipt_effect i w oi s s' \<Longrightarrow> Q r s'"
    and "received = oi_quantity oi - oi_received oi" and "sku = oi_sku oi"
  shows "wp (storeReceipt c po i w received receivedAt orderNo sku) Q s"
  unfolding storeReceipt_def
  by (intro wp_intros assms(1) assms(2,3))
    (use assms(2,3) in \<open>auto simp: receipt_effect_def ok_receipt_def intro!: exI\<close>)

definition receivable :: "db \<Rightarrow> access \<Rightarrow> int \<Rightarrow> int \<Rightarrow> order_item \<Rightarrow> bool" where
  "receivable s a i w oi \<longleftrightarrow> fetch (order_items s) i = Some oi \<and>
     (\<exists>po. fetch (purchase_orders s) (oi_order oi) = Some po \<and> po_status po = ''confirmed'') \<and>
     0 \<le> oi_received oi \<and> oi_received oi < oi_quantity oi \<and>
     (\<exists>f. set (allocations s i) = {(f, w)} \<and> (internal a \<or> a_factory a = Some f)) \<and>
     \<not> frozen s w (Some (oi_sku oi))"

lemma remdups_one: "length (remdups xs) = 1 \<Longrightarrow> set xs = {hd xs}"
proof -
  assume "length (remdups xs) = 1"
  then obtain x where "remdups xs = [x]" by (cases "remdups xs") auto
  then have x: "set xs = {x}" by (metis set_remdups list.set(1) list.set(2))
  then have "hd xs = x" by (cases xs) auto
  with x show ?thesis by simp
qed

lemma receivableI:
  assumes "find_item s i n = Some v" and "po_status (snd v) = ''confirmed''"
    and "\<not> oi_received (fst v) < 0" and "\<not> oi_quantity (fst v) \<le> oi_received (fst v)"
    and "length (remdups (allocations s i)) = Suc 0"
    and "internal a \<or> a_factory a = Some (fst (hd (allocations s i)))"
    and "\<not> frozen s (snd (hd (allocations s i))) (Some (oi_sku (fst v)))"
  shows "receivable s a i (snd (hd (allocations s i))) (fst v)"
  using assms remdups_one [of "allocations s i"]
  by (cases "hd (allocations s i)") (auto simp: receivable_def find_item_def split: option.splits if_splits)

lemma wp_receivePurchase:
  assumes "\<And>body i w oi v s'. raw = JObj body \<Longrightarrow> to_safe_integer (fld body ''orderItemId'') = Some i \<Longrightarrow>
      to_safe_integer (fld body ''warehouseId'') = Some w \<Longrightarrow> receivable s (c_access c) i w oi \<Longrightarrow>
      receipt_effect i w oi s s' \<Longrightarrow> Q v s'"
  shows "wp (receivePurchase c raw) Q s"
  unfolding receivePurchase_def receivableItem_def authoritativeWarehouse_def checkReceivingWarehouse_def
    case_prod_beta
  by (intro wp_intros wp_storeReceipt)
    (simp_all, (rule assms; (assumption | rule receivableI | simp)+; blast)+)

text \<open>
  C16. A successful receipt takes a confirmed order item in full: the item was not yet fully received
  and is afterwards, one new batch holds exactly the missing quantity in its pending-inspection bucket
  and nothing else, in the one warehouse the purchase plan allocates the item to, no existing batch
  changes, and one receipt row records it. The item can then never be received a second time.
\<close>

theorem receive_once:
  assumes "receivePurchase c raw s = Inr (v, s')" and "wf_tbl (batches s)" and "wf_tbl (receipts s)"
  shows "\<exists>i w oi b r. receivable s (c_access c) i w oi \<and>
    fetch (order_items s') i = Some (oi\<lparr>oi_received := oi_quantity oi\<rparr>) \<and>
    fetch (batches s) (rc_batch r) = None \<and> fetch (batches s') (rc_batch r) = Some b \<and>
    ib_warehouse b = w \<and> ib_sku b = oi_sku oi \<and> ib_pending b = oi_quantity oi - oi_received oi \<and>
    batch_total b = ib_pending b \<and> rc_order_item r = i \<and> rc_quantity r = ib_pending b \<and>
    (\<forall>j. j \<noteq> rc_batch r \<longrightarrow> fetch (batches s') j = fetch (batches s) j) \<and>
    (\<exists>rid. fetch (receipts s) rid = None \<and> fetch (receipts s') rid = Some r) \<and>
    (\<forall>c' body v' s''. to_safe_integer (fld body ''orderItemId'') = Some i \<longrightarrow>
      receivePurchase c' (JObj body) s' \<noteq> Inr (v', s''))"
proof -
  have "wp (receivePurchase c raw) (\<lambda>v s'. \<exists>i w oi. receivable s (c_access c) i w oi \<and> receipt_effect i w oi s s') s"
    by (rule wp_receivePurchase) blast
  from wpD [OF this assms(1)] obtain i w oi b r where rcv: "receivable s (c_access c) i w oi"
    and bs: "batches s' = insertT b (batches s)" and rs: "receipts s' = insertT r (receipts s)"
    and b: "ib_warehouse b = w" "ib_sku b = oi_sku oi" "ib_pending b = oi_quantity oi - oi_received oi"
      "batch_total b = ib_pending b"
    and r: "rc_order_item r = i" "rc_batch r = nxt (batches s)" "rc_quantity r = ib_pending b"
    and items: "order_items s' = updateT (\<lambda>j r. j = i \<and>
        oi_received r + (oi_quantity oi - oi_received oi) \<le> oi_quantity r)
      (\<lambda>r. r\<lparr>oi_received := oi_received r + (oi_quantity oi - oi_received oi)\<rparr>) (order_items s)"
    by (auto simp: receipt_effect_def batch_total_def)
  have oi: "fetch (order_items s) i = Some oi" using rcv by (simp add: receivable_def)
  have item: "fetch (order_items s') i = Some (oi\<lparr>oi_received := oi_quantity oi\<rparr>)"
    by (simp add: items fetch_updateT oi)
  have again: "receivePurchase c' (JObj body) s' \<noteq> Inr (v', s'')"
    if "to_safe_integer (fld body ''orderItemId'') = Some i" for c' body v' s''
  proof
    assume run: "receivePurchase c' (JObj body) s' = Inr (v', s'')"
    have "wp (receivePurchase c' (JObj body)) (\<lambda>_ _. False) s'"
      by (rule wp_receivePurchase) (use that item in \<open>auto simp: receivable_def\<close>)
    from wpD [OF this run] show False .
  qed
  have fresh: "fetch (batches s) (nxt (batches s)) = None" "fetch (receipts s) (nxt (receipts s)) = None"
    using fetch_pos [OF assms(2)] fetch_pos [OF assms(3)] by (metis less_irrefl not_None_eq)+
  show ?thesis
    by (intro exI [of _ i] exI [of _ w] exI [of _ oi] exI [of _ b] exI [of _ r] conjI allI impI
        exI [of _ "nxt (receipts s)"] rcv item b r again)
      (simp_all add: r bs rs fresh fetch_insertT assms(2,3))
qed

lemma receivePurchase_wp:
  assumes "stock_inv s"
  shows "wp (receivePurchase c raw) (\<lambda>_ s'. stock_inv s') s"
proof (rule wp_receivePurchase)
  fix i w oi s'
  assume "receivable s (c_access c) i w oi" and "receipt_effect i w oi s s'"
  then obtain b where "batches s' = insertT b (batches s)" and "reservations s' = reservations s"
    and "buckets_ok b" by (auto simp: receipt_effect_def buckets_ok_def receivable_def)
  with stock_inv_insert [OF assms] show "stock_inv s'" by blast
qed

section \<open>The property at a concrete receipt\<close>

definition sample_order :: purchase_order where
  "sample_order = \<lparr>po_no = ''PO-1'', po_source_file = None, po_status = ''confirmed'', po_order_date = None,
     po_total = 0, po_updated_at = ''2025-01-01''\<rparr>"

definition sample_item :: order_item where
  "sample_item = \<lparr>oi_order = 1, oi_sku = ''SKU'', oi_product_name = ''P'', oi_item_type = ''component'',
     oi_supplier = Some 1, oi_quantity = 9, oi_received = 0, oi_unit_price = 1, oi_amount = 9,
     oi_due_date = None\<rparr>"

definition sample_plan_item :: plan_item where
  "sample_plan_item = \<lparr>pi_plan = 1, pi_arrival = ''2025-02-01'', pi_factory = 1, pi_warehouse = 1,
     pi_sku = ''SKU'', pi_product_name = ''P'', pi_bom = 1, pi_planned = 9, pi_ordered = 9,
     pi_over_bps = 0, pi_under_bps = 0, pi_completion = ''within_tolerance''\<rparr>"

definition receipt_db :: db where
  "receipt_db = (stock_db ''approved'')\<lparr>purchase_orders := insertT sample_order emptyT,
     order_items := insertT sample_item emptyT, plan_items := insertT sample_plan_item emptyT,
     plan_links := insertT \<lparr>pl_item = 1, pl_order_item = 1, pl_allocated = 9, pl_method = ''manual'',
       pl_confirmed_by = 1\<rparr> emptyT\<rparr>"

lemma receive_once_witness:
  "\<exists>v s' r rid. receivePurchase sample_ctx (JObj [(''purchaseOrderId'', jint 1), (''orderItemId'', jint 1),
      (''warehouseId'', jint 1)]) receipt_db = Inr (v, s') \<and>
    fetch (receipts receipt_db) rid = None \<and> fetch (receipts s') rid = Some r"
proof -
  let ?r = "receivePurchase sample_ctx (JObj [(''purchaseOrderId'', jint 1), (''orderItemId'', jint 1),
      (''warehouseId'', jint 1)]) receipt_db"
  have "succeeds ?r" by code_simp
  then obtain v s' where r: "?r = Inr (v, s')" by (rule succeedsE)
  have "wf_tbl (batches receipt_db)" and "wf_tbl (receipts receipt_db)"
    by (simp_all add: receipt_db_def) (simp add: stock_db_def empty_db_def)
  from receive_once [OF r this] r show ?thesis by blast
qed

end
