(* ===== verification/Quality.thy ===== *)
theory Quality
  imports Receipts
begin

text \<open>
  \<open>modules/quality-inspections/writes.ts\<close>: submitting an inspection of a pending batch or of an
  execution order. A batch is inspected as a whole; the verdict moves its pending-inspection bucket
  to the available or to the quarantine bucket.
\<close>

record target =
  tg_sku :: string
  tg_item_type :: "string option"
  tg_supplier :: "int option"

record submission =
  sb_execution :: "int option"
  sb_batch :: "int option"
  sb_stage :: string
  sb_method :: string
  sb_quantity :: int
  sb_inspected :: int
  sb_passed :: int
  sb_failed :: int
  sb_reason :: string
  sb_inspector :: string

section \<open>The submission\<close>

definition readSubmission :: "access \<Rightarrow> (string \<times> json) list \<Rightarrow> submission run" where
  "readSubmission a body =
     bindC (optionalInteger (fld body ''executionOrderId'') ''executionOrderId'') (\<lambda>executionOrderId.
     bindC (optionalInteger (fld body ''batchId'') ''batchId'') (\<lambda>batchId.
     bindC (guardC (\<not> ((executionOrderId = None) = (batchId = None)))
       (bad_request ''Exactly one of executionOrderId or batchId is required'')) (\<lambda>_.
     bindC (oneOf (fld body ''stage'') [''incoming'', ''finished_goods''] ''stage'') (\<lambda>stage.
     bindC (oneOf (fld body ''inspectionMethod'') [''sampling'', ''full''] ''inspectionMethod'') (\<lambda>inspectionMethod.
     bindC (integer (fld body ''batchQuantity'') ''batchQuantity'' 1) (\<lambda>quantity.
     bindC (integer (fld body ''inspectedQuantity'') ''inspectedQuantity'' 1) (\<lambda>inspected.
     bindC (integer (fld body ''passedQuantity'') ''passedQuantity'' 0) (\<lambda>passed.
     bindC (integer (fld body ''failedQuantity'') ''failedQuantity'' 0) (\<lambda>failed.
     bindC (guardC (\<not> (passed + failed \<noteq> inspected \<or> quantity < inspected))
       (bad_request ''Inspection quantities do not balance'')) (\<lambda>_.
     bindC (optionalString (fld body ''defectReason'') 2000) (\<lambda>reason.
     bindC (guardC (\<not> (0 < failed \<and> reason = [])) (bad_request ''Defect reason is required'')) (\<lambda>_.
     bindC (oneOf (fld body ''inspectorType'') [''company_qc'', ''supplier_qc''] ''inspectorType'') (\<lambda>inspector.
     bindC (guardC (\<not> (inspector = ''company_qc'' \<and> \<not> hasRole a [''admin'', ''company_qc'']))
       (forbidden ''Company QC role required'')) (\<lambda>_.
     bindC (guardC (\<not> (inspector = ''supplier_qc'' \<and> \<not> hasRole a [''supplier_qc'']))
       (forbidden ''Supplier QC role required'')) (\<lambda>_.
     returnC \<lparr>sb_execution = executionOrderId, sb_batch = batchId, sb_stage = stage,
       sb_method = inspectionMethod, sb_quantity = quantity, sb_inspected = inspected,
       sb_passed = passed, sb_failed = failed, sb_reason = reason, sb_inspector = inspector\<rparr>)))))))))))))))"

section \<open>What is inspected\<close>

definition sku_type :: "db \<Rightarrow> string \<Rightarrow> string option" where
  "sku_type s code = (case select (skus s) (\<lambda>_ r. sk_code r = code) of
       [] \<Rightarrow> None | (_, r) # _ \<Rightarrow> sk_item_type r)"

definition receipt_source :: "db \<Rightarrow> int \<Rightarrow> order_item option" where
  "receipt_source s batchId = (case select (receipts s) (\<lambda>_ r. rc_batch r = batchId) of
       [] \<Rightarrow> None | (_, r) # _ \<Rightarrow> fetch (order_items s) (rc_order_item r))"

definition production_source :: "db \<Rightarrow> int \<Rightarrow> order_item option" where
  "production_source s batchId = (case select (reports s) (\<lambda>_ r. rp_batch r = Some batchId) of
       [] \<Rightarrow> None
     | (_, r) # _ \<Rightarrow> Option.bind (fetch (execution_orders s) (rp_order r))
         (\<lambda>eo. fetch (order_items s) (eo_order_item eo)))"

definition batch_target :: "db \<Rightarrow> batch \<Rightarrow> order_item option \<Rightarrow> target" where
  "batch_target s b source = \<lparr>tg_sku = ib_sku b,
     tg_item_type = (case source of Some oi \<Rightarrow> Some (oi_item_type oi) | None \<Rightarrow> sku_type s (ib_sku b)),
     tg_supplier = Option.bind source oi_supplier\<rparr>"

definition checkWholeBatch :: "submission \<Rightarrow> int \<Rightarrow> unit run" where
  "checkWholeBatch sub pendingQuantity =
     bindC (guardC (0 < pendingQuantity) (conflict ''Inventory batch is not pending inspection'')) (\<lambda>_.
     bindC (guardC (sb_quantity sub = pendingQuantity \<and> sb_inspected sub = pendingQuantity)
       (bad_request ''Whole pending-inspection batch must be inspected'')) (\<lambda>_.
     bindC (guardC (sb_method sub = ''full'') (bad_request ''Whole-batch inspection must use full inspection'')) (\<lambda>_.
     guardC ((sb_passed sub = pendingQuantity \<and> sb_failed sub = 0) \<or>
             (sb_passed sub = 0 \<and> sb_failed sub = pendingQuantity))
       (bad_request ''Whole batch must be entirely passed or entirely failed''))))"

definition batchProvenance :: "submission \<Rightarrow> int \<Rightarrow> batch \<Rightarrow> target run" where
  "batchProvenance sub batchId b =
     bindC (queryC (\<lambda>s. (matched (receipts s) (\<lambda>_ r. rc_batch r = batchId),
       matched (reports s) (\<lambda>_ r. rp_batch r = Some batchId)))) (\<lambda>(receiptCount, productionCount).
     if receiptCount = 1 \<and> productionCount = 0 then
       bindC (guardC (sb_stage sub = ''incoming'') (conflict ''Receipt batch must be inspected as incoming'')) (\<lambda>_.
       queryC (\<lambda>s. batch_target s b (receipt_source s batchId)))
     else if receiptCount = 0 \<and> productionCount = 1 then
       bindC (guardC (sb_stage sub = ''finished_goods'')
         (conflict ''Production completion batch must be inspected as finished goods'')) (\<lambda>_.
       queryC (\<lambda>s. batch_target s b (production_source s batchId)))
     else throwC (conflict ''Inventory batch has ambiguous or missing inspection provenance''))"

definition batchTarget :: "cctx \<Rightarrow> submission \<Rightarrow> int \<Rightarrow> target run" where
  "batchTarget c sub batchId =
     bindC (queryC (\<lambda>s. fetch (batches s) batchId)) (\<lambda>found.
     bindC (requireC found (not_found ''Inventory batch not found'')) (\<lambda>b.
     bindC (lockWarehouseFreeze (ib_warehouse b)) (\<lambda>_.
     bindC (requireWarehouseScope (c_access c) (ib_warehouse b)) (\<lambda>_.
     bindC (freezeExists (ib_warehouse b) (Some (ib_sku b))) (\<lambda>isFrozen.
     bindC (guardC (\<not> isFrozen) (conflict ''Inventory is frozen by an active stocktake'')) (\<lambda>_.
     bindC (checkWholeBatch sub (ib_pending b)) (\<lambda>_.
     batchProvenance sub batchId b)))))))"

definition executionTarget :: "submission \<Rightarrow> int \<Rightarrow> target run" where
  "executionTarget sub executionOrderId =
     bindC (guardC (sb_stage sub = ''finished_goods'')
       (conflict ''Execution order inspection must use finished goods stage'')) (\<lambda>_.
     bindC (queryC (\<lambda>s. Option.bind (fetch (execution_orders s) executionOrderId)
       (\<lambda>eo. fetch (order_items s) (eo_order_item eo)))) (\<lambda>found.
     bindC (requireC found (not_found ''Execution order not found'')) (\<lambda>oi.
     returnC \<lparr>tg_sku = oi_sku oi, tg_item_type = Some (oi_item_type oi), tg_supplier = oi_supplier oi\<rparr>)))"

section \<open>The verdict\<close>

text \<open>The active rules of the stage, the SKU rules first, the newest first within a scope.\<close>

definition applicable_rules :: "db \<Rightarrow> string \<Rightarrow> target \<Rightarrow> (int \<times> quality_rule) list" where
  "applicable_rules s stage t =
     (let found = rev (sort_key (\<lambda>(i, r). (qr_created_at r, i)) (select (quality_rules s) (\<lambda>_ r.
        qr_active r \<and> qr_stage r = stage \<and>
        ((qr_scope r = ''sku'' \<and> qr_sku r = Some (tg_sku t)) \<or>
         (qr_scope r = ''item_type'' \<and> qr_item_type r \<noteq> None \<and> qr_item_type r = tg_item_type t)))))
      in filter (\<lambda>(_, r). qr_scope r = ''sku'') found @ filter (\<lambda>(_, r). qr_scope r \<noteq> ''sku'') found)"

definition moveInspected :: "cctx \<Rightarrow> int \<Rightarrow> int \<Rightarrow> int \<Rightarrow> string \<Rightarrow> unit run" where
  "moveInspected c inspectionId batchId n finalResult =
     bindC (updateC batches batches_update ok_batch (\<lambda>j r. j = batchId \<and> n \<le> ib_pending r)
       (\<lambda>r. if finalResult = ''passed''
          then r\<lparr>ib_pending := ib_pending r - n, ib_available := ib_available r + n\<rparr>
          else r\<lparr>ib_pending := ib_pending r - n, ib_quarantine := ib_quarantine r + n\<rparr>)) (\<lambda>moved.
     bindC (guardC (moved = 1) (version_conflict ''Inventory batch changed concurrently'')) (\<lambda>_.
     bindC (queryC (\<lambda>s. fetch (batches s) batchId)) (\<lambda>found. case found of
       None \<Rightarrow> returnC ()
     | Some b \<Rightarrow> recordMovement c (ib_warehouse b) (ib_sku b)
         (if finalResult = ''passed'' then ''inspection_pass'' else ''inspection_fail'')
         (if finalResult = ''passed'' then n else - n) None
         (''quality_inspection:'' @ show_int inspectionId @ '':'' @
           (if finalResult = ''passed'' then ''pass'' else ''fail'')))))"

definition storeVerdict :: "cctx \<Rightarrow> submission \<Rightarrow> (string \<times> json) list \<Rightarrow> int \<Rightarrow> quality_rule \<Rightarrow> json run" where
  "storeVerdict c sub body ruleId rule =
     (let rate = math_round_ratio (sb_passed sub * 10000) (sb_inspected sub);
          systemResult = (if qr_min_bps rule \<le> rate then ''passed'' else ''failed'') in
     bindC (if fld body ''requestedResult'' = None then returnC None
       else bindC (oneOf (fld body ''requestedResult'') [''passed'', ''failed'', ''conditional''] ''requestedResult'')
         (\<lambda>t. returnC (Some t))) (\<lambda>requestedResult.
     bindC (guardC (\<not> (sb_batch sub \<noteq> None \<and> requestedResult \<noteq> None))
       (bad_request ''requestedResult is not supported for whole-batch inspection'')) (\<lambda>_.
     let requiresApproval = (requestedResult \<noteq> None \<and> requestedResult \<noteq> Some systemResult);
         fullRequired = (sb_method sub = ''sampling'' \<and> systemResult = ''failed'');
         finalResult = (if requiresApproval then ''pending_approval'' else systemResult);
         fallback = (qr_scope rule = ''item_type'') in
     bindC (optionalInteger (fld body ''sourceInspectionId'') ''sourceInspectionId'') (\<lambda>source.
     bindC (insertC inspections inspections_update ok_inspection
       \<lparr>qi_order = sb_execution sub, qi_batch = sb_batch sub, qi_stage = sb_stage sub,
        qi_method = sb_method sub, qi_batch_quantity = sb_quantity sub, qi_inspected = sb_inspected sub,
        qi_passed = sb_passed sub, qi_failed = sb_failed sub, qi_rate_bps = rate, qi_rule = ruleId,
        qi_fallback = fallback, qi_reminder = (if fallback then ''pending'' else ''not_needed''),
        qi_reason = sb_reason sub, qi_system = systemResult, qi_requested = requestedResult,
        qi_requires_approval = requiresApproval, qi_final = finalResult,
        qi_quarantine = (systemResult = ''failed''), qi_full_required = fullRequired,
        qi_source = source,
        qi_released = (if finalResult = ''passed'' \<and> sb_batch sub \<noteq> None then sb_inspected sub else 0),
        qi_disposition = (if systemResult = ''failed'' then ''pending'' else ''not_needed''),
        qi_inspector = sb_inspector sub, qi_submitted_by = a_user (c_access c)\<rparr>) (\<lambda>i.
     bindC (lockVersion ''quality_inspection'' (show_int i)) (\<lambda>_.
     bindC (case sb_batch sub of
         Some batchId \<Rightarrow> whenC (finalResult \<noteq> ''pending_approval'')
           (moveInspected c i batchId (sb_inspected sub) finalResult)
       | None \<Rightarrow> returnC ()) (\<lambda>_.
     let ids = [(''executionOrderId'', jnull jint (sb_execution sub)), (''batchId'', jnull jint (sb_batch sub))];
         stage = [(''stage'', JStr (sb_stage sub)), (''inspectionMethod'', JStr (sb_method sub))] in
     bindC (audit c ''submit'' ''quality'' ''quality_inspection'' (show_int i) None None
       (Some (JObj (ids @ stage @ [(''batchQuantity'', jint (sb_quantity sub)),
         (''inspectedQuantity'', jint (sb_inspected sub)), (''passedQuantity'', jint (sb_passed sub)),
         (''failedQuantity'', jint (sb_failed sub)), (''passRateBps'', jint rate),
         (''qualityRuleId'', jint ruleId), (''systemResult'', JStr systemResult),
         (''requiresApproval'', JBool requiresApproval), (''finalResult'', JStr finalResult)])))) (\<lambda>_.
     bindC (domainEvent c (if systemResult = ''failed'' then ''DispositionRequired'' else ''InspectionCompleted'')
       ''quality_inspection'' (show_int i) None RNone
       (ids @ [(''systemResult'', JStr systemResult), (''fullInspectionRequired'', JBool fullRequired)])) (\<lambda>_.
     returnC (JObj [(''inspection'', JObj ([(''id'', jint i)] @ ids @ stage @ [(''passRateBps'', jint rate),
       (''qualityRuleId'', jint ruleId), (''systemResult'', JStr systemResult),
       (''finalResult'', JStr finalResult), (''requiresApproval'', JBool requiresApproval),
       (''fullInspectionRequired'', JBool fullRequired), (''version'', jint 1)]))]))))))))))"

definition submitQualityInspection :: "cctx \<Rightarrow> json \<Rightarrow> json run" where
  "submitQualityInspection c raw =
     bindC (requireRole (c_access c) [''admin'', ''supplier_qc'', ''company_qc'']) (\<lambda>_.
     bindC (jsonObject raw) (\<lambda>body.
     bindC (readSubmission (c_access c) body) (\<lambda>sub.
     bindC (case sb_batch sub of
         Some batchId \<Rightarrow> batchTarget c sub batchId
       | None \<Rightarrow> executionTarget sub (case sb_execution sub of Some i \<Rightarrow> i | None \<Rightarrow> 0)) (\<lambda>t.
     bindC (guardC (\<not> (sb_inspector sub = ''supplier_qc'' \<and>
         (a_supplier (c_access c) = None \<or> tg_supplier t = None \<or> tg_supplier t \<noteq> a_supplier (c_access c))))
       (forbidden ''Forbidden supplier binding'')) (\<lambda>_.
     bindC (queryC (\<lambda>s. applicable_rules s (sb_stage sub) t)) (\<lambda>found.
     case found of
       [] \<Rightarrow> throwC (conflict ''No active quality rule is configured'')
     | (ruleId, rule) # _ \<Rightarrow> storeVerdict c sub body ruleId rule))))))"

section \<open>Properties\<close>

definition balanced :: "submission \<Rightarrow> bool" where
  "balanced sub \<longleftrightarrow> sb_passed sub + sb_failed sub = sb_inspected sub \<and> 0 \<le> sb_passed sub \<and>
     0 \<le> sb_failed sub \<and> 1 \<le> sb_inspected sub \<and> sb_inspected sub \<le> sb_quantity sub \<and>
     (sb_execution sub = None) \<noteq> (sb_batch sub = None)"

lemma wp_readSubmission [wp_intros]:
  assumes "\<And>sub. balanced sub \<Longrightarrow>
      sb_batch sub = (if absent (fld body ''batchId'') then None else to_safe_integer (fld body ''batchId'')) \<Longrightarrow> Q sub s"
  shows "wp (readSubmission a body) Q s"
  unfolding readSubmission_def
  by (intro wp_intros assms) (auto simp: balanced_def)

definition inspected_batch :: "db \<Rightarrow> submission \<Rightarrow> int \<Rightarrow> bool" where
  "inspected_batch s sub i \<longleftrightarrow> (\<exists>b. fetch (batches s) i = Some b \<and> 0 < ib_pending b \<and>
     \<not> frozen s (ib_warehouse b) (Some (ib_sku b)) \<and>
     sb_quantity sub = ib_pending b \<and> sb_inspected sub = ib_pending b \<and>
     (sb_passed sub = ib_pending b \<and> sb_failed sub = 0 \<or> sb_passed sub = 0 \<and> sb_failed sub = ib_pending b))"

lemma wp_batchTarget [wp_intros]:
  assumes "\<And>t vs. inspected_batch s sub i \<Longrightarrow> Q t (s\<lparr>versions := vs\<rparr>)"
  shows "wp (batchTarget c sub i) Q s"
  unfolding batchTarget_def checkWholeBatch_def batchProvenance_def
  by (intro wp_intros) (simp_all, (rule assms; force simp: inspected_batch_def)+)

lemma wp_executionTarget [wp_intros]:
  assumes "\<And>t. Q t s"
  shows "wp (executionTarget sub i) Q s"
  unfolding executionTarget_def by (intro wp_intros assms)

definition active_rule :: "db \<Rightarrow> string \<Rightarrow> int \<Rightarrow> quality_rule \<Rightarrow> bool" where
  "active_rule s stage i r \<longleftrightarrow> (i, r) \<in> set (rows (quality_rules s)) \<and> qr_active r \<and> qr_stage r = stage"

lemma applicable_versions [simp]: "applicable_rules (s\<lparr>versions := vs\<rparr>) stage t = applicable_rules s stage t"
  by (simp add: applicable_rules_def)

lemma applicable_active: "applicable_rules s stage t = (i, r) # rs \<Longrightarrow> active_rule s stage i r"
proof -
  assume "applicable_rules s stage t = (i, r) # rs"
  then have "(i, r) \<in> set (applicable_rules s stage t)" by simp
  then show ?thesis by (auto simp: applicable_rules_def Let_def active_rule_def select_rows)
qed

definition verdict_effect :: "submission \<Rightarrow> int \<Rightarrow> quality_rule \<Rightarrow> inspection \<Rightarrow> db \<Rightarrow> db \<Rightarrow> bool" where
  "verdict_effect sub ruleId rule q s s' \<longleftrightarrow>
     inspections s' = insertT q (inspections s) \<and> qi_batch q = sb_batch sub \<and>
     qi_inspected q = sb_inspected sub \<and> qi_passed q = sb_passed sub \<and> qi_failed q = sb_failed sub \<and>
     qi_rule q = ruleId \<and> qi_stage q = sb_stage sub \<and> qi_rate_bps q = math_round_ratio (sb_passed sub * 10000) (sb_inspected sub) \<and>
     qi_system q = (if qr_min_bps rule \<le> qi_rate_bps q then ''passed'' else ''failed'') \<and>
     (qi_final q = ''pending_approval'' \<or> qi_final q = qi_system q) \<and>
     (sb_batch sub \<noteq> None \<longrightarrow> qi_final q = qi_system q) \<and>
     reservations s' = reservations s \<and> transfers s' = transfers s \<and>
     batches s' = (case sb_batch sub of None \<Rightarrow> batches s
       | Some i \<Rightarrow> updateT (\<lambda>j r. j = i \<and> sb_inspected sub \<le> ib_pending r)
           (\<lambda>r. if qi_system q = ''passed''
              then r\<lparr>ib_pending := ib_pending r - sb_inspected sub, ib_available := ib_available r + sb_inspected sub\<rparr>
              else r\<lparr>ib_pending := ib_pending r - sb_inspected sub, ib_quarantine := ib_quarantine r + sb_inspected sub\<rparr>)
           (batches s))"

lemma verdict_effect_cong [simp]:
  "verdict_effect sub n rule q (s\<lparr>versions := vs\<rparr>) s' = verdict_effect sub n rule q s s'"
  "verdict_effect sub n rule q s (audit_logs_update f s') = verdict_effect sub n rule q s s'"
  "verdict_effect sub n rule q s (outbox_messages_update g s') = verdict_effect sub n rule q s s'"
  by (simp_all add: verdict_effect_def split: option.split)

lemma wp_moveInspected:
  assumes "\<And>f. Q () (movements_update f (batches_update (updateT (\<lambda>j r. j = i \<and> n \<le> ib_pending r)
       (\<lambda>r. if final = ''passed''
          then r\<lparr>ib_pending := ib_pending r - n, ib_available := ib_available r + n\<rparr>
          else r\<lparr>ib_pending := ib_pending r - n, ib_quarantine := ib_quarantine r + n\<rparr>)) s))"
  shows "wp (moveInspected c k i n final) Q s"
proof -
  have "movements_update (\<lambda>t. t) s' = s'" for s' :: db by (cases s') simp
  with assms [of "\<lambda>t. t"] assms show ?thesis
    unfolding moveInspected_def by (intro wp_intros) simp_all
qed

lemma wp_storeVerdict [wp_intros]:
  assumes "\<And>v s'. \<exists>q. verdict_effect sub ruleId rule q s s' \<Longrightarrow> Q v s'"
  shows "wp (storeVerdict c sub body ruleId rule) Q s"
  unfolding storeVerdict_def Let_def
  by (intro wp_intros wp_moveInspected assms) (simp_all add: verdict_effect_def split: if_splits)

lemma wp_submit:
  assumes "\<And>body sub ruleId rule v s'. raw = JObj body \<Longrightarrow> balanced sub \<Longrightarrow>
      sb_batch sub = (if absent (fld body ''batchId'') then None else to_safe_integer (fld body ''batchId'')) \<Longrightarrow>
      (\<forall>i. sb_batch sub = Some i \<longrightarrow> inspected_batch s sub i) \<Longrightarrow>
      \<exists>q. verdict_effect sub ruleId rule q s s' \<Longrightarrow>
      active_rule s (sb_stage sub) ruleId rule \<Longrightarrow> Q v s'"
  shows "wp (submitQualityInspection c raw) Q s"
  unfolding submitQualityInspection_def
  by (intro wp_intros)
    ((rule assms, assumption, assumption, assumption, metis option.inject option.distinct(1),
      simp only: verdict_effect_cong, simp only: applicable_versions, erule applicable_active)+)

lemma rate_of_whole: "0 < n \<Longrightarrow> math_round_ratio (n * 10000) n = 10000" "math_round_ratio (0 * 10000) n = 0"
proof -
  assume "0 < n"
  then have "of_int (n * 10000) / of_int n = (10000 :: rat)" by simp
  then have "math_round_ratio (n * 10000) n = \<lfloor>10000 + (1 / 2 :: rat)\<rfloor>" by (simp only: math_round_ratio_def)
  also have "\<dots> = 10000" by (rule floor_unique) simp_all
  finally show "math_round_ratio (n * 10000) n = 10000" .
next
  show "math_round_ratio (0 * 10000) n = 0" unfolding math_round_ratio_def by (rule floor_unique) simp_all
qed

lemma present_integer: "to_safe_integer v = Some n \<Longrightarrow> 1 \<le> n \<Longrightarrow> \<not> absent v"
proof
  assume v: "to_safe_integer v = Some n" "1 \<le> n" and "absent v"
  then consider "v = None" | "v = Some JNull" | "v = Some (JStr [])" by (auto simp: absent_def)
  then show False
  proof cases
    case 2
    with v show False by (simp add: to_safe_integer_def to_number_def safe_integer_def)
  next
    case 3
    with v show False by (simp add: to_safe_integer_def to_number_def string_to_number_def trim_def safe_integer_def)
  qed (use v in \<open>simp add: to_safe_integer_def to_number_def\<close>)
qed

text \<open>
  C17. Inspecting a batch covers its whole pending quantity and is entirely passed or entirely failed.
  It empties the pending bucket into the available bucket when the pass rate (100% or 0%) reaches the
  minimum of the applied rule and into quarantine when it does not; the total of the batch is
  unchanged, no other batch changes, and one inspection row records the verdict.
\<close>

theorem inspection_exact:
  assumes "submitQualityInspection c (JObj body) s = Inr (v, s')"
    and "to_safe_integer (fld body ''batchId'') = Some i" and "1 \<le> i"
    and "wf_tbl (batches s)" and "wf_tbl (inspections s)"
  shows "\<exists>b b' rid q rule. fetch (batches s) i = Some b \<and> 0 < ib_pending b \<and>
    \<not> frozen s (ib_warehouse b) (Some (ib_sku b)) \<and>
    fetch (inspections s) rid = None \<and> fetch (inspections s') rid = Some q \<and>
    qi_inspected q = ib_pending b \<and>
    (qi_passed q = ib_pending b \<and> qi_failed q = 0 \<or> qi_passed q = 0 \<and> qi_failed q = ib_pending b) \<and>
    active_rule s (qi_stage q) (qi_rule q) rule \<and>
    qi_system q = (if qr_min_bps rule \<le> (if qi_failed q = 0 then 10000 else 0) then ''passed'' else ''failed'') \<and>
    fetch (batches s') i = Some b' \<and> batch_total b' = batch_total b \<and>
    b' = (if qi_system q = ''passed''
      then b\<lparr>ib_pending := 0, ib_available := ib_available b + ib_pending b\<rparr>
      else b\<lparr>ib_pending := 0, ib_quarantine := ib_quarantine b + ib_pending b\<rparr>) \<and>
    (\<forall>j. j \<noteq> i \<longrightarrow> fetch (batches s') j = fetch (batches s) j)"
proof -
  have "wp (submitQualityInspection c (JObj body)) (\<lambda>v s'. \<exists>sub ruleId rule q. sb_batch sub = Some i \<and>
      inspected_batch s sub i \<and> active_rule s (sb_stage sub) ruleId rule \<and> verdict_effect sub ruleId rule q s s') s"
    by (rule wp_submit) (use assms(2) present_integer [OF assms(2,3)] in auto)
  from wpD [OF this assms(1)] obtain sub ruleId rule q where sub: "sb_batch sub = Some i"
    and ib: "inspected_batch s sub i" and rule: "active_rule s (sb_stage sub) ruleId rule"
    and e: "verdict_effect sub ruleId rule q s s'" by blast
  from ib obtain b where b: "fetch (batches s) i = Some b" "0 < ib_pending b"
    "\<not> frozen s (ib_warehouse b) (Some (ib_sku b))" and n: "sb_inspected sub = ib_pending b"
    and all: "sb_passed sub = ib_pending b \<and> sb_failed sub = 0 \<or> sb_passed sub = 0 \<and> sb_failed sub = ib_pending b"
    by (auto simp: inspected_batch_def)
  let ?b' = "if qi_system q = ''passed''
      then b\<lparr>ib_pending := 0, ib_available := ib_available b + ib_pending b\<rparr>
      else b\<lparr>ib_pending := 0, ib_quarantine := ib_quarantine b + ib_pending b\<rparr>"
  from e sub n rule have q: "inspections s' = insertT q (inspections s)" "qi_inspected q = ib_pending b"
    "qi_passed q = sb_passed sub" "qi_failed q = sb_failed sub"
    and act: "active_rule s (qi_stage q) (qi_rule q) rule"
    and rate: "qi_rate_bps q = math_round_ratio (sb_passed sub * 10000) (ib_pending b)"
    and sys: "qi_system q = (if qr_min_bps rule \<le> qi_rate_bps q then ''passed'' else ''failed'')"
    and bs: "batches s' = updateT (\<lambda>j r. j = i \<and> ib_pending b \<le> ib_pending r)
       (\<lambda>r. if qi_system q = ''passed''
          then r\<lparr>ib_pending := ib_pending r - ib_pending b, ib_available := ib_available r + ib_pending b\<rparr>
          else r\<lparr>ib_pending := ib_pending r - ib_pending b, ib_quarantine := ib_quarantine r + ib_pending b\<rparr>)
       (batches s)"
    by (simp_all add: verdict_effect_def)
  have "qi_rate_bps q = (if qi_failed q = 0 then 10000 else 0)"
    using all b(2) rate q rate_of_whole(1) [OF b(2)] rate_of_whole(2) [of "ib_pending b"] by auto
  with sys have verdict: "qi_system q = (if qr_min_bps rule \<le> (if qi_failed q = 0 then 10000 else 0) then ''passed'' else ''failed'')"
    by simp
  have new: "fetch (batches s') i = Some ?b'" by (simp add: bs fetch_updateT b)
  have total: "batch_total ?b' = batch_total b" by (simp add: batch_total_def)
  have others: "fetch (batches s') j = fetch (batches s) j" if "j \<noteq> i" for j
    using that by (cases "fetch (batches s) j") (simp_all add: bs fetch_updateT)
  have fresh: "fetch (inspections s) (nxt (inspections s)) = None"
    using fetch_pos [OF assms(5)] by (metis less_irrefl not_None_eq)
  have added: "fetch (inspections s') (nxt (inspections s)) = Some q"
    by (simp add: q(1) fetch_insertT [OF assms(5)])
  have split: "qi_passed q = ib_pending b \<and> qi_failed q = 0 \<or> qi_passed q = 0 \<and> qi_failed q = ib_pending b"
    using all q by simp
  show ?thesis
    by (rule exI [of _ b], rule exI [of _ ?b'], rule exI [of _ "nxt (inspections s)"], rule exI [of _ q],
        rule exI [of _ rule])
      (intro conjI allI impI b fresh added q(2) split act verdict new total refl others)
qed

lemma submitQualityInspection_wp:
  assumes "stock_inv s"
  shows "wp (submitQualityInspection c raw) (\<lambda>_ s'. stock_inv s') s"
proof (rule wp_submit)
  fix sub ruleId rule s'
  assume "\<exists>q. verdict_effect sub ruleId rule q s s'" and bal: "balanced sub"
  then obtain q where e: "verdict_effect sub ruleId rule q s s'" by blast
  show "stock_inv s'"
  proof (cases "sb_batch sub")
    case None
    with e have "batches s' = batches s" and "reservations s' = reservations s"
      by (simp_all add: verdict_effect_def)
    from stock_inv_cong [OF this] assms show ?thesis by simp
  next
    case (Some i)
    let ?f = "\<lambda>r. if qi_system q = ''passed''
       then r\<lparr>ib_pending := ib_pending r - sb_inspected sub, ib_available := ib_available r + sb_inspected sub\<rparr>
       else r\<lparr>ib_pending := ib_pending r - sb_inspected sub, ib_quarantine := ib_quarantine r + sb_inspected sub\<rparr>"
    show ?thesis
    proof (rule stock_inv_update [OF assms, where i = i and f = ?f and c = "\<lambda>r. sb_inspected sub \<le> ib_pending r"])
      fix b assume b: "fetch (batches s) i = Some b" "sb_inspected sub \<le> ib_pending b"
      with stock_invD(3,4) [OF assms b(1)] bal
      show "buckets_ok (?f b) \<and> reserved_on s i \<le> ib_locked (?f b)"
        by (auto simp: buckets_ok_def balanced_def)
    qed (use e Some in \<open>simp_all add: verdict_effect_def\<close>)
  qed
qed

section \<open>The property at a concrete inspection\<close>

definition sample_rule :: quality_rule where
  "sample_rule = \<lparr>qr_scope = ''sku'', qr_sku = Some ''SKU'', qr_item_type = None, qr_stage = ''incoming'',
     qr_min_bps = 9500, qr_active = True, qr_created_at = ''2025-01-01''\<rparr>"

definition inspection_db :: db where
  "inspection_db = receipt_db\<lparr>
     batches := insertT (sample_batch\<lparr>ib_available := 0, ib_pending := 9\<rparr>) emptyT,
     receipts := insertT \<lparr>rc_no = ''RC-1'', rc_order = 1, rc_order_item = 1, rc_warehouse = 1,
       rc_batch = 1, rc_quantity = 9, rc_received_at = ''2025-01-01'', rc_received_by = 1\<rparr> emptyT,
     quality_rules := insertT sample_rule emptyT\<rparr>"

lemma inspection_exact_witness:
  "\<exists>v s' b'. submitQualityInspection sample_ctx (JObj [(''batchId'', jint 1), (''stage'', JStr ''incoming''),
      (''inspectionMethod'', JStr ''full''), (''batchQuantity'', jint 9), (''inspectedQuantity'', jint 9),
      (''passedQuantity'', jint 9), (''failedQuantity'', jint 0), (''inspectorType'', JStr ''company_qc'')])
      inspection_db = Inr (v, s') \<and> fetch (batches s') 1 = Some b'"
proof -
  let ?b = "[(''batchId'', jint 1), (''stage'', JStr ''incoming''),
      (''inspectionMethod'', JStr ''full''), (''batchQuantity'', jint 9), (''inspectedQuantity'', jint 9),
      (''passedQuantity'', jint 9), (''failedQuantity'', jint 0), (''inspectorType'', JStr ''company_qc'')]"
  have "succeeds (submitQualityInspection sample_ctx (JObj ?b) inspection_db)" by code_simp
  then obtain v s' where r: "submitQualityInspection sample_ctx (JObj ?b) inspection_db = Inr (v, s')"
    by (rule succeedsE)
  have i: "to_safe_integer (fld ?b ''batchId'') = Some 1" by (simp add: fld_def to_safe_integer_jint)
  have wf: "wf_tbl (batches inspection_db)" "wf_tbl (inspections inspection_db)"
    by (simp_all add: inspection_db_def) (simp add: receipt_db_def stock_db_def empty_db_def)
  from inspection_exact [OF r i _ wf] r show ?thesis by auto
qed

end
