(* ===== verification/Operations.thy ===== *)
theory Operations
  imports Procurement Quality
begin

text \<open>
  The routes of \<open>composition/operations-writes-manifest.ts\<close>: every operations command with its handler and its
  response status, composed with \<open>executeOperationsCommand\<close>. The invariants of the components hold of the whole
  state, and no route breaks them, whatever the request and whatever the network does to the transaction.
\<close>

section \<open>The routes\<close>

text \<open>Command name, handler, and the response status as a function of the body.\<close>

type_synonym route = "string \<times> handler \<times> (json \<Rightarrow> int)"

definition operations_routes :: "env \<Rightarrow> route list" where
  "operations_routes e =
     [(''approvals.decide'', decideApproval (approval_effects e), \<lambda>_. 200),
      (''inventory.reserve'', reserveInventory, \<lambda>_. 201),
      (''inventory.transfer.request'', requestTransfer, \<lambda>_. 201),
      (''inventory.transfer.transition'', transitionTransfer, \<lambda>_. 200),
      (''manufacturing.order.create'', createProductionOrder, \<lambda>_. 201),
      (''manufacturing.order.transition'', transitionProductionOrder, \<lambda>_. 200),
      (''purchase.receive'', receivePurchase, \<lambda>_. 201),
      (''quality.inspection.submit'', submitQualityInspection, \<lambda>_. 201),
      (''inventory.stocktake.open'', openStocktake, \<lambda>_. 201),
      (''inventory.stocktake.transition'', transitionStocktake, \<lambda>_. 200),
      (''logistics.shipment.command'', shipmentCommand, \<lambda>body. statusFor body 200),
      (''returns.command'', returnCommand, \<lambda>body. statusFor body 200),
      (''finance.command'', financeCommand, \<lambda>body. statusFor body 200),
      (''warehouses.command'', warehouseCommand, \<lambda>body. statusFor body 200)]"

section \<open>The invariants of the whole state\<close>

text \<open>The record-keeping invariants, and the stock with what its commands rely on.\<close>

definition books_ok :: "db \<Rightarrow> bool" where
  "books_ok s \<longleftrightarrow> finance_inv s \<and> returns_inv s \<and> transfers_ok s \<and> deliveries_ok s \<and> procurement_ok s"

definition goods_ok :: "db \<Rightarrow> bool" where
  "goods_ok s \<longleftrightarrow> stock_inv s \<and> wf_tbl (transfers s) \<and> wf_tbl (material_lines s)"

definition book_tables :: "db \<Rightarrow> _" where
  "book_tables s = (money_tables s, return_tables s, transfers s, deliveries s, procurement_tables s)"

definition idle_tables :: "db \<Rightarrow> _" where
  "idle_tables s = (book_tables s, material_lines s)"

lemma books_view: "book_tables s' = book_tables s \<Longrightarrow> books_ok s' = books_ok s"
  by (simp add: book_tables_def books_ok_def finance_inv_view [of s' s] returns_inv_view [of s' s]
      procurement_view [of s' s] transfers_ok_def deliveries_ok_def)

lemmas book_defs = book_tables_def idle_tables_def money_tables_def return_tables_def procurement_tables_def

lemma keeps_books: "frames book_tables m \<Longrightarrow> keeps books_ok m"
  by (erule keeps_view) (rule books_view)

section \<open>What each route leaves alone\<close>

lemma frames_helpers [frame_rules]:
  "frames v (requireFactoryBinding a i)" "frames v (requireShipmentRow i)"
  unfolding requireFactoryBinding_def requireShipmentRow_def by (intro frame_rules)+

lemma frames_recordMovement [frame_rules]:
  "(\<And>f s. v (movements_update f s) = v s) \<Longrightarrow> frames v (recordMovement c w sku t n dir src)"
  unfolding recordMovement_def by (intro frame_rules frames_insert)

lemma frames_reserve: "frames idle_tables (reserveInventory c raw)"
  unfolding reserveInventory_def requireReservationEntityScope_def lockReservableBatch_def reserveBatch_def Let_def
  by (intro frame_rules frames_insert frames_update; simp add: book_defs)

lemma frames_createOrder: "frames book_tables (createProductionOrder c raw)"
  unfolding createProductionOrder_def checkAllocation_def checkBom_def storeMaterialLine_def Let_def
  by (intro frame_rules frames_insert frames_update; simp add: book_defs)

lemma frames_receive: "frames idle_tables (receivePurchase c raw)"
  unfolding receivePurchase_def receivableItem_def authoritativeWarehouse_def checkReceivingWarehouse_def storeReceipt_def Let_def
  by (intro frame_rules frames_insert frames_update; simp add: book_defs)

lemma frames_inspection: "frames idle_tables (submitQualityInspection c raw)"
  unfolding submitQualityInspection_def readSubmission_def batchTarget_def batchProvenance_def checkWholeBatch_def executionTarget_def
    storeVerdict_def moveInspected_def Let_def
  by (intro frame_rules frames_insert frames_update; simp add: book_defs)

lemma frames_draw: "frames book_tables (drawReservations c ps n)"
proof (induction c ps n rule: drawReservations.induct)
  case (1 c n)
  then show ?case by (simp add: frames_guard)
next
  case (2 c p ps n)
  have "frames book_tables (drawReservation c p k)" for k
    unfolding drawReservation_def Let_def case_prod_beta
    by (intro frame_rules frames_insert frames_update; simp add: book_defs)
  with 2 show ?case by (auto simp: Let_def intro!: frames_bind frames_return)
qed

lemma frames_transition: "frames book_tables (transitionProductionOrder c raw)"
  unfolding transitionProductionOrder_def startOrder_def reportMaterials_def updateMaterials_def updateMaterial_def
    consumeReservedInventory_def completeOrder_def storeCompleted_def requestVariance_def
    releaseMaterials_def releaseReservedMaterials_def releaseReservation_def lockActiveReservations_def lockFreezeForPool_def requireThawed_def Let_def
  by (intro frames_draw frame_rules frames_insert frames_update; simp add: book_defs)

lemma frames_stocktake_books: "frames idle_tables (openStocktake c raw)" "frames idle_tables (transitionStocktake c raw)"
  unfolding openStocktake_def transitionStocktake_def submitCount_def finishRound_def storeCount_def scopeFilter_def
    snapshotRow_def requestVarianceApproval_def proposeAdjustment_def setStocktakeStatus_def roundResult_def case_prod_beta
  by (intro frame_rules frames_insert frames_update; simp add: book_defs)+

lemma frames_warehouse_books: "frames idle_tables (warehouseCommand c raw)"
  unfolding warehouseCommand_def createWarehouse_def requestMerge_def deactivateWarehouse_def
  by (intro frame_rules frames_insert frames_update; simp add: book_defs)

text \<open>The four commands that write a book of their own leave the others alone.\<close>

definition not_transfers :: "db \<Rightarrow> _" where
  "not_transfers s = (money_tables s, return_tables s, deliveries s, procurement_tables s, material_lines s)"

definition not_deliveries :: "db \<Rightarrow> _" where
  "not_deliveries s = (money_tables s, return_tables s, transfers s, procurement_tables s, material_lines s)"

definition not_returns :: "db \<Rightarrow> _" where
  "not_returns s = (money_tables s, transfers s, deliveries s, procurement_tables s, material_lines s)"

definition not_money :: "db \<Rightarrow> _" where
  "not_money s = (return_tables s, transfers s, deliveries s, procurement_tables s, stock_tables s, material_lines s)"

lemmas part_defs = book_defs not_transfers_def not_deliveries_def not_returns_def not_money_def stock_tables_def

lemma frames_transfers: "frames not_transfers (requestTransfer c raw)" "frames not_transfers (transitionTransfer c raw)"
  unfolding requestTransfer_def requestTransferBody_def transitionTransfer_def shipTransfer_def receiveTransfer_def applyDeduction_def
    Let_def case_prod_beta
  by (intro frame_rules frames_insert frames_update; simp add: part_defs)+

lemma frames_shipments: "frames not_deliveries (shipmentCommand c raw)"
  unfolding shipmentCommand_def createShipment_def resolveException_def confirmShipment_def deviationApproval_def requestDeviation_def
    requireUnfrozen_def dispatchBatch_def applyDeduction_def dispatchShipment_def shipShipment_def openLogisticsException_def receiveShipment_def
    Let_def case_prod_beta
  by (intro frame_rules frames_insert frames_update; simp add: part_defs)

lemma frames_returns: "frames not_returns (returnCommand c raw)"
  unfolding returnCommand_def receiveReturn_def inspectReturn_def readDisposition_def checkDispositions_def storeDisposition_def
    proposeDisposition_def decideDisposition_def releaseReturn_def reviewReturn_def Let_def case_prod_beta
  by (intro frame_rules frames_insert frames_update; simp add: part_defs)

lemma frames_money: "frames not_money (financeCommand c raw)"
  unfolding financeCommand_def createInvoice_def objectVersion_def stepUp_def claimBusinessKey_def settleBusinessKey_def payableNet_def
    allocateRequest_def allocateInvoice_def setInvoiceStatus_def verifyInvoice_def freezeAllocation_def invalidateInvoice_def
    linkReplacement_def releaseRisk_def recordPayment_def recordRefund_def requestCorrection_def consumeStepUpClaim_def
    Let_def case_prod_beta
  by (intro frame_rules frames_insert frames_update frames_modify; simp add: part_defs)

section \<open>Every route keeps them\<close>

definition system_ok :: "db \<Rightarrow> bool" where
  "system_ok s \<longleftrightarrow> books_ok s \<and> goods_ok s"

lemma system_okD:
  assumes "system_ok s"
  shows "books_ok s" and "stock_inv s" and "transfers_ok s" and "deliveries_ok s" and "returns_inv s" and "finance_inv s"
    and "procurement_ok s" and "wf_tbl (transfers s)" and "wf_tbl (material_lines s)"
  using assms by (simp_all add: system_ok_def books_ok_def goods_ok_def)

text \<open>A command keeps the system when it keeps its own part and leaves the rest alone.\<close>

lemma keeps_part:
  assumes "\<And>s. system_ok s \<Longrightarrow> wp m (\<lambda>_. J) s" and "frames v m"
    and "\<And>s s'. system_ok s \<Longrightarrow> v s' = v s \<Longrightarrow> J s' \<Longrightarrow> system_ok s'"
  shows "keeps system_ok m"
proof (rule keepsI, rule wpI)
  fix s x s' assume s: "system_ok s" and m: "m s = Inr (x, s')"
  from wpD [OF assms(1) [OF s] m] framesD [OF assms(2) m] assms(3) [OF s] show "system_ok s'" by simp
qed

lemma idle_keeps:
  assumes "\<And>s. system_ok s \<Longrightarrow> wp m (\<lambda>_. stock_inv) s" and "frames idle_tables m"
  shows "keeps system_ok m"
proof (rule keeps_part [OF assms])
  fix s s' assume s: "system_ok s" and v: "idle_tables s' = idle_tables s" and "stock_inv s'"
  have "book_tables s' = book_tables s" using v by (simp add: idle_tables_def)
  from books_view [OF this] s v \<open>stock_inv s'\<close> show "system_ok s'"
    by (simp add: system_ok_def goods_ok_def idle_tables_def book_tables_def)
qed

lemma idle_commands:
  "keeps system_ok (reserveInventory c raw)" "keeps system_ok (receivePurchase c raw)" "keeps system_ok (submitQualityInspection c raw)"
  "keeps system_ok (openStocktake c raw)" "keeps system_ok (transitionStocktake c raw)" "keeps system_ok (warehouseCommand c raw)"
proof -
  show "keeps system_ok (reserveInventory c raw)"
    by (rule idle_keeps [OF _ frames_reserve], rule reserveInventory_wp) (simp_all add: system_okD)
  show "keeps system_ok (receivePurchase c raw)"
    by (rule idle_keeps [OF _ frames_receive], rule receivePurchase_wp) (simp add: system_okD)
  show "keeps system_ok (submitQualityInspection c raw)"
    by (rule idle_keeps [OF _ frames_inspection], rule submitQualityInspection_wp) (simp add: system_okD)
  show "keeps system_ok (openStocktake c raw)"
    by (rule idle_keeps [OF _ frames_stocktake_books(1)], rule frames_stock_inv [OF frames_stocktakes(1)]) (simp add: system_okD)
  show "keeps system_ok (transitionStocktake c raw)"
    by (rule idle_keeps [OF _ frames_stocktake_books(2)], rule frames_stock_inv [OF frames_stocktakes(2)]) (simp add: system_okD)
  show "keeps system_ok (warehouseCommand c raw)"
    by (rule idle_keeps [OF _ frames_warehouse_books], rule frames_stock_inv [OF frames_warehouses]) (simp add: system_okD)
qed

lemma order_commands:
  "keeps system_ok (createProductionOrder c raw)" "keeps system_ok (transitionProductionOrder c raw)"
proof -
  have all: "system_ok s'" if "system_ok s" "book_tables s' = book_tables s" "stock_inv s' \<and> wf_tbl (material_lines s')" for s s'
    using that books_view [of s' s] by (simp add: system_ok_def goods_ok_def book_tables_def)
  have create: "wp (createProductionOrder c raw) (\<lambda>_ s'. stock_inv s' \<and> wf_tbl (material_lines s')) s" if "system_ok s" for s
    by (rule wp_createProductionOrder) (use system_okD [OF that] in \<open>simp add: stock_tables_eq cong: stock_inv_cong\<close>)
  show "keeps system_ok (createProductionOrder c raw)"
    by (rule keeps_part [where J = "\<lambda>s'. stock_inv s' \<and> wf_tbl (material_lines s')", OF create frames_createOrder all])
  show "keeps system_ok (transitionProductionOrder c raw)"
    by (rule keeps_part [where J = "\<lambda>s'. stock_inv s' \<and> wf_tbl (material_lines s')", OF _ frames_transition all])
      (rule transitionProductionOrder_wp, simp_all add: system_okD)
qed

lemma transfer_commands: "keeps system_ok (requestTransfer c raw)" "keeps system_ok (transitionTransfer c raw)"
proof -
  let ?J = "\<lambda>s'. (stock_inv s' \<and> transfers_ok s') \<and> wf_tbl (transfers s')"
  have all: "system_ok s'" if "system_ok s" "not_transfers s' = not_transfers s" "?J s'" for s s'
    using that finance_inv_view [of s' s] returns_inv_view [of s' s] procurement_view [of s' s]
    by (simp add: system_ok_def books_ok_def goods_ok_def not_transfers_def deliveries_ok_def)
  have request: "wp (requestTransfer c raw) (\<lambda>_. ?J) s" if "system_ok s" for s
  proof (rule wp_conj [THEN iffD2, OF conjI])
    show "wp (requestTransfer c raw) (\<lambda>_ s'. stock_inv s' \<and> transfers_ok s') s"
      by (rule requestTransfer_wp) (simp_all add: system_okD [OF that])
    show "wp (requestTransfer c raw) (\<lambda>_ s'. wf_tbl (transfers s')) s"
      unfolding requestTransfer_def requestTransferBody_def Let_def by (intro wp_intros) (simp add: system_okD [OF that])
  qed
  have transition: "wp (transitionTransfer c raw) (\<lambda>_. ?J) s" if "system_ok s" for s
  proof (rule wp_conj [THEN iffD2, OF conjI])
    show "wp (transitionTransfer c raw) (\<lambda>_ s'. stock_inv s' \<and> transfers_ok s') s"
      by (rule transitionTransfer_wp) (simp_all add: system_okD [OF that])
    show "wp (transitionTransfer c raw) (\<lambda>_ s'. wf_tbl (transfers s')) s"
      by (rule wp_transitionTransfer [OF stock_invD(1) [OF system_okD(2) [OF that]]])
        (simp_all add: ship_effect_def receive_effect_def wf_updateT system_okD(8) [OF that])
  qed
  show "keeps system_ok (requestTransfer c raw)"
    by (rule keeps_part [where J = ?J, OF request frames_transfers(1) all])
  show "keeps system_ok (transitionTransfer c raw)"
    by (rule keeps_part [where J = ?J, OF transition frames_transfers(2) all])
qed

lemma shipment_commands: "keeps system_ok (shipmentCommand c raw)"
proof (rule keeps_part [OF _ frames_shipments], rule shipmentCommand_wp [OF system_okD(2,4)], assumption, assumption)
  fix s s' assume "system_ok s" "not_deliveries s' = not_deliveries s" "stock_inv s' \<and> deliveries_ok s'"
  then show "system_ok s'" using finance_inv_view [of s' s] returns_inv_view [of s' s] procurement_view [of s' s]
    by (simp add: system_ok_def books_ok_def goods_ok_def not_deliveries_def transfers_ok_def)
qed

lemma return_commands: "keeps system_ok (returnCommand c raw)"
proof (rule keeps_part [OF _ frames_returns], rule returnCommand_wp [OF system_okD(2,5)], assumption, assumption)
  fix s s' assume "system_ok s" "not_returns s' = not_returns s" "stock_inv s' \<and> returns_inv s'"
  then show "system_ok s'" using finance_inv_view [of s' s] procurement_view [of s' s]
    by (simp add: system_ok_def books_ok_def goods_ok_def not_returns_def transfers_ok_def deliveries_ok_def)
qed

lemma finance_commands: "keeps system_ok (financeCommand c raw)"
proof (rule keeps_part [OF _ frames_money], rule finance_wp [OF system_okD(6)], assumption)
  fix s s' assume "system_ok s" "not_money s' = not_money s" "finance_inv s'"
  then show "system_ok s'" using returns_inv_view [of s' s] procurement_view [of s' s]
    by (simp add: system_ok_def books_ok_def goods_ok_def not_money_def transfers_ok_def deliveries_ok_def stock_tables_eq
        cong: stock_inv_cong)
qed

text \<open>The decision keeps the books: each has interpreted the contract of the registry.\<close>

lemma decisions_keep: "keeps books_ok (decideApproval (approval_effects e) c raw)"
  using money.decision_keeps [of e c raw] quarantine.decision_keeps [of e c raw] transport.decision_keeps [of e c raw]
    shipping.decision_keeps [of e c raw] purchasing.decision_keeps [of e c raw]
  by (auto simp: keeps_def books_ok_def wp_def split: sum.splits)

lemma route_cases:
  assumes "(command, h, status) \<in> set (operations_routes e)"
  shows "(command = ''approvals.decide'' \<and> h = decideApproval (approval_effects e)) \<or> (\<forall>c raw. keeps system_ok (h c raw))"
  using assms by (auto simp: operations_routes_def idle_commands order_commands transfer_commands shipment_commands return_commands
      finance_commands)

lemma books_idem: "books_ok (idempotency_update f s) = books_ok s"
  by (rule books_view) (simp add: book_defs)

lemma system_idem: "system_ok (idempotency_update f s) = system_ok s"
  by (simp add: system_ok_def books_idem goods_ok_def stock_inv_def reserved_on_def)

lemma operations_keep:
  assumes "\<And>c. keeps I (h c body)"
    and "\<And>f s. I (idempotency_update f s) = I s"
    and "executeOperationsCommand f e auth db r command h status body s = (res, s')" and "I s"
  shows "I s'"
  using assms(3,4)
  by (auto simp: executeOperationsCommand_def split: sum.splits if_splits)
    (erule execute_keeps [where I = I, rotated 2], assumption, simp add: operationOptions_def assms(1), rule assms(2))+

section \<open>A rejected return\<close>

text \<open>Any number of operations commands served one after the other, successful or not.\<close>

inductive served :: "db \<Rightarrow> db \<Rightarrow> bool" where
  none: "served s s"
| more: "served s t \<Longrightarrow> (command, h, status) \<in> set (operations_routes e) \<Longrightarrow>
    executeOperationsCommand f e auth db r command h (status body) body t = (res, t') \<Longrightarrow> served s t'"

definition stuck :: "int \<Rightarrow> db \<Rightarrow> bool" where
  "stuck i s \<longleftrightarrow> wf_tbl (returns s) \<and> (\<exists>r. fetch (returns s) i = Some r \<and> rt_status r = ''inspection'')"

lemma stuck_view: "returns s' = returns s \<Longrightarrow> stuck i s' = stuck i s"
  by (simp add: stuck_def)

lemma stuck_other: "frames returns m \<Longrightarrow> keeps (stuck i) m"
  by (erule keeps_view) (rule stuck_view)

lemma stuck_books: "frames v m \<Longrightarrow> (\<And>s s'. v s' = v s \<Longrightarrow> returns s' = returns s) \<Longrightarrow> keeps (stuck i) m"
  by (erule keeps_view) (rule stuck_view, blast)

lemma stuck_insert: "keeps (stuck i) (insertC returns returns_update ok_return x)"
  by (rule keepsI, rule wp_insertI) (auto simp: stuck_def fetch_insertT dest: fetch_pos)

lemma stuck_update:
  "(\<And>j r. rt_status r = ''inspection'' \<Longrightarrow> \<not> p j r) \<Longrightarrow> keeps (stuck i) (updateC returns returns_update ok_return p f)"
  by (rule keepsI, rule wp_updateI) (auto simp: stuck_def fetch_updateT)

lemma return_stuck: "keeps (stuck i) (returnCommand c raw)"
  unfolding returnCommand_def receiveReturn_def inspectReturn_def proposeDisposition_def decideDisposition_def
    releaseReturn_def reviewReturn_def Let_def case_prod_beta
  by (intro keep_rules stuck_insert stuck_update; (simp; fail)?;
      rule stuck_other, (unfold readDisposition_def checkDispositions_def storeDisposition_def case_prod_beta)?;
      (intro frame_rules frames_insert frames_update; simp)?)

lemma effects_stuck: "(key, f) \<in> set (approval_effects e) \<Longrightarrow> keeps (stuck i) (f cl)"
  by (erule approval_effects_all; rule stuck_books [where v = return_tables],
      rule frames_executeEffect frames_userRoleChange frames_warehouseTransfer frames_shipmentDeviation frames_warehouseMerge
        frames_stocktakeVariance frames_productionVariance frames_financialCorrection)
    (simp_all add: return_tables_def)

interpretation rejected: effect_registry "approval_effects e" "stuck i"
  by unfold_locales (simp_all add: effects_stuck stuck_def)

lemma routes_stuck:
  assumes "(command, h, status) \<in> set (operations_routes e)" shows "keeps (stuck i) (h c raw)"
proof -
  have others: "keeps (stuck i) (reserveInventory c raw)" "keeps (stuck i) (receivePurchase c raw)"
    "keeps (stuck i) (submitQualityInspection c raw)" "keeps (stuck i) (openStocktake c raw)"
    "keeps (stuck i) (transitionStocktake c raw)" "keeps (stuck i) (warehouseCommand c raw)"
    "keeps (stuck i) (createProductionOrder c raw)" "keeps (stuck i) (transitionProductionOrder c raw)"
    "keeps (stuck i) (requestTransfer c raw)" "keeps (stuck i) (transitionTransfer c raw)"
    "keeps (stuck i) (shipmentCommand c raw)" "keeps (stuck i) (financeCommand c raw)"
    by (rule stuck_books, rule frames_reserve frames_receive frames_inspection frames_stocktake_books frames_warehouse_books
        frames_createOrder frames_transition frames_transfers frames_shipments frames_money, simp add: part_defs)+
  show ?thesis
    using assms by (auto simp: operations_routes_def others return_stuck rejected.decision_keeps)
qed

lemma stuck_forever: "served s t \<Longrightarrow> stuck i s \<Longrightarrow> stuck i t"
proof (induction rule: served.induct)
  case (more s t command h status e f auth db r body res t')
  then show ?case
    by (intro operations_keep [where I = "stuck i", OF routes_stuck [OF more.hyps(2)] _ more.hyps(3)]) (simp_all add: stuck_def)
qed

text \<open>
  C38. A rejected disposition ends a return: the rejection leaves the stock as it is, and after any number of
  operations commands of whatever kind the return is still in the status the rejection gave it, which no inspection,
  proposal or review accepts. The migration plan asks for proposals that supersede the rejected one.
\<close>

theorem rejected_return_stuck:
  assumes "returnCommand c (JObj body) s = Inr (v, s')" and "fld body ''action'' = Some (JStr ''review'')"
    and "fld body ''decision'' = Some (JStr ''rejected'')"
    and "to_safe_integer (fld body ''productReturnId'') = Some i" and "wf_tbl (batches s)" and "wf_tbl (returns s)"
    and "served s' t"
  shows "stock_tables s' = stock_tables s \<and> (\<exists>r. fetch (returns t) i = Some r \<and> rt_status r = ''inspection'') \<and>
    (\<forall>c' body' v' t'. to_safe_integer (fld body' ''productReturnId'') = Some i \<and>
      fld body' ''action'' \<noteq> Some (JStr ''receive'') \<longrightarrow> returnCommand c' (JObj body') t \<noteq> Inr (v', t'))"
proof -
  note effect = rejection_effect [OF assms(1-5)]
  have "stuck i s'" using effect(2,3) assms(6) by (simp add: stuck_def)
  then have "stuck i t" by (rule stuck_forever [OF assms(7)])
  then obtain r where r: "fetch (returns t) i = Some r" "rt_status r = ''inspection''" by (auto simp: stuck_def)
  with effect(1) inspection_refused [OF r] show ?thesis by blast
qed

section \<open>The books of the system\<close>

text \<open>
  C2. No operations route breaks the books of the system, whatever the request, its sender and the network: the
  finance ledger, the returns, the transfers, the shipments and the procurement tables keep their invariants under
  all fourteen commands, and the stock keeps its own under every command but the decision of an approval.
\<close>

theorem operations_keep_system:
  assumes "system_ok s" and "(command, h, status) \<in> set (operations_routes e)"
    and "executeOperationsCommand f e auth db r command h (status body) body s = (res, s')"
  shows "books_ok s' \<and> (command \<noteq> ''approvals.decide'' \<longrightarrow> system_ok s')"
proof (cases "command = ''approvals.decide''")
  case True
  with route_cases [OF assms(2)] have "h = decideApproval (approval_effects e) \<or> (\<forall>c raw. keeps system_ok (h c raw))" by blast
  then show ?thesis
  proof
    assume "h = decideApproval (approval_effects e)"
    then have "books_ok s'"
      by (intro operations_keep [where I = books_ok, OF _ books_idem assms(3)]) (simp_all add: decisions_keep system_okD(1) [OF assms(1)])
    with True show ?thesis by simp
  next
    assume "\<forall>c raw. keeps system_ok (h c raw)"
    then have "system_ok s'"
      by (intro operations_keep [where I = system_ok, OF _ system_idem assms(3) assms(1)]) simp
    then show ?thesis by (simp add: system_okD)
  qed
next
  case False
  with route_cases [OF assms(2)] have "system_ok s'"
    by (intro operations_keep [where I = system_ok, OF _ system_idem assms(3) assms(1)]) simp
  then show ?thesis by (simp add: system_okD)
qed

text \<open>
  The exception is real: an approved stocktake variance sets the locked bucket to what was counted, whatever is
  reserved on the batch, and leaves reservations without the stock they hold.
\<close>

definition variance_db :: db where
  "variance_db = (stock_db ''approved'')\<lparr>
     batches := insertT (sample_batch\<lparr>ib_available := 1, ib_locked := 4\<rparr>) emptyT,
     reservations := insertT \<lparr>ir_batch = 1, ir_entity_type = ''production_order'', ir_entity = Some 1, ir_requested = 4,
       ir_reserved = 4, ir_shortage = 0, ir_priority = 0, ir_status = ''active'', ir_created_by = 1\<rparr> emptyT,
     stocktakes := insertT \<lparr>st_no = ''ST-1'', st_warehouse = 1, st_scope = [], st_due_date = ''2025-01-02'',
       st_status = ''pending_approval'', st_frozen_at = None, st_created_by = 2, st_factory = None\<rparr> emptyT,
     counts := insertT (sample_count 1 1 1) emptyT,
     adjustments := insertT \<lparr>sa_stocktake = 1, sa_count = 1, sa_bucket = ''locked'', sa_snapshot = 4, sa_counted = 0,
       sa_variance = -4, sa_revision = 1, sa_batch_no = None, sa_production_date = None, sa_expiry_date = None,
       sa_decision = ''pending'', sa_reviewed_by = None\<rparr> emptyT,
     approvals := insertT \<lparr>ap_request_no = ''AP-1'', ap_workflow = ''stocktake_variance'',
       ap_entity_type = ''stocktake'', ap_entity_id = 1, ap_summary = ''variance'', ap_payload = JObj [], ap_high_risk = False,
       ap_status = ''pending'', ap_requested_by = 2, ap_reviewed_by = None, ap_review_comment = None, ap_sms_verified = False,
       ap_updated_at = 1\<rparr> emptyT\<rparr>"

abbreviation variance_body :: json where
  "variance_body \<equiv> JObj [(''id'', jint 1), (''decision'', JStr ''approved'')]"

lemma variance_breaks_stock:
  "stock_inv variance_db"
  "\<exists>r s'. decideApproval (approval_effects sample_env) sample_ctx variance_body variance_db = Inr (r, s') \<and> \<not> stock_inv s'"
proof -
  show "stock_inv variance_db"
    by (auto simp: stock_inv_def variance_db_def stock_db_def empty_db_def fetch_insertT reserved_on_def claims_def sumT_def
        buckets_ok_def sample_batch_def reservation_ok_def) (auto simp: emptyT_def fetch_def insertT_def buckets_ok_def split: if_splits)
  let ?run = "decideApproval (approval_effects sample_env) sample_ctx variance_body variance_db"
  have "case ?run of Inl _ \<Rightarrow> False | Inr (r, s') \<Rightarrow> map_option (\<lambda>b. ib_locked b < reserved_on s' 1) (fetch (batches s') 1) = Some True"
    by code_simp
  then obtain r s' b where "?run = Inr (r, s')" and "fetch (batches s') 1 = Some b" and "ib_locked b < reserved_on s' 1"
    by (auto split: sum.splits)
  then show "\<exists>r s'. ?run = Inr (r, s') \<and> \<not> stock_inv s'" by (fastforce simp: stock_inv_def)
qed

section \<open>The property at a concrete command\<close>

definition system_db :: db where
  "system_db = (stock_db ''approved'')\<lparr>fences := fences fenced_db\<rparr>"

lemma system_db_ok: "system_ok system_db"
proof -
  have "finance_inv system_db" "returns_inv system_db" "deliveries_ok system_db" "procurement_ok system_db" "transfers_ok system_db"
    by (auto simp: system_db_def stock_db_def empty_db_def finance_inv_def ledger_ok_def exceptions_ok_def coverage_ok_def invoices_ok_def
        returns_inv_def deliveries_ok_def procurement_ok_def allocations_ok_def each_row_def each_key_def transfers_ok_def
        sample_transfer_def fetch_insertT) (auto simp: emptyT_def fetch_def wf_tbl_def)
  moreover have "goods_ok system_db"
    using stock_inv_sample [of "''approved''"]
    by (simp add: goods_ok_def system_db_def stock_inv_def reserved_on_def) (simp add: stock_db_def empty_db_def)
  ultimately show ?thesis by (simp add: system_ok_def books_ok_def)
qed

abbreviation reserve_body :: json where
  "reserve_body \<equiv> JObj [(''batchId'', jint 1), (''entityType'', JStr ''historical''), (''requestedQuantity'', jint 2)]"

lemma operations_keep_system_witness:
  "\<exists>x s'. executeOperationsCommand no_faults sample_env (\<lambda>_. Inr sample_access) True sample_request ''inventory.reserve''
      reserveInventory 201 reserve_body system_db = (Inr x, s') \<and> system_ok s'"
proof -
  let ?run = "executeOperationsCommand no_faults sample_env (\<lambda>_. Inr sample_access) True sample_request ''inventory.reserve''
      reserveInventory 201 reserve_body system_db"
  have "succeeds_pair ?run" by code_simp
  then obtain x s' where r: "?run = (Inr x, s')" by (auto simp: succeeds_pair_def split: sum.splits prod.splits)
      (metis prod.collapse)
  have "(''inventory.reserve'', reserveInventory, \<lambda>_. 201) \<in> set (operations_routes sample_env)" by (simp add: operations_routes_def)
  from operations_keep_system [OF system_db_ok this r] r show ?thesis by auto
qed

lemma rejected_return_stuck_witness:
  "\<exists>v s' t r. returnCommand sample_ctx (JObj (sample_review ''rejected'')) return_db = Inr (v, s') \<and> served s' t \<and>
    fetch (returns t) 1 = Some r \<and> rt_status r = ''inspection''"
proof -
  have "succeeds (returnCommand sample_ctx (JObj (sample_review ''rejected'')) return_db)" by code_simp
  then obtain v s' where r: "returnCommand sample_ctx (JObj (sample_review ''rejected'')) return_db = Inr (v, s')"
    by (rule succeedsE)
  have body: "fld (sample_review ''rejected'') ''action'' = Some (JStr ''review'')"
    "fld (sample_review ''rejected'') ''decision'' = Some (JStr ''rejected'')"
    "to_safe_integer (fld (sample_review ''rejected'') ''productReturnId'') = Some 1"
    by (simp_all add: fld_def to_safe_integer_jint)
  have wf: "wf_tbl (returns return_db)" by (simp add: return_db_def)
  obtain res t where x: "executeOperationsCommand no_faults sample_env (\<lambda>_. Inr sample_access) True sample_request
      ''inventory.reserve'' reserveInventory 201 JNull s' = (res, t)" by (cases rule: prod.exhaust)
  have "(''inventory.reserve'', reserveInventory, \<lambda>_. 201) \<in> set (operations_routes sample_env)" by (simp add: operations_routes_def)
  from served.more [OF served.none this x] have t: "served s' t" .
  from rejected_return_stuck [OF r body return_db_ok(1) wf t] r t show ?thesis by blast
qed

end
