(* ===== verification/Worker.thy ===== *)
theory Worker
  imports Support Digest
begin

text \<open>
  The background worker, \<open>apps/worker/src/server.ts\<close> and \<open>providers.ts\<close>: it leases messages of the
  outbox, hands them to the delivery providers or turns them into notifications, and completes,
  retries, pauses or abandons them; it also sweeps the reminder schedule. A worker transaction is
  \<open>inTransaction\<close>; the HTTP endpoints, the decipher and the database connection are arguments.
\<close>

section \<open>Environment\<close>

text \<open>
  \<open>we_sql_in_1s\<close> and \<open>we_sql_in_5y\<close> are the values of \<open>DATE_ADD(CURRENT_TIMESTAMP(3), ...)\<close>.
\<close>

record wenv =
  we_env :: env
  we_id :: string
  we_sql_in_1s :: string
  we_sql_in_5y :: string

definition leaseMs :: int where
  "leaseMs = 5 * 60000"

definition maxBatch :: nat where
  "maxBatch = 25"

definition writerGeneration :: int where
  "writerGeneration = 2"

definition writerOwner :: string where
  "writerOwner = ''worker-v1''"

definition workerFenceResources :: "string list" where
  "workerFenceResources = [''outbox.worker'', ''reminders.worker'', ''files.worker'']"

definition wnow :: "wenv \<Rightarrow> string" where
  "wnow w = js_now (we_env w)"

definition staleBefore :: "wenv \<Rightarrow> string" where
  "staleBefore w = js_after (we_env w) (- leaseMs)"

text \<open>
  A transaction of the worker: begin, body, commit, with a rollback in the \<open>catch\<close>. A statement
  or the connection may break, and the answer to COMMIT may be lost after it was applied.
\<close>

datatype tx_fault = TxOk | TxBroken | CommitLost bool

definition inTransaction :: "tx_fault \<Rightarrow> ('s, 'a) cmd \<Rightarrow> 's \<Rightarrow> (error + 'a) \<times> 's" where
  "inTransaction f m s = (if f = TxBroken then (Inl (InternalError ''connection''), s) else
     (case m s of
        Inl e \<Rightarrow> (Inl e, s)
      | Inr (x, s') \<Rightarrow> (case f of
          CommitLost applied \<Rightarrow> (Inl (DatabaseClientError DATABASE_TRANSACTION_OUTCOME_UNKNOWN),
            if applied then s' else s)
        | _ \<Rightarrow> (Inr x, s'))))"

section \<open>Fences\<close>

definition requireFence :: "string \<Rightarrow> unit run" where
  "requireFence resource =
     bindC (queryC (\<lambda>s. fences s resource)) (\<lambda>row.
     guardC (case row of None \<Rightarrow> False
       | Some f \<Rightarrow> f_owner f = writerOwner \<and> f_generation f = writerGeneration \<and> f_enabled f) FencePaused)"

definition requireWorkerFenceIdentities :: "unit run" where
  "requireWorkerFenceIdentities = eachC (\<lambda>resource.
     bindC (queryC (\<lambda>s. fences s resource)) (\<lambda>row.
     guardC (case row of None \<Rightarrow> False
       | Some f \<Rightarrow> f_owner f = writerOwner \<and> f_generation f = writerGeneration)
       (InternalError (''Worker fence identity mismatch: '' @ resource)))) workerFenceResources"

section \<open>Leases\<close>

text \<open>\<open>OutboxRow\<close>: what a worker remembers of the message it leased.\<close>

record lease =
  ls_id :: int
  ls_topic :: string
  ls_payload :: json
  ls_dedup :: string
  ls_attempts :: int
  ls_max :: int

definition redacted :: json where
  "redacted = JObj [(''redacted'', JBool True)]"

definition redact :: "outbox \<Rightarrow> outbox" where
  "redact r = (if ob_topic r = ''sms.deliver'' then r\<lparr>ob_payload := redacted\<rparr> else r)"

text \<open>The lease predicate \<open>WHERE id = ? AND status = 'processing' AND locked_by = ?\<close>.\<close>

definition owns :: "wenv \<Rightarrow> int \<Rightarrow> int \<Rightarrow> outbox \<Rightarrow> bool" where
  "owns w i j r \<longleftrightarrow> j = i \<and> ob_status r = ''processing'' \<and> ob_locked_by r = Some (we_id w)"

definition completeLease :: "wenv \<Rightarrow> lease \<Rightarrow> unit run" where
  "completeLease w row =
     bindC (updateC outbox_messages outbox_messages_update ok_outbox (owns w (ls_id row))
       (\<lambda>r. r\<lparr>ob_status := ''completed'', ob_completed_at := Some (wnow w), ob_locked_by := None,
         ob_locked_at := None, ob_last_error := None\<rparr>)) (\<lambda>completed.
     guardC (completed = 1) (InternalError ''outbox completion lease lost''))"

definition exhausted :: "wenv \<Rightarrow> outbox \<Rightarrow> bool" where
  "exhausted w r \<longleftrightarrow> ob_status r = ''processing'' \<and>
     (case ob_locked_at r of None \<Rightarrow> False | Some t \<Rightarrow> t < staleBefore w) \<and> ob_max_attempts r \<le> ob_attempts r"

definition claimable :: "wenv \<Rightarrow> outbox \<Rightarrow> bool" where
  "claimable w r \<longleftrightarrow> ob_attempts r < ob_max_attempts r \<and> ob_available_at r \<le> wnow w \<and>
     (ob_status r = ''pending'' \<or>
      ob_status r = ''processing'' \<and> (case ob_locked_at r of None \<Rightarrow> False | Some t \<Rightarrow> t < staleBefore w))"

definition claim :: "wenv \<Rightarrow> lease option run" where
  "claim w =
     bindC (requireFence ''outbox.worker'') (\<lambda>_.
     bindC (updateC outbox_messages outbox_messages_update ok_outbox (\<lambda>_. exhausted w)
       (\<lambda>r. redact (r\<lparr>ob_status := ''dead'', ob_locked_by := None, ob_locked_at := None,
         ob_last_error := Some ''LEASE_EXHAUSTED''\<rparr>))) (\<lambda>_.
     bindC (queryC (\<lambda>s. sort_key (\<lambda>(i, r). (ob_available_at r, i))
       (select (outbox_messages s) (\<lambda>_. claimable w)))) (\<lambda>found.
     (case found of
        [] \<Rightarrow> returnC None
      | (i, r) # _ \<Rightarrow>
          bindC (updateC outbox_messages outbox_messages_update ok_outbox (\<lambda>j r. j = i \<and> True)
            (\<lambda>r. r\<lparr>ob_status := ''processing'', ob_locked_by := Some (we_id w), ob_locked_at := Some (wnow w),
              ob_attempts := ob_attempts r + 1\<rparr>)) (\<lambda>n.
          bindC (guardC (n = 1) (InternalError ''claim failed'')) (\<lambda>_.
          returnC (Some \<lparr>ls_id = i, ls_topic = ob_topic r, ls_payload = ob_payload r, ls_dedup = ob_dedup r,
            ls_attempts = ob_attempts r + 1, ls_max = ob_max_attempts r\<rparr>)))))))"

definition pause :: "wenv \<Rightarrow> lease \<Rightarrow> unit run" where
  "pause w row =
     bindC (updateC outbox_messages outbox_messages_update ok_outbox (owns w (ls_id row))
       (\<lambda>r. r\<lparr>ob_status := ''pending'', ob_available_at := we_sql_in_1s w,
         ob_attempts := max (ob_attempts r - 1) 0, ob_locked_by := None, ob_locked_at := None,
         ob_last_error := Some ''WRITER_FENCE_PAUSED''\<rparr>)) (\<lambda>paused.
     guardC (paused = 1) (InternalError ''outbox pause lease lost''))"

section \<open>Payloads\<close>

definition parsePayload :: "json \<Rightarrow> (string \<times> json) list run" where
  "parsePayload v = (case v of JObj kvs \<Rightarrow> returnC kvs | _ \<Rightarrow> throwC (PermanentFailure ''INVALID_PAYLOAD''))"

definition payloadText :: "(string \<times> json) list \<Rightarrow> string \<Rightarrow> string run" where
  "payloadText payload name = (case fld payload name of
       Some (JStr s) \<Rightarrow> if s = [] \<or> 10000 < length s then throwC (PermanentFailure ''INVALID_PAYLOAD'')
         else returnC s
     | _ \<Rightarrow> throwC (PermanentFailure ''INVALID_PAYLOAD''))"

definition markEmailSent :: "wenv \<Rightarrow> string \<Rightarrow> (string \<times> json) list \<Rightarrow> unit run" where
  "markEmailSent w topic payload =
     (if topic = ''email.deliver'' then
        (case to_safe_integer (fld payload ''messageId'') of
           None \<Rightarrow> returnC ()
         | Some messageId \<Rightarrow>
             bindC (updateC notifications notifications_update ok_notification
               (\<lambda>i r. i = messageId \<and> nm_channel r = ''email'')
               (\<lambda>r. r\<lparr>nm_status := ''sent'', nm_sent_at := Some (wnow w), nm_error := None\<rparr>)) (\<lambda>_. returnC ()))
      else returnC ())"

definition complete :: "wenv \<Rightarrow> lease \<Rightarrow> unit run" where
  "complete w row =
     bindC (requireFence ''outbox.worker'') (\<lambda>_.
     bindC (parsePayload (ls_payload row)) (\<lambda>payload.
     bindC (updateC outbox_messages outbox_messages_update ok_outbox (owns w (ls_id row))
       (\<lambda>r. redact (r\<lparr>ob_status := ''completed'', ob_completed_at := Some (wnow w), ob_locked_by := None,
         ob_locked_at := None, ob_last_error := None\<rparr>))) (\<lambda>completed.
     bindC (guardC (completed = 1) (InternalError ''outbox completion lease lost'')) (\<lambda>_.
     markEmailSent w (ls_topic row) payload))))"

text \<open>\<open>error instanceof PermanentFailure || error instanceof PermanentProviderFailure\<close>, with its code.\<close>

fun permanent_code :: "error \<Rightarrow> string option" where
  "permanent_code (PermanentFailure code) = Some code"
| "permanent_code (PermanentProviderFailure code) = Some code"
| "permanent_code _ = None"

definition delaySeconds :: "int \<Rightarrow> int" where
  "delaySeconds attempts = min 3600 (2 ^ nat (min attempts 10) * 5)"

definition fail :: "wenv \<Rightarrow> lease \<Rightarrow> error \<Rightarrow> unit run" where
  "fail w row err =
     (let dead = (permanent_code err \<noteq> None \<or> ls_max row \<le> ls_attempts row);
          code = (case permanent_code err of Some c \<Rightarrow> c | None \<Rightarrow> ''DELIVERY_FAILED'')
      in bindC (updateC outbox_messages outbox_messages_update ok_outbox (owns w (ls_id row))
           (\<lambda>r. (if dead then redact else id)
             (r\<lparr>ob_status := (if dead then ''dead'' else ''pending''),
               ob_available_at := js_after (we_env w) (delaySeconds (ls_attempts row) * 1000),
               ob_locked_by := None, ob_locked_at := None, ob_last_error := Some code\<rparr>))) (\<lambda>failed.
         guardC (failed = 1) (InternalError ''outbox failure lease lost'')))"

section \<open>Providers\<close>

text \<open>
  \<open>net\<close> answers an HTTP call: nothing when it fails or times out, otherwise the status and the JSON
  body when there is one. \<open>decrypt\<close> is the AES-256-GCM decipher (key, iv, ciphertext, tag).
\<close>

record endpoint =
  ep_key :: string
  ep_health :: string
  ep_url :: string

record providers =
  pv_email :: endpoint
  pv_scanner :: endpoint
  pv_sms :: endpoint
  pv_keys :: "(string \<times> string) list"

record call =
  ca_url :: string
  ca_method :: string
  ca_key :: string
  ca_body :: "string option"
  ca_idempotency :: "string option"

type_synonym net = "call \<Rightarrow> (int \<times> json option) option"
type_synonym decipher = "string \<Rightarrow> string \<Rightarrow> string \<Rightarrow> string \<Rightarrow> string option"

definition requiredEnv :: "(string \<Rightarrow> string option) \<Rightarrow> string \<Rightarrow> error + string" where
  "requiredEnv environment name = (case map_option trim (environment name) of
       Some (c # cs) \<Rightarrow> Inr (c # cs)
     | _ \<Rightarrow> Inl (InternalError (name @ '' is required'')))"

definition endpoint_of :: "(string \<Rightarrow> string option) \<Rightarrow> string \<Rightarrow> error + endpoint" where
  "endpoint_of environment prefix =
     (case requiredEnv environment (prefix @ ''_API_KEY'') of Inl e \<Rightarrow> Inl e | Inr key \<Rightarrow>
     (case requiredEnv environment (prefix @ ''_HEALTH_URL'') of Inl e \<Rightarrow> Inl e | Inr health \<Rightarrow>
     (case requiredEnv environment (prefix @ ''_URL'') of Inl e \<Rightarrow> Inl e | Inr url \<Rightarrow>
       Inr \<lparr>ep_key = key, ep_health = health, ep_url = url\<rparr>)))"

definition hex_char :: "char \<Rightarrow> bool" where
  "hex_char c \<longleftrightarrow> is_digit c \<or> c \<in> set ''abcdefABCDEF''"

definition sealing_keys :: "(string \<times> json) list \<Rightarrow> (string \<times> string) list option" where
  "sealing_keys kvs =
     (if list_all (\<lambda>(k, v). case v of JStr t \<Rightarrow> length t = 64 \<and> list_all hex_char t | _ \<Rightarrow> False) kvs
      then Some (map (\<lambda>(k, v). (k, case v of JStr t \<Rightarrow> t | _ \<Rightarrow> [])) kvs) else None)"

definition readWorkerProviders :: "(string \<Rightarrow> json option) \<Rightarrow> (string \<Rightarrow> string option) \<Rightarrow> error + providers" where
  "readWorkerProviders parse environment =
     (case requiredEnv environment ''OTP_SEALING_KEYS_JSON'' of Inl e \<Rightarrow> Inl e | Inr raw \<Rightarrow>
     (case parse raw of
        Some (JObj kvs) \<Rightarrow> (case sealing_keys kvs of
            None \<Rightarrow> Inl (InternalError ''OTP sealing keys must be 32-byte hexadecimal values'')
          | Some keys \<Rightarrow> if keys = [] then Inl (InternalError ''At least one OTP sealing key is required'') else
             (case endpoint_of environment ''EMAIL_WEBHOOK'' of Inl e \<Rightarrow> Inl e | Inr email \<Rightarrow>
             (case endpoint_of environment ''FILE_SCAN_WEBHOOK'' of Inl e \<Rightarrow> Inl e | Inr scanner \<Rightarrow>
             (case endpoint_of environment ''SMS_WEBHOOK'' of Inl e \<Rightarrow> Inl e | Inr sms \<Rightarrow>
               Inr \<lparr>pv_email = email, pv_scanner = scanner, pv_sms = sms, pv_keys = keys\<rparr>))))
      | _ \<Rightarrow> Inl (InternalError ''OTP_SEALING_KEYS_JSON must be a JSON object'')))"

definition provider_request :: "net \<Rightarrow> endpoint \<Rightarrow> string \<Rightarrow> string option \<Rightarrow> string option \<Rightarrow> error + json option" where
  "provider_request net ep verb body key =
     (case net \<lparr>ca_url = (if verb = ''GET'' then ep_health ep else ep_url ep), ca_method = verb,
         ca_key = ep_key ep, ca_body = body, ca_idempotency = key\<rparr> of
        None \<Rightarrow> Inl (InternalError ''fetch failed'')
      | Some (status, answer) \<Rightarrow>
          if 200 \<le> status \<and> status \<le> 299 then Inr answer
          else if 400 \<le> status \<and> status < 500 \<and> status \<noteq> 429
            then Inl (PermanentProviderFailure (''PROVIDER_'' @ show_int status))
          else Inl (InternalError (''PROVIDER_'' @ show_int status)))"

definition checkProviders :: "net \<Rightarrow> providers \<Rightarrow> error + unit" where
  "checkProviders net pv =
     (case provider_request net (pv_email pv) ''GET'' None None of Inl e \<Rightarrow> Inl e | Inr _ \<Rightarrow>
     (case provider_request net (pv_sms pv) ''GET'' None None of Inl e \<Rightarrow> Inl e | Inr _ \<Rightarrow>
     (case provider_request net (pv_scanner pv) ''GET'' None None of Inl e \<Rightarrow> Inl e | Inr _ \<Rightarrow> Inr ())))"

definition deliverEmail :: "net \<Rightarrow> providers \<Rightarrow> json \<Rightarrow> string \<Rightarrow> error + unit" where
  "deliverEmail net pv payload key =
     (case provider_request net (pv_email pv) ''POST'' (Some (plain_json payload)) (Some key) of
        Inl e \<Rightarrow> Inl e | Inr _ \<Rightarrow> Inr ())"

definition unsealOtp :: "decipher \<Rightarrow> providers \<Rightarrow> json option \<Rightarrow> error + string" where
  "unsealOtp decrypt pv v = (case v of
       Some (JObj kvs) \<Rightarrow> (case (fld kvs ''keyId'', fld kvs ''iv'', fld kvs ''ciphertext'', fld kvs ''tag'') of
           (Some (JStr keyId), Some (JStr iv), Some (JStr ciphertext), Some (JStr authTag)) \<Rightarrow>
             (case map_of (pv_keys pv) keyId of
                None \<Rightarrow> Inl (PermanentProviderFailure ''OTP_SEALING_KEY_UNAVAILABLE'')
              | Some key \<Rightarrow> (case decrypt key iv ciphertext authTag of
                    None \<Rightarrow> Inl (PermanentProviderFailure ''INVALID_SEALED_OTP'')
                  | Some code \<Rightarrow> Inr code))
         | _ \<Rightarrow> Inl (PermanentProviderFailure ''INVALID_SEALED_OTP''))
     | _ \<Rightarrow> Inl (PermanentProviderFailure ''INVALID_SEALED_OTP''))"

text \<open>\<open>{ ...payload, sealedCode: undefined, code }\<close> as text: an undefined property is left out.\<close>

definition outbound_sms :: "(string \<times> json) list \<Rightarrow> string \<Rightarrow> json" where
  "outbound_sms payload code = (let rest = filter (\<lambda>(k, v). k \<noteq> ''sealedCode'') payload in
     JObj (if fld rest ''code'' = None then rest @ [(''code'', JStr code)]
       else map (\<lambda>(k, v). (k, if k = ''code'' then JStr code else v)) rest))"

definition deliverSms :: "net \<Rightarrow> decipher \<Rightarrow> providers \<Rightarrow> (string \<times> json) list \<Rightarrow> string \<Rightarrow> error + unit" where
  "deliverSms net decrypt pv payload key = (case unsealOtp decrypt pv (fld payload ''sealedCode'') of
       Inl e \<Rightarrow> Inl e
     | Inr code \<Rightarrow> (case provider_request net (pv_sms pv) ''POST''
           (Some (plain_json (outbound_sms payload code))) (Some key) of Inl e \<Rightarrow> Inl e | Inr _ \<Rightarrow> Inr ()))"

definition scanFile :: "net \<Rightarrow> providers \<Rightarrow> json \<Rightarrow> string \<Rightarrow> error + string" where
  "scanFile net pv payload key =
     (case provider_request net (pv_scanner pv) ''POST'' (Some (plain_json payload)) (Some key) of
        Inl e \<Rightarrow> Inl e
      | Inr answer \<Rightarrow> (case answer of
          Some (JObj kvs) \<Rightarrow> (case fld kvs ''status'' of
              Some (JStr status) \<Rightarrow> if status = ''clean'' \<or> status = ''rejected'' then Inr status
                else Inl (PermanentProviderFailure ''INVALID_SCANNER_RESPONSE'')
            | _ \<Rightarrow> Inl (PermanentProviderFailure ''INVALID_SCANNER_RESPONSE''))
        | _ \<Rightarrow> Inl (PermanentProviderFailure ''INVALID_SCANNER_RESPONSE'')))"

section \<open>Domain events\<close>

datatype audience = NoOne | ToRole string | ToUser int | ToFactories string string

record domain_event =
  de_data :: "(string \<times> json) list"
  de_entity_id :: int
  de_entity_type :: string
  de_event_type :: string
  de_recipient :: audience

definition is_lower :: "char \<Rightarrow> bool" where
  "is_lower c \<longleftrightarrow> CHR ''a'' \<le> c \<and> c \<le> CHR ''z''"

definition is_upper :: "char \<Rightarrow> bool" where
  "is_upper c \<longleftrightarrow> CHR ''A'' \<le> c \<and> c \<le> CHR ''Z''"

text \<open>The patterns \<open>^[a-z][a-z0-9_]{1,63}$\<close>, \<open>^[A-Z][A-Za-z0-9]{2,127}$\<close> and \<open>^[1-9]\d*$\<close>.\<close>

definition entity_type_ok :: "string \<Rightarrow> bool" where
  "entity_type_ok t \<longleftrightarrow> 2 \<le> length t \<and> length t \<le> 64 \<and> is_lower (hd t) \<and>
     list_all (\<lambda>c. is_lower c \<or> is_digit c \<or> c = CHR ''_'') (tl t)"

definition event_type_ok :: "string \<Rightarrow> bool" where
  "event_type_ok t \<longleftrightarrow> 3 \<le> length t \<and> length t \<le> 128 \<and> is_upper (hd t) \<and>
     list_all (\<lambda>c. is_lower c \<or> is_upper c \<or> is_digit c) (tl t)"

definition positive_decimal :: "string \<Rightarrow> bool" where
  "positive_decimal t \<longleftrightarrow> t \<noteq> [] \<and> list_all is_digit t \<and> hd t \<noteq> CHR ''0''"

definition audience_of :: "(string \<times> json) list \<Rightarrow> audience option" where
  "audience_of r =
     (if fld r ''kind'' = Some (JStr ''none'') then Some NoOne
      else if fld r ''kind'' = Some (JStr ''role'') \<and> fld r ''role'' = Some (JStr ''supply_chain'')
        then Some (ToRole ''supply_chain'')
      else if fld r ''kind'' = Some (JStr ''user'') \<and>
          (case fld r ''userId'' of Some (JNum q) \<Rightarrow> safe_integer q \<and> 0 < q | _ \<Rightarrow> False)
        then (case fld r ''userId'' of Some (JNum q) \<Rightarrow> Some (ToUser \<lfloor>q\<rfloor>) | _ \<Rightarrow> None)
      else if fld r ''kind'' = Some (JStr ''entity_binding'') \<and> fld r ''role'' = Some (JStr ''factory'')
        then (case (fld r ''entityType'', fld r ''entityId'') of
            (Some (JStr t), Some (JStr i)) \<Rightarrow> if positive_decimal i then Some (ToFactories t i) else None
          | _ \<Rightarrow> None)
      else None)"

definition requireDomainEvent :: "(string \<times> json) list \<Rightarrow> domain_event run" where
  "requireDomainEvent payload =
     (let invalid = PermanentFailure ''INVALID_PAYLOAD'' in
     bindC (guardC (fld payload ''schemaVersion'' = Some (JNum 1)) invalid) (\<lambda>_.
     bindC (payloadText payload ''entityType'') (\<lambda>entityType.
     bindC (payloadText payload ''entityId'') (\<lambda>rawId.
     let entityId = to_safe_integer (Some (JStr rawId)) in
     bindC (payloadText payload ''eventType'') (\<lambda>eventType.
     bindC (guardC (case entityId of None \<Rightarrow> False | Some n \<Rightarrow> 0 < n) invalid) (\<lambda>_.
     bindC (guardC (entity_type_ok entityType \<and> event_type_ok eventType) invalid) (\<lambda>_.
     bindC (requireC (case fld payload ''recipient'' of Some (JObj r) \<Rightarrow> audience_of r | _ \<Rightarrow> None) invalid) (\<lambda>recipient.
     returnC \<lparr>de_data = (case fld payload ''data'' of Some (JObj kvs) \<Rightarrow> kvs | _ \<Rightarrow> []),
       de_entity_id = the entityId, de_entity_type = entityType, de_event_type = eventType,
       de_recipient = recipient\<rparr>))))))))"

section \<open>Recipients\<close>

definition has_role_code :: "db \<Rightarrow> int \<Rightarrow> string \<Rightarrow> bool" where
  "has_role_code s i code \<longleftrightarrow>
     list_ex (\<lambda>(_, r). ur_user r = i \<and> ur_status r = ''active'' \<and> ur_role r = code) (rows (user_roles s))"

definition users_with_role :: "db \<Rightarrow> string \<Rightarrow> (int \<times> user_row) list" where
  "users_with_role s role = select (users s) (\<lambda>i u. us_status u = ''active'' \<and>
     (us_role u = role \<or> has_role_code s i role))"

definition entity_factories :: "db \<Rightarrow> string \<Rightarrow> int \<Rightarrow> int list option" where
  "entity_factories s entityType entityId =
     (if entityType = ''purchase_plan'' then
        Some (map (\<lambda>(_, p). pi_factory p) (select (plan_items s) (\<lambda>_ p. pi_plan p = entityId)))
      else if entityType = ''purchase_order'' then
        Some (concat (map (\<lambda>(i, _). concat (map (\<lambda>(_, l).
          case fetch (plan_items s) (pl_item l) of None \<Rightarrow> [] | Some p \<Rightarrow> [pi_factory p])
            (select (plan_links s) (\<lambda>_ l. pl_order_item l = i))))
          (select (order_items s) (\<lambda>_ o'. oi_order o' = entityId))))
      else if entityType = ''supplier_sku'' then
        Some (case fetch (supplier_skus s) entityId of None \<Rightarrow> [] | Some r \<Rightarrow> [ss_factory r])
      else None)"

definition factory_users :: "db \<Rightarrow> int list \<Rightarrow> (int \<times> user_row) list" where
  "factory_users s fs = filter (\<lambda>(_, u). case us_factory u of None \<Rightarrow> False | Some f \<Rightarrow> f \<in> set fs)
     (users_with_role s ''factory'')"

definition recipients :: "audience \<Rightarrow> (int \<times> user_row) list run" where
  "recipients a = (case a of
       NoOne \<Rightarrow> returnC []
     | ToRole role \<Rightarrow> queryC (\<lambda>s. users_with_role s role)
     | ToUser i \<Rightarrow> queryC (\<lambda>s. select (users s) (\<lambda>j u. j = i \<and> us_status u = ''active''))
     | ToFactories t i \<Rightarrow>
         bindC (queryC (\<lambda>s. entity_factories s t (int (read_nat i)))) (\<lambda>found.
         bindC (requireC found (PermanentFailure ''INVALID_PAYLOAD'')) (\<lambda>fs.
         let factoryIds = remdups (filter (\<lambda>f. 0 < f) fs) in
         bindC (guardC (factoryIds \<noteq> []) (PermanentFailure ''RECIPIENT_NOT_FOUND'')) (\<lambda>_.
         queryC (\<lambda>s. factory_users s factoryIds)))))"

section \<open>Dispatch\<close>

definition event_notification :: "wenv \<Rightarrow> domain_event \<Rightarrow> int \<times> user_row \<Rightarrow> notification" where
  "event_notification w event u =
     \<lparr>nm_user = Some (fst u), nm_role = Some (us_role (snd u)), nm_channel = ''in_app'',
      nm_type = de_event_type event, nm_severity = ''info'', nm_title = de_event_type event,
      nm_message = plain_json (JObj (de_data event)), nm_entity_type = de_entity_type event,
      nm_entity = de_entity_id event, nm_business_no = None, nm_status = ''sent'',
      nm_sent_at = Some (wnow w), nm_error = None\<rparr>"

definition notifyUser :: "wenv \<Rightarrow> domain_event \<Rightarrow> int \<times> user_row \<Rightarrow> unit run" where
  "notifyUser w event u =
     bindC (insertC notifications notifications_update ok_notification (event_notification w event u)) (\<lambda>i.
     guardC (0 < i) (InternalError ''domain notification insert failed''))"

definition dispatchBody :: "wenv \<Rightarrow> lease \<Rightarrow> domain_event \<Rightarrow> unit run" where
  "dispatchBody w row event =
     bindC (requireFence ''outbox.worker'') (\<lambda>_.
     bindC (recipients (de_recipient event)) (\<lambda>us.
     bindC (eachC (notifyUser w event) us) (\<lambda>_.
     completeLease w row)))"

definition dispatchDomainEvent :: "wenv \<Rightarrow> tx_fault \<Rightarrow> lease \<Rightarrow> (string \<times> json) list \<Rightarrow> db \<Rightarrow> (error + unit) \<times> db" where
  "dispatchDomainEvent w f row payload s = (case requireDomainEvent payload s of
       Inl e \<Rightarrow> (Inl e, s)
     | Inr (event, _) \<Rightarrow> inTransaction f (dispatchBody w row event) s)"

text \<open>Text outside ASCII is its UTF-8 encoding.\<close>

definition utf8 :: "nat list \<Rightarrow> string" where
  "utf8 = map char_of"

definition approval_title :: string where
  "approval_title = utf8 [230, 150, 176, 231, 154, 132, 229, 174, 161, 230, 137, 185, 229, 190, 133, 229, 138, 158]"

definition approval_message :: string where
  "approval_message = utf8 [230, 156, 137, 228, 184, 128, 233, 161, 185, 233, 171, 152, 233, 163, 142, 233, 153, 169,
     229, 143, 152, 230, 155, 180, 231, 173, 137, 229, 190, 133, 229, 174, 161, 230, 160, 184, 227, 128, 130]"

definition email_key :: "wenv \<Rightarrow> string \<Rightarrow> int \<Rightarrow> string" where
  "email_key w dedup user =
     ''notification:'' @ sha256 (we_env w) dedup @ '':user:'' @ show_int user @ '':email''"

definition approval_notification :: "string \<Rightarrow> int \<Rightarrow> string \<Rightarrow> string \<Rightarrow> string option \<Rightarrow> int \<times> user_row \<Rightarrow> notification" where
  "approval_notification type aggregateId channel status sentAt u =
     \<lparr>nm_user = Some (fst u), nm_role = Some (us_role (snd u)), nm_channel = channel, nm_type = type,
      nm_severity = ''approval'', nm_title = approval_title, nm_message = approval_message,
      nm_entity_type = ''approval_request'', nm_entity = aggregateId, nm_business_no = None,
      nm_status = status, nm_sent_at = sentAt, nm_error = None\<rparr>"

definition email_message :: "wenv \<Rightarrow> string \<Rightarrow> string \<Rightarrow> string \<Rightarrow> json \<Rightarrow> outbox" where
  "email_message w aggregateType aggregateId dedup payload =
     \<lparr>ob_topic = ''email.deliver'', ob_aggregate_type = aggregateType, ob_aggregate_id = aggregateId,
      ob_dedup = dedup, ob_payload = payload, ob_status = ''pending'', ob_available_at = wnow w,
      ob_attempts = 0, ob_max_attempts = 8, ob_locked_by = None, ob_locked_at = None,
      ob_last_error = None, ob_completed_at = None\<rparr>"

text \<open>\<open>INSERT IGNORE\<close>: a row whose unique key exists is skipped.\<close>

definition insertIgnoreOutbox :: "outbox \<Rightarrow> unit run" where
  "insertIgnoreOutbox r = modifyC (\<lambda>s. if unique_by ob_dedup (outbox_messages s) None r
     then outbox_messages_update (insertT r) s else s)"

definition notifyApprover :: "wenv \<Rightarrow> lease \<Rightarrow> string \<Rightarrow> int \<Rightarrow> int \<times> user_row \<Rightarrow> unit run" where
  "notifyApprover w row type aggregateId u = (let key = email_key w (ls_dedup row) (fst u) in
     bindC (queryC (\<lambda>s. list_ex (\<lambda>(_, r). ob_dedup r = key) (rows (outbox_messages s)))) (\<lambda>existing.
     if existing then returnC ()
     else
       bindC (insertC notifications notifications_update ok_notification
         (approval_notification type aggregateId ''in_app'' ''sent'' (Some (wnow w)) u)) (\<lambda>inApp.
       bindC (insertC notifications notifications_update ok_notification
         (approval_notification type aggregateId ''email'' ''queued'' None u)) (\<lambda>email.
       bindC (insertIgnoreOutbox (email_message w ''notification'' (show_int email) key
         (JObj [(''to'', JStr (us_email (snd u))), (''subject'', JStr approval_title),
           (''text'', JStr approval_message), (''messageId'', jint email)]))) (\<lambda>_.
       guardC (0 < inApp) (InternalError ''notification insert failed''))))))"

definition dispatchNotification :: "wenv \<Rightarrow> tx_fault \<Rightarrow> lease \<Rightarrow> (string \<times> json) list \<Rightarrow> db \<Rightarrow> (error + unit) \<times> db" where
  "dispatchNotification w f row payload s =
     (case bindC (payloadText payload ''recipientRole'') (\<lambda>role.
           bindC (payloadText payload ''type'') (\<lambda>type.
           bindC (requireC (to_safe_integer (fld payload ''approvalId'')) (PermanentFailure ''INVALID_PAYLOAD'')) (\<lambda>i.
           bindC (guardC (0 < i) (PermanentFailure ''INVALID_PAYLOAD'')) (\<lambda>_.
           returnC (role, type, i))))) s of
        Inl e \<Rightarrow> (Inl e, s)
      | Inr ((role, type, aggregateId), _) \<Rightarrow> inTransaction f (
          bindC (requireFence ''outbox.worker'') (\<lambda>_.
          bindC (queryC (\<lambda>s. users_with_role s role)) (\<lambda>us.
          bindC (eachC (notifyApprover w row type aggregateId) us) (\<lambda>_.
          completeLease w row)))) s)"

section \<open>Processing a message\<close>

definition liftE :: "error + 'a \<Rightarrow> ('s, 'a) cmd" where
  "liftE r = (case r of Inl e \<Rightarrow> throwC e | Inr x \<Rightarrow> returnC x)"

definition recordScan :: "wenv \<Rightarrow> lease \<Rightarrow> (string \<times> json) list \<Rightarrow> string \<Rightarrow> unit run" where
  "recordScan w row payload status =
     bindC (requireFence ''files.worker'') (\<lambda>_.
     bindC (requireC (to_safe_integer (fld payload ''fileId'')) (PermanentFailure ''INVALID_PAYLOAD'')) (\<lambda>fileId.
     bindC (guardC (0 < fileId) (PermanentFailure ''INVALID_PAYLOAD'')) (\<lambda>_.
     bindC (updateC files files_update ok_any (\<lambda>i r. i = fileId \<and> True) (\<lambda>r. r\<lparr>fo_scan_status := status\<rparr>)) (\<lambda>n.
     bindC (guardC (n = 1) (PermanentFailure ''FILE_NOT_FOUND'')) (\<lambda>_.
     bindC (insertC audit_logs audit_logs_update ok_audit
       \<lparr>al_actor = None, al_action = ''scan_file'', al_module = ''files'', al_entity_type = ''file_object'',
        al_entity_id = show_int fileId, al_business_no = None, al_before = None,
        al_after = Some (JObj [(''scanStatus'', JStr status),
          (''backfill'', JBool (fld payload ''backfill'' = Some (JBool True)))]),
        al_ip = None, al_device = None, al_sensitive = False, al_exported = False,
        al_archive_after = we_sql_in_5y w\<rparr>) (\<lambda>_.
     completeLease w row))))))"

text \<open>A query outside a transaction can break, but it has no commit to lose.\<close>

definition query_fault :: "tx_fault \<Rightarrow> tx_fault" where
  "query_fault f = (if f = TxBroken then TxBroken else TxOk)"

text \<open>The result says whether the message was completed by its dispatch.\<close>

definition processMessage :: "wenv \<Rightarrow> net \<Rightarrow> decipher \<Rightarrow> providers \<Rightarrow> tx_fault \<Rightarrow> lease \<Rightarrow> db \<Rightarrow> (error + bool) \<times> db" where
  "processMessage w net decrypt pv f row s = (case parsePayload (ls_payload row) s of
       Inl e \<Rightarrow> (Inl e, s)
     | Inr (payload, _) \<Rightarrow>
         if ls_topic row = ''email.deliver'' then
           inTransaction (query_fault f) (bindC (requireFence ''outbox.worker'') (\<lambda>_.
             bindC (liftE (deliverEmail net pv (ls_payload row) (ls_dedup row))) (\<lambda>_. returnC False))) s
         else if ls_topic row = ''sms.deliver'' then
           inTransaction (query_fault f) (bindC (requireFence ''outbox.worker'') (\<lambda>_.
             bindC (liftE (deliverSms net decrypt pv payload (ls_dedup row))) (\<lambda>_. returnC False))) s
         else if ls_topic row = ''notification.dispatch'' then
           (case dispatchNotification w f row payload s of
              (Inl e, s') \<Rightarrow> (Inl e, s') | (Inr _, s') \<Rightarrow> (Inr True, s'))
         else if ls_topic row = ''domain.event'' then
           (case dispatchDomainEvent w f row payload s of
              (Inl e, s') \<Rightarrow> (Inl e, s') | (Inr _, s') \<Rightarrow> (Inr True, s'))
         else if ls_topic row = ''file.scan'' then
           (case bindC (requireFence ''files.worker'') (\<lambda>_. liftE (scanFile net pv (ls_payload row) (ls_dedup row))) s of
              Inl e \<Rightarrow> (Inl e, s)
            | Inr (status, _) \<Rightarrow> (case inTransaction f (recordScan w row payload status) s of
                (Inl e, s') \<Rightarrow> (Inl e, s') | (Inr _, s') \<Rightarrow> (Inr True, s')))
         else (Inl (PermanentFailure ''UNKNOWN_TOPIC''), s))"

section \<open>Reminders\<close>

definition jsonArray :: "json \<Rightarrow> json list run" where
  "jsonArray v = (case v of JArr vs \<Rightarrow> returnC vs | _ \<Rightarrow> throwC (PermanentFailure ''INVALID_REMINDER''))"

definition reminder_users :: "db \<Rightarrow> string list \<Rightarrow> rat list \<Rightarrow> (int \<times> user_row) list" where
  "reminder_users s roles explicit = select (users s) (\<lambda>i u. us_status u = ''active'' \<and>
     (us_role u \<in> set roles \<or> list_ex (has_role_code s i) roles \<or> of_int i \<in> set explicit))"

definition overdue :: "wenv \<Rightarrow> reminder \<Rightarrow> bool" where
  "overdue w r \<longleftrightarrow> (case date_parse (date_other (we_env w)) (rm_due_at r) of
     None \<Rightarrow> False | Some due \<Rightarrow> due < js_ms (we_env w))"

definition overdue_30_days :: "wenv \<Rightarrow> reminder \<Rightarrow> bool" where
  "overdue_30_days w r \<longleftrightarrow> (case date_parse (date_other (we_env w)) (rm_due_at r) of
     None \<Rightarrow> False | Some due \<Rightarrow> 30 * 86400000 \<le> js_ms (we_env w) - due)"

definition reminder_title :: "wenv \<Rightarrow> reminder \<Rightarrow> string" where
  "reminder_title w r =
     (if overdue w r then utf8 [233, 128, 190, 230, 156, 159, 239, 188, 154] else utf8 [230, 143, 144, 233, 134, 146, 239, 188, 154]) @
     (case rm_business_no r of Some no \<Rightarrow> no | None \<Rightarrow> rm_type r)"

definition reminder_message :: "wenv \<Rightarrow> reminder \<Rightarrow> string" where
  "reminder_message w r = (if overdue w r
     then utf8 [232, 175, 165, 228, 186, 139, 233, 161, 185, 229, 183, 178, 232, 182, 133, 232, 191, 135, 230, 136, 170, 230, 173, 162, 230, 151, 182, 233, 151, 180,
       239, 188, 140, 232, 175, 183, 231, 171, 139, 229, 141, 179, 229, 164, 132, 231, 144, 134, 227, 128, 130, 230, 136, 170, 230, 173, 162, 239, 188, 154]
     else utf8 [232, 175, 165, 228, 186, 139, 233, 161, 185, 229, 141, 179, 229, 176, 134, 229, 136, 176, 230, 156, 159,
       239, 188, 140, 232, 175, 183, 229, 143, 138, 230, 151, 182, 229, 164, 132, 231, 144, 134, 227, 128, 130, 230, 136, 170, 230, 173, 162, 239, 188, 154]) @ rm_due_at r"

definition reminder_notification :: "wenv \<Rightarrow> reminder \<Rightarrow> string \<Rightarrow> string \<Rightarrow> string option \<Rightarrow> int \<times> user_row \<Rightarrow> notification" where
  "reminder_notification w r channel status sentAt u =
     \<lparr>nm_user = Some (fst u), nm_role = Some (us_role (snd u)), nm_channel = channel, nm_type = rm_type r,
      nm_severity = (if overdue w r then ''red'' else rm_severity r), nm_title = reminder_title w r,
      nm_message = reminder_message w r, nm_entity_type = rm_entity_type r, nm_entity = rm_entity r,
      nm_business_no = rm_business_no r, nm_status = status, nm_sent_at = sentAt, nm_error = None\<rparr>"

definition remindUser :: "wenv \<Rightarrow> int \<Rightarrow> reminder \<Rightarrow> int \<times> user_row \<Rightarrow> unit run" where
  "remindUser w i r u =
     bindC (insertC notifications notifications_update ok_notification
       (reminder_notification w r ''in_app'' ''sent'' (Some (wnow w)) u)) (\<lambda>_.
     bindC (insertC notifications notifications_update ok_notification
       (reminder_notification w r ''email'' ''queued'' None u)) (\<lambda>email.
     bindC (insertC outbox_messages outbox_messages_update ok_outbox
       (email_message w ''reminder'' (show_int i)
         (''reminder:'' @ show_int i @ '':'' @ rm_next_run_at r @ '':user:'' @ show_int (fst u) @ '':email'')
         (JObj [(''to'', JStr (us_email (snd u))), (''subject'', JStr (reminder_title w r)),
           (''text'', JStr (reminder_message w r)), (''businessNo'', jnull JStr (rm_business_no r)),
           (''messageId'', jint email)]))) (\<lambda>_. returnC ())))"

definition next_run :: "wenv \<Rightarrow> reminder \<Rightarrow> string" where
  "next_run w r = (if rm_recurrence r = ''daily_overdue'' then js_after (we_env w) 86400000 else rm_next_run_at r)"

definition next_status :: "reminder \<Rightarrow> string" where
  "next_status r = (if rm_recurrence r = ''daily_overdue'' then ''active'' else ''completed'')"

definition due_reminders :: "wenv \<Rightarrow> db \<Rightarrow> (int \<times> reminder) list" where
  "due_reminders w s = sort_key (\<lambda>(i, r). (rm_next_run_at r, i))
     (select (reminders s) (\<lambda>_ r. rm_status r = ''active'' \<and> rm_next_run_at r \<le> wnow w))"

definition json_strings :: "json list \<Rightarrow> string list" where
  "json_strings vs = concat (map (\<lambda>v. case v of JStr t \<Rightarrow> [t] | _ \<Rightarrow> []) vs)"

definition json_integers :: "json list \<Rightarrow> rat list" where
  "json_integers vs = concat (map (\<lambda>v. case v of JNum q \<Rightarrow> if safe_integer q then [q] else [] | _ \<Rightarrow> []) vs)"

definition sweepReminder :: "wenv \<Rightarrow> bool run" where
  "sweepReminder w =
     bindC (requireFence ''reminders.worker'') (\<lambda>_.
     bindC (queryC (due_reminders w)) (\<lambda>found.
     (case found of
        [] \<Rightarrow> returnC False
      | (i, r) # _ \<Rightarrow>
          bindC (jsonArray (rm_roles r)) (\<lambda>roles.
          bindC (jsonArray (rm_users r)) (\<lambda>explicit.
          bindC (queryC (\<lambda>s. reminder_users s (json_strings roles) (json_integers explicit))) (\<lambda>us.
          bindC (whenC (rm_type r = ''invoice_replacement_overdue'' \<and> overdue w r \<and> overdue_30_days w r)
            (bindC (updateC invoice_exceptions invoice_exceptions_update ok_any
              (\<lambda>j x. j = rm_entity r \<and> ix_status x = ''awaiting_remediation'')
              (\<lambda>x. x\<lparr>ix_status := ''risk_warning'', ix_updated_at := sql_ms (we_env w)\<rparr>)) (\<lambda>_. returnC ()))) (\<lambda>_.
          bindC (eachC (remindUser w i r) us) (\<lambda>_.
          bindC (updateC reminders reminders_update ok_any (\<lambda>j r. j = i \<and> True)
            (\<lambda>x. x\<lparr>rm_status := next_status r, rm_next_run_at := next_run w r,
              rm_last_run_at := Some (wnow w)\<rparr>)) (\<lambda>_.
          bindC (insertC audit_logs audit_logs_update ok_audit
            \<lparr>al_actor = None, al_action = ''process_reminder'', al_module = ''notifications'',
             al_entity_type = ''reminder'', al_entity_id = show_int i, al_business_no = rm_business_no r,
             al_before = None,
             al_after = Some (JObj [(''recipients'', jint (int (length us))), (''nextRunAt'', JStr (next_run w r)),
               (''status'', JStr (next_status r))]),
             al_ip = None, al_device = None, al_sensitive = False, al_exported = False,
             al_archive_after = archiveAfter (we_env w)\<rparr>) (\<lambda>_.
          returnC True))))))))))"

section \<open>The loop\<close>

text \<open>
  One message: process it and complete it, or pause or fail it. An error of \<open>pause\<close> or \<open>fail\<close>
  leaves the loop and stops the worker.
\<close>

definition serveMessage :: "wenv \<Rightarrow> net \<Rightarrow> decipher \<Rightarrow> providers \<Rightarrow> tx_fault \<Rightarrow> tx_fault \<Rightarrow> tx_fault \<Rightarrow>
    lease \<Rightarrow> db \<Rightarrow> (error + unit) \<times> db" where
  "serveMessage w net decrypt pv f1 f2 f3 row s =
     (let settle = (\<lambda>e s'. if e = FencePaused then inTransaction f3 (pause w row) s'
                            else inTransaction f3 (fail w row e) s')
      in case processMessage w net decrypt pv f1 row s of
           (Inl e, s') \<Rightarrow> settle e s'
         | (Inr True, s') \<Rightarrow> (Inr (), s')
         | (Inr False, s') \<Rightarrow> (case inTransaction f2 (complete w row) s' of
               (Inl e, s'') \<Rightarrow> settle e s''
             | (Inr _, s'') \<Rightarrow> (Inr (), s'')))"

text \<open>
  The two batch loops of one turn of the worker with working connections: at most \<open>n\<close> messages, and
  at most \<open>n\<close> reminders. The result says whether there was work; a paused fence ends the batch.
\<close>

fun drain :: "nat \<Rightarrow> wenv \<Rightarrow> net \<Rightarrow> decipher \<Rightarrow> providers \<Rightarrow> bool \<Rightarrow> db \<Rightarrow> (error + bool) \<times> db" where
  "drain 0 w net decrypt pv worked s = (Inr worked, s)"
| "drain (Suc n) w net decrypt pv worked s = (case inTransaction TxOk (claim w) s of
       (Inl e, s') \<Rightarrow> if e = FencePaused then (Inr worked, s') else (Inl e, s')
     | (Inr None, s') \<Rightarrow> (Inr worked, s')
     | (Inr (Some row), s') \<Rightarrow> (case serveMessage w net decrypt pv TxOk TxOk TxOk row s' of
         (Inl e, s'') \<Rightarrow> (Inl e, s'')
       | (Inr _, s'') \<Rightarrow> drain n w net decrypt pv True s''))"

fun sweepAll :: "nat \<Rightarrow> wenv \<Rightarrow> bool \<Rightarrow> db \<Rightarrow> (error + bool) \<times> db" where
  "sweepAll 0 w worked s = (Inr worked, s)"
| "sweepAll (Suc n) w worked s = (case inTransaction TxOk (sweepReminder w) s of
       (Inl e, s') \<Rightarrow> if e = FencePaused then (Inr worked, s') else (Inl e, s')
     | (Inr False, s') \<Rightarrow> (Inr worked, s')
     | (Inr True, s') \<Rightarrow> sweepAll n w True s')"

definition turn :: "wenv \<Rightarrow> net \<Rightarrow> decipher \<Rightarrow> providers \<Rightarrow> bool \<Rightarrow> db \<Rightarrow> (error + bool) \<times> db" where
  "turn w net decrypt pv sweepDue s =
     (case (if sweepDue then sweepAll maxBatch w False s else (Inr False, s)) of
        (Inl e, s') \<Rightarrow> (Inl e, s')
      | (Inr worked, s') \<Rightarrow> drain maxBatch w net decrypt pv worked s')"

end
