(* ===== verification/Delivery.thy ===== *)
theory Delivery
  imports Worker Transaction
begin

text \<open>
  What the outbox workers guarantee together. Any number of workers and API commands run against one
  database, one transaction at a time (\<open>wstep\<close>, with broken connections, lost commits and crashes);
  the specification is the life of one message (\<open>msg_step\<close>): waiting, leased, delivered or
  abandoned, with a bounded number of attempts. Every step of the system is a step of the
  specification for every message, and the properties of the specification carry over.
\<close>

section \<open>The life of a message\<close>

datatype phase = Waiting | Leased string string | Delivered | Abandoned | Corrupt

record message =
  m_phase :: phase
  m_attempts :: int
  m_max :: int
  m_exposed :: bool

inductive msg_step :: "message \<Rightarrow> message \<Rightarrow> bool" where
  take_waiting: "m_phase m = Waiting \<Longrightarrow> m_attempts m < m_max m \<Longrightarrow>
    msg_step m (m\<lparr>m_phase := Leased w now, m_attempts := m_attempts m + 1\<rparr>)"
| take_expired: "m_phase m = Leased v t \<Longrightarrow> t < stale \<Longrightarrow> m_attempts m < m_max m \<Longrightarrow>
    msg_step m (m\<lparr>m_phase := Leased w now, m_attempts := m_attempts m + 1\<rparr>)"
| deliver: "m_phase m = Leased w t \<Longrightarrow> msg_step m (m\<lparr>m_phase := Delivered, m_exposed := False\<rparr>)"
| retry: "m_phase m = Leased w t \<Longrightarrow> m_attempts m < m_max m \<Longrightarrow> msg_step m (m\<lparr>m_phase := Waiting\<rparr>)"
| unclaim: "m_phase m = Leased w t \<Longrightarrow>
    msg_step m (m\<lparr>m_phase := Waiting, m_attempts := max (m_attempts m - 1) 0\<rparr>)"
| abandon: "m_phase m = Leased w t \<Longrightarrow> msg_step m (m\<lparr>m_phase := Abandoned, m_exposed := False\<rparr>)"

inductive_simps from_delivered: "msg_step \<lparr>m_phase = Delivered, m_attempts = a, m_max = n, m_exposed = x\<rparr> m"
inductive_simps from_abandoned: "msg_step \<lparr>m_phase = Abandoned, m_attempts = a, m_max = n, m_exposed = x\<rparr> m"

definition msg_ok :: "message \<Rightarrow> bool" where
  "msg_ok m \<longleftrightarrow> 0 \<le> m_attempts m \<and> m_attempts m \<le> m_max m \<and> m_phase m \<noteq> Corrupt \<and>
     ((\<exists>w t. m_phase m = Leased w t) \<longrightarrow> 1 \<le> m_attempts m) \<and>
     (m_phase m \<in> {Delivered, Abandoned} \<longrightarrow> \<not> m_exposed m)"

lemma msg_ok_step: "msg_step m m' \<Longrightarrow> msg_ok m \<Longrightarrow> msg_ok m'"
  by (erule msg_step.cases) (auto simp: msg_ok_def)

lemma msg_step_settled: "msg_step m m' \<Longrightarrow> m_phase m \<notin> {Delivered, Abandoned}"
  by (erule msg_step.cases) auto

text \<open>The message an outbox row represents.\<close>

definition row_phase :: "outbox \<Rightarrow> phase" where
  "row_phase r = (if ob_status r = ''processing'' then
       (case (ob_locked_by r, ob_locked_at r) of (Some w, Some t) \<Rightarrow> Leased w t | _ \<Rightarrow> Corrupt)
     else if ob_locked_by r \<noteq> None \<or> ob_locked_at r \<noteq> None then Corrupt
     else if ob_status r = ''pending'' then Waiting
     else if ob_status r = ''completed'' then Delivered
     else if ob_status r = ''dead'' then Abandoned else Corrupt)"

definition message_of :: "outbox \<Rightarrow> message" where
  "message_of r = \<lparr>m_phase = row_phase r, m_attempts = ob_attempts r, m_max = ob_max_attempts r,
     m_exposed = (ob_topic r = ''sms.deliver'' \<and> ob_payload r \<noteq> redacted)\<rparr>"

definition fresh :: "outbox \<Rightarrow> bool" where
  "fresh r \<longleftrightarrow> ob_status r = ''pending'' \<and> ob_attempts r = 0 \<and> ob_max_attempts r = 8 \<and>
     ob_locked_by r = None \<and> ob_locked_at r = None"

section \<open>Workers and the system\<close>

datatype wphase = Idle | Holding lease | Sent lease | Broken lease error | Stopped

fun leases :: "wphase \<Rightarrow> lease option" where
  "leases (Holding l) = Some l"
| "leases (Sent l) = Some l"
| "leases (Broken l e) = Some l"
| "leases _ = None"

record config =
  cf_db :: db
  cf_phase :: "string \<Rightarrow> wphase"

definition proceed :: "config \<Rightarrow> wenv \<Rightarrow> wphase \<Rightarrow> db \<Rightarrow> config" where
  "proceed cf w p s = cf\<lparr>cf_db := s, cf_phase := (cf_phase cf)(we_id w := p)\<rparr>"

datatype act = Claimed string int | Paused string int | Worked string | Commanded

text \<open>
  One transaction of one worker, a crash of a worker, or a transaction of anybody else, which may
  change the rest of the database and append one fresh message (\<open>enqueueOutbox\<close>).
\<close>

inductive wstep :: "config \<Rightarrow> act \<Rightarrow> config \<Rightarrow> bool" where
  claim_some: "cf_phase cf (we_id w) = Idle \<Longrightarrow> inTransaction f (claim w) (cf_db cf) = (Inr (Some l), s) \<Longrightarrow>
    wstep cf (Claimed (we_id w) (ls_id l)) (proceed cf w (Holding l) s)"
| claim_none: "cf_phase cf (we_id w) = Idle \<Longrightarrow> inTransaction f (claim w) (cf_db cf) = (Inr None, s) \<Longrightarrow>
    wstep cf (Worked (we_id w)) (proceed cf w Idle s)"
| claim_error: "cf_phase cf (we_id w) = Idle \<Longrightarrow> inTransaction f (claim w) (cf_db cf) = (Inl e, s) \<Longrightarrow>
    wstep cf (Worked (we_id w)) (proceed cf w (if e = FencePaused then Idle else Stopped) s)"
| sweep: "cf_phase cf (we_id w) = Idle \<Longrightarrow> inTransaction f (sweepReminder w) (cf_db cf) = (r, s) \<Longrightarrow>
    wstep cf (Worked (we_id w))
      (proceed cf w (case r of Inl e \<Rightarrow> if e = FencePaused then Idle else Stopped | Inr _ \<Rightarrow> Idle) s)"
| process: "cf_phase cf (we_id w) = Holding l \<Longrightarrow>
    processMessage w net decrypt pv f l (cf_db cf) = (r, s) \<Longrightarrow>
    wstep cf (Worked (we_id w))
      (proceed cf w (case r of Inl e \<Rightarrow> Broken l e | Inr True \<Rightarrow> Idle | Inr False \<Rightarrow> Sent l) s)"
| finish: "cf_phase cf (we_id w) = Sent l \<Longrightarrow> inTransaction f (complete w l) (cf_db cf) = (r, s) \<Longrightarrow>
    wstep cf (Worked (we_id w)) (proceed cf w (case r of Inl e \<Rightarrow> Broken l e | Inr _ \<Rightarrow> Idle) s)"
| settle_pause: "cf_phase cf (we_id w) = Broken l FencePaused \<Longrightarrow>
    inTransaction f (pause w l) (cf_db cf) = (r, s) \<Longrightarrow>
    wstep cf (Paused (we_id w) (ls_id l)) (proceed cf w (case r of Inl _ \<Rightarrow> Stopped | Inr _ \<Rightarrow> Idle) s)"
| settle_fail: "cf_phase cf (we_id w) = Broken l e \<Longrightarrow> e \<noteq> FencePaused \<Longrightarrow>
    inTransaction f (fail w l e) (cf_db cf) = (r, s) \<Longrightarrow>
    wstep cf (Worked (we_id w)) (proceed cf w (case r of Inl _ \<Rightarrow> Stopped | Inr _ \<Rightarrow> Idle) s)"
| crash: "wstep cf (Worked v) (cf\<lparr>cf_phase := (cf_phase cf)(v := Stopped)\<rparr>)"
| command: "outbox_messages s = outbox_messages (cf_db cf) \<or>
      (\<exists>r. fresh r \<and> outbox_messages s = insertT r (outbox_messages (cf_db cf))) \<Longrightarrow>
    wstep cf Commanded (cf\<lparr>cf_db := s\<rparr>)"

inductive wsteps :: "config \<Rightarrow> act list \<Rightarrow> config \<Rightarrow> bool" where
  none: "wsteps cf [] cf"
| more: "wsteps cf as cf' \<Longrightarrow> wstep cf' a cf'' \<Longrightarrow> wsteps cf (as @ [a]) cf''"

definition initial :: "config \<Rightarrow> bool" where
  "initial cf \<longleftrightarrow> outbox_messages (cf_db cf) = emptyT \<and> (\<forall>v. cf_phase cf v = Idle)"

definition reachable :: "config \<Rightarrow> bool" where
  "reachable cf \<longleftrightarrow> (\<exists>cf0 as. initial cf0 \<and> wsteps cf0 as cf)"

interpretation wtx: unit_of_work "inTransaction f"
proof
  show "inTransaction f m s = (Inr x, s') \<Longrightarrow> m s = Inr (x, s')" for m s x s'
    by (auto simp: inTransaction_def split: if_splits sum.splits tx_fault.splits)
  show "inTransaction f m s = (Inl e, s') \<Longrightarrow> e \<noteq> outcome_unknown \<Longrightarrow> s' = s" for m s e s'
    by (auto simp: inTransaction_def split: if_splits sum.splits tx_fault.splits)
  show "inTransaction f m s = (Inl e, s') \<Longrightarrow> s' = s \<or> (\<exists>x. m s = Inr (x, s'))" for m s e s'
    by (auto simp: inTransaction_def split: if_splits sum.splits tx_fault.splits)
qed

section \<open>How a transaction changes the messages\<close>

definition evolves :: "(int \<Rightarrow> outbox \<Rightarrow> outbox \<Rightarrow> bool) \<Rightarrow> db \<Rightarrow> db \<Rightarrow> bool" where
  "evolves R s s' \<longleftrightarrow> wf_tbl (outbox_messages s') \<and>
     (\<forall>i r. fetch (outbox_messages s) i = Some r \<longrightarrow> (\<exists>r'. fetch (outbox_messages s') i = Some r' \<and> R i r r')) \<and>
     (\<forall>i r'. fetch (outbox_messages s) i = None \<longrightarrow> fetch (outbox_messages s') i = Some r' \<longrightarrow> fresh r')"

abbreviation stays :: "db \<Rightarrow> db \<Rightarrow> bool" where
  "stays \<equiv> evolves (\<lambda>_ r r'. r' = r)"

lemma evolves_refl: "wf_tbl (outbox_messages s) \<Longrightarrow> outbox_messages s' = outbox_messages s \<Longrightarrow> stays s s'"
  by (simp add: evolves_def)

lemma evolves_mono: "evolves R s s' \<Longrightarrow>
    (\<And>i r r'. fetch (outbox_messages s) i = Some r \<Longrightarrow> R i r r' \<Longrightarrow> S i r r') \<Longrightarrow> evolves S s s'"
  unfolding evolves_def by blast

lemma evolves_row: "evolves R s s' \<Longrightarrow> fetch (outbox_messages s) i = Some r \<Longrightarrow>
    \<exists>r'. fetch (outbox_messages s') i = Some r' \<and> R i r r'"
  unfolding evolves_def by blast

lemma evolves_insert:
  assumes "wf_tbl (outbox_messages s)" and "fresh r" and "outbox_messages s' = insertT r (outbox_messages s)"
  shows "stays s s'"
proof -
  have "fetch (outbox_messages s) (nxt (outbox_messages s)) = None"
    using fetch_pos [OF assms(1), of "nxt (outbox_messages s)"]
    by (cases "fetch (outbox_messages s) (nxt (outbox_messages s))") auto
  with assms show ?thesis by (auto simp: evolves_def fetch_insertT)
qed

lemma evolves_update:
  assumes "wf_tbl (outbox_messages s)" and "outbox_messages s' = updateT p f (outbox_messages s)"
  shows "evolves (\<lambda>i r r'. r' = (if p i r then f r else r)) s s'"
  using assms by (auto simp: evolves_def fetch_updateT)

lemma stays_trans: "stays s s1 \<Longrightarrow> stays s1 s2 \<Longrightarrow> stays s s2"
  unfolding evolves_def by (metis option.exhaust)

lemma evolves_comp:
  assumes "stays s s1" and "evolves R s1 s2" and keep: "\<And>i r r'. fresh r \<Longrightarrow> R i r r' \<Longrightarrow> fresh r'"
  shows "evolves R s s2"
proof (unfold evolves_def, intro conjI allI impI)
  show "wf_tbl (outbox_messages s2)" using assms(2) by (simp add: evolves_def)
  show "\<exists>r'. fetch (outbox_messages s2) i = Some r' \<and> R i r r'" if "fetch (outbox_messages s) i = Some r" for i r
    using assms(1,2) that by (auto simp: evolves_def)
  show "fresh r'" if "fetch (outbox_messages s) i = None" and "fetch (outbox_messages s2) i = Some r'" for i r'
    using assms(1,2) that keep unfolding evolves_def by (metis not_None_eq option.inject)
qed

text \<open>The rows the updates of the worker write.\<close>

definition finished :: "wenv \<Rightarrow> outbox \<Rightarrow> outbox" where
  "finished w r = r\<lparr>ob_status := ''completed'', ob_completed_at := Some (wnow w), ob_locked_by := None,
     ob_locked_at := None, ob_last_error := None\<rparr>"

definition paused_row :: "wenv \<Rightarrow> outbox \<Rightarrow> outbox" where
  "paused_row w r = r\<lparr>ob_status := ''pending'', ob_available_at := we_sql_in_1s w,
     ob_attempts := max (ob_attempts r - 1) 0, ob_locked_by := None, ob_locked_at := None,
     ob_last_error := Some ''WRITER_FENCE_PAUSED''\<rparr>"

definition gives_up :: "lease \<Rightarrow> error \<Rightarrow> bool" where
  "gives_up l e \<longleftrightarrow> permanent_code e \<noteq> None \<or> ls_max l \<le> ls_attempts l"

definition failed_row :: "wenv \<Rightarrow> lease \<Rightarrow> error \<Rightarrow> outbox \<Rightarrow> outbox" where
  "failed_row w l e r = (if gives_up l e then redact else id)
     (r\<lparr>ob_status := (if gives_up l e then ''dead'' else ''pending''),
       ob_available_at := js_after (we_env w) (delaySeconds (ls_attempts l) * 1000), ob_locked_by := None,
       ob_locked_at := None,
       ob_last_error := Some (case permanent_code e of Some c \<Rightarrow> c | None \<Rightarrow> ''DELIVERY_FAILED'')\<rparr>)"

definition killed_row :: "outbox \<Rightarrow> outbox" where
  "killed_row r = redact (r\<lparr>ob_status := ''dead'', ob_locked_by := None, ob_locked_at := None,
     ob_last_error := Some ''LEASE_EXHAUSTED''\<rparr>)"

definition taken_row :: "wenv \<Rightarrow> outbox \<Rightarrow> outbox" where
  "taken_row w r = r\<lparr>ob_status := ''processing'', ob_locked_by := Some (we_id w), ob_locked_at := Some (wnow w),
     ob_attempts := ob_attempts r + 1\<rparr>"

lemma owns_split: "owns w i = (\<lambda>j r. j = i \<and> (ob_status r = ''processing'' \<and> ob_locked_by r = Some (we_id w)))"
  by (simp add: owns_def fun_eq_iff)

text \<open>An update of the leased row that checks that it hit one row.\<close>

lemma wp_settle:
  assumes "wf_tbl (outbox_messages s)"
    and "\<And>r. fetch (outbox_messages s) i = Some r \<Longrightarrow> owns w i i r \<Longrightarrow>
      Q () (outbox_messages_update (updateT (owns w i) g) s)"
  shows "wp (bindC (updateC outbox_messages outbox_messages_update ok_outbox (owns w i) g)
    (\<lambda>n. guardC (n = 1) e)) Q s"
proof -
  have "matched (outbox_messages s) (owns w i) = 1 \<longleftrightarrow> (\<exists>r. fetch (outbox_messages s) i = Some r \<and> owns w i i r)"
    unfolding owns_split by (subst matched_one [OF assms(1)]) simp
  with assms(2) show ?thesis by (auto simp: wp_simps)
qed

lemma wp_completeLease:
  assumes "wf_tbl (outbox_messages s)"
    and "\<And>r. fetch (outbox_messages s) (ls_id l) = Some r \<Longrightarrow> owns w (ls_id l) (ls_id l) r \<Longrightarrow>
      Q () (outbox_messages_update (updateT (owns w (ls_id l)) (finished w)) s)"
  shows "wp (completeLease w l) Q s"
  using assms unfolding completeLease_def finished_def by (rule wp_settle)

lemma wp_pause:
  assumes "wf_tbl (outbox_messages s)"
    and "\<And>r. fetch (outbox_messages s) (ls_id l) = Some r \<Longrightarrow> owns w (ls_id l) (ls_id l) r \<Longrightarrow>
      Q () (outbox_messages_update (updateT (owns w (ls_id l)) (paused_row w)) s)"
  shows "wp (pause w l) Q s"
  using assms unfolding pause_def paused_row_def by (rule wp_settle)

lemma wp_fail:
  assumes "wf_tbl (outbox_messages s)"
    and "\<And>r. fetch (outbox_messages s) (ls_id l) = Some r \<Longrightarrow> owns w (ls_id l) (ls_id l) r \<Longrightarrow>
      Q () (outbox_messages_update (updateT (owns w (ls_id l)) (failed_row w l e)) s)"
  shows "wp (fail w l e) Q s"
  using assms unfolding fail_def failed_row_def gives_up_def Let_def by (rule wp_settle)

lemma wp_requireFence [wp_intros]: "Q () s \<Longrightarrow> wp (requireFence x) Q s"
  unfolding requireFence_def by (intro wp_intros)

lemma wp_parsePayload [wp_intros]: "(\<And>kvs. v = JObj kvs \<Longrightarrow> Q kvs s) \<Longrightarrow> wp (parsePayload v) Q s"
  by (auto simp: parsePayload_def wp_simps split: json.split)

lemma notifications_update_same [simp]: "notifications_update (\<lambda>t. t) s = s"
  by (cases s) simp

lemma wp_markEmailSent:
  "Q () s \<Longrightarrow> (\<And>f. Q () (notifications_update f s)) \<Longrightarrow> wp (markEmailSent w topic p) Q s"
  unfolding markEmailSent_def by (intro wp_intros)

lemma wp_complete:
  assumes "wf_tbl (outbox_messages s)"
    and "\<And>r f. fetch (outbox_messages s) (ls_id l) = Some r \<Longrightarrow> owns w (ls_id l) (ls_id l) r \<Longrightarrow>
      Q () (notifications_update f (outbox_messages_update (updateT (owns w (ls_id l)) (\<lambda>r. redact (finished w r))) s))"
  shows "wp (complete w l) Q s"
proof -
  have "Q () (outbox_messages_update (updateT (owns w (ls_id l)) (\<lambda>r. redact (finished w r))) s)"
    if "fetch (outbox_messages s) (ls_id l) = Some r" and "owns w (ls_id l) (ls_id l) r" for r
    using assms(2) [OF that, of "\<lambda>t. t"] by simp
  then have "wp (bindC (updateC outbox_messages outbox_messages_update ok_outbox (owns w (ls_id l))
      (\<lambda>r. redact (finished w r))) (\<lambda>n. guardC (n = 1) e)) (\<lambda>_. wp (markEmailSent w (ls_topic l) p) Q) s" for p e
    by (intro wp_settle wp_markEmailSent assms)
  then show ?thesis
    unfolding complete_def finished_def by (intro wp_intros) (simp add: wp_simps)
qed

text \<open>Notifying people leaves the messages alone, except that it may add fresh ones.\<close>

lemma frames_notifyUser: "frames outbox_messages (notifyUser w e u)"
  unfolding notifyUser_def by (intro frame_rules frames_insert) simp

lemma frames_recipients: "frames v (recipients a)"
  unfolding recipients_def by (cases a) (auto intro!: frame_rules)

lemma fresh_email: "fresh (email_message w a i k p)"
  by (simp add: fresh_def email_message_def)

lemma stays_other: "stays s t \<Longrightarrow> outbox_messages t' = outbox_messages t \<Longrightarrow> stays s t'"
  by (simp add: evolves_def)

lemma evolves_wf: "evolves R s t \<Longrightarrow> wf_tbl (outbox_messages t)"
  by (simp add: evolves_def)

lemma stays_email:
  assumes "stays s t" and "outbox_messages t' = insertT (email_message w a i k p) (outbox_messages t)"
  shows "stays s t'"
  using stays_trans [OF assms(1) evolves_insert [OF evolves_wf [OF assms(1)] fresh_email assms(2)]] .

lemma wp_notifyApprover: "stays s t \<Longrightarrow> wp (notifyApprover w row type i u) (\<lambda>_. stays s) t"
  unfolding notifyApprover_def insertIgnoreOutbox_def
  by (intro wp_intros) (auto intro: stays_email stays_other)

lemma wp_remindUser: "stays s t \<Longrightarrow> wp (remindUser w i r u) (\<lambda>_. stays s) t"
  unfolding remindUser_def by (intro wp_intros) (auto intro: stays_email)

lemma wp_eachI': "I s \<Longrightarrow> (\<And>x s. I s \<Longrightarrow> wp (f x) (\<lambda>_. I) s) \<Longrightarrow> (\<And>s'. I s' \<Longrightarrow> Q () s') \<Longrightarrow> wp (eachC f xs) Q s"
  by (rule wp_mono [OF wp_eachI [of I]]; simp)

lemma wp_jsonArray [wp_intros]: "(\<And>vs. v = JArr vs \<Longrightarrow> Q vs s) \<Longrightarrow> wp (jsonArray v) Q s"
  by (auto simp: jsonArray_def wp_simps split: json.split)

lemma wp_sweepReminder:
  assumes "wf_tbl (outbox_messages s)"
  shows "wp (sweepReminder w) (\<lambda>_. stays s) s"
  unfolding sweepReminder_def
  by (intro wp_intros wp_eachI' [where I = "stays s"] wp_remindUser)
    (auto intro: evolves_refl [OF assms] elim!: stays_other)

text \<open>The change of the messages by a successful dispatch.\<close>

definition finishes :: "wenv \<Rightarrow> lease \<Rightarrow> int \<Rightarrow> outbox \<Rightarrow> outbox \<Rightarrow> bool" where
  "finishes w l i r r' \<longleftrightarrow> r' = (if owns w (ls_id l) i r then finished w r else r)"

lemma not_owned_fresh: "fresh r \<Longrightarrow> \<not> owns w i j r"
  by (simp add: fresh_def owns_def)

lemma wp_completes:
  assumes "stays s t" shows "wp (completeLease w l) (\<lambda>_. evolves (finishes w l) s) t"
proof (rule wp_completeLease)
  show "wf_tbl (outbox_messages t)" using assms by (rule evolves_wf)
  let ?t = "outbox_messages_update (updateT (owns w (ls_id l)) (finished w)) t"
  have "evolves (\<lambda>i r r'. r' = (if owns w (ls_id l) i r then finished w r else r)) t ?t"
    by (rule evolves_update [OF evolves_wf [OF assms]]) simp
  then show "evolves (finishes w l) s ?t"
    unfolding finishes_def by (rule evolves_comp [OF assms]) (auto dest: not_owned_fresh)
qed

lemma wp_frames: "frames v m \<Longrightarrow> (\<And>x s'. v s' = v s \<Longrightarrow> Q x s') \<Longrightarrow> wp m Q s"
  by (rule wp_mono [OF frames_wp]) auto

lemma wp_dispatchBody:
  assumes "wf_tbl (outbox_messages s)"
  shows "wp (dispatchBody w l e) (\<lambda>_. evolves (finishes w l) s) s"
  unfolding dispatchBody_def
  by (intro wp_intros wp_frames [OF frames_recipients [of outbox_messages]] wp_completes
      wp_frames [OF frames_each, OF frames_notifyUser] evolves_refl [OF assms]) simp

lemma wp_recordScan:
  assumes "wf_tbl (outbox_messages s)"
  shows "wp (recordScan w l p st) (\<lambda>_. evolves (finishes w l) s) s"
  unfolding recordScan_def
  by (intro wp_intros wp_completes evolves_refl [OF assms]) simp

lemma transaction_evolves:
  assumes "wp m (\<lambda>_. evolves R s) s" and "inTransaction f m s = (r, s')"
  shows "s' = s \<or> evolves R s s'"
  using wtx.all_or_nothing [OF assms(2)] assms(1) by (auto dest: wpD)

lemma transaction_reads:
  assumes "frames (\<lambda>s. s) m" and "inTransaction f m s = (r, s')" shows "s' = s"
  using wtx.all_or_nothing [OF assms(2)] framesD [OF assms(1)] by blast

lemma frames_liftE [frame_rules]: "frames v (liftE r)"
  by (cases r) (auto simp: liftE_def intro: frame_rules)

lemma frames_requireFence [frame_rules]: "frames v (requireFence x)"
  unfolding requireFence_def by (intro frame_rules)

lemma dispatchNotification_evolves:
  assumes "dispatchNotification w f l p s = (r, s')" and "wf_tbl (outbox_messages s)"
  shows "s' = s \<or> evolves (finishes w l) s s'"
proof -
  have "wp (bindC (requireFence x) (\<lambda>_. bindC (queryC g) (\<lambda>us.
      bindC (eachC (notifyApprover w l type i) us) (\<lambda>_. completeLease w l)))) (\<lambda>_. evolves (finishes w l) s) s"
    for x g type i
    by (intro wp_intros wp_eachI' [where I = "stays s"] wp_notifyApprover wp_completes)
      (auto intro: evolves_refl [OF assms(2)])
  note * = transaction_evolves [OF this]
  from assms(1) show ?thesis
    by (auto simp: dispatchNotification_def split: sum.splits prod.splits dest: *)
qed

lemma dispatchDomainEvent_evolves:
  assumes "dispatchDomainEvent w f l p s = (r, s')" and "wf_tbl (outbox_messages s)"
  shows "s' = s \<or> evolves (finishes w l) s s'"
  using assms(1) transaction_evolves [OF wp_dispatchBody [OF assms(2)]]
  by (auto simp: dispatchDomainEvent_def split: sum.splits prod.splits)

lemma processMessage_evolves:
  assumes "processMessage w net decrypt pv f l s = (r, s')" and "wf_tbl (outbox_messages s)"
  shows "s' = s \<or> ls_topic l \<noteq> ''sms.deliver'' \<and> evolves (finishes w l) s s'"
proof -
  have reads: "inTransaction g (bindC (requireFence x) (\<lambda>_. bindC (liftE y) (\<lambda>_. returnC z))) s = (r, t) \<Longrightarrow> t = s"
    for g x y z and r :: "error + 'b" and t by (erule transaction_reads [rotated]) (intro frame_rules)
  note scan = transaction_evolves [OF wp_recordScan [OF assms(2)]]
  show ?thesis
    using assms(1) unfolding processMessage_def
    by (auto split: sum.splits prod.splits if_splits dest: reads scan
        dest!: dispatchNotification_evolves [OF _ assms(2)] dispatchDomainEvent_evolves [OF _ assms(2)])
qed

text \<open>The change of the messages by a claim: expired leases without attempts left are abandoned.\<close>

definition describes :: "lease \<Rightarrow> outbox \<Rightarrow> bool" where
  "describes l r \<longleftrightarrow> ls_topic l = ob_topic r \<and> ls_payload l = ob_payload r \<and> ls_dedup l = ob_dedup r \<and>
     ls_attempts l = ob_attempts r + 1 \<and> ls_max l = ob_max_attempts r"

definition claims :: "wenv \<Rightarrow> lease option \<Rightarrow> int \<Rightarrow> outbox \<Rightarrow> outbox \<Rightarrow> bool" where
  "claims w x i r r' \<longleftrightarrow> (if map_option ls_id x = Some i
     then claimable w r \<and> r' = taken_row w r \<and> describes (the x) r
     else r' = (if exhausted w r then killed_row r else r))"

definition claim_queue :: "wenv \<Rightarrow> outbox tbl \<Rightarrow> (int \<times> outbox) list" where
  "claim_queue w t = sort_key (\<lambda>(i, r). (ob_available_at r, i)) (select t (\<lambda>_. claimable w))"

lemma not_claimable_killed: "\<not> claimable w (killed_row r)"
  by (simp add: claimable_def killed_row_def redact_def)

lemma claimable_not_exhausted: "claimable w r \<Longrightarrow> \<not> exhausted w r"
  by (simp add: claimable_def exhausted_def)

lemma not_exhausted_fresh: "fresh r \<Longrightarrow> \<not> exhausted w r"
  by (simp add: fresh_def exhausted_def)

lemma claim_queue_fetch:
  assumes "wf_tbl t" and "(i, r) \<in> set (claim_queue w (updateT (\<lambda>_. exhausted w) killed_row t))"
  shows "fetch t i = Some r \<and> claimable w r"
proof -
  let ?u = "updateT (\<lambda>_. exhausted w) killed_row t"
  from assms(2) have row: "(i, r) \<in> set (rows ?u)" and c: "claimable w r"
    by (auto simp: claim_queue_def select_rows)
  then have "fetch ?u i = Some r" using assms(1) by (simp add: fetch_rows)
  then obtain r0 where r0: "fetch t i = Some r0" and r: "r = (if exhausted w r0 then killed_row r0 else r0)"
    by (auto simp: fetch_updateT)
  with c not_claimable_killed have "r = r0" by (metis (full_types))
  with r0 c show ?thesis by simp
qed

lemma claim_queue_all:
  assumes "wf_tbl t" and "fetch t i = Some r" and "claimable w r"
  shows "(i, r) \<in> set (claim_queue w (updateT (\<lambda>_. exhausted w) killed_row t))"
proof -
  have "fetch (updateT (\<lambda>_. exhausted w) killed_row t) i = Some r"
    using assms(2) claimable_not_exhausted [OF assms(3)] by (simp add: fetch_updateT)
  with assms(3) show ?thesis by (simp add: claim_queue_def select_rows fetch_in_rows)
qed

lemma claim_queue_first:
  assumes "claim_queue w t = (i, r) # xs" and "(j, q) \<in> set (claim_queue w t)"
  shows "(ob_available_at r, i) \<le> (ob_available_at q, j)"
proof -
  have "sorted (map (\<lambda>(i, r). (ob_available_at r, i)) (claim_queue w t))"
    by (simp add: claim_queue_def)
  with assms show ?thesis by auto
qed

lemma wp_claim:
  assumes wf: "wf_tbl (outbox_messages s)"
  shows "wp (claim w) (\<lambda>x s'. evolves (claims w x) s s' \<and>
    (let queue = claim_queue w (updateT (\<lambda>_. exhausted w) killed_row (outbox_messages s)) in
     case x of None \<Rightarrow> queue = [] | Some l \<Rightarrow> (\<exists>r xs. queue = (ls_id l, r) # xs))) s"
proof -
  let ?u = "updateT (\<lambda>_. exhausted w) killed_row (outbox_messages s)"
  have killed: "(\<lambda>r. redact (r\<lparr>ob_status := ''dead'', ob_locked_by := None, ob_locked_at := None,
       ob_last_error := Some ''LEASE_EXHAUSTED''\<rparr>)) = killed_row"
    by (simp add: killed_row_def fun_eq_iff)
  have taken: "(\<lambda>r. r\<lparr>ob_status := ''processing'', ob_locked_by := Some (we_id w), ob_locked_at := Some (wnow w),
       ob_attempts := ob_attempts r + 1\<rparr>) = taken_row w"
    by (simp add: taken_row_def fun_eq_iff)
  let ?v = "outbox_messages_update (updateT (\<lambda>_. exhausted w) killed_row) s"
  have unclaimed: "evolves (claims w None) s ?v"
    by (rule evolves_mono [OF evolves_update [OF wf, where s' = ?v and p = "\<lambda>_. exhausted w" and f = killed_row]])
      (simp_all add: claims_def)
  have something: "evolves (claims w (Some l)) s
      (outbox_messages_update (updateT (\<lambda>j r. j = i \<and> True) (taken_row w)) ?v)"
    if "claim_queue w ?u = (i, r) # xs" and "ls_id l = i" and "describes l r" for i r xs l
    using claim_queue_fetch [OF wf, of i r w] that wf claimable_not_exhausted
    by (auto simp: evolves_def claims_def fetch_updateT)
  show ?thesis
    unfolding claim_def killed taken claim_queue_def [symmetric] Let_def
    by (intro wp_intros) ((rule conjI, rule unclaimed, simp),
      rule conjI, rule something, simp, simp, simp add: describes_def, simp)
qed

section \<open>Simulation\<close>

text \<open>
  A change that leases nothing: the row keeps its identity and makes a step of its life. Only a
  pause (\<open>p\<close>) gives an attempt back.
\<close>

definition moves :: "bool \<Rightarrow> outbox \<Rightarrow> outbox \<Rightarrow> bool" where
  "moves p r r' \<longleftrightarrow> r' = r \<or> ob_topic r' = ob_topic r \<and> ob_max_attempts r' = ob_max_attempts r \<and>
     ob_status r' \<noteq> ''processing'' \<and> (if p then ob_attempts r - 1 \<le> ob_attempts r'
       else ob_attempts r' = ob_attempts r) \<and> msg_step (message_of r) (message_of r')"

lemmas row_defs = message_of_def row_phase_def finished_def paused_row_def failed_row_def killed_row_def
  taken_row_def redact_def redacted_def

lemma moves_refl [simp]: "moves p r r"
  by (simp add: moves_def)

lemma movesI: "ob_topic r' = ob_topic r \<Longrightarrow> ob_max_attempts r' = ob_max_attempts r \<Longrightarrow>
    ob_status r' \<noteq> ''processing'' \<Longrightarrow> (if p then ob_attempts r - 1 \<le> ob_attempts r'
      else ob_attempts r' = ob_attempts r) \<Longrightarrow>
    msg_step (message_of r) (message_of r') \<Longrightarrow> moves p r r'"
  by (simp add: moves_def)

lemma message_of_rows:
  "ob_topic r \<noteq> ''sms.deliver'' \<Longrightarrow>
    message_of (finished w r) = (message_of r)\<lparr>m_phase := Delivered, m_exposed := False\<rparr>"
  "message_of (redact (finished w r)) = (message_of r)\<lparr>m_phase := Delivered, m_exposed := False\<rparr>"
  "message_of (paused_row w r) =
    (message_of r)\<lparr>m_phase := Waiting, m_attempts := max (m_attempts (message_of r) - 1) 0\<rparr>"
  "gives_up l e \<Longrightarrow>
    message_of (failed_row w l e r) = (message_of r)\<lparr>m_phase := Abandoned, m_exposed := False\<rparr>"
  "\<not> gives_up l e \<Longrightarrow> message_of (failed_row w l e r) = (message_of r)\<lparr>m_phase := Waiting\<rparr>"
  "message_of (killed_row r) = (message_of r)\<lparr>m_phase := Abandoned, m_exposed := False\<rparr>"
  "message_of (taken_row w r) = (message_of r)\<lparr>m_phase := Leased (we_id w) (wnow w),
     m_attempts := m_attempts (message_of r) + 1\<rparr>"
  by (simp_all add: row_defs)

lemma row_identity:
  "ob_topic (finished w r) = ob_topic r" "ob_max_attempts (finished w r) = ob_max_attempts r"
  "ob_topic (redact r) = ob_topic r" "ob_max_attempts (redact r) = ob_max_attempts r"
  "ob_status (redact r) = ob_status r" "ob_topic (paused_row w r) = ob_topic r"
  "ob_max_attempts (paused_row w r) = ob_max_attempts r" "ob_topic (failed_row w l e r) = ob_topic r"
  "ob_max_attempts (failed_row w l e r) = ob_max_attempts r" "ob_topic (killed_row r) = ob_topic r"
  "ob_max_attempts (killed_row r) = ob_max_attempts r" "ob_topic (taken_row w r) = ob_topic r"
  "ob_max_attempts (taken_row w r) = ob_max_attempts r" "ob_status (finished w r) \<noteq> ''processing''"
  "ob_status (paused_row w r) \<noteq> ''processing''" "ob_status (failed_row w l e r) \<noteq> ''processing''"
  "ob_status (killed_row r) \<noteq> ''processing''" "ob_attempts (finished w r) = ob_attempts r"
  "ob_attempts (redact r) = ob_attempts r" "ob_attempts (failed_row w l e r) = ob_attempts r"
  "ob_attempts (killed_row r) = ob_attempts r" "ob_attempts (taken_row w r) = ob_attempts r + 1"
  "ob_attempts (paused_row w r) = max (ob_attempts r - 1) 0"
  by (simp_all add: row_defs)

lemma owns_leased:
  assumes "owns w i i r" and "msg_ok (message_of r)"
  obtains t where "m_phase (message_of r) = Leased (we_id w) t"
  using assms by (cases "ob_locked_at r") (auto simp: owns_def msg_ok_def message_of_def row_phase_def)

lemma settle_moves:
  assumes "owns w i i r" and "msg_ok (message_of r)"
  shows "ob_topic r \<noteq> ''sms.deliver'' \<Longrightarrow> moves False r (finished w r)"
    and "moves False r (redact (finished w r))"
    and "moves True r (paused_row w r)"
    and "ls_max l = ob_max_attempts r \<Longrightarrow> ls_attempts l = ob_attempts r \<Longrightarrow> moves False r (failed_row w l e r)"
proof -
  obtain t where p: "m_phase (message_of r) = Leased (we_id w) t" using owns_leased [OF assms] .
  note steps = msg_step.intros(3-6) [OF p]
  show "ob_topic r \<noteq> ''sms.deliver'' \<Longrightarrow> moves False r (finished w r)"
    by (rule movesI) (simp_all add: row_identity message_of_rows steps)
  show "moves False r (redact (finished w r))"
    by (rule movesI) (simp_all add: row_identity message_of_rows steps)
  show "moves True r (paused_row w r)"
    by (rule movesI) (simp_all add: row_identity message_of_rows steps)
  show "moves False r (failed_row w l e r)" if "ls_max l = ob_max_attempts r" and "ls_attempts l = ob_attempts r"
  proof (rule movesI)
    show "msg_step (message_of r) (message_of (failed_row w l e r))"
    proof (cases "gives_up l e")
      case False
      with that have "m_attempts (message_of r) < m_max (message_of r)" by (simp add: gives_up_def message_of_def)
      with False show ?thesis by (simp add: message_of_rows steps)
    qed (simp add: message_of_rows steps)
  qed (simp_all add: row_identity)
qed

lemma killed_moves:
  assumes "exhausted w r" and "msg_ok (message_of r)" shows "moves False r (killed_row r)"
proof -
  obtain v t where p: "m_phase (message_of r) = Leased v t"
    using assms by (cases "ob_locked_at r"; cases "ob_locked_by r")
      (auto simp: exhausted_def msg_ok_def message_of_def row_phase_def)
  show ?thesis by (rule movesI) (simp_all add: row_identity message_of_rows msg_step.abandon [OF p])
qed

lemma taken_step:
  assumes "claimable w r" and "msg_ok (message_of r)"
  shows "msg_step (message_of r) (message_of (taken_row w r))"
proof -
  have a: "m_attempts (message_of r) < m_max (message_of r)"
    using assms(1) by (simp add: claimable_def message_of_def)
  consider "m_phase (message_of r) = Waiting" | v t where "m_phase (message_of r) = Leased v t" and "t < staleBefore w"
    using assms by (cases "ob_locked_at r"; cases "ob_locked_by r")
      (auto simp: claimable_def msg_ok_def message_of_def row_phase_def)
  then show ?thesis
    unfolding message_of_rows using a msg_step.take_waiting msg_step.take_expired by cases blast+
qed

lemma fresh_ok: "fresh r \<Longrightarrow> msg_ok (message_of r)"
  by (simp add: fresh_def msg_ok_def message_of_def row_phase_def)

text \<open>A lease a worker holds still describes its message.\<close>

definition lease_ok :: "db \<Rightarrow> string \<Rightarrow> lease \<Rightarrow> bool" where
  "lease_ok s v l \<longleftrightarrow> (\<exists>r. fetch (outbox_messages s) (ls_id l) = Some r \<and> ob_topic r = ls_topic l \<and>
     ob_max_attempts r = ls_max l \<and>
     (ob_status r = ''processing'' \<and> ob_locked_by r = Some v \<longrightarrow> ob_attempts r = ls_attempts l))"

definition config_ok :: "config \<Rightarrow> bool" where
  "config_ok cf \<longleftrightarrow> wf_tbl (outbox_messages (cf_db cf)) \<and>
     (\<forall>i r. fetch (outbox_messages (cf_db cf)) i = Some r \<longrightarrow> msg_ok (message_of r)) \<and>
     (\<forall>v l. leases (cf_phase cf v) = Some l \<longrightarrow> lease_ok (cf_db cf) v l)"

lemma config_okD:
  assumes "config_ok cf"
  shows "wf_tbl (outbox_messages (cf_db cf))"
    and "fetch (outbox_messages (cf_db cf)) i = Some r \<Longrightarrow> msg_ok (message_of r)"
    and "leases (cf_phase cf v) = Some l \<Longrightarrow> lease_ok (cf_db cf) v l"
  using assms by (auto simp: config_ok_def)

lemma moves_ok: "moves p r r' \<Longrightarrow> msg_ok (message_of r) \<Longrightarrow> msg_ok (message_of r')"
  by (auto simp: moves_def dest: msg_ok_step)

text \<open>A transaction of which every message change is a move keeps the configuration consistent.\<close>

lemma evolves_ok:
  assumes "config_ok cf" and "evolves (\<lambda>i. moves (P i)) (cf_db cf) s"
    and "\<And>v l. leases (p v) = Some l \<Longrightarrow> leases (cf_phase cf v) = Some l"
  shows "config_ok \<lparr>cf_db = s, cf_phase = p\<rparr>"
proof (unfold config_ok_def config.simps, intro conjI allI impI)
  show "wf_tbl (outbox_messages s)" using assms(2) by (rule evolves_wf)
  show "msg_ok (message_of r')" if "fetch (outbox_messages s) i = Some r'" for i r'
    using assms(1,2) that moves_ok fresh_ok config_okD(2) [OF assms(1), of i]
    by (cases "fetch (outbox_messages (cf_db cf)) i") (fastforce simp: evolves_def)+
  show "lease_ok s v l" if "leases (p v) = Some l" for v l
    using config_okD(3) [OF assms(1) assms(3) [OF that]] assms(2)
    by (fastforce simp: lease_ok_def evolves_def moves_def)
qed

lemma lease_owner:
  assumes "lease_ok s v l" and "fetch (outbox_messages s) (ls_id l) = Some r" and "we_id w = v"
    and "owns w (ls_id l) (ls_id l) r"
  shows "ob_topic r = ls_topic l" and "ls_max l = ob_max_attempts r" and "ls_attempts l = ob_attempts r"
  using assms by (auto simp: lease_ok_def owns_def)

text \<open>The settling transactions are moves.\<close>

lemma settle_evolves:
  assumes ok: "config_ok cf" and l: "leases (cf_phase cf (we_id w)) = Some l"
    and s: "outbox_messages s = updateT (owns w (ls_id l)) g (outbox_messages (cf_db cf))"
    and g: "\<And>r. owns w (ls_id l) (ls_id l) r \<Longrightarrow> msg_ok (message_of r) \<Longrightarrow> ob_topic r = ls_topic l \<Longrightarrow>
      ls_max l = ob_max_attempts r \<Longrightarrow> ls_attempts l = ob_attempts r \<Longrightarrow> moves (P (ls_id l)) r (g r)"
  shows "evolves (\<lambda>i. moves (P i)) (cf_db cf) s"
proof -
  have "moves (P i) r (g r)" if "fetch (outbox_messages (cf_db cf)) i = Some r" and "owns w (ls_id l) i r" for i r
  proof -
    have i: "i = ls_id l" using that(2) by (simp add: owns_def)
    note f = that(1) [unfolded i] and o' = that(2) [unfolded i]
    show ?thesis unfolding i
      by (rule g [OF o' config_okD(2) [OF ok f]]) (rule lease_owner [OF config_okD(3) [OF ok l] f refl o'])+
  qed
  then show ?thesis
    by (intro evolves_mono [OF evolves_update [OF config_okD(1) [OF ok] s]]) (simp split: if_splits)
qed

lemma finishes_moves:
  assumes ok: "config_ok cf" and l: "leases (cf_phase cf (we_id w)) = Some l"
    and "ls_topic l \<noteq> ''sms.deliver''" and "evolves (finishes w l) (cf_db cf) s"
  shows "evolves (\<lambda>i. moves False) (cf_db cf) s"
proof -
  have "moves False r (finished w r)" if "fetch (outbox_messages (cf_db cf)) i = Some r" and "owns w (ls_id l) i r" for i r
  proof -
    have i: "i = ls_id l" using that(2) by (simp add: owns_def)
    note f = that(1) [unfolded i] and o' = that(2) [unfolded i]
    show ?thesis
      by (rule settle_moves(1) [OF o' config_okD(2) [OF ok f]])
        (simp add: lease_owner(1) [OF config_okD(3) [OF ok l] f refl o'] assms(3))
  qed
  then show ?thesis
    by (intro evolves_mono [OF assms(4)]) (simp add: finishes_def split: if_splits)
qed

lemma evolves_same: "config_ok cf \<Longrightarrow> evolves (\<lambda>i. moves (P i)) (cf_db cf) (cf_db cf)"
  by (rule evolves_mono [OF evolves_refl]) (simp_all add: config_okD)

lemma moves_mono: "moves False r r' \<Longrightarrow> moves p r r'"
  by (auto simp: moves_def)

lemma stays_moves: "stays s t \<Longrightarrow> evolves (\<lambda>i. moves (P i)) s t"
  by (erule evolves_mono) simp

text \<open>Every step but a claim is a move of every message; a lost commit may hide a claim.\<close>

lemma claim_moves:
  assumes ok: "config_ok cf" and run: "inTransaction f (claim w) (cf_db cf) = (r, s)"
  shows "evolves (\<lambda>i. moves False) (cf_db cf) s \<or> (\<exists>l. claim w (cf_db cf) = Inr (Some l, s))"
proof -
  have "evolves (\<lambda>i. moves False) (cf_db cf) s" if "claim w (cf_db cf) = Inr (None, s)"
  proof -
    have change: "evolves (claims w None) (cf_db cf) s"
      using wpD [OF wp_claim [OF config_okD(1) [OF ok]] that] by blast
    have "moves False r (killed_row r)"
      if "fetch (outbox_messages (cf_db cf)) i = Some r" and "exhausted w r" for i r
      using killed_moves [OF that(2) config_okD(2) [OF ok that(1)]] .
    then show ?thesis by (intro evolves_mono [OF change]) (simp add: claims_def split: if_splits)
  qed
  moreover have "s = cf_db cf \<or> (\<exists>x. claim w (cf_db cf) = Inr (x, s))" by (rule wtx.all_or_nothing [OF run])
  ultimately show ?thesis
    using evolves_same [OF ok, of "\<lambda>_. False"] by (metis not_None_eq)
qed

lemma process_moves:
  assumes ok: "config_ok cf" and l: "leases (cf_phase cf (we_id w)) = Some l"
    and run: "processMessage w net decrypt pv f l (cf_db cf) = (r, s)"
  shows "evolves (\<lambda>i. moves False) (cf_db cf) s"
  using processMessage_evolves [OF run config_okD(1) [OF ok]] finishes_moves [OF ok l] evolves_same [OF ok, of "\<lambda>_. False"]
  by blast

lemma settle_transaction:
  assumes ok: "config_ok cf" and l: "leases (cf_phase cf (we_id w)) = Some l"
    and wp: "wp m (\<lambda>_ s. outbox_messages s = updateT (owns w (ls_id l)) g (outbox_messages (cf_db cf))) (cf_db cf)"
    and run: "inTransaction f m (cf_db cf) = (r, s)"
    and g: "\<And>r. owns w (ls_id l) (ls_id l) r \<Longrightarrow> msg_ok (message_of r) \<Longrightarrow> ob_topic r = ls_topic l \<Longrightarrow>
      ls_max l = ob_max_attempts r \<Longrightarrow> ls_attempts l = ob_attempts r \<Longrightarrow> moves (P (ls_id l)) r (g r)"
  shows "evolves (\<lambda>i. moves (P i)) (cf_db cf) s"
proof -
  have "evolves (\<lambda>i. moves (P i)) (cf_db cf) t"
    if "outbox_messages t = updateT (owns w (ls_id l)) g (outbox_messages (cf_db cf))" for t
    using that g by (rule settle_evolves [OF ok l])
  with wtx.all_or_nothing [OF run] wpD [OF wp] evolves_same [OF ok, of P] show ?thesis by blast
qed

lemma step_cases:
  assumes "wstep cf a cf'" and "config_ok cf"
  obtains (move) "evolves (\<lambda>i. moves (\<exists>v. a = Paused v i)) (cf_db cf) (cf_db cf')"
      and "\<forall>v l. leases (cf_phase cf' v) = Some l \<longrightarrow> leases (cf_phase cf v) = Some l"
      and "\<forall>v i. a \<noteq> Claimed v i"
  | (taken) w l p s where "claim w (cf_db cf) = Inr (Some l, s)" and "cf' = proceed cf w p s"
      and "leases p = None \<or> p = Holding l" and "a = Claimed (we_id w) (ls_id l) \<or> (\<forall>v i. a \<noteq> Claimed v i)"
      and "\<forall>v i. a \<noteq> Paused v i"
  using assms
proof (cases rule: wstep.cases)
  case (claim_some w f l s)
  then have "claim w (cf_db cf) = Inr (Some l, s)" by (simp add: wtx.committed)
  with claim_some show ?thesis by (intro taken [of w l s "Holding l"]) simp_all
next
  case (claim_none w f s)
  then have "claim w (cf_db cf) = Inr (None, s)" by (simp add: wtx.committed)
  with claim_moves [OF assms(2) claim_none(4)] have "evolves (\<lambda>i. moves False) (cf_db cf) s" by simp
  with claim_none show ?thesis by (intro move) (simp_all add: proceed_def)
next
  case (claim_error w f e s)
  from claim_moves [OF assms(2) claim_error(4)] show ?thesis
  proof (elim disjE exE)
    assume "evolves (\<lambda>i. moves False) (cf_db cf) s"
    with claim_error show ?thesis by (intro move) (simp_all add: proceed_def)
  next
    fix l assume "claim w (cf_db cf) = Inr (Some l, s)"
    with claim_error show ?thesis by (intro taken [of w l s "if e = FencePaused then Idle else Stopped"]) simp_all
  qed
next
  case (sweep w f r s)
  have "s = cf_db cf \<or> stays (cf_db cf) s"
    using wtx.all_or_nothing [OF sweep(4)] wpD [OF wp_sweepReminder [OF config_okD(1) [OF assms(2)]]] by blast
  then have "evolves (\<lambda>i. moves False) (cf_db cf) s"
    using evolves_same [OF assms(2), of "\<lambda>_. False"] stays_moves [of _ _ "\<lambda>_. False"] by blast
  with sweep show ?thesis by (intro move) (simp_all add: proceed_def split: sum.splits)
next
  case (process w l net decrypt pv f r s)
  have "evolves (\<lambda>i. moves False) (cf_db cf) s"
    by (rule process_moves [OF assms(2) _ process(4)]) (simp add: process)
  with process show ?thesis
    by (intro move) (auto simp add: proceed_def split: sum.splits bool.splits)
next
  case (finish w l f r s)
  have "evolves (\<lambda>i. moves False) (cf_db cf) s"
    by (rule settle_transaction [OF assms(2) _ wp_complete finish(4), where g = "\<lambda>r. redact (finished w r)"])
      (auto simp: finish config_okD(1) [OF assms(2)] intro: settle_moves)
  with finish show ?thesis by (intro move) (auto simp add: proceed_def split: sum.splits)
next
  case (settle_pause w l f r s)
  have "evolves (\<lambda>i. moves (ls_id l = i)) (cf_db cf) s"
    by (rule settle_transaction [OF assms(2) _ wp_pause settle_pause(4), where g = "paused_row w"])
      (auto simp: settle_pause config_okD(1) [OF assms(2)] intro: settle_moves)
  with settle_pause show ?thesis by (intro move) (auto simp add: proceed_def split: sum.splits)
next
  case (settle_fail w l e f r s)
  have "evolves (\<lambda>i. moves False) (cf_db cf) s"
    by (rule settle_transaction [OF assms(2) _ wp_fail settle_fail(5), where g = "failed_row w l e"])
      (auto simp: settle_fail config_okD(1) [OF assms(2)] intro: settle_moves)
  with settle_fail show ?thesis by (intro move) (auto simp add: proceed_def split: sum.splits)
next
  case (crash v)
  with evolves_same [OF assms(2), of "\<lambda>_. False"] show ?thesis by (intro move) simp_all
next
  case (command s)
  then have "stays (cf_db cf) s"
    using evolves_refl evolves_insert config_okD(1) [OF assms(2)] by blast
  with command show ?thesis by (intro move) (simp_all add: stays_moves)
qed

lemma moves_message: "moves p r r' \<Longrightarrow> message_of r' = message_of r \<or> msg_step (message_of r) (message_of r')"
  by (auto simp: moves_def)

lemma claim_step:
  assumes ok: "config_ok cf" and c: "claim w (cf_db cf) = Inr (Some l, s)"
  shows "evolves (\<lambda>i r r'. if i = ls_id l then claimable w r \<and> r' = taken_row w r \<and> describes l r
    else moves False r r') (cf_db cf) s"
  and "\<exists>r. fetch (outbox_messages (cf_db cf)) (ls_id l) = Some r"
proof -
  from wpD [OF wp_claim [OF config_okD(1) [OF ok]] c] obtain r xs
    where e: "evolves (claims w (Some l)) (cf_db cf) s" and q: "claim_queue w
      (updateT (\<lambda>_. exhausted w) killed_row (outbox_messages (cf_db cf))) = (ls_id l, r) # xs"
    by (auto simp: Let_def)
  have f: "\<exists>r. fetch (outbox_messages (cf_db cf)) (ls_id l) = Some r"
    using claim_queue_fetch [OF config_okD(1) [OF ok], of "ls_id l" r w] q by auto
  show "\<exists>r. fetch (outbox_messages (cf_db cf)) (ls_id l) = Some r" by (rule f)
  show "evolves (\<lambda>i r r'. if i = ls_id l then claimable w r \<and> r' = taken_row w r \<and> describes l r
    else moves False r r') (cf_db cf) s"
    using killed_moves config_okD(2) [OF ok]
    by (intro evolves_mono [OF e]) (auto simp: claims_def split: if_splits)
qed

lemma lease_ok_step:
  assumes "lease_ok s v k" and "fetch (outbox_messages s') (ls_id k) = Some r'"
    and "fetch (outbox_messages s) (ls_id k) = Some r" and "moves p r r' \<or> r' = taken_row w r \<and> v \<noteq> we_id w"
  shows "lease_ok s' v k"
proof -
  have "ob_locked_by (taken_row w r) = Some (we_id w)" by (simp add: taken_row_def)
  with assms show ?thesis
    by (auto simp: lease_ok_def row_identity) (auto simp: moves_def)
qed

text \<open>Claiming keeps the configuration consistent: the new lease describes the message it took.\<close>

lemma claim_ok:
  assumes ok: "config_ok cf" and c: "claim w (cf_db cf) = Inr (Some l, s)"
    and p: "leases p = None \<or> p = Holding l"
  shows "config_ok (proceed cf w p s)"
proof -
  note e = claim_step(1) [OF ok c]
  have rows: "\<exists>r'. fetch (outbox_messages s) i = Some r' \<and> (if i = ls_id l
      then claimable w r \<and> r' = taken_row w r \<and> describes l r else moves False r r')"
    if "fetch (outbox_messages (cf_db cf)) i = Some r" for i r
    using e that by (simp add: evolves_def)
  have "msg_ok (message_of r')" if "fetch (outbox_messages s) i = Some r'" for i r'
  proof (cases "fetch (outbox_messages (cf_db cf)) i")
    case None
    with e that show ?thesis by (auto simp: evolves_def intro: fresh_ok)
  next
    case (Some r)
    from rows [OF this] that config_okD(2) [OF ok Some] show ?thesis
      using msg_ok_step [OF taken_step] moves_ok by (auto split: if_splits)
  qed
  moreover have "lease_ok s v k" if k: "leases (cf_phase (proceed cf w p s) v) = Some k" for v k
  proof (cases "v = we_id w")
    case True
    with k p have "k = l" by (auto simp: proceed_def)
    obtain r where "fetch (outbox_messages (cf_db cf)) (ls_id l) = Some r" using claim_step(2) [OF ok c] ..
    from rows [OF this] obtain r' where "fetch (outbox_messages s) (ls_id l) = Some r'"
      and "r' = taken_row w r" and "describes l r" by auto
    with \<open>k = l\<close> show ?thesis by (simp add: lease_ok_def describes_def row_identity)
  next
    case False
    with k have old: "lease_ok (cf_db cf) v k" using config_okD(3) [OF ok] by (simp add: proceed_def)
    then obtain r where r: "fetch (outbox_messages (cf_db cf)) (ls_id k) = Some r" by (auto simp: lease_ok_def)
    from rows [OF r] obtain r' where "fetch (outbox_messages s) (ls_id k) = Some r'"
      and "r' = taken_row w r \<or> moves False r r'" by (auto split: if_splits)
    with False show ?thesis by (intro lease_ok_step [OF old _ r, where p = False and w = w]) auto
  qed
  ultimately show ?thesis
    using evolves_wf [OF e] by (simp add: config_ok_def proceed_def)
qed

lemma config_ok_step: "wstep cf a cf' \<Longrightarrow> config_ok cf \<Longrightarrow> config_ok cf'"
proof -
  assume step: "wstep cf a cf'" and ok: "config_ok cf"
  from step ok show ?thesis
  proof (cases rule: step_cases)
    case move
    then show ?thesis using evolves_ok [OF ok move(1), of "cf_phase cf'"] by (cases cf') simp
  next
    case (taken w l p s)
    then show ?thesis using claim_ok [OF ok taken(1)] by simp
  qed
qed

lemma config_ok_steps: "wsteps cf as cf' \<Longrightarrow> config_ok cf \<Longrightarrow> config_ok cf'"
  by (induction rule: wsteps.induct) (auto intro: config_ok_step)

lemma config_ok_initial: "initial cf \<Longrightarrow> config_ok cf"
  by (simp add: initial_def config_ok_def emptyT_def fetch_def wf_tbl_def)

lemma config_ok_reachable: "reachable cf \<Longrightarrow> config_ok cf"
  by (auto simp: reachable_def intro: config_ok_steps config_ok_initial)

lemma reachable_step: "reachable cf \<Longrightarrow> wstep cf a cf' \<Longrightarrow> reachable cf'"
  unfolding reachable_def by (blast intro: wsteps.more)

lemma reachable_steps: "wsteps cf as cf' \<Longrightarrow> reachable cf \<Longrightarrow> reachable cf'"
  by (induction rule: wsteps.induct) (auto intro: reachable_step)

section \<open>Properties of the outbox\<close>

text \<open>
  C9. Every step of the system is, for every message, no change or one step of the life of a message:
  it is taken while it waits or after its lease expired, and only with attempts left; a leased
  message is delivered, retried, given back by a pause, or abandoned. Its topic, its
  deduplication key and its attempt limit never change.
\<close>

theorem delivery_refines:
  assumes "reachable cf" and "wstep cf a cf'" and "fetch (outbox_messages (cf_db cf)) i = Some r"
  shows "\<exists>r'. fetch (outbox_messages (cf_db cf')) i = Some r' \<and> ob_topic r' = ob_topic r \<and>
    ob_max_attempts r' = ob_max_attempts r \<and>
    (message_of r' = message_of r \<or> msg_step (message_of r) (message_of r'))"
proof -
  have ok: "config_ok cf" by (rule config_ok_reachable [OF assms(1)])
  have known: "\<exists>r'. fetch (outbox_messages (cf_db cf')) i = Some r' \<and> (moves True r r' \<or>
      (\<exists>w. claimable w r \<and> r' = taken_row w r))"
    using assms(2) ok
  proof (cases rule: step_cases)
    case move
    from evolves_row [OF move(1) assms(3)] show ?thesis by (auto simp: moves_def split: if_splits)
  next
    case (taken w l p s)
    from evolves_row [OF claim_step(1) [OF ok taken(1)] assms(3)] taken(2) show ?thesis
      by (auto simp: proceed_def intro: moves_mono split: if_splits)
  qed
  then show ?thesis
    using taken_step [OF _ config_okD(2) [OF ok assms(3)]] by (auto simp: moves_def row_identity)
qed

text \<open>
  C26. In every reachable configuration a message has between zero and its maximum of attempts, is in
  one of the four states, holds a lease (owner and time) exactly while it is processed, and a text message that was
  delivered or given up no longer carries the sealed code.
\<close>

theorem delivery_invariant:
  assumes "reachable cf" and "fetch (outbox_messages (cf_db cf)) i = Some r"
  shows "0 \<le> ob_attempts r \<and> ob_attempts r \<le> ob_max_attempts r \<and>
    ob_status r \<in> {''pending'', ''processing'', ''completed'', ''dead''} \<and>
    (ob_status r = ''processing'' \<longrightarrow> 1 \<le> ob_attempts r \<and> ob_locked_by r \<noteq> None \<and> ob_locked_at r \<noteq> None) \<and>
    (ob_status r \<noteq> ''processing'' \<longrightarrow> ob_locked_by r = None \<and> ob_locked_at r = None) \<and>
    (ob_topic r = ''sms.deliver'' \<and> ob_status r \<in> {''completed'', ''dead''} \<longrightarrow> ob_payload r = redacted)"
  using config_okD(2) [OF config_ok_reachable [OF assms(1)] assms(2)]
  by (auto simp: msg_ok_def message_of_def row_phase_def split: if_splits option.splits)

definition is_claim :: "int \<Rightarrow> act \<Rightarrow> bool" where
  "is_claim i a \<longleftrightarrow> (case a of Claimed v j \<Rightarrow> j = i | _ \<Rightarrow> False)"

definition is_pause :: "int \<Rightarrow> act \<Rightarrow> bool" where
  "is_pause i a \<longleftrightarrow> (case a of Paused v j \<Rightarrow> j = i | _ \<Rightarrow> False)"

definition occurrences :: "(act \<Rightarrow> bool) \<Rightarrow> act list \<Rightarrow> int" where
  "occurrences p as = int (length (filter p as))"

lemma moves_settled:
  assumes "moves p r r'" and "msg_ok (message_of r)" and "ob_status r \<in> {''completed'', ''dead''}"
  shows "r' = r"
proof -
  have "m_phase (message_of r) \<in> {Delivered, Abandoned}"
    using assms(2,3) by (auto simp: msg_ok_def message_of_def row_phase_def split: if_splits)
  with msg_step_settled assms(1) show ?thesis unfolding moves_def by blast
qed

lemma step_attempts:
  assumes ok: "config_ok cf" and "wstep cf a cf'" and r: "fetch (outbox_messages (cf_db cf)) i = Some r"
  shows "\<exists>r'. fetch (outbox_messages (cf_db cf')) i = Some r' \<and> ob_max_attempts r' = ob_max_attempts r \<and>
    ob_attempts r + (if is_claim i a then 1 else 0) - (if is_pause i a then 1 else 0) \<le> ob_attempts r' \<and>
    (ob_status r \<in> {''completed'', ''dead''} \<longrightarrow> r' = r \<and> \<not> is_claim i a)"
  using assms(2,1)
proof (cases rule: step_cases)
  case move
  then obtain r' where r': "fetch (outbox_messages (cf_db cf')) i = Some r'" and m: "moves (\<exists>v. a = Paused v i) r r'"
    using r unfolding evolves_def by blast
  have "\<not> is_claim i a" using move(3) by (cases a) (auto simp: is_claim_def)
  moreover have "(\<exists>v. a = Paused v i) \<longleftrightarrow> is_pause i a" by (cases a) (auto simp: is_pause_def)
  moreover have "r' = r" if "ob_status r \<in> {''completed'', ''dead''}"
    using moves_settled [OF m config_okD(2) [OF ok r] that] .
  ultimately show ?thesis using r' m by (auto simp: moves_def split: if_splits)
next
  case (taken w l p s)
  then obtain r' where r': "fetch (outbox_messages (cf_db cf')) i = Some r'"
    and m: "if i = ls_id l then claimable w r \<and> r' = taken_row w r \<and> describes l r else moves False r r'"
    using evolves_row [OF claim_step(1) [OF ok taken(1)] r] taken(2) by (auto simp: proceed_def)
  have "\<not> is_pause i a" using taken(5) by (cases a) (auto simp: is_pause_def)
  moreover have "is_claim i a \<Longrightarrow> i = ls_id l" using taken(4) by (cases a) (auto simp: is_claim_def)
  moreover have "r' = r" if "ob_status r \<in> {''completed'', ''dead''}" and "moves False r r'"
    using moves_settled [OF that(2) config_okD(2) [OF ok r] that(1)] .
  ultimately show ?thesis using r' m
    by (cases "i = ls_id l") (auto simp: row_identity claimable_def, auto simp: moves_def)
qed

lemma steps_attempts:
  assumes "wsteps cf as cf'" and "config_ok cf" and "fetch (outbox_messages (cf_db cf)) i = Some r"
  shows "\<exists>r'. fetch (outbox_messages (cf_db cf')) i = Some r' \<and> ob_max_attempts r' = ob_max_attempts r \<and>
    ob_attempts r + occurrences (is_claim i) as - occurrences (is_pause i) as \<le> ob_attempts r' \<and>
    (ob_status r \<in> {''completed'', ''dead''} \<longrightarrow> r' = r \<and> occurrences (is_claim i) as = 0)"
  using assms
proof (induction rule: wsteps.induct)
  case (none cf)
  then show ?case by (simp add: occurrences_def)
next
  case (more cf as cf' a cf'')
  then obtain r' where r': "fetch (outbox_messages (cf_db cf')) i = Some r'"
    and h: "ob_max_attempts r' = ob_max_attempts r"
      "ob_attempts r + occurrences (is_claim i) as - occurrences (is_pause i) as \<le> ob_attempts r'"
      "ob_status r \<in> {''completed'', ''dead''} \<longrightarrow> r' = r \<and> occurrences (is_claim i) as = 0"
    by blast
  from step_attempts [OF config_ok_steps [OF more.hyps(1) more.prems(1)] more.hyps(2) r'] h
  show ?case by (fastforce simp: occurrences_def)
qed

text \<open>
  C27. Once a message is delivered or abandoned it stays so: whatever the workers and the commands do
  afterwards, its row is the same in every column and nobody claims it again.
\<close>

theorem settled_forever:
  assumes "reachable cf" and "fetch (outbox_messages (cf_db cf)) i = Some r"
    and "ob_status r \<in> {''completed'', ''dead''}" and "wsteps cf as cf'"
  shows "fetch (outbox_messages (cf_db cf')) i = Some r \<and> occurrences (is_claim i) as = 0"
  using steps_attempts [OF assms(4) config_ok_reachable [OF assms(1)] assms(2)] assms(3) by blast

text \<open>
  C25. Delivery terminates: in every execution a message is claimed at most as often as it has attempts
  left, plus once for every pause of a writer fence.
\<close>

theorem claims_bounded:
  assumes "reachable cf" and "fetch (outbox_messages (cf_db cf)) i = Some r" and "wsteps cf as cf'"
  shows "occurrences (is_claim i) as \<le> ob_max_attempts r - ob_attempts r + occurrences (is_pause i) as"
proof -
  have ok: "config_ok cf" by (rule config_ok_reachable [OF assms(1)])
  obtain r' where "fetch (outbox_messages (cf_db cf')) i = Some r'" and "ob_max_attempts r' = ob_max_attempts r"
    and "ob_attempts r + occurrences (is_claim i) as - occurrences (is_pause i) as \<le> ob_attempts r'"
    using steps_attempts [OF assms(3) ok assms(2)] by blast
  with config_okD(2) [OF config_ok_steps [OF assms(3) ok]] show ?thesis
    by (fastforce simp: msg_ok_def message_of_def)
qed

text \<open>
  C24. A claim takes the message that became available first, lowest id first, among those that are
  waiting or whose lease expired and that have attempts left; it returns nothing only when there is
  no such message. Of the others it changes only the expired leases without attempts left.
\<close>

theorem claim_correct:
  assumes "claim w s = Inr (x, s')" and "wf_tbl (outbox_messages s)"
  shows "(case x of None \<Rightarrow> \<forall>j q. fetch (outbox_messages s) j = Some q \<longrightarrow> \<not> claimable w q
    | Some l \<Rightarrow> \<exists>r. fetch (outbox_messages s) (ls_id l) = Some r \<and> claimable w r \<and> describes l r \<and>
        fetch (outbox_messages s') (ls_id l) = Some (taken_row w r) \<and>
        (\<forall>j q. fetch (outbox_messages s) j = Some q \<and> claimable w q \<longrightarrow>
          (ob_available_at r, ls_id l) \<le> (ob_available_at q, j))) \<and>
    (\<forall>j q. fetch (outbox_messages s) j = Some q \<and> map_option ls_id x \<noteq> Some j \<longrightarrow>
      fetch (outbox_messages s') j = Some (if exhausted w q then killed_row q else q))"
proof -
  let ?q = "claim_queue w (updateT (\<lambda>_. exhausted w) killed_row (outbox_messages s))"
  from wpD [OF wp_claim [OF assms(2)] assms(1)] have e: "evolves (claims w x) s s'"
    and q: "case x of None \<Rightarrow> ?q = [] | Some l \<Rightarrow> (\<exists>r xs. ?q = (ls_id l, r) # xs)"
    by (auto simp: Let_def)
  have others: "fetch (outbox_messages s') j = Some (if exhausted w q then killed_row q else q)"
    if "fetch (outbox_messages s) j = Some q" and "map_option ls_id x \<noteq> Some j" for j q
    using evolves_row [OF e that(1)] that(2) by (auto simp: claims_def)
  show ?thesis
  proof (cases x)
    case None
    with q claim_queue_all [OF assms(2)] others show ?thesis by fastforce
  next
    case (Some l)
    with q obtain r xs where r: "?q = (ls_id l, r) # xs" by auto
    then have f: "fetch (outbox_messages s) (ls_id l) = Some r"
      using claim_queue_fetch [OF assms(2), of "ls_id l" r w] by simp
    from evolves_row [OF e f] have "claimable w r" and "describes l r"
      and "fetch (outbox_messages s') (ls_id l) = Some (taken_row w r)"
      by (auto simp: claims_def Some)
    moreover have "(ob_available_at r, ls_id l) \<le> (ob_available_at q, j)"
      if "fetch (outbox_messages s) j = Some q" and "claimable w q" for j q
      by (rule claim_queue_first [OF r claim_queue_all [OF assms(2) that]])
    ultimately show ?thesis using f others by (auto simp: Some)
  qed
qed

text \<open>
  The retry delay of a failed delivery is between ten seconds and one hour and never shrinks as
  the attempts grow.
\<close>

theorem backoff_bounds:
  assumes "1 \<le> a"
  shows "10 \<le> delaySeconds a \<and> delaySeconds a \<le> 3600 \<and> delaySeconds a \<le> delaySeconds (a + 1)"
proof -
  define p q :: int where "p = 2 ^ nat (min a 10)" and "q = 2 ^ nat (min (a + 1) 10)"
  have "p \<le> q" unfolding p_def q_def by (rule power_increasing) auto
  moreover have "2 ^ 1 \<le> p" unfolding p_def using assms by (intro power_increasing) auto
  ultimately show ?thesis unfolding delaySeconds_def p_def [symmetric] q_def [symmetric] by auto
qed

section \<open>Domain events reach their audience once\<close>

definition notified :: "db \<Rightarrow> notification list" where
  "notified s = map snd (rows (notifications s))"

definition is_completed :: "db \<Rightarrow> int \<Rightarrow> bool" where
  "is_completed s i \<longleftrightarrow> (case fetch (outbox_messages s) i of None \<Rightarrow> False | Some r \<Rightarrow> ob_status r = ''completed'')"

lemma is_completed_iff:
  "is_completed s i \<longleftrightarrow> (\<exists>r. fetch (outbox_messages s) i = Some r \<and> ob_status r = ''completed'')"
  by (simp add: is_completed_def split: option.split)

lemma wp_notifyUser:
  "Q () (notifications_update (insertT (event_notification w e u)) s) \<Longrightarrow> wp (notifyUser w e u) Q s"
  unfolding notifyUser_def by (intro wp_intros)

lemma wp_notifyUsers:
  assumes "\<And>s'. outbox_messages s' = outbox_messages s \<Longrightarrow> notified s' = notified s @ map (event_notification w e) us \<Longrightarrow> Q () s'"
  shows "wp (eachC (notifyUser w e) us) Q s"
  using assms
proof (induction us arbitrary: s)
  case Nil
  then show ?case by (simp add: wp_simps)
next
  case (Cons u us)
  show ?case
    unfolding eachC.simps
    by (intro wp_bindI wp_notifyUser Cons.IH Cons.prems) (simp_all add: notified_def insertT_def)
qed

lemma recipients_pure: "recipients a s = Inr (us, t) \<Longrightarrow> t = s"
  using framesD [OF frames_recipients [of "\<lambda>s. s"]] by blast

lemma wp_dispatch_events:
  assumes "wf_tbl (outbox_messages s)"
  shows "wp (dispatchBody w l e) (\<lambda>_ s'. \<not> is_completed s (ls_id l) \<and> is_completed s' (ls_id l) \<and>
    (\<exists>us. recipients (de_recipient e) s = Inr (us, s) \<and>
      notified s' = notified s @ map (event_notification w e) us)) s"
proof -
  have settle: "wp (completeLease w l) (\<lambda>_ s'. \<not> is_completed s (ls_id l) \<and> is_completed s' (ls_id l) \<and> P s') t"
    if t: "outbox_messages t = outbox_messages s" and "\<And>f. P (outbox_messages_update f t)" for t P
    by (rule wp_completeLease)
      (use assms that in \<open>auto simp: is_completed_iff fetch_updateT finished_def owns_def\<close>)
  have body: "wp (bindC (eachC (notifyUser w e) us) (\<lambda>_. completeLease w l)) (\<lambda>_ s'.
      \<not> is_completed s (ls_id l) \<and> is_completed s' (ls_id l) \<and>
      (\<exists>us. recipients (de_recipient e) s = Inr (us, s) \<and>
        notified s' = notified s @ map (event_notification w e) us)) s"
    if "recipients (de_recipient e) s = Inr (us, s)" for us
    by (intro wp_intros wp_notifyUsers settle) (use that in \<open>auto simp: notified_def\<close>)
  have "wp (recipients (de_recipient e)) (\<lambda>us. wp (bindC (eachC (notifyUser w e) us) (\<lambda>_. completeLease w l))
      (\<lambda>_ s'. \<not> is_completed s (ls_id l) \<and> is_completed s' (ls_id l) \<and>
        (\<exists>us. recipients (de_recipient e) s = Inr (us, s) \<and>
          notified s' = notified s @ map (event_notification w e) us))) s"
    by (rule wpI) (use body recipients_pure in blast)
  then show ?thesis
    unfolding dispatchBody_def by (intro wp_intros) (simp add: wp_simps)
qed

lemma dispatch_event_cases:
  assumes "ls_topic l = ''domain.event''" and "processMessage w net decrypt pv f l s = (r, s')"
  shows "s' = s \<and> (\<exists>x. r = Inl x) \<or> (\<exists>p e. ls_payload l = JObj p \<and> requireDomainEvent p s = Inr (e, s) \<and>
    dispatchBody w l e s = Inr ((), s') \<and> (r = Inr True \<or> (\<exists>x. r = Inl x)))"
proof (cases "parsePayload (ls_payload l) s")
  case (Inl x)
  with assms show ?thesis by (simp add: processMessage_def) blast
next
  case (Inr q)
  then obtain p where p: "ls_payload l = JObj p" and q: "q = (p, s)"
    by (auto simp: parsePayload_def returnC_def throwC_def split: json.splits)
  show ?thesis
  proof (cases "requireDomainEvent p s")
    case (Inl x)
    with assms p show ?thesis
      by (auto simp: processMessage_def parsePayload_def returnC_def dispatchDomainEvent_def)
  next
    case (Inr v)
    obtain e t where v: "v = (e, t)" by (cases v)
    have "frames (\<lambda>s. s) (requireDomainEvent p)"
      unfolding requireDomainEvent_def payloadText_def Let_def
      by (intro frame_rules)
    from framesD [OF this] Inr have e: "requireDomainEvent p s = Inr (e, s)" by (auto simp: v)
    obtain r1 where r1: "inTransaction f (dispatchBody w l e) s = (r1, s')"
      and r: "r = (case r1 of Inl x \<Rightarrow> Inl x | Inr _ \<Rightarrow> Inr True)"
      using assms p e
      by (auto simp: processMessage_def parsePayload_def returnC_def dispatchDomainEvent_def split: prod.splits sum.splits)
    show ?thesis
    proof (cases r1)
      case (Inl x)
      with wtx.all_or_nothing [OF r1] r p e show ?thesis by auto
    next
      case (Inr u)
      then have "dispatchBody w l e s = Inr ((), s')" using wtx.committed [of f "dispatchBody w l e" s u s'] r1 by simp
      with r p e Inr show ?thesis by auto
    qed
  qed
qed

text \<open>
  C23. When a worker has dispatched a domain event, every member of its audience, found at that moment,
  has exactly one new in-app notification and nobody else has one; from then on no worker can change
  anything by dispatching that message again, whatever happens in between.
\<close>

theorem event_exactly_once:
  assumes "reachable cf" and "cf_phase cf (we_id w) = Holding l" and "ls_topic l = ''domain.event''"
    and "processMessage w net decrypt pv f l (cf_db cf) = (Inr True, s)"
  shows "(\<exists>p e us. ls_payload l = JObj p \<and> requireDomainEvent p (cf_db cf) = Inr (e, cf_db cf) \<and>
      recipients (de_recipient e) (cf_db cf) = Inr (us, cf_db cf) \<and>
      notified s = notified (cf_db cf) @ map (event_notification w e) us) \<and>
    (\<forall>as cf' w' net' decrypt' pv' f' k r t. wsteps (proceed cf w Idle s) as cf' \<longrightarrow> ls_id k = ls_id l \<longrightarrow>
      ls_topic k = ''domain.event'' \<longrightarrow> processMessage w' net' decrypt' pv' f' k (cf_db cf') = (r, t) \<longrightarrow>
      t = cf_db cf' \<and> (\<exists>x. r = Inl x))"
proof -
  have ok: "config_ok cf" by (rule config_ok_reachable [OF assms(1)])
  have wf: "wf_tbl (outbox_messages (cf_db cf))" by (rule config_okD(1) [OF ok])
  from dispatch_event_cases [OF assms(3,4)] obtain p e where p: "ls_payload l = JObj p"
    and e: "requireDomainEvent p (cf_db cf) = Inr (e, cf_db cf)" and d: "dispatchBody w l e (cf_db cf) = Inr ((), s)"
    by auto
  from wpD [OF wp_dispatch_events [OF wf] d] obtain us where done': "is_completed s (ls_id l)"
    and us: "recipients (de_recipient e) (cf_db cf) = Inr (us, cf_db cf)"
      "notified s = notified (cf_db cf) @ map (event_notification w e) us" by blast
  have step: "wstep cf (Worked (we_id w)) (proceed cf w Idle s)"
    using wstep.process [OF assms(2,4)] by simp
  have later: "t = cf_db cf' \<and> (\<exists>x. r = Inl x)"
    if "wsteps (proceed cf w Idle s) as cf'" and k: "ls_id k = ls_id l" "ls_topic k = ''domain.event''"
      "processMessage w' net' decrypt' pv' f' k (cf_db cf') = (r, t)" for as cf' w' net' decrypt' pv' f' k r t
  proof -
    have ok': "config_ok cf'" by (rule config_ok_steps [OF that(1) config_ok_step [OF step ok]])
    have "is_completed (cf_db cf') (ls_id k)"
      using steps_attempts [OF that(1) config_ok_step [OF step ok]] done'
      by (fastforce simp: is_completed_iff proceed_def k(1))
    then have "dispatchBody w' k e' (cf_db cf') \<noteq> Inr ((), t)" for e'
      using wpD [OF wp_dispatch_events [OF config_okD(1) [OF ok']]] by blast
    with dispatch_event_cases [OF k(2,3)] show ?thesis by blast
  qed
  from p e us later show ?thesis by blast
qed

section \<open>Reminders\<close>

lemma frames_remindUser: "frames reminders (remindUser w i r u)"
  unfolding remindUser_def by (intro frame_rules frames_insert) simp_all

lemma wp_sweep_reminders:
  "wp (sweepReminder w) (\<lambda>_ s'. reminders s' = reminders s \<or> (\<exists>i r. (i, r) \<in> set (due_reminders w s) \<and>
    reminders s' = updateT (\<lambda>j _. j = i \<and> True) (\<lambda>x. x\<lparr>rm_status := next_status r,
      rm_next_run_at := next_run w r, rm_last_run_at := Some (wnow w)\<rparr>) (reminders s))) s"
  unfolding sweepReminder_def
  by (intro wp_intros wp_frames [OF frames_each, OF frames_remindUser]) auto

text \<open>
  A daily reminder never ends: sweeping it sets its next run and leaves it active, so that its
  recipients are notified again every day.
\<close>

theorem daily_reminder_persists:
  assumes "sweepReminder w s = Inr (b, s')" and "wf_tbl (reminders s)" and "fetch (reminders s) i = Some r"
    and "rm_status r = ''active''" and "rm_recurrence r = ''daily_overdue''"
  shows "\<exists>r'. fetch (reminders s') i = Some r' \<and> rm_status r' = ''active'' \<and> rm_recurrence r' = ''daily_overdue''"
proof -
  consider "reminders s' = reminders s" | j q where "(j, q) \<in> set (due_reminders w s)"
    and "reminders s' = updateT (\<lambda>k _. k = j \<and> True) (\<lambda>x. x\<lparr>rm_status := next_status q,
      rm_next_run_at := next_run w q, rm_last_run_at := Some (wnow w)\<rparr>) (reminders s)"
    using wpD [OF wp_sweep_reminders assms(1)] by blast
  then show ?thesis
  proof cases
    case 1
    with assms show ?thesis by simp
  next
    case (2 j q)
    then have "fetch (reminders s) j = Some q"
      using assms(2) by (auto simp: due_reminders_def select_rows fetch_rows)
    with 2 assms show ?thesis by (auto simp: fetch_updateT next_status_def)
  qed
qed

section \<open>The properties at a concrete delivery\<close>

definition sample_wenv :: wenv where
  "sample_wenv = \<lparr>we_env = sample_env, we_id = ''worker-1'', we_sql_in_1s = ''2025-01-01 08:00:01.000'',
     we_sql_in_5y = ''2030-01-01 08:00:00.000''\<rparr>"

definition sample_endpoint :: endpoint where
  "sample_endpoint = \<lparr>ep_key = ''k'', ep_health = ''h'', ep_url = ''u''\<rparr>"

definition sample_providers :: providers where
  "sample_providers = \<lparr>pv_email = sample_endpoint, pv_scanner = sample_endpoint, pv_sms = sample_endpoint,
     pv_keys = []\<rparr>"

definition sample_user :: user_row where
  "sample_user = \<lparr>us_email = ''a@b'', us_mobile = [], us_name = ''A'', us_role = ''supply_chain'',
     us_factory = None, us_supplier = None, us_organization = [], us_status = ''active''\<rparr>"

definition event_payload :: "(string \<times> json) list" where
  "event_payload = [(''schemaVersion'', jint 1), (''entityType'', JStr ''stocktake''),
     (''entityId'', JStr ''7''), (''eventType'', JStr ''StocktakeOpened''),
     (''recipient'', JObj [(''kind'', JStr ''role''), (''role'', JStr ''supply_chain'')]), (''data'', JObj [])]"

definition event_message :: outbox where
  "event_message = \<lparr>ob_topic = ''domain.event'', ob_aggregate_type = ''stocktake'', ob_aggregate_id = ''7'',
     ob_dedup = ''r3:StocktakeOpened:stocktake:7'', ob_payload = JObj event_payload, ob_status = ''pending'',
     ob_available_at = ''2025-01-01T00:00:00.000Z'', ob_attempts = 0, ob_max_attempts = 8,
     ob_locked_by = None, ob_locked_at = None, ob_last_error = None, ob_completed_at = None\<rparr>"

definition worker_db :: "outbox tbl \<Rightarrow> db" where
  "worker_db t = empty_db\<lparr>fences := (\<lambda>_. Some \<lparr>f_owner = ''worker-v1'', f_enabled = True, f_generation = 2\<rparr>),
     users := insertT sample_user emptyT, outbox_messages := t\<rparr>"

definition waiting_db :: db where
  "waiting_db = worker_db (insertT event_message emptyT)"

lemma worker_db_simps [simp]:
  "outbox_messages (worker_db t) = t" "outbox_messages_update f (worker_db t) = worker_db (f t)"
  "fences (worker_db t) x = Some \<lparr>f_owner = ''worker-v1'', f_enabled = True, f_generation = 2\<rparr>"
  "users (worker_db t) = insertT sample_user emptyT" "user_roles (worker_db t) = emptyT"
  "notifications (worker_db t) = emptyT"
  by (simp_all add: worker_db_def empty_db_def)

lemma sample_claimable: "claimable sample_wenv event_message" "\<not> exhausted sample_wenv event_message"
  by code_simp+

definition sample_lease :: lease where
  "sample_lease = \<lparr>ls_id = 1, ls_topic = ''domain.event'', ls_payload = JObj event_payload,
     ls_dedup = ob_dedup event_message, ls_attempts = 1, ls_max = 8\<rparr>"

definition leased_row :: outbox where
  "leased_row = event_message\<lparr>ob_status := ''processing'', ob_locked_by := Some ''worker-1'',
     ob_locked_at := Some (wnow sample_wenv), ob_attempts := 1\<rparr>"

lemma fence_open_worker [simp]: "requireFence x (worker_db t) = Inr ((), worker_db t)"
  by (simp add: requireFence_def bindC_def queryC_def run_guard writerOwner_def writerGeneration_def)

lemma sample_claim: "claim sample_wenv waiting_db = Inr (Some sample_lease, worker_db (insertT leased_row emptyT))"
proof -
  have "ok_outbox (insertT event_message emptyT) (Some 1) leased_row"
    by (simp add: ok_outbox_def leased_row_def event_message_def int32_def unique_by_def v191_def insertT_def emptyT_def)
  moreover have "we_id sample_wenv = ''worker-1''" by (simp add: sample_wenv_def)
  ultimately show ?thesis
    by (simp add: claim_def bindC_def queryC_def run_guard waiting_db_def updateC_def insertT_def emptyT_def
        select_def sample_claimable matched_def updateT_def returnC_def)
      (simp add: sample_lease_def leased_row_def event_message_def)
qed

lemma sample_dispatch:
  "\<exists>s. processMessage sample_wenv (\<lambda>_. None) (\<lambda>_ _ _ _. None) sample_providers TxOk sample_lease
      (worker_db (insertT leased_row emptyT)) = (Inr True, s)"
proof -
  let ?r = "processMessage sample_wenv (\<lambda>_. None) (\<lambda>_ _ _ _. None) sample_providers TxOk sample_lease
      (worker_db (insertT leased_row emptyT))"
  have "case fst ?r of Inl _ \<Rightarrow> False | Inr b \<Rightarrow> b" by code_simp
  then show ?thesis by (cases ?r) (auto split: sum.splits)
qed

definition waiting_config :: config where
  "waiting_config = \<lparr>cf_db = waiting_db, cf_phase = (\<lambda>_. Idle)\<rparr>"

lemma waiting_row: "fetch (outbox_messages waiting_db) 1 = Some event_message"
  by (simp add: waiting_db_def insertT_def emptyT_def fetch_def)

lemma waiting_reachable: "reachable waiting_config"
proof -
  have "initial \<lparr>cf_db = worker_db emptyT, cf_phase = (\<lambda>_. Idle)\<rparr>"
    by (simp add: initial_def worker_db_def)
  moreover have "wstep \<lparr>cf_db = worker_db emptyT, cf_phase = (\<lambda>_. Idle)\<rparr> Commanded waiting_config"
    using wstep.command [of waiting_db "\<lparr>cf_db = worker_db emptyT, cf_phase = (\<lambda>_. Idle)\<rparr>"]
    by (simp add: waiting_config_def waiting_db_def worker_db_def fresh_def event_message_def)
  ultimately show ?thesis
    unfolding reachable_def using wsteps.none wsteps.more by blast
qed

text \<open>A worker claims the message and dispatches it.\<close>

lemma sample_delivery:
  obtains l s1 s2 where "ls_id l = 1" and "ls_topic l = ''domain.event''" and "is_completed s2 1"
    and "wstep waiting_config (Claimed ''worker-1'' 1) (proceed waiting_config sample_wenv (Holding l) s1)"
    and "claim sample_wenv waiting_db = Inr (Some l, s1)"
    and "processMessage sample_wenv (\<lambda>_. None) (\<lambda>_ _ _ _. None) sample_providers TxOk l s1 = (Inr True, s2)"
proof -
  let ?s1 = "worker_db (insertT leased_row emptyT)"
  obtain s2 where p: "processMessage sample_wenv (\<lambda>_. None) (\<lambda>_ _ _ _. None) sample_providers TxOk sample_lease
      ?s1 = (Inr True, s2)" using sample_dispatch ..
  have l: "ls_id sample_lease = 1" "ls_topic sample_lease = ''domain.event''" by (simp_all add: sample_lease_def)
  obtain e where "dispatchBody sample_wenv sample_lease e ?s1 = Inr ((), s2)"
    using dispatch_event_cases [OF l(2) p] by auto
  from wpD [OF wp_dispatch_events this] l have "is_completed s2 1" by auto
  moreover have "wstep waiting_config (Claimed ''worker-1'' 1)
      (proceed waiting_config sample_wenv (Holding sample_lease) ?s1)"
    using wstep.claim_some [of waiting_config sample_wenv TxOk sample_lease ?s1] sample_claim
    by (simp add: waiting_config_def sample_wenv_def inTransaction_def sample_lease_def)
  ultimately show thesis using l sample_claim p by (intro that [of sample_lease s2 ?s1])
qed

lemma delivery_refines_witness:
  "\<exists>s1 l r'. fetch (outbox_messages (cf_db (proceed waiting_config sample_wenv (Holding l) s1))) 1 = Some r' \<and>
    ob_topic r' = ''domain.event''"
proof -
  obtain l s1 where "wstep waiting_config (Claimed ''worker-1'' 1) (proceed waiting_config sample_wenv (Holding l) s1)"
    using sample_delivery by blast
  from delivery_refines [OF waiting_reachable this, of 1 event_message] show ?thesis
    by (auto simp: waiting_config_def waiting_row event_message_def)
qed

lemma delivery_invariant_witness: "fetch (outbox_messages (cf_db waiting_config)) 1 = Some event_message \<and>
    ob_attempts event_message \<le> ob_max_attempts event_message"
  using delivery_invariant [OF waiting_reachable, of 1 event_message] waiting_row
  by (simp add: waiting_config_def)

lemma claims_bounded_witness:
  "\<exists>cf as. wsteps waiting_config as cf \<and> occurrences (is_claim 1) as = 1 \<and>
    occurrences (is_claim 1) as \<le> ob_max_attempts event_message + occurrences (is_pause 1) as"
proof -
  obtain l s1 where "wstep waiting_config (Claimed ''worker-1'' 1) (proceed waiting_config sample_wenv (Holding l) s1)"
    using sample_delivery by blast
  then have steps: "wsteps waiting_config [Claimed ''worker-1'' 1] (proceed waiting_config sample_wenv (Holding l) s1)"
    using wsteps.more [OF wsteps.none] by fastforce
  moreover have "fetch (outbox_messages (cf_db waiting_config)) 1 = Some event_message"
    by (simp add: waiting_config_def waiting_row)
  ultimately have "occurrences (is_claim 1) [Claimed ''worker-1'' 1] \<le>
      ob_max_attempts event_message - ob_attempts event_message + occurrences (is_pause 1) [Claimed ''worker-1'' 1]"
    using claims_bounded [OF waiting_reachable] by blast
  with steps show ?thesis
    by (intro exI [of _ "proceed waiting_config sample_wenv (Holding l) s1"] exI [of _ "[Claimed ''worker-1'' 1]"])
      (simp add: occurrences_def is_claim_def event_message_def)
qed

lemma settled_forever_witness:
  "\<exists>cf r. reachable cf \<and> fetch (outbox_messages (cf_db cf)) 1 = Some r \<and> ob_status r = ''completed'' \<and>
    (\<forall>as cf'. wsteps cf as cf' \<longrightarrow> fetch (outbox_messages (cf_db cf')) 1 = Some r)"
proof -
  obtain l s1 s2 where "is_completed s2 1" and step: "wstep waiting_config (Claimed ''worker-1'' 1)
      (proceed waiting_config sample_wenv (Holding l) s1)"
    and run: "processMessage sample_wenv (\<lambda>_. None) (\<lambda>_ _ _ _. None) sample_providers TxOk l s1 = (Inr True, s2)"
    using sample_delivery by metis
  let ?c = "proceed waiting_config sample_wenv (Holding l) s1"
  have "wstep ?c (Worked ''worker-1'') (proceed ?c sample_wenv Idle s2)"
    using wstep.process [of ?c sample_wenv l "\<lambda>_. None" "\<lambda>_ _ _ _. None" sample_providers TxOk] run
    by (simp add: proceed_def sample_wenv_def)
  with step waiting_reachable have r: "reachable (proceed ?c sample_wenv Idle s2)" by (blast intro: reachable_step)
  from \<open>is_completed s2 1\<close> obtain q where q: "fetch (outbox_messages (cf_db (proceed ?c sample_wenv Idle s2))) 1 = Some q"
    "ob_status q = ''completed''" by (auto simp: is_completed_iff proceed_def)
  with settled_forever [OF r q(1)] r show ?thesis by fastforce
qed

lemma claim_correct_witness:
  "\<exists>l s1. claim sample_wenv waiting_db = Inr (Some l, s1) \<and> ls_id l = 1 \<and> describes l event_message"
proof -
  obtain l s1 where c: "claim sample_wenv waiting_db = Inr (Some l, s1)" and l: "ls_id l = 1"
    using sample_delivery by metis
  have "wf_tbl (outbox_messages waiting_db)" by (simp add: waiting_db_def worker_db_def)
  from claim_correct [OF c this] c l show ?thesis by (auto simp: waiting_row)
qed

lemma backoff_bounds_witness: "10 \<le> delaySeconds 3 \<and> delaySeconds 3 \<le> 3600"
  using backoff_bounds [of 3] by simp

lemma event_exactly_once_witness:
  "\<exists>l s1 s2. processMessage sample_wenv (\<lambda>_. None) (\<lambda>_ _ _ _. None) sample_providers TxOk l s1 = (Inr True, s2) \<and>
    (\<exists>x. processMessage sample_wenv (\<lambda>_. None) (\<lambda>_ _ _ _. None) sample_providers TxOk l s2 = (Inl x, s2))"
proof -
  obtain l s1 s2 where l: "ls_topic l = ''domain.event''" and step: "wstep waiting_config (Claimed ''worker-1'' 1)
      (proceed waiting_config sample_wenv (Holding l) s1)"
    and run: "processMessage sample_wenv (\<lambda>_. None) (\<lambda>_ _ _ _. None) sample_providers TxOk l s1 = (Inr True, s2)"
    using sample_delivery by metis
  let ?c = "proceed waiting_config sample_wenv (Holding l) s1"
  have r: "reachable ?c" by (rule reachable_step [OF waiting_reachable step])
  have h: "cf_phase ?c (we_id sample_wenv) = Holding l" by (simp add: proceed_def)
  have run': "processMessage sample_wenv (\<lambda>_. None) (\<lambda>_ _ _ _. None) sample_providers TxOk l (cf_db ?c) = (Inr True, s2)"
    using run by (simp add: proceed_def)
  obtain q t where again: "processMessage sample_wenv (\<lambda>_. None) (\<lambda>_ _ _ _. None) sample_providers TxOk l s2 = (q, t)"
    by (cases "processMessage sample_wenv (\<lambda>_. None) (\<lambda>_ _ _ _. None) sample_providers TxOk l s2")
  have "cf_db (proceed ?c sample_wenv Idle s2) = s2" by (simp add: proceed_def)
  with again have "t = s2 \<and> (\<exists>x. q = Inl x)"
    using event_exactly_once [OF r h l run'] wsteps.none l by metis
  with run again show ?thesis by blast
qed

definition sample_reminder :: reminder where
  "sample_reminder = \<lparr>rm_type = ''purchase_order_confirmation'', rm_entity_type = ''purchase_order'', rm_entity = 1,
     rm_business_no = Some ''PO-1'', rm_due_at = ''2024-12-31T00:00:00.000Z'',
     rm_next_run_at = ''2024-12-31T00:00:00.000Z'', rm_recurrence = ''daily_overdue'', rm_roles = JArr [],
     rm_users = JArr [], rm_severity = ''approval'', rm_status = ''active'', rm_last_run_at = None\<rparr>"

definition reminder_db :: db where
  "reminder_db = (worker_db emptyT)\<lparr>reminders := insertT sample_reminder emptyT\<rparr>"

lemma daily_reminder_persists_witness:
  "\<exists>s r. sweepReminder sample_wenv reminder_db = Inr (True, s) \<and> fetch (reminders s) 1 = Some r \<and>
    rm_status r = ''active''"
proof -
  have "\<exists>s. sweepReminder sample_wenv reminder_db = Inr (True, s)"
  proof -
    have due: "rm_next_run_at sample_reminder \<le> wnow sample_wenv" by code_simp
    have f: "requireFence x reminder_db = Inr ((), reminder_db)" for x
      by (simp add: requireFence_def bindC_def queryC_def run_guard writerOwner_def writerGeneration_def
          reminder_db_def)
    have r: "reminders reminder_db = insertT sample_reminder emptyT" "audit_logs reminder_db = emptyT"
      by (simp_all add: reminder_db_def worker_db_def empty_db_def)
    have found: "due_reminders sample_wenv reminder_db = [(1, sample_reminder)]"
      using due by (simp add: due_reminders_def r insertT_def emptyT_def select_def)
        (simp add: sample_reminder_def)
    have plain: "rm_roles sample_reminder = JArr []" "rm_users sample_reminder = JArr []"
      "rm_type sample_reminder \<noteq> ''invoice_replacement_overdue''"
      by (simp_all add: sample_reminder_def)
    show ?thesis
      by (simp add: sweepReminder_def bindC_def f queryC_def found jsonArray_def plain returnC_def whenC_def
          json_strings_def json_integers_def reminder_users_def select_def updateC_def insertC_def ok_any_def
          ok_audit_def list_all_iff)
  qed
  then obtain s where s: "sweepReminder sample_wenv reminder_db = Inr (True, s)" ..
  have f: "fetch (reminders reminder_db) 1 = Some sample_reminder"
    by (simp add: reminder_db_def insertT_def emptyT_def fetch_def)
  from daily_reminder_persists [OF s _ f] s show ?thesis
    by (auto simp: sample_reminder_def reminder_db_def)
qed

end
