(* ===== verification/Progress.thy ===== *)
theory Progress
  imports Delivery
begin

text \<open>
  Progress of the outbox worker (\<open>apps/worker\<close>): while its fence is open, claims never fail and take the due
  messages one after the other in the order in which they became available, so no message is passed over.
\<close>

section \<open>A claim that succeeds\<close>

definition fence_ready :: "db \<Rightarrow> bool" where
  "fence_ready s \<longleftrightarrow> (case fences s ''outbox.worker'' of None \<Rightarrow> False
     | Some f \<Rightarrow> f_owner f = writerOwner \<and> f_generation f = writerGeneration \<and> f_enabled f)"

text \<open>The storage engine's constraints hold of the messages it stores.\<close>

definition storable :: "outbox tbl \<Rightarrow> bool" where
  "storable t \<longleftrightarrow> wf_tbl t \<and> (\<forall>(i, r) \<in> set (rows t). ok_outbox t (Some i) r \<and> 0 \<le> ob_attempts r)"

text \<open>An update that keeps the keys of the rows and their counters in range.\<close>

definition mild :: "(outbox \<Rightarrow> outbox) \<Rightarrow> outbox \<Rightarrow> bool" where
  "mild f r \<longleftrightarrow> ob_topic (f r) = ob_topic r \<and> ob_aggregate_type (f r) = ob_aggregate_type r \<and>
     ob_aggregate_id (f r) = ob_aggregate_id r \<and> ob_dedup (f r) = ob_dedup r \<and> ob_max_attempts (f r) = ob_max_attempts r \<and>
     0 \<le> ob_attempts (f r) \<and> (ob_attempts (f r) = ob_attempts r \<or> ob_attempts (f r) \<le> ob_max_attempts r)"

lemma mild_ok: "ok_outbox t (Some i) r \<Longrightarrow> mild f r \<Longrightarrow> ok_outbox t (Some i) (f r)"
  by (auto simp: ok_outbox_def mild_def unique_by_def int32_def)

lemma ok_outbox_update:
  assumes "\<And>j q. (j, q) \<in> set (rows t) \<Longrightarrow> p j q \<Longrightarrow> ob_dedup (f q) = ob_dedup q"
  shows "ok_outbox (updateT p f t) self r = ok_outbox t self r"
proof -
  have "unique_by ob_dedup (updateT p f t) self r = unique_by ob_dedup t self r"
    using assms by (fastforce simp: unique_by_def updateT_def list_all_iff split: if_splits)
  then show ?thesis by (simp add: ok_outbox_def)
qed

lemma storable_update:
  assumes t: "storable t" and mild: "\<And>i r. (i, r) \<in> set (rows t) \<Longrightarrow> p i r \<Longrightarrow> mild f r"
  shows "storable (updateT p f t)" and "list_all (\<lambda>(i, r). ok_outbox t (Some i) (f r)) (select t p)"
proof -
  have eq: "ok_outbox (updateT p f t) self r = ok_outbox t self r" for self r
    using mild by (intro ok_outbox_update) (auto simp: mild_def)
  show "storable (updateT p f t)"
    unfolding storable_def
  proof (intro conjI ballI wf_updateT)
    fix x assume "x \<in> set (rows (updateT p f t))"
    then obtain i r where r: "(i, r) \<in> set (rows t)" and x: "x = (i, if p i r then f r else r)"
      by (auto simp: updateT_def)
    with t mild [OF r] show "case x of (i, r) \<Rightarrow> ok_outbox (updateT p f t) (Some i) r \<and> 0 \<le> ob_attempts r"
      by (auto simp: eq storable_def mild_ok) (auto simp: mild_def)
  qed (use t in \<open>simp add: storable_def\<close>)
  show "list_all (\<lambda>(i, r). ok_outbox t (Some i) (f r)) (select t p)"
    using t mild by (force simp: list_all_iff select_rows storable_def intro: mild_ok)
qed

lemma mild_killed: "0 \<le> ob_attempts r \<Longrightarrow> mild killed_row r"
  by (simp add: mild_def killed_row_def redact_def)

lemma mild_taken: "0 \<le> ob_attempts r \<Longrightarrow> claimable w r \<Longrightarrow> mild (taken_row w) r"
  by (auto simp: mild_def taken_row_def claimable_def)

section \<open>The queue of due messages\<close>

lemma filter_rows_update:
  assumes "\<And>i r. (i, r) \<in> set xs \<Longrightarrow> p i r \<Longrightarrow> \<not> c i (f r)"
  shows "filter (\<lambda>(i, r). c i r) (map (\<lambda>(i, r). (i, if p i r then f r else r)) xs) = filter (\<lambda>(i, r). c i r \<and> \<not> p i r) xs"
  using assms by (induction xs) (auto split: if_splits)

lemma select_update:
  "(\<And>i r. (i, r) \<in> set (rows t) \<Longrightarrow> p i r \<Longrightarrow> \<not> c i (f r)) \<Longrightarrow> select (updateT p f t) c = select t (\<lambda>i r. c i r \<and> \<not> p i r)"
  unfolding select_def updateT_def by (simp add: filter_rows_update)

lemma queue_killed: "claim_queue w (updateT (\<lambda>_. exhausted w) killed_row t) = claim_queue w t"
proof -
  have "select (updateT (\<lambda>_. exhausted w) killed_row t) (\<lambda>_. claimable w) = select t (\<lambda>_ r. claimable w r \<and> \<not> exhausted w r)"
    by (rule select_update) (simp add: not_claimable_killed)
  also have "\<dots> = select t (\<lambda>_. claimable w)"
    unfolding select_def by (rule filter_cong) (auto dest: claimable_not_exhausted)
  finally show ?thesis by (simp add: claim_queue_def)
qed

lemma not_claimable_taken: "staleBefore w \<le> wnow w \<Longrightarrow> \<not> claimable w (taken_row w r)"
  by (auto simp: claimable_def taken_row_def)

lemma queue_taken:
  assumes "staleBefore w \<le> wnow w" and "wf_tbl t" and "claim_queue w t = (i, r) # xs"
  shows "claim_queue w (updateT (\<lambda>j r. j = i \<and> True) (taken_row w) t) = xs"
proof -
  let ?k = "\<lambda>(i, r). (ob_available_at r, i)"
  have "select (updateT (\<lambda>j r. j = i \<and> True) (taken_row w) t) (\<lambda>_. claimable w) = select t (\<lambda>j r. claimable w r \<and> \<not> (j = i \<and> True))"
    by (rule select_update) (simp add: not_claimable_taken assms(1))
  also have "\<dots> = filter (\<lambda>(j, _). j \<noteq> i) (select t (\<lambda>_. claimable w))"
    unfolding select_def filter_filter by (rule filter_cong) auto
  finally have after: "claim_queue w (updateT (\<lambda>j r. j = i \<and> True) (taken_row w) t) = filter (\<lambda>(j, _). j \<noteq> i) (claim_queue w t)"
    by (simp add: claim_queue_def filter_sort)
  have "distinct (map fst (claim_queue w t))"
  proof -
    have "distinct (map fst (select t (\<lambda>_. claimable w)))"
      using assms(2) unfolding select_def wf_tbl_def by (intro distinct_map_filter) auto
    then have "distinct (map fst (claim_queue w t))"
      unfolding claim_queue_def by (simp add: distinct_map inj_on_def)
    then show ?thesis .
  qed
  then have "i \<notin> fst ` set xs" by (simp add: assms(3))
  then have "filter (\<lambda>(j, _). j \<noteq> i) xs = xs" by (intro filter_True) force
  with after show ?thesis by (simp add: assms(3))
qed

definition lease_for :: "int \<times> outbox \<Rightarrow> lease" where
  "lease_for = (\<lambda>(i, r). \<lparr>ls_id = i, ls_topic = ob_topic r, ls_payload = ob_payload r, ls_dedup = ob_dedup r,
     ls_attempts = ob_attempts r + 1, ls_max = ob_max_attempts r\<rparr>)"

lemma claim_takes:
  assumes fence: "fence_ready s" and t: "storable (outbox_messages s)" and time: "staleBefore w \<le> wnow w"
    and q: "claim_queue w (outbox_messages s) = (i, r) # xs"
  shows "\<exists>s'. claim w s = Inr (Some (lease_for (i, r)), s') \<and> fence_ready s' \<and> storable (outbox_messages s') \<and>
    claim_queue w (outbox_messages s') = xs \<and> fetch (outbox_messages s') i = Some (taken_row w r) \<and>
    (\<forall>j x. fetch (outbox_messages s) j = Some x \<longrightarrow> claimable w x \<longrightarrow> j \<noteq> i \<longrightarrow> fetch (outbox_messages s') j = Some x)"
proof -
  let ?t = "outbox_messages s"
  let ?u = "updateT (\<lambda>_. exhausted w) killed_row ?t"
  let ?s1 = "outbox_messages_update (updateT (\<lambda>_. exhausted w) killed_row) s"
  let ?v = "updateT (\<lambda>j r. j = i \<and> True) (taken_row w) ?u"
  have wf: "wf_tbl ?t" using t by (simp add: storable_def)
  have killed: "storable ?u" "list_all (\<lambda>(i, r). ok_outbox ?t (Some i) (killed_row r)) (select ?t (\<lambda>_. exhausted w))"
    by (rule storable_update [OF t]; use t in \<open>force simp: storable_def intro: mild_killed\<close>)+
  have qu: "claim_queue w ?u = (i, r) # xs" by (simp add: queue_killed q)
  then have "(i, r) \<in> set (claim_queue w ?u)" by simp
  then have r: "fetch ?t i = Some r" "claimable w r" using claim_queue_fetch [OF wf] by blast+
  then have u: "fetch ?u i = Some r" by (simp add: fetch_updateT claimable_not_exhausted)
  have own: "q = r" if "(i, q) \<in> set (rows ?u)" for q
    using that u wf by (simp add: fetch_rows wf_updateT flip: fetch_rows)
  have taken: "storable ?v" "list_all (\<lambda>(i, r). ok_outbox ?u (Some i) (taken_row w r)) (select ?u (\<lambda>j r. j = i \<and> True))"
    by (rule storable_update [OF killed(1)]; use r(2) killed(1) own in \<open>force simp: storable_def intro: mild_taken\<close>)+
  have one: "matched ?u (\<lambda>j r. j = i \<and> True) = 1" using matched_one [of ?u i "\<lambda>_. True"] wf u by (simp add: wf_updateT)
  have rows: "killed_row = (\<lambda>r. redact (r\<lparr>ob_status := ''dead'', ob_locked_by := None, ob_locked_at := None,
       ob_last_error := Some ''LEASE_EXHAUSTED''\<rparr>))"
    "taken_row w = (\<lambda>r. r\<lparr>ob_status := ''processing'', ob_locked_by := Some (we_id w), ob_locked_at := Some (wnow w),
       ob_attempts := ob_attempts r + 1\<rparr>)"
    by (simp_all add: killed_row_def taken_row_def fun_eq_iff)
  have queue: "sort_key (\<lambda>(i, r). (ob_available_at r, i)) (select ?u (\<lambda>_. claimable w)) = (i, r) # xs"
    using qu by (simp add: claim_queue_def)
  have run: "claim w s = Inr (Some (lease_for (i, r)), outbox_messages_update (updateT (\<lambda>j r. j = i \<and> True) (taken_row w)) ?s1)"
    unfolding claim_def rows [symmetric] using fence killed(2) taken(2) queue one
    by (simp add: bindC_def requireFence_def queryC_def guardC_def fence_ready_def updateC_def returnC_def lease_for_def
        split: option.splits)
  have "claim_queue w ?v = xs" by (rule queue_taken [OF time _ qu]) (simp add: wf wf_updateT)
  moreover have "fetch ?v j = Some x" if "fetch ?t j = Some x" "claimable w x" "j \<noteq> i" for j x
    using that by (simp add: fetch_updateT claimable_not_exhausted)
  moreover have "fetch ?v i = Some (taken_row w r)" by (subst fetch_updateT) (simp add: u)
  ultimately show ?thesis using run taken(1) fence by (simp add: fence_ready_def)
qed

text \<open>Claims made one after the other take the queue from its head.\<close>

lemma claims_in_order:
  assumes "fence_ready s" and "storable (outbox_messages s)" and "staleBefore w \<le> wnow w"
    and "claim_queue w (outbox_messages s) = ys @ (i, r) # zs"
  shows "\<exists>s'. mapC (\<lambda>_. claim w) (replicate (length ys + 1) ()) s = Inr (map (Some \<circ> lease_for) (ys @ [(i, r)]), s') \<and>
    fetch (outbox_messages s') i = Some (taken_row w r)"
  using assms
proof (induction ys arbitrary: s)
  case Nil
  from claim_takes [OF Nil(1-3)] Nil(4) obtain s' where "claim w s = Inr (Some (lease_for (i, r)), s')"
    and "fetch (outbox_messages s') i = Some (taken_row w r)" by auto
  then show ?case by (simp add: bindC_def returnC_def)
next
  case (Cons y ys)
  obtain j q where y: "y = (j, q)" by (cases y)
  from claim_takes [OF Cons.prems(1-3)] Cons.prems(4) obtain s1 where s1: "claim w s = Inr (Some (lease_for y), s1)"
    and "fence_ready s1" "storable (outbox_messages s1)" "claim_queue w (outbox_messages s1) = ys @ (i, r) # zs"
    by (auto simp: y)
  with Cons.IH [of s1] Cons.prems(3) obtain s' where
    "mapC (\<lambda>_. claim w) (replicate (length ys + 1) ()) s1 = Inr (map (Some \<circ> lease_for) (ys @ [(i, r)]), s')"
    and "fetch (outbox_messages s') i = Some (taken_row w r)" by auto
  with s1 show ?case by (simp add: bindC_def returnC_def)
qed

text \<open>
  C11. No due message waits for ever: while the worker's fence is open, claims do not fail, and a message that is due
  (waiting or with an expired lease, and attempts left) is leased after as many claims as there are due messages
  at most, whatever else is in the outbox.
\<close>

theorem due_message_claimed:
  assumes "fence_ready s" and "storable (outbox_messages s)" and "staleBefore w \<le> wnow w"
    and "fetch (outbox_messages s) i = Some r" and "claimable w r"
  shows "\<exists>n ls s'. n \<le> length (claim_queue w (outbox_messages s)) \<and>
    mapC (\<lambda>_. claim w) (replicate n ()) s = Inr (ls, s') \<and> last ls = Some (lease_for (i, r)) \<and>
    fetch (outbox_messages s') i = Some (taken_row w r)"
proof -
  have "(i, r) \<in> set (claim_queue w (outbox_messages s))"
    using assms(2,4,5) claim_queue_all [of "outbox_messages s" i r w] by (simp add: storable_def queue_killed)
  then obtain ys zs where q: "claim_queue w (outbox_messages s) = ys @ (i, r) # zs" by (auto simp: in_set_conv_decomp)
  from claims_in_order [OF assms(1-3) q] obtain s' where
    "mapC (\<lambda>_. claim w) (replicate (length ys + 1) ()) s = Inr (map (Some \<circ> lease_for) (ys @ [(i, r)]), s')"
    "fetch (outbox_messages s') i = Some (taken_row w r)" by blast
  moreover have "last (map (Some \<circ> lease_for) (ys @ [(i, r)])) = Some (lease_for (i, r))" by simp
  moreover have "length ys + 1 \<le> length (claim_queue w (outbox_messages s))" by (simp add: q)
  ultimately show ?thesis by metis
qed

lemma due_message_claimed_witness:
  "\<exists>n ls s'. mapC (\<lambda>_. claim sample_wenv) (replicate n ()) waiting_db = Inr (ls, s') \<and>
    last ls = Some (lease_for (1, event_message))"
proof -
  have "fence_ready waiting_db" by (simp add: fence_ready_def waiting_db_def writerOwner_def writerGeneration_def)
  moreover have "storable (outbox_messages waiting_db)"
    by (simp add: storable_def waiting_db_def wf_insertT)
      (simp add: insertT_def emptyT_def ok_outbox_def event_message_def int32_def unique_by_def v191_def)
  moreover have "staleBefore sample_wenv \<le> wnow sample_wenv" by code_simp
  moreover have "fetch (outbox_messages waiting_db) 1 = Some event_message"
    by (simp add: waiting_db_def insertT_def emptyT_def fetch_def)
  ultimately show ?thesis using due_message_claimed [OF _ _ _ _ sample_claimable(1)] by blast
qed

end
